(* ===== verification/Prelude.thy ===== *)
theory Prelude
  imports Main "HOL-Library.AList" "HOL-Library.Char_ord" "HOL-Library.List_Lexorder"
begin

text \<open>
  What the components share: the results of fallible code, Python's strings, dictionaries and
  number formatting as far as the sources use them, and the generic interfaces (validators and
  codecs) that several components implement.

  A Python \<open>str\<close> is a \<^typ>\<open>string\<close> whose characters stand for the code points 0 to 255; white space,
  case mapping and digits follow Python's tables on that range. A Python \<open>dict\<close> with string keys is
  an association list in insertion order: \<open>AList.update\<close> overwrites a value in place and appends a new
  key at the end, as \<open>d[k] = v\<close> does.
\<close>

named_theorems py_defs \<open>definitions of the Python run-time functions\<close>

section \<open>Results of fallible code\<close>

text \<open>\<open>Inl\<close> is the raised exception and \<open>Inr\<close> the returned value.\<close>

definition rbind :: "'e + 'a \<Rightarrow> ('a \<Rightarrow> 'e + 'b) \<Rightarrow> 'e + 'b" where
  "rbind r f = (case r of Inl e \<Rightarrow> Inl e | Inr x \<Rightarrow> f x)"

lemma rbind_simps [simp]:
  "rbind (Inl e) f = Inl e"
  "rbind (Inr x) f = f x"
  by (simp_all add: rbind_def)

lemma rbind_eq_Inr_iff [simp]: "rbind r f = Inr y \<longleftrightarrow> (\<exists>x. r = Inr x \<and> f x = Inr y)"
  by (cases r) auto

lemma rbind_eq_Inl_iff: "rbind r f = Inl e \<longleftrightarrow> r = Inl e \<or> (\<exists>x. r = Inr x \<and> f x = Inl e)"
  by (cases r) auto

lemma rbind_cong [fundef_cong]:
  "r = s \<Longrightarrow> (\<And>x. s = Inr x \<Longrightarrow> f x = g x) \<Longrightarrow> rbind r f = rbind s g"
  by (cases s) auto

text \<open>\<open>guardr e b\<close> is \<open>if not b: raise e\<close>.\<close>

definition guardr :: "'e \<Rightarrow> bool \<Rightarrow> 'e + unit" where
  "guardr e b = (if b then Inr () else Inl e)"

lemma guardr_eq_Inr [simp]: "guardr e b = Inr u \<longleftrightarrow> b"
  by (simp add: guardr_def)

lemma guardr_eq_Inl [simp]: "guardr e b = Inl e' \<longleftrightarrow> \<not> b \<and> e' = e"
  by (auto simp: guardr_def)

lemma guardr_simps [simp]: "guardr e True = Inr ()" "guardr e False = Inl e"
  by (simp_all add: guardr_def)

text \<open>A loop whose body may raise: the results in order, or the first exception.\<close>

fun rmap :: "('a \<Rightarrow> 'e + 'b) \<Rightarrow> 'a list \<Rightarrow> 'e + 'b list" where
  "rmap f [] = Inr []"
| "rmap f (x # xs) = rbind (f x) (\<lambda>y. rbind (rmap f xs) (\<lambda>ys. Inr (y # ys)))"

lemma rmap_eq_Inr_iff: "rmap f xs = Inr ys \<longleftrightarrow> list_all2 (\<lambda>x y. f x = Inr y) xs ys"
  by (induction xs arbitrary: ys) (auto simp: list_all2_Cons1)

lemma rmap_length: "rmap f xs = Inr ys \<Longrightarrow> length ys = length xs"
  by (simp add: rmap_eq_Inr_iff list_all2_lengthD)

lemma rmap_Inr_map: "(\<And>x. x \<in> set xs \<Longrightarrow> f x = Inr (g x)) \<Longrightarrow> rmap f xs = Inr (map g xs)"
  by (induction xs) auto

text \<open>A loop that only checks: every element, stopping at the first exception.\<close>

fun rall :: "('a \<Rightarrow> 'e + unit) \<Rightarrow> 'a list \<Rightarrow> 'e + unit" where
  "rall f [] = Inr ()"
| "rall f (x # xs) = rbind (f x) (\<lambda>_. rall f xs)"

lemma rall_eq_Inr_iff [simp]: "rall f xs = Inr u \<longleftrightarrow> (\<forall>x \<in> set xs. f x = Inr ())"
  by (induction xs) auto

definition is_ok :: "'e + 'a \<Rightarrow> bool" where
  "is_ok r = (case r of Inl _ \<Rightarrow> False | Inr _ \<Rightarrow> True)"

lemma is_ok_simps [simp]: "is_ok (Inl e) = False" "is_ok (Inr x) = True"
  by (simp_all add: is_ok_def)

lemma is_ok_iff: "is_ok r \<longleftrightarrow> (\<exists>x. r = Inr x)"
  by (cases r) auto

section \<open>Strings\<close>

definition cp :: "char \<Rightarrow> nat" where
  "cp c = of_char c"

text \<open>\<open>str.isspace\<close> on one character; \<open>\s\<close> of the \<open>re\<close> module is the same set.\<close>

definition py_isspace :: "char \<Rightarrow> bool" where
  "py_isspace c = (let n = cp c in
     (9 \<le> n \<and> n \<le> 13) \<or> (28 \<le> n \<and> n \<le> 32) \<or> n = 133 \<or> n = 160)"

definition py_lower_char :: "char \<Rightarrow> char" where
  "py_lower_char c = (let n = cp c in
     if (65 \<le> n \<and> n \<le> 90) \<or> (192 \<le> n \<and> n \<le> 222 \<and> n \<noteq> 215) then char_of (n + 32) else c)"

definition is_digit :: "char \<Rightarrow> bool" where
  "is_digit c = (48 \<le> cp c \<and> cp c \<le> 57)"

definition is_lower :: "char \<Rightarrow> bool" where
  "is_lower c = (97 \<le> cp c \<and> cp c \<le> 122)"

definition is_upper :: "char \<Rightarrow> bool" where
  "is_upper c = (65 \<le> cp c \<and> cp c \<le> 90)"

definition py_lstrip :: "string \<Rightarrow> string" where
  "py_lstrip s = dropWhile py_isspace s"

definition py_rstrip :: "string \<Rightarrow> string" where
  "py_rstrip s = rev (dropWhile py_isspace (rev s))"

definition py_strip :: "string \<Rightarrow> string" where
  "py_strip s = py_rstrip (py_lstrip s)"

definition py_lower :: "string \<Rightarrow> string" where
  "py_lower s = map py_lower_char s"

text \<open>\<open>s.split(c)\<close> for a one-character separator, \<open>c.join(xs)\<close> and \<open>s.replace(a, b)\<close> for single characters.\<close>

fun py_split :: "char \<Rightarrow> string \<Rightarrow> string list" where
  "py_split c [] = [[]]"
| "py_split c (x # xs) =
     (if x = c then [] # py_split c xs
      else case py_split c xs of [] \<Rightarrow> [[x]] | y # ys \<Rightarrow> (x # y) # ys)"

fun py_join :: "char \<Rightarrow> string list \<Rightarrow> string" where
  "py_join c [] = []"
| "py_join c [x] = x"
| "py_join c (x # y # ys) = x @ c # py_join c (y # ys)"

definition py_replace_char :: "char \<Rightarrow> char \<Rightarrow> string \<Rightarrow> string" where
  "py_replace_char a b s = map (\<lambda>c. if c = a then b else c) s"

lemma py_split_ne [simp]: "py_split c s \<noteq> []"
  by (induction s) (auto split: list.splits)

lemma py_split_no_sep: "c \<notin> set s \<Longrightarrow> py_split c s = [s]"
  by (induction s) auto

lemma py_split_append: "c \<notin> set s \<Longrightarrow> py_split c (s @ c # t) = s # py_split c t"
  by (induction s) (auto split: list.splits)

lemma py_split_join:
  "xs \<noteq> [] \<Longrightarrow> (\<And>x. x \<in> set xs \<Longrightarrow> c \<notin> set x) \<Longrightarrow> py_split c (py_join c xs) = xs"
  by (induction c xs rule: py_join.induct) (auto simp: py_split_no_sep py_split_append)

lemma set_py_join: "set (py_join c xs) \<subseteq> insert c (\<Union> (set ` set xs))"
  by (induction c xs rule: py_join.induct) auto

subsection \<open>White space\<close>

lemma py_strip_id:
  assumes "s \<noteq> []" "\<not> py_isspace (hd s)" "\<not> py_isspace (last s)"
  shows "py_strip s = s"
proof -
  have "dropWhile py_isspace s = s"
    using assms by (cases s) auto
  moreover have "dropWhile py_isspace (rev s) = rev s"
    using assms by (cases "rev s") (auto simp: last_rev[symmetric] hd_rev)
  ultimately show ?thesis
    by (simp add: py_strip_def py_lstrip_def py_rstrip_def)
qed

lemma py_strip_no_space: "(\<And>c. c \<in> set s \<Longrightarrow> \<not> py_isspace c) \<Longrightarrow> py_strip s = s"
proof (cases "s = []")
  case True
  then show ?thesis by (simp add: py_strip_def py_lstrip_def py_rstrip_def)
next
  case False
  assume "\<And>c. c \<in> set s \<Longrightarrow> \<not> py_isspace c"
  with False show ?thesis by (intro py_strip_id) simp_all
qed

lemma dropWhile_hd: "dropWhile P xs \<noteq> [] \<Longrightarrow> \<not> P (hd (dropWhile P xs))"
  by (rule hd_dropWhile)

lemma py_rstrip_last: "py_rstrip s \<noteq> [] \<Longrightarrow> \<not> py_isspace (last (py_rstrip s))"
  by (simp add: py_rstrip_def last_rev hd_dropWhile)

lemma py_rstrip_hd:
  assumes "py_rstrip s \<noteq> []"
  shows "hd (py_rstrip s) = hd s"
proof -
  have "s = py_rstrip s @ rev (takeWhile py_isspace (rev s))"
    unfolding py_rstrip_def
    by (metis rev_append rev_rev_ident takeWhile_dropWhile_id)
  with assms show ?thesis by (metis hd_append2)
qed

lemma py_lstrip_rstrip_ne: "py_rstrip (py_lstrip s) \<noteq> [] \<Longrightarrow> py_lstrip s \<noteq> []"
  by (auto simp: py_rstrip_def)

lemma py_strip_hd_last:
  assumes "py_strip s \<noteq> []"
  shows "\<not> py_isspace (hd (py_strip s))" "\<not> py_isspace (last (py_strip s))"
proof -
  have ne: "py_lstrip s \<noteq> []" using assms py_lstrip_rstrip_ne by (simp add: py_strip_def)
  have "hd (py_strip s) = hd (py_lstrip s)"
    using assms by (simp add: py_strip_def py_rstrip_hd)
  with ne show "\<not> py_isspace (hd (py_strip s))"
    by (simp add: py_lstrip_def hd_dropWhile)
  show "\<not> py_isspace (last (py_strip s))"
    using assms by (simp add: py_strip_def py_rstrip_last)
qed

lemma py_strip_idem [simp]: "py_strip (py_strip s) = py_strip s"
proof (cases "py_strip s = []")
  case True
  then show ?thesis by (simp only: True) (simp add: py_strip_def py_lstrip_def py_rstrip_def)
next
  case False
  then show ?thesis by (simp add: py_strip_id py_strip_hd_last)
qed

lemma set_py_strip: "set (py_strip s) \<subseteq> set s"
  unfolding py_strip_def py_lstrip_def py_rstrip_def
  by (auto dest!: set_dropWhileD)

subsection \<open>Case\<close>

lemma cp_char_of [simp]: "n < 256 \<Longrightarrow> cp (char_of n) = n"
  by (simp add: cp_def)

lemma cp_less [simp]: "cp c < 256"
  unfolding cp_def using of_char_mod_256 [of c] by (metis mod_less_divisor zero_less_numeral)

lemma cp_inj: "cp a = cp b \<longleftrightarrow> a = b"
  by (simp add: cp_def)

lemma cp_lower_char:
  "cp (py_lower_char c) =
     (if (65 \<le> cp c \<and> cp c \<le> 90) \<or> (192 \<le> cp c \<and> cp c \<le> 222 \<and> cp c \<noteq> 215) then cp c + 32 else cp c)"
  by (simp add: py_lower_char_def Let_def)

lemma py_lower_char_idem [simp]: "py_lower_char (py_lower_char c) = py_lower_char c"
  using cp_lower_char [of c] cp_lower_char [of "py_lower_char c"]
  by (auto simp: cp_inj [symmetric] split: if_splits)

lemma py_lower_idem [simp]: "py_lower (py_lower s) = py_lower s"
  by (simp add: py_lower_def)

lemma py_isspace_lower [simp]: "py_isspace (py_lower_char c) = py_isspace c"
  by (auto simp: py_isspace_def cp_lower_char Let_def)

lemma py_lower_strip: "py_lower (py_strip s) = py_strip (py_lower s)"
proof -
  have dw: "dropWhile py_isspace (map py_lower_char t) = map py_lower_char (dropWhile py_isspace t)"
    for t
    by (simp add: dropWhile_map o_def)
  show ?thesis
    by (simp add: py_lower_def py_strip_def py_lstrip_def py_rstrip_def dw rev_map)
qed

lemma py_lower_char_id: "is_lower c \<or> is_digit c \<or> c \<in> {CHR ''_'', CHR ''-''} \<Longrightarrow> py_lower_char c = c"
  by (auto simp: py_lower_char_def is_lower_def is_digit_def Let_def cp_def)

lemma py_lower_id:
  "(\<And>c. c \<in> set s \<Longrightarrow> is_lower c \<or> is_digit c \<or> c \<in> {CHR ''_'', CHR ''-''}) \<Longrightarrow> py_lower s = s"
  unfolding py_lower_def by (rule map_idI) (rule py_lower_char_id)

lemma not_space_word:
  "is_lower c \<or> is_digit c \<or> is_upper c \<or> c \<in> {CHR ''_'', CHR ''-'', CHR '':'', CHR '',''} \<Longrightarrow> \<not> py_isspace c"
  by (auto simp: py_isspace_def is_lower_def is_digit_def is_upper_def cp_def Let_def)


section \<open>Numbers\<close>

definition digit_char :: "nat \<Rightarrow> char" where
  "digit_char n = char_of (48 + n)"

fun nat_str :: "nat \<Rightarrow> string" where
  "nat_str n = (if n < 10 then [digit_char n] else nat_str (n div 10) @ [digit_char (n mod 10)])"

declare nat_str.simps [simp del]

text \<open>\<open>str(i)\<close> and \<open>str(b)\<close>.\<close>

definition int_str :: "int \<Rightarrow> string" where
  "int_str i = (if i < 0 then CHR ''-'' # nat_str (nat (- i)) else nat_str (nat i))"

definition bool_str :: "bool \<Rightarrow> string" where
  "bool_str b = (if b then ''True'' else ''False'')"

definition digits_val :: "string \<Rightarrow> nat" where
  "digits_val s = foldl (\<lambda>a c. a * 10 + (cp c - 48)) 0 s"

lemma digits_val_snoc: "digits_val (s @ [c]) = digits_val s * 10 + (cp c - 48)"
  by (simp add: digits_val_def)

lemma is_digit_char [simp]: "n < 10 \<Longrightarrow> is_digit (digit_char n)"
  by (simp add: is_digit_def digit_char_def)

lemma cp_digit_char [simp]: "n < 10 \<Longrightarrow> cp (digit_char n) = 48 + n"
  by (simp add: digit_char_def)

lemma nat_str_ne [simp]: "nat_str n \<noteq> []"
  by (subst nat_str.simps) simp

lemma nat_str_digits: "c \<in> set (nat_str n) \<Longrightarrow> is_digit c"
proof (induction n rule: nat_str.induct)
  case (1 n)
  then show ?case by (subst (asm) (2) nat_str.simps) (auto split: if_splits)
qed

lemma digits_val_nat_str [simp]: "digits_val (nat_str n) = n"
proof (induction n rule: nat_str.induct)
  case (1 n)
  show ?case
  proof (cases "n < 10")
    case True
    then show ?thesis by (subst nat_str.simps) (simp add: digits_val_def)
  next
    case False
    with 1 show ?thesis by (subst nat_str.simps) (simp add: digits_val_snoc)
  qed
qed

lemma int_str_nonneg: "0 \<le> i \<Longrightarrow> int_str i = nat_str (nat i)"
  by (simp add: int_str_def)

text \<open>
  \<open>int(s, base)\<close> on a string. White space is removed as the C implementation does it (only ASCII
  white space in an ASCII string), then a sign, an optional radix prefix, and digits that single
  underscores may separate. With base 0 the prefix selects the base, and a decimal literal other
  than zero has no leading zero. Decimal text of more than 4300 digits is refused (the interpreter's
  conversion limit).
\<close>

definition int_space :: "string \<Rightarrow> char \<Rightarrow> bool" where
  "int_space s c = (if \<forall>d \<in> set s. cp d < 128
     then (9 \<le> cp c \<and> cp c \<le> 13) \<or> cp c = 32 else py_isspace c)"

definition int_strip :: "string \<Rightarrow> string" where
  "int_strip s = rev (dropWhile (int_space s) (rev (dropWhile (int_space s) s)))"

definition digit_val :: "char \<Rightarrow> nat" where
  "digit_val c = (if is_digit c then cp c - 48
     else if is_lower c then cp c - 87
     else if is_upper c then cp c - 55 else 99)"

fun ungroup :: "(char \<Rightarrow> bool) \<Rightarrow> string \<Rightarrow> string option" where
  "ungroup p [] = None"
| "ungroup p [c] = (if p c then Some [c] else None)"
| "ungroup p (c # d # r) = (if \<not> p c then None
     else if d = CHR ''_'' then map_option ((#) c) (ungroup p r)
     else map_option ((#) c) (ungroup p (d # r)))"

definition based_val :: "nat \<Rightarrow> string \<Rightarrow> nat" where
  "based_val b s = foldl (\<lambda>a c. a * b + digit_val c) 0 s"

definition radix_of :: "string \<Rightarrow> nat" where
  "radix_of s = (case s of
      z # x # _ \<Rightarrow> if z \<noteq> CHR ''0'' then 10
        else if x \<in> {CHR ''x'', CHR ''X''} then 16
        else if x \<in> {CHR ''o'', CHR ''O''} then 8
        else if x \<in> {CHR ''b'', CHR ''B''} then 2 else 10
    | _ \<Rightarrow> 10)"

definition unprefix :: "nat \<Rightarrow> string \<Rightarrow> string" where
  "unprefix b s = (if radix_of s = b \<and> b \<noteq> 10
     then (case drop 2 s of CHR ''_'' # r \<Rightarrow> r | r \<Rightarrow> r) else s)"

definition int_body :: "nat \<Rightarrow> string \<Rightarrow> nat option" where
  "int_body base s =
     (let b = (if base = 0 then radix_of s else base)
      in case ungroup (\<lambda>c. digit_val c < b) (unprefix b s) of
           None \<Rightarrow> None
         | Some ds \<Rightarrow>
             if b = 10 \<and> length ds > 4300 then None
             else if base = 0 \<and> b = 10 \<and> hd ds = CHR ''0'' \<and> based_val 10 ds \<noteq> 0 then None
             else Some (based_val b ds))"

definition py_int :: "nat \<Rightarrow> string \<Rightarrow> int option" where
  "py_int base s = (case int_strip s of
      CHR ''-'' # r \<Rightarrow> map_option (\<lambda>n. - int n) (int_body base r)
    | CHR ''+'' # r \<Rightarrow> map_option int (int_body base r)
    | r \<Rightarrow> map_option int (int_body base r))"

text \<open>
  \<open>round(n / d)\<close> for \<open>d > 0\<close>: to the nearest integer, a tie to the even one. The sources compute the
  quotient in double precision; where \<open>d\<close> is below \<open>2^20\<close> and the quotient below \<open>2^10\<close>, a tie is
  represented exactly and any other value is at least \<open>2^-21\<close> away from a tie, far more than the
  error of the division, so the integer is the same.
\<close>

definition round_half_even :: "int \<Rightarrow> int \<Rightarrow> int" where
  "round_half_even n d =
     (let q = n div d; r = n mod d
      in if 2 * r < d then q else if 2 * r > d then q + 1 else if even q then q else q + 1)"

lemma round_half_even_ge: "0 < d \<Longrightarrow> a * d \<le> n \<Longrightarrow> a \<le> round_half_even n d"
proof -
  assume "0 < d" "a * d \<le> n"
  then have "a \<le> n div d" using zdiv_mono1 [of "a * d" n d] by simp
  then show ?thesis by (auto simp: round_half_even_def Let_def)
qed

lemma int_div_less: "0 < d \<Longrightarrow> n < b * (d :: int) \<Longrightarrow> n div d < b"
  by (metis linorder_not_le nonzero_mult_div_cancel_right order_less_irrefl
      order_less_le_trans zdiv_mono1 mult_div_mod_eq pos_mod_sign le_add_same_cancel1
      mult.commute mult_right_mono order_less_imp_le)

lemma round_half_even_le:
  assumes "0 < d" "n \<le> b * d"
  shows "round_half_even n d \<le> b"
proof (cases "n mod d = 0")
  case True
  have "n div d \<le> b" using assms zdiv_mono1 [of n "b * d" d] by simp
  with True assms show ?thesis by (simp add: round_half_even_def Let_def)
next
  case False
  have "n < b * d"
  proof (rule ccontr)
    assume "\<not> n < b * d"
    with assms have "n = b * d" by simp
    with False show False by simp
  qed
  then have "n div d < b" using assms(1) by (rule int_div_less [rotated])
  then show ?thesis by (auto simp: round_half_even_def Let_def)
qed

lemma round_half_even_exact [simp]: "0 < d \<Longrightarrow> round_half_even (a * d) d = a"
  by (simp add: round_half_even_def)

lemma round_half_even_mono:
  assumes "0 < d" "m \<le> n"
  shows "round_half_even m d \<le> round_half_even n d"
proof (cases "m div d = n div d")
  case True
  have "m mod d = m - d * (m div d)" "n mod d = n - d * (n div d)"
    by (simp_all add: minus_mult_div_eq_mod)
  with True assms have "m mod d \<le> n mod d" by simp
  with True show ?thesis by (auto simp: round_half_even_def Let_def)
next
  case False
  with assms have "m div d + 1 \<le> n div d" using zdiv_mono1 [of m n d] by simp
  then show ?thesis by (auto simp: round_half_even_def Let_def)
qed

section \<open>Dictionaries\<close>

type_synonym 'v dict = "(string \<times> 'v) list"

definition dict_ok :: "'v dict \<Rightarrow> bool" where
  "dict_ok d = distinct (map fst d)"

text \<open>\<open>{**a, **b}\<close>, \<open>{k: v for k, v in d.items() if k != x}\<close>, \<open>dict.fromkeys(xs)\<close> and \<open>a == b\<close>
  (which ignores the order of the keys).\<close>

definition dict_merge :: "'v dict \<Rightarrow> 'v dict \<Rightarrow> 'v dict" where
  "dict_merge a b = foldl (\<lambda>d (k, v). AList.update k v d) a b"

definition dict_without :: "string \<Rightarrow> 'v dict \<Rightarrow> 'v dict" where
  "dict_without x d = filter (\<lambda>(k, v). k \<noteq> x) d"

definition fromkeys :: "'k list \<Rightarrow> 'k list" where
  "fromkeys xs = rev (remdups (rev xs))"

definition dict_eq :: "('v \<Rightarrow> 'v \<Rightarrow> bool) \<Rightarrow> 'v dict \<Rightarrow> 'v dict \<Rightarrow> bool" where
  "dict_eq eq a b = (length a = length b \<and>
     list_all (\<lambda>(k, v). case map_of b k of None \<Rightarrow> False | Some w \<Rightarrow> eq v w) a)"

definition dget :: "'v dict \<Rightarrow> string \<Rightarrow> 'v \<Rightarrow> 'v" where
  "dget d k v = (case map_of d k of None \<Rightarrow> v | Some w \<Rightarrow> w)"

lemma map_of_update [simp]:
  "map_of (AList.update k v d) k' = (if k' = k then Some v else map_of d k')"
  by (simp add: update_conv')

lemma dict_ok_Nil [simp]: "dict_ok []"
  by (simp add: dict_ok_def)

lemma dict_ok_update [simp]: "dict_ok d \<Longrightarrow> dict_ok (AList.update k v d)"
  by (simp add: dict_ok_def distinct_update)

lemma dict_merge_Nil [simp]: "dict_merge a [] = a"
  by (simp add: dict_merge_def)

lemma dict_merge_Cons [simp]: "dict_merge a ((k, v) # b) = dict_merge (AList.update k v a) b"
  by (simp add: dict_merge_def)

lemma dict_ok_merge [simp]: "dict_ok a \<Longrightarrow> dict_ok (dict_merge a b)"
  by (induction b arbitrary: a) auto

lemma map_of_merge: "dict_ok b \<Longrightarrow> map_of (dict_merge a b) k = (map_of a ++ map_of b) k"
proof (induction b arbitrary: a)
  case (Cons kv b)
  obtain k' v where kv: "kv = (k', v)" by (cases kv)
  with Cons.prems have "dict_ok b" "map_of b k' = None"
    by (auto simp: dict_ok_def map_of_eq_None_iff)
  with Cons.IH [of "AList.update k' v a"] kv show ?case
    by (auto simp: map_add_def split: option.splits)
qed simp

lemma map_of_without [simp]:
  "map_of (dict_without x d) k = (if k = x then None else map_of d k)"
  unfolding dict_without_def by (induction d) auto

lemma dict_ok_without [simp]: "dict_ok d \<Longrightarrow> dict_ok (dict_without x d)"
  unfolding dict_ok_def dict_without_def by (induction d) auto

lemma set_fromkeys [simp]: "set (fromkeys xs) = set xs"
  by (simp add: fromkeys_def)

lemma distinct_fromkeys [simp]: "distinct (fromkeys xs)"
  by (simp add: fromkeys_def)

lemma dict_eq_refl: "dict_ok d \<Longrightarrow> (\<And>v. eq v v) \<Longrightarrow> dict_eq eq d d"
  unfolding dict_eq_def list_all_iff dict_ok_def by (auto simp: map_of_is_SomeI)

lemma dict_eq_lookup:
  assumes "dict_ok a" "dict_ok b" "dict_eq (=) a b"
  shows "map_of a = map_of b"
proof -
  have sub: "map_of a \<subseteq>\<^sub>m map_of b"
    using assms by (auto simp: map_le_def dict_eq_def list_all_iff dom_map_of_conv_image_fst
        dict_ok_def split: option.splits)
  have card: "card (dom (map_of d)) = length d" if "dict_ok d" for d :: "'a dict"
    using that distinct_card [of "map fst d"] by (simp add: dom_map_of_conv_image_fst dict_ok_def)
  have "dom (map_of a) = dom (map_of b)"
    using card [OF assms(1)] card [OF assms(2)] assms(3) map_le_implies_dom_le [OF sub]
    by (intro card_subset_eq) (auto simp: finite_dom_map_of dict_eq_def)
  with sub show ?thesis by (metis map_le_antisym map_le_def)
qed

section \<open>Interfaces\<close>

text \<open>
  A \<^emph>\<open>validator\<close> returns a value only if the value is good. What holds of one value holds of every
  value of a loop over the validator.
\<close>

locale validator =
  fixes check :: "'a \<Rightarrow> 'e + 'b"
    and good :: "'b \<Rightarrow> bool"
  assumes sound: "check x = Inr y \<Longrightarrow> good y"
begin

lemma rmap_sound: "rmap check xs = Inr ys \<Longrightarrow> \<forall>y \<in> set ys. good y"
  by (induction xs arbitrary: ys) (auto dest: sound)

lemma bad_rejected: "\<not> good y \<Longrightarrow> check x \<noteq> Inr y"
  using sound by blast

end

text \<open>
  A \<^emph>\<open>normalising\<close> validator moreover leaves its own results alone, so that a stored result passes
  the same check when it is read back.
\<close>

locale normaliser = validator check good
  for check :: "'a \<Rightarrow> 'e + 'a" and good :: "'a \<Rightarrow> bool" +
  assumes stable: "good y \<Longrightarrow> check y = Inr y"
begin

lemma idem: "check x = Inr y \<Longrightarrow> check y = Inr y"
  by (simp add: sound stable)

lemma good_iff: "good y \<longleftrightarrow> check y = Inr y"
  using sound stable by blast

end

text \<open>A \<^emph>\<open>codec\<close> reads back what it wrote.\<close>

locale codec =
  fixes enc :: "'a \<Rightarrow> 'b"
    and dec :: "'b \<Rightarrow> 'e + 'a"
    and valid :: "'a \<Rightarrow> bool"
  assumes roundtrip: "valid x \<Longrightarrow> dec (enc x) = Inr x"
begin

lemma enc_inj: "valid x \<Longrightarrow> valid y \<Longrightarrow> enc x = enc y \<longleftrightarrow> x = y"
  by (metis roundtrip sum.inject(2))

lemma rmap_roundtrip: "(\<And>x. x \<in> set xs \<Longrightarrow> valid x) \<Longrightarrow> rmap dec (map enc xs) = Inr xs"
  by (induction xs) (auto simp: roundtrip)

end

text \<open>A codec whose encodings do not contain a separator extends to separated lists.\<close>

locale sep_codec = codec enc dec valid
  for enc :: "'a \<Rightarrow> string" and dec :: "string \<Rightarrow> 'e + 'a" and valid :: "'a \<Rightarrow> bool" +
  fixes sep :: char
  assumes no_sep: "valid x \<Longrightarrow> sep \<notin> set (enc x)"
begin

lemma split_join:
  assumes "xs \<noteq> []" "\<And>x. x \<in> set xs \<Longrightarrow> valid x"
  shows "py_split sep (py_join sep (map enc xs)) = map enc xs"
  using assms no_sep by (intro py_split_join) auto

lemma list_roundtrip:
  assumes "xs \<noteq> []" "\<And>x. x \<in> set xs \<Longrightarrow> valid x"
  shows "rmap dec (py_split sep (py_join sep (map enc xs))) = Inr xs"
  using assms by (simp add: split_join rmap_roundtrip)

end

end
