(* ===== verification/Domain.thy ===== *)
theory Domain
  imports Complex_Main "HOL-Library.Word" Prelude
begin

text \<open>
  The shared vocabulary: \<^verbatim>\<open>honor_control/core/errors.py\<close> (error and status enumerations, exceptions),
  \<^verbatim>\<open>honor_control/core/models.py\<close> (the immutable data transfer objects) and the version constants of
  \<^verbatim>\<open>honor_control/contract.py\<close>. A \<open>StrEnum\<close> is a datatype with its value function (\<open>\<dots>_str\<close>) and its
  look-up by value (\<open>\<dots>_of_str\<close>, \<open>Inl\<close> for the \<open>ValueError\<close>); each pair is an instance of the codec
  interface. A frozen dataclass is a record; its field names carry a prefix because record fields
  are global. \<open>datetime\<close> is the number of microseconds since the epoch.
\<close>

section \<open>Python values\<close>

text \<open>Values of type \<open>Any\<close>: what TOML documents, result details and D-Bus dictionaries hold.
  A finite float is its exact value.\<close>

datatype pv =
    PNone
  | PBool bool
  | PInt int
  | PFloat rat
  | PNonFinite string
  | PStr string
  | PList "pv list"
  | PTuple "pv list"
  | PDict "(string \<times> pv) list"

text \<open>Python's \<open>==\<close>: a boolean equals the integer 0 or 1, numbers compare by value, dictionaries
  regardless of order, and a list never equals a tuple. (\<open>nan\<close> is unequal to itself.)\<close>

fun py_eq :: "pv \<Rightarrow> pv \<Rightarrow> bool"
  and py_eq_list :: "pv list \<Rightarrow> pv list \<Rightarrow> bool"
  and py_sub_dict :: "(string \<times> pv) list \<Rightarrow> (string \<times> pv) list \<Rightarrow> bool" where
  "py_eq PNone y = (y = PNone)"
| "py_eq (PBool b) y = (case y of PBool c \<Rightarrow> b = c | PInt i \<Rightarrow> i = of_bool b
     | PFloat q \<Rightarrow> q = of_bool b | _ \<Rightarrow> False)"
| "py_eq (PInt i) y = (case y of PBool c \<Rightarrow> i = of_bool c | PInt j \<Rightarrow> i = j
     | PFloat q \<Rightarrow> q = of_int i | _ \<Rightarrow> False)"
| "py_eq (PFloat p) y = (case y of PBool c \<Rightarrow> p = of_bool c | PInt j \<Rightarrow> p = of_int j
     | PFloat q \<Rightarrow> p = q | _ \<Rightarrow> False)"
| "py_eq (PNonFinite s) y = (y = PNonFinite s \<and> s \<noteq> ''nan'')"
| "py_eq (PStr s) y = (y = PStr s)"
| "py_eq (PList xs) y = (case y of PList ys \<Rightarrow> py_eq_list xs ys | _ \<Rightarrow> False)"
| "py_eq (PTuple xs) y = (case y of PTuple ys \<Rightarrow> py_eq_list xs ys | _ \<Rightarrow> False)"
| "py_eq (PDict d) y = (case y of PDict e \<Rightarrow> length d = length e \<and> py_sub_dict d e | _ \<Rightarrow> False)"
| "py_eq_list [] ys = (ys = [])"
| "py_eq_list (x # xs) ys = (case ys of [] \<Rightarrow> False | z # zs \<Rightarrow> py_eq x z \<and> py_eq_list xs zs)"
| "py_sub_dict [] e = True"
| "py_sub_dict ((k, v) # d) e =
     ((case map_of e k of None \<Rightarrow> False | Some w \<Rightarrow> py_eq v w) \<and> py_sub_dict d e)"

text \<open>\<open>bool(v)\<close>.\<close>

fun py_truthy :: "pv \<Rightarrow> bool" where
  "py_truthy PNone = False"
| "py_truthy (PBool b) = b"
| "py_truthy (PInt i) = (i \<noteq> 0)"
| "py_truthy (PFloat q) = (q \<noteq> 0)"
| "py_truthy (PNonFinite s) = True"
| "py_truthy (PStr s) = (s \<noteq> [])"
| "py_truthy (PList xs) = (xs \<noteq> [])"
| "py_truthy (PTuple xs) = (xs \<noteq> [])"
| "py_truthy (PDict d) = (d \<noteq> [])"

text \<open>\<open>d.get(k)\<close> on a dictionary of values.\<close>

definition pv_get :: "pv dict \<Rightarrow> string \<Rightarrow> pv" where
  "pv_get d k = (case map_of d k of None \<Rightarrow> PNone | Some v \<Rightarrow> v)"

definition opt_int :: "int option \<Rightarrow> pv" where
  "opt_int x = (case x of None \<Rightarrow> PNone | Some i \<Rightarrow> PInt i)"

definition opt_bool :: "bool option \<Rightarrow> pv" where
  "opt_bool x = (case x of None \<Rightarrow> PNone | Some b \<Rightarrow> PBool b)"

section \<open>Errors and states\<close>

datatype domain_error =
    DE_NOT_AUTHORIZED | DE_INVALID_ARGUMENT | DE_UNSUPPORTED | DE_UNAVAILABLE
  | DE_BUSY | DE_TIMEOUT | DE_DEPENDENCY | DE_INTERNAL

datatype operation_status = OS_SUCCESS | OS_PARTIAL | OS_REJECTED | OS_UNAVAILABLE | OS_FAILED

datatype capability_status =
  CS_SUPPORTED | CS_UNAVAILABLE | CS_DISABLED | CS_UNSUPPORTED | CS_EXPERIMENTAL

datatype controller_state = CT_STOPPED | CT_STARTING | CT_RUNNING | CT_STOPPING | CT_FAILED

datatype transport_error =
    TE_SERVICE_UNAVAILABLE | TE_TIMEOUT | TE_BUSY | TE_NOT_AUTHORIZED | TE_INVALID_REQUEST
  | TE_FEATURE_UNAVAILABLE | TE_API_MISMATCH | TE_INTERNAL

fun domain_error_str :: "domain_error \<Rightarrow> string" where
  "domain_error_str DE_NOT_AUTHORIZED = ''not_authorized''"
| "domain_error_str DE_INVALID_ARGUMENT = ''invalid_argument''"
| "domain_error_str DE_UNSUPPORTED = ''unsupported''"
| "domain_error_str DE_UNAVAILABLE = ''unavailable''"
| "domain_error_str DE_BUSY = ''busy''"
| "domain_error_str DE_TIMEOUT = ''timeout''"
| "domain_error_str DE_DEPENDENCY = ''dependency''"
| "domain_error_str DE_INTERNAL = ''internal''"

fun operation_status_str :: "operation_status \<Rightarrow> string" where
  "operation_status_str OS_SUCCESS = ''success''"
| "operation_status_str OS_PARTIAL = ''partial''"
| "operation_status_str OS_REJECTED = ''rejected''"
| "operation_status_str OS_UNAVAILABLE = ''unavailable''"
| "operation_status_str OS_FAILED = ''failed''"

fun capability_status_str :: "capability_status \<Rightarrow> string" where
  "capability_status_str CS_SUPPORTED = ''supported''"
| "capability_status_str CS_UNAVAILABLE = ''unavailable''"
| "capability_status_str CS_DISABLED = ''disabled''"
| "capability_status_str CS_UNSUPPORTED = ''unsupported''"
| "capability_status_str CS_EXPERIMENTAL = ''experimental''"

fun controller_state_str :: "controller_state \<Rightarrow> string" where
  "controller_state_str CT_STOPPED = ''stopped''"
| "controller_state_str CT_STARTING = ''starting''"
| "controller_state_str CT_RUNNING = ''running''"
| "controller_state_str CT_STOPPING = ''stopping''"
| "controller_state_str CT_FAILED = ''failed''"

fun transport_error_str :: "transport_error \<Rightarrow> string" where
  "transport_error_str TE_SERVICE_UNAVAILABLE = ''service_unavailable''"
| "transport_error_str TE_TIMEOUT = ''timeout''"
| "transport_error_str TE_BUSY = ''busy''"
| "transport_error_str TE_NOT_AUTHORIZED = ''not_authorized''"
| "transport_error_str TE_INVALID_REQUEST = ''invalid_request''"
| "transport_error_str TE_FEATURE_UNAVAILABLE = ''feature_unavailable''"
| "transport_error_str TE_API_MISMATCH = ''api_mismatch''"
| "transport_error_str TE_INTERNAL = ''internal''"

text \<open>\<open>Enum(value)\<close>: the member with that value, or \<open>ValueError\<close>.\<close>

definition enum_of_str :: "('m \<Rightarrow> string) \<Rightarrow> 'm list \<Rightarrow> string \<Rightarrow> unit + 'm" where
  "enum_of_str val ms s = (case find (\<lambda>m. val m = s) ms of None \<Rightarrow> Inl () | Some m \<Rightarrow> Inr m)"

lemma enum_of_str_value: "enum_of_str val ms s = Inr m \<Longrightarrow> val m = s"
  by (auto simp: enum_of_str_def find_Some_iff split: option.splits)

definition operation_status_of_str :: "string \<Rightarrow> unit + operation_status" where
  "operation_status_of_str = enum_of_str operation_status_str
     [OS_SUCCESS, OS_PARTIAL, OS_REJECTED, OS_UNAVAILABLE, OS_FAILED]"

definition capability_status_of_str :: "string \<Rightarrow> unit + capability_status" where
  "capability_status_of_str = enum_of_str capability_status_str
     [CS_SUPPORTED, CS_UNAVAILABLE, CS_DISABLED, CS_UNSUPPORTED, CS_EXPERIMENTAL]"

interpretation operation_status: codec operation_status_str operation_status_of_str "\<lambda>_. True"
  by unfold_locales (case_tac x; simp add: operation_status_of_str_def enum_of_str_def)

interpretation capability_status: codec capability_status_str capability_status_of_str "\<lambda>_. True"
  by unfold_locales (case_tac x; simp add: capability_status_of_str_def enum_of_str_def)

text \<open>\<open>error_name_for\<close>: the D-Bus error name of a domain error.\<close>

definition ERROR_NAMESPACE :: string where
  "ERROR_NAMESPACE = ''org.honorlinux.Control1.Error''"

fun error_name_for :: "domain_error \<Rightarrow> string" where
  "error_name_for DE_NOT_AUTHORIZED = ''org.honorlinux.Control1.Error.NotAuthorized''"
| "error_name_for DE_INVALID_ARGUMENT = ''org.honorlinux.Control1.Error.InvalidArgument''"
| "error_name_for DE_UNSUPPORTED = ''org.honorlinux.Control1.Error.Unsupported''"
| "error_name_for DE_UNAVAILABLE = ''org.honorlinux.Control1.Error.Unavailable''"
| "error_name_for DE_BUSY = ''org.honorlinux.Control1.Error.Busy''"
| "error_name_for DE_TIMEOUT = ''org.honorlinux.Control1.Error.Timeout''"
| "error_name_for DE_DEPENDENCY = ''org.honorlinux.Control1.Error.Dependency''"
| "error_name_for DE_INTERNAL = ''org.honorlinux.Control1.Error.Internal''"

definition ALL_ERROR_NAMES :: "string list" where
  "ALL_ERROR_NAMES = map ((@) ERROR_NAMESPACE)
     [''.NotAuthorized'', ''.InvalidArgument'', ''.Unsupported'', ''.Unavailable'',
      ''.Busy'', ''.Timeout'', ''.Dependency'', ''.Internal'']"

section \<open>Touchpad settings\<close>

datatype touchpad_setting =
    SENSITIVITY | VIBRATION_INTENSITY | PRESS_TEXT | PRESS_PICTURE | THREE_FINGER_DRAG
  | MOUSE_LIKE_MODE | EDGE_BRIGHTNESS | EDGE_VOLUME | EDGE_CONTROL_CENTER
  | EDGE_CLOSE_OR_MINIMIZE | KNUCKLE_SCREENSHOT | KNUCKLE_SCREEN_RECORD

type_synonym byte = "8 word"

text \<open>\<open>TouchpadApplyResult\<close>; a report is the list of its bytes.\<close>

record touchpad_apply_result =
  tar_setting :: touchpad_setting
  tar_value :: int
  tar_device_path :: string
  tar_reports :: "byte list list"
  tar_reports_applied :: nat
  tar_clock_synchronized :: bool

section \<open>Exceptions\<close>

text \<open>
  The exceptions the modelled code raises, with their messages. Messages that interpolate \<open>repr\<close> of a
  value keep the fixed part only, and a character outside the modelled range is written in ASCII.
  \<open>CommandTimeoutError\<close> carries whether a recovery command was queued; \<open>TouchpadFirmwareError\<close> its
  device, the reports applied, their total and the completed settings. \<open>OtherError\<close> is any other
  exception of the interpreter, the operating system or a library, with its text.
\<close>

datatype exn =
    DomainException domain_error string
  | CommandTimeoutError string bool
  | CancelledError
  | ValueError string
  | TypeError string
  | KeyError string
  | OSError string
  | PermissionError string
  | TimeoutError string
  | RuntimeError string
  | TouchpadFirmwareError string string nat nat "touchpad_apply_result list"
  | OtherError string

text \<open>\<open>str(exc)\<close>. \<open>DomainException\<close> replaces an empty message by its code.\<close>

fun exn_str :: "exn \<Rightarrow> string" where
  "exn_str (DomainException c m) = (if m = [] then domain_error_str c else m)"
| "exn_str (CommandTimeoutError m r) = m"
| "exn_str CancelledError = []"
| "exn_str (ValueError m) = m"
| "exn_str (TypeError m) = m"
| "exn_str (KeyError m) = m"
| "exn_str (OSError m) = m"
| "exn_str (PermissionError m) = m"
| "exn_str (TimeoutError m) = m"
| "exn_str (RuntimeError m) = m"
| "exn_str (TouchpadFirmwareError m p a t c) = m"
| "exn_str (OtherError m) = m"

abbreviation invalid :: "string \<Rightarrow> exn + 'a" where
  "invalid m \<equiv> Inl (DomainException DE_INVALID_ARGUMENT m)"

text \<open>\<open>except Exception\<close>: \<open>CancelledError\<close> derives from \<open>BaseException\<close> and is not caught.\<close>

definition is_exception :: "exn \<Rightarrow> bool" where
  "is_exception e = (e \<noteq> CancelledError)"

section \<open>Enumerations of the models\<close>

datatype charge_mode = CM_OFF | CM_HOME | CM_TRAVEL | CM_STORAGE | CM_CUSTOM

datatype fan_mode = FM_STOCK | FM_CURVE | FM_MANUAL_OVERRIDE | FM_FAILED_SAFE

datatype battery_status_kind =
  BS_CHARGING | BS_DISCHARGING | BS_FULL | BS_NOT_CHARGING | BS_UNKNOWN

datatype diagnostic_severity = DS_PASS | DS_WARNING | DS_SKIPPED | DS_FAIL

fun charge_mode_str :: "charge_mode \<Rightarrow> string" where
  "charge_mode_str CM_OFF = ''off''"
| "charge_mode_str CM_HOME = ''home''"
| "charge_mode_str CM_TRAVEL = ''travel''"
| "charge_mode_str CM_STORAGE = ''storage''"
| "charge_mode_str CM_CUSTOM = ''custom''"

definition charge_mode_of_str :: "string \<Rightarrow> unit + charge_mode" where
  "charge_mode_of_str = enum_of_str charge_mode_str
     [CM_OFF, CM_HOME, CM_TRAVEL, CM_STORAGE, CM_CUSTOM]"

fun fan_mode_str :: "fan_mode \<Rightarrow> string" where
  "fan_mode_str FM_STOCK = ''stock''"
| "fan_mode_str FM_CURVE = ''curve''"
| "fan_mode_str FM_MANUAL_OVERRIDE = ''manual_override''"
| "fan_mode_str FM_FAILED_SAFE = ''failed_safe''"

definition fan_mode_of_str :: "string \<Rightarrow> unit + fan_mode" where
  "fan_mode_of_str = enum_of_str fan_mode_str
     [FM_STOCK, FM_CURVE, FM_MANUAL_OVERRIDE, FM_FAILED_SAFE]"

fun battery_status_str :: "battery_status_kind \<Rightarrow> string" where
  "battery_status_str BS_CHARGING = ''charging''"
| "battery_status_str BS_DISCHARGING = ''discharging''"
| "battery_status_str BS_FULL = ''full''"
| "battery_status_str BS_NOT_CHARGING = ''not_charging''"
| "battery_status_str BS_UNKNOWN = ''unknown''"

definition battery_status_of_str :: "string \<Rightarrow> unit + battery_status_kind" where
  "battery_status_of_str = enum_of_str battery_status_str
     [BS_CHARGING, BS_DISCHARGING, BS_FULL, BS_NOT_CHARGING, BS_UNKNOWN]"

fun severity_str :: "diagnostic_severity \<Rightarrow> string" where
  "severity_str DS_PASS = ''pass''"
| "severity_str DS_WARNING = ''warning''"
| "severity_str DS_SKIPPED = ''skipped''"
| "severity_str DS_FAIL = ''fail''"

interpretation charge_mode: codec charge_mode_str charge_mode_of_str "\<lambda>_. True"
  by unfold_locales (case_tac x; simp add: charge_mode_of_str_def enum_of_str_def)

interpretation fan_mode: codec fan_mode_str fan_mode_of_str "\<lambda>_. True"
  by unfold_locales (case_tac x; simp add: fan_mode_of_str_def enum_of_str_def)

interpretation battery_status: codec battery_status_str battery_status_of_str "\<lambda>_. True"
  by unfold_locales (case_tac x; simp add: battery_status_of_str_def enum_of_str_def)

section \<open>Charge presets\<close>

definition CHARGE_PRESETS :: "(int \<times> int) dict" where
  "CHARGE_PRESETS =
     [(''off'', (100, 95)), (''home'', (90, 85)), (''travel'', (80, 75)), (''storage'', (60, 55))]"

text \<open>The loop returns \<open>ChargeMode(name)\<close> for the first matching preset; a name of the table that is
  not a charge mode would raise, which \<open>None\<close> stands for.\<close>

fun derive_loop :: "(int \<times> int) dict \<Rightarrow> int \<Rightarrow> int \<Rightarrow> charge_mode option" where
  "derive_loop [] en st = Some CM_CUSTOM"
| "derive_loop ((name, pair) # ps) en st =
     (if (en, st) = pair
      then (case charge_mode_of_str name of Inl _ \<Rightarrow> None | Inr m \<Rightarrow> Some m)
      else derive_loop ps en st)"

definition derive_charge_mode :: "int \<Rightarrow> int \<Rightarrow> charge_mode" where
  "derive_charge_mode en st = the (derive_loop CHARGE_PRESETS en st)"

lemma derive_charge_mode_eq:
  "derive_charge_mode en st =
     (if (en, st) = (100, 95) then CM_OFF else if (en, st) = (90, 85) then CM_HOME
      else if (en, st) = (80, 75) then CM_TRAVEL else if (en, st) = (60, 55) then CM_STORAGE
      else CM_CUSTOM)"
  by (simp add: derive_charge_mode_def CHARGE_PRESETS_def charge_mode_of_str_def enum_of_str_def)

section \<open>Capabilities and operation results\<close>

record capability =
  cap_status :: capability_status
  cap_reason_code :: string
  cap_message :: string
  cap_resources :: "string list"

definition writable :: "capability \<Rightarrow> bool" where
  "writable c = (cap_status c = CS_SUPPORTED)"

record operation_result =
  res_status :: operation_status
  res_code :: string
  res_message :: string
  res_changed :: bool
  res_persisted :: bool
  res_applied :: bool
  res_sequence :: int
  res_details :: "pv dict"

definition op_success :: "string \<Rightarrow> bool \<Rightarrow> bool \<Rightarrow> bool \<Rightarrow> int \<Rightarrow> pv dict \<Rightarrow> operation_result" where
  "op_success msg changed persisted applied seqn det =
     \<lparr>res_status = OS_SUCCESS, res_code = [], res_message = msg, res_changed = changed,
      res_persisted = persisted, res_applied = applied, res_sequence = seqn, res_details = det\<rparr>"

definition op_rejected :: "string \<Rightarrow> string \<Rightarrow> int \<Rightarrow> pv dict \<Rightarrow> operation_result" where
  "op_rejected code msg seqn det =
     \<lparr>res_status = OS_REJECTED, res_code = code, res_message = msg, res_changed = False,
      res_persisted = False, res_applied = False, res_sequence = seqn, res_details = det\<rparr>"

definition op_partial :: "string \<Rightarrow> string \<Rightarrow> bool \<Rightarrow> bool \<Rightarrow> int \<Rightarrow> pv dict \<Rightarrow> operation_result" where
  "op_partial code msg persisted applied seqn det =
     \<lparr>res_status = OS_PARTIAL, res_code = code, res_message = msg, res_changed = True,
      res_persisted = persisted, res_applied = applied, res_sequence = seqn, res_details = det\<rparr>"

definition op_unavailable :: "string \<Rightarrow> string \<Rightarrow> int \<Rightarrow> operation_result" where
  "op_unavailable code msg seqn =
     \<lparr>res_status = OS_UNAVAILABLE, res_code = code, res_message = msg, res_changed = False,
      res_persisted = False, res_applied = False, res_sequence = seqn, res_details = []\<rparr>"

definition op_failed :: "string \<Rightarrow> string \<Rightarrow> int \<Rightarrow> pv dict \<Rightarrow> operation_result" where
  "op_failed code msg seqn det =
     \<lparr>res_status = OS_FAILED, res_code = code, res_message = msg, res_changed = False,
      res_persisted = False, res_applied = False, res_sequence = seqn, res_details = det\<rparr>"

lemmas op_defs = op_success_def op_rejected_def op_partial_def op_unavailable_def op_failed_def

definition result_to_dict :: "operation_result \<Rightarrow> pv dict" where
  "result_to_dict r =
     [(''status'', PStr (operation_status_str (res_status r))),
      (''code'', PStr (res_code r)),
      (''message'', PStr (res_message r)),
      (''changed'', PBool (res_changed r)),
      (''persisted'', PBool (res_persisted r)),
      (''applied'', PBool (res_applied r)),
      (''sequence'', PInt (res_sequence r)),
      (''details'', PDict (res_details r))]"

section \<open>Feature snapshots\<close>

record battery_snapshot =
  bs_available :: bool
  bs_capacity_percent :: "int option"
  bs_status :: "battery_status_kind option"
  bs_ac_online :: "bool option"
  bs_observed_end :: "int option"
  bs_observed_start :: "int option"
  bs_desired_end :: "int option"
  bs_desired_start :: "int option"
  bs_mode :: charge_mode
  bs_last_error :: string

definition battery_default :: battery_snapshot where
  "battery_default = \<lparr>bs_available = False, bs_capacity_percent = None, bs_status = None,
     bs_ac_online = None, bs_observed_end = None, bs_observed_start = None,
     bs_desired_end = None, bs_desired_start = None, bs_mode = CM_CUSTOM, bs_last_error = []\<rparr>"

record power_profile_entry =
  pe_name :: string
  pe_label :: string
  pe_description :: string
  pe_pl1_uw :: int
  pe_pl2_uw :: int
  pe_governor :: string
  pe_epp :: string
  pe_ppd_profile :: string
  pe_turbo_enabled :: bool
  pe_max_perf_pct :: int
  pe_built_in :: bool

definition POWER_PROFILES :: "power_profile_entry list" where
  "POWER_PROFILES =
    [\<lparr>pe_name = ''silent'', pe_label = ''Silent'', pe_description = ''Lowest power and noise'',
      pe_pl1_uw = 12000000, pe_pl2_uw = 18000000, pe_governor = ''powersave'', pe_epp = ''power'',
      pe_ppd_profile = ''power-saver'', pe_turbo_enabled = True, pe_max_perf_pct = 100,
      pe_built_in = True\<rparr>,
     \<lparr>pe_name = ''balanced'', pe_label = ''Balanced'',
      pe_description = ''Everyday power and battery use'',
      pe_pl1_uw = 25000000, pe_pl2_uw = 35000000, pe_governor = ''powersave'',
      pe_epp = ''balance_power'', pe_ppd_profile = ''balanced'', pe_turbo_enabled = True,
      pe_max_perf_pct = 100, pe_built_in = True\<rparr>,
     \<lparr>pe_name = ''performance'', pe_label = ''Performance'',
      pe_description = ''Maximum sustained power'',
      pe_pl1_uw = 35000000, pe_pl2_uw = 55000000, pe_governor = ''powersave'',
      pe_epp = ''performance'', pe_ppd_profile = ''performance'', pe_turbo_enabled = True,
      pe_max_perf_pct = 100, pe_built_in = True\<rparr>]"

definition POWER_PROFILE_NAMES :: "string list" where
  "POWER_PROFILE_NAMES = map pe_name POWER_PROFILES"

definition POWER_PL1_MIN_UW :: int where "POWER_PL1_MIN_UW = 3000000"

definition POWER_PL1_MAX_UW :: int where
  "POWER_PL1_MAX_UW = Max (set (map pe_pl1_uw POWER_PROFILES))"

definition POWER_PL2_MAX_UW :: int where
  "POWER_PL2_MAX_UW = Max (set (map pe_pl2_uw POWER_PROFILES))"

lemma power_bounds [simp]:
  "POWER_PL1_MIN_UW = 3000000" "POWER_PL1_MAX_UW = 35000000" "POWER_PL2_MAX_UW = 55000000"
  by (simp_all add: POWER_PL1_MIN_UW_def POWER_PL1_MAX_UW_def POWER_PL2_MAX_UW_def POWER_PROFILES_def)

lemma POWER_PROFILE_NAMES_eq: "POWER_PROFILE_NAMES = [''silent'', ''balanced'', ''performance'']"
  by (simp add: POWER_PROFILE_NAMES_def POWER_PROFILES_def)

record power_snapshot =
  ps_available :: bool
  ps_desired_profile :: string
  ps_applied_profile :: string
  ps_observed_summary :: "pv dict"
  ps_ac_online :: "bool option"
  ps_auto_switch_enabled :: bool
  ps_auto_switch_on_ac :: string
  ps_auto_switch_on_battery :: string
  ps_auto_switch_on_ac_script :: string
  ps_auto_switch_on_battery_script :: string
  ps_auto_switch_last_script_status :: string
  ps_profiles :: "power_profile_entry list"
  ps_last_error :: string

definition power_default :: power_snapshot where
  "power_default = \<lparr>ps_available = False, ps_desired_profile = [], ps_applied_profile = [],
     ps_observed_summary = [], ps_ac_online = None, ps_auto_switch_enabled = False,
     ps_auto_switch_on_ac = [], ps_auto_switch_on_battery = [], ps_auto_switch_on_ac_script = [],
     ps_auto_switch_on_battery_script = [], ps_auto_switch_last_script_status = [],
     ps_profiles = [], ps_last_error = []\<rparr>"

record fan_curve_point =
  temp_mc :: int
  speed :: int

record fan_snapshot =
  fs_available :: bool
  fs_mode :: fan_mode
  fs_desired_mode :: fan_mode
  fs_temp_mc :: "int option"
  fs_target_speed :: "int option"
  fs_measured_rpm :: "int option"
  fs_curves :: "string dict"
  fs_manual_expires_at :: "int option"
  fs_last_error :: string

definition fan_default :: fan_snapshot where
  "fan_default = \<lparr>fs_available = False, fs_mode = FM_STOCK, fs_desired_mode = FM_STOCK,
     fs_temp_mc = None, fs_target_speed = None, fs_measured_rpm = None, fs_curves = [],
     fs_manual_expires_at = None, fs_last_error = []\<rparr>"

record gesture_entry =
  ge_id :: string
  ge_label :: string
  ge_enabled :: bool
  ge_mapping :: string
  ge_default_mapping :: string
  ge_error :: string

record gestures_snapshot =
  gs_available :: bool
  gs_daemon_enabled :: bool
  gs_daemon_running :: bool
  gs_device_found :: bool
  gs_permission_denied :: bool
  gs_device_path :: string
  gs_reports_seen :: int
  gs_gestures_emitted :: int
  gs_mappings :: "gesture_entry list"
  gs_wmi_transport_present :: bool
  gs_firmware_settings_supported :: bool
  gs_firmware_settings :: "int dict"
  gs_last_error :: string

definition gestures_default :: gestures_snapshot where
  "gestures_default = \<lparr>gs_available = False, gs_daemon_enabled = False, gs_daemon_running = False,
     gs_device_found = False, gs_permission_denied = False, gs_device_path = [],
     gs_reports_seen = 0, gs_gestures_emitted = 0, gs_mappings = [],
     gs_wmi_transport_present = False, gs_firmware_settings_supported = False,
     gs_firmware_settings = [], gs_last_error = []\<rparr>"

record gpu_snapshot =
  gp_available :: bool
  gp_mitigation_enabled :: bool
  gp_target_cpu :: "int option"
  gp_irqs :: "string list"
  gp_last_error :: string

definition gpu_default :: gpu_snapshot where
  "gpu_default = \<lparr>gp_available = False, gp_mitigation_enabled = False, gp_target_cpu = None,
     gp_irqs = [], gp_last_error = []\<rparr>"

record diagnostic_check =
  dc_id :: string
  dc_severity :: diagnostic_severity
  dc_message :: string
  dc_detail :: string
  dc_remediation :: string
  dc_duration_ms :: int

record service_health =
  sh_version :: string
  sh_uptime :: int
  sh_overall :: string
  sh_controller_health :: "string dict"
  sh_dependency_ok :: bool
  sh_config_valid :: bool
  sh_stale_domains :: "string list"
  sh_last_fault :: string

definition service_default :: service_health where
  "service_default = \<lparr>sh_version = [], sh_uptime = 0, sh_overall = ''healthy'',
     sh_controller_health = [], sh_dependency_ok = True, sh_config_valid = True,
     sh_stale_domains = [], sh_last_fault = []\<rparr>"

record platform_info =
  pi_vendor :: string
  pi_product :: string
  pi_model :: string
  pi_cpu_model :: string
  pi_matched :: bool
  pi_confidence :: string

definition platform_default :: platform_info where
  "platform_default = \<lparr>pi_vendor = [], pi_product = [], pi_model = [], pi_cpu_model = [],
     pi_matched = False, pi_confidence = ''none''\<rparr>"

definition API_VERSION :: int where "API_VERSION = 1"

definition SCHEMA_VERSION :: int where "SCHEMA_VERSION = 4"

record system_snapshot =
  ss_api_version :: int
  ss_schema_version :: int
  ss_sequence :: int
  ss_observed_at :: int
  ss_service :: service_health
  ss_platform :: platform_info
  ss_capabilities :: "capability dict"
  ss_battery :: battery_snapshot
  ss_power :: power_snapshot
  ss_fan :: fan_snapshot
  ss_gestures :: gestures_snapshot
  ss_gpu :: gpu_snapshot
  ss_stale_domains :: "string list"
  ss_errors :: "string list"

text \<open>A fresh \<open>SystemSnapshot()\<close> created at time \<open>now\<close>.\<close>

definition system_default :: "int \<Rightarrow> system_snapshot" where
  "system_default now = \<lparr>ss_api_version = API_VERSION, ss_schema_version = SCHEMA_VERSION,
     ss_sequence = 0, ss_observed_at = now, ss_service = service_default,
     ss_platform = platform_default, ss_capabilities = [], ss_battery = battery_default,
     ss_power = power_default, ss_fan = fan_default, ss_gestures = gestures_default,
     ss_gpu = gpu_default, ss_stale_domains = [], ss_errors = []\<rparr>"

end
