(* ===== verification/Gestures.thy ===== *)
theory Gestures
  imports Domain
begin

text \<open>
  \<^verbatim>\<open>honor_control/core/gestures.py\<close>: the default gesture mappings, the bounded key-code registry and
  the decoding of a vendor input report into the two mapping keys the runtime looks up.
\<close>

definition GESTURE_REPORT_ID :: byte where "GESTURE_REPORT_ID = 0x0E"

definition DEFAULT_GESTURE_MAPPINGS :: "string dict" where
  "DEFAULT_GESTURE_MAPPINGS = [
    (''3:1'', ''brightnessup''), (''3:2'', ''brightnessdown''), (''4:1'', ''volumeup''),
    (''4:2'', ''volumedown''), (''10:3'', ''leftmeta,v''), (''6'', ''print''),
    (''7'', ''leftshift,print''), (''8'', ''leftmeta,h''), (''9'', ''leftalt,f4'')]"

definition GESTURE_NAMES :: "string dict" where
  "GESTURE_NAMES = [
    (''3:1'', ''Left edge swipe up (brightness up)''),
    (''3:2'', ''Left edge swipe down (brightness down)''),
    (''4:1'', ''Right edge swipe up (volume up)''),
    (''4:2'', ''Right edge swipe down (volume down)''),
    (''10:3'', ''Two-finger swipe left (notification panel)''),
    (''6'', ''One-knuckle double knock (screenshot)''),
    (''7'', ''Two-knuckle double knock (screen recording)''),
    (''8'', ''Top-left corner click (minimize)''),
    (''9'', ''Top-right corner click (close window)'')]"

definition KEY_CODES :: "int dict" where
  "KEY_CODES = [
    (''esc'', 1), (''1'', 2), (''2'', 3), (''3'', 4), (''4'', 5), (''5'', 6), (''6'', 7),
    (''7'', 8), (''8'', 9), (''9'', 10), (''0'', 11), (''backspace'', 14), (''tab'', 15),
    (''q'', 16), (''w'', 17), (''e'', 18), (''r'', 19), (''t'', 20), (''y'', 21), (''u'', 22),
    (''i'', 23), (''o'', 24), (''p'', 25), (''enter'', 28), (''leftctrl'', 29), (''a'', 30),
    (''s'', 31), (''d'', 32), (''f'', 33), (''g'', 34), (''h'', 35), (''j'', 36), (''k'', 37),
    (''l'', 38), (''leftshift'', 42), (''z'', 44), (''x'', 45), (''c'', 46), (''v'', 47),
    (''b'', 48), (''n'', 49), (''m'', 50), (''rightshift'', 54), (''leftalt'', 56),
    (''space'', 57), (''capslock'', 58), (''f1'', 59), (''f2'', 60), (''f3'', 61), (''f4'', 62),
    (''f5'', 63), (''f6'', 64), (''f7'', 65), (''f8'', 66), (''f9'', 67), (''f10'', 68),
    (''f11'', 87), (''f12'', 88), (''sysrq'', 99), (''rightctrl'', 97), (''rightalt'', 100),
    (''home'', 102), (''up'', 103), (''pageup'', 104), (''left'', 105), (''right'', 106),
    (''end'', 107), (''down'', 108), (''pagedown'', 109), (''insert'', 110), (''delete'', 111),
    (''mute'', 113), (''volumedown'', 114), (''volumeup'', 115), (''leftmeta'', 125),
    (''rightmeta'', 126), (''menu'', 139), (''back'', 158), (''forward'', 159),
    (''nextsong'', 163), (''playpause'', 164), (''previoussong'', 165), (''stop'', 166),
    (''homepage'', 172), (''refresh'', 173), (''print'', 210), (''brightnessdown'', 224),
    (''brightnessup'', 225)]"

definition gesture_keys_from_report :: "byte list \<Rightarrow> (string \<times> string) option" where
  "gesture_keys_from_report report =
     (if length report \<noteq> 9 \<or> report ! 0 \<noteq> GESTURE_REPORT_ID then None
      else let gesture_type = nat_str (unat (report ! 1))
           in Some (gesture_type @ '':'' @ nat_str (unat (report ! 2)), gesture_type))"

text \<open>\<open>[KEY_CODES[token] for token in tokens]\<close> raises \<open>KeyError\<close> on an unknown token.\<close>

definition key_codes_for_tokens :: "string list \<Rightarrow> exn + int list" where
  "key_codes_for_tokens tokens = rmap (\<lambda>t. case map_of KEY_CODES t of
     None \<Rightarrow> Inl (KeyError t) | Some c \<Rightarrow> Inr c) tokens"

section \<open>The tables are well formed\<close>

definition word_char :: "char \<Rightarrow> bool" where
  "word_char c = (is_lower c \<or> is_digit c \<or> c = CHR ''_'')"

text \<open>\<open>^[a-z0-9][a-z0-9_]*$\<close>\<close>

definition key_token_re :: "string \<Rightarrow> bool" where
  "key_token_re t = (case t of [] \<Rightarrow> False
     | c # cs \<Rightarrow> (is_lower c \<or> is_digit c) \<and> list_all word_char cs)"

lemma KEY_CODES_tokens: "list_all (\<lambda>(k, v). key_token_re k \<and> 0 < v \<and> v < 768) KEY_CODES"
  by code_simp

lemma KEY_CODES_distinct: "distinct (map fst KEY_CODES)" "distinct (map snd KEY_CODES)"
  by code_simp+

lemma key_code_token_re: "map_of KEY_CODES t = Some c \<Longrightarrow> key_token_re t \<and> 0 < c \<and> c < 768"
  using KEY_CODES_tokens by (auto simp: list_all_iff dest!: map_of_SomeD)

lemma word_char_props: "word_char c \<Longrightarrow> c \<noteq> CHR '','' \<and> \<not> py_isspace c \<and> py_lower_char c = c"
  by (auto simp: word_char_def py_lower_char_id not_space_word)
     (auto simp: is_lower_def is_digit_def cp_def)

lemma key_token_re_chars: "key_token_re t \<Longrightarrow> c \<in> set t \<Longrightarrow> word_char c"
  by (auto simp: key_token_re_def word_char_def list_all_iff split: list.splits)

lemma key_token_normal:
  assumes "key_token_re t"
  shows "t \<noteq> []" "CHR '','' \<notin> set t" "py_strip t = t" "py_lower t = t"
proof -
  note chars = key_token_re_chars [OF assms]
  show "t \<noteq> []" using assms by (auto simp: key_token_re_def)
  show "CHR '','' \<notin> set t" using chars word_char_props by blast
  show "py_strip t = t" using chars word_char_props by (intro py_strip_no_space) blast
  show "py_lower t = t" unfolding py_lower_def
    using chars word_char_props by (intro map_idI) blast
qed

lemma key_codes_total:
  "(\<And>t. t \<in> set ts \<Longrightarrow> map_of KEY_CODES t \<noteq> None) \<Longrightarrow>
   key_codes_for_tokens ts = Inr (map (\<lambda>t. the (map_of KEY_CODES t)) ts)"
  unfolding key_codes_for_tokens_def by (rule rmap_Inr_map) (fastforce split: option.splits)

end
