(* ===== verification/Validation.thy ===== *)
theory Validation
  imports Gestures
begin

text \<open>
  \<^verbatim>\<open>honor_control/core/validation.py\<close>: thresholds, charge modes, fan curves, manual fan overrides,
  gesture identifiers, key combinations and profile names. A parameter the code checks with
  \<open>isinstance\<close> is a \<^typ>\<open>pv\<close>; every \<open>raise\<close> is an \<open>Inl\<close>. Each check implements the validator
  interface, and the ones that return what callers store also implement a codec or a normaliser.
\<close>

section \<open>Battery thresholds\<close>

definition MIN_THRESHOLD :: int where "MIN_THRESHOLD = 40"
definition MAX_THRESHOLD :: int where "MAX_THRESHOLD = 100"
definition MIN_HYSTERESIS :: int where "MIN_HYSTERESIS = 5"

lemmas threshold_consts = MIN_THRESHOLD_def MAX_THRESHOLD_def MIN_HYSTERESIS_def

definition validate_thresholds :: "pv \<Rightarrow> pv \<Rightarrow> exn + int \<times> int" where
  "validate_thresholds end' start' =
     (case (end', start') of
        (PInt e, PInt s) \<Rightarrow>
          if \<not> (MIN_THRESHOLD \<le> e \<and> e \<le> MAX_THRESHOLD)
          then invalid (''End threshold '' @ int_str e @ '' out of range [40-100]'')
          else if \<not> (MIN_THRESHOLD \<le> s \<and> s \<le> MAX_THRESHOLD)
          then invalid (''Start threshold '' @ int_str s @ '' out of range [40-100]'')
          else if s > e
          then invalid (''Start threshold '' @ int_str s @ '' cannot exceed end threshold '' @ int_str e)
          else if e - s < MIN_HYSTERESIS
          then invalid (''Gap between end ('' @ int_str e @ '') and start ('' @ int_str s @
                        '') must be at least 5%'')
          else Inr (e, s)
      | _ \<Rightarrow> invalid ''Thresholds must be integers'')"

definition valid_thresholds :: "int \<times> int \<Rightarrow> bool" where
  "valid_thresholds p = (case p of (e, s) \<Rightarrow> 40 \<le> s \<and> s \<le> e - 5 \<and> e \<le> 100)"

definition validate_charge_mode :: "string \<Rightarrow> exn + charge_mode" where
  "validate_charge_mode mode =
     (if mode = charge_mode_str CM_CUSTOM
      then invalid (CHR 0x27 # ''custom'' @ CHR 0x27 # '' is a display state; use SetThresholds instead'')
      else case charge_mode_of_str mode of
             Inl _ \<Rightarrow> invalid (''Unknown charge mode '' @ CHR 0x27 # mode @ [CHR 0x27])
           | Inr m \<Rightarrow> Inr m)"

definition thresholds_for_mode :: "charge_mode \<Rightarrow> exn + int \<times> int" where
  "thresholds_for_mode mode =
     (if mode = CM_CUSTOM
      then invalid (''No preset thresholds for '' @ CHR 0x27 # ''custom'' @ CHR 0x27 # '' mode'')
      else case map_of CHARGE_PRESETS (charge_mode_str mode) of
             None \<Rightarrow> Inl (KeyError (charge_mode_str mode))
           | Some p \<Rightarrow> Inr p)"

section \<open>Fan curves\<close>

definition FAN_TEMP_MIN_MC :: int where "FAN_TEMP_MIN_MC = 40000"
definition FAN_TEMP_MAX_MC :: int where "FAN_TEMP_MAX_MC = 100000"
definition FAN_SPEED_MIN :: int where "FAN_SPEED_MIN = 0"
definition FAN_SPEED_MAX :: int where "FAN_SPEED_MAX = 100"
definition FAN_MIN_POINTS :: nat where "FAN_MIN_POINTS = 2"
definition FAN_MAX_POINTS :: nat where "FAN_MAX_POINTS = 12"
definition FAN_HIGH_TEMP_MC :: int where "FAN_HIGH_TEMP_MC = 95000"
definition FAN_HIGH_TEMP_MIN_SPEED :: int where "FAN_HIGH_TEMP_MIN_SPEED = 100"

lemmas fan_consts = FAN_TEMP_MIN_MC_def FAN_TEMP_MAX_MC_def FAN_SPEED_MIN_def FAN_SPEED_MAX_def
  FAN_MIN_POINTS_def FAN_MAX_POINTS_def FAN_HIGH_TEMP_MC_def FAN_HIGH_TEMP_MIN_SPEED_def

text \<open>The body of the first loop of \<open>validate_curve_points\<close>.\<close>

definition validate_point :: "pv \<times> pv \<Rightarrow> exn + fan_curve_point" where
  "validate_point p =
     (case p of
        (PInt t, PInt v) \<Rightarrow>
          if \<not> (FAN_TEMP_MIN_MC \<le> t \<and> t \<le> FAN_TEMP_MAX_MC)
          then invalid (''Temperature '' @ int_str t @ '' out of range [40000-100000] m'' @ CHR 0xB0 # ''C'')
          else if \<not> (FAN_SPEED_MIN \<le> v \<and> v \<le> FAN_SPEED_MAX)
          then invalid (''Speed '' @ int_str v @ '' out of range [0-100]'')
          else Inr \<lparr>temp_mc = t, speed = v\<rparr>
      | _ \<Rightarrow> invalid ''Fan curve temperatures and speeds must be integers'')"

text \<open>The loops over adjacent points; \<open>i\<close> is the index of the second point.\<close>

fun check_increasing :: "nat \<Rightarrow> fan_curve_point list \<Rightarrow> exn + unit" where
  "check_increasing i (p # q # r) =
     (if temp_mc q \<le> temp_mc p
      then invalid (''Temperatures must be strictly increasing (point '' @ nat_str i @ '': '' @
                    int_str (temp_mc q) @ '' <= '' @ int_str (temp_mc p) @ '')'')
      else check_increasing (Suc i) (q # r))"
| "check_increasing i _ = Inr ()"

fun check_nondecreasing :: "nat \<Rightarrow> fan_curve_point list \<Rightarrow> exn + unit" where
  "check_nondecreasing i (p # q # r) =
     (if speed q < speed p
      then invalid (''Speeds must be non-decreasing (point '' @ nat_str i @ '': '' @
                    int_str (speed q) @ '' < '' @ int_str (speed p) @ '')'')
      else check_nondecreasing (Suc i) (q # r))"
| "check_nondecreasing i _ = Inr ()"

definition check_high_temp :: "fan_curve_point \<Rightarrow> exn + unit" where
  "check_high_temp p =
     (if temp_mc p \<ge> FAN_HIGH_TEMP_MC \<and> speed p < FAN_HIGH_TEMP_MIN_SPEED
      then invalid (''At '' @ int_str (temp_mc p div 1000) @ CHR 0xB0 # ''C speed must be 100% (got '' @
                    int_str (speed p) @ ''%)'')
      else Inr ())"

definition validate_curve_points :: "(pv \<times> pv) list \<Rightarrow> exn + fan_curve_point list" where
  "validate_curve_points points =
     (if \<not> (FAN_MIN_POINTS \<le> length points \<and> length points \<le> FAN_MAX_POINTS)
      then invalid (''Curve must have 2-12 points (got '' @ nat_str (length points) @ '')'')
      else rbind (rmap validate_point points) (\<lambda>validated.
           rbind (check_increasing 1 validated) (\<lambda>_.
           rbind (check_nondecreasing 1 validated) (\<lambda>_.
           rbind (rall check_high_temp validated) (\<lambda>_.
           Inr validated)))))"

text \<open>\<open>^\s*(\d+)\s*:\s*(\d+)\s*$\<close> on one segment: the two groups of digits.\<close>

definition match_curve_point :: "string \<Rightarrow> (string \<times> string) option" where
  "match_curve_point s =
     (let a = dropWhile py_isspace s; g1 = takeWhile is_digit a;
          b = dropWhile py_isspace (dropWhile is_digit a)
      in if g1 = [] then None
         else case b of [] \<Rightarrow> None
           | c # b' \<Rightarrow> if c \<noteq> CHR '':'' then None
               else let d = dropWhile py_isspace b'; g2 = takeWhile is_digit d;
                        e = dropWhile py_isspace (dropWhile is_digit d)
                    in if g2 = [] \<or> e \<noteq> [] then None else Some (g1, g2))"

text \<open>\<open>int(group)\<close> of a group of digits: the interpreter refuses more than 4300 of them.\<close>

definition int_of_group :: "string \<Rightarrow> exn + int" where
  "int_of_group g = (if length g > 4300
     then Inl (ValueError ''Exceeds the limit (4300 digits) for integer string conversion'')
     else Inr (int (digits_val g)))"

definition parse_segment :: "string \<Rightarrow> exn + pv \<times> pv" where
  "parse_segment segment =
     (case match_curve_point segment of
        None \<Rightarrow> invalid (''Invalid curve point '' @ CHR 0x27 # segment @ CHR 0x27 # '' (expected temp:speed)'')
      | Some (g1, g2) \<Rightarrow> rbind (int_of_group g1) (\<lambda>t. rbind (int_of_group g2) (\<lambda>v. Inr (PInt t, PInt v))))"

definition parse_curve :: "pv \<Rightarrow> exn + fan_curve_point list" where
  "parse_curve curve =
     (case curve of
        PStr s \<Rightarrow>
          rbind (rmap parse_segment (filter (\<lambda>seg. seg \<noteq> []) (map py_strip (py_split CHR '','' s))))
                validate_curve_points
      | _ \<Rightarrow> invalid ''Fan curve must be a string'')"

definition format_point :: "fan_curve_point \<Rightarrow> string" where
  "format_point p = int_str (temp_mc p) @ '':'' @ int_str (speed p)"

definition format_curve :: "fan_curve_point list \<Rightarrow> string" where
  "format_curve points = py_join CHR '','' (map format_point points)"

section \<open>Fan mode and manual override\<close>

definition MANUAL_TTL_DEFAULT_SECONDS :: int where "MANUAL_TTL_DEFAULT_SECONDS = 300"
definition MANUAL_TTL_MAX_SECONDS :: int where "MANUAL_TTL_MAX_SECONDS = 900"
definition MANUAL_EMERGENCY_MIN_SPEED :: int where "MANUAL_EMERGENCY_MIN_SPEED = 80"
definition MANUAL_EMERGENCY_TEMP_MC :: int where "MANUAL_EMERGENCY_TEMP_MC = 90000"

lemmas manual_consts = MANUAL_TTL_DEFAULT_SECONDS_def MANUAL_TTL_MAX_SECONDS_def
  MANUAL_EMERGENCY_MIN_SPEED_def MANUAL_EMERGENCY_TEMP_MC_def

definition validate_fan_mode :: "string \<Rightarrow> exn + fan_mode" where
  "validate_fan_mode mode = (case fan_mode_of_str mode of
     Inl _ \<Rightarrow> invalid (''Unknown fan mode '' @ CHR 0x27 # mode @ [CHR 0x27]) | Inr m \<Rightarrow> Inr m)"

definition validate_manual_speed :: "pv \<Rightarrow> exn + int" where
  "validate_manual_speed v = (case v of
     PInt n \<Rightarrow> if \<not> (FAN_SPEED_MIN \<le> n \<and> n \<le> FAN_SPEED_MAX)
       then invalid (''Fan speed '' @ int_str n @ '' out of range [0-100]'') else Inr n
   | _ \<Rightarrow> invalid ''Fan speed must be an integer'')"

definition validate_manual_ttl :: "pv \<Rightarrow> exn + int" where
  "validate_manual_ttl v = (case v of
     PInt n \<Rightarrow> if n < 1 then invalid ''TTL must be at least 1 second''
       else if n > MANUAL_TTL_MAX_SECONDS then invalid ''TTL must not exceed 900 seconds''
       else Inr n
   | _ \<Rightarrow> invalid ''TTL must be an integer'')"

section \<open>Gestures and profile names\<close>

definition check_key_token :: "string \<Rightarrow> exn + unit" where
  "check_key_token token =
     (if \<not> key_token_re token
      then invalid (''Invalid key token '' @ CHR 0x27 # token @ CHR 0x27 #
                    '' (use lowercase letters, digits, and underscores)'')
      else if map_of KEY_CODES token = None
      then invalid (''Unknown key token '' @ CHR 0x27 # token @ [CHR 0x27])
      else Inr ())"

definition combo_tokens :: "string \<Rightarrow> string list" where
  "combo_tokens combo =
     map (\<lambda>t. py_lower (py_strip t)) (filter (\<lambda>t. py_strip t \<noteq> []) (py_split CHR '','' combo))"

definition validate_key_combo :: "pv \<Rightarrow> exn + string list" where
  "validate_key_combo combo =
     (case combo of
        PStr s \<Rightarrow>
          if py_strip s = [] then invalid ''Key combo is empty''
          else let tokens = combo_tokens s
               in if tokens = [] then invalid ''Key combo has no tokens''
                  else rbind (rall check_key_token tokens) (\<lambda>_. Inr tokens)
      | _ \<Rightarrow> invalid ''Key combo is empty'')"

text \<open>\<open>^[a-zA-Z0-9:_-]+$\<close> and \<open>^[a-z][a-z0-9_-]*$\<close>\<close>

definition gesture_id_re :: "string \<Rightarrow> bool" where
  "gesture_id_re s = (s \<noteq> [] \<and> list_all (\<lambda>c. is_lower c \<or> is_upper c \<or> is_digit c \<or>
     c = CHR '':'' \<or> c = CHR ''_'' \<or> c = CHR ''-'') s)"

definition profile_name_re :: "string \<Rightarrow> bool" where
  "profile_name_re s = (case s of [] \<Rightarrow> False | c # cs \<Rightarrow> is_lower c \<and>
     list_all (\<lambda>d. is_lower d \<or> is_digit d \<or> d = CHR ''_'' \<or> d = CHR ''-'') cs)"

definition validate_gesture_id :: "string \<Rightarrow> exn + string" where
  "validate_gesture_id gesture_id =
     (if py_strip gesture_id = [] then invalid ''Gesture ID is empty''
      else let gid = py_strip gesture_id
           in if \<not> gesture_id_re gid
              then invalid (''Invalid gesture ID '' @ CHR 0x27 # gid @ [CHR 0x27])
              else Inr gid)"

definition validate_profile_name :: "string \<Rightarrow> exn + string" where
  "validate_profile_name name =
     (if py_strip name = [] then invalid ''Profile name is empty''
      else let cleaned = py_lower (py_strip name)
           in if \<not> profile_name_re cleaned
              then invalid (''Invalid profile name '' @ CHR 0x27 # cleaned @ [CHR 0x27])
              else Inr cleaned)"

text \<open>\<open>available_names\<close> is \<open>None\<close> for the built-in registry.\<close>

definition validate_power_profile :: "string \<Rightarrow> string list option \<Rightarrow> exn + string" where
  "validate_power_profile name available_names =
     rbind (validate_profile_name name) (\<lambda>cleaned.
       let names = (case available_names of None \<Rightarrow> POWER_PROFILE_NAMES | Some ns \<Rightarrow> ns)
       in if cleaned \<notin> set names
          then invalid (''Unknown power profile '' @ CHR 0x27 # cleaned @ [CHR 0x27])
          else Inr cleaned)"

definition LOG_MIN_LINES :: int where "LOG_MIN_LINES = 1"
definition LOG_MAX_LINES :: int where "LOG_MAX_LINES = 500"

text \<open>Unlike the other checks this one does not exclude \<open>bool\<close>, a subclass of \<open>int\<close>.\<close>

definition validate_log_lines :: "pv \<Rightarrow> exn + int" where
  "validate_log_lines v =
     (let check = (\<lambda>n. if \<not> (LOG_MIN_LINES \<le> n \<and> n \<le> LOG_MAX_LINES)
                       then invalid ''Lines must be in [1-500]'' else Inr n)
      in case v of PInt n \<Rightarrow> check n | PBool b \<Rightarrow> check (of_bool b)
         | _ \<Rightarrow> invalid ''Lines must be an integer'')"

section \<open>What the checks accept\<close>

lemma validate_thresholds_iff:
  "validate_thresholds e s = Inr p \<longleftrightarrow>
     (\<exists>i j. e = PInt i \<and> s = PInt j \<and> p = (i, j) \<and> valid_thresholds (i, j))"
  by (auto simp: validate_thresholds_def valid_thresholds_def threshold_consts split: pv.splits)

interpretation thresholds: validator "\<lambda>(e, s). validate_thresholds e s" valid_thresholds
  by unfold_locales (auto simp: validate_thresholds_iff)

lemma thresholds_for_mode_valid:
  "thresholds_for_mode m = Inr p \<Longrightarrow> valid_thresholds p \<and> derive_charge_mode (fst p) (snd p) = m"
  by (cases m)
     (auto simp: thresholds_for_mode_def CHARGE_PRESETS_def valid_thresholds_def derive_charge_mode_eq)

lemma thresholds_for_mode_total: "m \<noteq> CM_CUSTOM \<Longrightarrow> \<exists>p. thresholds_for_mode m = Inr p"
  by (cases m) (auto simp: thresholds_for_mode_def CHARGE_PRESETS_def)

lemma validate_charge_mode_iff:
  "validate_charge_mode s = Inr m \<longleftrightarrow> m \<noteq> CM_CUSTOM \<and> s = charge_mode_str m"
proof -
  have "charge_mode_of_str s = Inr m \<longleftrightarrow> s = charge_mode_str m"
    using charge_mode.roundtrip [of m] enum_of_str_value [of charge_mode_str _ s m]
    by (auto simp: charge_mode_of_str_def)
  then show ?thesis
    using charge_mode.enc_inj [of m CM_CUSTOM]
    by (auto simp: validate_charge_mode_def split: sum.splits)
qed

subsection \<open>Curves\<close>

definition point_ok :: "fan_curve_point \<Rightarrow> bool" where
  "point_ok p = (40000 \<le> temp_mc p \<and> temp_mc p \<le> 100000 \<and> 0 \<le> speed p \<and> speed p \<le> 100)"

definition valid_curve :: "fan_curve_point list \<Rightarrow> bool" where
  "valid_curve ps = (2 \<le> length ps \<and> length ps \<le> 12 \<and> list_all point_ok ps
     \<and> sorted_wrt (\<lambda>p q. temp_mc p < temp_mc q) ps
     \<and> sorted_wrt (\<lambda>p q. speed p \<le> speed q) ps
     \<and> list_all (\<lambda>p. 95000 \<le> temp_mc p \<longrightarrow> speed p = 100) ps)"

definition point_pv :: "fan_curve_point \<Rightarrow> pv \<times> pv" where
  "point_pv p = (PInt (temp_mc p), PInt (speed p))"

lemma validate_point_iff: "validate_point x = Inr p \<longleftrightarrow> x = point_pv p \<and> point_ok p"
  by (cases p; cases x)
     (auto simp: validate_point_def point_pv_def point_ok_def fan_consts split: pv.splits if_splits)

lemma rmap_validate_point_iff:
  "rmap validate_point xs = Inr ps \<longleftrightarrow> xs = map point_pv ps \<and> list_all point_ok ps"
proof (induction xs arbitrary: ps)
  case (Cons x xs)
  then show ?case by (cases ps) (auto simp: validate_point_iff)
qed auto

lemma check_increasing_iff:
  "check_increasing i ps = Inr u \<longleftrightarrow> sorted_wrt (\<lambda>p q. temp_mc p < temp_mc q) ps"
proof (induction i ps rule: check_increasing.induct)
  case (1 i p q r)
  have "transp (\<lambda>p q :: fan_curve_point. temp_mc p < temp_mc q)" by (auto simp: transp_def)
  then show ?case using 1 by (auto simp: sorted_wrt2)
qed auto

lemma check_nondecreasing_iff:
  "check_nondecreasing i ps = Inr u \<longleftrightarrow> sorted_wrt (\<lambda>p q. speed p \<le> speed q) ps"
proof (induction i ps rule: check_nondecreasing.induct)
  case (1 i p q r)
  have "transp (\<lambda>p q :: fan_curve_point. speed p \<le> speed q)" by (auto simp: transp_def)
  then show ?case using 1 by (auto simp: sorted_wrt2)
qed auto

lemma check_high_temp_iff:
  "check_high_temp p = Inr u \<longleftrightarrow> (95000 \<le> temp_mc p \<longrightarrow> 100 \<le> speed p)"
  by (auto simp: check_high_temp_def fan_consts)

lemma validate_curve_points_iff:
  "validate_curve_points xs = Inr ps \<longleftrightarrow> xs = map point_pv ps \<and> valid_curve ps"
  unfolding validate_curve_points_def valid_curve_def
  by (auto simp: rmap_validate_point_iff check_increasing_iff check_nondecreasing_iff
      check_high_temp_iff fan_consts list_all_iff point_ok_def intro!: antisym)

interpretation curve_points: validator validate_curve_points valid_curve
  by unfold_locales (simp add: validate_curve_points_iff)

interpretation curve: validator parse_curve valid_curve
  by unfold_locales (auto simp: parse_curve_def validate_curve_points_iff split: pv.splits)

lemma takeWhile_digits_str [simp]:
  "takeWhile is_digit (nat_str n @ CHR '':'' # r) = nat_str n"
  "takeWhile is_digit (nat_str n) = nat_str n"
  "dropWhile is_digit (nat_str n @ CHR '':'' # r) = CHR '':'' # r"
  "dropWhile is_digit (nat_str n) = []"
  using nat_str_digits [of _ n]
  by (auto simp: takeWhile_append2 dropWhile_append2 is_digit_def cp_def)

lemma dropWhile_space_str [simp]:
  "dropWhile py_isspace (nat_str n @ r) = nat_str n @ r"
  "dropWhile py_isspace (nat_str n) = nat_str n"
proof -
  obtain c cs where n: "nat_str n = c # cs" by (cases "nat_str n") auto
  then have "\<not> py_isspace c" using nat_str_digits [of c n] not_space_word by simp
  with n show "dropWhile py_isspace (nat_str n @ r) = nat_str n @ r"
    "dropWhile py_isspace (nat_str n) = nat_str n" by simp_all
qed

lemma format_point_chars: "point_ok p \<Longrightarrow> c \<in> set (format_point p) \<Longrightarrow> is_digit c \<or> c = CHR '':''"
  by (auto simp: format_point_def int_str_nonneg point_ok_def dest: nat_str_digits)

lemma length_nat_str: "n < 10 ^ Suc k \<Longrightarrow> length (nat_str n) \<le> Suc k"
proof (induction k arbitrary: n)
  case 0
  then show ?case by (subst nat_str.simps) simp
next
  case (Suc k)
  then have "n div 10 < 10 ^ Suc k" by (simp add: less_mult_imp_div_less)
  from Suc.IH [OF this] show ?case by (subst nat_str.simps) simp
qed

lemma match_format_point:
  "match_curve_point (nat_str a @ CHR '':'' # nat_str b) = Some (nat_str a, nat_str b)"
  by (simp add: match_curve_point_def Let_def py_isspace_def cp_def)

lemma parse_format_point:
  assumes "point_ok p"
  shows "parse_segment (format_point p) = Inr (point_pv p)"
proof -
  have "nat (temp_mc p) < 10 ^ Suc 5" "nat (speed p) < 10 ^ Suc 2"
    using assms by (simp_all add: point_ok_def nat_less_iff)
  from this [THEN length_nat_str]
  have "length (nat_str (nat (temp_mc p))) \<le> 4300" "length (nat_str (nat (speed p))) \<le> 4300"
    by linarith+
  with assms show ?thesis
    by (simp add: parse_segment_def format_point_def int_str_nonneg match_format_point
        int_of_group_def point_ok_def point_pv_def)
qed

interpretation point_codec:
  sep_codec format_point "\<lambda>s. rbind (parse_segment s) validate_point" point_ok "CHR '',''"
  by unfold_locales
     (auto simp: parse_format_point validate_point_iff is_digit_def cp_def dest: format_point_chars)

lemma format_point_strip: "point_ok p \<Longrightarrow> py_strip (format_point p) = format_point p \<and> format_point p \<noteq> []"
  using py_strip_no_space [of "format_point p"] format_point_chars [of p] not_space_word
  by (auto simp: format_point_def)

lemma parse_format_curve:
  assumes "valid_curve ps"
  shows "parse_curve (PStr (format_curve ps)) = Inr ps"
proof -
  have ok: "\<And>p. p \<in> set ps \<Longrightarrow> point_ok p" and ne: "ps \<noteq> []"
    using assms by (auto simp: valid_curve_def list_all_iff)
  have "py_split CHR '','' (format_curve ps) = map format_point ps"
    unfolding format_curve_def by (rule point_codec.split_join [OF ne ok])
  moreover have "filter (\<lambda>seg. seg \<noteq> []) (map py_strip (map format_point ps)) = map format_point ps"
    using ok format_point_strip by (induction ps) auto
  moreover have "rmap parse_segment (map format_point ps) = Inr (map point_pv ps)"
    using ok by (induction ps) (auto simp: parse_format_point)
  ultimately show ?thesis
    using assms by (simp add: parse_curve_def validate_curve_points_iff)
qed

interpretation curve_codec: codec format_curve "\<lambda>s. parse_curve (PStr s)" valid_curve
  by unfold_locales (rule parse_format_curve)

subsection \<open>Manual override\<close>

lemma validate_manual_speed_iff: "validate_manual_speed v = Inr n \<longleftrightarrow> v = PInt n \<and> 0 \<le> n \<and> n \<le> 100"
  by (auto simp: validate_manual_speed_def fan_consts split: pv.splits if_splits)

lemma validate_manual_ttl_iff: "validate_manual_ttl v = Inr n \<longleftrightarrow> v = PInt n \<and> 1 \<le> n \<and> n \<le> 900"
  by (auto simp: validate_manual_ttl_def manual_consts split: pv.splits if_splits)

interpretation manual_speed: validator validate_manual_speed "\<lambda>n. 0 \<le> n \<and> n \<le> 100"
  by unfold_locales (simp add: validate_manual_speed_iff)

interpretation manual_ttl: validator validate_manual_ttl "\<lambda>n. 1 \<le> n \<and> n \<le> 900"
  by unfold_locales (simp add: validate_manual_ttl_iff)

lemma validate_fan_mode_iff: "validate_fan_mode s = Inr m \<longleftrightarrow> s = fan_mode_str m"
  using fan_mode.roundtrip [of m] enum_of_str_value [of fan_mode_str _ s m]
  by (auto simp: validate_fan_mode_def fan_mode_of_str_def split: sum.splits)

subsection \<open>Key combinations\<close>

definition valid_combo :: "string list \<Rightarrow> bool" where
  "valid_combo ts = (ts \<noteq> [] \<and> list_all (\<lambda>t. map_of KEY_CODES t \<noteq> None) ts)"

lemma check_key_token_iff: "check_key_token t = Inr u \<longleftrightarrow> map_of KEY_CODES t \<noteq> None"
  by (auto simp: check_key_token_def dest: key_code_token_re)

interpretation key_combo: validator validate_key_combo valid_combo
  by unfold_locales
     (auto simp: validate_key_combo_def valid_combo_def Let_def check_key_token_iff list_all_iff
      split: pv.splits if_splits)

lemma valid_combo_token: "valid_combo ts \<Longrightarrow> t \<in> set ts \<Longrightarrow> key_token_re t"
  by (auto simp: valid_combo_def list_all_iff dest: key_code_token_re)

lemma combo_tokens_join:
  assumes "valid_combo ts"
  shows "combo_tokens (py_join CHR '','' ts) = ts"
proof -
  note n = key_token_normal [OF valid_combo_token [OF assms]]
  have "py_split CHR '','' (py_join CHR '','' ts) = ts"
    using assms n(2) by (intro py_split_join) (auto simp: valid_combo_def)
  moreover have "filter (\<lambda>t. py_strip t \<noteq> []) ts = ts"
    using n by (intro filter_True) simp
  ultimately show ?thesis
    using n by (simp add: combo_tokens_def map_idI)
qed

lemma combo_join_strip:
  assumes "valid_combo ts"
  shows "py_strip (py_join CHR '','' ts) \<noteq> []"
proof -
  have "\<not> py_isspace c" if "c \<in> set (py_join CHR '','' ts)" for c
  proof -
    from that set_py_join [of "CHR '',''" ts] consider "c = CHR '',''" | t where "t \<in> set ts" "c \<in> set t"
      by auto
    then show ?thesis
      by cases (auto simp: not_space_word
          dest: word_char_props key_token_re_chars [OF valid_combo_token [OF assms]])
  qed
  then have "py_strip (py_join CHR '','' ts) = py_join CHR '','' ts"
    by (rule py_strip_no_space)
  moreover have "py_join CHR '','' ts \<noteq> []"
  proof (cases ts)
    case Nil
    with assms show ?thesis by (simp add: valid_combo_def)
  next
    case (Cons t us)
    then have "t \<noteq> []" using key_token_normal(1) [OF valid_combo_token [OF assms]] by simp
    with Cons show ?thesis by (cases us) auto
  qed
  ultimately show ?thesis by simp
qed

interpretation combo_codec: codec "py_join CHR '',''" "\<lambda>s. validate_key_combo (PStr s)" valid_combo
proof unfold_locales
  fix ts assume v: "valid_combo ts"
  then have "\<forall>t \<in> set ts. check_key_token t = Inr ()" "ts \<noteq> []"
    by (auto simp: valid_combo_def list_all_iff check_key_token_iff)
  then show "validate_key_combo (PStr (py_join CHR '','' ts)) = Inr ts"
    using combo_tokens_join [OF v] combo_join_strip [OF v]
    by (simp add: validate_key_combo_def)
qed

subsection \<open>Identifiers\<close>

lemma gesture_id_re_strip: "gesture_id_re s \<Longrightarrow> py_strip s = s"
  using not_space_word by (intro py_strip_no_space) (auto simp: gesture_id_re_def list_all_iff)

lemma profile_name_re_normal:
  assumes "profile_name_re s"
  shows "py_strip s = s" "py_lower s = s" "s \<noteq> []"
proof -
  have c: "\<And>c. c \<in> set s \<Longrightarrow> is_lower c \<or> is_digit c \<or> c \<in> {CHR ''_'', CHR ''-''}"
    using assms by (auto simp: profile_name_re_def list_all_iff split: list.splits)
  show "py_strip s = s" using c not_space_word by (intro py_strip_no_space) auto
  show "py_lower s = s" using c by (rule py_lower_id)
  show "s \<noteq> []" using assms by (auto simp: profile_name_re_def)
qed

interpretation gesture_id: normaliser validate_gesture_id gesture_id_re
  by unfold_locales
     (auto simp: validate_gesture_id_def Let_def gesture_id_re_strip gesture_id_re_def split: if_splits
      dest: gesture_id_re_strip)

interpretation profile_name: normaliser validate_profile_name profile_name_re
  by unfold_locales
     (auto simp: validate_profile_name_def Let_def profile_name_re_normal split: if_splits)

lemma validate_power_profile_iff:
  "validate_power_profile name (Some ns) = Inr n \<longleftrightarrow> validate_profile_name name = Inr n \<and> n \<in> set ns"
  by (auto simp: validate_power_profile_def Let_def split: if_splits)

lemma validate_power_profile_stable:
  "validate_power_profile name (Some ns) = Inr n \<Longrightarrow> validate_power_profile n (Some ns) = Inr n"
  by (auto simp: validate_power_profile_iff dest: profile_name.idem)

section \<open>Properties\<close>

text \<open>
  Fan curve text and fan curves correspond: a list of points survives being formatted and parsed
  exactly when it is a valid curve (2 to 12 points in range, temperatures strictly increasing, speeds
  non-decreasing, full speed from 95 degrees on).
\<close>

theorem curve_text_roundtrip:
  "parse_curve (PStr (format_curve ps)) = Inr ps \<longleftrightarrow> valid_curve ps"
  using curve.sound curve_codec.roundtrip by blast

text \<open>
  Every charge mode a client may name has thresholds that validation accepts, and deriving the
  mode from these thresholds gives the named mode back; the display state \<open>custom\<close> is refused.
\<close>

theorem charge_mode_presets:
  "(\<exists>m e t. validate_charge_mode s = Inr m \<and> thresholds_for_mode m = Inr (e, t) \<and>
      validate_thresholds (PInt e) (PInt t) = Inr (e, t) \<and> charge_mode_str (derive_charge_mode e t) = s)
   \<longleftrightarrow> s \<in> {''off'', ''home'', ''travel'', ''storage''}" (is "?l \<longleftrightarrow> ?r")
proof
  assume ?l
  then obtain m where "m \<noteq> CM_CUSTOM" "s = charge_mode_str m" by (auto simp: validate_charge_mode_iff)
  then show ?r by (cases m) simp_all
next
  assume r: ?r
  have "\<exists>m e t. validate_charge_mode (charge_mode_str m) = Inr m \<and> thresholds_for_mode m = Inr (e, t) \<and>
      validate_thresholds (PInt e) (PInt t) = Inr (e, t) \<and>
      charge_mode_str (derive_charge_mode e t) = charge_mode_str m \<and> m = n" if "n \<noteq> CM_CUSTOM" for n
    using that thresholds_for_mode_total [OF that] thresholds_for_mode_valid [of n]
    by (fastforce simp: validate_charge_mode_iff validate_thresholds_iff)
  from r this [of CM_OFF] this [of CM_HOME] this [of CM_TRAVEL] this [of CM_STORAGE]
  show ?l by auto
qed

text \<open>
  A key combination that passes validation is a non-empty list of tokens the injector has a key
  code for, and storing the tokens joined by commas and validating the stored text returns the same
  tokens.
\<close>

theorem key_combo_storable:
  assumes "validate_key_combo v = Inr ts"
  shows "ts \<noteq> [] \<and> (\<forall>t \<in> set ts. map_of KEY_CODES t \<noteq> None) \<and>
    validate_key_combo (PStr (py_join CHR '','' ts)) = Inr ts"
  using key_combo.sound [OF assms] combo_codec.roundtrip [of ts]
  by (auto simp: valid_combo_def list_all_iff)

end
