(* ===== verification/Touchpad.thy ===== *)
theory Touchpad
  imports Validation
begin

unbundle bit_operations_syntax

text \<open>
  \<^verbatim>\<open>honor_control/core/touchpad.py\<close>: the public touchpad settings, their firmware commands, the parsing
  of names and values, and the encoding and decoding of the nine-byte vendor reports. Bytes are
  8-bit words. The name and value parsers implement the validator interface, the setting names and
  the time stamp report the codec interface.
\<close>

section \<open>Settings\<close>

definition TOUCHPAD_VENDOR_ID :: int where "TOUCHPAD_VENDOR_ID = 0x35CC"
definition TOUCHPAD_PRODUCT_ID :: int where "TOUCHPAD_PRODUCT_ID = 0x0104"
definition TOUCHPAD_RELEASE :: int where "TOUCHPAD_RELEASE = 0x0101"
definition TOUCHPAD_VENDOR_USAGE_PAGE :: int where "TOUCHPAD_VENDOR_USAGE_PAGE = 0xFF00"
definition TOUCHPAD_VENDOR_USAGE :: int where "TOUCHPAD_VENDOR_USAGE = 0x0001"
definition TOUCHPAD_REPORT_ID :: byte where "TOUCHPAD_REPORT_ID = 0x0E"
definition TOUCHPAD_REPORT_BYTES :: nat where "TOUCHPAD_REPORT_BYTES = 9"

definition TOUCHPAD_SETTINGS :: "touchpad_setting list" where
  "TOUCHPAD_SETTINGS = [SENSITIVITY, VIBRATION_INTENSITY, PRESS_TEXT, PRESS_PICTURE,
     THREE_FINGER_DRAG, MOUSE_LIKE_MODE, EDGE_BRIGHTNESS, EDGE_VOLUME, EDGE_CONTROL_CENTER,
     EDGE_CLOSE_OR_MINIMIZE, KNUCKLE_SCREENSHOT, KNUCKLE_SCREEN_RECORD]"

fun setting_str :: "touchpad_setting \<Rightarrow> string" where
  "setting_str SENSITIVITY = ''sensitivity''"
| "setting_str VIBRATION_INTENSITY = ''vibration_intensity''"
| "setting_str PRESS_TEXT = ''press_text''"
| "setting_str PRESS_PICTURE = ''press_picture''"
| "setting_str THREE_FINGER_DRAG = ''three_finger_drag''"
| "setting_str MOUSE_LIKE_MODE = ''mouse_like_mode''"
| "setting_str EDGE_BRIGHTNESS = ''edge_brightness''"
| "setting_str EDGE_VOLUME = ''edge_volume''"
| "setting_str EDGE_CONTROL_CENTER = ''edge_control_center''"
| "setting_str EDGE_CLOSE_OR_MINIMIZE = ''edge_close_or_minimize''"
| "setting_str KNUCKLE_SCREENSHOT = ''knuckle_screenshot''"
| "setting_str KNUCKLE_SCREEN_RECORD = ''knuckle_screen_record''"

definition setting_of_str :: "string \<Rightarrow> unit + touchpad_setting" where
  "setting_of_str = enum_of_str setting_str TOUCHPAD_SETTINGS"

record touchpad_setting_spec =
  spec_command :: int
  spec_minimum :: int
  spec_maximum :: int
  spec_registry_name :: string
  spec_helper_message_id :: int
  spec_companion_commands :: "int list"
  spec_labels :: "string list"

text \<open>The property \<open>TouchpadSettingSpec.boolean\<close>.\<close>

definition spec_boolean :: "touchpad_setting_spec \<Rightarrow> bool" where
  "spec_boolean s = (spec_minimum s = 0 \<and> spec_maximum s = 1 \<and> spec_labels s = [])"

text \<open>The dataclass constructor with its two defaulted fields.\<close>

definition mk_spec :: "int \<Rightarrow> int \<Rightarrow> int \<Rightarrow> string \<Rightarrow> int \<Rightarrow> int list \<Rightarrow> string list \<Rightarrow> touchpad_setting_spec" where
  "mk_spec cmd mn mx reg msg companions labels =
     \<lparr>spec_command = cmd, spec_minimum = mn, spec_maximum = mx, spec_registry_name = reg,
      spec_helper_message_id = msg, spec_companion_commands = companions, spec_labels = labels\<rparr>"

fun TOUCHPAD_SETTING_SPECS :: "touchpad_setting \<Rightarrow> touchpad_setting_spec" where
  "TOUCHPAD_SETTING_SPECS SENSITIVITY =
     mk_spec 0x01 0 1 ''sensitivity'' 0x02 [] [''low'', ''high'']"
| "TOUCHPAD_SETTING_SPECS VIBRATION_INTENSITY =
     mk_spec 0x02 0 2 ''shock'' 0x03 [] [''low'', ''medium'', ''high'']"
| "TOUCHPAD_SETTING_SPECS PRESS_TEXT = mk_spec 0x03 0 1 ''SensitivityPressText'' 0x04 [] []"
| "TOUCHPAD_SETTING_SPECS PRESS_PICTURE = mk_spec 0x04 0 1 ''SensitivityPressPicture'' 0x05 [] []"
| "TOUCHPAD_SETTING_SPECS THREE_FINGER_DRAG = mk_spec 0x05 0 1 ''ThreeFingerDrag'' 0x06 [0x11] []"
| "TOUCHPAD_SETTING_SPECS MOUSE_LIKE_MODE = mk_spec 0x06 0 1 ''MouseLikeMode'' 0x07 [] []"
| "TOUCHPAD_SETTING_SPECS EDGE_BRIGHTNESS = mk_spec 0x07 0 1 ''EdgeGestureAdjusBrightness'' 0x08 [] []"
| "TOUCHPAD_SETTING_SPECS EDGE_VOLUME = mk_spec 0x08 0 1 ''EdgeGestureAdjusVolume'' 0x09 [] []"
| "TOUCHPAD_SETTING_SPECS EDGE_CONTROL_CENTER = mk_spec 0x09 0 1 ''EdgeGestureOpenHiCenter'' 0x0A [] []"
| "TOUCHPAD_SETTING_SPECS EDGE_CLOSE_OR_MINIMIZE =
     mk_spec 0x0A 0 1 ''EdgeGestureCloesOrMinWnd'' 0x0B [] []"
| "TOUCHPAD_SETTING_SPECS KNUCKLE_SCREENSHOT = mk_spec 0x0B 0 1 ''KnuckleScreenShot'' 0x0C [] []"
| "TOUCHPAD_SETTING_SPECS KNUCKLE_SCREEN_RECORD = mk_spec 0x0C 0 1 ''KnuckleRecordScreen'' 0x0D [] []"

definition TOUCHPAD_ALIASES :: "touchpad_setting dict" where
  "TOUCHPAD_ALIASES =
     [(''shock'', VIBRATION_INTENSITY),
      (''sensitivity_press_text'', PRESS_TEXT),
      (''sensitivity_press_picture'', PRESS_PICTURE),
      (''edge_gesture_adjus_brightness'', EDGE_BRIGHTNESS),
      (''edge_gesture_adjus_volume'', EDGE_VOLUME),
      (''edge_gesture_open_hi_center'', EDGE_CONTROL_CENTER),
      (''edge_gesture_cloes_or_min_wnd'', EDGE_CLOSE_OR_MINIMIZE),
      (''knuckle_screen_shot'', KNUCKLE_SCREENSHOT),
      (''knuckle_record_screen'', KNUCKLE_SCREEN_RECORD)]"

section \<open>Parsing\<close>

text \<open>An argument \<open>str | TouchpadSetting\<close>.\<close>

datatype setting_arg = SA_str string | SA_setting touchpad_setting

fun parse_touchpad_setting :: "setting_arg \<Rightarrow> exn + touchpad_setting" where
  "parse_touchpad_setting (SA_setting s) = Inr s"
| "parse_touchpad_setting (SA_str value) =
     (let normalized = py_replace_char CHR ''-'' CHR ''_'' (py_lower (py_strip value))
      in case setting_of_str normalized of
           Inr s \<Rightarrow> Inr s
         | Inl _ \<Rightarrow> (case map_of TOUCHPAD_ALIASES normalized of
             Some s \<Rightarrow> Inr s
           | None \<Rightarrow> Inl (ValueError (''unknown touchpad setting; choose '' @
               concat (map (\<lambda>s. setting_str s @ '', '') (butlast TOUCHPAD_SETTINGS)) @
               setting_str (last TOUCHPAD_SETTINGS)))))"

text \<open>The dictionary \<open>named\<close> built for a textual value.\<close>

definition named_values :: "touchpad_setting_spec \<Rightarrow> int dict" where
  "named_values spec =
     dict_merge
       (if spec_maximum spec = 1
        then [(''off'', 0), (''false'', 0), (''disabled'', 0), (''on'', 1), (''true'', 1), (''enabled'', 1)]
        else [])
       (map (\<lambda>(i, l). (l, int i)) (enumerate 0 (spec_labels spec)))"

text \<open>A value that is neither a number nor a string has no \<open>strip\<close>.\<close>

definition parse_raw_value :: "touchpad_setting \<Rightarrow> pv \<Rightarrow> exn + int" where
  "parse_raw_value canonical value =
     (let spec = TOUCHPAD_SETTING_SPECS canonical in
      case value of
        PBool b \<Rightarrow>
          if spec_maximum spec > 1
          then Inl (ValueError (setting_str canonical @ '' does not accept a boolean; choose '' @
                 concat (map (\<lambda>l. l @ '', '') (butlast (spec_labels spec))) @ last (spec_labels spec)))
          else Inr (of_bool b)
      | PInt i \<Rightarrow> Inr i
      | PStr s \<Rightarrow>
          (let normalized = py_lower (py_strip s) in
           case map_of (named_values spec) normalized of
             Some i \<Rightarrow> Inr i
           | None \<Rightarrow> (case py_int 0 normalized of
               Some i \<Rightarrow> Inr i
             | None \<Rightarrow> Inl (ValueError (''invalid value for '' @ setting_str canonical))))
      | _ \<Rightarrow> Inl (OtherError ''value has no attribute strip''))"

definition parse_touchpad_value :: "setting_arg \<Rightarrow> pv \<Rightarrow> exn + int" where
  "parse_touchpad_value setting value =
     rbind (parse_touchpad_setting setting) (\<lambda>canonical.
     rbind (parse_raw_value canonical value) (\<lambda>parsed.
       let spec = TOUCHPAD_SETTING_SPECS canonical in
       if \<not> (spec_minimum spec \<le> parsed \<and> parsed \<le> spec_maximum spec)
       then Inl (ValueError (setting_str canonical @ '' must be '' @ int_str (spec_minimum spec) @
              ''..'' @ int_str (spec_maximum spec) @ '', got '' @ int_str parsed))
       else Inr parsed))"

section \<open>Reports\<close>

definition make_touchpad_report :: "int \<Rightarrow> int \<Rightarrow> exn + byte list" where
  "make_touchpad_report command val =
     (if \<not> (0 \<le> command \<and> command \<le> 0xFF) \<or> \<not> (0 \<le> val \<and> val \<le> 0xFF)
      then Inl (ValueError ''touchpad command and value must fit in one byte'')
      else Inr [TOUCHPAD_REPORT_ID, word_of_int command, word_of_int val, 0, 0, 0, 0, 0, 0])"

definition encode_touchpad_setting :: "setting_arg \<Rightarrow> pv \<Rightarrow> exn + byte list list" where
  "encode_touchpad_setting setting value =
     rbind (parse_touchpad_setting setting) (\<lambda>canonical.
     rbind (parse_touchpad_value (SA_setting canonical) value) (\<lambda>parsed.
       let spec = TOUCHPAD_SETTING_SPECS canonical in
       rmap (\<lambda>command. make_touchpad_report command parsed)
            (spec_command spec # spec_companion_commands spec)))"

text \<open>\<open>seconds.to_bytes(n, "little")\<close> for a number that fits.\<close>

definition to_bytes_little :: "nat \<Rightarrow> int \<Rightarrow> byte list" where
  "to_bytes_little n i = map (\<lambda>k. word_of_int (i div 256 ^ k)) [0..<n]"

text \<open>\<open>now\<close> is \<open>int(time.time())\<close>.\<close>

definition make_timestamp_report :: "int \<Rightarrow> int option \<Rightarrow> exn + byte list" where
  "make_timestamp_report now epoch_seconds =
     (let seconds = (case epoch_seconds of None \<Rightarrow> now | Some s \<Rightarrow> s)
      in if seconds < 0 \<or> seconds \<ge> push_bit 40 1
         then Inl (ValueError ''epoch timestamp must fit in five bytes'')
         else Inr ([TOUCHPAD_REPORT_ID, 0x00] @ to_bytes_little 5 seconds @ [0, 0]))"

definition make_support_query_report :: "exn + byte list" where
  "make_support_query_report = make_touchpad_report 0xF0 0"

definition SUPPORTED_GESTURE_BITS :: "(nat \<times> string) list" where
  "SUPPORTED_GESTURE_BITS =
     [(1, ''one_knuckle_double_tap''), (2, ''two_knuckle_double_tap''), (3, ''left_edge_up''),
      (4, ''left_edge_down''), (5, ''right_edge_up''), (6, ''right_edge_down''),
      (15, ''top_left_corner_press''), (16, ''top_right_corner_press''),
      (17, ''single_finger_heavy_pressure''), (18, ''right_to_left_slide''),
      (20, ''three_finger_drag''), (26, ''double_finger_pressure''),
      (27, ''three_finger_light_touch'')]"

definition decode_support_report :: "byte list \<Rightarrow> exn + nat set" where
  "decode_support_report report =
     (if length report \<noteq> TOUCHPAD_REPORT_BYTES
      then Inl (ValueError ''support report must be 9 bytes'')
      else if report ! 0 \<noteq> TOUCHPAD_REPORT_ID \<or> report ! 1 \<noteq> 0xF0
      then Inl (ValueError ''not an Honor touchpad support response'')
      else Inr (set (filter (\<lambda>b. uint (report ! (2 + b div 8)) AND push_bit (b mod 8) 1 \<noteq> 0)
                      [0..<(length report - 2) * 8])))"

section \<open>What the parsers accept\<close>

interpretation setting_name: codec setting_str setting_of_str "\<lambda>_. True"
  by unfold_locales (case_tac x; simp add: setting_of_str_def enum_of_str_def TOUCHPAD_SETTINGS_def)

lemma setting_str_normal:
  "py_replace_char CHR ''-'' CHR ''_'' (py_lower (py_strip (setting_str s))) = setting_str s"
  by (cases s) (simp_all add: py_replace_char_def py_lower_def py_lower_char_def py_strip_def
      py_lstrip_def py_rstrip_def py_isspace_def cp_def)

declare parse_touchpad_setting.simps(2) [simp del]

lemma parse_setting_str [simp]: "parse_touchpad_setting (SA_str (setting_str s)) = Inr s"
  by (simp add: parse_touchpad_setting.simps setting_str_normal setting_name.roundtrip)

interpretation setting_arg: codec "\<lambda>s. SA_str (setting_str s)" parse_touchpad_setting "\<lambda>_. True"
  by unfold_locales simp

definition value_ok :: "touchpad_setting \<Rightarrow> int \<Rightarrow> bool" where
  "value_ok s v = (0 \<le> v \<and> v \<le> (if s = VIBRATION_INTENSITY then 2 else 1))"

lemma spec_range:
  "spec_minimum (TOUCHPAD_SETTING_SPECS s) \<le> v \<and> v \<le> spec_maximum (TOUCHPAD_SETTING_SPECS s) \<longleftrightarrow> value_ok s v"
  by (cases s) (auto simp: mk_spec_def value_ok_def)

lemma parse_touchpad_value_iff:
  "parse_touchpad_value a v = Inr n \<longleftrightarrow>
     (\<exists>s. parse_touchpad_setting a = Inr s \<and> parse_raw_value s v = Inr n \<and> value_ok s n)"
  by (auto simp: parse_touchpad_value_def Let_def spec_range [symmetric])

lemma parse_value_int: "parse_touchpad_value (SA_setting s) (PInt n) = Inr m \<longleftrightarrow> m = n \<and> value_ok s n"
  by (auto simp: parse_touchpad_value_iff parse_raw_value_def)

interpretation setting_value: validator "parse_touchpad_value (SA_setting s)" "value_ok s"
  by unfold_locales (simp add: parse_touchpad_value_iff)

section \<open>What the reports say\<close>

definition report_for :: "int \<Rightarrow> int \<Rightarrow> byte list" where
  "report_for c v = [TOUCHPAD_REPORT_ID, word_of_int c, word_of_int v, 0, 0, 0, 0, 0, 0]"

definition setting_commands :: "touchpad_setting \<Rightarrow> int list" where
  "setting_commands s = (let spec = TOUCHPAD_SETTING_SPECS s in spec_command spec # spec_companion_commands spec)"

lemma setting_commands_byte: "c \<in> set (setting_commands s) \<Longrightarrow> 0 \<le> c \<and> c \<le> 17"
  by (cases s) (auto simp: setting_commands_def mk_spec_def)

lemma encode_iff:
  "encode_touchpad_setting a v = Inr rs \<longleftrightarrow>
     (\<exists>s n. parse_touchpad_setting a = Inr s \<and> parse_touchpad_value (SA_setting s) v = Inr n \<and>
            rs = map (\<lambda>c. report_for c n) (setting_commands s))"
proof -
  have "rmap (\<lambda>c. make_touchpad_report c n) (setting_commands s) =
      Inr (map (\<lambda>c. report_for c n) (setting_commands s))" if "value_ok s n" for s n
    using that setting_commands_byte [of _ s]
    by (intro rmap_Inr_map)
       (fastforce simp: make_touchpad_report_def report_for_def value_ok_def split: if_splits)
  moreover have "value_ok s n" if "parse_touchpad_value (SA_setting s) v = Inr n" for s n
    using that by (simp add: parse_touchpad_value_iff)
  ultimately show ?thesis
    unfolding encode_touchpad_setting_def setting_commands_def Let_def by auto
qed

lemma encode_reports_shape:
  assumes "encode_touchpad_setting a v = Inr rs" "r \<in> set rs"
  shows "length r = 9 \<and> r ! 0 = 0x0E \<and> drop 3 r = replicate 6 0"
  using assms by (auto simp: encode_iff report_for_def TOUCHPAD_REPORT_ID_def numeral_eq_Suc)

lemma report_for_inj:
  assumes "report_for c n = report_for c' n'" "0 \<le> c" "c \<le> 255" "0 \<le> c'" "c' \<le> 255"
    "0 \<le> n" "n \<le> 255" "0 \<le> n'" "n' \<le> 255"
  shows "c = c' \<and> n = n'"
proof -
  have "(word_of_int c :: byte) = word_of_int c'" "(word_of_int n :: byte) = word_of_int n'"
    using assms(1) by (simp_all add: report_for_def)
  then have "c mod 256 = c' mod 256" "n mod 256 = n' mod 256"
    by (simp_all add: word_of_int_eq_iff take_bit_eq_mod)
  with assms show ?thesis by simp
qed

lemma encode_inj:
  assumes "encode_touchpad_setting (SA_setting s) v = Inr rs"
    and "encode_touchpad_setting (SA_setting t) w = Inr rs"
  shows "s = t \<and> parse_touchpad_value (SA_setting s) v = parse_touchpad_value (SA_setting t) w"
proof -
  obtain n m where n: "parse_touchpad_value (SA_setting s) v = Inr n" "value_ok s n"
    and m: "parse_touchpad_value (SA_setting t) w = Inr m" "value_ok t m"
    and rs: "rs = map (\<lambda>c. report_for c n) (setting_commands s)"
      "rs = map (\<lambda>c. report_for c m) (setting_commands t)"
    using assms by (auto simp: encode_iff parse_touchpad_value_iff)
  have "report_for (hd (setting_commands s)) n = report_for (hd (setting_commands t)) m"
    using rs by (simp add: setting_commands_def Let_def)
  moreover have "hd (setting_commands s) \<in> set (setting_commands s)"
    "hd (setting_commands t) \<in> set (setting_commands t)"
    by (simp_all add: setting_commands_def Let_def)
  ultimately have "hd (setting_commands s) = hd (setting_commands t) \<and> n = m"
    using n(2) m(2) setting_commands_byte
    by (intro report_for_inj) (fastforce simp: value_ok_def split: if_splits)+
  moreover have "s = t" if "hd (setting_commands s) = hd (setting_commands t)"
    using that by (cases s; cases t) (simp_all add: setting_commands_def mk_spec_def)
  ultimately show ?thesis using n m by simp
qed

subsection \<open>Time stamps\<close>

definition from_bytes_little :: "byte list \<Rightarrow> int" where
  "from_bytes_little bs = foldr (\<lambda>b a. uint b + 256 * a) bs 0"

lemma to_bytes_little_Suc: "to_bytes_little (Suc n) i = word_of_int i # to_bytes_little n (i div 256)"
  unfolding to_bytes_little_def
  by (simp add: upt_conv_Cons map_Suc_upt [symmetric] zdiv_zmult2_eq del: upt_Suc)

lemma from_to_bytes_little: "0 \<le> i \<Longrightarrow> i < 256 ^ n \<Longrightarrow> from_bytes_little (to_bytes_little n i) = i"
proof (induction n arbitrary: i)
  case 0
  then show ?case by (simp add: from_bytes_little_def to_bytes_little_def)
next
  case (Suc n)
  then have "from_bytes_little (to_bytes_little n (i div 256)) = i div 256"
    by (intro Suc.IH) (auto simp: int_div_less mult.commute)
  then show ?case
    by (simp add: to_bytes_little_Suc from_bytes_little_def uint_word_of_int take_bit_eq_mod)
qed

definition read_timestamp :: "byte list \<Rightarrow> unit + int" where
  "read_timestamp r = (if length r = 9 \<and> r ! 0 = 0x0E \<and> r ! 1 = 0
     then Inr (from_bytes_little (take 5 (drop 2 r))) else Inl ())"

lemma length_to_bytes_little [simp]: "length (to_bytes_little n i) = n"
  by (simp add: to_bytes_little_def)

interpretation timestamp:
  codec "\<lambda>s. case make_timestamp_report 0 (Some s) of Inr r \<Rightarrow> r | Inl _ \<Rightarrow> []" read_timestamp
    "\<lambda>s. 0 \<le> s \<and> s < 2 ^ 40"
  by unfold_locales
     (auto simp: make_timestamp_report_def read_timestamp_def TOUCHPAD_REPORT_ID_def
      push_bit_eq_mult from_to_bytes_little)

subsection \<open>Supported gestures\<close>

text \<open>The payload of a support report, as one little-endian number.\<close>

lemma bit_from_bytes_little:
  "bit (from_bytes_little bs) b \<longleftrightarrow> b div 8 < length bs \<and> bit (bs ! (b div 8)) (b mod 8)"
proof (induction bs arbitrary: b)
  case Nil
  then show ?case by (simp add: from_bytes_little_def)
next
  case (Cons x bs)
  have "from_bytes_little (x # bs) = uint x + push_bit 8 (from_bytes_little bs)"
    by (simp add: from_bytes_little_def push_bit_eq_mult)
  also have "\<dots> = uint x OR push_bit 8 (from_bytes_little bs)"
    by (rule disjunctive_add) (auto simp: bit_push_bit_iff bit_uint_iff)
  finally have split: "bit (from_bytes_little (x # bs)) b \<longleftrightarrow>
      b < 8 \<and> bit x b \<or> 8 \<le> b \<and> bit (from_bytes_little bs) (b - 8)"
    by (simp add: bit_or_iff bit_push_bit_iff bit_uint_iff)
  show ?case
  proof (cases "b < 8")
    case True
    then show ?thesis by (simp add: split)
  next
    case False
    then have "b div 8 = Suc ((b - 8) div 8)" "(b - 8) mod 8 = b mod 8"
      by (simp_all add: le_div_geq le_mod_geq)
    with False show ?thesis by (simp add: split Cons.IH)
  qed
qed

lemma and_push_bit_one: "(i AND push_bit n 1 \<noteq> (0 :: int)) \<longleftrightarrow> bit i n"
  by (simp add: bit_iff_and_push_bit_not_eq_0)

lemma decode_support_iff:
  "decode_support_report r = Inr S \<longleftrightarrow>
     length r = 9 \<and> r ! 0 = 0x0E \<and> r ! 1 = 0xF0 \<and> S = {b. bit (from_bytes_little (drop 2 r)) b}"
proof -
  define found where
    "found = set (filter (\<lambda>b. bit (uint (r ! (2 + b div 8))) (b mod 8)) [0..<(length r - 2) * 8])"
  have "found = {b. bit (from_bytes_little (drop 2 r)) b}" if "2 \<le> length r"
  proof -
    have "(b < (length r - 2) * 8) = (b div 8 < length r - 2)" for b
      by (simp add: div_less_iff_less_mult)
    with that show ?thesis by (auto simp: found_def bit_from_bytes_little bit_uint_iff)
  qed
  moreover have "decode_support_report r = Inr S \<longleftrightarrow>
      length r = 9 \<and> r ! 0 = 0x0E \<and> r ! 1 = 0xF0 \<and> S = found"
    unfolding decode_support_report_def and_push_bit_one found_def [symmetric]
    by (auto simp: TOUCHPAD_REPORT_BYTES_def TOUCHPAD_REPORT_ID_def)
  ultimately show ?thesis by auto
qed

section \<open>Properties\<close>

text \<open>
  What the encoder accepts it encodes exactly: every report has nine bytes, the report id, a
  command of the setting, the value and six zeros, one report per command of the setting in order,
  and two encodings are equal only for the same setting with the same firmware value.
\<close>

theorem encode_exact:
  assumes "encode_touchpad_setting (SA_setting s) v = Inr rs"
  shows "\<exists>n. parse_touchpad_value (SA_setting s) v = Inr n \<and> value_ok s n \<and>
      rs = map (\<lambda>c. [0x0E, word_of_int c, word_of_int n, 0, 0, 0, 0, 0, 0])
             (spec_command (TOUCHPAD_SETTING_SPECS s) # spec_companion_commands (TOUCHPAD_SETTING_SPECS s)) \<and>
      (\<forall>t w. encode_touchpad_setting (SA_setting t) w = Inr rs \<longrightarrow>
         t = s \<and> parse_touchpad_value (SA_setting t) w = Inr n)"
proof -
  obtain n where n: "parse_touchpad_value (SA_setting s) v = Inr n"
    "rs = map (\<lambda>c. report_for c n) (setting_commands s)"
    using assms by (auto simp: encode_iff)
  have "t = s \<and> parse_touchpad_value (SA_setting t) w = Inr n"
    if "encode_touchpad_setting (SA_setting t) w = Inr rs" for t w
    using encode_inj [OF assms that] n(1) by simp
  moreover have "value_ok s n" using setting_value.sound [OF n(1)] .
  moreover have "rs = map (\<lambda>c. [0x0E, word_of_int c, word_of_int n, 0, 0, 0, 0, 0, 0])
      (spec_command (TOUCHPAD_SETTING_SPECS s) # spec_companion_commands (TOUCHPAD_SETTING_SPECS s))"
    unfolding n(2) report_for_def setting_commands_def Let_def TOUCHPAD_REPORT_ID_def ..
  ultimately show ?thesis using n(1) by blast
qed

theorem encode_exact_witness:
  "encode_touchpad_setting (SA_setting THREE_FINGER_DRAG) (PStr ''on'') =
     Inr [[0x0E, 5, 1, 0, 0, 0, 0, 0, 0], [0x0E, 17, 1, 0, 0, 0, 0, 0, 0]]"
proof -
  have p: "parse_touchpad_value (SA_setting THREE_FINGER_DRAG) (PStr ''on'') = Inr 1"
    by (simp add: parse_touchpad_value_def parse_raw_value_def mk_spec_def named_values_def py_strip_def
        py_lstrip_def py_rstrip_def py_isspace_def py_lower_def py_lower_char_def cp_def)
  then obtain rs where rs: "encode_touchpad_setting (SA_setting THREE_FINGER_DRAG) (PStr ''on'') = Inr rs"
    using encode_iff [of "SA_setting THREE_FINGER_DRAG" "PStr ''on''"] by auto
  from encode_exact [OF rs] p have "rs = map (\<lambda>c. [0x0E, word_of_int c, word_of_int 1, 0, 0, 0, 0, 0, 0])
      (spec_command (TOUCHPAD_SETTING_SPECS THREE_FINGER_DRAG) #
       spec_companion_commands (TOUCHPAD_SETTING_SPECS THREE_FINGER_DRAG))" by force
  with rs show ?thesis by (simp add: mk_spec_def)
qed

text \<open>
  The support query's answer is read bit by bit: bit \<open>b\<close> of the seven payload bytes, taken as one
  little-endian number, is reported exactly when it is set, and answers of another shape are refused.
\<close>

theorem decode_support_bits:
  "decode_support_report r = Inr S \<longleftrightarrow>
     length r = 9 \<and> r ! 0 = 0x0E \<and> r ! 1 = 0xF0 \<and> S = {b. bit (from_bytes_little (drop 2 r)) b}"
  by (rule decode_support_iff)

end
