(* ===== verification/Service_State.thy ===== *)
theory Service_State
  imports Touchpad
begin

text \<open>
  The desired state of \<^verbatim>\<open>honor_control/backend/config_store.py\<close>: its dataclasses, \<open>default_state\<close>,
  \<open>_state_to_dict\<close>, \<open>_state_from_dict\<close> and \<open>_validate_state\<close>. The \<open>isinstance\<close> checks of
  \<open>_validate_state\<close> on fields that a record types as \<^typ>\<open>bool\<close> or \<^typ>\<open>string\<close> always succeed and are
  not repeated. \<open>valid_state\<close> says what validation accepts; conversion to a dictionary and back is a
  codec on the states that keep the built-in profiles first.
\<close>

section \<open>Records\<close>

definition STATE_SCHEMA_VERSION :: int where "STATE_SCHEMA_VERSION = 3"

record battery_state =
  bt_end_threshold :: int
  bt_start_threshold :: int
  bt_mode :: string

record auto_switch_state =
  as_enabled :: bool
  as_on_ac :: string
  as_on_battery :: string
  as_on_ac_script :: string
  as_on_battery_script :: string

record power_profile_state =
  pp_label :: string
  pp_description :: string
  pp_pl1_uw :: int
  pp_pl2_uw :: int
  pp_governor :: string
  pp_epp :: string
  pp_ppd_profile :: string
  pp_turbo_enabled :: bool
  pp_max_perf_pct :: int

record power_state =
  pw_profile :: string
  pw_auto_switch :: auto_switch_state
  pw_profiles :: "power_profile_state dict"

record fan_state =
  fn_mode :: string
  fn_curves :: "string dict"

record gesture_mapping_state =
  gm_enabled :: bool
  gm_mapping :: string

record gestures_state =
  gt_mappings :: "gesture_mapping_state dict"
  gt_daemon_enabled :: bool

record touchpad_state =
  tp_settings :: "int dict"

record gpu_state =
  gu_mitigation_enabled :: bool

record service_state =
  st_schema_version :: int
  st_battery :: battery_state
  st_power :: power_state
  st_fan :: fan_state
  st_gestures :: gestures_state
  st_touchpad :: touchpad_state
  st_gpu :: gpu_state

definition default_power_profiles :: "power_profile_state dict" where
  "default_power_profiles = map (\<lambda>e. (pe_name e,
     \<lparr>pp_label = pe_label e, pp_description = pe_description e, pp_pl1_uw = pe_pl1_uw e,
      pp_pl2_uw = pe_pl2_uw e, pp_governor = pe_governor e, pp_epp = pe_epp e,
      pp_ppd_profile = pe_ppd_profile e, pp_turbo_enabled = pe_turbo_enabled e,
      pp_max_perf_pct = pe_max_perf_pct e\<rparr>)) POWER_PROFILES"

definition default_state :: service_state where
  "default_state =
     \<lparr>st_schema_version = STATE_SCHEMA_VERSION,
      st_battery = \<lparr>bt_end_threshold = 90, bt_start_threshold = 85, bt_mode = ''home''\<rparr>,
      st_power = \<lparr>pw_profile = ''balanced'',
        pw_auto_switch = \<lparr>as_enabled = False, as_on_ac = ''balanced'', as_on_battery = ''silent'',
          as_on_ac_script = [], as_on_battery_script = []\<rparr>,
        pw_profiles = default_power_profiles\<rparr>,
      st_fan = \<lparr>fn_mode = ''stock'', fn_curves = []\<rparr>,
      st_gestures = \<lparr>gt_mappings = [], gt_daemon_enabled = False\<rparr>,
      st_touchpad = \<lparr>tp_settings = []\<rparr>,
      st_gpu = \<lparr>gu_mitigation_enabled = False\<rparr>\<rparr>"

text \<open>\<open>GestureMappingState()\<close>\<close>

definition gesture_mapping_default :: gesture_mapping_state where
  "gesture_mapping_default = \<lparr>gm_enabled = True, gm_mapping = []\<rparr>"

section \<open>Validation\<close>

abbreviation need :: "string \<Rightarrow> bool \<Rightarrow> exn + unit" where
  "need m b \<equiv> guardr (DomainException DE_INVALID_ARGUMENT m) b"

definition quoted :: "string \<Rightarrow> string" where
  "quoted s = CHR 0x27 # s @ [CHR 0x27]"

text \<open>The body of the loop over \<open>state.power.profiles\<close>.\<close>

definition validate_profile_state :: "string list \<Rightarrow> string \<times> power_profile_state \<Rightarrow> exn + unit" where
  "validate_profile_state profile_names np =
     (case np of (name, p) \<Rightarrow>
      rbind (validate_power_profile name (Some profile_names)) (\<lambda>_.
      rbind (need (''Invalid label for profile '' @ quoted name)
               (py_strip (pp_label p) \<noteq> [] \<and> length (pp_label p) \<le> 64)) (\<lambda>_.
      rbind (need (''Description is too long for profile '' @ quoted name)
               (length (pp_description p) \<le> 256)) (\<lambda>_.
      rbind (need (''PL1 out of range for profile '' @ quoted name)
               (POWER_PL1_MIN_UW \<le> pp_pl1_uw p \<and> pp_pl1_uw p \<le> POWER_PL1_MAX_UW)) (\<lambda>_.
      rbind (need (''PL2 out of range for profile '' @ quoted name)
               (pp_pl1_uw p \<le> pp_pl2_uw p \<and> pp_pl2_uw p \<le> POWER_PL2_MAX_UW)) (\<lambda>_.
      rbind (need (''Invalid governor for profile '' @ quoted name)
               (pp_governor p \<in> {''powersave'', ''performance''})) (\<lambda>_.
      rbind (need (''Invalid EPP for profile '' @ quoted name)
               (pp_epp p \<in> {''power'', ''default'', ''balance_power'', ''balance_performance'',
                            ''performance''})) (\<lambda>_.
      rbind (need (''Invalid PPD profile for '' @ quoted name)
               (pp_ppd_profile p \<in> {''power-saver'', ''balanced'', ''performance''})) (\<lambda>_.
      need (''Max performance percentage out of range for '' @ quoted name)
        (1 \<le> pp_max_perf_pct p \<and> pp_max_perf_pct p \<le> 100))))))))))"

definition validate_script_text :: "string \<Rightarrow> exn + unit" where
  "validate_script_text script =
     need ''Invalid auto-switch script'' (length script \<le> 1024 \<and> CHR 0x00 \<notin> set script)"

definition validate_curve_entry :: "string list \<Rightarrow> string \<times> string \<Rightarrow> exn + unit" where
  "validate_curve_entry profile_names pc =
     (case pc of (profile, curve) \<Rightarrow>
      rbind (if profile \<noteq> ''default''
             then rbind (validate_power_profile profile (Some profile_names)) (\<lambda>_. Inr ())
             else Inr ()) (\<lambda>_.
      rbind (parse_curve (PStr curve)) (\<lambda>_. Inr ())))"

definition validate_mapping_entry :: "string \<times> gesture_mapping_state \<Rightarrow> exn + unit" where
  "validate_mapping_entry gm =
     (case gm of (gesture_id, mapping) \<Rightarrow>
      rbind (validate_gesture_id gesture_id) (\<lambda>_.
      if gm_mapping mapping \<noteq> []
      then rbind (validate_key_combo (PStr (gm_mapping mapping))) (\<lambda>_. Inr ())
      else Inr ()))"

text \<open>\<open>except ValueError as exc: raise DomainException(INVALID_ARGUMENT, str(exc))\<close>\<close>

definition value_error_invalid :: "exn + 'a \<Rightarrow> exn + 'a" where
  "value_error_invalid r = (case r of Inl (ValueError m) \<Rightarrow> invalid m | _ \<Rightarrow> r)"

definition validate_touchpad_entry :: "string \<times> int \<Rightarrow> exn + unit" where
  "validate_touchpad_entry nv =
     (case nv of (name, val) \<Rightarrow>
      value_error_invalid
        (rbind (parse_touchpad_setting (SA_str name)) (\<lambda>canonical.
         rbind (guardr (ValueError ''touchpad setting is not canonical'') (setting_str canonical = name)) (\<lambda>_.
         rbind (parse_touchpad_value (SA_setting canonical) (PInt val)) (\<lambda>_. Inr ())))))"

definition validate_state :: "service_state \<Rightarrow> exn + unit" where
  "validate_state s =
     (let power = st_power s; auto = pw_auto_switch power; profile_names = map fst (pw_profiles power) in
      rbind (need (''Expected state schema 3, got '' @ int_str (st_schema_version s))
               (st_schema_version s = STATE_SCHEMA_VERSION)) (\<lambda>_.
      rbind (validate_thresholds (PInt (bt_end_threshold (st_battery s)))
               (PInt (bt_start_threshold (st_battery s)))) (\<lambda>_.
      rbind (need (''Unknown battery mode '' @ quoted (bt_mode (st_battery s)))
               (bt_mode (st_battery s) \<in> {''off'', ''home'', ''travel'', ''storage'', ''custom''})) (\<lambda>_.
      rbind (need ''At least one profile is required'' (profile_names \<noteq> [])) (\<lambda>_.
      rbind (rall (validate_profile_state profile_names) (pw_profiles power)) (\<lambda>_.
      rbind (validate_power_profile (pw_profile power) (Some profile_names)) (\<lambda>_.
      rbind (validate_power_profile (as_on_ac auto) (Some profile_names)) (\<lambda>_.
      rbind (validate_power_profile (as_on_battery auto) (Some profile_names)) (\<lambda>_.
      rbind (rall validate_script_text [as_on_ac_script auto, as_on_battery_script auto]) (\<lambda>_.
      rbind (validate_fan_mode (fn_mode (st_fan s))) (\<lambda>_.
      rbind (rall (validate_curve_entry profile_names) (fn_curves (st_fan s))) (\<lambda>_.
      rbind (rall validate_mapping_entry (gt_mappings (st_gestures s))) (\<lambda>_.
      rall validate_touchpad_entry (tp_settings (st_touchpad s)))))))))))))))"

section \<open>Dictionaries\<close>

text \<open>\<open>asdict(state)\<close>, with the current schema version.\<close>

definition profile_to_dict :: "power_profile_state \<Rightarrow> pv dict" where
  "profile_to_dict p =
     [(''label'', PStr (pp_label p)), (''description'', PStr (pp_description p)),
      (''pl1_uw'', PInt (pp_pl1_uw p)), (''pl2_uw'', PInt (pp_pl2_uw p)),
      (''governor'', PStr (pp_governor p)), (''epp'', PStr (pp_epp p)),
      (''ppd_profile'', PStr (pp_ppd_profile p)), (''turbo_enabled'', PBool (pp_turbo_enabled p)),
      (''max_perf_pct'', PInt (pp_max_perf_pct p))]"

definition mapping_to_dict :: "gesture_mapping_state \<Rightarrow> pv dict" where
  "mapping_to_dict m = [(''enabled'', PBool (gm_enabled m)), (''mapping'', PStr (gm_mapping m))]"

definition state_to_dict :: "service_state \<Rightarrow> pv dict" where
  "state_to_dict s =
     (let b = st_battery s; p = st_power s; a = pw_auto_switch p; f = st_fan s; g = st_gestures s in
      [(''schema_version'', PInt STATE_SCHEMA_VERSION),
       (''battery'', PDict [(''end_threshold'', PInt (bt_end_threshold b)),
          (''start_threshold'', PInt (bt_start_threshold b)), (''mode'', PStr (bt_mode b))]),
       (''power'', PDict [(''profile'', PStr (pw_profile p)),
          (''auto_switch'', PDict [(''enabled'', PBool (as_enabled a)), (''on_ac'', PStr (as_on_ac a)),
             (''on_battery'', PStr (as_on_battery a)), (''on_ac_script'', PStr (as_on_ac_script a)),
             (''on_battery_script'', PStr (as_on_battery_script a))]),
          (''profiles'', PDict (map (\<lambda>(n, q). (n, PDict (profile_to_dict q))) (pw_profiles p)))]),
       (''fan'', PDict [(''mode'', PStr (fn_mode f)),
          (''curves'', PDict (map (\<lambda>(n, c). (n, PStr c)) (fn_curves f)))]),
       (''gestures'', PDict [
          (''mappings'', PDict (map (\<lambda>(n, m). (n, PDict (mapping_to_dict m))) (gt_mappings g))),
          (''daemon_enabled'', PBool (gt_daemon_enabled g))]),
       (''touchpad'', PDict [
          (''settings'', PDict (map (\<lambda>(n, v). (n, PInt v)) (tp_settings (st_touchpad s))))]),
       (''gpu'', PDict [(''mitigation_enabled'', PBool (gu_mitigation_enabled (st_gpu s)))])])"

text \<open>The local functions \<open>table\<close>, \<open>integer\<close>, \<open>boolean\<close> and \<open>string\<close> of \<open>_state_from_dict\<close>.\<close>

definition get_table :: "pv dict \<Rightarrow> string \<Rightarrow> exn + pv dict" where
  "get_table parent key = (case dget parent key (PDict []) of
     PDict d \<Rightarrow> Inr d | _ \<Rightarrow> invalid (quoted key @ '' must be a table''))"

definition get_integer :: "pv dict \<Rightarrow> string \<Rightarrow> int \<Rightarrow> exn + int" where
  "get_integer parent key dflt = (case dget parent key (PInt dflt) of
     PInt i \<Rightarrow> Inr i | _ \<Rightarrow> invalid (quoted key @ '' must be an integer''))"

definition get_boolean :: "pv dict \<Rightarrow> string \<Rightarrow> bool \<Rightarrow> exn + bool" where
  "get_boolean parent key dflt = (case dget parent key (PBool dflt) of
     PBool b \<Rightarrow> Inr b | _ \<Rightarrow> invalid (quoted key @ '' must be a boolean''))"

definition get_string :: "pv dict \<Rightarrow> string \<Rightarrow> string \<Rightarrow> exn + string" where
  "get_string parent key dflt = (case dget parent key (PStr dflt) of
     PStr s \<Rightarrow> Inr s | _ \<Rightarrow> invalid (quoted key @ '' must be a string''))"

lemmas get_defs = get_table_def get_integer_def get_boolean_def get_string_def

text \<open>\<open>str.title()\<close>: the first letter of every run of letters in upper case, the others in lower
  case. Letters whose upper case lies outside the modelled range stay as they are.\<close>

definition is_cased :: "char \<Rightarrow> bool" where
  "is_cased c = (is_lower c \<or> is_upper c \<or> (192 \<le> cp c \<and> cp c \<noteq> 215 \<and> cp c \<noteq> 247) \<or>
     cp c \<in> {170, 181, 186})"

definition py_upper_char :: "char \<Rightarrow> char" where
  "py_upper_char c = (if is_lower c \<or> (224 \<le> cp c \<and> cp c \<le> 254 \<and> cp c \<noteq> 247)
     then char_of (cp c - 32) else c)"

fun title_from :: "bool \<Rightarrow> string \<Rightarrow> string" where
  "title_from inside [] = []"
| "title_from inside (c # cs) =
     (if inside then py_lower_char c else py_upper_char c) # title_from (is_cased c) cs"

definition profile_from_dict :: "string \<Rightarrow> pv dict \<Rightarrow> exn + power_profile_state" where
  "profile_from_dict name d =
     rbind (get_string d ''label'' (title_from False (py_replace_char CHR ''_'' CHR '' '' name))) (\<lambda>label.
     rbind (get_string d ''description'' []) (\<lambda>description.
     rbind (get_integer d ''pl1_uw'' 25000000) (\<lambda>pl1.
     rbind (get_integer d ''pl2_uw'' 35000000) (\<lambda>pl2.
     rbind (get_string d ''governor'' ''powersave'') (\<lambda>governor.
     rbind (get_string d ''epp'' ''balance_power'') (\<lambda>epp.
     rbind (get_string d ''ppd_profile'' ''balanced'') (\<lambda>ppd.
     rbind (get_boolean d ''turbo_enabled'' True) (\<lambda>turbo.
     rbind (get_integer d ''max_perf_pct'' 100) (\<lambda>pct.
     Inr \<lparr>pp_label = label, pp_description = description, pp_pl1_uw = pl1, pp_pl2_uw = pl2,
          pp_governor = governor, pp_epp = epp, pp_ppd_profile = ppd, pp_turbo_enabled = turbo,
          pp_max_perf_pct = pct\<rparr>)))))))))"

fun load_profiles :: "pv dict \<Rightarrow> power_profile_state dict \<Rightarrow> exn + power_profile_state dict" where
  "load_profiles [] profiles = Inr profiles"
| "load_profiles ((name, data) # r) profiles =
     (case data of
        PDict d \<Rightarrow> rbind (profile_from_dict name d) (\<lambda>p. load_profiles r (AList.update name p profiles))
      | _ \<Rightarrow> invalid ''Power profiles must be tables keyed by profile name'')"

fun load_curves :: "pv dict \<Rightarrow> string dict \<Rightarrow> exn + string dict" where
  "load_curves [] curves = Inr curves"
| "load_curves ((key, val) # r) curves =
     (case val of
        PStr c \<Rightarrow> load_curves r (AList.update key c curves)
      | _ \<Rightarrow> invalid ''Fan curve names and values must be strings'')"

fun load_mappings :: "pv dict \<Rightarrow> gesture_mapping_state dict \<Rightarrow> exn + gesture_mapping_state dict" where
  "load_mappings [] mappings = Inr mappings"
| "load_mappings ((gid, mdata) # r) mappings =
     (case mdata of
        PDict d \<Rightarrow>
          rbind (get_boolean d ''enabled'' True) (\<lambda>enabled.
          rbind (get_string d ''mapping'' []) (\<lambda>mapping.
          load_mappings r (AList.update gid \<lparr>gm_enabled = enabled, gm_mapping = mapping\<rparr> mappings)))
      | _ \<Rightarrow> invalid ''Gesture mappings must be tables keyed by gesture ID'')"

fun load_settings :: "pv dict \<Rightarrow> int dict \<Rightarrow> exn + int dict" where
  "load_settings [] settings = Inr settings"
| "load_settings ((name, val) # r) settings =
     rbind (value_error_invalid
              (rbind (parse_touchpad_setting (SA_str name)) (\<lambda>canonical.
               rbind (parse_touchpad_value (SA_setting canonical) val) (\<lambda>parsed.
               Inr (setting_str canonical, parsed))))) (\<lambda>(key, parsed).
       load_settings r (AList.update key parsed settings))"

definition check_schema_version :: "pv dict \<Rightarrow> exn + unit" where
  "check_schema_version data = (case dget data ''schema_version'' (PInt 1) of
     PInt v \<Rightarrow>
       if v < 1 then invalid ''Invalid schema_version''
       else if v > STATE_SCHEMA_VERSION
       then Inl (DomainException DE_UNSUPPORTED (''State schema '' @ int_str v @
              '' is newer than supported schema 3''))
       else Inr ()
   | _ \<Rightarrow> invalid ''Invalid schema_version'')"

definition battery_from_dict :: "pv dict \<Rightarrow> exn + battery_state" where
  "battery_from_dict d =
     rbind (get_integer d ''end_threshold'' 90) (\<lambda>en.
     rbind (get_integer d ''start_threshold'' 85) (\<lambda>st.
     rbind (validate_thresholds (PInt en) (PInt st)) (\<lambda>_.
     rbind (get_string d ''mode'' ''home'') (\<lambda>mode.
     Inr \<lparr>bt_end_threshold = en, bt_start_threshold = st, bt_mode = mode\<rparr>))))"

definition power_from_dict :: "pv dict \<Rightarrow> exn + power_state" where
  "power_from_dict d =
     rbind (get_table d ''auto_switch'') (\<lambda>a.
     rbind (get_table d ''profiles'') (\<lambda>raw_profiles.
     rbind (load_profiles raw_profiles default_power_profiles) (\<lambda>profiles.
     rbind (get_string d ''profile'' ''balanced'') (\<lambda>profile.
     rbind (get_boolean a ''enabled'' False) (\<lambda>enabled.
     rbind (get_string a ''on_ac'' ''balanced'') (\<lambda>on_ac.
     rbind (get_string a ''on_battery'' ''silent'') (\<lambda>on_battery.
     rbind (get_string a ''on_ac_script'' []) (\<lambda>on_ac_script.
     rbind (get_string a ''on_battery_script'' []) (\<lambda>on_battery_script.
     Inr \<lparr>pw_profile = profile,
          pw_auto_switch = \<lparr>as_enabled = enabled, as_on_ac = on_ac, as_on_battery = on_battery,
            as_on_ac_script = on_ac_script, as_on_battery_script = on_battery_script\<rparr>,
          pw_profiles = profiles\<rparr>)))))))))"

definition state_from_dict :: "pv \<Rightarrow> exn + service_state" where
  "state_from_dict doc =
     (case doc of
        PDict data \<Rightarrow>
          rbind (check_schema_version data) (\<lambda>_.
          rbind (get_table data ''battery'') (\<lambda>bat_data.
          rbind (battery_from_dict bat_data) (\<lambda>battery.
          rbind (get_table data ''power'') (\<lambda>pw_data.
          rbind (power_from_dict pw_data) (\<lambda>power.
          rbind (get_table data ''fan'') (\<lambda>fan_data.
          rbind (get_table fan_data ''curves'') (\<lambda>raw_curves.
          rbind (load_curves raw_curves []) (\<lambda>curves.
          rbind (get_string fan_data ''mode'' ''stock'') (\<lambda>mode.
          rbind (get_table data ''gestures'') (\<lambda>ges_data.
          rbind (get_table ges_data ''mappings'') (\<lambda>raw_mappings.
          rbind (load_mappings raw_mappings []) (\<lambda>mappings.
          rbind (get_boolean ges_data ''daemon_enabled'' False) (\<lambda>daemon.
          rbind (get_table data ''touchpad'') (\<lambda>touchpad_data.
          rbind (get_table touchpad_data ''settings'') (\<lambda>raw_settings.
          rbind (load_settings raw_settings []) (\<lambda>settings.
          rbind (get_table data ''gpu'') (\<lambda>gpu_data.
          rbind (get_boolean gpu_data ''mitigation_enabled'' False) (\<lambda>mitigation.
          let state = \<lparr>st_schema_version = STATE_SCHEMA_VERSION, st_battery = battery,
                st_power = power, st_fan = \<lparr>fn_mode = mode, fn_curves = curves\<rparr>,
                st_gestures = \<lparr>gt_mappings = mappings, gt_daemon_enabled = daemon\<rparr>,
                st_touchpad = \<lparr>tp_settings = settings\<rparr>,
                st_gpu = \<lparr>gu_mitigation_enabled = mitigation\<rparr>\<rparr>
          in rbind (validate_state state) (\<lambda>_. Inr state)))))))))))))))))))
      | _ \<Rightarrow> invalid ''State document must be a TOML table'')"

section \<open>What validation accepts\<close>

definition profile_ok :: "power_profile_state \<Rightarrow> bool" where
  "profile_ok p =
     (py_strip (pp_label p) \<noteq> [] \<and> length (pp_label p) \<le> 64 \<and> length (pp_description p) \<le> 256
      \<and> 3000000 \<le> pp_pl1_uw p \<and> pp_pl1_uw p \<le> 35000000
      \<and> pp_pl1_uw p \<le> pp_pl2_uw p \<and> pp_pl2_uw p \<le> 55000000
      \<and> pp_governor p \<in> {''powersave'', ''performance''}
      \<and> pp_epp p \<in> {''power'', ''default'', ''balance_power'', ''balance_performance'', ''performance''}
      \<and> pp_ppd_profile p \<in> {''power-saver'', ''balanced'', ''performance''}
      \<and> 1 \<le> pp_max_perf_pct p \<and> pp_max_perf_pct p \<le> 100)"

text \<open>A name is known if its normal form is a key of the registry.\<close>

definition known_profile :: "string list \<Rightarrow> string \<Rightarrow> bool" where
  "known_profile ns n = (profile_name_re (py_lower (py_strip n)) \<and> py_lower (py_strip n) \<in> set ns)"

definition curve_ok :: "string \<Rightarrow> bool" where
  "curve_ok c = is_ok (parse_curve (PStr c))"

definition mapping_ok :: "string \<Rightarrow> gesture_mapping_state \<Rightarrow> bool" where
  "mapping_ok gid m = (gesture_id_re (py_strip gid) \<and>
     (gm_mapping m = [] \<or> is_ok (validate_key_combo (PStr (gm_mapping m)))))"

definition setting_ok :: "string \<Rightarrow> int \<Rightarrow> bool" where
  "setting_ok n v = (\<exists>t \<in> set TOUCHPAD_SETTINGS. setting_str t = n \<and> value_ok t v)"

definition script_ok :: "string \<Rightarrow> bool" where
  "script_ok s = (length s \<le> 1024 \<and> CHR 0x00 \<notin> set s)"

definition valid_state :: "service_state \<Rightarrow> bool" where
  "valid_state s =
     (let p = st_power s; a = pw_auto_switch p; ns = map fst (pw_profiles p) in
      st_schema_version s = 3
      \<and> valid_thresholds (bt_end_threshold (st_battery s), bt_start_threshold (st_battery s))
      \<and> bt_mode (st_battery s) \<in> {''off'', ''home'', ''travel'', ''storage'', ''custom''}
      \<and> pw_profiles p \<noteq> []
      \<and> (\<forall>(n, q) \<in> set (pw_profiles p). known_profile ns n \<and> profile_ok q)
      \<and> known_profile ns (pw_profile p) \<and> known_profile ns (as_on_ac a) \<and> known_profile ns (as_on_battery a)
      \<and> script_ok (as_on_ac_script a) \<and> script_ok (as_on_battery_script a)
      \<and> fn_mode (st_fan s) \<in> {''stock'', ''curve'', ''manual_override'', ''failed_safe''}
      \<and> (\<forall>(n, c) \<in> set (fn_curves (st_fan s)). (n = ''default'' \<or> known_profile ns n) \<and> curve_ok c)
      \<and> (\<forall>(g, m) \<in> set (gt_mappings (st_gestures s)). mapping_ok g m)
      \<and> (\<forall>(n, v) \<in> set (tp_settings (st_touchpad s)). setting_ok n v))"

lemma validate_profile_name_iff:
  "validate_profile_name n = Inr m \<longleftrightarrow> m = py_lower (py_strip n) \<and> profile_name_re m"
  by (auto simp: validate_profile_name_def Let_def profile_name_re_def py_lower_def split: if_splits)

lemma validate_power_profile_known:
  "validate_power_profile n (Some ns) = Inr m \<longleftrightarrow> m = py_lower (py_strip n) \<and> known_profile ns n"
  by (auto simp: validate_power_profile_iff validate_profile_name_iff known_profile_def)

lemma validate_profile_state_iff:
  "validate_profile_state ns (n, q) = Inr u \<longleftrightarrow> known_profile ns n \<and> profile_ok q"
  unfolding validate_profile_state_def profile_ok_def prod.case
  by (simp only: rbind_eq_Inr_iff validate_power_profile_known guardr_eq_Inr power_bounds) auto

lemma validate_curve_entry_iff:
  "validate_curve_entry ns (n, c) = Inr u \<longleftrightarrow> (n = ''default'' \<or> known_profile ns n) \<and> curve_ok c"
  unfolding validate_curve_entry_def curve_ok_def is_ok_iff prod.case
  by (auto simp: validate_power_profile_known)

lemma validate_gesture_id_iff: "validate_gesture_id g = Inr h \<longleftrightarrow> h = py_strip g \<and> gesture_id_re h"
  by (auto simp: validate_gesture_id_def Let_def gesture_id_re_def split: if_splits)

lemma validate_mapping_entry_iff: "validate_mapping_entry (g, m) = Inr u \<longleftrightarrow> mapping_ok g m"
  unfolding validate_mapping_entry_def mapping_ok_def is_ok_iff prod.case
  by (auto simp: validate_gesture_id_iff)

lemma value_error_invalid_Inr [simp]: "value_error_invalid r = Inr x \<longleftrightarrow> r = Inr x"
  by (cases r) (auto simp: value_error_invalid_def split: exn.splits)

lemma TOUCHPAD_SETTINGS_all [simp]: "t \<in> set TOUCHPAD_SETTINGS"
  by (cases t) (simp_all add: TOUCHPAD_SETTINGS_def)

lemma validate_touchpad_entry_iff: "validate_touchpad_entry (n, v) = Inr u \<longleftrightarrow> setting_ok n v"
  unfolding validate_touchpad_entry_def setting_ok_def prod.case
  by (auto simp: parse_value_int)

lemma validate_fan_mode_known:
  "(\<exists>m. validate_fan_mode s = Inr m) \<longleftrightarrow> s \<in> {''stock'', ''curve'', ''manual_override'', ''failed_safe''}"
proof -
  have "(\<exists>m. s = fan_mode_str m) \<longleftrightarrow> s \<in> fan_mode_str ` {FM_STOCK, FM_CURVE, FM_MANUAL_OVERRIDE, FM_FAILED_SAFE}"
    (is "?l \<longleftrightarrow> ?r")
  proof
    assume ?l
    then obtain m where "s = fan_mode_str m" by blast
    then show ?r by (cases m) simp_all
  qed blast
  then show ?thesis by (simp add: validate_fan_mode_iff)
qed

lemma validate_state_iff: "validate_state s = Inr u \<longleftrightarrow> valid_state s"
proof -
  have v: "(\<exists>m. validate_fan_mode (fn_mode (st_fan s)) = Inr m \<and> P) \<longleftrightarrow>
      fn_mode (st_fan s) \<in> {''stock'', ''curve'', ''manual_override'', ''failed_safe''} \<and> P" for P
    using validate_fan_mode_known by blast
  show ?thesis
    unfolding validate_state_def valid_state_def Let_def
    by (simp only: rbind_eq_Inr_iff guardr_eq_Inr rall_eq_Inr_iff validate_thresholds_iff
          validate_power_profile_known v split_paired_All validate_profile_state_iff Ball_def
          validate_curve_entry_iff validate_mapping_entry_iff validate_touchpad_entry_iff
          case_prod_conv)
       (auto simp: STATE_SCHEMA_VERSION_def validate_script_text_def script_ok_def)
qed

interpretation state: validator state_from_dict valid_state
proof unfold_locales
  fix doc s
  assume "state_from_dict doc = Inr s"
  then show "valid_state s"
    by (cases doc) (auto simp: state_from_dict_def Let_def validate_state_iff)
qed

lemma known_profile_id: "profile_name_re n \<Longrightarrow> n \<in> set ns \<Longrightarrow> known_profile ns n"
  by (simp add: known_profile_def profile_name_re_normal)

lemma default_state_valid: "valid_state default_state"
  by (simp add: valid_state_def default_state_def STATE_SCHEMA_VERSION_def valid_thresholds_def
      default_power_profiles_def POWER_PROFILES_def known_profile_id profile_name_re_def is_lower_def
      cp_def profile_ok_def script_ok_def py_strip_def py_lstrip_def py_rstrip_def py_isspace_def)

section \<open>Round trip\<close>

text \<open>The built-in profiles come first, in their order, and the keys of every table are distinct.\<close>

definition canonical_state :: "service_state \<Rightarrow> bool" where
  "canonical_state s =
     (dict_ok (pw_profiles (st_power s))
      \<and> map fst (take 3 (pw_profiles (st_power s))) = POWER_PROFILE_NAMES
      \<and> dict_ok (fn_curves (st_fan s)) \<and> dict_ok (gt_mappings (st_gestures s))
      \<and> dict_ok (tp_settings (st_touchpad s)))"

lemma update_append: "k \<notin> fst ` set d \<Longrightarrow> AList.update k v d = d @ [(k, v)]"
  by (induction d) auto

lemma update_mid: "k \<notin> fst ` set d \<Longrightarrow> AList.update k v (d @ (k, w) # e) = d @ (k, v) # e"
  by (induction d) auto

lemma dict_merge_prefix:
  assumes "distinct (map fst (pre @ b))" "map fst a = take (length a) (map fst b)"
  shows "dict_merge (pre @ a) b = pre @ b"
  using assms
proof (induction b arbitrary: pre a)
  case (Cons kv b)
  obtain k v where kv: "kv = (k, v)" by (cases kv)
  have k: "k \<notin> fst ` set pre" and d: "distinct (map fst ((pre @ [(k, v)]) @ b))"
    using Cons.prems(1) kv by auto
  show ?case
  proof (cases a)
    case Nil
    have "dict_merge ((pre @ [(k, v)]) @ []) b = (pre @ [(k, v)]) @ b"
      using d by (intro Cons.IH) auto
    with Nil kv k show ?thesis by (simp add: update_append)
  next
    case (Cons x a')
    then obtain w where x: "x = (k, w)" using Cons.prems(2) kv by (cases x) auto
    have "dict_merge ((pre @ [(k, v)]) @ a') b = (pre @ [(k, v)]) @ b"
      using d Cons.prems(2) Cons by (intro Cons.IH) auto
    with Cons x kv k show ?thesis by (simp add: update_mid)
  qed
qed simp

lemma dict_merge_id: "dict_ok d \<Longrightarrow> dict_merge [] d = d"
  using dict_merge_prefix [of "[]" d "[]"] by (simp add: dict_ok_def)

lemma profile_from_to: "profile_from_dict n (profile_to_dict p) = Inr p"
  by (simp add: profile_from_dict_def profile_to_dict_def get_defs dget_def)

lemma load_profiles_to_dict:
  "load_profiles (map (\<lambda>(n, q). (n, PDict (profile_to_dict q))) ps) acc = Inr (dict_merge acc ps)"
  by (induction ps arbitrary: acc) (auto simp: profile_from_to)

lemma load_curves_to_dict: "load_curves (map (\<lambda>(n, c). (n, PStr c)) cs) acc = Inr (dict_merge acc cs)"
  by (induction cs arbitrary: acc) auto

lemma mapping_state_eta: "\<lparr>gm_enabled = gm_enabled m, gm_mapping = gm_mapping m\<rparr> = m"
  by (cases m) simp

lemma load_mappings_to_dict:
  "load_mappings (map (\<lambda>(n, m). (n, PDict (mapping_to_dict m))) ms) acc = Inr (dict_merge acc ms)"
  by (induction ms arbitrary: acc) (auto simp: mapping_to_dict_def get_defs dget_def mapping_state_eta)

lemma load_settings_to_dict:
  "(\<And>n v. (n, v) \<in> set ss \<Longrightarrow> setting_ok n v) \<Longrightarrow>
     load_settings (map (\<lambda>(n, v). (n, PInt v)) ss) acc = Inr (dict_merge acc ss)"
proof (induction ss arbitrary: acc)
  case (Cons nv ss)
  obtain n v where nv: "nv = (n, v)" by (cases nv)
  with Cons.prems [of n v] obtain t where t: "n = setting_str t" "value_ok t v"
    by (auto simp: setting_ok_def)
  then have "parse_touchpad_value (SA_setting t) (PInt v) = Inr v" by (simp add: parse_value_int)
  with Cons nv t show ?case by (simp add: value_error_invalid_def)
qed simp

lemma state_eta:
  "\<lparr>st_schema_version = st_schema_version s,
    st_battery = \<lparr>bt_end_threshold = bt_end_threshold (st_battery s),
      bt_start_threshold = bt_start_threshold (st_battery s), bt_mode = bt_mode (st_battery s)\<rparr>,
    st_power = \<lparr>pw_profile = pw_profile (st_power s),
      pw_auto_switch = \<lparr>as_enabled = as_enabled (pw_auto_switch (st_power s)),
        as_on_ac = as_on_ac (pw_auto_switch (st_power s)),
        as_on_battery = as_on_battery (pw_auto_switch (st_power s)),
        as_on_ac_script = as_on_ac_script (pw_auto_switch (st_power s)),
        as_on_battery_script = as_on_battery_script (pw_auto_switch (st_power s))\<rparr>,
      pw_profiles = pw_profiles (st_power s)\<rparr>,
    st_fan = \<lparr>fn_mode = fn_mode (st_fan s), fn_curves = fn_curves (st_fan s)\<rparr>,
    st_gestures = \<lparr>gt_mappings = gt_mappings (st_gestures s),
      gt_daemon_enabled = gt_daemon_enabled (st_gestures s)\<rparr>,
    st_touchpad = \<lparr>tp_settings = tp_settings (st_touchpad s)\<rparr>,
    st_gpu = \<lparr>gu_mitigation_enabled = gu_mitigation_enabled (st_gpu s)\<rparr>\<rparr> = s"
  by simp

lemma state_from_to:
  assumes v: "valid_state s" and c: "canonical_state s"
  shows "state_from_dict (PDict (state_to_dict s)) = Inr s"
proof -
  have "map fst default_power_profiles = take (length default_power_profiles) (map fst (pw_profiles (st_power s)))"
    using c by (simp add: canonical_state_def default_power_profiles_def POWER_PROFILES_def
        POWER_PROFILE_NAMES_def take_map numeral_3_eq_3)
  then have prof: "dict_merge default_power_profiles (pw_profiles (st_power s)) = pw_profiles (st_power s)"
    using dict_merge_prefix [of "[]" "pw_profiles (st_power s)" default_power_profiles] c by (simp add: canonical_state_def dict_ok_def)
  have sett: "\<And>n v. (n, v) \<in> set (tp_settings (st_touchpad s)) \<Longrightarrow> setting_ok n v"
    using v by (auto simp: valid_state_def Let_def)
  have "validate_state s = Inr ()" "validate_thresholds (PInt (bt_end_threshold (st_battery s)))
      (PInt (bt_start_threshold (st_battery s))) =
      Inr (bt_end_threshold (st_battery s), bt_start_threshold (st_battery s))"
    and three: "st_schema_version s = STATE_SCHEMA_VERSION"
    using v by (simp_all add: validate_state_iff validate_thresholds_iff valid_state_def Let_def
        STATE_SCHEMA_VERSION_def)
  moreover have schema_positive: "\<not> STATE_SCHEMA_VERSION < 1" by (simp add: STATE_SCHEMA_VERSION_def)
  ultimately show ?thesis using c prof
    by (simp add: state_from_dict_def state_to_dict_def Let_def check_schema_version_def get_defs dget_def
        battery_from_dict_def power_from_dict_def load_profiles_to_dict load_curves_to_dict
        load_mappings_to_dict load_settings_to_dict [OF sett] canonical_state_def dict_merge_id
        state_eta [of s, unfolded three] schema_positive)
qed

interpretation state_codec:
  codec "\<lambda>s. PDict (state_to_dict s)" state_from_dict "\<lambda>s. valid_state s \<and> canonical_state s"
  by unfold_locales (simp add: state_from_to)

section \<open>Properties\<close>

text \<open>
  C31: A state document is accepted only if the state it describes satisfies every range and
  reference check, and a state that does so and keeps the built-in profiles first is read back
  unchanged from the dictionary it is saved as.
\<close>

theorem state_document_roundtrip:
  assumes "valid_state s" "canonical_state s"
  shows "state_from_dict (PDict (state_to_dict s)) = Inr s \<and>
    (\<forall>doc s'. state_from_dict doc = Inr s' \<longrightarrow> valid_state s')"
  using assms state_from_to state.sound by blast

lemma default_state_canonical: "canonical_state default_state"
  by (simp add: canonical_state_def default_state_def default_power_profiles_def POWER_PROFILES_def
      POWER_PROFILE_NAMES_def dict_ok_def)

theorem state_document_roundtrip_witness:
  "state_from_dict (PDict (state_to_dict default_state)) = Inr default_state"
  using state_document_roundtrip [OF default_state_valid default_state_canonical] by simp

end
