(* ===== verification/Toml.thy ===== *)
theory Toml
  imports Domain
begin

text \<open>
  The serialiser of \<^verbatim>\<open>honor_control/backend/config_store.py\<close>: \<open>_toml_key\<close>, \<open>_toml_value\<close> and
  \<open>_toml_dump\<close>, with \<open>json.dumps\<close> of a string. \<open>repr\<close> of a finite float is the parameter \<open>float_repr\<close>;
  the service's state holds no floats. Quoting is a codec, so that no string can break out of its
  line or its quotes.
\<close>

section \<open>Quoting\<close>

definition hex_digit :: "nat \<Rightarrow> char" where
  "hex_digit n = (if n < 10 then char_of (48 + n) else char_of (87 + n))"

text \<open>One character of \<open>json.dumps\<close> with \<open>ensure_ascii\<close>.\<close>

definition json_char :: "char \<Rightarrow> string" where
  "json_char c =
     (if c = CHR 0x22 then [CHR 0x5C, CHR 0x22]
      else if c = CHR 0x5C then [CHR 0x5C, CHR 0x5C]
      else if c = CHR 0x0A then [CHR 0x5C, CHR ''n'']
      else if c = CHR 0x0D then [CHR 0x5C, CHR ''r'']
      else if c = CHR 0x09 then [CHR 0x5C, CHR ''t'']
      else if c = CHR 0x0C then [CHR 0x5C, CHR ''f'']
      else if c = CHR 0x08 then [CHR 0x5C, CHR ''b'']
      else if 32 \<le> cp c \<and> cp c \<le> 126 then [c]
      else [CHR 0x5C, CHR ''u'', CHR ''0'', CHR ''0'', hex_digit (cp c div 16), hex_digit (cp c mod 16)])"

definition json_dumps :: "string \<Rightarrow> string" where
  "json_dumps s = CHR 0x22 # concat (map json_char s) @ [CHR 0x22]"

definition bare_toml_key :: "string \<Rightarrow> bool" where
  "bare_toml_key s = (s \<noteq> [] \<and>
     list_all (\<lambda>c. is_lower c \<or> is_upper c \<or> is_digit c \<or> c = CHR ''_'' \<or> c = CHR ''-'') s)"

definition toml_key :: "string \<Rightarrow> string" where
  "toml_key v = (if bare_toml_key v then v else json_dumps v)"

section \<open>Values and tables\<close>

fun join_with :: "string \<Rightarrow> string list \<Rightarrow> string" where
  "join_with sep [] = []"
| "join_with sep [x] = x"
| "join_with sep (x # y # ys) = x @ sep @ join_with sep (y # ys)"

lemma rmap_cong [fundef_cong]:
  "xs = ys \<Longrightarrow> (\<And>x. x \<in> set ys \<Longrightarrow> f x = g x) \<Longrightarrow> rmap f xs = rmap g ys"
  by (induction ys arbitrary: xs) auto

fun toml_value :: "(rat \<Rightarrow> string) \<Rightarrow> pv \<Rightarrow> exn + string" where
  "toml_value float_repr (PBool b) = Inr (py_lower (bool_str b))"
| "toml_value float_repr (PInt i) = Inr (int_str i)"
| "toml_value float_repr (PFloat q) = Inr (float_repr q)"
| "toml_value float_repr (PNonFinite n) = Inl (ValueError ''Non-finite floats are not supported in state TOML'')"
| "toml_value float_repr (PStr s) = Inr (json_dumps s)"
| "toml_value float_repr (PList xs) =
     rbind (rmap (toml_value float_repr) xs) (\<lambda>ys. Inr (''['' @ join_with '', '' ys @ '']''))"
| "toml_value float_repr (PTuple xs) = Inl (TypeError ''Unsupported TOML value type: tuple'')"
| "toml_value float_repr (PDict d) = Inl (TypeError ''Unsupported TOML value type: dict'')"
| "toml_value float_repr PNone = Inl (TypeError ''Unsupported TOML value type: NoneType'')"

fun dump_scalars :: "(rat \<Rightarrow> string) \<Rightarrow> pv dict \<Rightarrow> string list \<Rightarrow> exn + string list" where
  "dump_scalars float_repr [] lines = Inr lines"
| "dump_scalars float_repr ((key, v) # r) lines =
     (case v of
        PDict d \<Rightarrow> dump_scalars float_repr r lines
      | _ \<Rightarrow> rbind (toml_value float_repr v) (\<lambda>t.
               dump_scalars float_repr r (lines @ [toml_key key @ '' = '' @ t])))"

definition table_header :: "string list \<Rightarrow> string list \<Rightarrow> string list" where
  "table_header path lines =
     (if path = [] then lines
      else (if lines \<noteq> [] \<and> last lines \<noteq> [] then lines @ [[]] else lines) @
           [''['' @ py_join CHR ''.'' (map toml_key path) @ '']''])"

function dump_table :: "(rat \<Rightarrow> string) \<Rightarrow> pv dict \<Rightarrow> string list \<Rightarrow> string list \<Rightarrow> exn + string list"
  and dump_children :: "(rat \<Rightarrow> string) \<Rightarrow> pv dict \<Rightarrow> string list \<Rightarrow> string list \<Rightarrow> exn + string list" where
  "dump_table float_repr obj path lines =
     rbind (dump_scalars float_repr obj (table_header path lines)) (\<lambda>lines'.
     dump_children float_repr obj path lines')"
| "dump_children float_repr [] path lines = Inr lines"
| "dump_children float_repr ((key, v) # r) path lines =
     (case v of
        PDict d \<Rightarrow> rbind (dump_table float_repr d (path @ [key]) lines) (\<lambda>lines'.
                     dump_children float_repr r path lines')
      | _ \<Rightarrow> dump_children float_repr r path lines)"
  by pat_completeness auto
termination
  by (relation "measure (\<lambda>x. case x of Inl (_, d, _) \<Rightarrow> 2 * size_list (size_prod (\<lambda>_. 0) size) d + 1
      | Inr (_, d, _) \<Rightarrow> 2 * size_list (size_prod (\<lambda>_. 0) size) d)") auto

definition toml_dump :: "(rat \<Rightarrow> string) \<Rightarrow> pv \<Rightarrow> exn + string" where
  "toml_dump float_repr doc =
     (case doc of
        PDict d \<Rightarrow> rbind (dump_table float_repr d [] []) (\<lambda>lines. Inr (py_join CHR 0x0A lines @ [CHR 0x0A]))
      | _ \<Rightarrow> Inl (TypeError ''TOML document root must be a dict''))"

section \<open>Quoted strings read back\<close>

definition hex_val :: "char \<Rightarrow> nat" where
  "hex_val c = (if is_digit c then cp c - 48 else cp c - 87)"

text \<open>The basic-string reader of the TOML specification, as far as \<open>json_dumps\<close> uses it.\<close>

definition ESCAPES :: "(char \<times> char) list" where
  "ESCAPES = [(CHR 0x22, CHR 0x22), (CHR 0x5C, CHR 0x5C), (CHR ''n'', CHR 0x0A), (CHR ''r'', CHR 0x0D),
     (CHR ''t'', CHR 0x09), (CHR ''f'', CHR 0x0C), (CHR ''b'', CHR 0x08)]"

fun unquote :: "string \<Rightarrow> string option" where
  "unquote [] = None"
| "unquote (c # r) =
     (if c = CHR 0x22 then (if r = [] then Some [] else None)
      else if c = CHR 0x5C then
        (case r of [] \<Rightarrow> None
         | e # r' \<Rightarrow>
             if e = CHR ''u'' then
               (case r' of a # b # x # y # r'' \<Rightarrow>
                  map_option ((#) (char_of (4096 * hex_val a + 256 * hex_val b + 16 * hex_val x + hex_val y)))
                    (unquote r'')
                | _ \<Rightarrow> None)
             else (case map_of ESCAPES e of None \<Rightarrow> None | Some d \<Rightarrow> map_option ((#) d) (unquote r')))
      else if 32 \<le> cp c \<and> cp c \<noteq> 127 then map_option ((#) c) (unquote r) else None)"

definition read_quoted :: "string \<Rightarrow> unit + string" where
  "read_quoted s = (case s of [] \<Rightarrow> Inl () | q # r \<Rightarrow>
     if q \<noteq> CHR 0x22 then Inl () else case unquote r of None \<Rightarrow> Inl () | Some t \<Rightarrow> Inr t)"

lemma hex_val_digit: "n < 16 \<Longrightarrow> hex_val (hex_digit n) = n"
  by (auto simp: hex_val_def hex_digit_def is_digit_def)

lemma cp_high_nibble: "cp c div 16 < 16"
  using cp_less [of c] by linarith

lemma unquote_json_char: "unquote (json_char c @ r) = map_option ((#) c) (unquote r)"
proof -
  have zero: "hex_val CHR ''0'' = 0" by (simp add: hex_val_def is_digit_def cp_def)
  have "16 * hex_val (hex_digit (cp c div 16)) + hex_val (hex_digit (cp c mod 16)) = cp c"
    using cp_high_nibble [of c] by (simp add: hex_val_digit)
  then have "char_of (16 * hex_val (hex_digit (cp c div 16)) + hex_val (hex_digit (cp c mod 16))) = c"
    by (simp add: cp_def)
  then show ?thesis
    by (auto simp: json_char_def ESCAPES_def zero)
qed

lemma unquote_json: "unquote (concat (map json_char s) @ [CHR 0x22]) = Some s"
  by (induction s) (simp_all add: unquote_json_char)

interpretation json: codec json_dumps read_quoted "\<lambda>_. True"
  by unfold_locales (simp add: json_dumps_def read_quoted_def unquote_json)

lemma hex_digit_printable: "n < 16 \<Longrightarrow> 32 \<le> cp (hex_digit n) \<and> cp (hex_digit n) \<le> 126"
  by (auto simp: hex_digit_def)

lemma json_char_printable: "d \<in> set (json_char c) \<Longrightarrow> 32 \<le> cp d \<and> cp d \<le> 126"
  using hex_digit_printable [OF cp_high_nibble [of c]] hex_digit_printable [of "cp c mod 16"]
  by (auto simp: json_char_def cp_def split: if_splits)

lemma json_dumps_printable: "d \<in> set (json_dumps s) \<Longrightarrow> 32 \<le> cp d \<and> cp d \<le> 126"
  by (auto simp: json_dumps_def cp_def dest: json_char_printable [unfolded cp_def])

lemma toml_key_printable: "d \<in> set (toml_key s) \<Longrightarrow> 32 \<le> cp d \<and> cp d \<le> 126"
  by (auto simp: toml_key_def bare_toml_key_def list_all_iff is_lower_def is_upper_def is_digit_def cp_def
      dest: json_dumps_printable [unfolded cp_def] split: if_splits)

section \<open>Properties\<close>

text \<open>
  A quoted string reads back as the string that was written, and its text is printable ASCII, so
  that no persisted string (a script command, a profile label) can end its line or its quotes early.
\<close>

theorem json_dumps_safe:
  "read_quoted (json_dumps s) = Inr s \<and> list_all (\<lambda>c. 32 \<le> cp c \<and> cp c \<le> 126) (json_dumps s)"
  using json.roundtrip [of s] json_dumps_printable [of _ s] by (simp add: list_all_iff)

end
