(* ===== verification/Config_Store.thy ===== *)
theory Config_Store
  imports Service_State Toml
begin

text \<open>
  The class \<open>ConfigStore\<close> of \<^verbatim>\<open>honor_control/backend/config_store.py\<close>: loading with the start-up backup,
  the validated \<open>update\<close>, the atomic save and the import. The disk holds the primary file, the bounded
  backup and the number of temporary files a failed clean-up left behind. Every call to the operating
  system may fail: the failures of one operation are a record of exceptions, and a copy that fails may
  leave anything in the backup. \<open>tomllib\<close>'s reader and \<open>repr\<close> of floats are parameters. The locks make
  the operations one at a time; waiting for them is not modelled.
\<close>

section \<open>The store, its disk and its environment\<close>

record disk =
  dk_primary :: "string option"
  dk_backup :: "string option"
  dk_stray_temps :: nat

record config_store =
  cs_state :: service_state
  cs_valid :: bool
  cs_last_error :: string
  cs_has_loaded :: bool
  cs_disk :: disk

record store_env =
  se_toml_load :: "string \<Rightarrow> exn + pv"
  se_float_repr :: "rat \<Rightarrow> string"

text \<open>A store just constructed over a disk.\<close>

definition store_init :: "disk \<Rightarrow> config_store" where
  "store_init d = \<lparr>cs_state = default_state, cs_valid = True, cs_last_error = [],
     cs_has_loaded = False, cs_disk = d\<rparr>"

record load_faults =
  lf_exists :: "exn option"
  lf_primary :: "exn option"
  lf_backup :: "exn option"

text \<open>\<open>sf_write\<close> covers opening, writing, flushing and syncing the temporary file; a failed \<open>copy2\<close> says what the backup holds
  afterwards.\<close>

record save_faults =
  sf_mkdir :: "exn option"
  sf_read :: "exn option"
  sf_copy :: "(exn \<times> string option) option"
  sf_mkstemp :: "exn option"
  sf_fchmod :: "exn option"
  sf_write :: "exn option"
  sf_replace :: "exn option"
  sf_open_dir :: "exn option"
  sf_unlink :: "exn option"

definition no_load_faults :: load_faults where
  "no_load_faults = \<lparr>lf_exists = None, lf_primary = None, lf_backup = None\<rparr>"

definition no_save_faults :: save_faults where
  "no_save_faults = \<lparr>sf_mkdir = None, sf_read = None, sf_copy = None, sf_mkstemp = None,
     sf_fchmod = None, sf_write = None, sf_replace = None, sf_open_dir = None, sf_unlink = None\<rparr>"

definition raise_if :: "exn option \<Rightarrow> exn + unit" where
  "raise_if f = (case f of None \<Rightarrow> Inr () | Some e \<Rightarrow> Inl e)"

lemma raise_if_simps [simp]: "raise_if None = Inr ()" "raise_if (Some e) = Inl e"
  by (simp_all add: raise_if_def)

lemma raise_if_Inr [simp]: "raise_if f = Inr u \<longleftrightarrow> f = None"
  by (cases f) auto

section \<open>Loading\<close>

definition read_toml :: "store_env \<Rightarrow> exn option \<Rightarrow> string \<Rightarrow> exn + pv" where
  "read_toml env fault text = rbind (raise_if fault) (\<lambda>_. se_toml_load env text)"

text \<open>The recovery of the backup: a backup that is missing or unusable leaves the state alone.\<close>

definition recover_backup :: "store_env \<Rightarrow> load_faults \<Rightarrow> config_store \<Rightarrow> config_store" where
  "recover_backup env lf cs =
     (case dk_backup (cs_disk cs) of
        None \<Rightarrow> cs
      | Some text \<Rightarrow> (case rbind (read_toml env (lf_backup lf) text) state_from_dict of
          Inl _ \<Rightarrow> cs
        | Inr s \<Rightarrow> cs\<lparr>cs_state := s\<rparr>))"

definition load_from :: "store_env \<Rightarrow> load_faults \<Rightarrow> bool \<Rightarrow> config_store \<Rightarrow> config_store" where
  "load_from env lf allow_backup cs =
     (let loaded =
        rbind (raise_if (lf_exists lf)) (\<lambda>_.
          case dk_primary (cs_disk cs) of
            None \<Rightarrow> Inr default_state
          | Some text \<Rightarrow> rbind (read_toml env (lf_primary lf) text) state_from_dict)
      in (case loaded of
            Inr s \<Rightarrow> cs\<lparr>cs_state := s, cs_valid := True, cs_last_error := []\<rparr>
          | Inl e \<Rightarrow>
              let cs' = cs\<lparr>cs_valid := False, cs_last_error := exn_str e\<rparr>
              in if allow_backup then recover_backup env lf cs' else cs')
         \<lparr>cs_has_loaded := True\<rparr>)"

definition load :: "store_env \<Rightarrow> load_faults \<Rightarrow> config_store \<Rightarrow> config_store" where
  "load env lf cs = load_from env lf (\<not> cs_has_loaded cs) cs"

definition reload :: "store_env \<Rightarrow> load_faults \<Rightarrow> config_store \<Rightarrow> config_store" where
  "reload env lf cs = load_from env lf False cs"

section \<open>Saving\<close>

text \<open>The backup of a primary file that still loads; every failure is only logged.\<close>

definition backup_primary :: "store_env \<Rightarrow> save_faults \<Rightarrow> disk \<Rightarrow> disk" where
  "backup_primary env sf d =
     (case dk_primary d of
        None \<Rightarrow> d
      | Some text \<Rightarrow>
          (case rbind (read_toml env (sf_read sf) text) state_from_dict of
             Inl _ \<Rightarrow> d
           | Inr _ \<Rightarrow> (case sf_copy sf of
               None \<Rightarrow> d\<lparr>dk_backup := Some text\<rparr>
             | Some (_, torn) \<Rightarrow> d\<lparr>dk_backup := torn\<rparr>)))"

text \<open>From \<open>fchmod\<close> to \<open>_fsync_dir\<close>, once the temporary file exists: the disk changes only when the
  temporary file replaces the primary.\<close>

definition write_and_replace :: "store_env \<Rightarrow> save_faults \<Rightarrow> service_state \<Rightarrow> disk \<Rightarrow> (exn + unit) \<times> disk" where
  "write_and_replace env sf s d =
     (case rbind (raise_if (sf_fchmod sf)) (\<lambda>_.
           rbind (toml_dump (se_float_repr env) (PDict (state_to_dict s))) (\<lambda>text.
           rbind (raise_if (sf_write sf)) (\<lambda>_.
           rbind (raise_if (sf_replace sf)) (\<lambda>_. Inr text)))) of
        Inl e \<Rightarrow> (Inl e, if sf_unlink sf = None then d else d\<lparr>dk_stray_temps := Suc (dk_stray_temps d)\<rparr>)
      | Inr text \<Rightarrow> (raise_if (sf_open_dir sf), d\<lparr>dk_primary := Some text\<rparr>))"

definition save_atomic :: "store_env \<Rightarrow> save_faults \<Rightarrow> service_state \<Rightarrow> config_store \<Rightarrow> (exn + unit) \<times> config_store" where
  "save_atomic env sf s cs =
     (case sf_mkdir sf of
        Some e \<Rightarrow> (Inl e, cs)
      | None \<Rightarrow>
          let cs1 = cs\<lparr>cs_disk := backup_primary env sf (cs_disk cs)\<rparr> in
          case sf_mkstemp sf of
            Some e \<Rightarrow> (Inl e, cs1)
          | None \<Rightarrow>
              (case write_and_replace env sf s (cs_disk cs1) of
                 (Inl e, d) \<Rightarrow>
                   (Inl e, cs1\<lparr>cs_disk := d, cs_valid := False, cs_last_error := ''Atomic state save failed''\<rparr>)
               | (Inr u, d) \<Rightarrow>
                   (Inr (), cs1\<lparr>cs_disk := d, cs_valid := True, cs_last_error := []\<rparr>)))"

definition is_domain_exception :: "exn \<Rightarrow> bool" where
  "is_domain_exception e = (case e of DomainException _ _ \<Rightarrow> True | _ \<Rightarrow> False)"

text \<open>\<open>update(mutator)\<close>. The mutator may raise before anything is written.\<close>

definition update :: "store_env \<Rightarrow> save_faults \<Rightarrow> (service_state \<Rightarrow> exn + service_state) \<Rightarrow> config_store \<Rightarrow>
    (exn + service_state) \<times> config_store" where
  "update env sf mutator cs =
     (case rbind (mutator (cs_state cs)) (\<lambda>s. rbind (validate_state s) (\<lambda>_. Inr s)) of
        Inl e \<Rightarrow> (Inl e, cs)
      | Inr s \<Rightarrow>
          (case save_atomic env sf s cs of
             (Inl e, cs') \<Rightarrow>
               if is_domain_exception e then (Inl e, cs')
               else (Inl (DomainException DE_INTERNAL ''Failed to persist service state''),
                     cs'\<lparr>cs_valid := False, cs_last_error := exn_str e\<rparr>)
           | (Inr u, cs') \<Rightarrow> (Inr s, cs'\<lparr>cs_state := s, cs_has_loaded := True\<rparr>)))"

definition export_state_dict :: "config_store \<Rightarrow> pv dict" where
  "export_state_dict cs = state_to_dict (cs_state cs)"

definition import_state_dict :: "store_env \<Rightarrow> save_faults \<Rightarrow> pv \<Rightarrow> config_store \<Rightarrow>
    (exn + service_state) \<times> config_store" where
  "import_state_dict env sf data cs =
     (case rbind (state_from_dict data) (\<lambda>s. rbind (validate_state s) (\<lambda>_. Inr s)) of
        Inl e \<Rightarrow> (Inl e, cs)
      | Inr s \<Rightarrow>
          (case save_atomic env sf s cs of
             (Inl e, cs') \<Rightarrow>
               (Inl (DomainException DE_INTERNAL ''Failed to import service state''),
                cs'\<lparr>cs_valid := False, cs_last_error := exn_str e\<rparr>)
           | (Inr u, cs') \<Rightarrow> (Inr s, cs'\<lparr>cs_state := s\<rparr>)))"

section \<open>What the operations keep\<close>

text \<open>The text a state is saved as.\<close>

definition state_text :: "store_env \<Rightarrow> service_state \<Rightarrow> exn + string" where
  "state_text env s = toml_dump (se_float_repr env) (PDict (state_to_dict s))"

lemma save_atomic_state [simp]: "cs_state (snd (save_atomic env sf s cs)) = cs_state cs"
  by (auto simp: save_atomic_def Let_def split: option.splits prod.splits sum.splits)

lemma backup_primary_primary [simp]: "dk_primary (backup_primary env sf d) = dk_primary d"
  by (auto simp: backup_primary_def split: option.splits sum.splits)

lemma write_and_replace_ok:
  "write_and_replace env sf s d = (Inr u, d') \<Longrightarrow> \<exists>t. state_text env s = Inr t \<and> d' = d\<lparr>dk_primary := Some t\<rparr>"
  by (auto simp: write_and_replace_def state_text_def split: sum.splits)

lemma write_and_replace_primary:
  "dk_primary (snd (write_and_replace env sf s d)) = dk_primary d \<or>
   (\<exists>t. state_text env s = Inr t \<and> dk_primary (snd (write_and_replace env sf s d)) = Some t)"
  by (auto simp: write_and_replace_def state_text_def split: sum.splits)

lemma write_and_replace_backup [simp]: "dk_backup (snd (write_and_replace env sf s d)) = dk_backup d"
  by (auto simp: write_and_replace_def split: sum.splits)

text \<open>The primary file is the old text or the complete new text, whatever fails.\<close>

lemma save_atomic_primary:
  "dk_primary (cs_disk (snd (save_atomic env sf s cs))) = dk_primary (cs_disk cs) \<or>
   (\<exists>t. state_text env s = Inr t \<and> dk_primary (cs_disk (snd (save_atomic env sf s cs))) = Some t)"
  using write_and_replace_primary [of env sf s "backup_primary env sf (cs_disk cs)"]
  by (auto simp: save_atomic_def Let_def split: option.splits prod.splits sum.splits)

lemma save_atomic_ok:
  assumes "save_atomic env sf s cs = (Inr u, cs')"
  shows "\<exists>t. state_text env s = Inr t \<and> dk_primary (cs_disk cs') = Some t"
    and "cs_valid cs'" "cs_last_error cs' = []"
  using assms write_and_replace_ok [of env sf s "backup_primary env sf (cs_disk cs)"]
  by (fastforce simp: save_atomic_def Let_def split: option.splits prod.splits sum.splits)+

lemma save_atomic_fails_invalid:
  assumes "save_atomic env sf s cs = (Inl e, cs')"
  shows "\<not> cs_valid cs' \<or> cs_valid cs' = cs_valid cs"
  using assms by (auto simp: save_atomic_def Let_def split: option.splits prod.splits sum.splits)

text \<open>The backup never takes the text of a primary that does not load.\<close>

lemma backup_primary_loads:
  assumes "dk_backup (backup_primary env sf d) \<noteq> dk_backup d" "sf_copy sf = None"
  shows "\<exists>t s. dk_backup (backup_primary env sf d) = Some t \<and> dk_primary d = Some t \<and>
     rbind (se_toml_load env t) state_from_dict = Inr s"
  using assms by (auto simp: backup_primary_def read_toml_def split: option.splits sum.splits)

lemma update_cases:
  "(\<exists>e. fst (update env sf m cs) = Inl e \<and> cs_state (snd (update env sf m cs)) = cs_state cs) \<or>
   (\<exists>s. fst (update env sf m cs) = Inr s \<and> m (cs_state cs) = Inr s \<and> valid_state s \<and>
        cs_state (snd (update env sf m cs)) = s \<and>
        (\<exists>t. state_text env s = Inr t \<and> dk_primary (cs_disk (snd (update env sf m cs))) = Some t))"
proof (cases "rbind (m (cs_state cs)) (\<lambda>s. rbind (validate_state s) (\<lambda>_. Inr s))")
  case (Inl e)
  then show ?thesis by (simp add: update_def)
next
  case (Inr s)
  obtain r cs' where sv: "save_atomic env sf s cs = (r, cs')" by fastforce
  then have "cs_state cs' = cs_state cs" using save_atomic_state [of env sf s cs] by simp
  moreover have "update env sf m cs = (case save_atomic env sf s cs of
      (Inl e, cs') \<Rightarrow> if is_domain_exception e then (Inl e, cs')
        else (Inl (DomainException DE_INTERNAL ''Failed to persist service state''),
              cs'\<lparr>cs_valid := False, cs_last_error := exn_str e\<rparr>)
    | (Inr u, cs') \<Rightarrow> (Inr s, cs'\<lparr>cs_state := s, cs_has_loaded := True\<rparr>))"
    by (simp only: update_def Inr sum.case)
  moreover have "m (cs_state cs) = Inr s" "valid_state s"
    using Inr by (auto simp: validate_state_iff)
  ultimately show ?thesis
    using sv save_atomic_ok(1) [of env sf s cs] by (cases r) auto
qed

lemma update_ok:
  assumes "update env sf m cs = (Inr s, cs')"
  shows "m (cs_state cs) = Inr s" "valid_state s" "cs_state cs' = s"
    "\<exists>t. state_text env s = Inr t \<and> dk_primary (cs_disk cs') = Some t"
  using update_cases [of env sf m cs] assms by auto

lemma update_fail: "update env sf m cs = (Inl e, cs') \<Longrightarrow> cs_state cs' = cs_state cs"
  using update_cases [of env sf m cs] by auto

lemma load_from_valid:
  assumes "valid_state (cs_state cs)"
  shows "valid_state (cs_state (load_from env lf b cs))"
  using assms default_state_valid
  by (auto simp: load_from_def recover_backup_def Let_def rbind_def read_toml_def
      split: option.splits sum.splits dest: state.sound)

lemma update_primary:
  "dk_primary (cs_disk (snd (update env sf m cs))) = dk_primary (cs_disk cs) \<or>
   (\<exists>s t. m (cs_state cs) = Inr s \<and> valid_state s \<and> state_text env s = Inr t \<and>
          dk_primary (cs_disk (snd (update env sf m cs))) = Some t)"
proof (cases "rbind (m (cs_state cs)) (\<lambda>s. rbind (validate_state s) (\<lambda>_. Inr s))")
  case (Inr s)
  then have s: "m (cs_state cs) = Inr s" "valid_state s" by (auto simp: validate_state_iff)
  have "cs_disk (snd (update env sf m cs)) = cs_disk (snd (save_atomic env sf s cs))"
    by (simp only: update_def Inr sum.case) (auto split: prod.splits sum.splits)
  with s save_atomic_primary [of env sf s cs] show ?thesis by auto
qed (simp add: update_def)

lemma load_from_invalid:
  assumes "\<not> cs_valid (load_from env lf b cs)"
  shows "cs_state (load_from env lf b cs) = cs_state cs \<or>
    (b \<and> (\<exists>t. dk_backup (cs_disk cs) = Some t \<and>
       rbind (se_toml_load env t) state_from_dict = Inr (cs_state (load_from env lf b cs))))"
  using assms
  by (auto simp: load_from_def recover_backup_def Let_def rbind_def read_toml_def raise_if_def
      split: option.splits sum.splits if_splits)

lemma import_ok:
  assumes "import_state_dict env sf data cs = (r, cs')" "valid_state (cs_state cs)"
  shows "valid_state (cs_state cs')"
proof (cases "rbind (state_from_dict data) (\<lambda>s. rbind (validate_state s) (\<lambda>_. Inr s))")
  case (Inl e)
  with assms show ?thesis by (auto simp: import_state_dict_def)
next
  case (Inr s)
  then have v: "valid_state s" by (auto simp: validate_state_iff)
  obtain r' d where sv: "save_atomic env sf s cs = (r', d)" by fastforce
  then have "cs_state d = cs_state cs" using save_atomic_state [of env sf s cs] by simp
  moreover have "import_state_dict env sf data cs = (case save_atomic env sf s cs of
      (Inl e, cs') \<Rightarrow> (Inl (DomainException DE_INTERNAL ''Failed to import service state''),
                cs'\<lparr>cs_valid := False, cs_last_error := exn_str e\<rparr>)
    | (Inr u, cs') \<Rightarrow> (Inr s, cs'\<lparr>cs_state := s\<rparr>))"
    by (simp only: import_state_dict_def Inr sum.case)
  ultimately show ?thesis using v sv assms by (cases r') auto
qed

section \<open>The contract of the store\<close>

text \<open>A sequence of updates, each with its own failures, and the results they return.\<close>

fun run_updates :: "('f \<Rightarrow> ('s \<Rightarrow> exn + 's) \<Rightarrow> 'c \<Rightarrow> (exn + 's) \<times> 'c) \<Rightarrow>
    ('f \<times> ('s \<Rightarrow> exn + 's)) list \<Rightarrow> 'c \<Rightarrow> (exn + 's) list \<times> 'c" where
  "run_updates upd [] c = ([], c)"
| "run_updates upd ((f, m) # r) c =
     (let (x, c1) = upd f m c; (xs, c2) = run_updates upd r c1 in (x # xs, c2))"

text \<open>The specification: the mutators whose update returned, applied one after the other.\<close>

fun apply_successes :: "('f \<times> ('s \<Rightarrow> exn + 's)) list \<Rightarrow> (exn + 's) list \<Rightarrow> 's \<Rightarrow> 's" where
  "apply_successes ((f, m) # r) (x # xs) s =
     apply_successes r xs (case x of Inl _ \<Rightarrow> s | Inr _ \<Rightarrow> (case m s of Inl _ \<Rightarrow> s | Inr s' \<Rightarrow> s'))"
| "apply_successes _ _ s = s"

text \<open>
  What the rest of the service relies on: an update that returns has applied its mutator to the
  current state and the result is good; an update that raises has changed nothing a reader sees.
\<close>

locale atomic_store =
  fixes get :: "'c \<Rightarrow> 's"
    and upd :: "'f \<Rightarrow> ('s \<Rightarrow> exn + 's) \<Rightarrow> 'c \<Rightarrow> (exn + 's) \<times> 'c"
    and good :: "'s \<Rightarrow> bool"
  assumes upd_ok: "upd f m c = (Inr s, c') \<Longrightarrow> m (get c) = Inr s \<and> good s \<and> get c' = s"
    and upd_fail: "upd f m c = (Inl e, c') \<Longrightarrow> get c' = get c"
begin

lemma upd_good: "good (get c) \<Longrightarrow> good (get (snd (upd f m c)))"
  by (cases "upd f m c"; cases "fst (upd f m c)") (auto dest: upd_ok upd_fail)

lemma run_updates_good: "good (get c) \<Longrightarrow> good (get (snd (run_updates upd ops c)))"
proof (induction ops arbitrary: c)
  case (Cons fm r)
  obtain f m where fm: "fm = (f, m)" by (cases fm)
  obtain x c1 where u: "upd f m c = (x, c1)" by fastforce
  have "good (get c1)" using upd_good [OF Cons.prems, of f m] u by simp
  from Cons.IH [OF this] fm u show ?case by (auto simp: split_beta Let_def)
qed simp

lemma run_updates_compose:
  "get (snd (run_updates upd ops c)) = apply_successes ops (fst (run_updates upd ops c)) (get c)"
proof (induction ops arbitrary: c)
  case (Cons fm r)
  obtain f m where fm: "fm = (f, m)" by (cases fm)
  obtain x c1 where u: "upd f m c = (x, c1)" by fastforce
  have "get c1 = (case x of Inl _ \<Rightarrow> get c | Inr _ \<Rightarrow> (case m (get c) of Inl _ \<Rightarrow> get c | Inr s' \<Rightarrow> s'))"
    using u upd_ok [of f m c] upd_fail [of f m c] by (cases x) auto
  with Cons.IH [of c1] fm u show ?case by (auto simp: split_beta Let_def)
qed simp

end

interpretation store: atomic_store cs_state "update env" valid_state
  by unfold_locales (simp_all add: update_ok update_fail)

section \<open>Properties\<close>

text \<open>
  C22: An update is all or nothing. If it returns, the mutator's result passed validation, is the
  store's state and its complete text is the primary file. If it raises, the state is the old one and
  the primary file is the old text or the complete new text, whichever system call failed.
\<close>

theorem update_atomic:
  "(case update env sf m cs of
      (Inr s, cs') \<Rightarrow> m (cs_state cs) = Inr s \<and> valid_state s \<and> cs_state cs' = s \<and>
        (\<exists>t. state_text env s = Inr t \<and> dk_primary (cs_disk cs') = Some t)
    | (Inl e, cs') \<Rightarrow> cs_state cs' = cs_state cs \<and>
        (dk_primary (cs_disk cs') = dk_primary (cs_disk cs) \<or>
         (\<exists>s t. m (cs_state cs) = Inr s \<and> valid_state s \<and> state_text env s = Inr t \<and>
                dk_primary (cs_disk cs') = Some t)))"
proof (cases "update env sf m cs")
  case (Pair r cs')
  show ?thesis
  proof (cases r)
    case (Inr s)
    with Pair update_ok [of env sf m cs s cs'] show ?thesis by simp
  next
    case (Inl e)
    have "dk_primary (cs_disk cs') = dk_primary (cs_disk cs) \<or>
         (\<exists>s t. m (cs_state cs) = Inr s \<and> valid_state s \<and> state_text env s = Inr t \<and>
                dk_primary (cs_disk cs') = Some t)"
      using update_primary [of env sf m cs] Pair by auto
    with Inl Pair update_fail [of env sf m cs e cs'] show ?thesis by simp
  qed
qed

text \<open>
  C23: No update is lost: after any sequence of updates, each with its own failures, the state is the
  composition in order of exactly the mutators whose update returned, and it is still valid.
\<close>

theorem updates_never_lost:
  assumes "valid_state (cs_state cs)"
  shows "cs_state (snd (run_updates (update env) ops cs)) =
      apply_successes ops (fst (run_updates (update env) ops cs)) (cs_state cs) \<and>
    valid_state (cs_state (snd (run_updates (update env) ops cs)))"
  using assms store.run_updates_compose store.run_updates_good by blast

theorem updates_never_lost_witness:
  "valid_state (cs_state (snd (run_updates
     (update \<lparr>se_toml_load = (\<lambda>_. Inl (ValueError ''bad'')), se_float_repr = (\<lambda>_. [])\<rparr>)
     [(no_save_faults, \<lambda>s. Inr (s\<lparr>st_gpu := \<lparr>gu_mitigation_enabled = True\<rparr>\<rparr>)), (no_save_faults, Inr)]
     (store_init \<lparr>dk_primary = None, dk_backup = None, dk_stray_temps = 0\<rparr>))))"
proof -
  have "valid_state (cs_state (store_init \<lparr>dk_primary = None, dk_backup = None, dk_stray_temps = 0\<rparr>))"
    by (simp add: store_init_def default_state_valid)
  from updates_never_lost [OF this] show ?thesis by (rule conjunct2)
qed



end
