(* ===== verification/Fan_Curve.thy ===== *)
theory Fan_Curve
  imports Validation
begin

text \<open>
  The piecewise linear fan curve of the background controller: \<open>_curve_speed\<close> of
  \<^verbatim>\<open>honor_control/backend/application.py\<close>. On a validated curve the result stays between the speeds of
  the segment it falls in, is monotone in the temperature and agrees with the curve's points.
\<close>

text \<open>The loop over \<open>zip(points, points[1:])\<close>, then \<open>points[-1].speed\<close>.\<close>

fun curve_segments :: "fan_curve_point list \<Rightarrow> int \<Rightarrow> int" where
  "curve_segments (left # right # r) t =
     (if t \<le> temp_mc right
      then let span = temp_mc right - temp_mc left; offset = t - temp_mc left
           in round_half_even (speed left * span + (speed right - speed left) * offset) span
      else curve_segments (right # r) t)"
| "curve_segments [p] t = speed p"
| "curve_segments [] t = 0"

text \<open>\<open>points[0]\<close> of an empty list raises \<open>IndexError\<close>; \<open>parse_curve\<close> never returns one.\<close>

definition curve_speed :: "fan_curve_point list \<Rightarrow> int \<Rightarrow> exn + int" where
  "curve_speed points t =
     (case points of
        [] \<Rightarrow> Inl (OtherError ''list index out of range'')
      | p # _ \<Rightarrow> if t \<le> temp_mc p then Inr (speed p) else Inr (curve_segments points t))"

section \<open>Bounds, monotonicity and interpolation\<close>

abbreviation temps_up :: "fan_curve_point list \<Rightarrow> bool" where
  "temps_up \<equiv> sorted_wrt (\<lambda>p q. temp_mc p < temp_mc q)"

abbreviation speeds_up :: "fan_curve_point list \<Rightarrow> bool" where
  "speeds_up \<equiv> sorted_wrt (\<lambda>p q. speed p \<le> speed q)"

definition segment :: "fan_curve_point \<Rightarrow> fan_curve_point \<Rightarrow> int \<Rightarrow> int" where
  "segment l r t =
     round_half_even (speed l * (temp_mc r - temp_mc l) + (speed r - speed l) * (t - temp_mc l))
       (temp_mc r - temp_mc l)"

lemma curve_segments_step:
  "curve_segments (l # r # ps) t = (if t \<le> temp_mc r then segment l r t else curve_segments (r # ps) t)"
  by (simp add: segment_def Let_def)

lemma segment_bounds:
  assumes "temp_mc l < temp_mc r" "speed l \<le> speed r" "temp_mc l \<le> t" "t \<le> temp_mc r"
  shows "speed l \<le> segment l r t \<and> segment l r t \<le> speed r"
proof -
  let ?span = "temp_mc r - temp_mc l"
  have lo: "0 \<le> (speed r - speed l) * (t - temp_mc l)"
    using assms by simp
  have "(speed r - speed l) * (t - temp_mc l) \<le> (speed r - speed l) * ?span"
    using assms by (intro mult_left_mono) simp_all
  then have "speed l * ?span + (speed r - speed l) * (t - temp_mc l) \<le> speed r * ?span"
    by (simp add: left_diff_distrib)
  with lo show ?thesis
    using assms unfolding segment_def
    by (intro conjI round_half_even_ge round_half_even_le) auto
qed

lemma segment_mono:
  assumes "temp_mc l < temp_mc r" "speed l \<le> speed r" "t \<le> u"
  shows "segment l r t \<le> segment l r u"
  unfolding segment_def using assms
  by (intro round_half_even_mono add_left_mono mult_left_mono) auto

lemma segment_right [simp]:
  assumes "temp_mc l < temp_mc r"
  shows "segment l r (temp_mc r) = speed r"
proof -
  have "speed l * (temp_mc r - temp_mc l) + (speed r - speed l) * (temp_mc r - temp_mc l) =
      speed r * (temp_mc r - temp_mc l)"
    by (simp add: left_diff_distrib)
  with assms show ?thesis by (simp add: segment_def)
qed

lemma curve_segments_bounds:
  assumes "temps_up ps" "speeds_up ps" "ps \<noteq> []" "temp_mc (hd ps) \<le> t"
  shows "speed (hd ps) \<le> curve_segments ps t \<and> curve_segments ps t \<le> speed (last ps)"
  using assms
proof (induction ps t rule: curve_segments.induct)
  case (1 l r ps t)
  show ?case
  proof (cases "t \<le> temp_mc r")
    case True
    then have "speed l \<le> segment l r t" "segment l r t \<le> speed r"
      using 1 segment_bounds [of l r t] by auto
    moreover have "speed r \<le> speed (last (r # ps))" using 1 by auto
    ultimately show ?thesis using True by (simp only: curve_segments_step) auto
  next
    case False
    then have "speed r \<le> curve_segments (r # ps) t" "curve_segments (r # ps) t \<le> speed (last (r # ps))"
      using 1 by auto
    moreover have "speed l \<le> speed r" using 1 by simp
    ultimately show ?thesis using False by (simp only: curve_segments_step) auto
  qed
qed auto

lemma curve_segments_mono:
  assumes "temps_up ps" "speeds_up ps" "ps \<noteq> []" "temp_mc (hd ps) \<le> t" "t \<le> u"
  shows "curve_segments ps t \<le> curve_segments ps u"
  using assms
proof (induction ps t rule: curve_segments.induct)
  case (1 l r ps t)
  consider "u \<le> temp_mc r" | "t \<le> temp_mc r" "temp_mc r < u" | "temp_mc r < t" by linarith
  then show ?case
  proof cases
    case 1
    with "1.prems" segment_mono [of l r t u] show ?thesis by (simp only: curve_segments_step) auto
  next
    case 2
    then have "segment l r t \<le> speed r" using "1.prems" segment_bounds [of l r t] by simp
    also have "\<dots> \<le> curve_segments (r # ps) u"
      using 2 "1.prems" curve_segments_bounds [of "r # ps" u] by simp
    finally show ?thesis using 2 by (simp only: curve_segments_step) simp
  next
    case 3
    with 1 show ?thesis by (simp only: curve_segments_step) auto
  qed
qed auto

lemma curve_segments_point:
  assumes "temps_up ps" "p \<in> set ps" "temp_mc (hd ps) < temp_mc p"
  shows "curve_segments ps (temp_mc p) = speed p"
  using assms
proof (induction ps "temp_mc p" rule: curve_segments.induct)
  case (1 l r ps)
  show ?case
  proof (cases "p = r")
    case True
    with 1 show ?thesis by (simp only: curve_segments_step) simp
  next
    case False
    with 1 have "temp_mc r < temp_mc p" "p \<in> set (r # ps)" by auto
    with 1 show ?thesis by (simp only: curve_segments_step) simp
  qed
qed auto

lemma curve_segments_above:
  assumes "temps_up ps" "ps \<noteq> []" "temp_mc (last ps) \<le> t" "temp_mc (hd ps) < t"
  shows "curve_segments ps t = speed (last ps)"
  using assms
proof (induction ps t rule: curve_segments.induct)
  case (1 l r ps t)
  show ?case
  proof (cases "t \<le> temp_mc r")
    case True
    have "ps = []"
    proof (rule ccontr)
      assume "ps \<noteq> []"
      then have "temp_mc r < temp_mc (last ps)" using 1 by simp
      with True 1 \<open>ps \<noteq> []\<close> show False by simp
    qed
    with True 1 have "t = temp_mc r" "temp_mc l < temp_mc r" by simp_all
    with \<open>ps = []\<close> show ?thesis by (simp only: curve_segments_step) simp
  next
    case False
    with 1 show ?thesis by (simp only: curve_segments_step) simp
  qed
qed auto

lemma valid_curve_ne: "valid_curve ps \<Longrightarrow> ps \<noteq> []"
  by (auto simp: valid_curve_def)

lemma curve_speed_total: "valid_curve ps \<Longrightarrow> \<exists>v. curve_speed ps t = Inr v"
  by (auto simp: curve_speed_def valid_curve_def split: list.splits)

lemma curve_speed_range:
  assumes "valid_curve ps" "curve_speed ps t = Inr v"
  shows "speed (hd ps) \<le> v \<and> v \<le> speed (last ps)"
proof -
  have v: "temps_up ps" "speeds_up ps" "ps \<noteq> []" using assms(1) by (auto simp: valid_curve_def)
  obtain p qs where ps: "ps = p # qs" using v(3) by (cases ps) auto
  have "speed p \<le> speed (last ps)" using v(2) ps by auto
  with assms(2) ps curve_segments_bounds [OF v, of t] show ?thesis
    by (auto simp: curve_speed_def split: if_splits)
qed

lemma valid_curve_speeds: "valid_curve ps \<Longrightarrow> p \<in> set ps \<Longrightarrow> 0 \<le> speed p \<and> speed p \<le> 100"
  by (auto simp: valid_curve_def list_all_iff point_ok_def)

lemma curve_speed_percent:
  assumes "valid_curve ps" "curve_speed ps t = Inr v"
  shows "0 \<le> v \<and> v \<le> 100"
  using curve_speed_range [OF assms] valid_curve_speeds [OF assms(1), of "hd ps"]
    valid_curve_speeds [OF assms(1), of "last ps"] valid_curve_ne [OF assms(1)] by auto

lemma curve_speed_mono:
  assumes "valid_curve ps" "t \<le> u" "curve_speed ps t = Inr v" "curve_speed ps u = Inr w"
  shows "v \<le> w"
proof -
  have c: "temps_up ps" "speeds_up ps" "ps \<noteq> []" using assms(1) by (auto simp: valid_curve_def)
  obtain p qs where ps: "ps = p # qs" using c(3) by (cases ps) auto
  consider "t \<le> temp_mc p" | "temp_mc p < t" by linarith
  then show ?thesis
  proof cases
    case 1
    then have "v = speed (hd ps)" using assms(3) ps by (simp add: curve_speed_def)
    then show ?thesis using curve_speed_range [OF assms(1,4)] by simp
  next
    case 2
    then show ?thesis using assms(2-4) ps curve_segments_mono [OF c, of t u]
      by (auto simp: curve_speed_def split: if_splits)
  qed
qed

lemma curve_speed_point:
  assumes "valid_curve ps" "p \<in> set ps"
  shows "curve_speed ps (temp_mc p) = Inr (speed p)"
proof -
  have c: "temps_up ps" using assms(1) by (simp add: valid_curve_def)
  obtain q qs where ps: "ps = q # qs" using assms(2) by (cases ps) auto
  show ?thesis
  proof (cases "p = q")
    case False
    with assms(2) c ps have "temp_mc q < temp_mc p" by auto
    with ps show ?thesis using curve_segments_point [OF c assms(2)] by (simp add: curve_speed_def)
  qed (simp add: ps curve_speed_def)
qed

section \<open>Properties\<close>

text \<open>
  C40: On a valid curve the controller's interpolation is total, stays within 0 and 100 percent, never
  asks for less speed at a higher temperature, and meets every point of the curve.
\<close>

theorem curve_speed_safe:
  assumes "valid_curve ps" "t \<le> u"
  shows "\<exists>v w. curve_speed ps t = Inr v \<and> curve_speed ps u = Inr w \<and> 0 \<le> v \<and> v \<le> w \<and> w \<le> 100 \<and>
    (\<forall>p \<in> set ps. curve_speed ps (temp_mc p) = Inr (speed p))"
  using curve_speed_total [OF assms(1), of t] curve_speed_total [OF assms(1), of u]
    curve_speed_percent [OF assms(1)] curve_speed_mono [OF assms] curve_speed_point [OF assms(1)]
  by blast

theorem curve_speed_safe_witness:
  "\<exists>v. curve_speed [\<lparr>temp_mc = 40000, speed = 20\<rparr>, \<lparr>temp_mc = 95000, speed = 100\<rparr>] 50000 = Inr v \<and>
     0 \<le> v \<and> v \<le> 100"
proof -
  have "valid_curve [\<lparr>temp_mc = 40000, speed = 20\<rparr>, \<lparr>temp_mc = 95000, speed = 100\<rparr>]"
    by (simp add: valid_curve_def point_ok_def)
  from curve_speed_safe [OF this, of 50000 60000] show ?thesis by auto
qed

end
