(* ===== verification/Snapshot_Store.thy ===== *)
theory Snapshot_Store
  imports Domain
begin

text \<open>
  \<^verbatim>\<open>honor_control/backend/snapshot_store.py\<close>: the published snapshot with its sequence number, stale
  marks and subscribers. A subscriber is a number; \<open>sn_log\<close> records the calls \<open>_notify\<close> makes (a
  subscriber that raises is only logged, so every subscriber is called). Time is an argument. Python
  compares the dataclasses field by field: dictionaries regardless of order, and the observed power
  values by \<^const>\<open>py_eq\<close>.
\<close>

section \<open>Domains of the snapshot\<close>

datatype domain_value =
    DV_service service_health
  | DV_platform platform_info
  | DV_capabilities "capability dict"
  | DV_battery battery_snapshot
  | DV_power power_snapshot
  | DV_fan fan_snapshot
  | DV_gestures gestures_snapshot
  | DV_gpu gpu_snapshot

fun domain_of :: "domain_value \<Rightarrow> string" where
  "domain_of (DV_service x) = ''service''"
| "domain_of (DV_platform x) = ''platform''"
| "domain_of (DV_capabilities x) = ''capabilities''"
| "domain_of (DV_battery x) = ''battery''"
| "domain_of (DV_power x) = ''power''"
| "domain_of (DV_fan x) = ''fan''"
| "domain_of (DV_gestures x) = ''gestures''"
| "domain_of (DV_gpu x) = ''gpu''"

text \<open>\<open>current == value\<close>\<close>

definition power_eq :: "power_snapshot \<Rightarrow> power_snapshot \<Rightarrow> bool" where
  "power_eq a b = (a\<lparr>ps_observed_summary := []\<rparr> = b\<lparr>ps_observed_summary := []\<rparr> \<and>
     dict_eq py_eq (ps_observed_summary a) (ps_observed_summary b))"

definition fan_eq :: "fan_snapshot \<Rightarrow> fan_snapshot \<Rightarrow> bool" where
  "fan_eq a b = (a\<lparr>fs_curves := []\<rparr> = b\<lparr>fs_curves := []\<rparr> \<and> dict_eq (=) (fs_curves a) (fs_curves b))"

definition gestures_eq :: "gestures_snapshot \<Rightarrow> gestures_snapshot \<Rightarrow> bool" where
  "gestures_eq a b = (a\<lparr>gs_firmware_settings := []\<rparr> = b\<lparr>gs_firmware_settings := []\<rparr> \<and>
     dict_eq (=) (gs_firmware_settings a) (gs_firmware_settings b))"

definition service_eq :: "service_health \<Rightarrow> service_health \<Rightarrow> bool" where
  "service_eq a b = (a\<lparr>sh_controller_health := []\<rparr> = b\<lparr>sh_controller_health := []\<rparr> \<and>
     dict_eq (=) (sh_controller_health a) (sh_controller_health b))"

fun domain_unchanged :: "system_snapshot \<Rightarrow> domain_value \<Rightarrow> bool" where
  "domain_unchanged s (DV_service x) = service_eq (ss_service s) x"
| "domain_unchanged s (DV_platform x) = (ss_platform s = x)"
| "domain_unchanged s (DV_capabilities x) = dict_eq (=) (ss_capabilities s) x"
| "domain_unchanged s (DV_battery x) = (ss_battery s = x)"
| "domain_unchanged s (DV_power x) = power_eq (ss_power s) x"
| "domain_unchanged s (DV_fan x) = fan_eq (ss_fan s) x"
| "domain_unchanged s (DV_gestures x) = gestures_eq (ss_gestures s) x"
| "domain_unchanged s (DV_gpu x) = (ss_gpu s = x)"

fun set_domain :: "domain_value \<Rightarrow> system_snapshot \<Rightarrow> system_snapshot" where
  "set_domain (DV_service x) s = s\<lparr>ss_service := x\<rparr>"
| "set_domain (DV_platform x) s = s\<lparr>ss_platform := x\<rparr>"
| "set_domain (DV_capabilities x) s = s\<lparr>ss_capabilities := x\<rparr>"
| "set_domain (DV_battery x) s = s\<lparr>ss_battery := x\<rparr>"
| "set_domain (DV_power x) s = s\<lparr>ss_power := x\<rparr>"
| "set_domain (DV_fan x) s = s\<lparr>ss_fan := x\<rparr>"
| "set_domain (DV_gestures x) s = s\<lparr>ss_gestures := x\<rparr>"
| "set_domain (DV_gpu x) s = s\<lparr>ss_gpu := x\<rparr>"

section \<open>The store\<close>

record snapshot_store =
  sn_snapshot :: system_snapshot
  sn_subscribers :: "nat list"
  sn_log :: "(nat \<times> int \<times> string) list"

definition snapshot_store_init :: "int \<Rightarrow> snapshot_store" where
  "snapshot_store_init now = \<lparr>sn_snapshot = system_default now, sn_subscribers = [], sn_log = []\<rparr>"

definition subscribe :: "nat \<Rightarrow> snapshot_store \<Rightarrow> snapshot_store" where
  "subscribe cb st = st\<lparr>sn_subscribers := sn_subscribers st @ [cb]\<rparr>"

text \<open>\<open>list.remove\<close> drops the first occurrence; a missing one is ignored.\<close>

definition unsubscribe :: "nat \<Rightarrow> snapshot_store \<Rightarrow> snapshot_store" where
  "unsubscribe cb st = st\<lparr>sn_subscribers := remove1 cb (sn_subscribers st)\<rparr>"

definition notify :: "string \<Rightarrow> snapshot_store \<Rightarrow> snapshot_store" where
  "notify domain st = st\<lparr>sn_log := sn_log st @
     map (\<lambda>cb. (cb, ss_sequence (sn_snapshot st), domain)) (sn_subscribers st)\<rparr>"

definition update_domain :: "int \<Rightarrow> domain_value \<Rightarrow> snapshot_store \<Rightarrow> snapshot_store" where
  "update_domain now v st =
     (let s = sn_snapshot st; domain = domain_of v; was_stale = domain \<in> set (ss_stale_domains s)
      in if domain_unchanged s v \<and> \<not> was_stale then st
         else notify domain (st\<lparr>sn_snapshot := (set_domain v s)\<lparr>
                ss_sequence := ss_sequence s + 1, ss_observed_at := now,
                ss_stale_domains := filter (\<lambda>x. x \<noteq> domain) (ss_stale_domains s)\<rparr>\<rparr>))"

text \<open>\<open>(errors + (error,))[-10:]\<close>\<close>

definition last_ten :: "'a list \<Rightarrow> 'a list" where
  "last_ten xs = drop (length xs - 10) xs"

definition mark_stale :: "int \<Rightarrow> string \<Rightarrow> string \<Rightarrow> snapshot_store \<Rightarrow> snapshot_store" where
  "mark_stale now domain error st =
     (let s = sn_snapshot st
      in if domain \<in> set (ss_stale_domains s) then st
         else let errors = (if error \<noteq> [] \<and> error \<notin> set (ss_errors s)
                            then last_ten (ss_errors s @ [error]) else ss_errors s)
              in notify domain (st\<lparr>sn_snapshot := s\<lparr>ss_stale_domains := ss_stale_domains s @ [domain],
                   ss_errors := errors, ss_sequence := ss_sequence s + 1, ss_observed_at := now\<rparr>\<rparr>))"

section \<open>Publication\<close>

datatype publication = Update int domain_value | Stale int string string | Subscribe nat | Unsubscribe nat

fun publish :: "publication \<Rightarrow> snapshot_store \<Rightarrow> snapshot_store" where
  "publish (Update now v) st = update_domain now v st"
| "publish (Stale now d e) st = mark_stale now d e st"
| "publish (Subscribe cb) st = subscribe cb st"
| "publish (Unsubscribe cb) st = unsubscribe cb st"

definition snapshot_inv :: "snapshot_store \<Rightarrow> bool" where
  "snapshot_inv st = (let s = sn_snapshot st in
     0 \<le> ss_sequence s \<and> distinct (ss_stale_domains s) \<and> length (ss_errors s) \<le> 10
     \<and> distinct (ss_errors s)
     \<and> (\<forall>(cb, q, d) \<in> set (sn_log st). 1 \<le> q \<and> q \<le> ss_sequence s)
     \<and> sorted (map (fst \<circ> snd) (sn_log st)))"

lemma set_domain_keeps [simp]:
  "ss_sequence (set_domain v s) = ss_sequence s" "ss_stale_domains (set_domain v s) = ss_stale_domains s"
  "ss_errors (set_domain v s) = ss_errors s"
  by (cases v; simp)+

lemma notify_snapshot [simp]: "sn_snapshot (notify d st) = sn_snapshot st"
  "sn_subscribers (notify d st) = sn_subscribers st"
  by (simp_all add: notify_def)

lemma last_ten_props: "length (last_ten xs) \<le> 10" "distinct xs \<Longrightarrow> distinct (last_ten xs)"
  by (simp_all add: last_ten_def)

text \<open>A new snapshot, one later than every notification so far, keeps the log in order.\<close>

lemma snapshot_inv_notify:
  assumes "snapshot_inv st" "ss_sequence s = ss_sequence (sn_snapshot st) + 1"
    "distinct (ss_stale_domains s)" "distinct (ss_errors s)" "length (ss_errors s) \<le> 10"
  shows "snapshot_inv (notify d (st\<lparr>sn_snapshot := s\<rparr>))"
  using assms
  by (fastforce simp: snapshot_inv_def notify_def Let_def sorted_append o_def sorted_map)

lemma publish_inv: "snapshot_inv st \<Longrightarrow> snapshot_inv (publish p st)"
proof (cases p)
  case (Update now v)
  moreover assume inv: "snapshot_inv st"
  ultimately show ?thesis
    using inv by (auto simp: update_domain_def Let_def snapshot_inv_def [of st] intro!: snapshot_inv_notify)
next
  case (Stale now d e)
  moreover assume inv: "snapshot_inv st"
  ultimately show ?thesis
    using inv by (auto simp: mark_stale_def Let_def snapshot_inv_def [of st] last_ten_props
        intro!: snapshot_inv_notify)
qed (simp_all add: snapshot_inv_def subscribe_def unsubscribe_def)

lemma snapshot_inv_init: "snapshot_inv (snapshot_store_init now)"
  by (simp add: snapshot_inv_def snapshot_store_init_def system_default_def)

lemma fold_publish_inv: "snapshot_inv st \<Longrightarrow> snapshot_inv (fold publish ps st)"
  by (induction ps arbitrary: st) (simp_all add: publish_inv)

text \<open>The sequence number grows by one exactly when something is published.\<close>

lemma update_domain_sequence:
  "ss_sequence (sn_snapshot (update_domain now v st)) = ss_sequence (sn_snapshot st) +
     (if domain_unchanged (sn_snapshot st) v \<and> domain_of v \<notin> set (ss_stale_domains (sn_snapshot st)) then 0 else 1)"
  by (simp add: update_domain_def Let_def)

lemma update_domain_fresh: "domain_of v \<notin> set (ss_stale_domains (sn_snapshot (update_domain now v st)))"
  by (auto simp: update_domain_def Let_def)

lemma mark_stale_marks: "d \<in> set (ss_stale_domains (sn_snapshot (mark_stale now d e st)))"
  by (auto simp: mark_stale_def Let_def)

text \<open>The last known good value of every domain survives a failed refresh.\<close>

lemma mark_stale_keeps_values:
  "ss_battery (sn_snapshot (mark_stale now d e st)) = ss_battery (sn_snapshot st)"
  "ss_power (sn_snapshot (mark_stale now d e st)) = ss_power (sn_snapshot st)"
  "ss_fan (sn_snapshot (mark_stale now d e st)) = ss_fan (sn_snapshot st)"
  "ss_gestures (sn_snapshot (mark_stale now d e st)) = ss_gestures (sn_snapshot st)"
  "ss_gpu (sn_snapshot (mark_stale now d e st)) = ss_gpu (sn_snapshot st)"
  "ss_service (sn_snapshot (mark_stale now d e st)) = ss_service (sn_snapshot st)"
  "ss_platform (sn_snapshot (mark_stale now d e st)) = ss_platform (sn_snapshot st)"
  "ss_capabilities (sn_snapshot (mark_stale now d e st)) = ss_capabilities (sn_snapshot st)"
  by (simp_all add: mark_stale_def Let_def)

section \<open>Properties\<close>

text \<open>
  C21: Whatever is published, and however subscribers come and go, notifications carry sequence numbers
  that never decrease and never exceed the current one, no domain is marked stale twice, and at most
  ten distinct errors are kept.
\<close>

theorem publication_ordered:
  "snapshot_inv (fold publish ps (snapshot_store_init now))"
  by (simp add: fold_publish_inv snapshot_inv_init)

text \<open>
  An update of a domain leaves it fresh, advances the sequence by one and tells every subscriber
  once if the value differs or the domain was stale, and otherwise changes nothing; a failed refresh
  marks its domain stale and keeps the last known values.
\<close>

theorem update_or_stale:
  "(domain_unchanged (sn_snapshot st) v \<and> domain_of v \<notin> set (ss_stale_domains (sn_snapshot st)) \<and>
      update_domain now v st = st \<or>
    ss_sequence (sn_snapshot (update_domain now v st)) = ss_sequence (sn_snapshot st) + 1 \<and>
      domain_of v \<notin> set (ss_stale_domains (sn_snapshot (update_domain now v st))) \<and>
      sn_log (update_domain now v st) = sn_log st @
        map (\<lambda>cb. (cb, ss_sequence (sn_snapshot st) + 1, domain_of v)) (sn_subscribers st)) \<and>
   d \<in> set (ss_stale_domains (sn_snapshot (mark_stale now d e st))) \<and>
   ss_fan (sn_snapshot (mark_stale now d e st)) = ss_fan (sn_snapshot st) \<and>
   ss_power (sn_snapshot (mark_stale now d e st)) = ss_power (sn_snapshot st) \<and>
   ss_battery (sn_snapshot (mark_stale now d e st)) = ss_battery (sn_snapshot st)"
  by (simp add: mark_stale_marks mark_stale_keeps_values)
     (auto simp: update_domain_def Let_def notify_def)

end
