(* ===== verification/Supervisor.thy ===== *)
theory Supervisor
  imports Domain
begin

text \<open>
  \<^verbatim>\<open>honor_control/backend/supervisor.py\<close>: registration, start, completion and stop of the service's
  controllers. Controllers are known by name; a task is only known to be alive or done. What a task or a
  clean-up does when it is awaited is an argument. \<open>sv_log\<close> records the tasks created and cancelled
  and the clean-ups run, in order. \<open>stop\<close> is composed of the part before the clean-up and the part after
  it, which the application model uses around its own clean-up action.
\<close>

record controller_health =
  ch_state :: controller_state
  ch_last_fault :: string

definition ch_running :: "controller_health \<Rightarrow> bool" where
  "ch_running h = (ch_state h = CT_RUNNING)"

definition health_default :: controller_health where
  "health_default = \<lparr>ch_state = CT_STOPPED, ch_last_fault = []\<rparr>"

text \<open>\<open>en_task\<close> is \<open>None\<close> without a task, else whether the task is still alive.\<close>

record controller_entry =
  en_has_stop :: bool
  en_task :: "bool option"

datatype sup_event = Task_created string | Task_cancelled string | Cleanup_run string

record supervisor =
  sv_controllers :: "controller_entry dict"
  sv_health :: "controller_health dict"
  sv_log :: "sup_event list"

definition supervisor_init :: supervisor where
  "supervisor_init = \<lparr>sv_controllers = [], sv_health = [], sv_log = []\<rparr>"

definition register :: "string \<Rightarrow> bool \<Rightarrow> supervisor \<Rightarrow> exn + supervisor" where
  "register name has_stop sv =
     (if map_of (sv_controllers sv) name \<noteq> None
      then Inl (ValueError (''controller '' @ CHR 0x27 # name @ CHR 0x27 # '' is already registered''))
      else Inr (sv\<lparr>sv_controllers := AList.update name \<lparr>en_has_stop = has_stop, en_task = None\<rparr> (sv_controllers sv),
                   sv_health := AList.update name health_default (sv_health sv)\<rparr>))"

definition get_health :: "string \<Rightarrow> supervisor \<Rightarrow> controller_health" where
  "get_health name sv = dget (sv_health sv) name health_default"

definition check_health :: "supervisor \<Rightarrow> string dict" where
  "check_health sv = map (\<lambda>(n, h). (n, controller_state_str (ch_state h))) (sv_health sv)"

definition set_health :: "string \<Rightarrow> controller_health \<Rightarrow> supervisor \<Rightarrow> supervisor" where
  "set_health name h sv = sv\<lparr>sv_health := AList.update name h (sv_health sv)\<rparr>"

definition set_task :: "string \<Rightarrow> bool option \<Rightarrow> supervisor \<Rightarrow> supervisor" where
  "set_task name t sv = (case map_of (sv_controllers sv) name of
     None \<Rightarrow> sv
   | Some e \<Rightarrow> sv\<lparr>sv_controllers := AList.update name (e\<lparr>en_task := t\<rparr>) (sv_controllers sv)\<rparr>)"

definition sv_note :: "sup_event \<Rightarrow> supervisor \<Rightarrow> supervisor" where
  "sv_note ev sv = sv\<lparr>sv_log := sv_log sv @ [ev]\<rparr>"

text \<open>\<open>start(name)\<close>; \<open>fault\<close> is what creating the task raises, if anything.\<close>

definition start :: "exn option \<Rightarrow> string \<Rightarrow> supervisor \<Rightarrow> bool \<times> supervisor" where
  "start fault name sv =
     (case map_of (sv_controllers sv) name of
        None \<Rightarrow> (False, sv)
      | Some e \<Rightarrow>
          let h = get_health name sv in
          if ch_running h \<or> ch_state h = CT_STARTING then (True, sv)
          else (case fault of
                  None \<Rightarrow> (True, set_health name \<lparr>ch_state = CT_RUNNING, ch_last_fault = []\<rparr>
                            (sv_note (Task_created name) (set_task name (Some True) sv)))
                | Some x \<Rightarrow> (False, set_health name \<lparr>ch_state = CT_FAILED, ch_last_fault = exn_str x\<rparr> sv)))"

datatype task_outcome = T_ok | T_fault exn | T_cancelled

text \<open>The done callback of a controller's task.\<close>

definition task_done :: "string \<Rightarrow> task_outcome \<Rightarrow> supervisor \<Rightarrow> supervisor" where
  "task_done name outcome sv =
     (case map_of (sv_health sv) name of
        None \<Rightarrow> sv
      | Some h \<Rightarrow>
          if outcome = T_cancelled \<or> ch_state h = CT_STOPPING then sv
          else (case outcome of
                  T_fault x \<Rightarrow> set_health name \<lparr>ch_state = CT_FAILED, ch_last_fault = exn_str x\<rparr> sv
                | _ \<Rightarrow> if ch_state h = CT_RUNNING then set_health name (h\<lparr>ch_state := CT_STOPPED\<rparr>) sv else sv))"

text \<open>A task of its own accord comes to an end: it is done, and its callback runs.\<close>

definition task_ends :: "string \<Rightarrow> task_outcome \<Rightarrow> supervisor \<Rightarrow> supervisor" where
  "task_ends name outcome sv = task_done name outcome (set_task name (Some False) sv)"

text \<open>What awaiting with a time limit gives.\<close>

datatype awaited = A_ok | A_cancelled | A_timeout | A_raise exn

definition note_fault :: "string \<Rightarrow> awaited \<Rightarrow> supervisor \<Rightarrow> supervisor" where
  "note_fault name a sv = (case a of
     A_raise x \<Rightarrow> set_health name ((get_health name sv)\<lparr>ch_last_fault := exn_str x\<rparr>) sv
   | _ \<Rightarrow> sv)"

text \<open>\<open>stop\<close> up to the clean-up: \<open>None\<close> if there is nothing to stop. The cancelled task's callback finds
  the state \<open>stopping\<close> and does nothing.\<close>

definition stop_begin :: "string \<Rightarrow> awaited \<Rightarrow> supervisor \<Rightarrow> supervisor option" where
  "stop_begin name task_result sv =
     (case map_of (sv_controllers sv) name of
        None \<Rightarrow> None
      | Some e \<Rightarrow>
          let h = get_health name sv in
          if ch_state h \<in> {CT_STOPPED, CT_STOPPING} then None
          else let sv1 = set_task name None (set_health name (h\<lparr>ch_state := CT_STOPPING\<rparr>) sv)
               in if en_task e = Some True
                  then Some (note_fault name task_result (sv_note (Task_cancelled name) sv1))
                  else Some sv1)"

definition has_cleanup :: "string \<Rightarrow> supervisor \<Rightarrow> bool" where
  "has_cleanup name sv = (case map_of (sv_controllers sv) name of None \<Rightarrow> False | Some e \<Rightarrow> en_has_stop e)"

definition cleanup :: "string \<Rightarrow> awaited \<Rightarrow> supervisor \<Rightarrow> supervisor" where
  "cleanup name a sv = (if has_cleanup name sv then note_fault name a (sv_note (Cleanup_run name) sv) else sv)"

definition stop_end :: "string \<Rightarrow> supervisor \<Rightarrow> supervisor" where
  "stop_end name sv = set_health name ((get_health name sv)\<lparr>ch_state := CT_STOPPED\<rparr>) sv"

definition stop :: "awaited \<Rightarrow> awaited \<Rightarrow> string \<Rightarrow> supervisor \<Rightarrow> supervisor" where
  "stop task_result cleanup_result name sv =
     (case stop_begin name task_result sv of
        None \<Rightarrow> sv
      | Some sv1 \<Rightarrow> stop_end name (cleanup name cleanup_result sv1))"

text \<open>\<open>stop_all\<close>: every registered controller, the last registered first; \<open>res\<close> gives the awaited
  results of each.\<close>

definition stop_all :: "(string \<Rightarrow> awaited \<times> awaited) \<Rightarrow> supervisor \<Rightarrow> supervisor" where
  "stop_all res sv =
     fold (\<lambda>name. stop (fst (res name)) (snd (res name)) name) (rev (map fst (sv_controllers sv))) sv"

section \<open>Lifecycle\<close>

text \<open>Between operations a controller is stopped, running or failed, and it is running exactly while
  its task is alive.\<close>

definition sup_inv :: "supervisor \<Rightarrow> bool" where
  "sup_inv sv = (dict_ok (sv_controllers sv) \<and> map fst (sv_health sv) = map fst (sv_controllers sv) \<and>
     (\<forall>n e. map_of (sv_controllers sv) n = Some e \<longrightarrow>
        ch_state (get_health n sv) \<in> {CT_STOPPED, CT_RUNNING, CT_FAILED} \<and>
        (ch_state (get_health n sv) = CT_RUNNING \<longleftrightarrow> en_task e = Some True)))"

lemma map_fst_update: "map fst (AList.update k v d) = (if k \<in> fst ` set d then map fst d else map fst d @ [k])"
  by (simp add: update_keys)

lemma get_set_health [simp]: "get_health n (set_health m h sv) = (if n = m then h else get_health n sv)"
  by (simp add: get_health_def set_health_def dget_def)

lemma controllers_set_health [simp]: "sv_controllers (set_health m h sv) = sv_controllers sv"
  "sv_log (set_health m h sv) = sv_log sv"
  by (simp_all add: set_health_def)

lemma get_health_set_task [simp]: "get_health n (set_task m t sv) = get_health n sv"
  by (simp add: get_health_def set_task_def split: option.splits)

lemma note_simps [simp]: "sv_controllers (sv_note ev sv) = sv_controllers sv"
  "sv_health (sv_note ev sv) = sv_health sv" "get_health n (sv_note ev sv) = get_health n sv"
  "sv_log (sv_note ev sv) = sv_log sv @ [ev]"
  by (simp_all add: sv_note_def get_health_def)

lemma map_of_set_task: "map_of (sv_controllers (set_task m t sv)) n =
    (if n = m then map_option (\<lambda>e. e\<lparr>en_task := t\<rparr>) (map_of (sv_controllers sv) n)
     else map_of (sv_controllers sv) n)"
  by (auto simp: set_task_def split: option.splits)

lemma key_known: "map_of d n = Some e \<Longrightarrow> n \<in> fst ` set d"
  by (auto dest: map_of_SomeD intro: rev_image_eqI)

lemma set_task_keeps [simp]: "map fst (sv_controllers (set_task m t sv)) = map fst (sv_controllers sv)"
  "sv_health (set_task m t sv) = sv_health sv" "sv_log (set_task m t sv) = sv_log sv"
  by (simp_all add: set_task_def map_fst_update key_known split: option.splits)

lemma dict_ok_keys: "map fst d = map fst e \<Longrightarrow> dict_ok d = dict_ok e"
  by (simp add: dict_ok_def)

lemma inv_keys: "sup_inv sv \<Longrightarrow> fst ` set (sv_health sv) = fst ` set (sv_controllers sv)"
  unfolding sup_inv_def by (metis list.set_map)

text \<open>A change of one known controller keeps the invariant if it does for that controller.\<close>

lemma sup_inv_one:
  assumes "sup_inv sv" "map_of (sv_controllers sv) n = Some e"
    "map fst (sv_controllers sv') = map fst (sv_controllers sv)" "map fst (sv_health sv') = map fst (sv_health sv)"
    "\<And>m. m \<noteq> n \<Longrightarrow> get_health m sv' = get_health m sv \<and> map_of (sv_controllers sv') m = map_of (sv_controllers sv) m"
    "map_of (sv_controllers sv') n = Some e'"
    "ch_state (get_health n sv') \<in> {CT_STOPPED, CT_RUNNING, CT_FAILED}"
    "ch_state (get_health n sv') = CT_RUNNING \<longleftrightarrow> en_task e' = Some True"
  shows "sup_inv sv'"
  unfolding sup_inv_def
proof (intro conjI allI impI)
  show "dict_ok (sv_controllers sv')" "map fst (sv_health sv') = map fst (sv_controllers sv')"
    using assms(1,3,4) dict_ok_keys [of "sv_controllers sv'" "sv_controllers sv"] by (simp_all add: sup_inv_def)
next
  fix m f
  assume f: "map_of (sv_controllers sv') m = Some f"
  have "ch_state (get_health m sv') \<in> {CT_STOPPED, CT_RUNNING, CT_FAILED} \<and>
      (ch_state (get_health m sv') = CT_RUNNING) = (en_task f = Some True)"
  proof (cases "m = n")
    case True
    with f assms(6-8) show ?thesis by simp
  next
    case False
    with f assms(5) have "map_of (sv_controllers sv) m = Some f" "get_health m sv' = get_health m sv"
      by simp_all
    with assms(1) show ?thesis unfolding sup_inv_def by metis
  qed
  then show "ch_state (get_health m sv') \<in> {CT_STOPPED, CT_RUNNING, CT_FAILED}"
    "(ch_state (get_health m sv') = CT_RUNNING) = (en_task f = Some True)" by blast+
qed

definition known :: "string \<Rightarrow> supervisor \<Rightarrow> bool" where
  "known n sv = (n \<in> fst ` set (sv_health sv))"

lemma health_keys_set [simp]: "known n sv \<Longrightarrow> map fst (sv_health (set_health n h sv)) = map fst (sv_health sv)"
  by (simp add: set_health_def map_fst_update known_def)

lemma known_keys: "map fst (sv_health sv) = map fst (sv_health sv') \<Longrightarrow> known n sv = known n sv'"
  unfolding known_def by (metis list.set_map)

lemma known_simps [simp]: "known n sv \<Longrightarrow> known n (set_health n h sv)"
  "known n (sv_note ev sv) = known n sv" "known n (set_task m t sv) = known n sv"
  by (simp_all add: known_keys [OF health_keys_set]) (simp_all add: known_def)

lemma sup_inv_known: "sup_inv sv \<Longrightarrow> map_of (sv_controllers sv) n = Some e \<Longrightarrow> known n sv"
  unfolding known_def by (metis inv_keys key_known)

lemma start_inv:
  assumes inv: "sup_inv sv"
  shows "sup_inv (snd (start fault n sv))"
proof (cases "map_of (sv_controllers sv) n")
  case (Some e)
  note known = sup_inv_known [OF inv Some]
  show ?thesis
  proof (cases "ch_running (get_health n sv) \<or> ch_state (get_health n sv) = CT_STARTING")
    case False
    then have "en_task e \<noteq> Some True"
      using inv Some unfolding sup_inv_def ch_running_def by metis
    with False Some known show ?thesis
      by (cases fault) (auto simp: start_def Let_def map_of_set_task intro!: sup_inv_one [OF inv Some])
  qed (use inv Some in \<open>simp add: start_def Let_def\<close>)
qed (simp add: start_def inv)

lemma task_ends_inv:
  assumes inv: "sup_inv sv" and r: "ch_state (get_health n sv) = CT_RUNNING" and o: "outcome \<noteq> T_cancelled"
  shows "sup_inv (task_ends n outcome sv)"
proof -
  obtain h where h: "map_of (sv_health sv) n = Some h"
    using r by (auto simp: get_health_def dget_def health_default_def split: option.splits)
  then obtain e where e: "map_of (sv_controllers sv) n = Some e"
    using inv_keys [OF inv] key_known [OF h] by (metis (no_types) map_of_eq_None_iff option.exhaust)
  note known = sup_inv_known [OF inv e]
  have "get_health n sv = h" using h by (simp add: get_health_def dget_def)
  with e h o r known show ?thesis
    by (auto simp: task_ends_def task_done_def map_of_set_task split: task_outcome.splits
        intro!: sup_inv_one [OF inv e])
qed

lemma note_fault_simps [simp]:
  "sv_controllers (note_fault n a sv) = sv_controllers sv" "sv_log (note_fault n a sv) = sv_log sv"
  "ch_state (get_health m (note_fault n a sv)) = ch_state (get_health m sv)"
  "m \<noteq> n \<Longrightarrow> get_health m (note_fault n a sv) = get_health m sv"
  "known n sv \<Longrightarrow> map fst (sv_health (note_fault n a sv)) = map fst (sv_health sv)"
  "known n sv \<Longrightarrow> known n (note_fault n a sv)"
  by (simp_all add: note_fault_def split: awaited.splits)

lemma stop_inv: "sup_inv sv \<Longrightarrow> sup_inv (stop a b n sv)"
proof (cases "map_of (sv_controllers sv) n")
  case (Some e)
  moreover assume inv: "sup_inv sv"
  moreover note known = sup_inv_known [OF inv Some]
  ultimately show ?thesis
    by (auto simp: stop_def stop_begin_def stop_end_def cleanup_def Let_def map_of_set_task has_cleanup_def
        intro!: sup_inv_one [OF inv Some])
qed (simp add: stop_def stop_begin_def)

lemma stop_stopped:
  "sup_inv sv \<Longrightarrow> map_of (sv_controllers sv) n = Some e \<Longrightarrow> ch_state (get_health n (stop a b n sv)) = CT_STOPPED"
  by (fastforce simp: sup_inv_def stop_def stop_begin_def stop_end_def Let_def)

lemma stop_others: "m \<noteq> n \<Longrightarrow> get_health m (stop a b n sv) = get_health m sv"
  by (auto simp: stop_def stop_begin_def stop_end_def cleanup_def Let_def split: option.splits)

lemma stop_keys [simp]: "map fst (sv_controllers (stop a b n sv)) = map fst (sv_controllers sv)"
  by (auto simp: stop_def stop_begin_def stop_end_def cleanup_def Let_def split: option.splits)

lemma register_inv: "sup_inv sv \<Longrightarrow> register n hs sv = Inr sv' \<Longrightarrow> sup_inv sv'"
proof -
  assume inv: "sup_inv sv" and r: "register n hs sv = Inr sv'"
  then have new: "n \<notin> fst ` set (sv_controllers sv)" "n \<notin> fst ` set (sv_health sv)"
    using inv_keys [OF inv] by (auto simp: register_def map_of_eq_None_iff split: if_splits)
  moreover have sv': "sv' = sv\<lparr>sv_controllers := AList.update n \<lparr>en_has_stop = hs, en_task = None\<rparr> (sv_controllers sv),
      sv_health := AList.update n health_default (sv_health sv)\<rparr>"
    using r by (simp add: register_def split: if_splits)
  moreover have "get_health m sv' = (if m = n then health_default else get_health m sv)" for m
    unfolding sv' by (simp add: get_health_def dget_def)
  ultimately show ?thesis
    using inv unfolding sup_inv_def by (simp add: map_fst_update health_default_def) blast
qed

lemma stop_fold_stopped:
  assumes "sup_inv sv" "m \<in> set ns \<or> ch_state (get_health m sv) = CT_STOPPED" "m \<in> fst ` set (sv_controllers sv)"
  shows "ch_state (get_health m (fold (\<lambda>n. stop (fst (res n)) (snd (res n)) n) ns sv)) = CT_STOPPED"
  using assms
proof (induction ns arbitrary: sv)
  case (Cons n ns)
  let ?s = "stop (fst (res n)) (snd (res n)) n sv"
  have keys: "fst ` set (sv_controllers ?s) = fst ` set (sv_controllers sv)"
    by (metis list.set_map stop_keys)
  obtain e where e: "map_of (sv_controllers sv) m = Some e"
    using Cons.prems(3) by (metis map_of_eq_None_iff option.exhaust)
  have "m \<in> set ns \<or> ch_state (get_health m ?s) = CT_STOPPED"
    using Cons.prems stop_stopped [OF Cons.prems(1) e] stop_others [of m n] by (cases "m = n") auto
  with Cons.IH [of ?s] Cons.prems(1,3) keys show ?case by (simp add: stop_inv)
qed simp

section \<open>Properties\<close>

datatype sup_op = Op_register string bool | Op_start "exn option" string
  | Op_task_ends string task_outcome | Op_stop awaited awaited string

text \<open>Only a stop cancels a task, and only a running controller's task can end.\<close>

fun sup_apply :: "sup_op \<Rightarrow> supervisor \<Rightarrow> supervisor" where
  "sup_apply (Op_register n hs) sv = (case register n hs sv of Inl _ \<Rightarrow> sv | Inr sv' \<Rightarrow> sv')"
| "sup_apply (Op_start f n) sv = snd (start f n sv)"
| "sup_apply (Op_task_ends n out) sv =
     (if ch_running (get_health n sv) \<and> out \<noteq> T_cancelled then task_ends n out sv else sv)"
| "sup_apply (Op_stop a b n) sv = stop a b n sv"

lemma sup_apply_inv: "sup_inv sv \<Longrightarrow> sup_inv (sup_apply p sv)"
  by (cases p) (auto simp: start_inv stop_inv task_ends_inv ch_running_def register_inv split: sum.splits)

lemma fold_sup_inv: "sup_inv sv \<Longrightarrow> sup_inv (fold sup_apply ops sv)"
  by (induction ops arbitrary: sv) (simp_all add: sup_apply_inv)

text \<open>
  The supervisor keeps its books straight: from the empty supervisor, every sequence of
  registrations, starts, task endings and stops leaves every controller stopped, running or failed,
  running exactly while its task is alive.
\<close>

theorem supervisor_lifecycle: "sup_inv (fold sup_apply ops supervisor_init)"
  by (rule fold_sup_inv) (simp add: sup_inv_def supervisor_init_def)

lemma sup_inv_health: "sup_inv sv \<Longrightarrow> (n, h) \<in> set (sv_health sv) \<Longrightarrow> get_health n sv = h"
proof -
  assume inv: "sup_inv sv" and m: "(n, h) \<in> set (sv_health sv)"
  have "distinct (map fst (sv_health sv))" using inv by (simp add: sup_inv_def dict_ok_def)
  with m show ?thesis by (simp add: get_health_def dget_def map_of_is_SomeI)
qed

lemma fold_stop_inv: "sup_inv sv \<Longrightarrow> sup_inv (fold (\<lambda>n. stop (f n) (g n) n) ns sv)"
  by (induction ns arbitrary: sv) (simp_all add: stop_inv)

lemma fold_stop_keys: "map fst (sv_controllers (fold (\<lambda>n. stop (f n) (g n) n) ns sv)) = map fst (sv_controllers sv)"
  by (induction ns arbitrary: sv) simp_all

lemma stop_all_stopped:
  assumes inv: "sup_inv sv" and m: "(n, h) \<in> set (sv_health (stop_all res sv))"
  shows "ch_state h = CT_STOPPED"
proof -
  let ?s = "stop_all res sv"
  have inv': "sup_inv ?s" using inv unfolding stop_all_def by (rule fold_stop_inv)
  have "n \<in> fst ` set (sv_health ?s)" using m by force
  then have "n \<in> fst ` set (sv_controllers sv)"
    using inv_keys [OF inv'] fold_stop_keys [of _ _ _ sv] unfolding stop_all_def by (metis list.set_map)
  then have "ch_state (get_health n ?s) = CT_STOPPED"
    unfolding stop_all_def using inv by (intro stop_fold_stopped) simp_all
  with sup_inv_health [OF inv' m] show ?thesis by simp
qed

lemma stop_again: "sup_inv sv \<Longrightarrow> stop a b n (stop a b n sv) = stop a b n sv"
proof (cases "map_of (sv_controllers sv) n")
  case None
  then show ?thesis by (simp add: stop_def stop_begin_def)
next
  case (Some e)
  moreover assume "sup_inv sv"
  ultimately have "stop_begin n a (stop a b n sv) = None"
    by (simp add: stop_begin_def stop_stopped Let_def split: option.splits)
  then show ?thesis by (simp add: stop_def [of _ _ _ "stop a b n sv"])
qed

lemma stop_log:
  assumes "sup_inv sv" "ch_running (get_health n sv)"
  shows "sv_log (stop a b n sv) = sv_log sv @ Task_cancelled n # (if has_cleanup n sv then [Cleanup_run n] else [])"
proof -
  obtain h where h: "map_of (sv_health sv) n = Some h"
    using assms(2) by (auto simp: ch_running_def get_health_def dget_def health_default_def split: option.splits)
  obtain e where e: "map_of (sv_controllers sv) n = Some e"
    using inv_keys [OF assms(1)] key_known [OF h] by (metis map_of_eq_None_iff option.exhaust)
  then have "en_task e = Some True" "ch_state (get_health n sv) = CT_RUNNING"
    using assms unfolding sup_inv_def ch_running_def by blast+
  with e show ?thesis
    by (simp add: stop_def stop_begin_def Let_def stop_end_def cleanup_def has_cleanup_def map_of_set_task)
qed

text \<open>
  Shutting down stops every controller: after \<open>stop_all\<close>, whatever tasks and clean-ups do when they are
  awaited (end, raise, time out), every registered controller is stopped. Stopping one controller
  cancels its task before its safety clean-up runs, and stopping it again does nothing.
\<close>

theorem shutdown_stops_everything:
  "(\<forall>n h. (n, h) \<in> set (sv_health (stop_all res (fold sup_apply ops supervisor_init))) \<longrightarrow> ch_state h = CT_STOPPED) \<and>
   (\<forall>n a b. let sv = fold sup_apply ops supervisor_init in ch_running (get_health n sv) \<longrightarrow>
      sv_log (stop a b n sv) = sv_log sv @ Task_cancelled n # (if has_cleanup n sv then [Cleanup_run n] else []) \<and>
      stop a b n (stop a b n sv) = stop a b n sv)"
proof -
  have inv: "sup_inv (fold sup_apply ops supervisor_init)"
    by (rule fold_sup_inv) (simp add: sup_inv_def supervisor_init_def)
  have "stop a b n (stop a b n sv) = stop a b n sv" if "sup_inv sv" for a b n sv
    using that by (rule stop_again)
  with inv stop_log [OF inv] stop_all_stopped [OF inv] show ?thesis by (simp add: Let_def)
qed

theorem shutdown_stops_everything_witness:
  "list_all (\<lambda>(n, h). ch_state h = CT_STOPPED) (sv_health (stop_all (\<lambda>_. (A_timeout, A_raise CancelledError))
     (fold sup_apply [Op_register ''fan_curve'' True, Op_start None ''fan_curve''] supervisor_init)))"
proof -
  let ?sv = "stop_all (\<lambda>_. (A_timeout, A_raise CancelledError))
     (fold sup_apply [Op_register ''fan_curve'' True, Op_start None ''fan_curve''] supervisor_init)"
  have "\<forall>n h. (n, h) \<in> set (sv_health ?sv) \<longrightarrow> ch_state h = CT_STOPPED"
    using shutdown_stops_everything [of "\<lambda>_. (A_timeout, A_raise CancelledError)"
      "[Op_register ''fan_curve'' True, Op_start None ''fan_curve'']"] by (rule conjunct1)
  then show ?thesis unfolding list_all_iff by blast
qed

end
