(* ===== verification/Command_Queue.thy ===== *)
theory Command_Queue
  imports Domain
begin

text \<open>
  \<^verbatim>\<open>honor_control/backend/command_queue.py\<close>: the serialised hardware worker. The queue's lock, the worker
  thread and the event loop run concurrently, so \<open>run\<close> is cut at its awaits: admission, normal return,
  time-out and cancellation are separate operations on the queue's state, as are the worker taking a
  request, finishing it, and the loop completing the future it scheduled. Any interleaving of them is a
  path of the step relation \<open>cq_step\<close>. Futures are numbered; \<open>cq_log\<close> records the requests the worker
  has started. Time-outs are whole seconds; the bookkeeping dictionary \<open>_running\<close>, which nothing reads,
  is left out.
\<close>

section \<open>State\<close>

datatype 'c request = Work nat 'c | Stop_worker

record 'c waiter =
  wt_future :: nat
  wt_name :: string
  wt_timeout :: int
  wt_recovery :: "'c option"

record ('c, 'v) command_queue =
  cq_requests :: "'c request list"
  cq_busy :: "(nat \<times> 'c) option"
  cq_scheduled :: "(nat \<times> (exn + 'v)) list"
  cq_done :: "nat \<Rightarrow> (exn + 'v) option"
  cq_next :: nat
  cq_holder :: "'c waiter option"
  cq_timed_out :: "nat option"
  cq_closed :: bool
  cq_worker_gone :: bool
  cq_log :: "nat list"

definition queue_init :: "('c, 'v) command_queue" where
  "queue_init = \<lparr>cq_requests = [], cq_busy = None, cq_scheduled = [], cq_done = (\<lambda>_. None), cq_next = 0,
     cq_holder = None, cq_timed_out = None, cq_closed = False, cq_worker_gone = False, cq_log = []\<rparr>"

section \<open>\<open>run\<close>\<close>

text \<open>From the entry of \<open>run\<close>, once it has the lock, to the first await. The result is the future.\<close>

definition run_admit :: "string \<Rightarrow> 'c \<Rightarrow> int \<Rightarrow> 'c option \<Rightarrow> ('c, 'v) command_queue \<Rightarrow>
    (exn + nat) \<times> ('c, 'v) command_queue" where
  "run_admit name cmd timeout recovery q =
     (if timeout \<le> 0 then (Inl (ValueError ''Hardware command timeout must be positive''), q)
      else if cq_closed q
      then (Inl (DomainException DE_UNAVAILABLE ''Hardware command queue is shut down''), q)
      else if (case cq_timed_out q of None \<Rightarrow> False | Some t \<Rightarrow> cq_done q t = None)
      then (Inl (DomainException DE_BUSY ''A timed-out hardware command is still running''), q)
      else (Inr (cq_next q),
            q\<lparr>cq_timed_out := None, cq_next := Suc (cq_next q),
              cq_requests := cq_requests q @ [Work (cq_next q) cmd],
              cq_holder := Some \<lparr>wt_future = cq_next q, wt_name = name, wt_timeout = timeout,
                 wt_recovery = recovery\<rparr>\<rparr>))"

definition queue_timeout_recovery :: "'c option \<Rightarrow> ('c, 'v) command_queue \<Rightarrow> nat option \<times> ('c, 'v) command_queue" where
  "queue_timeout_recovery recovery q =
     (case recovery of
        None \<Rightarrow> (None, q)
      | Some cmd \<Rightarrow> (Some (cq_next q), q\<lparr>cq_next := Suc (cq_next q),
                       cq_requests := cq_requests q @ [Work (cq_next q) cmd]\<rparr>))"

definition pending_timeout_completion :: "('c, 'v) command_queue \<Rightarrow> nat option" where
  "pending_timeout_completion q = cq_timed_out q"

text \<open>The branch \<open>except TimeoutError\<close>.\<close>

definition timeout_branch :: "'c waiter \<Rightarrow> ('c, 'v) command_queue \<Rightarrow> (exn + 'v) \<times> ('c, 'v) command_queue" where
  "timeout_branch w q =
     (case queue_timeout_recovery (wt_recovery w) q of
        (rf, q1) \<Rightarrow>
          (Inl (CommandTimeoutError (''Hardware command '' @ CHR 0x27 # wt_name w @ CHR 0x27 #
                  '' timed out after '' @ int_str (wt_timeout w) @ ''.0s'') (rf \<noteq> None)),
           q1\<lparr>cq_timed_out := Some (case rf of None \<Rightarrow> wt_future w | Some r \<Rightarrow> r), cq_holder := None\<rparr>))"

text \<open>The awaited future is done: its result, or its exception. A hardware call that itself raises
  \<open>TimeoutError\<close> takes the branch of the expired deadline.\<close>

definition run_return :: "('c, 'v) command_queue \<Rightarrow> (exn + 'v) \<times> ('c, 'v) command_queue" where
  "run_return q =
     (case cq_holder q of
        None \<Rightarrow> (Inl CancelledError, q)
      | Some w \<Rightarrow>
          (case cq_done q (wt_future w) of
             None \<Rightarrow> (Inl CancelledError, q)
           | Some (Inr v) \<Rightarrow> (Inr v, q\<lparr>cq_holder := None\<rparr>)
           | Some (Inl e) \<Rightarrow>
               (case e of TimeoutError _ \<Rightarrow> timeout_branch w q
                | _ \<Rightarrow> (Inl e, q\<lparr>cq_holder := None\<rparr>))))"

definition run_timeout :: "('c, 'v) command_queue \<Rightarrow> (exn + 'v) \<times> ('c, 'v) command_queue" where
  "run_timeout q = (case cq_holder q of None \<Rightarrow> (Inl CancelledError, q) | Some w \<Rightarrow> timeout_branch w q)"

definition run_cancel :: "('c, 'v) command_queue \<Rightarrow> (exn + 'v) \<times> ('c, 'v) command_queue" where
  "run_cancel q =
     (case cq_holder q of
        None \<Rightarrow> (Inl CancelledError, q)
      | Some w \<Rightarrow>
          if cq_done q (wt_future w) \<noteq> None then (Inl CancelledError, q\<lparr>cq_holder := None\<rparr>)
          else (case queue_timeout_recovery (wt_recovery w) q of
                  (rf, q1) \<Rightarrow> (Inl CancelledError,
                    q1\<lparr>cq_timed_out := Some (case rf of None \<Rightarrow> wt_future w | Some r \<Rightarrow> r),
                       cq_holder := None\<rparr>)))"

section \<open>The worker and the loop\<close>

definition worker_take :: "('c, 'v) command_queue \<Rightarrow> ('c, 'v) command_queue" where
  "worker_take q =
     (case cq_requests q of
        [] \<Rightarrow> q
      | Stop_worker # r \<Rightarrow> q\<lparr>cq_requests := r, cq_worker_gone := True\<rparr>
      | Work f c # r \<Rightarrow> q\<lparr>cq_requests := r, cq_busy := Some (f, c), cq_log := cq_log q @ [f]\<rparr>)"

text \<open>The call returns or raises, and \<open>_schedule_completion\<close> hands the outcome to the loop.\<close>

definition worker_finish :: "exn + 'v \<Rightarrow> ('c, 'v) command_queue \<Rightarrow> ('c, 'v) command_queue" where
  "worker_finish r q =
     (case cq_busy q of
        None \<Rightarrow> q
      | Some (f, c) \<Rightarrow> q\<lparr>cq_busy := None, cq_scheduled := cq_scheduled q @ [(f, r)]\<rparr>)"

definition loop_complete :: "('c, 'v) command_queue \<Rightarrow> ('c, 'v) command_queue" where
  "loop_complete q =
     (case cq_scheduled q of
        [] \<Rightarrow> q
      | (f, r) # rest \<Rightarrow> q\<lparr>cq_scheduled := rest,
          cq_done := (if cq_done q f = None then (cq_done q)(f := Some r) else cq_done q)\<rparr>)"

definition shutdown :: "('c, 'v) command_queue \<Rightarrow> ('c, 'v) command_queue" where
  "shutdown q = (if cq_closed q then q
     else q\<lparr>cq_closed := True, cq_requests := cq_requests q @ [Stop_worker]\<rparr>)"

section \<open>Interleavings\<close>

inductive cq_step :: "('c, 'v) command_queue \<Rightarrow> ('c, 'v) command_queue \<Rightarrow> bool" where
  admit: "cq_holder q = None \<Longrightarrow> cq_step q (snd (run_admit n c t r q))"
| return: "cq_holder q = Some w \<Longrightarrow> cq_done q (wt_future w) = Some x \<Longrightarrow> cq_step q (snd (run_return q))"
| timeout: "cq_holder q = Some w \<Longrightarrow> cq_done q (wt_future w) = None \<Longrightarrow> cq_step q (snd (run_timeout q))"
| cancel: "cq_holder q = Some w \<Longrightarrow> cq_step q (snd (run_cancel q))"
| take: "cq_busy q = None \<Longrightarrow> \<not> cq_worker_gone q \<Longrightarrow> cq_requests q \<noteq> [] \<Longrightarrow> cq_step q (worker_take q)"
| finish: "cq_busy q = Some w \<Longrightarrow> cq_step q (worker_finish r q)"
| complete: "cq_scheduled q \<noteq> [] \<Longrightarrow> cq_step q (loop_complete q)"
| close: "cq_step q (shutdown q)"

inductive cq_reachable :: "('c, 'v) command_queue \<Rightarrow> bool" where
  init: "cq_reachable queue_init"
| step: "cq_reachable q \<Longrightarrow> cq_step q q' \<Longrightarrow> cq_reachable q'"

inductive_cases cq_stepE: "cq_step q q'"

text \<open>The requests that are not done yet, oldest first: finished but not completed, running, waiting.\<close>

fun request_futures :: "'c request list \<Rightarrow> nat list" where
  "request_futures [] = []"
| "request_futures (Work f c # r) = f # request_futures r"
| "request_futures (Stop_worker # r) = request_futures r"

definition outstanding :: "('c, 'v) command_queue \<Rightarrow> nat list" where
  "outstanding q = map fst (cq_scheduled q) @ (case cq_busy q of None \<Rightarrow> [] | Some (f, c) \<Rightarrow> [f]) @
     request_futures (cq_requests q)"

lemma request_futures_append [simp]:
  "request_futures (xs @ ys) = request_futures xs @ request_futures ys"
  by (induction xs rule: request_futures.induct) auto

text \<open>
  While \<open>run\<close> waits, its request is the only one outstanding, if any. Otherwise nothing is outstanding,
  or the last of at most two outstanding requests is the one that poisons the queue.
\<close>

definition cq_inv :: "('c, 'v) command_queue \<Rightarrow> bool" where
  "cq_inv q = (distinct (outstanding q) \<and>
     (\<forall>f \<in> set (outstanding q). f < cq_next q \<and> cq_done q f = None) \<and>
     (\<forall>f. cq_next q \<le> f \<longrightarrow> cq_done q f = None) \<and>
     (case cq_holder q of
        Some w \<Rightarrow> wt_future w < cq_next q \<and> cq_timed_out q = None \<and>
          outstanding q = (if cq_done q (wt_future w) = None then [wt_future w] else [])
      | None \<Rightarrow> outstanding q = [] \<or>
          (\<exists>t. cq_timed_out q = Some t \<and> outstanding q \<in> {[t]} \<union> {[f, t] | f. True})))"

lemma outstanding_simps [simp]:
  "outstanding (q\<lparr>cq_holder := h\<rparr>) = outstanding q"
  "outstanding (q\<lparr>cq_timed_out := t\<rparr>) = outstanding q"
  "outstanding (q\<lparr>cq_next := n\<rparr>) = outstanding q"
  by (simp_all add: outstanding_def)

lemma admit_inv:
  assumes "cq_inv q" "cq_holder q = None"
  shows "cq_inv (snd (run_admit n c t r q))"
proof (cases "fst (run_admit n c t r q)")
  case (Inl e)
  then have "snd (run_admit n c t r q) = q" by (auto simp: run_admit_def split: if_splits)
  with assms show ?thesis by simp
next
  case (Inr f)
  have "outstanding q = []"
  proof (rule ccontr)
    assume "outstanding q \<noteq> []"
    with assms obtain u where "cq_timed_out q = Some u" "u \<in> set (outstanding q)"
      by (auto simp: cq_inv_def)
    with assms Inr show False by (auto simp: cq_inv_def run_admit_def split: if_splits)
  qed
  with assms Inr show ?thesis
    by (auto simp: cq_inv_def run_admit_def outstanding_def split: if_splits)
qed

text \<open>Leaving \<open>run\<close> without the result: the recovery, if any, goes directly behind the request.\<close>

lemma outstanding_put:
  "outstanding (q\<lparr>cq_next := n, cq_requests := cq_requests q @ [Work f c]\<rparr>) = outstanding q @ [f]"
  by (simp add: outstanding_def)

lemma timeout_branch_inv:
  assumes "cq_inv q" "cq_holder q = Some w"
  shows "cq_inv (snd (timeout_branch w q))"
proof -
  have wait: "wt_future w < cq_next q"
    "outstanding q = (if cq_done q (wt_future w) = None then [wt_future w] else [])"
    using assms(1) unfolding cq_inv_def assms(2) option.case by blast+
  have fresh: "\<forall>f. cq_next q \<le> f \<longrightarrow> cq_done q f = None"
    using assms(1) unfolding cq_inv_def by blast
  have inv: "wt_future w < cq_next q" "\<forall>f. cq_next q \<le> f \<longrightarrow> cq_done q f = None"
    "outstanding q = [] \<or> outstanding q = [wt_future w] \<and> cq_done q (wt_future w) = None"
    using wait fresh by (auto split: if_splits)
  show ?thesis
  proof (cases "wt_recovery w")
    case None
    then have "snd (timeout_branch w q) = q\<lparr>cq_timed_out := Some (wt_future w), cq_holder := None\<rparr>"
      by (simp add: timeout_branch_def queue_timeout_recovery_def)
    with inv show ?thesis by (auto simp: cq_inv_def)
  next
    case (Some c)
    then have "snd (timeout_branch w q) = q\<lparr>cq_next := Suc (cq_next q),
        cq_requests := cq_requests q @ [Work (cq_next q) c], cq_timed_out := Some (cq_next q), cq_holder := None\<rparr>"
      by (simp add: timeout_branch_def queue_timeout_recovery_def)
    with inv show ?thesis by (auto simp: cq_inv_def outstanding_put)
  qed
qed

lemma run_return_inv:
  assumes "cq_inv q" "cq_holder q = Some w"
  shows "cq_inv (snd (run_return q))"
proof (cases "cq_done q (wt_future w)")
  case (Some x)
  have "cq_inv (q\<lparr>cq_holder := None\<rparr>)" using assms Some by (auto simp: cq_inv_def)
  with Some assms timeout_branch_inv [OF assms] show ?thesis
    by (auto simp: run_return_def split: sum.splits exn.splits)
qed (use assms in \<open>simp add: run_return_def\<close>)

lemma run_cancel_inv:
  assumes "cq_inv q" "cq_holder q = Some w"
  shows "cq_inv (snd (run_cancel q))"
proof (cases "cq_done q (wt_future w) = None")
  case True
  then have "snd (run_cancel q) = snd (timeout_branch w q)"
    using assms by (simp add: run_cancel_def timeout_branch_def split: prod.splits)
  with timeout_branch_inv [OF assms] show ?thesis by simp
next
  case False
  with assms show ?thesis by (auto simp: run_cancel_def cq_inv_def)
qed

lemma outstanding_worker [simp]:
  "cq_busy q = None \<Longrightarrow> outstanding (worker_take q) = outstanding q"
  "outstanding (worker_finish r q) = outstanding q"
  "outstanding (shutdown q) = outstanding q"
  by (auto simp: outstanding_def worker_take_def worker_finish_def shutdown_def
      split: list.splits request.splits option.splits)

lemma worker_keeps [simp]:
  "cq_done (worker_take q) = cq_done q" "cq_next (worker_take q) = cq_next q"
  "cq_holder (worker_take q) = cq_holder q" "cq_timed_out (worker_take q) = cq_timed_out q"
  "cq_done (worker_finish r q) = cq_done q" "cq_next (worker_finish r q) = cq_next q"
  "cq_holder (worker_finish r q) = cq_holder q" "cq_timed_out (worker_finish r q) = cq_timed_out q"
  "cq_done (shutdown q) = cq_done q" "cq_next (shutdown q) = cq_next q"
  "cq_holder (shutdown q) = cq_holder q" "cq_timed_out (shutdown q) = cq_timed_out q"
  by (auto simp: worker_take_def worker_finish_def shutdown_def
      split: list.splits request.splits option.splits)

lemma cq_inv_same:
  assumes "outstanding q' = outstanding q" "cq_done q' = cq_done q" "cq_next q' = cq_next q"
    "cq_holder q' = cq_holder q" "cq_timed_out q' = cq_timed_out q"
  shows "cq_inv q' = cq_inv q"
  unfolding cq_inv_def assms ..

lemma cq_inv_worker:
  assumes "cq_inv q"
  shows "cq_busy q = None \<Longrightarrow> cq_inv (worker_take q)" "cq_inv (worker_finish r q)" "cq_inv (shutdown q)"
  using assms cq_inv_same [of "worker_take q" q] cq_inv_same [of "worker_finish r q" q]
    cq_inv_same [of "shutdown q" q] by simp_all

lemma loop_complete_inv:
  assumes inv: "cq_inv q"
  shows "cq_inv (loop_complete q)"
proof (cases "cq_scheduled q")
  case Nil
  with inv show ?thesis by (simp add: loop_complete_def)
next
  case (Cons fr rest)
  obtain f r where fr: "fr = (f, r)" by (cases fr)
  with Cons have out: "outstanding q = f # outstanding (loop_complete q)"
    by (simp add: outstanding_def loop_complete_def)
  then have f: "cq_done q f = None" "f \<notin> set (outstanding (loop_complete q))" "f < cq_next q"
    using inv by (auto simp: cq_inv_def)
  have keep: "cq_done (loop_complete q) = (cq_done q)(f := Some r)" "cq_next (loop_complete q) = cq_next q"
    "cq_holder (loop_complete q) = cq_holder q" "cq_timed_out (loop_complete q) = cq_timed_out q"
    using Cons fr f by (simp_all add: loop_complete_def)
  have base: "distinct (outstanding (loop_complete q))"
    "\<forall>g \<in> set (outstanding (loop_complete q)). g < cq_next q \<and> ((cq_done q)(f := Some r)) g = None"
    "\<forall>g. cq_next q \<le> g \<longrightarrow> ((cq_done q)(f := Some r)) g = None"
    using inv f out by (auto simp: cq_inv_def)
  show ?thesis
  proof (cases "cq_holder q")
    case None
    then have "outstanding (loop_complete q) = [] \<or>
        (\<exists>t. cq_timed_out q = Some t \<and> outstanding (loop_complete q) = [t])"
      using inv out by (auto simp: cq_inv_def)
    then show ?thesis unfolding cq_inv_def keep None using base by auto
  next
    case (Some w)
    then have "f = wt_future w" "outstanding (loop_complete q) = []" "cq_timed_out q = None"
      using inv out by (simp_all add: cq_inv_def split: if_splits)
    then show ?thesis unfolding cq_inv_def keep Some using base f by simp
  qed
qed

lemma cq_step_inv: "cq_step q q' \<Longrightarrow> cq_inv q \<Longrightarrow> cq_inv q'"
proof (induction rule: cq_step.induct)
  case (timeout q w)
  then show ?case by (simp add: run_timeout_def timeout_branch_inv)
qed (simp_all add: admit_inv run_return_inv run_cancel_inv cq_inv_worker loop_complete_inv)

lemma cq_reachable_inv: "cq_reachable q \<Longrightarrow> cq_inv q"
proof (induction rule: cq_reachable.induct)
  case init
  then show ?case by (simp add: cq_inv_def queue_init_def outstanding_def)
qed (simp add: cq_step_inv)

section \<open>Order and progress\<close>

text \<open>Requests are numbered and started in the order they were put, and the worker only leaves a
  closed queue.\<close>

definition cq_order :: "('c, 'v) command_queue \<Rightarrow> bool" where
  "cq_order q = (cq_log q @ request_futures (cq_requests q) = [0..<cq_next q] \<and>
     (case cq_holder q of None \<Rightarrow> True | Some w \<Rightarrow> Suc (wt_future w) = cq_next q) \<and>
     (cq_worker_gone q \<or> Stop_worker \<in> set (cq_requests q) \<longrightarrow> cq_closed q))"

lemma timeout_branch_order:
  assumes "cq_order q" "cq_holder q = Some w"
  shows "cq_order (snd (timeout_branch w q))"
  using assms by (cases "wt_recovery w")
    (auto simp: cq_order_def timeout_branch_def queue_timeout_recovery_def append_assoc [symmetric]
      simp del: append_assoc)

lemma cq_step_order: "cq_step q q' \<Longrightarrow> cq_order q \<Longrightarrow> cq_order q'"
proof (induction rule: cq_step.induct)
  case (admit q n c t r)
  then show ?case
    by (auto simp: cq_order_def run_admit_def append_assoc [symmetric] simp del: append_assoc)
next
  case (return q w x)
  have "cq_order (q\<lparr>cq_holder := None\<rparr>)" using return by (simp add: cq_order_def)
  with return timeout_branch_order [of q w] show ?case
    by (auto simp: run_return_def split: sum.splits exn.splits)
next
  case (timeout q w)
  then show ?case by (simp add: run_timeout_def timeout_branch_order)
next
  case (cancel q w)
  have "cq_order (q\<lparr>cq_holder := None\<rparr>)" using cancel by (simp add: cq_order_def)
  moreover have "cq_done q (wt_future w) = None \<Longrightarrow> snd (run_cancel q) = snd (timeout_branch w q)"
    using cancel by (simp add: run_cancel_def timeout_branch_def split: prod.splits)
  ultimately show ?case using cancel timeout_branch_order [of q w] by (auto simp: run_cancel_def)
next
  case (take q)
  then show ?case
    by (auto simp: cq_order_def worker_take_def split: list.splits request.splits option.splits)
next
  case (finish q w r)
  then show ?case by (cases w) (simp add: cq_order_def worker_finish_def split: option.splits)
next
  case (complete q)
  then show ?case
    by (cases "cq_scheduled q"; cases "hd (cq_scheduled q)") (simp_all add: cq_order_def loop_complete_def split: option.splits)
next
  case (close q)
  then show ?case by (auto simp: cq_order_def shutdown_def split: option.splits)
qed

lemma cq_reachable_order: "cq_reachable q \<Longrightarrow> cq_order q"
proof (induction rule: cq_reachable.induct)
  case init
  then show ?case by (simp add: cq_order_def queue_init_def)
qed (simp add: cq_step_order)

definition worker_measure :: "('c, 'v) command_queue \<Rightarrow> nat" where
  "worker_measure q = 3 * length (cq_requests q) + (case cq_busy q of None \<Rightarrow> 0 | Some _ \<Rightarrow> 2) +
     length (cq_scheduled q)"

lemma worker_progress:
  assumes "cq_order q" "\<not> cq_closed q" "outstanding q \<noteq> []"
  shows "\<exists>q'. cq_step q q' \<and> worker_measure q' < worker_measure q \<and> \<not> cq_closed q' \<and> cq_holder q' = cq_holder q"
proof -
  consider "cq_scheduled q \<noteq> []" | w where "cq_busy q = Some w" "cq_scheduled q = []"
    | "cq_busy q = None" "cq_scheduled q = []" "cq_requests q \<noteq> []"
    using assms(3) by (cases "cq_busy q"; cases "cq_scheduled q"; cases "cq_requests q") (auto simp: outstanding_def)
  then show ?thesis
  proof cases
    case 1
    then have "cq_step q (loop_complete q)" by (rule complete)
    moreover have "worker_measure (loop_complete q) < worker_measure q \<and> \<not> cq_closed (loop_complete q) \<and>
        cq_holder (loop_complete q) = cq_holder q"
      using 1 assms(2)
      by (cases "cq_scheduled q"; cases "hd (cq_scheduled q)") (simp_all add: worker_measure_def loop_complete_def)
    ultimately show ?thesis by blast
  next
    case 2
    have "cq_step q (worker_finish (Inl CancelledError) q)" using 2 by (intro finish)
    moreover have "worker_measure (worker_finish (Inl CancelledError) q) < worker_measure q \<and>
        \<not> cq_closed (worker_finish (Inl CancelledError) q)"
      using 2 assms(2) by (cases w) (simp add: worker_measure_def worker_finish_def)
    ultimately show ?thesis by (metis worker_keeps(7))
  next
    case 3
    have "\<not> cq_worker_gone q" "Stop_worker \<notin> set (cq_requests q)" using assms by (auto simp: cq_order_def)
    then have "cq_step q (worker_take q)" using 3 by (intro take)
    moreover have "worker_measure (worker_take q) < worker_measure q \<and> \<not> cq_closed (worker_take q)"
      using 3 assms(2) \<open>Stop_worker \<notin> set (cq_requests q)\<close>
      by (auto simp: worker_measure_def worker_take_def split: list.splits request.splits option.splits)
    ultimately show ?thesis by (metis worker_keeps(3))
  qed
qed

lemma drains:
  "cq_order q \<Longrightarrow> \<not> cq_closed q \<Longrightarrow> \<exists>q'. cq_step\<^sup>*\<^sup>* q q' \<and> outstanding q' = [] \<and> cq_holder q' = cq_holder q"
proof (induction "worker_measure q" arbitrary: q rule: less_induct)
  case less
  show ?case
  proof (cases "outstanding q = []")
    case False
    from worker_progress [OF less.prems this] obtain q1 where q1: "cq_step q q1"
      "worker_measure q1 < worker_measure q" "\<not> cq_closed q1" "cq_holder q1 = cq_holder q" by blast
    have "cq_order q1" using cq_step_order [OF q1(1) less.prems(1)] .
    from less.hyps [OF q1(2) this q1(3)] q1 show ?thesis by (metis converse_rtranclp_into_rtranclp)
  qed blast
qed

section \<open>Properties\<close>

text \<open>
  C19: Hardware calls never overlap: whenever the queue admits a command, nothing it was given before
  is still waiting, running or unfinished, and while a timed-out or cancelled command (or its
  recovery) is unfinished every new command is refused with \<open>busy\<close>.
\<close>

theorem commands_never_overlap:
  assumes "cq_reachable q" "cq_holder q = None"
  shows "(\<forall>f. fst (run_admit n c 10 r q) = Inr f \<longrightarrow>
      outstanding q = [] \<and> outstanding (snd (run_admit n c 10 r q)) = [f]) \<and>
    (outstanding q \<noteq> [] \<and> \<not> cq_closed q \<longrightarrow> run_admit n c 10 r q =
       (Inl (DomainException DE_BUSY ''A timed-out hardware command is still running''), q))"
proof -
  have inv: "cq_inv q" using assms(1) by (rule cq_reachable_inv)
  have busy: "\<exists>t. cq_timed_out q = Some t \<and> cq_done q t = None" if "outstanding q \<noteq> []"
    using inv assms(2) that by (auto simp: cq_inv_def)
  have "outstanding q = []" if "fst (run_admit n c 10 r q) = Inr f" for f
    using that busy by (auto simp: run_admit_def split: if_splits option.splits)
  moreover have "outstanding (snd (run_admit n c 10 r q)) = outstanding q @ [f]"
    if "fst (run_admit n c 10 r q) = Inr f" for f
    using that by (auto simp: run_admit_def outstanding_def split: if_splits)
  ultimately show ?thesis using busy by (auto simp: run_admit_def)
qed

theorem commands_never_overlap_witness:
  "outstanding (snd (run_admit ''fan_auto'' () 10 None (queue_init :: (unit, bool) command_queue))) = [0]"
proof -
  have "fst (run_admit ''fan_auto'' () 10 None (queue_init :: (unit, bool) command_queue)) = Inr 0"
    by (simp add: run_admit_def queue_init_def)
  moreover have "cq_holder (queue_init :: (unit, bool) command_queue) = None" by (simp add: queue_init_def)
  ultimately show ?thesis
    using commands_never_overlap [OF cq_reachable.init, of "''fan_auto''" "()" None] by blast
qed

text \<open>
  When a command with a recovery times out, the recovery is queued directly behind it: commands are
  started strictly in the order of their numbers, the recovery has the number after the timed-out
  command's, and it becomes the request that keeps the queue poisoned.
\<close>

theorem recovery_runs_next:
  assumes "cq_reachable q" "cq_holder q = Some w" "wt_recovery w = Some r"
  shows "let q' = snd (run_timeout q) in
    cq_timed_out q' = Some (Suc (wt_future w)) \<and> last (cq_requests q') = Work (Suc (wt_future w)) r \<and>
    (\<forall>q''. cq_step\<^sup>*\<^sup>* q' q'' \<longrightarrow> cq_log q'' @ request_futures (cq_requests q'') = [0..<cq_next q''])"
proof -
  have ord: "cq_order q" using assms(1) by (rule cq_reachable_order)
  have start: "cq_order (snd (run_timeout q))"
    using timeout_branch_order [OF ord assms(2)] assms(2) by (simp add: run_timeout_def)
  have "cq_order q''" if "cq_step\<^sup>*\<^sup>* (snd (run_timeout q)) q''" for q''
    using that by (induction rule: rtranclp_induct) (auto intro: cq_step_order start)
  moreover have "Suc (wt_future w) = cq_next q" using ord assms(2) by (simp add: cq_order_def)
  ultimately show ?thesis
    using assms(2,3) unfolding Let_def
    by (auto simp: run_timeout_def timeout_branch_def queue_timeout_recovery_def cq_order_def)
qed

theorem recovery_runs_next_witness:
  "cq_timed_out (snd (run_timeout (snd (run_admit ''fan_speed'' ''set_fan_speed'' 10 (Some ''set_fan_auto'')
     (queue_init :: (string, bool) command_queue))))) = Some 1"
proof -
  let ?q = "snd (run_admit ''fan_speed'' ''set_fan_speed'' 10 (Some ''set_fan_auto'')
     (queue_init :: (string, bool) command_queue))"
  have "cq_holder (queue_init :: (string, bool) command_queue) = None" by (simp add: queue_init_def)
  then have "cq_reachable ?q" by (intro cq_reachable.step [OF cq_reachable.init] cq_step.admit)
  moreover have "cq_holder ?q = Some \<lparr>wt_future = 0, wt_name = ''fan_speed'', wt_timeout = 10,
      wt_recovery = Some ''set_fan_auto''\<rparr>"
    by (simp add: run_admit_def queue_init_def)
  ultimately show ?thesis using recovery_runs_next [of ?q] by (simp add: Let_def)
qed



end
