(* ===== verification/Hardware_Port.thy ===== *)
theory Hardware_Port
  imports Touchpad
begin

text \<open>
  The hardware interface of \<^verbatim>\<open>honor_control/backend/hardware.py\<close>: the comparison of a power profile
  with an observation (\<open>verify_power_definition\<close>), its boundary check, the protocol \<open>HardwarePort\<close> as a
  record of operations on an arbitrary world, and \<open>FakeHardware\<close> as an instance. An operation replies
  with a value, with an exception, or not at all within the deadline (\<open>Hang\<close>). What clients assume of a
  port is stated by two locales: reading leaves the controlled state alone, and the fan is back under
  firmware control when the stock-auto request is confirmed.
\<close>

section \<open>Power profiles\<close>

definition RAPL_LIMIT_0 :: string where "RAPL_LIMIT_0 = ''constraint_0_power_limit_uw''"
definition RAPL_LIMIT_1 :: string where "RAPL_LIMIT_1 = ''constraint_1_power_limit_uw''"

definition POWER_CHECK_KEYS :: "string list" where
  "POWER_CHECK_KEYS = [''governor_ok'', ''epp_ok'', ''ppd_ok'', ''rapl_ok'', ''misc_ok'']"

definition POWER_DEFINITION_FIELDS :: "string list" where
  "POWER_DEFINITION_FIELDS = [''pl1_uw'', ''pl2_uw'', ''governor'', ''epp'', ''ppd_profile'',
     ''turbo_enabled'', ''max_perf_pct'']"

fun all_true :: "pv \<Rightarrow> bool" where
  "all_true (PDict d) = (d \<noteq> [] \<and> (\<forall>kv \<in> set d. all_true (snd kv)))"
| "all_true v = (v = PBool True)"

definition fields_present :: "pv dict \<Rightarrow> bool" where
  "fields_present d = list_all (\<lambda>k. map_of d k \<noteq> None) POWER_DEFINITION_FIELDS"

text \<open>\<open>isinstance(x, dict) and bool(x) and all(value == want for value in x.values())\<close>\<close>

definition all_values_eq :: "pv \<Rightarrow> pv \<Rightarrow> bool" where
  "all_values_eq x want = (case x of
     PDict d \<Rightarrow> d \<noteq> [] \<and> list_all (\<lambda>(k, v). py_eq v want) d | _ \<Rightarrow> False)"

definition rapl_matches :: "pv \<Rightarrow> pv dict \<Rightarrow> bool" where
  "rapl_matches rapl df = (case rapl of
     PDict trees \<Rightarrow> trees \<noteq> [] \<and> list_all (\<lambda>(k, values). case values of
         PDict v \<Rightarrow> py_eq (pv_get v RAPL_LIMIT_0) (pv_get df ''pl1_uw'') \<and>
                    py_eq (pv_get v RAPL_LIMIT_1) (pv_get df ''pl2_uw'')
       | _ \<Rightarrow> False) trees
   | _ \<Rightarrow> False)"

definition verify_power_definition :: "pv dict \<Rightarrow> pv dict \<Rightarrow> bool dict" where
  "verify_power_definition observed df =
     (if \<not> fields_present df then map (\<lambda>k. (k, False)) POWER_CHECK_KEYS
      else let no_turbo = (if pv_get df ''turbo_enabled'' = PBool True then 0 else 1)
           in [(''governor_ok'', all_values_eq (pv_get observed ''governors'') (pv_get df ''governor'')),
               (''epp_ok'', all_values_eq (pv_get observed ''epp'') (pv_get df ''epp'')),
               (''ppd_ok'', py_eq (pv_get observed ''ppd_profile'') (pv_get df ''ppd_profile'')),
               (''rapl_ok'', rapl_matches (pv_get observed ''rapl'') df),
               (''misc_ok'', py_eq (pv_get observed ''no_turbo'') (PInt no_turbo) \<and>
                  py_eq (pv_get observed ''max_perf_pct'') (pv_get df ''max_perf_pct''))])"

text \<open>\<open>all(checks.values())\<close>\<close>

definition all_checks :: "bool dict \<Rightarrow> bool" where
  "all_checks d = list_all snd d"

definition is_int :: "pv \<Rightarrow> bool" where
  "is_int v = (case v of PInt _ \<Rightarrow> True | _ \<Rightarrow> False)"

definition is_str :: "pv \<Rightarrow> bool" where
  "is_str v = (case v of PStr _ \<Rightarrow> True | _ \<Rightarrow> False)"

definition is_bool :: "pv \<Rightarrow> bool" where
  "is_bool v = (case v of PBool _ \<Rightarrow> True | _ \<Rightarrow> False)"

definition the_int :: "pv \<Rightarrow> int" where
  "the_int v = (case v of PInt i \<Rightarrow> i | _ \<Rightarrow> 0)"

definition normalize_power_definition :: "pv dict \<Rightarrow> exn + pv dict" where
  "normalize_power_definition df =
     rbind (guardr (ValueError ''Power profile definition is incomplete'') (fields_present df)) (\<lambda>_.
     rbind (guardr (ValueError ''Power limits and max_perf_pct must be integers'')
              (list_all (\<lambda>k. is_int (pv_get df k)) [''pl1_uw'', ''pl2_uw'', ''max_perf_pct''])) (\<lambda>_.
     rbind (guardr (ValueError ''turbo_enabled must be a boolean'') (is_bool (pv_get df ''turbo_enabled''))) (\<lambda>_.
     rbind (guardr (ValueError ''Governor, EPP, and PPD profile must be strings'')
              (list_all (\<lambda>k. is_str (pv_get df k)) [''governor'', ''epp'', ''ppd_profile''])) (\<lambda>_.
     let n = map (\<lambda>k. (k, pv_get df k)) POWER_DEFINITION_FIELDS;
         pl1 = the_int (pv_get n ''pl1_uw''); pl2 = the_int (pv_get n ''pl2_uw'');
         pct = the_int (pv_get n ''max_perf_pct'') in
     rbind (guardr (ValueError ''PL1 is outside the supported range'')
              (POWER_PL1_MIN_UW \<le> pl1 \<and> pl1 \<le> POWER_PL1_MAX_UW)) (\<lambda>_.
     rbind (guardr (ValueError ''PL2 is outside the supported range'') (pl1 \<le> pl2 \<and> pl2 \<le> POWER_PL2_MAX_UW)) (\<lambda>_.
     rbind (guardr (ValueError ''Governor is unsupported'')
              (pv_get n ''governor'' \<in> PStr ` {''powersave'', ''performance''})) (\<lambda>_.
     rbind (guardr (ValueError ''EPP value is unsupported'')
              (pv_get n ''epp'' \<in> PStr ` {''power'', ''default'', ''balance_power'', ''balance_performance'',
                 ''performance''})) (\<lambda>_.
     rbind (guardr (ValueError ''PPD profile is unsupported'')
              (pv_get n ''ppd_profile'' \<in> PStr ` {''power-saver'', ''balanced'', ''performance''})) (\<lambda>_.
     rbind (guardr (ValueError ''max_perf_pct is outside the supported range'') (1 \<le> pct \<and> pct \<le> 100)) (\<lambda>_.
     Inr n))))))))))"

section \<open>The port\<close>

datatype 'a reply = Ret 'a | Raise exn | Hang

record touchpad_probe =
  tpr_available :: bool
  tpr_platform_verified :: bool
  tpr_dmi_vendor :: string
  tpr_dmi_product :: string
  tpr_device_found :: bool
  tpr_permission_denied :: bool
  tpr_descriptor_verified :: bool
  tpr_device_path :: string
  tpr_report_id :: "int option"
  tpr_input_report_bytes :: int
  tpr_output_report_bytes :: int
  tpr_error :: string

record batch_apply_result =
  bar_device_path :: string
  bar_settings :: "touchpad_apply_result list"
  bar_reports_applied :: nat
  bar_total_reports :: nat
  bar_clock_synchronized :: bool

record 'w hw_port =
  hp_detect_platform :: "'w \<Rightarrow> platform_info reply \<times> 'w"
  hp_battery_capability :: "'w \<Rightarrow> capability reply \<times> 'w"
  hp_power_capability :: "'w \<Rightarrow> capability reply \<times> 'w"
  hp_fan_capability :: "'w \<Rightarrow> capability reply \<times> 'w"
  hp_gestures_capability :: "'w \<Rightarrow> capability reply \<times> 'w"
  hp_gpu_capability :: "'w \<Rightarrow> capability reply \<times> 'w"
  hp_read_battery :: "'w \<Rightarrow> battery_snapshot reply \<times> 'w"
  hp_write_battery :: "int \<Rightarrow> int \<Rightarrow> 'w \<Rightarrow> pv dict reply \<times> 'w"
  hp_read_power :: "'w \<Rightarrow> power_snapshot reply \<times> 'w"
  hp_apply_power :: "string \<Rightarrow> pv dict \<Rightarrow> 'w \<Rightarrow> pv dict reply \<times> 'w"
  hp_read_fan :: "'w \<Rightarrow> fan_snapshot reply \<times> 'w"
  hp_set_fan_auto :: "'w \<Rightarrow> bool reply \<times> 'w"
  hp_set_fan_manual :: "int \<Rightarrow> 'w \<Rightarrow> bool reply \<times> 'w"
  hp_set_fan_speed :: "int \<Rightarrow> 'w \<Rightarrow> bool reply \<times> 'w"
  hp_read_fan_temp :: "'w \<Rightarrow> int option reply \<times> 'w"
  hp_read_gestures :: "'w \<Rightarrow> gestures_snapshot reply \<times> 'w"
  hp_list_gesture_mappings :: "'w \<Rightarrow> gesture_entry list reply \<times> 'w"
  hp_probe_touchpad :: "'w \<Rightarrow> touchpad_probe reply \<times> 'w"
  hp_apply_touchpad :: "int dict \<Rightarrow> 'w \<Rightarrow> batch_apply_result reply \<times> 'w"
  hp_query_touchpad_support :: "'w \<Rightarrow> nat set reply \<times> 'w"
  hp_read_gpu :: "'w \<Rightarrow> gpu_snapshot reply \<times> 'w"
  hp_apply_gpu :: "'w \<Rightarrow> pv dict reply \<times> 'w"
  hp_restore_gpu :: "'w \<Rightarrow> pv dict reply \<times> 'w"
  hp_check_dependency :: "'w \<Rightarrow> bool \<times> 'w"

section \<open>FakeHardware\<close>

text \<open>The call log holds the name and the arguments of every call.\<close>

record fake_hw =
  fk_call_log :: "(string \<times> pv list) list"
  fk_fail_next :: "string option"
  fk_platform :: platform_info
  fk_battery_end :: int
  fk_battery_start :: int
  fk_power_profile :: string
  fk_power_observed :: "pv dict"
  fk_fan_speed :: int
  fk_fan_mode :: fan_mode
  fk_fan_temp :: int
  fk_gpu_mitigated :: bool
  fk_gesture_mappings :: "(bool \<times> string) dict"
  fk_touchpad_settings :: "int dict"
  fk_touchpad_support :: "nat set"
  fk_dependency_ok :: bool

definition power_observation :: "pv \<Rightarrow> pv \<Rightarrow> pv \<Rightarrow> pv \<Rightarrow> pv \<Rightarrow> int \<Rightarrow> pv \<Rightarrow> pv dict" where
  "power_observation pl1 pl2 gov epp ppd no_turbo pct =
     [(''rapl'', PDict [(''intel-rapl:0'', PDict [(RAPL_LIMIT_0, pl1), (RAPL_LIMIT_1, pl2)])]),
      (''governors'', PDict [(''0'', gov)]), (''epp'', PDict [(''0'', epp)]),
      (''ppd_profile'', ppd), (''no_turbo'', PInt no_turbo), (''max_perf_pct'', pct)]"

definition fake_init :: fake_hw where
  "fake_init =
     \<lparr>fk_call_log = [], fk_fail_next = None,
      fk_platform = \<lparr>pi_vendor = ''Honor'', pi_product = ''MAGICBOOK_X14_2024'',
        pi_model = ''Honor MagicBook X14 2024'', pi_cpu_model = ''Intel Core i5-1240P'',
        pi_matched = True, pi_confidence = ''high''\<rparr>,
      fk_battery_end = 90, fk_battery_start = 85, fk_power_profile = ''balanced'',
      fk_power_observed = power_observation (PInt 25000000) (PInt 35000000) (PStr ''powersave'')
        (PStr ''balance_power'') (PStr ''balanced'') 0 (PInt 100),
      fk_fan_speed = 0, fk_fan_mode = FM_STOCK, fk_fan_temp = 45000, fk_gpu_mitigated = False,
      fk_gesture_mappings = [(''3:1'', (True, ''leftmeta,v'')), (''3:2'', (True, ''leftmeta,c'')),
        (''3:3'', (False, ''leftmeta,tab''))],
      fk_touchpad_settings = [], fk_touchpad_support = {1, 3, 4, 20, 27}, fk_dependency_ok = True\<rparr>"

definition fake_fail_next :: "string \<Rightarrow> fake_hw \<Rightarrow> fake_hw" where
  "fake_fail_next op w = w\<lparr>fk_fail_next := Some op\<rparr>"

definition fake_log :: "string \<Rightarrow> pv list \<Rightarrow> fake_hw \<Rightarrow> fake_hw" where
  "fake_log name args w = w\<lparr>fk_call_log := fk_call_log w @ [(name, args)]\<rparr>"

text \<open>\<open>_check_fail\<close>, then the rest of the method.\<close>

definition fake_check :: "string \<Rightarrow> (fake_hw \<Rightarrow> 'a reply \<times> fake_hw) \<Rightarrow> fake_hw \<Rightarrow> 'a reply \<times> fake_hw" where
  "fake_check name body w =
     (if fk_fail_next w = Some name
      then (Raise (DomainException DE_UNAVAILABLE (''FakeHardware: queued failure for '' @ name)),
            w\<lparr>fk_fail_next := None\<rparr>)
      else body w)"

definition fake_call :: "string \<Rightarrow> pv list \<Rightarrow> (fake_hw \<Rightarrow> 'a reply \<times> fake_hw) \<Rightarrow> fake_hw \<Rightarrow> 'a reply \<times> fake_hw" where
  "fake_call name args body w = fake_check name body (fake_log name args w)"

definition fake_cap :: "string \<Rightarrow> string \<Rightarrow> string list \<Rightarrow> fake_hw \<Rightarrow> capability reply \<times> fake_hw" where
  "fake_cap name msg res w =
     (Ret \<lparr>cap_status = CS_SUPPORTED, cap_reason_code = [], cap_message = msg, cap_resources = res\<rparr>,
      fake_log name [] w)"

definition fake_read_battery :: "fake_hw \<Rightarrow> battery_snapshot reply \<times> fake_hw" where
  "fake_read_battery = fake_call ''read_battery'' [] (\<lambda>w.
     (Ret (battery_default\<lparr>bs_available := True, bs_capacity_percent := Some 75,
        bs_status := Some BS_CHARGING, bs_ac_online := Some True,
        bs_observed_end := Some (fk_battery_end w), bs_observed_start := Some (fk_battery_start w),
        bs_desired_end := Some (fk_battery_end w), bs_desired_start := Some (fk_battery_start w)\<rparr>), w))"

definition fake_write_battery :: "int \<Rightarrow> int \<Rightarrow> fake_hw \<Rightarrow> pv dict reply \<times> fake_hw" where
  "fake_write_battery en st = fake_call ''write_battery_thresholds'' [PInt en, PInt st] (\<lambda>w.
     (Ret [(''end_write_ok'', PBool True), (''start_write_ok'', PBool True), (''readback_ok'', PBool True)],
      w\<lparr>fk_battery_end := en, fk_battery_start := st\<rparr>))"

definition fake_read_power :: "fake_hw \<Rightarrow> power_snapshot reply \<times> fake_hw" where
  "fake_read_power = fake_call ''read_power'' [] (\<lambda>w.
     (Ret (power_default\<lparr>ps_available := True, ps_applied_profile := fk_power_profile w,
        ps_observed_summary := fk_power_observed w, ps_ac_online := Some True\<rparr>), w))"

definition fake_apply_power :: "string \<Rightarrow> pv dict \<Rightarrow> fake_hw \<Rightarrow> pv dict reply \<times> fake_hw" where
  "fake_apply_power profile df = fake_call ''apply_power_profile'' [PStr profile, PDict df] (\<lambda>w.
     if \<not> fields_present df then (Raise (KeyError ''power definition''), w\<lparr>fk_power_profile := profile\<rparr>)
     else let observed = power_observation (pv_get df ''pl1_uw'') (pv_get df ''pl2_uw'')
                (pv_get df ''governor'') (pv_get df ''epp'') (pv_get df ''ppd_profile'')
                (if py_truthy (pv_get df ''turbo_enabled'') then 0 else 1) (pv_get df ''max_perf_pct'')
          in (Ret ([(''profile'', PStr profile), (''observed'', PDict observed)] @
                   map (\<lambda>(k, b). (k, PBool b)) (verify_power_definition observed df)),
              w\<lparr>fk_power_profile := profile, fk_power_observed := observed\<rparr>))"

definition fake_read_fan :: "fake_hw \<Rightarrow> fan_snapshot reply \<times> fake_hw" where
  "fake_read_fan = fake_call ''read_fan'' [] (\<lambda>w.
     (Ret (fan_default\<lparr>fs_available := True, fs_mode := fk_fan_mode w, fs_desired_mode := fk_fan_mode w,
        fs_temp_mc := Some (fk_fan_temp w),
        fs_target_speed := if fk_fan_mode w \<noteq> FM_STOCK then Some (fk_fan_speed w) else None\<rparr>), w))"

definition fake_set_fan_auto :: "fake_hw \<Rightarrow> bool reply \<times> fake_hw" where
  "fake_set_fan_auto = fake_call ''set_fan_auto'' [] (\<lambda>w. (Ret True, w\<lparr>fk_fan_mode := FM_STOCK\<rparr>))"

definition fake_set_fan_manual :: "int \<Rightarrow> fake_hw \<Rightarrow> bool reply \<times> fake_hw" where
  "fake_set_fan_manual v = fake_call ''set_fan_manual'' [PInt v]
     (\<lambda>w. (Ret True, w\<lparr>fk_fan_mode := FM_MANUAL_OVERRIDE\<rparr>))"

definition fake_set_fan_speed :: "int \<Rightarrow> fake_hw \<Rightarrow> bool reply \<times> fake_hw" where
  "fake_set_fan_speed v = fake_call ''set_fan_speed'' [PInt v] (\<lambda>w. (Ret True, w\<lparr>fk_fan_speed := v\<rparr>))"

definition fake_read_fan_temp :: "fake_hw \<Rightarrow> int option reply \<times> fake_hw" where
  "fake_read_fan_temp = fake_call ''read_fan_temp'' [] (\<lambda>w. (Ret (Some (fk_fan_temp w)), w))"

definition fake_entries :: "fake_hw \<Rightarrow> gesture_entry list" where
  "fake_entries w = map (\<lambda>(gid, enabled, mapping).
     \<lparr>ge_id = gid, ge_label = gid, ge_enabled = enabled, ge_mapping = mapping,
      ge_default_mapping = mapping, ge_error = []\<rparr>) (fk_gesture_mappings w)"

definition fake_list_gesture_mappings :: "fake_hw \<Rightarrow> gesture_entry list reply \<times> fake_hw" where
  "fake_list_gesture_mappings w = (Ret (fake_entries w), fake_log ''list_gesture_mappings'' [] w)"

definition fake_read_gestures :: "fake_hw \<Rightarrow> gestures_snapshot reply \<times> fake_hw" where
  "fake_read_gestures w =
     (Ret (gestures_default\<lparr>gs_available := True, gs_device_found := True, gs_mappings := fake_entries w,
        gs_wmi_transport_present := True, gs_firmware_settings_supported := True,
        gs_firmware_settings := fk_touchpad_settings w\<rparr>),
      fake_log ''list_gesture_mappings'' [] (fake_log ''read_gestures'' [] w))"

definition fake_probe_touchpad :: "fake_hw \<Rightarrow> touchpad_probe reply \<times> fake_hw" where
  "fake_probe_touchpad = fake_call ''probe_touchpad_firmware'' [] (\<lambda>w.
     (Ret \<lparr>tpr_available = True, tpr_platform_verified = True, tpr_dmi_vendor = ''HONOR'',
        tpr_dmi_product = ''MRA-XXX'', tpr_device_found = True, tpr_permission_denied = False,
        tpr_descriptor_verified = True, tpr_device_path = ''/dev/hidraw0'', tpr_report_id = Some 0x0E,
        tpr_input_report_bytes = 9, tpr_output_report_bytes = 9, tpr_error = []\<rparr>, w))"

text \<open>The settings in the order of the enumeration, each with its reports.\<close>

definition fake_normalize :: "int dict \<Rightarrow> exn + (touchpad_setting \<times> int) list" where
  "fake_normalize settings = rbind (rmap (\<lambda>(name, v).
     rbind (parse_touchpad_setting (SA_str name)) (\<lambda>s.
     rbind (parse_touchpad_value (SA_str name) (PInt v)) (\<lambda>n. Inr (s, n)))) settings)
     (\<lambda>ps. Inr (foldl (\<lambda>d (s, n). AList.update s n d) [] ps))"

definition fake_result :: "touchpad_setting \<Rightarrow> int \<Rightarrow> exn + touchpad_apply_result" where
  "fake_result s n = rbind (encode_touchpad_setting (SA_setting s) (PInt n)) (\<lambda>rs.
     Inr \<lparr>tar_setting = s, tar_value = n, tar_device_path = ''/dev/hidraw0'', tar_reports = rs,
          tar_reports_applied = length rs, tar_clock_synchronized = True\<rparr>)"

definition fake_apply_touchpad :: "int dict \<Rightarrow> fake_hw \<Rightarrow> batch_apply_result reply \<times> fake_hw" where
  "fake_apply_touchpad settings =
     fake_call ''apply_touchpad_settings'' [PDict (map (\<lambda>(k, v). (k, PInt v)) settings)] (\<lambda>w.
       case rbind (fake_normalize settings) (\<lambda>nz.
              rbind (rmap (\<lambda>s. fake_result s (the (map_of nz s)))
                       (filter (\<lambda>s. map_of nz s \<noteq> None) TOUCHPAD_SETTINGS)) (\<lambda>rs. Inr (nz, rs))) of
         Inl e \<Rightarrow> (Raise e, w)
       | Inr (nz, rs) \<Rightarrow>
           let total = sum_list (map (\<lambda>r. length (tar_reports r)) rs)
           in (Ret \<lparr>bar_device_path = ''/dev/hidraw0'', bar_settings = rs, bar_reports_applied = total,
                 bar_total_reports = total, bar_clock_synchronized = True\<rparr>,
               w\<lparr>fk_touchpad_settings :=
                   dict_merge (fk_touchpad_settings w) (map (\<lambda>(s, n). (setting_str s, n)) nz)\<rparr>))"

definition fake_query_touchpad_support :: "fake_hw \<Rightarrow> nat set reply \<times> fake_hw" where
  "fake_query_touchpad_support = fake_call ''query_touchpad_support'' [] (\<lambda>w. (Ret (fk_touchpad_support w), w))"

definition fake_read_gpu :: "fake_hw \<Rightarrow> gpu_snapshot reply \<times> fake_hw" where
  "fake_read_gpu w = (Ret \<lparr>gp_available = True, gp_mitigation_enabled = fk_gpu_mitigated w,
     gp_target_cpu = Some 0, gp_irqs = [''i915''], gp_last_error = []\<rparr>, fake_log ''read_gpu'' [] w)"

definition fake_apply_gpu :: "fake_hw \<Rightarrow> pv dict reply \<times> fake_hw" where
  "fake_apply_gpu = fake_call ''apply_gpu_mitigation'' [] (\<lambda>w.
     (Ret [(''affinity_ok'', PBool True), (''cstate_ok'', PBool True)], w\<lparr>fk_gpu_mitigated := True\<rparr>))"

definition fake_restore_gpu :: "fake_hw \<Rightarrow> pv dict reply \<times> fake_hw" where
  "fake_restore_gpu = fake_call ''restore_gpu_mitigation'' [] (\<lambda>w.
     (Ret [(''restored'', PBool True)], w\<lparr>fk_gpu_mitigated := False\<rparr>))"

definition fake_port :: "fake_hw hw_port" where
  "fake_port =
     \<lparr>hp_detect_platform = (\<lambda>w. (Ret (fk_platform w), fake_log ''detect_platform'' [] w)),
      hp_battery_capability = fake_cap ''get_battery_capability'' ''Battery charge control available''
        [''/sys/class/power_supply/BAT0/charge_control_end_threshold''],
      hp_power_capability = fake_cap ''get_power_capability'' ''Power profile control available'' [],
      hp_fan_capability = fake_cap ''get_fan_capability'' ''Fan EC control available'' [''/proc/acpi/call''],
      hp_gestures_capability = fake_cap ''get_gestures_capability'' ''Touchpad gesture daemon available'' [],
      hp_gpu_capability = fake_cap ''get_gpu_capability'' ''GPU IRQ mitigation available'' [],
      hp_read_battery = fake_read_battery,
      hp_write_battery = fake_write_battery,
      hp_read_power = fake_read_power,
      hp_apply_power = fake_apply_power,
      hp_read_fan = fake_read_fan,
      hp_set_fan_auto = fake_set_fan_auto,
      hp_set_fan_manual = fake_set_fan_manual,
      hp_set_fan_speed = fake_set_fan_speed,
      hp_read_fan_temp = fake_read_fan_temp,
      hp_read_gestures = fake_read_gestures,
      hp_list_gesture_mappings = fake_list_gesture_mappings,
      hp_probe_touchpad = fake_probe_touchpad,
      hp_apply_touchpad = fake_apply_touchpad,
      hp_query_touchpad_support = fake_query_touchpad_support,
      hp_read_gpu = fake_read_gpu,
      hp_apply_gpu = fake_apply_gpu,
      hp_restore_gpu = fake_restore_gpu,
      hp_check_dependency = (\<lambda>w. (fk_dependency_ok w, fake_log ''check_dependency'' [] w))\<rparr>"

section \<open>What clients assume of a port\<close>

text \<open>The operations that only observe: a read leaves \<open>obs\<close> of the world unchanged, however it replies.\<close>

definition reads_only :: "('w \<Rightarrow> 'o) \<Rightarrow> ('w \<Rightarrow> 'a \<times> 'w) \<Rightarrow> bool" where
  "reads_only obs f = (\<forall>w. obs (snd (f w)) = obs w)"

lemma reads_onlyD: "reads_only obs f \<Longrightarrow> f w = (r, w') \<Longrightarrow> obs w' = obs w"
  by (metis reads_only_def snd_conv)

locale observing_port =
  fixes hw :: "'w hw_port"
    and obs :: "'w \<Rightarrow> 'o"
  assumes reads [simp, intro]:
    "reads_only obs (hp_detect_platform hw)" "reads_only obs (hp_battery_capability hw)"
    "reads_only obs (hp_power_capability hw)" "reads_only obs (hp_fan_capability hw)"
    "reads_only obs (hp_gestures_capability hw)" "reads_only obs (hp_gpu_capability hw)"
    "reads_only obs (hp_read_battery hw)" "reads_only obs (hp_read_power hw)"
    "reads_only obs (hp_read_fan hw)" "reads_only obs (hp_read_fan_temp hw)"
    "reads_only obs (hp_read_gestures hw)" "reads_only obs (hp_list_gesture_mappings hw)"
    "reads_only obs (hp_probe_touchpad hw)" "reads_only obs (hp_query_touchpad_support hw)"
    "reads_only obs (hp_read_gpu hw)" "reads_only obs (hp_check_dependency hw)"

text \<open>The exceptions of the queue and of the event loop are not the port's.\<close>

definition port_reply :: "'a reply \<Rightarrow> bool" where
  "port_reply r = (case r of
     Raise e \<Rightarrow> (case e of CancelledError \<Rightarrow> False | CommandTimeoutError m b \<Rightarrow> False | _ \<Rightarrow> True) | _ \<Rightarrow> True)"

text \<open>
  The fan is a safety concern of its own: \<open>auto\<close> says that the firmware controls it. A confirmed
  stock-auto request establishes it, and nothing but the two manual commands gives it up.
\<close>

locale fan_port =
  fixes hw :: "'w hw_port"
    and auto :: "'w \<Rightarrow> bool"
  assumes auto_confirmed: "hp_set_fan_auto hw w = (Ret True, w') \<Longrightarrow> auto w'"
    and auto_kept: "auto w \<Longrightarrow> auto (snd (hp_set_fan_auto hw w))"
    and fan_replies [simp, intro]: "port_reply (fst (hp_set_fan_auto hw w))"
    "port_reply (fst (hp_set_fan_manual hw v w))" "port_reply (fst (hp_set_fan_speed hw v w))"
    "port_reply (fst (hp_read_fan_temp hw w))" "port_reply (fst (hp_read_fan hw w))"
    and fan_reads [simp, intro]:
    "reads_only auto (hp_detect_platform hw)" "reads_only auto (hp_battery_capability hw)"
    "reads_only auto (hp_power_capability hw)" "reads_only auto (hp_fan_capability hw)"
    "reads_only auto (hp_gestures_capability hw)" "reads_only auto (hp_gpu_capability hw)"
    "reads_only auto (hp_read_battery hw)" "reads_only auto (hp_read_power hw)"
    "reads_only auto (hp_read_fan hw)" "reads_only auto (hp_read_fan_temp hw)"
    "reads_only auto (hp_read_gestures hw)" "reads_only auto (hp_list_gesture_mappings hw)"
    "reads_only auto (hp_probe_touchpad hw)" "reads_only auto (hp_query_touchpad_support hw)"
    "reads_only auto (hp_read_gpu hw)" "reads_only auto (hp_check_dependency hw)"
    "reads_only auto (hp_write_battery hw en st)" "reads_only auto (hp_apply_power hw p df)"
    "reads_only auto (hp_apply_touchpad hw ss)" "reads_only auto (hp_apply_gpu hw)"
    "reads_only auto (hp_restore_gpu hw)"

text \<open>The controlled state of the fake: everything but the call log and the queued failure.\<close>

definition fake_controlled :: "fake_hw \<Rightarrow> fake_hw" where
  "fake_controlled w = w\<lparr>fk_call_log := [], fk_fail_next := None\<rparr>"

definition fake_fan_auto :: "fake_hw \<Rightarrow> bool" where
  "fake_fan_auto w = (fk_fan_mode w = FM_STOCK)"

lemmas fake_defs = fake_port_def fake_cap_def fake_call_def fake_check_def fake_log_def
  fake_read_battery_def fake_read_power_def fake_read_fan_def fake_read_fan_temp_def
  fake_read_gestures_def fake_list_gesture_mappings_def fake_probe_touchpad_def
  fake_query_touchpad_support_def fake_read_gpu_def

lemmas fake_write_defs = fake_write_battery_def fake_apply_power_def fake_set_fan_auto_def
  fake_set_fan_manual_def fake_set_fan_speed_def fake_apply_touchpad_def fake_apply_gpu_def
  fake_restore_gpu_def

interpretation fake: observing_port fake_port fake_controlled
  by unfold_locales (simp_all add: reads_only_def fake_defs fake_controlled_def)

interpretation fake_fan: fan_port fake_port fake_fan_auto
  by unfold_locales
     (auto simp: reads_only_def port_reply_def fake_defs fake_write_defs fake_fan_auto_def Let_def
        split: if_splits sum.splits)

section \<open>Verification of a power profile\<close>

definition observation_matches :: "pv dict \<Rightarrow> pv dict \<Rightarrow> bool" where
  "observation_matches observed df = all_checks (verify_power_definition observed df)"

lemma py_eq_simple [simp]:
  "py_eq (PStr s) y = (y = PStr s)" "py_eq PNone y = (y = PNone)"
  by simp_all

lemma py_eq_int_int: "py_eq v (PInt i) \<and> is_int v \<longleftrightarrow> v = PInt i"
  by (cases v) (auto simp: is_int_def)

lemma normalize_accepts:
  assumes "normalize_power_definition df = Inr n"
  shows "3000000 \<le> the_int (pv_get df ''pl1_uw'') \<and> the_int (pv_get df ''pl1_uw'') \<le> the_int (pv_get df ''pl2_uw'') \<and>
    the_int (pv_get df ''pl1_uw'') \<le> 35000000 \<and> the_int (pv_get df ''pl2_uw'') \<le> 55000000 \<and>
    1 \<le> the_int (pv_get df ''max_perf_pct'') \<and> the_int (pv_get df ''max_perf_pct'') \<le> 100 \<and>
    fields_present df \<and> n = map (\<lambda>k. (k, pv_get df k)) POWER_DEFINITION_FIELDS"
  using assms
  by (simp add: normalize_power_definition_def Let_def POWER_DEFINITION_FIELDS_def pv_get_def [of "_ # _"])

end
