(* ===== verification/App_State.thy ===== *)
theory App_State
  imports Config_Store Snapshot_Store Supervisor Command_Queue Hardware_Port
begin

text \<open>
  The state of \<open>ApplicationService\<close> (\<^verbatim>\<open>honor_control/backend/application.py\<close>) and the actions its use cases
  are composed of. An action maps the state to a result and a new state; an exception is an \<open>Inl\<close>. The
  hardware and everything else outside the process is a world of arbitrary type, which the port and
  the environment record read and change.

  One use case runs from its first to its last await without another coroutine changing the
  application's own state (the mutation lock serialises the mutations); the world may change at every
  call. A hardware call that does not answer expires at the queue's deadline, or at the shorter
  deadline of the supervisor when it runs inside a clean-up (\<open>ap_in_cleanup\<close>).
\<close>

section \<open>State and environment\<close>

record gesture_probe =
  gpr_available :: bool
  gpr_device_found :: bool
  gpr_permission_denied :: bool
  gpr_device_path :: string
  gpr_uinput_found :: bool
  gpr_error :: string

record gesture_status =
  gst_running :: bool
  gst_device_found :: bool
  gst_permission_denied :: bool
  gst_uinput_ready :: bool
  gst_device_path :: string
  gst_reports_seen :: int
  gst_gestures_emitted :: int
  gst_last_error :: string

text \<open>The task that watches a queued stock-auto recovery: created, waiting for the numbered future,
  or done.\<close>

datatype restore_task = RT_none | RT_created nat | RT_waiting nat | RT_done

record 'w app =
  ap_world :: 'w
  ap_config :: config_store
  ap_snaps :: snapshot_store
  ap_queue :: "(string, unit) command_queue"
  ap_sup :: supervisor
  ap_has_gestures :: bool
  ap_closing :: bool
  ap_shutdown_complete :: bool
  ap_manual_ttl :: int
  ap_fail_safe :: string
  ap_restore_pending :: bool
  ap_restore_task :: restore_task
  ap_script_status :: string
  ap_in_cleanup :: bool

text \<open>
  The environment: the hardware, the persistence environment and its failures, the clock, what creating
  or awaiting a controller task gives, what a timed-out call still does, whether a pending recovery
  ends while it is awaited, the gesture runtime as the application sees it, a monotonic clock in
  microseconds, the file system and the processes of transition hooks, \<open>str\<close> of floats and containers, and the
  program's version.
\<close>

text \<open>What a hook's path checks see of the file system: whether a path is a file and executable, a resolved
  path followed by its parents, and owner and mode of a path.\<close>

record script_fs =
  sfs_is_file :: "string \<Rightarrow> bool"
  sfs_executable :: "string \<Rightarrow> bool"
  sfs_resolve :: "string \<Rightarrow> string list"
  sfs_stat :: "string \<Rightarrow> exn + int \<times> nat"

text \<open>How the process of a hook ends: with a code, at the deadline, or it cannot be created.\<close>

datatype script_end = SE_exit int | SE_timeout | SE_raise exn

text \<open>How \<open>journalctl\<close> ends: the lines of its output, a missing program, the deadline, or another exception.\<close>

datatype journal_end = JE_output "string list" | JE_missing | JE_timeout | JE_raise exn

record 'w app_env =
  ev_hw :: "'w hw_port"
  ev_store :: store_env
  ev_save_faults :: "'w \<Rightarrow> save_faults \<times> 'w"
  ev_load_faults :: "'w \<Rightarrow> load_faults \<times> 'w"
  ev_now :: "'w \<Rightarrow> int \<times> 'w"
  ev_start_fault :: "string \<Rightarrow> 'w \<Rightarrow> exn option \<times> 'w"
  ev_cancelled_task :: "string \<Rightarrow> 'w \<Rightarrow> awaited \<times> 'w"
  ev_late_effect :: "'w \<Rightarrow> 'w"
  ev_recovery_in_time :: "'w \<Rightarrow> bool \<times> 'w"
  ev_gesture_probe :: "'w \<Rightarrow> gesture_probe \<times> 'w"
  ev_gesture_status :: "'w \<Rightarrow> gesture_status \<times> 'w"
  ev_gesture_switch :: "bool \<Rightarrow> 'w \<Rightarrow> 'w"
  ev_wmi_present :: "'w \<Rightarrow> bool \<times> 'w"
  ev_uptime :: "'w \<Rightarrow> int \<times> 'w"
  ev_monotonic :: "'w \<Rightarrow> int \<times> 'w"
  ev_script_fs :: "'w \<Rightarrow> script_fs \<times> 'w"
  ev_run_script :: "string list \<Rightarrow> string \<Rightarrow> string \<Rightarrow> 'w \<Rightarrow> script_end \<times> 'w"
  ev_journal :: "int \<Rightarrow> 'w \<Rightarrow> journal_end \<times> 'w"
  ev_repr :: "pv \<Rightarrow> string"
  ev_version :: string

section \<open>Construction\<close>

text \<open>\<open>__init__\<close> with its own components over a disk; names are registered once.\<close>

definition app_supervisor :: "bool \<Rightarrow> supervisor" where
  "app_supervisor has_gestures =
     (case rbind (register ''manual_fan_ttl'' True supervisor_init)
             (\<lambda>sv. if has_gestures then register ''gesture_daemon'' False sv else Inr sv) of
        Inl _ \<Rightarrow> supervisor_init
      | Inr sv \<Rightarrow> sv)"

definition app_init :: "disk \<Rightarrow> int \<Rightarrow> bool \<Rightarrow> 'w \<Rightarrow> 'w app" where
  "app_init d now has_gestures w =
     \<lparr>ap_world = w, ap_config = store_init d, ap_snaps = snapshot_store_init now, ap_queue = queue_init,
      ap_sup = app_supervisor has_gestures, ap_has_gestures = has_gestures, ap_closing = False,
      ap_shutdown_complete = False, ap_manual_ttl = 0, ap_fail_safe = [], ap_restore_pending = False,
      ap_restore_task = RT_none, ap_script_status = ''Not run'', ap_in_cleanup = False\<rparr>"

text \<open>An environment around \<open>FakeHardware\<close> in which nothing outside the port fails.\<close>

definition fake_env :: "fake_hw app_env" where
  "fake_env =
     \<lparr>ev_hw = fake_port,
      ev_store = \<lparr>se_toml_load = (\<lambda>_. Inl (ValueError ''not a TOML document'')), se_float_repr = (\<lambda>_. ''0.0'')\<rparr>,
      ev_save_faults = Pair no_save_faults, ev_load_faults = Pair no_load_faults,
      ev_now = Pair 0, ev_start_fault = (\<lambda>_. Pair None), ev_cancelled_task = (\<lambda>_. Pair A_cancelled),
      ev_late_effect = id, ev_recovery_in_time = Pair True,
      ev_gesture_probe = Pair \<lparr>gpr_available = True, gpr_device_found = True, gpr_permission_denied = False,
        gpr_device_path = ''/dev/hidraw0'', gpr_uinput_found = True, gpr_error = []\<rparr>,
      ev_gesture_status = Pair \<lparr>gst_running = False, gst_device_found = True, gst_permission_denied = False,
        gst_uinput_ready = True, gst_device_path = ''/dev/hidraw0'', gst_reports_seen = 0,
        gst_gestures_emitted = 0, gst_last_error = []\<rparr>,
      ev_gesture_switch = (\<lambda>_ w. w), ev_wmi_present = Pair True, ev_uptime = Pair 0,
      ev_monotonic = Pair 0,
      ev_script_fs = Pair \<lparr>sfs_is_file = (\<lambda>_. False), sfs_executable = (\<lambda>_. False), sfs_resolve = (\<lambda>p. [p]),
        sfs_stat = (\<lambda>_. Inr (0, 0))\<rparr>,
      ev_run_script = (\<lambda>_ _ _. Pair (SE_exit 0)), ev_journal = (\<lambda>_. Pair (JE_output [])), ev_repr = (\<lambda>_. ''{}''), ev_version = ''0.5.0''\<rparr>"

definition fake_app :: "fake_hw app" where
  "fake_app = app_init \<lparr>dk_primary = None, dk_backup = None, dk_stray_temps = 0\<rparr> 0 True fake_init"

section \<open>Actions\<close>

type_synonym ('w, 'a) act = "'w app \<Rightarrow> (exn + 'a) \<times> 'w app"

definition aret :: "'a \<Rightarrow> ('w, 'a) act" where
  "aret x s = (Inr x, s)"

definition araise :: "exn \<Rightarrow> ('w, 'a) act" where
  "araise e s = (Inl e, s)"

definition abind :: "('w, 'a) act \<Rightarrow> ('a \<Rightarrow> ('w, 'b) act) \<Rightarrow> ('w, 'b) act" where
  "abind m f s = (case m s of (Inl e, s') \<Rightarrow> (Inl e, s') | (Inr x, s') \<Rightarrow> f x s')"

text \<open>\<open>try: m except Exception as e: h e\<close>; a cancellation passes through.\<close>

definition atry :: "('w, 'a) act \<Rightarrow> (exn \<Rightarrow> ('w, 'a) act) \<Rightarrow> ('w, 'a) act" where
  "atry m h s = (case m s of (Inl e, s') \<Rightarrow> (if is_exception e then h e s' else (Inl e, s')) | (Inr x, s') \<Rightarrow> (Inr x, s'))"

text \<open>With a handler for cancellations too.\<close>

definition acatch :: "('w, 'a) act \<Rightarrow> (exn \<Rightarrow> ('w, 'a) act) \<Rightarrow> ('w, 'a) act" where
  "acatch m h s = (case m s of (Inl e, s') \<Rightarrow> h e s' | (Inr x, s') \<Rightarrow> (Inr x, s'))"

text \<open>\<open>try: m finally: f\<close>\<close>

definition afinally :: "('w, 'a) act \<Rightarrow> ('w, unit) act \<Rightarrow> ('w, 'a) act" where
  "afinally m f s = (case m s of (r, s') \<Rightarrow> (case f s' of (Inl e, s'') \<Rightarrow> (Inl e, s'') | (Inr u, s'') \<Rightarrow> (r, s'')))"

definition aget :: "('w app \<Rightarrow> 'a) \<Rightarrow> ('w, 'a) act" where
  "aget f s = (Inr (f s), s)"

definition amodify :: "('w app \<Rightarrow> 'w app) \<Rightarrow> ('w, unit) act" where
  "amodify f s = (Inr (), f s)"

definition alift :: "exn + 'a \<Rightarrow> ('w, 'a) act" where
  "alift r s = (r, s)"

definition aworld :: "('w \<Rightarrow> 'a \<times> 'w) \<Rightarrow> ('w, 'a) act" where
  "aworld f s = (case f (ap_world s) of (x, w) \<Rightarrow> (Inr x, s\<lparr>ap_world := w\<rparr>))"

definition awhen :: "bool \<Rightarrow> ('w, unit) act \<Rightarrow> ('w, unit) act" where
  "awhen b m = (if b then m else aret ())"

subsection \<open>What an action keeps\<close>

definition keeps :: "('w app \<Rightarrow> bool) \<Rightarrow> ('w, 'a) act \<Rightarrow> bool" where
  "keeps I m = (\<forall>s. I s \<longrightarrow> I (snd (m s)))"

named_theorems keeps_intro \<open>rules that show that an action keeps an invariant\<close>

lemma keepsD: "keeps I m \<Longrightarrow> m s = (r, s') \<Longrightarrow> I s \<Longrightarrow> I s'"
  by (metis keeps_def snd_conv)

lemma keepsI2: "keeps I m \<Longrightarrow> I s \<Longrightarrow> I (snd (m s))"
  by (simp add: keeps_def)

lemma keeps_aret [keeps_intro]: "keeps I (aret x)"
  by (simp add: keeps_def aret_def)

lemma keeps_araise [keeps_intro]: "keeps I (araise e)"
  by (simp add: keeps_def araise_def)

lemma keeps_alift [keeps_intro]: "keeps I (alift r)"
  by (simp add: keeps_def alift_def)

lemma keeps_aget [keeps_intro]: "keeps I (aget f)"
  by (simp add: keeps_def aget_def)

lemma keeps_abind [keeps_intro]: "keeps I m \<Longrightarrow> (\<And>x. keeps I (f x)) \<Longrightarrow> keeps I (abind m f)"
  by (auto simp: keeps_def [of I "abind m f"] abind_def split: prod.splits sum.splits
      dest: keepsD intro: keepsI2)

lemma keeps_atry [keeps_intro]: "keeps I m \<Longrightarrow> (\<And>e. keeps I (h e)) \<Longrightarrow> keeps I (atry m h)"
  by (auto simp: keeps_def [of I "atry m h"] atry_def split: prod.splits sum.splits
      dest: keepsD intro: keepsI2)

lemma keeps_acatch [keeps_intro]: "keeps I m \<Longrightarrow> (\<And>e. keeps I (h e)) \<Longrightarrow> keeps I (acatch m h)"
  by (auto simp: keeps_def [of I "acatch m h"] acatch_def split: prod.splits sum.splits
      dest: keepsD intro: keepsI2)

lemma keeps_afinally [keeps_intro]: "keeps I m \<Longrightarrow> keeps I f \<Longrightarrow> keeps I (afinally m f)"
  by (auto simp: keeps_def [of I "afinally m f"] afinally_def split: prod.splits sum.splits dest: keepsD)

lemma keeps_if [keeps_intro]: "(b \<Longrightarrow> keeps I m) \<Longrightarrow> (\<not> b \<Longrightarrow> keeps I n) \<Longrightarrow> keeps I (if b then m else n)"
  by simp

lemma keeps_awhen [keeps_intro]: "(b \<Longrightarrow> keeps I m) \<Longrightarrow> keeps I (awhen b m)"
  by (simp add: awhen_def keeps_aret)

lemma keeps_let [keeps_intro]: "(\<And>x. x = v \<Longrightarrow> keeps I (f x)) \<Longrightarrow> keeps I (let x = v in f x)"
  by simp

lemma keeps_case_option [keeps_intro]:
  "(v = None \<Longrightarrow> keeps I m) \<Longrightarrow> (\<And>x. v = Some x \<Longrightarrow> keeps I (f x)) \<Longrightarrow>
     keeps I (case v of None \<Rightarrow> m | Some x \<Rightarrow> f x)"
  by (cases v) auto

lemma keeps_case_prod [keeps_intro]:
  "(\<And>x y. v = (x, y) \<Longrightarrow> keeps I (f x y)) \<Longrightarrow> keeps I (case v of (x, y) \<Rightarrow> f x y)"
  by (cases v) auto

lemma keeps_case_sum [keeps_intro]:
  "(\<And>x. v = Inl x \<Longrightarrow> keeps I (f x)) \<Longrightarrow> (\<And>y. v = Inr y \<Longrightarrow> keeps I (g y)) \<Longrightarrow>
     keeps I (case v of Inl x \<Rightarrow> f x | Inr y \<Rightarrow> g y)"
  by (cases v) auto

lemma keeps_amodify: "(\<And>s. I s \<Longrightarrow> I (f s)) \<Longrightarrow> keeps I (amodify f)"
  by (simp add: keeps_def amodify_def)

lemma keeps_conj: "keeps I m \<Longrightarrow> keeps J m \<Longrightarrow> keeps (\<lambda>s. I s \<and> J s) m"
  by (auto simp: keeps_def)

subsection \<open>What an action establishes\<close>

text \<open>Every return satisfies \<open>Q\<close> and every exception \<open>E\<close>.\<close>

definition ends :: "('w, 'a) act \<Rightarrow> 'w app \<Rightarrow> ('a \<Rightarrow> 'w app \<Rightarrow> bool) \<Rightarrow> (exn \<Rightarrow> 'w app \<Rightarrow> bool) \<Rightarrow> bool" where
  "ends m s Q E = (case m s of (Inr x, s') \<Rightarrow> Q x s' | (Inl e, s') \<Rightarrow> E e s')"

lemma ends_simps [simp]:
  "ends (aret x) s Q E = Q x s"
  "ends (araise e) s Q E = E e s"
  "ends (aget f) s Q E = Q (f s) s"
  by (simp_all add: ends_def aret_def araise_def aget_def)

lemma ends_amodify [simp]: "ends (amodify f) s Q E = Q () (f s)"
  by (simp add: ends_def amodify_def)

lemma ends_alift: "ends (alift r) s Q E = (case r of Inl e \<Rightarrow> E e s | Inr x \<Rightarrow> Q x s)"
  by (cases r) (simp_all add: ends_def alift_def)

lemma ends_abind [simp]: "ends (abind m f) s Q E = ends m s (\<lambda>x s'. ends (f x) s' Q E) E"
  by (auto simp: ends_def abind_def split: prod.splits sum.splits)

lemma ends_atry [simp]:
  "ends (atry m h) s Q E = ends m s Q (\<lambda>e s'. if is_exception e then ends (h e) s' Q E else E e s')"
  by (auto simp: ends_def atry_def split: prod.splits sum.splits)

lemma ends_acatch [simp]: "ends (acatch m h) s Q E = ends m s Q (\<lambda>e s'. ends (h e) s' Q E)"
  by (auto simp: ends_def acatch_def split: prod.splits sum.splits)

lemma ends_if: "ends (if b then m else n) s Q E = (if b then ends m s Q E else ends n s Q E)"
  by simp

lemma ends_awhen [simp]: "ends (awhen b m) s Q E = (if b then ends m s Q E else Q () s)"
  by (simp add: awhen_def)

lemma ends_mono:
  "ends m s Q E \<Longrightarrow> (\<And>x s'. Q x s' \<Longrightarrow> Q' x s') \<Longrightarrow> (\<And>e s'. E e s' \<Longrightarrow> E' e s') \<Longrightarrow> ends m s Q' E'"
  by (auto simp: ends_def split: prod.splits sum.splits)

lemma ends_keeps: "keeps I m \<Longrightarrow> I s \<Longrightarrow> ends m s (\<lambda>_. I) (\<lambda>_. I)"
  by (auto simp: ends_def split: prod.splits sum.splits dest: keepsD)

lemma ends_conj: "ends m s Q E \<Longrightarrow> ends m s Q' E' \<Longrightarrow> ends m s (\<lambda>x t. Q x t \<and> Q' x t) (\<lambda>e t. E e t \<and> E' e t)"
  by (auto simp: ends_def split: prod.splits sum.splits)

section \<open>Components as actions\<close>

text \<open>\<open>await self._queue.run(name, func, timeout_recovery=...)\<close>: admission, then the worker runs the
  call; the recovery, if any, is the stock-auto command.\<close>

definition queue_run :: "string \<Rightarrow> string option \<Rightarrow> ('w \<Rightarrow> 'a reply \<times> 'w) \<Rightarrow> ('w, 'a) act" where
  "queue_run name recovery f s =
     (case run_admit name name 10 recovery (ap_queue s) of
        (Inl e, q) \<Rightarrow> (Inl e, s\<lparr>ap_queue := q\<rparr>)
      | (Inr fut, q) \<Rightarrow>
          let q1 = worker_take q in
          case f (ap_world s) of
            (Ret x, w) \<Rightarrow>
              (case run_return (loop_complete (worker_finish (Inr ()) q1)) of
                 (Inl e, q2) \<Rightarrow> (Inl e, s\<lparr>ap_world := w, ap_queue := q2\<rparr>)
               | (Inr u, q2) \<Rightarrow> (Inr x, s\<lparr>ap_world := w, ap_queue := q2\<rparr>))
          | (Raise e, w) \<Rightarrow>
              (case run_return (loop_complete (worker_finish (Inl e) q1)) of
                 (Inl e', q2) \<Rightarrow> (Inl e', s\<lparr>ap_world := w, ap_queue := q2\<rparr>)
               | (Inr u, q2) \<Rightarrow> (Inl e, s\<lparr>ap_world := w, ap_queue := q2\<rparr>))
          | (Hang, w) \<Rightarrow>
              (case (if ap_in_cleanup s then run_cancel q1 else run_timeout q1) of
                 (Inl e, q2) \<Rightarrow> (Inl e, s\<lparr>ap_world := w, ap_queue := q2\<rparr>)
               | (Inr u, q2) \<Rightarrow> (Inl CancelledError, s\<lparr>ap_world := w, ap_queue := q2\<rparr>)))"

definition run_hw :: "string \<Rightarrow> ('w \<Rightarrow> 'a reply \<times> 'w) \<Rightarrow> ('w, 'a) act" where
  "run_hw name f = queue_run name None f"

definition snap :: "('w, system_snapshot) act" where
  "snap = aget (\<lambda>s. sn_snapshot (ap_snaps s))"

definition sequence :: "('w, int) act" where
  "sequence = aget (\<lambda>s. ss_sequence (sn_snapshot (ap_snaps s)))"

definition publish_domain :: "'w app_env \<Rightarrow> domain_value \<Rightarrow> ('w, unit) act" where
  "publish_domain env v = abind (aworld (ev_now env)) (\<lambda>now.
     amodify (\<lambda>s. s\<lparr>ap_snaps := update_domain now v (ap_snaps s)\<rparr>))"

definition publish_stale :: "'w app_env \<Rightarrow> string \<Rightarrow> exn \<Rightarrow> ('w, unit) act" where
  "publish_stale env domain e = abind (aworld (ev_now env)) (\<lambda>now.
     amodify (\<lambda>s. s\<lparr>ap_snaps := mark_stale now domain (exn_str e) (ap_snaps s)\<rparr>))"

definition config :: "('w, service_state) act" where
  "config = aget (\<lambda>s. cs_state (ap_config s))"

definition config_update :: "'w app_env \<Rightarrow> (service_state \<Rightarrow> service_state) \<Rightarrow> ('w, unit) act" where
  "config_update env f = abind (aworld (ev_save_faults env)) (\<lambda>sf s.
     (case update (ev_store env) sf (\<lambda>st. Inr (f st)) (ap_config s) of
        (Inl e, c) \<Rightarrow> (Inl e, s\<lparr>ap_config := c\<rparr>)
      | (Inr u, c) \<Rightarrow> (Inr (), s\<lparr>ap_config := c\<rparr>)))"

definition sup_start :: "'w app_env \<Rightarrow> string \<Rightarrow> ('w, bool) act" where
  "sup_start env name = abind (aworld (ev_start_fault env name)) (\<lambda>fault s.
     (case start fault name (ap_sup s) of (b, sv) \<Rightarrow> (Inr b, s\<lparr>ap_sup := sv\<rparr>)))"

text \<open>\<open>await supervisor.stop(name)\<close> with the clean-up registered for the controller. The clean-up runs
  under the supervisor's deadline, which a hanging call exceeds.\<close>

definition awaited_of :: "exn + 'a \<Rightarrow> awaited" where
  "awaited_of r = (case r of Inr _ \<Rightarrow> A_ok | Inl CancelledError \<Rightarrow> A_timeout | Inl e \<Rightarrow> A_raise e)"

definition sup_stop :: "'w app_env \<Rightarrow> string \<Rightarrow> ('w, bool) act \<Rightarrow> ('w, unit) act" where
  "sup_stop env name clean = abind (aworld (ev_cancelled_task env name)) (\<lambda>task s.
     (case stop_begin name task (ap_sup s) of
        None \<Rightarrow> (Inr (), s)
      | Some sv1 \<Rightarrow>
          if has_cleanup name sv1
          then case clean (s\<lparr>ap_sup := sv_note (Cleanup_run name) sv1, ap_in_cleanup := True\<rparr>) of
                 (r, s1) \<Rightarrow> (Inr (), s1\<lparr>ap_in_cleanup := ap_in_cleanup s,
                    ap_sup := stop_end name (note_fault name (awaited_of r) (ap_sup s1))\<rparr>)
          else (Inr (), s\<lparr>ap_sup := stop_end name sv1\<rparr>)))"

section \<open>Invariant\<close>

text \<open>Between awaits nobody holds the queue; the components keep their own invariants.\<close>

definition queue_ok :: "'w app \<Rightarrow> bool" where
  "queue_ok s = (cq_reachable (ap_queue s) \<and> cq_holder (ap_queue s) = None)"

definition app_inv :: "'w app \<Rightarrow> bool" where
  "app_inv s = (queue_ok s \<and> valid_state (cs_state (ap_config s)) \<and> snapshot_inv (ap_snaps s))"

lemma cq_inv_waiting:
  "cq_inv q \<Longrightarrow> cq_holder q = Some w \<Longrightarrow>
     outstanding q = (if cq_done q (wt_future w) = None then [wt_future w] else [])"
proof -
  assume inv: "cq_inv q" and h: "cq_holder q = Some w"
  show ?thesis using inv unfolding cq_inv_def h option.case by blast
qed

lemma admit_reachable:
  "queue_ok s \<Longrightarrow> run_admit n c t r (ap_queue s) = (x, q) \<Longrightarrow> cq_reachable q"
  unfolding queue_ok_def using cq_step.admit [of "ap_queue s" n c t r] cq_reachable.step by (metis snd_conv)

text \<open>An admitted command finds the worker idle and is the next it takes.\<close>

lemma admit_ok:
  assumes "queue_ok s" "run_admit n c t r (ap_queue s) = (Inr f, q)"
  shows "cq_holder q = Some \<lparr>wt_future = f, wt_name = n, wt_timeout = t, wt_recovery = r\<rparr>"
    "cq_done q f = None" "outstanding q = [f]"
proof -
  have inv: "cq_inv (ap_queue s)" using assms(1) by (simp add: queue_ok_def cq_reachable_inv)
  show hold: "cq_holder q = Some \<lparr>wt_future = f, wt_name = n, wt_timeout = t, wt_recovery = r\<rparr>"
    using assms(2) by (auto simp: run_admit_def split: if_splits)
  have f: "f = cq_next (ap_queue s)" "cq_done q = cq_done (ap_queue s)"
    using assms(2) by (auto simp: run_admit_def split: if_splits)
  have "\<forall>g. cq_next (ap_queue s) \<le> g \<longrightarrow> cq_done (ap_queue s) g = None"
    using inv unfolding cq_inv_def by blast
  with f show free: "cq_done q f = None" by simp
  have "cq_inv q" using admit_reachable [OF assms] by (rule cq_reachable_inv)
  from cq_inv_waiting [OF this hold] free show "outstanding q = [f]" by simp
qed

lemma admit_shape:
  assumes ok: "queue_ok s" and adm: "run_admit n c t r (ap_queue s) = (Inr f, q)"
  shows "cq_requests q = [Work f c]" "cq_busy q = None" "cq_scheduled q = []" "\<not> cq_worker_gone q"
proof -
  have out: "outstanding q = [f]" by (rule admit_ok [OF ok adm])
  have reqs: "cq_requests q = cq_requests (ap_queue s) @ [Work f c]" "\<not> cq_closed (ap_queue s)"
    "cq_worker_gone q = cq_worker_gone (ap_queue s)"
    using adm by (auto simp: run_admit_def split: if_splits)
  have "cq_order (ap_queue s)" using ok by (simp add: queue_ok_def cq_reachable_order)
  with reqs(2,3) have stop: "Stop_worker \<notin> set (cq_requests (ap_queue s))" "\<not> cq_worker_gone q"
    by (auto simp: cq_order_def)
  have none: "request_futures (cq_requests (ap_queue s)) = []" "cq_scheduled q = []" "cq_busy q = None"
    using out reqs(1) by (auto simp: outstanding_def append_eq_Cons_conv split: option.splits)
  have "cq_requests (ap_queue s) = []"
    using none(1) stop(1) by (cases "cq_requests (ap_queue s)" rule: request_futures.cases) auto
  with reqs none stop show "cq_requests q = [Work f c]" "cq_busy q = None" "cq_scheduled q = []"
    "\<not> cq_worker_gone q" by simp_all
qed

lemma finished_queue:
  assumes ok: "queue_ok s" and adm: "run_admit n c t r (ap_queue s) = (Inr f, q)"
  shows "cq_reachable (worker_take q)" "cq_holder (worker_take q) = cq_holder q"
    "cq_done (worker_take q) f = None"
    "cq_reachable (loop_complete (worker_finish x (worker_take q)))"
    "cq_holder (loop_complete (worker_finish x (worker_take q))) = cq_holder q"
    "cq_done (loop_complete (worker_finish x (worker_take q))) f = Some x"
proof -
  note sh = admit_shape [OF ok adm]
  have take: "worker_take q = q\<lparr>cq_requests := [], cq_busy := Some (f, c), cq_log := cq_log q @ [f]\<rparr>"
    using sh by (simp add: worker_take_def)
  show r1: "cq_reachable (worker_take q)"
    using admit_reachable [OF ok adm] sh by (intro cq_reachable.step [OF _ cq_step.take]) simp_all
  then have "cq_reachable (worker_finish x (worker_take q))"
    by (rule cq_reachable.step) (rule cq_step.finish [of _ "(f, c)"], simp add: take)
  then show "cq_reachable (loop_complete (worker_finish x (worker_take q)))"
    by (rule cq_reachable.step) (rule cq_step.complete, simp add: take worker_finish_def)
  show "cq_holder (worker_take q) = cq_holder q" "cq_done (worker_take q) f = None"
    using admit_ok(2) [OF ok adm] by simp_all
  then show "cq_holder (loop_complete (worker_finish x (worker_take q))) = cq_holder q"
    "cq_done (loop_complete (worker_finish x (worker_take q))) f = Some x"
    using sh(3) by (simp_all add: take worker_finish_def loop_complete_def)
qed

lemma run_return_done:
  assumes "cq_holder q = Some w" "cq_done q (wt_future w) = Some x"
  shows "cq_holder (snd (run_return q)) = None"
    "x = Inr v \<Longrightarrow> fst (run_return q) = Inr v" "x = Inl e \<Longrightarrow> \<exists>e'. fst (run_return q) = Inl e'"
  using assms by (auto simp: run_return_def timeout_branch_def split: sum.splits exn.splits prod.splits)

lemma queue_run_ok:
  assumes ok: "queue_ok s"
  shows "queue_ok (snd (queue_run n rec f s))"
proof (cases "run_admit n n 10 rec (ap_queue s)")
  case (Pair r q)
  show ?thesis
  proof (cases r)
    case (Inl e)
    then have "q = ap_queue s" using Pair by (auto simp: run_admit_def split: if_splits)
    with ok Pair Inl show ?thesis by (simp add: queue_run_def queue_ok_def)
  next
    case (Inr fut)
    with Pair have adm: "run_admit n n 10 rec (ap_queue s) = (Inr fut, q)" by simp
    note fin = finished_queue [OF ok adm] and hold = admit_ok(1) [OF ok adm]
    have ret: "cq_reachable (snd (run_return (loop_complete (worker_finish x (worker_take q)))))"
      "cq_holder (snd (run_return (loop_complete (worker_finish x (worker_take q))))) = None" for x
    proof -
      have h: "cq_holder (loop_complete (worker_finish x (worker_take q))) =
          Some \<lparr>wt_future = fut, wt_name = n, wt_timeout = 10, wt_recovery = rec\<rparr>" using fin(5) hold by simp
      show "cq_reachable (snd (run_return (loop_complete (worker_finish x (worker_take q)))))"
        using fin(4) [of x] fin(6) [of x] h by (intro cq_reachable.step [OF _ cq_step.return [OF h, of x]]) simp_all
      show "cq_holder (snd (run_return (loop_complete (worker_finish x (worker_take q))))) = None"
        using fin(6) [of x] by (intro run_return_done(1) [OF h, of x]) simp
    qed
    have h1: "cq_holder (worker_take q) =
        Some \<lparr>wt_future = fut, wt_name = n, wt_timeout = 10, wt_recovery = rec\<rparr>" using fin(2) hold by simp
    have to: "cq_reachable (snd (run_timeout (worker_take q)))" "cq_reachable (snd (run_cancel (worker_take q)))"
      using fin(1,3)
      by (intro cq_reachable.step [OF _ cq_step.timeout [OF h1]], simp_all)
         (intro cq_reachable.step [OF _ cq_step.cancel [OF h1]], simp_all)
    moreover have "cq_holder (snd (run_timeout (worker_take q))) = None"
      "cq_holder (snd (run_cancel (worker_take q))) = None"
      using h1 by (auto simp: run_timeout_def run_cancel_def timeout_branch_def split: prod.splits)
    ultimately show ?thesis
      using ret unfolding queue_run_def adm
      by (auto simp: queue_ok_def Let_def split: prod.splits reply.splits sum.splits) (metis snd_conv)+
  qed
qed

text \<open>Only the world and the queue change, and a returned value is the hardware's reply.\<close>

lemma queue_run_shape:
  assumes "queue_run n rec f s = (r, s')"
  shows "\<exists>w q. s' = s\<lparr>ap_world := w, ap_queue := q\<rparr> \<and> (w = ap_world s \<or> w = snd (f (ap_world s))) \<and>
    (\<forall>x. r = Inr x \<longrightarrow> f (ap_world s) = (Ret x, w))"
proof (cases "run_admit n n 10 rec (ap_queue s)")
  case (Pair x q)
  show ?thesis
  proof (cases x)
    case (Inl e)
    with Pair assms have "s' = s\<lparr>ap_world := ap_world s, ap_queue := q\<rparr> \<and> r = Inl e"
      by (simp add: queue_run_def)
    then show ?thesis by blast
  next
    case (Inr fut)
    with Pair assms show ?thesis
      by (auto simp: queue_run_def Let_def split: prod.splits sum.splits reply.splits if_splits)
  qed
qed

text \<open>What a call through the queue comes back with, outside a clean-up: the reply, or an exception that is no
  cancellation; after a time-out the queue is poisoned, by the recovery if one was given.\<close>

definition is_timeout :: "exn \<Rightarrow> bool" where
  "is_timeout e = (case e of CommandTimeoutError _ _ \<Rightarrow> True | _ \<Rightarrow> False)"

definition poisoned :: "bool \<Rightarrow> exn \<Rightarrow> ('c, 'v) command_queue \<Rightarrow> bool" where
  "poisoned recover e q = (is_timeout e \<longrightarrow> (\<exists>m. e = CommandTimeoutError m recover) \<and> cq_timed_out q \<noteq> None)"

lemma admit_error:
  "run_admit n c t r q = (Inl e, q') \<Longrightarrow> q' = q \<and> e \<noteq> CancelledError \<and> \<not> is_timeout e"
  by (auto simp: run_admit_def is_timeout_def split: if_splits)

lemma timeout_branch_poisons:
  "timeout_branch w q = (r, q') \<Longrightarrow> \<exists>e. r = Inl e \<and> e \<noteq> CancelledError \<and> poisoned (wt_recovery w \<noteq> None) e q'"
proof -
  assume branch: "timeout_branch w q = (r, q')"
  have "\<exists>m. fst (timeout_branch w q) = Inl (CommandTimeoutError m (wt_recovery w \<noteq> None))"
    "cq_timed_out (snd (timeout_branch w q)) \<noteq> None"
    unfolding timeout_branch_def queue_timeout_recovery_def by (cases "wt_recovery w"; simp)+
  with branch show ?thesis by (auto simp: poisoned_def)
qed

lemma port_reply_Raise: "port_reply (Raise e) \<Longrightarrow> e \<noteq> CancelledError \<and> \<not> is_timeout e"
  by (cases e) (simp_all add: port_reply_def is_timeout_def)

lemma raised_return:
  assumes "run_return q = (r, q')" "cq_holder q = Some w" "cq_done q (wt_future w) = Some (Inl e)"
    "port_reply (Raise e :: unit reply)"
  shows "\<exists>e. r = Inl e \<and> e \<noteq> CancelledError \<and> poisoned (wt_recovery w \<noteq> None) e q'"
proof (cases "\<exists>m. e = TimeoutError m")
  case True
  then obtain m where "e = TimeoutError m" ..
  with assms(1-3) have "timeout_branch w q = (r, q')" by (simp add: run_return_def)
  then show ?thesis by (rule timeout_branch_poisons)
next
  case False
  then have "fst (run_return q) = Inl e" using assms(2,3) unfolding run_return_def by (cases e) simp_all
  with assms(1) port_reply_Raise [OF assms(4)] show ?thesis by (simp add: poisoned_def)
qed

lemma queue_run_ends:
  assumes ok: "queue_ok s" and outside: "\<not> ap_in_cleanup s" and reply: "port_reply (fst (f (ap_world s)))"
  shows "ends (queue_run n rec f) s
    (\<lambda>x t. \<exists>w q. t = s\<lparr>ap_world := w, ap_queue := q\<rparr> \<and> f (ap_world s) = (Ret x, w))
    (\<lambda>e t. \<exists>w q. t = s\<lparr>ap_world := w, ap_queue := q\<rparr> \<and> (w = ap_world s \<or> w = snd (f (ap_world s))) \<and>
       e \<noteq> CancelledError \<and> poisoned (rec \<noteq> None) e q)"
proof (cases "run_admit n n 10 rec (ap_queue s)")
  case (Pair x q)
  show ?thesis
  proof (cases x)
    case (Inl e)
    with Pair admit_error [of n n 10 rec "ap_queue s" e q] show ?thesis
      by (auto simp: ends_def queue_run_def poisoned_def intro!: exI [of _ "ap_world s"] exI [of _ q])
  next
    case (Inr fut)
    with Pair have adm: "run_admit n n 10 rec (ap_queue s) = (Inr fut, q)" by simp
    let ?w = "\<lparr>wt_future = fut, wt_name = n, wt_timeout = 10, wt_recovery = rec\<rparr>"
    note fin = finished_queue [OF ok adm]
    have hold: "cq_holder q = Some ?w" by (rule admit_ok(1) [OF ok adm])
    obtain r w where fr: "f (ap_world s) = (r, w)" by fastforce
    let ?fin = "\<lambda>v. loop_complete (worker_finish v (worker_take q))"
    show ?thesis
    proof (cases r)
      case (Ret v)
      obtain r' q' where ret: "run_return (?fin (Inr ())) = (r', q')" by fastforce
      have "r' = Inr ()"
        using run_return_done(2) [of "?fin (Inr ())" ?w "Inr ()" "()"] fin(5,6) hold ret by simp
      then show ?thesis using fr Ret adm ret by (auto simp: ends_def queue_run_def Let_def)
    next
      case (Raise e)
      obtain r' q' where ret: "run_return (?fin (Inl e)) = (r', q')" by fastforce
      have "\<exists>e. r' = Inl e \<and> e \<noteq> CancelledError \<and> poisoned (rec \<noteq> None) e q'"
        using raised_return [OF ret, of ?w e] fin(5,6) hold reply fr Raise by (simp add: port_reply_def)
      then obtain e' where "r' = Inl e'" "e' \<noteq> CancelledError" "poisoned (rec \<noteq> None) e' q'" by blast
      then show ?thesis using fr Raise adm ret
        by (simp add: ends_def queue_run_def Let_def) blast
    next
      case Hang
      obtain r' q' where ret: "run_timeout (worker_take q) = (r', q')" by fastforce
      have "cq_holder (worker_take q) = Some ?w" using fin(2) hold by simp
      then have "timeout_branch ?w (worker_take q) = (r', q')" using ret by (simp add: run_timeout_def)
      from timeout_branch_poisons [OF this] obtain e' where
        "r' = Inl e'" "e' \<noteq> CancelledError" "poisoned (rec \<noteq> None) e' q'" by auto
      then show ?thesis using fr Hang adm ret outside
        by (simp add: ends_def queue_run_def Let_def) blast
    qed
  qed
qed

section \<open>Invariants of the service\<close>

lemma keeps_snap [keeps_intro]: "keeps I snap" "keeps I sequence" "keeps I config"
  by (simp_all add: snap_def sequence_def config_def keeps_aget)

lemma update_keeps_valid:
  "update env sf m cs = (r, cs') \<Longrightarrow> valid_state (cs_state cs) \<Longrightarrow> valid_state (cs_state cs')"
  using store.upd_good [of cs env sf m] by simp

lemma start_keeps_inv: "start fault n sv = (b, sv') \<Longrightarrow> sup_inv sv \<Longrightarrow> sup_inv sv'"
  using start_inv [of sv fault n] by simp

text \<open>
  What an invariant has to satisfy to be kept by reads, publications, saves and the bookkeeping of the fan recovery:
  it does not depend on the world, and on the queue, the published snapshot and the configuration at most through
  their own invariants.
\<close>

locale frame_invariant =
  fixes I :: "'w app \<Rightarrow> bool"
  assumes kept_world [simp]: "I (s\<lparr>ap_world := w\<rparr>) = I s"
    and kept_queue: "I s \<Longrightarrow> (queue_ok s \<Longrightarrow> queue_ok (s\<lparr>ap_queue := q\<rparr>)) \<Longrightarrow> I (s\<lparr>ap_queue := q\<rparr>)"
    and kept_snaps: "I s \<Longrightarrow> (snapshot_inv (ap_snaps s) \<Longrightarrow> snapshot_inv sn) \<Longrightarrow> I (s\<lparr>ap_snaps := sn\<rparr>)"
    and kept_config: "I s \<Longrightarrow> (valid_state (cs_state (ap_config s)) \<Longrightarrow> valid_state (cs_state c)) \<Longrightarrow> I (s\<lparr>ap_config := c\<rparr>)"
    and kept_fields [simp]:
      "I (s\<lparr>ap_manual_ttl := i\<rparr>) = I s" "I (s\<lparr>ap_fail_safe := m\<rparr>) = I s"
      "I (s\<lparr>ap_restore_pending := b\<rparr>) = I s" "I (s\<lparr>ap_restore_task := t\<rparr>) = I s"
      "I (s\<lparr>ap_script_status := m\<rparr>) = I s"
begin

lemma kept_call: "I s \<Longrightarrow> s' = s\<lparr>ap_world := w, ap_queue := q\<rparr> \<Longrightarrow> (queue_ok s \<Longrightarrow> queue_ok s') \<Longrightarrow> I s'"
  using kept_queue [of "s\<lparr>ap_world := w\<rparr>" q] by (simp add: queue_ok_def)

lemma keeps_aworld [keeps_intro]: "keeps I (aworld f)"
  by (simp add: keeps_def aworld_def split: prod.splits)

lemma keeps_queue_run [keeps_intro]: "keeps I (queue_run n rec f)"
  unfolding keeps_def
proof (intro allI impI)
  fix s
  assume inv: "I s"
  obtain r s' where run: "queue_run n rec f s = (r, s')" by fastforce
  with queue_run_shape [OF run] queue_run_ok [of s n rec f] inv
  show "I (snd (queue_run n rec f s))" by (auto elim!: kept_call)
qed

lemma keeps_run_hw [keeps_intro]: "keeps I (run_hw n f)"
  by (simp add: run_hw_def keeps_queue_run)

lemma keeps_publish_domain [keeps_intro]: "keeps I (publish_domain env v)"
  unfolding publish_domain_def
  by (intro keeps_intro keeps_amodify kept_snaps) (use publish_inv [of _ "Update _ v"] in simp_all)

lemma keeps_publish_stale [keeps_intro]: "keeps I (publish_stale env d e)"
  unfolding publish_stale_def
  by (intro keeps_intro keeps_amodify kept_snaps) (use publish_inv [of _ "Stale _ d (exn_str e)"] in simp_all)

lemma keeps_config_update [keeps_intro]: "keeps I (config_update env f)"
  unfolding config_update_def
  by (intro keeps_abind keeps_aworld)
     (auto simp: keeps_def split: prod.splits sum.splits intro!: kept_config dest: update_keeps_valid)

end

text \<open>The supervisor's part: a clean-up that leaves the supervisor alone may run inside a stop.\<close>

definition same_sup :: "supervisor \<Rightarrow> 'w app \<Rightarrow> bool" where
  "same_sup sv s = (ap_sup s = sv)"

locale service_invariant = frame_invariant I for I :: "'w app \<Rightarrow> bool" +
  assumes kept_sup: "I s \<Longrightarrow> (sup_inv (ap_sup s) \<Longrightarrow> sup_inv sv) \<Longrightarrow> I (s\<lparr>ap_sup := sv\<rparr>)"
    and kept_stop [keeps_intro]:
      "keeps I clean \<Longrightarrow> (\<And>sv. keeps (same_sup sv) clean) \<Longrightarrow> keeps I (sup_stop env n clean)"
begin

lemma keeps_sup_start [keeps_intro]: "keeps I (sup_start env n)"
  unfolding sup_start_def
  by (intro keeps_abind keeps_aworld)
     (auto simp: keeps_def split: prod.splits intro!: kept_sup dest: start_keeps_inv)

end

interpretation supervised: frame_invariant "same_sup sv" for sv
  by unfold_locales (simp_all add: same_sup_def)

text \<open>The invariant of the components, that of the supervisor, and that no clean-up is running.\<close>

interpretation inv: service_invariant app_inv
proof
  fix env n and clean :: "('w, bool) act"
  assume clean: "keeps app_inv clean"
  have same: "app_inv (s\<lparr>ap_sup := sv, ap_in_cleanup := b\<rparr>) = app_inv s" "app_inv (s\<lparr>ap_sup := sv\<rparr>) = app_inv s"
    "app_inv (s\<lparr>ap_in_cleanup := b\<rparr>) = app_inv s" "app_inv (s\<lparr>ap_world := w\<rparr>) = app_inv s" for s :: "'w app" and sv b w
    by (simp_all add: app_inv_def queue_ok_def)
  show "keeps app_inv (sup_stop env n clean)"
    unfolding sup_stop_def
    by (intro keeps_abind)
       (auto simp: keeps_def same aworld_def split: prod.splits option.splits dest: keepsD [OF clean])
qed (simp_all add: app_inv_def queue_ok_def)

definition sup_ok :: "'w app \<Rightarrow> bool" where
  "sup_ok s = sup_inv (ap_sup s)"

lemma sup_stop_sup:
  assumes clean: "\<And>sv. keeps (same_sup sv) clean"
  shows "\<exists>a b. ap_sup (snd (sup_stop env n clean s)) = stop a b n (ap_sup s)"
proof -
  obtain task w where t: "ev_cancelled_task env n (ap_world s) = (task, w)" by fastforce
  let ?s = "s\<lparr>ap_world := w\<rparr>"
  show ?thesis
  proof (cases "stop_begin n task (ap_sup s)")
    case None
    with t have "ap_sup (snd (sup_stop env n clean s)) = stop task A_ok n (ap_sup s)"
      by (simp add: sup_stop_def abind_def aworld_def stop_def)
    then show ?thesis by blast
  next
    case (Some sv1)
    let ?c = "?s\<lparr>ap_sup := sv_note (Cleanup_run n) sv1, ap_in_cleanup := True\<rparr>"
    obtain r s1 where run: "clean ?c = (r, s1)" by fastforce
    have "ap_sup s1 = sv_note (Cleanup_run n) sv1"
      using keepsD [OF clean run, of "sv_note (Cleanup_run n) sv1"] by (simp add: same_sup_def)
    with t Some run have "ap_sup (snd (sup_stop env n clean s)) = stop task (awaited_of r) n (ap_sup s)"
      by (simp add: sup_stop_def abind_def aworld_def stop_def cleanup_def)
    then show ?thesis by blast
  qed
qed

interpretation supok: service_invariant sup_ok
proof
  fix env n and clean :: "('w, bool) act"
  assume clean: "keeps (same_sup sv) clean" for sv
  show "keeps sup_ok (sup_stop env n clean)"
    unfolding keeps_def sup_ok_def using sup_stop_sup [OF clean, of env n] stop_inv by metis
qed (simp_all add: sup_ok_def)

definition not_cleaning :: "'w app \<Rightarrow> bool" where
  "not_cleaning s = (\<not> ap_in_cleanup s)"

interpretation calm: service_invariant not_cleaning
proof
  fix env n and clean :: "('w, bool) act"
  show "keeps not_cleaning (sup_stop env n clean)"
    unfolding sup_stop_def
    by (intro keeps_abind) (auto simp: keeps_def not_cleaning_def aworld_def split: prod.splits option.splits)
qed (simp_all add: not_cleaning_def)

lemma app_init_inv: "app_inv (app_init d now g w)"
  by (simp add: app_inv_def queue_ok_def app_init_def cq_reachable.init store_init_def default_state_valid
      snapshot_store_init_def system_default_def snapshot_inv_def)
     (simp add: queue_init_def)

lemma app_supervisor_inv: "sup_inv (app_supervisor g)"
proof -
  show ?thesis
    by (cases g) (auto simp: app_supervisor_def register_def supervisor_init_def sup_inv_def dict_ok_def
        get_health_def dget_def health_default_def rbind_def)
qed

section \<open>What an action leaves of the world\<close>

text \<open>The observation \<open>obs\<close> of the world has the value \<open>x\<close>.\<close>

definition sees :: "('w \<Rightarrow> 'o) \<Rightarrow> 'o \<Rightarrow> 'w app \<Rightarrow> bool" where
  "sees obs x s = (obs (ap_world s) = x)"

lemma keeps_sees_aworld [keeps_intro]: "reads_only obs f \<Longrightarrow> keeps (sees obs x) (aworld f)"
  by (auto simp: keeps_def sees_def aworld_def split: prod.splits dest: reads_onlyD)

lemma keeps_sees_queue_run [keeps_intro]:
  assumes "reads_only obs f"
  shows "keeps (sees obs x) (queue_run n rec f)"
  unfolding keeps_def
proof (intro allI impI)
  fix s
  assume seen: "sees obs x s"
  obtain r s' where run: "queue_run n rec f s = (r, s')" by fastforce
  from queue_run_shape [OF run] obtain w q where
    "s' = s\<lparr>ap_world := w, ap_queue := q\<rparr>" "w = ap_world s \<or> w = snd (f (ap_world s))" by blast
  with seen run assms show "sees obs x (snd (queue_run n rec f s))" by (auto simp: sees_def reads_only_def)
qed

lemma keeps_sees_run_hw [keeps_intro]: "reads_only obs f \<Longrightarrow> keeps (sees obs x) (run_hw n f)"
  by (simp add: run_hw_def keeps_sees_queue_run)

lemma sees_fields [simp]:
  "sees obs x (s\<lparr>ap_config := c\<rparr>) = sees obs x s" "sees obs x (s\<lparr>ap_snaps := sn\<rparr>) = sees obs x s"
  "sees obs x (s\<lparr>ap_queue := q\<rparr>) = sees obs x s" "sees obs x (s\<lparr>ap_sup := sv\<rparr>) = sees obs x s"
  "sees obs x (s\<lparr>ap_closing := b\<rparr>) = sees obs x s" "sees obs x (s\<lparr>ap_shutdown_complete := b\<rparr>) = sees obs x s"
  "sees obs x (s\<lparr>ap_manual_ttl := i\<rparr>) = sees obs x s" "sees obs x (s\<lparr>ap_fail_safe := m\<rparr>) = sees obs x s"
  "sees obs x (s\<lparr>ap_restore_pending := b\<rparr>) = sees obs x s" "sees obs x (s\<lparr>ap_restore_task := t\<rparr>) = sees obs x s"
  "sees obs x (s\<lparr>ap_script_status := m\<rparr>) = sees obs x s" "sees obs x (s\<lparr>ap_in_cleanup := b\<rparr>) = sees obs x s"
  by (simp_all add: sees_def)

text \<open>What surrounds the process - clock, disk, task scheduling, the gesture runtime - does not touch
  the observed part of the world. (A controller that is cancelled holds no mutation lock, so it has
  no hardware call under way.)\<close>

locale quiet_env =
  fixes env :: "'w app_env" and obs :: "'w \<Rightarrow> 'o"
  assumes quiet [simp, intro]:
    "reads_only obs (ev_save_faults env)" "reads_only obs (ev_load_faults env)"
    "reads_only obs (ev_now env)" "reads_only obs (ev_start_fault env n)"
    "reads_only obs (ev_cancelled_task env n)" "reads_only obs (ev_recovery_in_time env)"
    "reads_only obs (ev_gesture_probe env)" "reads_only obs (ev_gesture_status env)"
    "reads_only obs (ev_wmi_present env)" "reads_only obs (ev_uptime env)"
    "reads_only obs (ev_monotonic env)" "reads_only obs (ev_script_fs env)"
    "reads_only obs (ev_run_script env argv tr pr)" "reads_only obs (ev_journal env k)"
    and quiet_switch [simp]: "obs (ev_gesture_switch env b w) = obs w"
begin

lemma sees_publish [keeps_intro]: "keeps (sees obs x) (publish_domain env v)"
  unfolding publish_domain_def by (intro keeps_intro keeps_amodify) simp_all

lemma sees_stale [keeps_intro]: "keeps (sees obs x) (publish_stale env d e)"
  unfolding publish_stale_def by (intro keeps_intro keeps_amodify) simp_all

lemma sees_config_update [keeps_intro]: "keeps (sees obs x) (config_update env f)"
  unfolding config_update_def
  by (intro keeps_abind keeps_intro) (auto simp: keeps_def split: prod.splits sum.splits)

lemma sees_sup_start [keeps_intro]: "keeps (sees obs x) (sup_start env n)"
  unfolding sup_start_def
  by (intro keeps_abind keeps_intro) (auto simp: keeps_def split: prod.splits)

end

text \<open>An environment whose hardware reads change nothing, and one whose port is a safe fan port.\<close>

locale observing_env = quiet_env env obs + observing_port "ev_hw env" obs for env :: "'w app_env" and obs :: "'w \<Rightarrow> 'o"

locale fan_env = quiet_env env auto + fan_port "ev_hw env" auto for env :: "'w app_env" and auto :: "'w \<Rightarrow> bool"

lemma reads_only_Pair [simp]: "reads_only obs (Pair c)"
  by (simp add: reads_only_def)

interpretation fake_ctx: observing_env fake_env fake_controlled
  by unfold_locales (simp_all add: fake_env_def)

interpretation fake_fan_ctx: fan_env fake_env fake_fan_auto
proof -
  have "ev_hw fake_env = fake_port" by (simp add: fake_env_def)
  then show "fan_env fake_env fake_fan_auto"
    by unfold_locales
       (simp_all add: fake_env_def fake_fan.auto_confirmed fake_fan.auto_kept)
qed

section \<open>Frames\<close>

lemma ends_aworld [simp]: "ends (aworld f) s Q E = (case f (ap_world s) of (x, w) \<Rightarrow> Q x (s\<lparr>ap_world := w\<rparr>))"
  by (simp add: ends_def aworld_def split: prod.splits)

text \<open>The application's own control state, which reads and publications leave alone.\<close>

definition control where
  "control s = (ap_config s, ap_sup s, ap_closing s, ap_fail_safe s, ap_restore_pending s, ap_restore_task s,
     ap_in_cleanup s, ap_manual_ttl s)"

definition controlled :: "'w app \<Rightarrow> 'w app \<Rightarrow> bool" where
  "controlled s0 s = (control s = control s0)"

lemma controlled_refl [simp]: "controlled s s"
  by (simp add: controlled_def)

lemma controlled_simps [simp]:
  "controlled s0 (s\<lparr>ap_world := w\<rparr>) = controlled s0 s" "controlled s0 (s\<lparr>ap_queue := q\<rparr>) = controlled s0 s"
  "controlled s0 (s\<lparr>ap_snaps := sn\<rparr>) = controlled s0 s" "controlled s0 (s\<lparr>ap_script_status := m\<rparr>) = controlled s0 s"
  by (simp_all add: controlled_def control_def)

lemma controlledD:
  assumes "controlled s t"
  shows "ap_config t = ap_config s" "ap_sup t = ap_sup s" "ap_closing t = ap_closing s"
    "ap_fail_safe t = ap_fail_safe s" "ap_restore_pending t = ap_restore_pending s"
    "ap_restore_task t = ap_restore_task s" "ap_in_cleanup t = ap_in_cleanup s" "ap_manual_ttl t = ap_manual_ttl s"
  using assms by (simp_all add: controlled_def control_def)

lemma keeps_controlled [keeps_intro]:
  "keeps (controlled s0) (aworld f)" "keeps (controlled s0) (publish_domain env v)"
  "keeps (controlled s0) (publish_stale env d e)" "keeps (controlled s0) (queue_run n rec g)"
  "keeps (controlled s0) (run_hw n g)"
proof -
  show w: "keeps (controlled s0) (aworld f)" for f :: "'a \<Rightarrow> 'x \<times> 'a"
    by (simp add: keeps_def aworld_def split: prod.splits)
  show "keeps (controlled s0) (publish_domain env v)" "keeps (controlled s0) (publish_stale env d e)"
    unfolding publish_domain_def publish_stale_def by (intro keeps_abind w keeps_amodify; simp)+
  show q: "keeps (controlled s0) (queue_run n rec g)" for rec
    unfolding keeps_def
  proof (intro allI impI)
    fix s
    assume c: "controlled s0 s"
    obtain r s' where run: "queue_run n rec g s = (r, s')" by fastforce
    from queue_run_shape [OF run] c run show "controlled s0 (snd (queue_run n rec g s))" by auto
  qed
  show "keeps (controlled s0) (run_hw n g)" by (simp add: run_hw_def q)
qed

text \<open>Publishing never fails, and the value published is the one seen.\<close>

lemma ends_publish: "ends (publish_domain env v) s Q E =
    (case ev_now env (ap_world s) of (now, w) \<Rightarrow> Q () (s\<lparr>ap_world := w, ap_snaps := update_domain now v (ap_snaps s)\<rparr>))"
  by (simp add: publish_domain_def split: prod.splits)

lemma ends_stale: "ends (publish_stale env d e) s Q E =
    (case ev_now env (ap_world s) of (now, w) \<Rightarrow> Q () (s\<lparr>ap_world := w, ap_snaps := mark_stale now d (exn_str e) (ap_snaps s)\<rparr>))"
  by (simp add: publish_stale_def split: prod.splits)

lemma published_fan:
  "(ss_fan (sn_snapshot (update_domain now (DV_fan f) sn)))\<lparr>fs_curves := []\<rparr> = f\<lparr>fs_curves := []\<rparr>"
  by (simp add: update_domain_def Let_def fan_eq_def)

lemma fan_fields: "a\<lparr>fs_curves := []\<rparr> = b\<lparr>fs_curves := []\<rparr> \<Longrightarrow> fs_mode a = fs_mode b \<and> fs_last_error a = fs_last_error b \<and>
    fs_target_speed a = fs_target_speed b \<and> fs_manual_expires_at a = fs_manual_expires_at b \<and>
    fs_desired_mode a = fs_desired_mode b \<and> fs_temp_mc a = fs_temp_mc b"
  by (cases a, cases b) simp

lemma published_fan_fields [simp]:
  "fs_mode (ss_fan (sn_snapshot (update_domain now (DV_fan f) sn))) = fs_mode f"
  "fs_last_error (ss_fan (sn_snapshot (update_domain now (DV_fan f) sn))) = fs_last_error f"
  "fs_target_speed (ss_fan (sn_snapshot (update_domain now (DV_fan f) sn))) = fs_target_speed f"
  "fs_manual_expires_at (ss_fan (sn_snapshot (update_domain now (DV_fan f) sn))) = fs_manual_expires_at f"
  "fs_desired_mode (ss_fan (sn_snapshot (update_domain now (DV_fan f) sn))) = fs_desired_mode f"
  "fs_temp_mc (ss_fan (sn_snapshot (update_domain now (DV_fan f) sn))) = fs_temp_mc f"
  using fan_fields [OF published_fan [of now f sn]] by blast+

end
