(* ===== verification/App_Fan.thy ===== *)
theory App_Fan
  imports App_State Fan_Curve
begin

text \<open>
  Fan control of \<^verbatim>\<open>honor_control/backend/application.py\<close>: the refresh of the fan domain, the return to
  firmware control and its queued recovery after a time-out, manual override with its watchdog, the curve
  controller, and the use cases behind them. Background loops are given by one iteration; the state
  a loop keeps between iterations is a record.
\<close>

section \<open>Mutations\<close>

text \<open>The decorator \<open>_serialized_mutation\<close>, once the lock is held.\<close>

definition serialized :: "('w, 'a) act \<Rightarrow> ('w, 'a) act" where
  "serialized m = abind (aget (\<lambda>s. (ap_closing s, ap_restore_pending s))) (\<lambda>(closing, pending).
     if closing then araise (DomainException DE_UNAVAILABLE ''Service is shutting down'')
     else if pending then araise (DomainException DE_BUSY ''Stock fan restoration is still pending'')
     else m)"

text \<open>\<open>OperationResult.unavailable(code, cap.message or default, sequence)\<close>\<close>

definition or_default :: "string \<Rightarrow> string \<Rightarrow> string" where
  "or_default m d = (if m = [] then d else m)"

definition unavailable :: "string \<Rightarrow> string \<Rightarrow> string \<Rightarrow> ('w, operation_result) act" where
  "unavailable code msg dflt = abind sequence (\<lambda>n. aret (op_unavailable code (or_default msg dflt) n))"

section \<open>Publishing fan states\<close>

definition publish_fan_failed_safe :: "'w app_env \<Rightarrow> string \<Rightarrow> ('w, unit) act" where
  "publish_fan_failed_safe env msg =
     abind (amodify (\<lambda>s. s\<lparr>ap_fail_safe := msg\<rparr>)) (\<lambda>_.
     abind snap (\<lambda>sn.
     publish_domain env (DV_fan ((ss_fan sn)\<lparr>fs_mode := FM_FAILED_SAFE, fs_target_speed := None,
       fs_manual_expires_at := None, fs_last_error := msg\<rparr>))))"

definition publish_fan_stock_auto :: "'w app_env \<Rightarrow> ('w, unit) act" where
  "publish_fan_stock_auto env = abind snap (\<lambda>sn.
     publish_domain env (DV_fan ((ss_fan sn)\<lparr>fs_mode := FM_STOCK, fs_target_speed := None,
       fs_manual_expires_at := None\<rparr>)))"

definition fan_running :: "'w app \<Rightarrow> bool" where
  "fan_running s = ch_running (get_health ''manual_fan_ttl'' (ap_sup s))"

definition refresh_fan :: "'w app_env \<Rightarrow> ('w, unit) act" where
  "refresh_fan env =
     atry
       (abind (run_hw ''fan_read'' (hp_read_fan (ev_hw env))) (\<lambda>fan.
        abind config (\<lambda>st.
        abind snap (\<lambda>sn.
        abind (aget fan_running) (\<lambda>manual_active.
        abind (aget ap_fail_safe) (\<lambda>fault.
        abind (alift (case fan_mode_of_str (fn_mode (st_fan st)) of
                 Inl _ \<Rightarrow> Inl (ValueError ''not a valid FanMode'') | Inr m \<Rightarrow> Inr m)) (\<lambda>desired_mode.
        let curve = fn_mode (st_fan st) = ''curve''; current = ss_fan sn in
        publish_domain env (DV_fan (fan\<lparr>
          fs_mode := (if fault \<noteq> [] then FM_FAILED_SAFE else if manual_active then FM_MANUAL_OVERRIDE
                      else if curve then FM_CURVE else fs_mode fan),
          fs_desired_mode := desired_mode, fs_curves := fn_curves (st_fan st),
          fs_target_speed := (if manual_active \<or> curve then fs_target_speed current else fs_target_speed fan),
          fs_manual_expires_at := (if manual_active then fs_manual_expires_at current else None),
          fs_last_error := or_default fault (fs_last_error fan)\<rparr>)))))))))
       (\<lambda>e. publish_stale env ''fan'' e)"

section \<open>Return to firmware control\<close>

text \<open>\<open>_track_fan_timeout_recovery\<close>; the future is the queue's reserved recovery.\<close>

definition track_fan_timeout_recovery :: "nat option \<Rightarrow> string \<Rightarrow> ('w, unit) act" where
  "track_fan_timeout_recovery fut context = amodify (\<lambda>s.
     case fut of
       None \<Rightarrow> s
     | Some f \<Rightarrow>
         if ap_restore_task s \<notin> {RT_none, RT_done} then s
         else s\<lparr>ap_restore_pending := True,
                ap_fail_safe := context @ ''; stock-auto restoration pending'',
                ap_restore_task := RT_created f\<rparr>)"

text \<open>The worker comes back: the timed-out call ends with whatever it still did, then the reserved
  recovery is run. \<open>None\<close> if the recovery does not answer either.\<close>

definition finish_late_call :: "'w app_env \<Rightarrow> ('w, unit) act" where
  "finish_late_call env = amodify (\<lambda>s. if cq_busy (ap_queue s) = None then s
     else s\<lparr>ap_world := ev_late_effect env (ap_world s),
            ap_queue := loop_complete (worker_finish (Inl CancelledError) (ap_queue s))\<rparr>)"

definition run_reserved :: "'w app_env \<Rightarrow> nat \<Rightarrow> ('w, (exn + bool) option) act" where
  "run_reserved env fut s =
     (if cq_busy (ap_queue s) \<noteq> None \<or> cq_worker_gone (ap_queue s) \<or> cq_requests (ap_queue s) = []
      then (Inr None, s)
      else let q = worker_take (ap_queue s) in
        if map_option fst (cq_busy q) \<noteq> Some fut then (Inr None, s\<lparr>ap_queue := q\<rparr>)
        else case hp_set_fan_auto (ev_hw env) (ap_world s) of
          (Ret b, w) \<Rightarrow> (Inr (Some (Inr b)),
             s\<lparr>ap_world := w, ap_queue := loop_complete (worker_finish (Inr ()) q)\<rparr>)
        | (Raise e, w) \<Rightarrow> (Inr (Some (Inl e)),
             s\<lparr>ap_world := w, ap_queue := loop_complete (worker_finish (Inl e) q)\<rparr>)
        | (Hang, w) \<Rightarrow> (Inr None, s\<lparr>ap_world := w, ap_queue := q\<rparr>))"

text \<open>The end of \<open>_complete_fan_timeout_recovery\<close>, when the recovery's future is done.\<close>

definition recovery_finished :: "'w app_env \<Rightarrow> exn + bool \<Rightarrow> ('w, bool) act" where
  "recovery_finished env r =
     afinally
       (atry
          (abind (alift (case r of
               Inl e \<Rightarrow> Inl e
             | Inr b \<Rightarrow> if b then Inr () else Inl (RuntimeError ''EC did not confirm queued stock-auto recovery''))) (\<lambda>_.
           abind (amodify (\<lambda>s. s\<lparr>ap_fail_safe := []\<rparr>)) (\<lambda>_.
           abind (aget ap_closing) (\<lambda>closing.
           abind (awhen (\<not> closing) (refresh_fan env)) (\<lambda>_. aret True)))))
          (\<lambda>e. abind (publish_fan_failed_safe env (''Queued stock-auto restoration failed: '' @ exn_str e)) (\<lambda>_.
               aret False)))
       (amodify (\<lambda>s. s\<lparr>ap_restore_pending := False, ap_restore_task := RT_done\<rparr>))"

text \<open>The task starts: it publishes the fault and waits for the future.\<close>

definition recovery_begin :: "'w app_env \<Rightarrow> ('w, unit) act" where
  "recovery_begin env = abind (aget ap_restore_task) (\<lambda>t.
     case t of
       RT_created f \<Rightarrow> abind (aget ap_fail_safe) (\<lambda>m. abind (publish_fan_failed_safe env m) (\<lambda>_.
         amodify (\<lambda>s. s\<lparr>ap_restore_task := RT_waiting f\<rparr>)))
     | _ \<Rightarrow> aret ())"

text \<open>From there to its end, if the worker comes back.\<close>

definition recovery_end :: "'w app_env \<Rightarrow> ('w, bool option) act" where
  "recovery_end env = abind (aget ap_restore_task) (\<lambda>t.
     case t of
       RT_waiting f \<Rightarrow>
         abind (finish_late_call env) (\<lambda>_.
         abind (run_reserved env f) (\<lambda>r.
         case r of None \<Rightarrow> aret None
         | Some x \<Rightarrow> abind (recovery_finished env x) (\<lambda>b. aret (Some b))))
     | _ \<Rightarrow> aret None)"

definition complete_fan_timeout_recovery :: "'w app_env \<Rightarrow> ('w, bool option) act" where
  "complete_fan_timeout_recovery env = abind (recovery_begin env) (\<lambda>_. recovery_end env)"

definition recovery_future :: "exn \<Rightarrow> 'w app \<Rightarrow> nat option" where
  "recovery_future e s = (case e of
     CommandTimeoutError _ b \<Rightarrow> if b then cq_timed_out (ap_queue s) else None | _ \<Rightarrow> None)"

text \<open>Waiting for a recovery task that is not done.\<close>

definition await_fan_recovery :: "'w app_env \<Rightarrow> ('w, bool) act" where
  "await_fan_recovery env =
     abind (recovery_begin env) (\<lambda>_.
     abind (aworld (ev_recovery_in_time env)) (\<lambda>in_time.
     abind (if in_time then recovery_end env else aret None) (\<lambda>r.
     abind (aget ap_in_cleanup) (\<lambda>in_cleanup.
     case r of
       Some b \<Rightarrow> aret b
     | None \<Rightarrow>
         if in_cleanup then araise CancelledError
         else abind (publish_fan_failed_safe env
                ''Stock-auto restoration is still pending behind a timed-out hardware command'') (\<lambda>_.
              aret False)))))"

text \<open>The handlers of the stock-auto request.\<close>

definition restore_failed :: "'w app_env \<Rightarrow> exn \<Rightarrow> ('w, bool) act" where
  "restore_failed env e =
     (if is_timeout e
      then abind (aget (recovery_future e)) (\<lambda>fut.
           abind (track_fan_timeout_recovery fut ''stock-auto restoration timed out'') (\<lambda>_.
           abind (aget ap_fail_safe) (\<lambda>m.
           abind (publish_fan_failed_safe env m) (\<lambda>_. aret False))))
      else abind (publish_fan_failed_safe env (''Stock-auto restoration failed: '' @ exn_str e)) (\<lambda>_.
           aret False))"

definition request_fan_auto :: "'w app_env \<Rightarrow> ('w, bool) act" where
  "request_fan_auto env = atry
     (abind (queue_run ''fan_auto_cleanup'' (Some ''fan_auto_cleanup_retry'') (hp_set_fan_auto (ev_hw env))) (\<lambda>restored.
      if \<not> restored then araise (RuntimeError ''EC did not confirm stock-auto request'')
      else abind (amodify (\<lambda>s. s\<lparr>ap_fail_safe := []\<rparr>)) (\<lambda>_.
           abind (refresh_fan env) (\<lambda>_. aret True))))
     (restore_failed env)"

definition restore_fan_auto :: "'w app_env \<Rightarrow> ('w, bool) act" where
  "restore_fan_auto env = abind (aget ap_restore_task) (\<lambda>task.
     if task \<notin> {RT_none, RT_done} then await_fan_recovery env else request_fan_auto env)"

section \<open>Fan commands\<close>

text \<open>\<open>_run_fan_command\<close>\<close>

definition run_fan_command :: "'w app_env \<Rightarrow> string \<Rightarrow> ('w \<Rightarrow> 'a reply \<times> 'w) \<Rightarrow> string \<Rightarrow> ('w, 'a) act" where
  "run_fan_command env name f context =
     acatch (queue_run name (Some (name @ ''_auto_recovery'')) f)
       (\<lambda>e. if is_timeout e
            then abind (aget (recovery_future e)) (\<lambda>fut.
                 abind (track_fan_timeout_recovery fut (context @ '' timed out'')) (\<lambda>_. araise e))
            else if e = CancelledError
            then abind (aget (\<lambda>s. pending_timeout_completion (ap_queue s))) (\<lambda>fut.
                 abind (track_fan_timeout_recovery fut (context @ '' was cancelled'')) (\<lambda>_. araise e))
            else araise e)"

definition apply_manual_fan_speed :: "'w app_env \<Rightarrow> int \<Rightarrow> string \<Rightarrow> ('w, bool) act" where
  "apply_manual_fan_speed env v prefix = acatch
     (abind (run_fan_command env prefix (hp_set_fan_manual (ev_hw env) v) (prefix @ '' mode request'')) (\<lambda>manual_ok.
      if \<not> manual_ok then abind (restore_fan_auto env) (\<lambda>_. aret False)
      else abind (run_fan_command env (prefix @ ''_speed'') (hp_set_fan_speed (ev_hw env) v)
                    (prefix @ '' speed request'')) (\<lambda>speed_ok.
           if \<not> speed_ok then abind (restore_fan_auto env) (\<lambda>_. aret False) else aret True)))
     (\<lambda>e. if is_timeout e then araise e
          else if e = CancelledError
          then abind (aget ap_restore_pending) (\<lambda>pending.
               abind (if pending then aret False else restore_fan_auto env) (\<lambda>_. araise e))
          else abind (restore_fan_auto env) (\<lambda>_. araise e))"

section \<open>Use cases\<close>

definition stop_manual :: "'w app_env \<Rightarrow> ('w, unit) act" where
  "stop_manual env = sup_stop env ''manual_fan_ttl'' (restore_fan_auto env)"

definition set_fan_mode_state :: "string \<Rightarrow> service_state \<Rightarrow> service_state" where
  "set_fan_mode_state m st = st\<lparr>st_fan := \<lparr>fn_mode = m, fn_curves = fn_curves (st_fan st)\<rparr>\<rparr>"

definition set_fan_stock_auto :: "'w app_env \<Rightarrow> ('w, operation_result) act" where
  "set_fan_stock_auto env = serialized
     (abind (run_hw ''fan_cap'' (hp_fan_capability (ev_hw env))) (\<lambda>cap.
      if \<not> writable cap then unavailable ''fan_unavailable'' (cap_message cap) ''Fan control unavailable''
      else abind (run_hw ''fan_auto'' (hp_set_fan_auto (ev_hw env))) (\<lambda>ok.
        if ok
        then abind (amodify (\<lambda>s. s\<lparr>ap_fail_safe := []\<rparr>)) (\<lambda>_.
             abind (stop_manual env) (\<lambda>_.
             abind (amodify (\<lambda>s. s\<lparr>ap_fail_safe := []\<rparr>)) (\<lambda>_.
             abind (config_update env (set_fan_mode_state ''stock'')) (\<lambda>_.
             abind (refresh_fan env) (\<lambda>_.
             abind sequence (\<lambda>n.
             aret (op_success ''Fan set to stock auto'' True True True n [])))))))
        else abind sequence (\<lambda>n. aret (op_failed ''fan_auto_failed'' ''Failed to set fan to stock auto'' n [])))))"

definition set_fan_curve :: "'w app_env \<Rightarrow> string \<Rightarrow> pv \<Rightarrow> ('w, operation_result) act" where
  "set_fan_curve env profile curve = serialized
     (abind (alift (parse_curve curve)) (\<lambda>points.
      abind config (\<lambda>st.
      abind (if profile = ''default'' then aret ''default''
             else alift (validate_power_profile profile (Some (map fst (pw_profiles (st_power st)))))) (\<lambda>name.
      abind (run_hw ''fan_cap'' (hp_fan_capability (ev_hw env))) (\<lambda>cap.
      if \<not> writable cap then unavailable ''fan_unavailable'' (cap_message cap) ''Fan control unavailable''
      else abind (config_update env (\<lambda>s. s\<lparr>st_fan := \<lparr>fn_mode = ''curve'',
                    fn_curves = AList.update name (format_curve points) (fn_curves (st_fan s))\<rparr>\<rparr>)) (\<lambda>_.
           abind (sup_start env ''fan_curve'') (\<lambda>_.
           abind (refresh_fan env) (\<lambda>_.
           abind sequence (\<lambda>n.
           aret (op_success (''Curve saved for '' @ quoted name) True True False n []))))))))))"

definition plausible_temp :: "int option \<Rightarrow> bool" where
  "plausible_temp t = (case t of None \<Rightarrow> False | Some v \<Rightarrow> 1000 \<le> v \<and> v \<le> 150000)"

definition manual_speed_allowed :: "int \<Rightarrow> int \<Rightarrow> exn + unit" where
  "manual_speed_allowed temp v =
     (if temp \<ge> 95000 \<and> v < 100
      then invalid (''Manual fan speed must be 100% at or above 95'' @ CHR 0xB0 # ''C'')
      else if temp \<ge> MANUAL_EMERGENCY_TEMP_MC \<and> v < MANUAL_EMERGENCY_MIN_SPEED
      then invalid (''Manual fan speed must be at least 80% at or above 90'' @ CHR 0xB0 # ''C'')
      else Inr ())"

text \<open>The result of a manual request whose commands were refused or failed.\<close>

definition manual_failed_result :: "string \<Rightarrow> ('w, operation_result) act" where
  "manual_failed_result failure =
     abind (aget (\<lambda>s. (ap_restore_pending s, ap_fail_safe s))) (\<lambda>(pending, fault).
     abind sequence (\<lambda>n.
     aret (if pending then op_partial ''fan_manual_restore_pending''
             ''Manual fan control timed out; stock-auto restoration is queued as the next hardware command''
             False False n [(''error'', PStr failure)]
           else if fault \<noteq> [] then op_partial ''fan_manual_restore_failed''
             ''Manual fan control failed and stock-auto restoration could not be verified''
             False False n [(''error'', PStr failure)]
           else op_failed ''fan_manual_failed''
             (''Failed to set manual fan speed; stock auto was restored'' @
              (if failure = [] then [] else '': '' @ failure)) n [])))"

text \<open>The request once the temperature admits it.\<close>

definition start_manual_override :: "'w app_env \<Rightarrow> int \<Rightarrow> int \<Rightarrow> ('w, operation_result) act" where
  "start_manual_override env val secs =
     abind (stop_manual env) (\<lambda>_.
     abind (atry (abind (apply_manual_fan_speed env val ''fan_manual'') (\<lambda>b. aret (b, [])))
                 (\<lambda>e. aret (False, exn_str e))) (\<lambda>(applied, failure).
     if \<not> applied then manual_failed_result failure
     else
     abind (amodify (\<lambda>s. s\<lparr>ap_fail_safe := []\<rparr>)) (\<lambda>_.
     abind (refresh_fan env) (\<lambda>_.
     abind snap (\<lambda>sn.
     abind (aworld (ev_now env)) (\<lambda>now.
     abind (publish_domain env (DV_fan ((ss_fan sn)\<lparr>fs_mode := FM_MANUAL_OVERRIDE,
              fs_target_speed := Some val, fs_manual_expires_at := Some (now + secs * 1000000)\<rparr>))) (\<lambda>_.
     abind (amodify (\<lambda>s. s\<lparr>ap_manual_ttl := secs\<rparr>)) (\<lambda>_.
     abind (sup_start env ''manual_fan_ttl'') (\<lambda>started.
     if \<not> started
     then abind (restore_fan_auto env) (\<lambda>restored.
          abind sequence (\<lambda>n. aret (op_partial ''fan_manual_watchdog_failed''
            (''Manual fan speed was set but its safety watchdog could not start; stock auto was '' @
             (if restored then ''restored'' else ''not restored'')) False False n [])))
     else abind sequence (\<lambda>n.
          aret (op_success (''Fan speed set to '' @ int_str val @ ''% for '' @ int_str secs @ ''s'')
            True False True n [(''ttl_seconds'', PInt secs)])))))))))))"

definition set_fan_manual :: "'w app_env \<Rightarrow> pv \<Rightarrow> pv \<Rightarrow> ('w, operation_result) act" where
  "set_fan_manual env v ttl = serialized
     (abind (alift (validate_manual_speed v)) (\<lambda>val.
      abind (alift (validate_manual_ttl (if py_truthy ttl then ttl else PInt MANUAL_TTL_DEFAULT_SECONDS))) (\<lambda>secs.
      abind (run_hw ''fan_cap'' (hp_fan_capability (ev_hw env))) (\<lambda>cap.
      if \<not> writable cap then unavailable ''fan_unavailable'' (cap_message cap) ''Fan control unavailable''
      else
      abind (run_hw ''fan_manual_temp'' (hp_read_fan_temp (ev_hw env))) (\<lambda>temp.
      if \<not> plausible_temp temp
      then abind sequence (\<lambda>n. aret (op_failed ''fan_temperature_unavailable''
             ''Manual fan control requires a plausible live temperature'' n []))
      else
      abind (alift (manual_speed_allowed (the temp) val)) (\<lambda>_.
      start_manual_override env val secs))))))"

section \<open>The curve controller\<close>

text \<open>What \<open>_fan_curve_loop\<close> keeps between iterations.\<close>

record curve_loop =
  cl_last_speed :: "int option"
  cl_failures :: int

definition fan_suspended :: "'w app \<Rightarrow> bool" where
  "fan_suspended s = (fn_mode (st_fan (cs_state (ap_config s))) \<noteq> ''curve'' \<or> fan_running s \<or>
     ap_fail_safe s \<noteq> [] \<or> ap_restore_pending s \<or> ap_closing s)"

definition fan_writable :: "'w app \<Rightarrow> bool" where
  "fan_writable s = (case map_of (ss_capabilities (sn_snapshot (ap_snaps s))) ''fan'' of
     None \<Rightarrow> False | Some cap \<Rightarrow> writable cap)"

definition active_curve :: "'w app \<Rightarrow> string" where
  "active_curve s =
     (let st = cs_state (ap_config s); curves = fn_curves (st_fan st);
          profile = or_default (ps_applied_profile (ss_power (sn_snapshot (ap_snaps s)))) (pw_profile (st_power st))
      in or_default (dget curves profile []) (dget curves ''default'' []))"

text \<open>\<open>100 if temp >= 95000 else _curve_speed(points, temp)\<close>, then the write hysteresis.\<close>

definition curve_target :: "string \<Rightarrow> int \<Rightarrow> exn + int" where
  "curve_target curve temp = rbind (parse_curve (PStr curve)) (\<lambda>points.
     if temp \<ge> 95000 then Inr 100 else curve_speed points temp)"

definition FAN_SPEED_WRITE_HYSTERESIS :: int where "FAN_SPEED_WRITE_HYSTERESIS = 3"

definition with_hysteresis :: "int option \<Rightarrow> int \<Rightarrow> int" where
  "with_hysteresis prev v = (case prev of
     None \<Rightarrow> v | Some l \<Rightarrow> if \<bar>v - l\<bar> < FAN_SPEED_WRITE_HYSTERESIS then l else v)"

text \<open>The part under the mutation lock: the temperature and the speed now in force.\<close>

definition fan_curve_react :: "'w app_env \<Rightarrow> string \<Rightarrow> int option \<Rightarrow> int \<Rightarrow> ('w, int \<times> int) act" where
  "fan_curve_react env curve prev temp =
     abind (alift (curve_target curve temp)) (\<lambda>target.
     let v = with_hysteresis prev target in
     if Some v = prev then aret (temp, v)
     else abind (apply_manual_fan_speed env v ''fan_curve'') (\<lambda>ok.
       if ok then aret (temp, v) else araise (RuntimeError ''EC rejected fan curve speed'')))"

definition fan_curve_control :: "'w app_env \<Rightarrow> string \<Rightarrow> int option \<Rightarrow> ('w, int \<times> int) act" where
  "fan_curve_control env curve prev =
     abind (run_fan_command env ''fan_temp'' (hp_read_fan_temp (ev_hw env)) ''fan curve temperature read'') (\<lambda>temp.
     if \<not> plausible_temp temp then araise (RuntimeError ''fan temperature unavailable or implausible'')
     else fan_curve_react env curve prev (the temp))"

definition CURVE_DISABLED :: string where
  "CURVE_DISABLED = ''Fan curve disabled after repeated failures; stock-auto restoration was requested''"

text \<open>The third failure.\<close>

definition disable_fan_curve :: "'w app_env \<Rightarrow> ('w, 'a) act" where
  "disable_fan_curve env =
     abind (restore_fan_auto env) (\<lambda>_.
     abind (config_update env (set_fan_mode_state ''stock'')) (\<lambda>_.
     abind (amodify (\<lambda>s. s\<lparr>ap_fail_safe := CURVE_DISABLED\<rparr>)) (\<lambda>_.
     abind snap (\<lambda>sn.
     abind (publish_domain env (DV_fan ((ss_fan sn)\<lparr>fs_mode := FM_FAILED_SAFE, fs_desired_mode := FM_STOCK,
       fs_target_speed := None, fs_manual_expires_at := None, fs_last_error := CURVE_DISABLED\<rparr>))) (\<lambda>_.
     araise (RuntimeError ''fan curve disabled after repeated failures''))))))"

text \<open>One iteration after its sleep. \<open>first\<close> and \<open>second\<close> are what other coroutines do to the
  application while the loop waits for the lock, the first time and before the shut-down of the curve.\<close>

definition fan_curve_iteration ::
    "'w app_env \<Rightarrow> ('w app \<Rightarrow> 'w app) \<Rightarrow> ('w app \<Rightarrow> 'w app) \<Rightarrow> curve_loop \<Rightarrow> ('w, curve_loop) act" where
  "fan_curve_iteration env first second lp =
     abind (aget (\<lambda>s. (fan_suspended s \<or> \<not> fan_writable s, active_curve s))) (\<lambda>(idle, curve).
     if idle then aret (lp\<lparr>cl_last_speed := None\<rparr>)
     else if curve = [] then aret lp
     else atry
       (abind (amodify first) (\<lambda>_.
        abind (aget fan_suspended) (\<lambda>suspended.
        if suspended then aret lp
        else abind (fan_curve_control env curve (cl_last_speed lp)) (\<lambda>(t, v).
          abind (amodify (\<lambda>s. s\<lparr>ap_fail_safe := []\<rparr>)) (\<lambda>_.
          abind snap (\<lambda>sn.
          abind (publish_domain env (DV_fan ((ss_fan sn)\<lparr>fs_available := True, fs_mode := FM_CURVE,
            fs_desired_mode := FM_CURVE, fs_temp_mc := Some t, fs_target_speed := Some v\<rparr>))) (\<lambda>_.
          aret \<lparr>cl_last_speed = Some v, cl_failures = 0\<rparr>)))))))
       (\<lambda>e. if cl_failures lp + 1 \<ge> 3 then abind (amodify second) (\<lambda>_. disable_fan_curve env)
            else aret (lp\<lparr>cl_failures := cl_failures lp + 1\<rparr>)))"

section \<open>The watchdog of a manual speed\<close>

definition restore_and_publish :: "'w app_env \<Rightarrow> ('w, unit) act" where
  "restore_and_publish env = abind (restore_fan_auto env) (\<lambda>b. awhen b (publish_fan_stock_auto env))"

definition emergency_target :: "int \<Rightarrow> int" where
  "emergency_target temp = (if temp \<ge> 95000 then 100
     else if temp \<ge> MANUAL_EMERGENCY_TEMP_MC then MANUAL_EMERGENCY_MIN_SPEED else 0)"

text \<open>The reaction to a plausible temperature.\<close>

definition watchdog_react :: "'w app_env \<Rightarrow> int \<Rightarrow> ('w, bool) act" where
  "watchdog_react env temp =
     abind snap (\<lambda>sn.
     let target = (case fs_target_speed (ss_fan sn) of None \<Rightarrow> 0 | Some v \<Rightarrow> v);
         emergency = emergency_target temp in
     if emergency \<le> target then aret True
     else
     abind (run_fan_command env ''fan_manual_watchdog_speed'' (hp_set_fan_speed (ev_hw env) emergency)
              ''manual fan thermal watchdog'') (\<lambda>ok.
     if \<not> ok then abind (restore_and_publish env) (\<lambda>_. aret False)
     else
     abind snap (\<lambda>sn.
     abind (publish_domain env (DV_fan ((ss_fan sn)\<lparr>fs_temp_mc := Some temp, fs_target_speed := Some emergency,
              fs_last_error := ''Manual speed raised by thermal watchdog''\<rparr>))) (\<lambda>_. aret True))))"

text \<open>One check under the lock; \<open>False\<close> when the watchdog returns.\<close>

definition watchdog_check :: "'w app_env \<Rightarrow> ('w, bool) act" where
  "watchdog_check env =
     abind (aget ap_closing) (\<lambda>closing.
     if closing then aret False
     else
     abind (run_fan_command env ''fan_manual_watchdog_temp'' (hp_read_fan_temp (ev_hw env))
              ''manual fan temperature watchdog'') (\<lambda>temp.
     if \<not> plausible_temp temp then abind (restore_and_publish env) (\<lambda>_. aret False)
     else watchdog_react env (the temp)))"

text \<open>The loop over the readings of the monotonic clock (milliseconds); each reading comes with what other
  coroutines do during the sleep and the wait for the lock. \<open>None\<close>: still asleep when the readings end.\<close>

fun watchdog_loop :: "'w app_env \<Rightarrow> int \<Rightarrow> (int \<times> ('w app \<Rightarrow> 'w app)) list \<Rightarrow> ('w, unit option) act" where
  "watchdog_loop env deadline [] = aret None"
| "watchdog_loop env deadline ((now, other) # rest) =
     (if deadline - now \<le> 0
      then abind (amodify other) (\<lambda>_. abind (restore_and_publish env) (\<lambda>_. aret (Some ())))
      else abind (amodify other) (\<lambda>_. abind (watchdog_check env) (\<lambda>continue.
           if continue then watchdog_loop env deadline rest else aret (Some ()))))"

definition manual_fan_expiry ::
    "'w app_env \<Rightarrow> int \<Rightarrow> (int \<times> ('w app \<Rightarrow> 'w app)) list \<Rightarrow> ('w app \<Rightarrow> 'w app) \<Rightarrow> ('w, unit option) act" where
  "manual_fan_expiry env started clock other =
     abind (aget ap_manual_ttl) (\<lambda>ttl.
     atry (watchdog_loop env (started + ttl * 1000) clock)
          (\<lambda>e. abind (amodify other) (\<lambda>_. abind (restore_and_publish env) (\<lambda>_. araise e))))"

section \<open>Start-up\<close>

definition initialize_fan_safety :: "'w app_env \<Rightarrow> ('w, unit) act" where
  "initialize_fan_safety env = abind (aget fan_writable) (\<lambda>ok.
     awhen ok (abind (restore_fan_auto env) (\<lambda>_. aret ())))"

section \<open>The invariant\<close>

lemma keeps_case_restore [keeps_intro]:
  "(v = RT_none \<Longrightarrow> keeps I a) \<Longrightarrow> (\<And>f. v = RT_created f \<Longrightarrow> keeps I (b f)) \<Longrightarrow>
   (\<And>f. v = RT_waiting f \<Longrightarrow> keeps I (c f)) \<Longrightarrow> (v = RT_done \<Longrightarrow> keeps I d) \<Longrightarrow>
     keeps I (case v of RT_none \<Rightarrow> a | RT_created f \<Rightarrow> b f | RT_waiting f \<Rightarrow> c f | RT_done \<Rightarrow> d)"
  by (cases v) auto

lemma keeps_serialized [keeps_intro]: "keeps I m \<Longrightarrow> keeps I (serialized m)"
  unfolding serialized_def by (intro keeps_intro)

lemma keeps_unavailable [keeps_intro]: "keeps I (unavailable c m d)"
  unfolding unavailable_def by (intro keeps_intro)

lemma finish_late_reachable:
  "queue_ok s \<Longrightarrow> cq_busy (ap_queue s) = Some w \<Longrightarrow>
     cq_reachable (loop_complete (worker_finish r (ap_queue s))) \<and>
     cq_holder (loop_complete (worker_finish r (ap_queue s))) = None"
  using cq_step.finish [of "ap_queue s" w r] cq_step.complete [of "worker_finish r (ap_queue s)"]
    cq_reachable.step [of "ap_queue s" "worker_finish r (ap_queue s)"]
    cq_reachable.step [of "worker_finish r (ap_queue s)" "loop_complete (worker_finish r (ap_queue s))"]
  by (cases w) (auto simp: queue_ok_def worker_finish_def loop_complete_def split: list.splits)

lemma take_ok:
  assumes "queue_ok s" "cq_busy (ap_queue s) = None" "\<not> cq_worker_gone (ap_queue s)" "cq_requests (ap_queue s) \<noteq> []"
  shows "queue_ok (s\<lparr>ap_queue := worker_take (ap_queue s)\<rparr>)"
  using assms cq_reachable.step [OF _ cq_step.take [OF assms(2-4)]]
  by (auto simp: queue_ok_def worker_take_def split: list.splits request.splits)

text \<open>Running the reserved recovery changes the world and the queue, which stays in order.\<close>

lemma run_reserved_shape: "snd (run_reserved env fut s) =
    s\<lparr>ap_world := ap_world (snd (run_reserved env fut s)), ap_queue := ap_queue (snd (run_reserved env fut s))\<rparr>"
  by (simp add: run_reserved_def Let_def split: prod.splits reply.splits)

lemma run_reserved_ok:
  assumes inv: "queue_ok s"
  shows "queue_ok (snd (run_reserved env fut s))"
proof (cases "cq_busy (ap_queue s) \<noteq> None \<or> cq_worker_gone (ap_queue s) \<or> cq_requests (ap_queue s) = []")
  case True
  then show ?thesis using inv by (auto simp: run_reserved_def)
next
  case False
  let ?q = "worker_take (ap_queue s)"
  have ok: "queue_ok (s\<lparr>ap_queue := ?q\<rparr>)" using inv False by (intro take_ok) (simp_all add: not_Some_eq [symmetric])
  show ?thesis
  proof (cases "cq_busy ?q")
    case None
    with False ok show ?thesis by (auto simp: run_reserved_def queue_ok_def)
  next
    case (Some w)
    then have fin: "cq_reachable (loop_complete (worker_finish r ?q)) \<and>
        cq_holder (loop_complete (worker_finish r ?q)) = None" for r
      using finish_late_reachable [OF ok, of w r] by simp
    from False ok fin show ?thesis
      by (auto simp: run_reserved_def queue_ok_def Let_def split: prod.splits reply.splits)
  qed
qed

lemma keeps_manual_failed_result [keeps_intro]: "keeps I (manual_failed_result f)"
  unfolding manual_failed_result_def by (intro keeps_intro)

context frame_invariant
begin

lemma keeps_publish_fan [keeps_intro]:
  "keeps I (publish_fan_failed_safe env m)" "keeps I (publish_fan_stock_auto env)"
  unfolding publish_fan_failed_safe_def publish_fan_stock_auto_def
  by (intro keeps_intro keeps_amodify; simp)+

lemma keeps_refresh_fan [keeps_intro]: "keeps I (refresh_fan env)"
  unfolding refresh_fan_def by (intro keeps_intro)

lemma keeps_track [keeps_intro]: "keeps I (track_fan_timeout_recovery f c)"
  unfolding track_fan_timeout_recovery_def by (intro keeps_amodify) (auto split: option.splits)

lemma keeps_finish_late [keeps_intro]: "keeps I (finish_late_call env)"
  unfolding finish_late_call_def
  by (intro keeps_amodify)
     (auto intro!: kept_queue dest: finish_late_reachable [of _ _ "Inl CancelledError"] simp: queue_ok_def)

lemma keeps_run_reserved [keeps_intro]: "keeps I (run_reserved env fut)"
  unfolding keeps_def using kept_call [OF _ run_reserved_shape run_reserved_ok] by blast

lemma keeps_recovery [keeps_intro]:
  "keeps I (recovery_finished env r)" "keeps I (recovery_begin env)" "keeps I (recovery_end env)"
proof -
  show fin: "keeps I (recovery_finished env r)" for r
    unfolding recovery_finished_def by (intro keeps_intro keeps_amodify) simp_all
  show "keeps I (recovery_begin env)"
    unfolding recovery_begin_def by (intro keeps_intro keeps_amodify) simp_all
  show "keeps I (recovery_end env)"
    unfolding recovery_end_def by (intro keeps_intro fin)
qed

lemma keeps_complete_recovery [keeps_intro]: "keeps I (complete_fan_timeout_recovery env)"
  unfolding complete_fan_timeout_recovery_def by (intro keeps_intro)

lemma keeps_restore_fan_auto [keeps_intro]: "keeps I (restore_fan_auto env)"
  unfolding restore_fan_auto_def await_fan_recovery_def request_fan_auto_def restore_failed_def
  by (intro keeps_intro keeps_amodify) simp_all

lemma keeps_run_fan_command [keeps_intro]: "keeps I (run_fan_command env n f c)"
  unfolding run_fan_command_def by (intro keeps_intro)

lemma keeps_apply_manual [keeps_intro]: "keeps I (apply_manual_fan_speed env v p)"
  unfolding apply_manual_fan_speed_def by (intro keeps_intro)

end

context service_invariant
begin

lemma keeps_stop_manual [keeps_intro]: "keeps I (stop_manual env)"
  unfolding stop_manual_def by (intro keeps_intro)

lemma keeps_set_fan_stock_auto [keeps_intro]: "keeps I (set_fan_stock_auto env)"
  unfolding set_fan_stock_auto_def by (intro keeps_intro keeps_amodify) simp_all

lemma keeps_set_fan_curve [keeps_intro]: "keeps I (set_fan_curve env p c)"
  unfolding set_fan_curve_def by (intro keeps_intro)

lemma keeps_start_manual [keeps_intro]: "keeps I (start_manual_override env v ttl)"
  unfolding start_manual_override_def by (intro keeps_intro keeps_amodify) simp_all

lemma keeps_set_fan_manual [keeps_intro]: "keeps I (set_fan_manual env v ttl)"
  unfolding set_fan_manual_def by (intro keeps_intro)

lemma keeps_curve_control [keeps_intro]: "keeps I (fan_curve_control env c l)"
  unfolding fan_curve_control_def fan_curve_react_def by (intro keeps_intro)

lemma keeps_disable_curve [keeps_intro]: "keeps I (disable_fan_curve env)"
  unfolding disable_fan_curve_def by (intro keeps_intro keeps_amodify) simp_all

lemma keeps_curve_iteration:
  assumes "\<And>s. I s \<Longrightarrow> I (first s)" "\<And>s. I s \<Longrightarrow> I (second s)"
  shows "keeps I (fan_curve_iteration env first second lp)"
  unfolding fan_curve_iteration_def by (intro keeps_intro keeps_amodify) (simp_all add: assms)

lemma keeps_restore_publish [keeps_intro]: "keeps I (restore_and_publish env)"
  unfolding restore_and_publish_def by (intro keeps_intro)

lemma keeps_watchdog_check [keeps_intro]: "keeps I (watchdog_check env)"
  unfolding watchdog_check_def watchdog_react_def by (intro keeps_intro)

lemma keeps_manual_expiry:
  assumes "\<And>now f s. (now, f) \<in> set clock \<Longrightarrow> I s \<Longrightarrow> I (f s)" "\<And>s. I s \<Longrightarrow> I (other s)"
  shows "keeps I (manual_fan_expiry env started clock other)"
proof -
  have "keeps I (watchdog_loop env d clock)" for d
    using assms(1)
  proof (induction clock)
    case Nil
    then show ?case by (simp add: keeps_aret)
  next
    case (Cons nf r)
    have "keeps I (watchdog_loop env d r)" by (rule Cons.IH) (auto intro: Cons.prems)
    then show ?case
      using Cons.prems by (cases nf) (auto intro!: keeps_intro keeps_amodify)
  qed
  then show ?thesis
    unfolding manual_fan_expiry_def by (intro keeps_intro keeps_amodify) (simp_all add: assms(2))
qed

lemma keeps_fan_safety [keeps_intro]: "keeps I (initialize_fan_safety env)"
  unfolding initialize_fan_safety_def by (intro keeps_intro)

end

end
