(* ===== verification/App_Fan_Safety.thy ===== *)
theory App_Fan_Safety
  imports App_Fan
begin

text \<open>
  Safety of the fan control of \<^verbatim>\<open>honor_control/backend/application.py\<close>, proved in the locale \<open>fan_env\<close> (a port
  that confirms stock-auto requests truthfully) and in \<open>observing_env\<close> (reads change nothing), and restated for the
  model's definitions. Outside a clean-up every path on which a speed cannot be applied, the watchdog expires, or the
  curve is given up ends with the fan under firmware control or with a fault on record.
\<close>

section \<open>Fan safety\<close>

lemma ends_both:
  "ends m s Q E \<Longrightarrow> ends m s Q' E' \<Longrightarrow> (\<And>x t. Q x t \<Longrightarrow> Q' x t \<Longrightarrow> Q'' x t) \<Longrightarrow>
     (\<And>e t. E e t \<Longrightarrow> E' e t \<Longrightarrow> E'' e t) \<Longrightarrow> ends m s Q'' E''"
  by (drule (1) ends_conj, erule ends_mono) auto

lemma ends_afinally_modify:
  "ends (afinally m (amodify f)) s Q E = ends m s (\<lambda>x t. Q x (f t)) (\<lambda>e t. E e (f t))"
  by (auto simp: ends_def afinally_def amodify_def split: prod.splits sum.splits)

lemma keeps_controlled_refresh [keeps_intro]: "keeps (controlled s0) (refresh_fan env)"
  unfolding refresh_fan_def by (intro keeps_intro)

text \<open>The fan is under firmware control, or a fault is on record.\<close>

definition fan_safe :: "('w \<Rightarrow> bool) \<Rightarrow> 'w app \<Rightarrow> bool" where
  "fan_safe auto s = (auto (ap_world s) \<or> ap_fail_safe s \<noteq> [])"

text \<open>What a return to firmware control reports.\<close>

definition restore_outcome :: "('w \<Rightarrow> bool) \<Rightarrow> bool \<Rightarrow> 'w app \<Rightarrow> bool" where
  "restore_outcome auto b s =
     (if b then auto (ap_world s) \<and> ap_fail_safe s = []
      else ap_fail_safe s \<noteq> [] \<and> fs_mode (ss_fan (sn_snapshot (ap_snaps s))) = FM_FAILED_SAFE \<and>
           fs_last_error (ss_fan (sn_snapshot (ap_snaps s))) = ap_fail_safe s)"

lemma restore_outcome_safe: "restore_outcome auto b s \<Longrightarrow> fan_safe auto s"
  by (auto simp: restore_outcome_def fan_safe_def split: if_splits)

lemma failed_safe_outcome:
  "m \<noteq> [] \<Longrightarrow> ends (publish_fan_failed_safe env m) s
     (\<lambda>_ t. restore_outcome auto False t \<and> ap_in_cleanup t = ap_in_cleanup s) E"
  by (simp add: publish_fan_failed_safe_def snap_def ends_publish restore_outcome_def split: prod.splits)

text \<open>Outside a clean-up of the supervisor.\<close>

definition outside :: "'w app \<Rightarrow> bool" where
  "outside s = (app_inv s \<and> \<not> ap_in_cleanup s)"

lemma outsideD: "outside s \<Longrightarrow> app_inv s" "outside s \<Longrightarrow> \<not> ap_in_cleanup s" "outside s \<Longrightarrow> queue_ok s"
  by (simp_all add: outside_def app_inv_def)

lemma keeps_outside [keeps_intro]: "keeps app_inv m \<Longrightarrow> keeps not_cleaning m \<Longrightarrow> keeps outside m"
  using keeps_conj [of app_inv m not_cleaning] by (simp add: outside_def [abs_def] not_cleaning_def [abs_def])

text \<open>The watchdog goes on only while the published target is at least what the temperature it has just
  read demands.\<close>

definition watched :: "'w app_env \<Rightarrow> 'w app \<Rightarrow> bool" where
  "watched env s = (\<exists>temp w w'. hp_read_fan_temp (ev_hw env) w = (Ret (Some temp), w') \<and> 1000 \<le> temp \<and> temp \<le> 150000 \<and>
     emergency_target temp \<le> (case fs_target_speed (ss_fan (sn_snapshot (ap_snaps s))) of None \<Rightarrow> 0 | Some v \<Rightarrow> v))"

lemma plausible_temp_iff: "plausible_temp t = (\<exists>v. t = Some v \<and> 1000 \<le> v \<and> v \<le> 150000)"
  by (auto simp: plausible_temp_def split: option.splits)

text \<open>Computing the target never looks like a cancellation.\<close>

lemma uncancelled_rbind: "r \<noteq> Inl CancelledError \<Longrightarrow> (\<And>x. f x \<noteq> Inl CancelledError) \<Longrightarrow> rbind r f \<noteq> Inl CancelledError"
  by (auto simp: rbind_eq_Inl_iff)

lemma uncancelled_loops:
  "(\<And>x. f x \<noteq> Inl CancelledError) \<Longrightarrow> rmap f xs \<noteq> Inl CancelledError"
  "(\<And>x. g x \<noteq> Inl CancelledError) \<Longrightarrow> rall g xs \<noteq> Inl CancelledError"
  by (induction xs) (auto simp: rbind_eq_Inl_iff)

lemma uncancelled_checks:
  "check_increasing i ps \<noteq> Inl CancelledError" "check_nondecreasing i ps \<noteq> Inl CancelledError"
  by (induction i ps rule: check_increasing.induct; simp) (induction i ps rule: check_nondecreasing.induct; simp)

lemma curve_target_uncancelled: "curve_target c t \<noteq> Inl CancelledError"
proof -
  have "validate_point p \<noteq> Inl CancelledError" for p
    by (auto simp: validate_point_def split: prod.splits pv.splits)
  moreover have "parse_segment x \<noteq> Inl CancelledError" for x
    by (auto simp: parse_segment_def int_of_group_def rbind_eq_Inl_iff split: option.splits if_splits)
  moreover have "check_high_temp p \<noteq> Inl CancelledError" for p by (simp add: check_high_temp_def)
  moreover have "validate_curve_points ps \<noteq> Inl CancelledError"
    if "\<And>p. validate_point p \<noteq> Inl CancelledError" "\<And>p. check_high_temp p \<noteq> Inl CancelledError" for ps
  proof -
    have "rbind (rmap validate_point ps) (\<lambda>vs. rbind (check_increasing 1 vs) (\<lambda>_. rbind (check_nondecreasing 1 vs) (\<lambda>_.
        rbind (rall check_high_temp vs) (\<lambda>_. Inr vs)))) \<noteq> Inl CancelledError"
      by (intro uncancelled_rbind uncancelled_loops uncancelled_checks that) simp
    then show ?thesis unfolding validate_curve_points_def by simp
  qed
  ultimately have "parse_curve (PStr c) \<noteq> Inl CancelledError"
    unfolding parse_curve_def pv.case by (intro uncancelled_rbind uncancelled_loops) blast+
  then show ?thesis
    unfolding curve_target_def
    by (intro uncancelled_rbind) (auto simp: curve_speed_def split: list.splits)
qed

lemma hysteresis_close: "\<bar>with_hysteresis prev v - v\<bar> < FAN_SPEED_WRITE_HYSTERESIS"
  by (auto simp: with_hysteresis_def FAN_SPEED_WRITE_HYSTERESIS_def abs_minus_commute split: option.splits)

text \<open>What the controller has done when it goes on without a failure.\<close>

definition curve_followed :: "'w app_env \<Rightarrow> string \<Rightarrow> int \<Rightarrow> int \<Rightarrow> bool" where
  "curve_followed env curve temp v = (\<exists>w w' target. hp_read_fan_temp (ev_hw env) w = (Ret (Some temp), w') \<and>
     1000 \<le> temp \<and> temp \<le> 150000 \<and> curve_target curve temp = Inr target \<and> \<bar>v - target\<bar> < FAN_SPEED_WRITE_HYSTERESIS)"

context fan_env
begin

lemma refresh_quiet:
  assumes "app_inv s" "\<not> ap_in_cleanup s"
  shows "ends (refresh_fan env) s (\<lambda>_ t. controlled s t \<and> auto (ap_world t) = auto (ap_world s)) (\<lambda>_ _. False)"
proof -
  have ctl: "ends (refresh_fan env) s (\<lambda>_. controlled s) (\<lambda>_. controlled s)"
    by (intro ends_keeps keeps_intro) simp
  have seen: "ends (refresh_fan env) s (\<lambda>_. sees auto (auto (ap_world s))) (\<lambda>_. sees auto (auto (ap_world s)))"
    unfolding refresh_fan_def by (intro ends_keeps keeps_intro sees_publish sees_stale) (auto simp: sees_def)
  have quietly: "ends (refresh_fan env) s (\<lambda>_ _. True) (\<lambda>_ _. False)"
    using queue_run_ends [of s "hp_read_fan (ev_hw env)" "''fan_read''" None] assms
    unfolding refresh_fan_def run_hw_def ends_atry
    by (auto simp: app_inv_def is_exception_def config_def snap_def ends_alift ends_publish ends_stale Let_def
        split: prod.splits sum.splits elim!: ends_mono)
  from ends_conj [OF ctl ends_conj [OF seen quietly]] show ?thesis
    by (rule ends_mono) (auto simp: sees_def)
qed

lemma reserved_outcome:
  "ends (run_reserved env f) s
     (\<lambda>r t. controlled s t \<and> (r = Some (Inr True) \<longrightarrow> auto (ap_world t)) \<and> r \<noteq> Some (Inl CancelledError)) (\<lambda>_ _. False)"
  using fan_replies(1) [of "ap_world s"] auto_confirmed [of "ap_world s"]
  by (cases "hp_set_fan_auto (ev_hw env) (ap_world s)")
     (auto simp: ends_def run_reserved_def Let_def port_reply_def split: reply.splits)

lemma finished_outcome:
  assumes "app_inv s" "\<not> ap_in_cleanup s" "r = Inr True \<longrightarrow> auto (ap_world s)" "r \<noteq> Inl CancelledError"
  shows "ends (recovery_finished env r) s
    (\<lambda>b t. restore_outcome auto b t \<and> \<not> ap_in_cleanup t \<and> \<not> ap_restore_pending t \<and> ap_restore_task t = RT_done)
    (\<lambda>_ _. False)"
proof -
  let ?clr = "s\<lparr>ap_fail_safe := []\<rparr>"
  have flags: "restore_outcome auto b (t\<lparr>ap_restore_pending := False, ap_restore_task := RT_done\<rparr>) =
      restore_outcome auto b t" for b t by (simp add: restore_outcome_def)
  show ?thesis
  proof (cases "r = Inr True")
    case True
    have "ends (refresh_fan env) ?clr (\<lambda>_ t. controlled ?clr t \<and> auto (ap_world t) = auto (ap_world ?clr)) (\<lambda>_ _. False)"
      using assms by (intro refresh_quiet) simp_all
    then show ?thesis
      using True assms
      by (auto simp: recovery_finished_def ends_afinally_modify ends_alift restore_outcome_def
          elim!: ends_mono dest: controlledD)
  next
    case False
    have "ends (publish_fan_failed_safe env (''Queued stock-auto restoration failed: '' @ m)) s
        (\<lambda>_ t. restore_outcome auto False t \<and> \<not> ap_in_cleanup t) (\<lambda>_ _. False)" for m
      using failed_safe_outcome [of "''Queued stock-auto restoration failed: '' @ m" env s auto "\<lambda>_ _. False"] assms
      by simp
    then show ?thesis
      using False assms
      by (cases r) (auto simp: recovery_finished_def ends_afinally_modify ends_alift is_exception_def flags
          simp del: append.simps)
  qed
qed

lemma recovery_end_outcome:
  assumes "app_inv s" "\<not> ap_in_cleanup s"
  shows "ends (recovery_end env) s
    (\<lambda>r t. app_inv t \<and> \<not> ap_in_cleanup t \<and> (\<forall>b. r = Some b \<longrightarrow> restore_outcome auto b t \<and> \<not> ap_restore_pending t \<and>
        ap_restore_task t = RT_done)) (\<lambda>_ _. False)"
proof (cases "ap_restore_task s")
  case (RT_waiting f)
  let ?s1 = "snd (finish_late_call env s)"
  have inv1: "app_inv ?s1" using assms by (intro keepsI2 [OF inv.keeps_finish_late])
  have fin: "ends (finish_late_call env) s (\<lambda>_ t. t = ?s1) (\<lambda>_ _. False)"
    by (simp add: finish_late_call_def amodify_def ends_def)
  have "\<not> ap_in_cleanup ?s1" using assms by (simp add: finish_late_call_def amodify_def)
  moreover have res: "ends (run_reserved env f) ?s1 (\<lambda>r t. app_inv t \<and> controlled ?s1 t \<and>
      (r = Some (Inr True) \<longrightarrow> auto (ap_world t)) \<and> r \<noteq> Some (Inl CancelledError)) (\<lambda>_ _. False)"
    using ends_conj [OF ends_keeps [OF inv.keeps_run_reserved inv1] reserved_outcome [of f ?s1]]
    by (rule ends_mono) auto
  ultimately have "ends (run_reserved env f) ?s1 (\<lambda>r t. app_inv t \<and> \<not> ap_in_cleanup t \<and>
      (r = Some (Inr True) \<longrightarrow> auto (ap_world t)) \<and> r \<noteq> Some (Inl CancelledError)) (\<lambda>_ _. False)"
    by (elim ends_mono) (auto dest: controlledD)
  moreover have fin2: "ends (recovery_finished env x) t (\<lambda>b u. app_inv u \<and> \<not> ap_in_cleanup u \<and> restore_outcome auto b u \<and>
      \<not> ap_restore_pending u \<and> ap_restore_task u = RT_done) (\<lambda>_ _. False)"
    if "app_inv t" "\<not> ap_in_cleanup t" "x = Inr True \<longrightarrow> auto (ap_world t)" "x \<noteq> Inl CancelledError" for x t
    using ends_conj [OF ends_keeps [OF inv.keeps_recovery(1) that(1)] finished_outcome [OF that]]
    by (rule ends_mono) auto
  moreover have "ends (case r of None \<Rightarrow> aret None | Some x \<Rightarrow> abind (recovery_finished env x) (\<lambda>b. aret (Some b))) t
      (\<lambda>r t. app_inv t \<and> \<not> ap_in_cleanup t \<and> (\<forall>b. r = Some b \<longrightarrow> restore_outcome auto b t \<and> \<not> ap_restore_pending t \<and>
        ap_restore_task t = RT_done)) (\<lambda>_ _. False)"
    if "app_inv t \<and> \<not> ap_in_cleanup t \<and> (r = Some (Inr True) \<longrightarrow> auto (ap_world t)) \<and> r \<noteq> Some (Inl CancelledError)"
    for r t using that fin2 [of t "the r"] by (cases r) simp_all
  ultimately have "ends (run_reserved env f) ?s1 (\<lambda>r t. ends (case r of None \<Rightarrow> aret None
      | Some x \<Rightarrow> abind (recovery_finished env x) (\<lambda>b. aret (Some b))) t
      (\<lambda>r t. app_inv t \<and> \<not> ap_in_cleanup t \<and> (\<forall>b. r = Some b \<longrightarrow> restore_outcome auto b t \<and> \<not> ap_restore_pending t \<and>
        ap_restore_task t = RT_done)) (\<lambda>_ _. False)) (\<lambda>_ _. False)"
    by (elim ends_mono)
  then show ?thesis
    using RT_waiting fin by (auto simp: recovery_end_def elim!: ends_mono)
qed (use assms in \<open>simp_all add: recovery_end_def\<close>)

lemma failed_outcome:
  assumes "ap_restore_task t \<in> {RT_none, RT_done}" "poisoned True e (ap_queue t)"
  shows "ends (restore_failed env e) t (restore_outcome auto) (\<lambda>_ _. False)"
proof -
  have failed: "ends (publish_fan_failed_safe env m) u (\<lambda>_ u. restore_outcome auto False u) (\<lambda>_ _. False)"
    if "m \<noteq> []" for m u
    using failed_safe_outcome [OF that, of env u auto] by (rule ends_mono) simp_all
  show ?thesis
  proof (cases "is_timeout e")
    case True
    with assms(2) obtain f where "recovery_future e t = Some f" by (auto simp: poisoned_def recovery_future_def)
    with True assms(1) show ?thesis
      by (auto simp: restore_failed_def track_fan_timeout_recovery_def failed)
  next
    case False
    then show ?thesis by (simp add: restore_failed_def failed)
  qed
qed

lemma request_outcome:
  assumes "app_inv s" "\<not> ap_in_cleanup s" "ap_restore_task s \<in> {RT_none, RT_done}"
  shows "ends (request_fan_auto env) s (restore_outcome auto) (\<lambda>_ _. False)"
proof -
  have run: "ends (queue_run ''fan_auto_cleanup'' (Some ''fan_auto_cleanup_retry'') (hp_set_fan_auto (ev_hw env))) s
      (\<lambda>x t. app_inv t \<and> controlled s t \<and> (x \<longrightarrow> auto (ap_world t)))
      (\<lambda>e t. app_inv t \<and> controlled s t \<and> e \<noteq> CancelledError \<and> poisoned True e (ap_queue t))"
  proof -
    have "queue_ok s" using assms by (simp add: app_inv_def)
    from ends_conj [OF ends_keeps [OF inv.keeps_queue_run assms(1)] queue_run_ends [OF this assms(2) fan_replies(1)]]
    show ?thesis by (rule ends_mono) (auto dest: auto_confirmed)
  qed
  have ok: "ends (refresh_fan env) (t\<lparr>ap_fail_safe := []\<rparr>) (\<lambda>_ u. restore_outcome auto True u) (\<lambda>_ _. False)"
    if "app_inv t" "controlled s t" "auto (ap_world t)" for t
    by (rule ends_mono [OF refresh_quiet])
       (use that assms(2) in \<open>auto simp: restore_outcome_def dest: controlledD\<close>)
  have bad: "ends (restore_failed env e) t (restore_outcome auto) (\<lambda>_ _. False)"
    if "controlled s t" "poisoned True e (ap_queue t)" for e t
    using that assms(3) by (intro failed_outcome) (simp_all add: controlledD)
  show ?thesis
    unfolding request_fan_auto_def ends_atry ends_abind
    by (rule ends_mono [OF run])
       (auto simp: is_exception_def poisoned_def is_timeout_def intro!: bad ends_mono [OF ok])
qed

lemma await_outcome:
  assumes "app_inv s" "\<not> ap_in_cleanup s"
  shows "ends (await_fan_recovery env) s (restore_outcome auto) (\<lambda>_ _. False)"
proof -
  let ?in = "\<lambda>t. app_inv t \<and> \<not> ap_in_cleanup t"
  have started: "ends (recovery_begin env) s (\<lambda>_. ?in) (\<lambda>_ _. False)"
  proof -
    have "ends (recovery_begin env) s (\<lambda>_ t. \<not> ap_in_cleanup t) (\<lambda>_ _. False)"
      using assms by (auto simp: recovery_begin_def publish_fan_failed_safe_def snap_def ends_publish
          split: restore_task.splits prod.splits)
    from ends_conj [OF ends_keeps [OF inv.keeps_recovery(2) assms(1)] this] show ?thesis by (rule ends_mono) auto
  qed
  have still: "ends (publish_fan_failed_safe env ''Stock-auto restoration is still pending behind a timed-out hardware command'') t
      (\<lambda>_ u. restore_outcome auto False u) (\<lambda>_ _. False)" for t
    by (rule ends_mono [OF failed_safe_outcome [where auto = auto]]) simp_all
  show ?thesis
    unfolding await_fan_recovery_def ends_abind ends_aworld
    by (rule ends_mono [OF started])
       (auto simp: inv.kept_world still split: prod.splits option.splits intro!: ends_mono [OF recovery_end_outcome])
qed

lemma restore_ends:
  assumes "app_inv s" "\<not> ap_in_cleanup s"
  shows "ends (restore_fan_auto env) s (restore_outcome auto) (\<lambda>_ _. False)"
  using await_outcome [OF assms] request_outcome [OF assms] by (simp add: restore_fan_auto_def)

text \<open>A fan command outside a clean-up: the reply of the port, or an exception; a time-out leaves a fault on
  record unless a recovery is under way already.\<close>

lemma command_ends:
  assumes "outside s" "\<And>w. port_reply (fst (f w))"
  shows "ends (run_fan_command env n f c) s
    (\<lambda>x t. outside t \<and> controlled s t \<and> f (ap_world s) = (Ret x, ap_world t))
    (\<lambda>e t. outside t \<and> e \<noteq> CancelledError \<and>
       (is_timeout e \<longrightarrow> ap_restore_task s \<in> {RT_none, RT_done} \<longrightarrow> ap_fail_safe t \<noteq> [] \<and> ap_restore_pending t) \<and>
       (\<not> is_timeout e \<longrightarrow> controlled s t))"
proof -
  have out: "ends (run_fan_command env n f c) s (\<lambda>_. outside) (\<lambda>_. outside)"
    using assms(1) by (intro ends_keeps keeps_intro)
  have "ends (run_fan_command env n f c) s
    (\<lambda>x t. controlled s t \<and> f (ap_world s) = (Ret x, ap_world t))
    (\<lambda>e t. e \<noteq> CancelledError \<and>
       (is_timeout e \<longrightarrow> ap_restore_task s \<in> {RT_none, RT_done} \<longrightarrow> ap_fail_safe t \<noteq> [] \<and> ap_restore_pending t) \<and>
       (\<not> is_timeout e \<longrightarrow> controlled s t))"
    unfolding run_fan_command_def ends_acatch
    by (rule ends_mono [OF queue_run_ends [OF outsideD(3,2) [OF assms(1)] assms(2)]])
       (auto simp: poisoned_def is_timeout_def recovery_future_def track_fan_timeout_recovery_def)
  from ends_conj [OF out this] show ?thesis by (rule ends_mono) auto
qed

text \<open>A speed that cannot be applied leaves the fan to the firmware or a fault on record.\<close>

lemma restore_safe:
  assumes "outside s"
  shows "ends (restore_fan_auto env) s (\<lambda>b t. outside t \<and> restore_outcome auto b t) (\<lambda>_ _. False)"
proof -
  have "ends (restore_fan_auto env) s (\<lambda>_. outside) (\<lambda>_. outside)"
    using assms by (intro ends_keeps keeps_intro)
  from ends_conj [OF this restore_ends [OF outsideD(1,2) [OF assms]]] show ?thesis
    by (rule ends_mono) auto
qed

lemma apply_safe:
  assumes "outside s" "ap_restore_task s \<in> {RT_none, RT_done}"
  shows "ends (apply_manual_fan_speed env v p) s (\<lambda>b t. b \<or> fan_safe auto t) (\<lambda>_. fan_safe auto)"
proof -
  let ?fail = "\<lambda>e t. outside t \<and> e \<noteq> CancelledError \<and> (is_timeout e \<longrightarrow> ap_fail_safe t \<noteq> [])"
  have handed: "ends (restore_fan_auto env) t (\<lambda>_. fan_safe auto) (\<lambda>_ _. False)" if "outside t" for t
    by (rule ends_mono [OF restore_safe [OF that]]) (auto dest: restore_outcome_safe)
  have cmd: "ends (run_fan_command env n f c) t (\<lambda>_ u. outside u \<and> ap_restore_task u \<in> {RT_none, RT_done}) ?fail"
    if "outside t" "ap_restore_task t \<in> {RT_none, RT_done}" "\<And>w. port_reply (fst (f w))"
    for n c t and f :: "'w \<Rightarrow> bool reply \<times> 'w"
    using that(2) by (intro ends_mono [OF command_ends [OF that(1,3)]]) (auto dest: controlledD)
  have refused: "ends (abind (restore_fan_auto env) (\<lambda>_. aret False)) t (\<lambda>b u. b \<or> fan_safe auto u) ?fail"
    if "outside t" for t unfolding ends_abind by (rule ends_mono [OF handed [OF that]]) simp_all
  have speed: "ends (abind (run_fan_command env n (hp_set_fan_speed (ev_hw env) v) c) (\<lambda>ok.
      if \<not> ok then abind (restore_fan_auto env) (\<lambda>_. aret False) else aret True)) t (\<lambda>b u. b \<or> fan_safe auto u) ?fail"
    if "outside t" "ap_restore_task t \<in> {RT_none, RT_done}" for n c t
    unfolding ends_abind by (rule ends_mono [OF cmd [OF that]]) (use refused in auto)
  have body: "ends (abind (run_fan_command env n (hp_set_fan_manual (ev_hw env) v) c) (\<lambda>ok.
      if \<not> ok then abind (restore_fan_auto env) (\<lambda>_. aret False)
      else abind (run_fan_command env n' (hp_set_fan_speed (ev_hw env) v) c') (\<lambda>ok.
           if \<not> ok then abind (restore_fan_auto env) (\<lambda>_. aret False) else aret True))) s (\<lambda>b u. b \<or> fan_safe auto u) ?fail"
    for n c n' c'
    unfolding ends_abind [of "run_fan_command env n _ c"]
    by (rule ends_mono [OF cmd [OF assms]]) (use refused speed in \<open>auto simp del: ends_abind\<close>)
  show ?thesis
    unfolding apply_manual_fan_speed_def ends_acatch
    by (rule ends_mono [OF body]) (auto simp: fan_safe_def intro!: ends_mono [OF handed])
qed

lemma restore_publish_safe:
  assumes "outside s"
  shows "ends (restore_and_publish env) s (\<lambda>_ t. outside t \<and> fan_safe auto t) (\<lambda>_ _. False)"
proof -
  have "ends (publish_fan_stock_auto env) t (\<lambda>_. fan_safe auto) (\<lambda>_ _. False)" if "auto (ap_world t)" for t
    using reads_onlyD [OF quiet(3), of "ap_world t"] that
    by (auto simp: publish_fan_stock_auto_def snap_def ends_publish fan_safe_def split: prod.splits)
  then have "ends (restore_and_publish env) s (\<lambda>_. fan_safe auto) (\<lambda>_ _. False)"
    unfolding restore_and_publish_def ends_abind
    by (intro ends_mono [OF restore_safe [OF assms]]) (auto simp: restore_outcome_def fan_safe_def split: if_splits)
  moreover have "ends (restore_and_publish env) s (\<lambda>_. outside) (\<lambda>_. outside)"
    using assms by (intro ends_keeps keeps_intro)
  ultimately show ?thesis by (rule ends_both) auto
qed

lemma react_ends:
  assumes "outside t" "hp_read_fan_temp (ev_hw env) w = (Ret (Some v), w')" "1000 \<le> v" "v \<le> 150000"
  shows "ends (watchdog_react env v) t
    (\<lambda>b t. outside t \<and> (if b then watched env t else ap_closing t \<or> fan_safe auto t))
    (\<lambda>e t. outside t \<and> e \<noteq> CancelledError)"
proof -
  have raised: "ends (publish_domain env (DV_fan (f\<lparr>fs_temp_mc := Some v, fs_target_speed := Some (emergency_target v),
      fs_last_error := m\<rparr>))) t (\<lambda>_ t. outside t \<and> watched env t) (\<lambda>_ _. False)" if "outside t" for t f m
  proof -
    have "ends (publish_domain env (DV_fan (f\<lparr>fs_temp_mc := Some v, fs_target_speed := Some (emergency_target v),
      fs_last_error := m\<rparr>))) t (\<lambda>_. outside) (\<lambda>_. outside)" using that by (intro ends_keeps keeps_intro)
    then show ?thesis using assms(2-4)
      by (simp add: ends_publish watched_def split: prod.splits) blast
  qed
  show ?thesis
    using assms unfolding watchdog_react_def Let_def
    by (auto simp: watched_def snap_def intro!: ends_mono [OF command_ends [OF assms(1)]]
        ends_mono [OF raised] ends_mono [OF restore_publish_safe])
qed

lemma check_ends:
  assumes "outside s"
  shows "ends (watchdog_check env) s
    (\<lambda>b t. outside t \<and> (if b then watched env t else ap_closing t \<or> fan_safe auto t))
    (\<lambda>e t. outside t \<and> e \<noteq> CancelledError)"
proof (cases "ap_closing s")
  case True
  with assms show ?thesis by (simp add: watchdog_check_def)
next
  case False
  then show ?thesis
    unfolding watchdog_check_def
    by (auto simp: plausible_temp_iff intro!: ends_mono [OF command_ends [OF assms]] ends_mono [OF restore_publish_safe]
        ends_mono [OF react_ends])
qed

lemma expiry_ends:
  assumes "outside s" "\<And>now f t. (now, f) \<in> set clock \<Longrightarrow> outside t \<Longrightarrow> outside (f t)" "\<And>t. outside t \<Longrightarrow> outside (other t)"
  shows "ends (manual_fan_expiry env started clock other) s
    (\<lambda>r t. (r = None \<longrightarrow> (\<forall>(now, f) \<in> set clock. now < started + ap_manual_ttl s * 1000)) \<and>
           (r \<noteq> None \<longrightarrow> ap_closing t \<or> fan_safe auto t)) (\<lambda>_. fan_safe auto)"
proof -
  have loop: "ends (watchdog_loop env d clock) s
      (\<lambda>r t. (r = None \<longrightarrow> (\<forall>(now, f) \<in> set clock. now < d)) \<and> (r \<noteq> None \<longrightarrow> ap_closing t \<or> fan_safe auto t))
      (\<lambda>e t. outside t \<and> e \<noteq> CancelledError)" for d
    using assms(1,2)
  proof (induction clock arbitrary: s)
    case (Cons nf rest)
    obtain now f where nf: "nf = (now, f)" by fastforce
    have out: "outside (f s)" using Cons.prems(1) Cons.prems(2) [of now f s] nf by simp
    have rest: "ends (watchdog_loop env d rest) t
      (\<lambda>r u. (r = None \<longrightarrow> (\<forall>(now, f) \<in> set rest. now < d)) \<and> (r \<noteq> None \<longrightarrow> ap_closing u \<or> fan_safe auto u))
      (\<lambda>e t. outside t \<and> e \<noteq> CancelledError)" if "outside t" for t
      by (rule Cons.IH [OF that]) (use Cons.prems(2) in \<open>auto\<close>)
    show ?case
      using nf by (auto intro!: ends_mono [OF restore_publish_safe [OF out]] ends_mono [OF check_ends [OF out]]
          ends_mono [OF rest])
  qed simp
  show ?thesis
    unfolding manual_fan_expiry_def
    by (auto simp: is_exception_def intro!: ends_mono [OF loop] ends_mono [OF restore_publish_safe] assms(3))
qed

text \<open>The curve is given up only with the fan back under firmware control or a fault on record.\<close>

lemma disable_ends:
  assumes "outside s"
  shows "ends (disable_fan_curve env) s (\<lambda>_ _. False) (\<lambda>e. fan_safe auto)"
proof -
  have upd: "ends (config_update env f) t (\<lambda>_ _. True) (\<lambda>_. fan_safe auto)" if "fan_safe auto t" for f t
  proof -
    have "auto (snd (ev_save_faults env (ap_world t))) = auto (ap_world t)"
      using quiet(1) by (simp add: reads_only_def)
    then show ?thesis
      using that by (auto simp: config_update_def ends_def abind_def aworld_def fan_safe_def split: prod.splits sum.splits)
  qed
  show ?thesis
    unfolding disable_fan_curve_def ends_abind
    by (rule ends_mono [OF restore_safe [OF assms]])
       (auto intro!: ends_mono [OF upd] dest: restore_outcome_safe
          simp: snap_def ends_publish fan_safe_def CURVE_DISABLED_def split: prod.splits)
qed

lemma apply_ends:
  assumes "outside s"
  shows "ends (apply_manual_fan_speed env v p) s (\<lambda>_. outside) (\<lambda>e t. outside t \<and> e \<noteq> CancelledError)"
proof -
  have restored: "ends (restore_fan_auto env) t (\<lambda>_. outside) (\<lambda>_ _. False)" if "outside t" for t
    by (rule ends_mono [OF restore_safe [OF that]]) auto
  have cmd: "ends (run_fan_command env n f c) t (\<lambda>_. outside) (\<lambda>e t. outside t \<and> e \<noteq> CancelledError)"
    if "outside t" "\<And>w. port_reply (fst (f w))" for n c t and f :: "'w \<Rightarrow> bool reply \<times> 'w"
    by (rule ends_mono [OF command_ends [OF that]]) auto
  show ?thesis
    unfolding apply_manual_fan_speed_def
    by (auto intro!: ends_mono [OF cmd] ends_mono [OF restored] assms)
qed

lemma control_ends:
  assumes "outside s"
  shows "ends (fan_curve_control env curve prev) s (\<lambda>(temp, v) t. outside t \<and> curve_followed env curve temp v)
    (\<lambda>e t. outside t \<and> e \<noteq> CancelledError)"
proof -
  have act: "ends (fan_curve_react env curve prev temp) t
      (\<lambda>(temp, v) t. outside t \<and> curve_followed env curve temp v) (\<lambda>e t. outside t \<and> e \<noteq> CancelledError)"
    if "outside t" "hp_read_fan_temp (ev_hw env) w = (Ret (Some temp), w')" "1000 \<le> temp" "temp \<le> 150000" for t temp w w'
  proof (cases "curve_target curve temp")
    case (Inl e)
    then show ?thesis using curve_target_uncancelled [of curve temp] that(1) by (simp add: fan_curve_react_def ends_alift)
  next
    case (Inr target)
    have ok: "curve_followed env curve temp (with_hysteresis prev target)"
      using that(2-4) Inr hysteresis_close [of prev target] by (auto simp: curve_followed_def)
    show ?thesis
      using Inr ok that(1) by (auto simp: fan_curve_react_def ends_alift Let_def intro!: ends_mono [OF apply_ends [OF that(1)]])
  qed
  show ?thesis
    unfolding fan_curve_control_def ends_abind [of "run_fan_command env _ _ _"]
    by (rule ends_mono [OF command_ends [OF assms]])
       (auto simp: plausible_temp_iff intro!: ends_mono [OF act])
qed

lemma iteration_ends:
  assumes "outside s" "\<And>t. outside t \<Longrightarrow> outside (first t)" "\<And>t. outside t \<Longrightarrow> outside (second t)"
  shows "ends (fan_curve_iteration env first second lp) s
    (\<lambda>lp' t. lp' \<in> {lp, lp\<lparr>cl_last_speed := None\<rparr>, lp\<lparr>cl_failures := cl_failures lp + 1\<rparr>} \<or>
       (\<exists>temp v. curve_followed env (active_curve s) temp v \<and> lp' = \<lparr>cl_last_speed = Some v, cl_failures = 0\<rparr> \<and>
          fs_mode (ss_fan (sn_snapshot (ap_snaps t))) = FM_CURVE \<and>
          fs_target_speed (ss_fan (sn_snapshot (ap_snaps t))) = Some v))
    (\<lambda>e t. cl_failures lp \<ge> 2 \<and> fan_safe auto t)"
  using assms unfolding fan_curve_iteration_def
  by (auto simp: snap_def ends_publish is_exception_def split: prod.splits
      intro!: ends_mono [OF control_ends] ends_mono [OF disable_ends])

end

text \<open>The queue after a time-out with a recovery: the recovery is the next request.\<close>

lemma timeout_branch_recovery:
  "wt_recovery w = Some r \<Longrightarrow> timeout_branch w q = (x, q') \<Longrightarrow>
     cq_timed_out q' = Some (cq_next q) \<and> cq_requests q' = cq_requests q @ [Work (cq_next q) r] \<and>
     cq_busy q' = cq_busy q \<and> cq_scheduled q' = cq_scheduled q \<and> cq_worker_gone q' = cq_worker_gone q"
  by (auto simp: timeout_branch_def queue_timeout_recovery_def)

definition recovery_reserved :: "nat \<Rightarrow> 'w app \<Rightarrow> bool" where
  "recovery_reserved fut s = (cq_timed_out (ap_queue s) = Some fut \<and> (\<exists>c. cq_requests (ap_queue s) = [Work fut c]) \<and>
     \<not> cq_worker_gone (ap_queue s))"

lemma timeout_reserves:
  assumes ok: "queue_ok s" and out: "\<not> ap_in_cleanup s" and reply: "port_reply (fst (f (ap_world s)))"
    and run: "queue_run n (Some r) f s = (Inl e, t)" and to: "is_timeout e"
  shows "\<exists>fut. recovery_reserved fut t"
proof (cases "run_admit n n 10 (Some r) (ap_queue s)")
  case (Pair x q)
  show ?thesis
  proof (cases x)
    case (Inl e')
    with Pair run to admit_error [of n n 10 "Some r" "ap_queue s" e' q] show ?thesis by (simp add: queue_run_def)
  next
    case (Inr fut)
    with Pair have adm: "run_admit n n 10 (Some r) (ap_queue s) = (Inr fut, q)" by simp
    let ?w = "\<lparr>wt_future = fut, wt_name = n, wt_timeout = 10, wt_recovery = Some r\<rparr>"
    note fin = finished_queue [OF ok adm] and sh = admit_shape [OF ok adm] and hold = admit_ok(1) [OF ok adm]
    have take: "worker_take q = q\<lparr>cq_requests := [], cq_busy := Some (fut, n), cq_log := cq_log q @ [fut]\<rparr>"
      using sh by (simp add: worker_take_def)
    have reserve: "recovery_reserved (cq_next q0) (s\<lparr>ap_world := w, ap_queue := q'\<rparr>)"
      if "timeout_branch ?w q0 = (y, q')" "cq_requests q0 = []" "\<not> cq_worker_gone q0" for q0 q' y w
      using timeout_branch_recovery [OF _ that(1)] that(2,3) by (auto simp: recovery_reserved_def)
    let ?q0 = "\<lambda>v. loop_complete (worker_finish v (worker_take q))"
    have q0: "cq_requests (?q0 v) = []" "\<not> cq_worker_gone (?q0 v)" for v
      using sh by (simp_all add: take worker_finish_def loop_complete_def)
    obtain rp w where fr: "f (ap_world s) = (rp, w)" by fastforce
    show ?thesis
    proof (cases rp)
      case (Ret v)
      have "fst (run_return (?q0 (Inr ()))) = Inr ()"
        using run_return_done(2) [of "?q0 (Inr ())" ?w "Inr ()" "()"] fin(5,6) hold by simp
      with run fr Ret adm show ?thesis by (auto simp: queue_run_def Let_def split: prod.splits)
    next
      case (Raise e')
      have hold': "cq_holder (?q0 (Inl e')) = Some ?w" "cq_done (?q0 (Inl e')) fut = Some (Inl e')"
        using fin(5,6) hold by simp_all
      have e': "\<not> is_timeout e'" using reply fr Raise port_reply_Raise [of e'] by (simp add: port_reply_def)
      obtain e2 q2 where ret: "run_return (?q0 (Inl e')) = (Inl e2, q2)"
        using run_return_done(3) [of "?q0 (Inl e')" ?w "Inl e'" e'] hold' by (cases "run_return (?q0 (Inl e'))") auto
      have t: "t = s\<lparr>ap_world := w, ap_queue := q2\<rparr>" "e2 = e"
        using run fr Raise adm ret by (simp_all add: queue_run_def Let_def)
      have "fst (run_return (?q0 (Inl e'))) = Inl e'" if "\<nexists>m. e' = TimeoutError m"
        using hold' that unfolding run_return_def by (cases e') simp_all
      with ret t(2) e' to obtain m where "e' = TimeoutError m" by auto
      with ret hold' have "timeout_branch ?w (?q0 (Inl e')) = (Inl e2, q2)" by (simp add: run_return_def)
      from reserve [OF this q0] t(1) show ?thesis by blast
    next
      case Hang
      have "cq_holder (worker_take q) = Some ?w" using fin(2) hold by simp
      then have rt: "run_timeout (worker_take q) = timeout_branch ?w (worker_take q)" by (simp add: run_timeout_def)
      obtain y q2 where br: "timeout_branch ?w (worker_take q) = (y, q2)" by fastforce
      from timeout_branch_poisons [OF br] obtain e2 where "y = Inl e2" by blast
      with run fr Hang adm out rt br have t: "t = s\<lparr>ap_world := w, ap_queue := q2\<rparr>"
        by (simp add: queue_run_def Let_def)
      have "cq_requests (worker_take q) = []" "\<not> cq_worker_gone (worker_take q)" using sh by (simp_all add: take)
      from reserve [OF br this] t show ?thesis by blast
    qed
  qed
qed

lemma finish_late_frame:
  "recovery_reserved fut (snd (finish_late_call env s)) = recovery_reserved fut s \<and>
   cq_busy (ap_queue (snd (finish_late_call env s))) = None \<and> controlled s (snd (finish_late_call env s))"
  by (auto simp: finish_late_call_def amodify_def recovery_reserved_def worker_finish_def loop_complete_def
      controlled_def control_def split: option.splits list.splits prod.splits)

lemma begin_frame:
  assumes "ap_restore_task s = RT_created fut" "recovery_reserved fut s"
  shows "ends (recovery_begin env) s (\<lambda>_ t. ap_restore_task t = RT_waiting fut \<and> recovery_reserved fut t) (\<lambda>_ _. False)"
  using assms by (simp add: recovery_begin_def publish_fan_failed_safe_def snap_def ends_publish recovery_reserved_def
      split: prod.splits)

context fan_env
begin

lemma reserved_runs:
  assumes "recovery_reserved fut s" "cq_busy (ap_queue s) = None" "\<And>w. fst (hp_set_fan_auto (ev_hw env) w) = Ret True"
  shows "ends (run_reserved env fut) s (\<lambda>r t. r = Some (Inr True)) (\<lambda>_ _. False)"
  using assms(1,2) assms(3) [of "ap_world s"]
  by (cases "hp_set_fan_auto (ev_hw env) (ap_world s)")
     (auto simp: ends_def run_reserved_def recovery_reserved_def worker_take_def Let_def)

lemma finished_true:
  assumes "outside s" "auto (ap_world s)"
  shows "ends (recovery_finished env (Inr True)) s
    (\<lambda>b t. b \<and> restore_outcome auto True t \<and> \<not> ap_restore_pending t \<and> ap_restore_task t = RT_done) (\<lambda>_ _. False)"
proof -
  have "ends (recovery_finished env (Inr True)) s (\<lambda>b t. b) (\<lambda>_ _. False)"
    using outsideD(1,2) [OF assms(1)]
    by (auto simp: recovery_finished_def ends_afinally_modify ends_alift intro!: ends_mono [OF refresh_quiet])
  from ends_both [OF this finished_outcome [OF outsideD(1,2) [OF assms(1)], of "Inr True"]] assms(2)
  show ?thesis by (auto elim: ends_mono)
qed

lemma recovery_completes:
  assumes out: "outside s" and task: "ap_restore_task s = RT_created fut" and res: "recovery_reserved fut s"
    and auto: "\<And>w. fst (hp_set_fan_auto (ev_hw env) w) = Ret True"
  shows "ends (complete_fan_timeout_recovery env) s (\<lambda>r t. r = Some True \<and> restore_outcome auto True t \<and>
     \<not> ap_restore_pending t \<and> ap_restore_task t = RT_done) (\<lambda>_ _. False)"
proof -
  have begun: "ends (recovery_begin env) s
      (\<lambda>_ t. outside t \<and> ap_restore_task t = RT_waiting fut \<and> recovery_reserved fut t) (\<lambda>_ _. False)"
    by (rule ends_both [OF ends_keeps [OF keeps_outside [OF inv.keeps_recovery(2) calm.keeps_recovery(2)] out]
          begin_frame [OF task res]]) auto
  have rest: "ends (recovery_end env) t (\<lambda>r t. r = Some True \<and> restore_outcome auto True t \<and>
     \<not> ap_restore_pending t \<and> ap_restore_task t = RT_done) (\<lambda>_ _. False)"
    if "outside t" "ap_restore_task t = RT_waiting fut" "recovery_reserved fut t" for t
  proof -
    let ?t1 = "snd (finish_late_call env t)"
    have t1: "outside ?t1" using that(1) by (intro keepsI2 [OF keeps_outside] keeps_intro)
    have fin: "ends (finish_late_call env) t (\<lambda>_ u. u = ?t1) (\<lambda>_ _. False)"
      by (simp add: finish_late_call_def amodify_def ends_def)
    have "recovery_reserved fut ?t1" "cq_busy (ap_queue ?t1) = None"
      using finish_late_frame [of fut env t] that(3) by auto
    from ends_both [OF reserved_outcome [of fut ?t1] reserved_runs [OF this auto]]
    have run: "ends (run_reserved env fut) ?t1 (\<lambda>r u. r = Some (Inr True) \<and> auto (ap_world u)) (\<lambda>_ _. False)"
      by auto
    have kept: "ends (run_reserved env fut) ?t1 (\<lambda>_. outside) (\<lambda>_. outside)"
      using t1 by (intro ends_keeps keeps_intro)
    have "ends (run_reserved env fut) ?t1 (\<lambda>r u. r = Some (Inr True) \<and> auto (ap_world u) \<and> outside u) (\<lambda>_ _. False)"
      by (rule ends_both [OF run kept]) auto
    then show ?thesis
      using that(2) by (auto simp: recovery_end_def intro!: ends_mono [OF fin] elim!: ends_mono ends_mono [OF finished_true])
  qed
  show ?thesis
    unfolding complete_fan_timeout_recovery_def ends_abind
    by (rule ends_mono [OF begun]) (auto intro: rest)
qed

text \<open>A fan command that times out leaves its recovery reserved and tracked.\<close>

lemma command_timeout:
  assumes "outside s" "\<And>w. port_reply (fst (f w))" "ap_restore_task s \<in> {RT_none, RT_done}"
    "run_fan_command env n f c s = (Inl e, t)" "is_timeout e"
  shows "outside t \<and> ap_restore_pending t \<and> ap_fail_safe t \<noteq> [] \<and>
    (\<exists>fut. ap_restore_task t = RT_created fut \<and> recovery_reserved fut t)"
proof -
  obtain r u where q: "queue_run n (Some (n @ ''_auto_recovery'')) f s = (r, u)" by fastforce
  obtain e' where r: "r = Inl e'" using assms(4) q by (cases r) (auto simp: run_fan_command_def acatch_def)
  have step: "run_fan_command env n f c s =
      (if is_timeout e' then abind (aget (recovery_future e')) (\<lambda>fut.
                 abind (track_fan_timeout_recovery fut (c @ '' timed out'')) (\<lambda>_. araise e'))
       else if e' = CancelledError
       then abind (aget (\<lambda>s. pending_timeout_completion (ap_queue s))) (\<lambda>fut.
                 abind (track_fan_timeout_recovery fut (c @ '' was cancelled'')) (\<lambda>_. araise e'))
       else araise e') u"
    using q r by (simp add: run_fan_command_def acatch_def)
  have to: "is_timeout e'"
    using step assms(4,5)
    by (auto simp: abind_def aget_def araise_def track_fan_timeout_recovery_def amodify_def split: if_splits)
  from timeout_reserves [OF outsideD(3,2) [OF assms(1)] assms(2) q [unfolded r] to]
  obtain fut where fut: "recovery_reserved fut u" by blast
  have "ends (queue_run n (Some (n @ ''_auto_recovery'')) f) s (\<lambda>_ _. True) (\<lambda>e t. controlled s t \<and> poisoned True e (ap_queue t))"
    by (rule ends_mono [OF queue_run_ends [OF outsideD(3,2) [OF assms(1)] assms(2)]]) auto
  then have "controlled s u" "poisoned True e' (ap_queue u)" using q r by (simp_all add: ends_def)
  with to fut have "recovery_future e' u = Some fut"
    by (auto simp: poisoned_def recovery_future_def recovery_reserved_def)
  with step to assms(3,4) \<open>controlled s u\<close> fut have "ap_restore_pending t \<and> ap_fail_safe t \<noteq> [] \<and>
      ap_restore_task t = RT_created fut \<and> recovery_reserved fut t"
    by (auto simp: abind_def aget_def araise_def track_fan_timeout_recovery_def amodify_def recovery_reserved_def controlledD)
  moreover have "outside t"
    using ends_keeps [OF keeps_outside [OF inv.keeps_run_fan_command calm.keeps_run_fan_command] assms(1), of env n f c] assms(4)
    by (simp add: ends_def)
  ultimately show ?thesis by blast
qed

end

lemma ends_total: "ends m s Q (\<lambda>_ _. False) \<Longrightarrow> \<exists>x t. m s = (Inr x, t) \<and> Q x t"
  by (auto simp: ends_def split: prod.splits sum.splits)

lemma ends_top: "ends m s (\<lambda>_ _. True) (\<lambda>_ _. True)"
  by (simp add: ends_def split: prod.splits sum.splits)

lemma endsD: "ends m s Q E \<Longrightarrow> m s = (Inr x, t) \<Longrightarrow> Q x t" "ends m s Q E \<Longrightarrow> m s = (Inl e, t) \<Longrightarrow> E e t"
  by (simp_all add: ends_def)

text \<open>The temperature reading that admits a manual speed.\<close>

definition admits_speed :: "'w app_env \<Rightarrow> int \<Rightarrow> bool" where
  "admits_speed env v = (\<exists>temp w w'. hp_read_fan_temp (ev_hw env) w = (Ret (Some temp), w') \<and>
     1000 \<le> temp \<and> temp \<le> 150000 \<and> (95000 \<le> temp \<longrightarrow> 100 \<le> v) \<and> (90000 \<le> temp \<longrightarrow> 80 \<le> v))"

lemma manual_speed_allowed_iff:
  "manual_speed_allowed temp v = Inr u \<longleftrightarrow> (95000 \<le> temp \<longrightarrow> 100 \<le> v) \<and> (90000 \<le> temp \<longrightarrow> 80 \<le> v)"
  by (auto simp: manual_speed_allowed_def manual_consts)

context observing_env
begin

lemma manual_untouched:
  fixes v ttl
  assumes "x = obs (ap_world s)"
  shows "ends (set_fan_manual env v ttl) s
    (\<lambda>_ t. sees obs x t \<or> (\<exists>val. validate_manual_speed v = Inr val \<and> admits_speed env val))
    (\<lambda>_ t. sees obs x t \<or> (\<exists>val. validate_manual_speed v = Inr val \<and> admits_speed env val))"
proof (cases "validate_manual_speed v")
  case (Inl e)
  then show ?thesis using assms by (auto simp: set_fan_manual_def serialized_def ends_alift sees_def)
next
  case (Inr val)
  let ?Q = "\<lambda>_ t. sees obs x t \<or> admits_speed env val"
  have hw: "ends (run_hw n f) t (\<lambda>y u. sees obs x u \<and> (\<exists>w w'. f w = (Ret y, w'))) (\<lambda>_ u. sees obs x u)"
    if "sees obs x t" "reads_only obs f" for n f t
  proof -
    have "ends (run_hw n f) t (\<lambda>y u. \<exists>w w'. f w = (Ret y, w')) (\<lambda>_ _. True)"
      using queue_run_shape [of n None f t] by (auto simp: ends_def run_hw_def split: prod.splits sum.splits) blast+
    from ends_both [OF ends_keeps [OF keeps_sees_run_hw [OF that(2)] that(1)] this] show ?thesis by auto
  qed
  have rest: "ends (if \<not> plausible_temp temp then abind sequence (\<lambda>n. aret (g n))
      else abind (alift (manual_speed_allowed (the temp) val)) (\<lambda>_. start_manual_override env val secs)) t ?Q ?Q"
    if "sees obs x t" "\<exists>w w'. hp_read_fan_temp (ev_hw env) w = (Ret temp, w')" for temp t secs g
  proof (cases "plausible_temp temp \<and> manual_speed_allowed (the temp) val = Inr ()")
    case True
    then obtain t0 where "temp = Some t0" "1000 \<le> t0" "t0 \<le> 150000"
      "(95000 \<le> t0 \<longrightarrow> 100 \<le> val) \<and> (90000 \<le> t0 \<longrightarrow> 80 \<le> val)"
      by (auto simp: plausible_temp_iff manual_speed_allowed_iff)
    then have "admits_speed env val" using that(2) unfolding admits_speed_def by blast
    then show ?thesis by (auto intro: ends_mono [OF ends_top])
  next
    case False
    then show ?thesis using that(1)
      by (auto simp: sequence_def ends_alift split: sum.splits)
  qed
  have start: "sees obs x s" using assms by (simp add: sees_def)
  show ?thesis
    using Inr start
    unfolding set_fan_manual_def serialized_def unavailable_def
    by (auto simp: ends_alift sequence_def split: sum.splits intro!: ends_mono [OF hw] ends_mono [OF rest [simplified]]) blast+
qed

end

section \<open>Properties\<close>

lemma fake_outside: "outside fake_app"
  by (simp add: outside_def fake_app_def app_init_inv) (simp add: app_init_def)

lemma fake_idle: "ap_restore_task fake_app = RT_none" "\<not> ap_in_cleanup fake_app" "app_inv fake_app"
  by (simp_all add: fake_app_def app_init_inv) (simp_all add: app_init_def)

text \<open>
  C1: Returning the fan to the firmware always ends with an answer, and the answer is true: outside a clean-up
  \<open>_restore_fan_auto\<close> never raises; when it returns True the firmware controls the fan and no fault is on record,
  when it returns False a non-empty fault is on record and published as the failed-safe mode.
\<close>

theorem restore_reports_truth:
  assumes "fan_env env auto" "app_inv s" "\<not> ap_in_cleanup s"
  shows "\<exists>b t. restore_fan_auto env s = (Inr b, t) \<and>
    (if b then auto (ap_world t) \<and> ap_fail_safe t = []
     else ap_fail_safe t \<noteq> [] \<and> fs_mode (ss_fan (sn_snapshot (ap_snaps t))) = FM_FAILED_SAFE \<and>
          fs_last_error (ss_fan (sn_snapshot (ap_snaps t))) = ap_fail_safe t)"
  using ends_total [OF fan_env.restore_ends [OF assms]] by (simp add: restore_outcome_def)

theorem restore_reports_truth_witness:
  "\<exists>b t. restore_fan_auto fake_env fake_app = (Inr b, t) \<and>
    (if b then fake_fan_auto (ap_world t) \<and> ap_fail_safe t = []
     else ap_fail_safe t \<noteq> [] \<and> fs_mode (ss_fan (sn_snapshot (ap_snaps t))) = FM_FAILED_SAFE \<and>
          fs_last_error (ss_fan (sn_snapshot (ap_snaps t))) = ap_fail_safe t)"
  by (rule restore_reports_truth [OF fake_fan_ctx.fan_env_axioms fake_idle(3,2)])

text \<open>
  C2: A manual or curve speed that cannot be applied never leaves the fan unattended: if \<open>_apply_manual_fan_speed\<close>
  reports a refusal, raises or times out, the firmware controls the fan again or a fault is on record (which
  suspends the curve controller).
\<close>

theorem failed_speed_is_safe:
  assumes "fan_env env auto" "outside s" "ap_restore_task s \<in> {RT_none, RT_done}"
    "apply_manual_fan_speed env v prefix s = (r, t)" "r \<noteq> Inr True"
  shows "auto (ap_world t) \<or> ap_fail_safe t \<noteq> [] \<and> fan_suspended t"
proof -
  have "fan_safe auto t"
    using fan_env.apply_safe [OF assms(1-3), of v prefix] assms(4,5) by (cases r) (auto dest: endsD)
  then show ?thesis by (auto simp: fan_safe_def fan_suspended_def)
qed

theorem failed_speed_is_safe_witness:
  "\<exists>r t. apply_manual_fan_speed fake_env 50 ''fan_manual''
       (fake_app\<lparr>ap_world := fake_init\<lparr>fk_fail_next := Some ''set_fan_speed''\<rparr>\<rparr>) = (r, t) \<and>
     r \<noteq> Inr True \<and> (fake_fan_auto (ap_world t) \<or> ap_fail_safe t \<noteq> [] \<and> fan_suspended t)"
proof -
  let ?s = "fake_app\<lparr>ap_world := fake_init\<lparr>fk_fail_next := Some ''set_fan_speed''\<rparr>\<rparr>"
  obtain r t where run: "apply_manual_fan_speed fake_env 50 ''fan_manual'' ?s = (r, t)" by fastforce
  have "fst (apply_manual_fan_speed fake_env 50 ''fan_manual'' ?s) \<noteq> Inr True" by code_simp
  then have bad: "r \<noteq> Inr True" using run by simp
  have ok: "outside ?s" "ap_restore_task ?s \<in> {RT_none, RT_done}"
    using fake_outside fake_idle by (simp_all add: outside_def inv.kept_world)
  from failed_speed_is_safe [OF fake_fan_ctx.fan_env_axioms ok run bad] run bad show ?thesis by blast
qed

text \<open>
  C5: The watchdog of a manual speed hands the fan back. When it ends, by expiry or after a failure and whatever
  other coroutines did in between, the firmware controls the fan or a fault is on record, unless the service is
  shutting down; it ends at the latest when its clock reaches the deadline.
\<close>

theorem watchdog_hands_back:
  assumes "fan_env env auto" "outside s" "\<And>now f t. (now, f) \<in> set clock \<Longrightarrow> outside t \<Longrightarrow> outside (f t)"
    "\<And>t. outside t \<Longrightarrow> outside (other t)" "manual_fan_expiry env started clock other s = (r, t)"
  shows "(r \<noteq> Inr None \<longrightarrow> ap_closing t \<or> auto (ap_world t) \<or> ap_fail_safe t \<noteq> []) \<and>
    ((\<exists>(now, f) \<in> set clock. started + ap_manual_ttl s * 1000 \<le> now) \<longrightarrow> r \<noteq> Inr None)"
proof -
  have "ends (manual_fan_expiry env started clock other) s
    (\<lambda>r t. (r = None \<longrightarrow> (\<forall>(now, f) \<in> set clock. now < started + ap_manual_ttl s * 1000)) \<and>
           (r \<noteq> None \<longrightarrow> ap_closing t \<or> fan_safe auto t)) (\<lambda>_. fan_safe auto)"
    by (rule fan_env.expiry_ends [OF assms(1,2)]) (use assms(3,4) in blast)+
  then show ?thesis using assms(5) by (cases r) (fastforce simp: ends_def fan_safe_def)+
qed

theorem watchdog_hands_back_witness:
  "\<exists>r t. manual_fan_expiry fake_env 0 [(0, id), (2000, id)] id fake_app = (r, t) \<and>
     (ap_closing t \<or> fake_fan_auto (ap_world t) \<or> ap_fail_safe t \<noteq> [])"
proof -
  obtain r t where run: "manual_fan_expiry fake_env 0 [(0, id), (2000, id)] id fake_app = (r, t)" by fastforce
  have "ap_manual_ttl fake_app = 0" by (simp add: fake_app_def app_init_def)
  then show ?thesis
    using watchdog_hands_back [OF fake_fan_ctx.fan_env_axioms fake_outside _ _ run] run
    by (metis (no_types, lifting) id_apply insertE list.simps(15) list.set(1) empty_iff prod.inject case_prodI
        list.set_intros(1) mult_zero_left order_refl add_0)
qed

text \<open>
  The thermal floor of the watchdog: a check that lets the manual speed stand has read a plausible temperature,
  and the published target is at least 100% from 95 degrees and 80% from 90 degrees.
\<close>

theorem watchdog_enforces_floor:
  assumes "fan_env env auto" "outside s" "watchdog_check env s = (Inr True, t)"
  shows "\<exists>temp w w'. hp_read_fan_temp (ev_hw env) w = (Ret (Some temp), w') \<and> 1000 \<le> temp \<and> temp \<le> 150000 \<and>
    (let target = (case fs_target_speed (ss_fan (sn_snapshot (ap_snaps t))) of None \<Rightarrow> 0 | Some v \<Rightarrow> v)
     in (95000 \<le> temp \<longrightarrow> 100 \<le> target) \<and> (90000 \<le> temp \<longrightarrow> 80 \<le> target))"
proof -
  have "watched env t" using endsD(1) [OF fan_env.check_ends [OF assms(1,2)] assms(3)] by simp
  then obtain temp w w' where "hp_read_fan_temp (ev_hw env) w = (Ret (Some temp), w')" "1000 \<le> temp" "temp \<le> 150000"
    "emergency_target temp \<le> (case fs_target_speed (ss_fan (sn_snapshot (ap_snaps t))) of None \<Rightarrow> 0 | Some v \<Rightarrow> v)"
    unfolding watched_def by blast
  then show ?thesis
    by (intro exI [of _ temp] exI [of _ w] exI [of _ w'])
       (auto simp: emergency_target_def manual_consts Let_def split: if_splits)
qed

theorem watchdog_enforces_floor_witness:
  "\<exists>t temp w w'. watchdog_check fake_env fake_app = (Inr True, t) \<and>
     hp_read_fan_temp (ev_hw fake_env) w = (Ret (Some temp), w') \<and> 1000 \<le> temp \<and> temp \<le> 150000"
proof -
  have "fst (watchdog_check fake_env fake_app) = Inr True" by code_simp
  then obtain t where run: "watchdog_check fake_env fake_app = (Inr True, t)"
    by (cases "watchdog_check fake_env fake_app") auto
  from watchdog_enforces_floor [OF fake_fan_ctx.fan_env_axioms fake_outside this] run show ?thesis by blast
qed



text \<open>
  C4: A manual speed reaches the hardware only when the temperature admits it. If \<open>set_fan_manual\<close> changes the
  controlled hardware state at all, the speed is a validated one and the port reported a plausible temperature for
  which it is high enough: 100% from 95 degrees, at least 80% from 90 degrees.
\<close>

theorem manual_speed_thermal_floor:
  assumes "observing_env env obs" "obs (ap_world (snd (set_fan_manual env v ttl s))) \<noteq> obs (ap_world s)"
  shows "\<exists>val temp w w'. validate_manual_speed v = Inr val \<and> hp_read_fan_temp (ev_hw env) w = (Ret (Some temp), w') \<and>
    1000 \<le> temp \<and> temp \<le> 150000 \<and> (95000 \<le> temp \<longrightarrow> 100 \<le> val) \<and> (90000 \<le> temp \<longrightarrow> 80 \<le> val)"
proof -
  obtain r t where run: "set_fan_manual env v ttl s = (r, t)" by fastforce
  have "sees obs (obs (ap_world s)) t \<or> (\<exists>val. validate_manual_speed v = Inr val \<and> admits_speed env val)"
    using observing_env.manual_untouched [OF assms(1) refl, of v ttl s] run
    by (cases r) (auto dest: endsD)
  with assms(2) run show ?thesis by (auto simp: sees_def admits_speed_def)
qed

theorem manual_speed_thermal_floor_witness:
  "fake_controlled (ap_world (snd (set_fan_manual fake_env (PInt 60) (PInt 30) fake_app))) \<noteq> fake_controlled (ap_world fake_app) \<and>
   (\<exists>val. validate_manual_speed (PInt 60) = Inr val)"
proof -
  have "fk_fan_speed (ap_world (snd (set_fan_manual fake_env (PInt 60) (PInt 30) fake_app))) = 60" by code_simp
  moreover have "fk_fan_speed (ap_world fake_app) = 0" by (simp add: fake_app_def app_init_def fake_init_def)
  ultimately have changed: "fake_controlled (ap_world (snd (set_fan_manual fake_env (PInt 60) (PInt 30) fake_app))) \<noteq>
      fake_controlled (ap_world fake_app)"
    by (auto dest: arg_cong [of _ _ fk_fan_speed] simp: fake_controlled_def)
  with manual_speed_thermal_floor [OF fake_ctx.observing_env_axioms this] show ?thesis by blast
qed

text \<open>
  C3: A fan command that times out is made good. The failure is on record, every further mutation is refused as
  busy, and stock-auto is reserved as the next hardware command; when the port confirms it, the recovery task ends
  with True, the firmware controls the fan, the record is cleared and mutations are admitted again.
\<close>

theorem timed_out_command_recovers:
  assumes "fan_env env auto" "outside s" "ap_restore_task s \<in> {RT_none, RT_done}" "\<And>w. port_reply (fst (f w))"
    "run_fan_command env n f context s = (Inl e, t)" "is_timeout e"
    "\<And>w. fst (hp_set_fan_auto (ev_hw env) w) = Ret True"
  shows "ap_fail_safe t \<noteq> [] \<and> (\<forall>m. \<exists>e. serialized m t = (Inl e, t)) \<and>
    (\<exists>u. complete_fan_timeout_recovery env t = (Inr (Some True), u) \<and> auto (ap_world u) \<and> ap_fail_safe u = [] \<and>
       \<not> ap_restore_pending u \<and> ap_restore_task u = RT_done)"
proof -
  have t: "outside t" "ap_restore_pending t" "ap_fail_safe t \<noteq> []"
    and "\<exists>fut. ap_restore_task t = RT_created fut \<and> recovery_reserved fut t"
    using fan_env.command_timeout [OF assms(1,2,4,3,5,6)] by auto
  then obtain fut where "ap_restore_task t = RT_created fut" "recovery_reserved fut t" by blast
  from ends_total [OF fan_env.recovery_completes [OF assms(1) t(1) this assms(7)]] obtain x u where
    u: "complete_fan_timeout_recovery env t = (Inr x, u)" "x = Some True" "restore_outcome auto True u"
      "\<not> ap_restore_pending u" "ap_restore_task u = RT_done" by blast
  moreover have "\<forall>m. \<exists>e. serialized m t = (Inl e, t)"
    using t(2) by (auto simp: serialized_def abind_def aget_def araise_def)
  ultimately show ?thesis using t(3) by (auto simp: restore_outcome_def)
qed

text \<open>A fake whose stock-auto request is always confirmed.\<close>

definition steady_env :: "fake_hw app_env" where
  "steady_env = fake_env\<lparr>ev_hw := fake_port\<lparr>hp_set_fan_auto := (\<lambda>w. (Ret True, w\<lparr>fk_fan_mode := FM_STOCK\<rparr>))\<rparr>\<rparr>"

lemma steady_fan_env: "fan_env steady_env fake_fan_auto"
proof -
  have "ev_hw fake_env = fake_port" by (simp add: fake_env_def)
  moreover have "port_reply (Ret True)" "fake_fan_auto (w\<lparr>fk_fan_mode := FM_STOCK\<rparr>)" for w
    by (simp_all add: port_reply_def fake_fan_auto_def)
  ultimately show ?thesis
    unfolding steady_env_def by unfold_locales auto
qed

theorem timed_out_command_recovers_witness:
  "\<exists>e t u. run_fan_command steady_env ''fan_temp'' (\<lambda>w. (Hang :: unit reply, w)) ''temperature read'' fake_app = (Inl e, t) \<and>
     ap_fail_safe t \<noteq> [] \<and> complete_fan_timeout_recovery steady_env t = (Inr (Some True), u) \<and> fake_fan_auto (ap_world u)"
proof -
  let ?f = "\<lambda>w :: fake_hw. (Hang :: unit reply, w)"
  have "(case fst (run_fan_command steady_env ''fan_temp'' ?f ''temperature read'' fake_app) of
      Inl e \<Rightarrow> is_timeout e | Inr _ \<Rightarrow> False)" by code_simp
  then obtain e t where run: "run_fan_command steady_env ''fan_temp'' ?f ''temperature read'' fake_app = (Inl e, t)" "is_timeout e"
    by (cases "run_fan_command steady_env ''fan_temp'' ?f ''temperature read'' fake_app") (auto split: sum.splits)
  have "ap_restore_task fake_app \<in> {RT_none, RT_done}" "\<And>w. port_reply (fst (?f w))"
    "\<And>w. fst (hp_set_fan_auto (ev_hw steady_env) w) = Ret True"
    by (simp_all add: fake_idle port_reply_def steady_env_def)
  from timed_out_command_recovers [OF steady_fan_env fake_outside this(1,2) run this(3)] run show ?thesis by blast
qed

end
