(* ===== verification/App_Power.thy ===== *)
theory App_Power
  imports App_Fan "HOL-Library.List_Lexorder" "HOL-Library.Char_ord"
begin

text \<open>
  Battery thresholds and power profiles of \<^verbatim>\<open>honor_control/backend/application.py\<close>: the refresh of both domains,
  threshold writes with roll-back, the application of a profile with its verification, the profile registry, automatic
  switching with its retry delay, and the transition hooks. \<open>sorted\<close> orders strings by code points. The en dash of
  one error message is written as a hyphen.
\<close>

section \<open>Battery\<close>

definition refresh_battery :: "'w app_env \<Rightarrow> ('w, unit) act" where
  "refresh_battery env =
     atry
       (abind (run_hw ''bat_read'' (hp_read_battery (ev_hw env))) (\<lambda>bat.
        abind config (\<lambda>st.
        publish_domain env (DV_battery (bat\<lparr>bs_desired_end := Some (bt_end_threshold (st_battery st)),
          bs_desired_start := Some (bt_start_threshold (st_battery st))\<rparr>)))))
       (\<lambda>e. publish_stale env ''battery'' e)"

definition set_battery_state :: "int \<Rightarrow> int \<Rightarrow> service_state \<Rightarrow> service_state" where
  "set_battery_state en st s = s\<lparr>st_battery := \<lparr>bt_end_threshold = en, bt_start_threshold = st,
     bt_mode = charge_mode_str (derive_charge_mode en st)\<rparr>\<rparr>"

text \<open>\<open>bool(result.get(key, False))\<close>\<close>

definition flag :: "pv dict \<Rightarrow> string \<Rightarrow> bool" where
  "flag d k = py_truthy (dget d k (PBool False))"

text \<open>The write was confirmed: the desired state is saved.\<close>

definition battery_applied :: "'w app_env \<Rightarrow> int \<Rightarrow> int \<Rightarrow> pv dict \<Rightarrow> ('w, operation_result) act" where
  "battery_applied env en st result =
     abind (atry (abind (config_update env (set_battery_state en st)) (\<lambda>_. aret None)) (\<lambda>e. aret (Some e))) (\<lambda>failed.
     abind (refresh_battery env) (\<lambda>_.
     abind sequence (\<lambda>n.
     aret (case failed of
             Some e \<Rightarrow> op_partial ''battery_applied_not_persisted'' ''Battery thresholds changed but could not be saved''
               False True n (dict_merge result [(''persistence_error'', PStr (exn_str e))])
           | None \<Rightarrow> op_success (''Thresholds set to '' @ int_str en @ ''%/'' @ int_str st @ ''%'')
               True True True n result))))"

text \<open>Only one of the two writes went through: the old pair is written back, if it is known.\<close>

definition battery_rollback :: "'w app_env \<Rightarrow> battery_snapshot \<Rightarrow> pv dict \<Rightarrow> ('w, operation_result) act" where
  "battery_rollback env old result =
     abind (case (bs_observed_end old, bs_observed_start old) of
              (Some oe, Some os) \<Rightarrow>
                atry (abind (run_hw ''battery_rollback'' (hp_write_battery (ev_hw env) oe os)) (\<lambda>r. aret (Some r)))
                     (\<lambda>e. aret (Some [(''error'', PStr (exn_str e)), (''readback_ok'', PBool False)]))
            | _ \<Rightarrow> aret None) (\<lambda>rollback.
     abind (refresh_battery env) (\<lambda>_.
     let ok = (case rollback of None \<Rightarrow> False | Some r \<Rightarrow> r \<noteq> [] \<and> flag r ''readback_ok'') in
     abind sequence (\<lambda>n.
     aret (op_partial ''battery_partial_write''
       (''Partial write: end_ok='' @ bool_str (flag result ''end_write_ok'') @ '', start_ok='' @
        bool_str (flag result ''start_write_ok'') @ ''; rollback='' @ (if ok then ''verified'' else ''not verified''))
       False False n (dict_merge result [(''rollback'', PDict (case rollback of None \<Rightarrow> [] | Some r \<Rightarrow> r))])))))"

definition set_battery_thresholds :: "'w app_env \<Rightarrow> pv \<Rightarrow> pv \<Rightarrow> ('w, operation_result) act" where
  "set_battery_thresholds env en_arg st_arg = serialized
     (abind (alift (validate_thresholds en_arg st_arg)) (\<lambda>(en, st).
      abind (run_hw ''battery_cap'' (hp_battery_capability (ev_hw env))) (\<lambda>cap.
      if \<not> writable cap
      then unavailable ''battery_unavailable'' (cap_message cap) ''Battery charge control unavailable''
      else
      abind snap (\<lambda>sn.
      abind (run_hw ''battery_write'' (hp_write_battery (ev_hw env) en st)) (\<lambda>result.
      if flag result ''end_write_ok'' \<and> flag result ''start_write_ok'' \<and> flag result ''readback_ok''
      then battery_applied env en st result
      else if flag result ''end_write_ok'' \<or> flag result ''start_write_ok''
      then battery_rollback env (ss_battery sn) result
      else abind sequence (\<lambda>n.
           aret (op_failed ''battery_write_failed'' ''Battery threshold write failed'' n result)))))))"

definition set_battery_mode :: "'w app_env \<Rightarrow> string \<Rightarrow> ('w, operation_result) act" where
  "set_battery_mode env mode =
     abind (alift (validate_charge_mode mode)) (\<lambda>m.
     abind (alift (thresholds_for_mode m)) (\<lambda>(en, st).
     set_battery_thresholds env (PInt en) (PInt st)))"

section \<open>Observed power state\<close>

definition power_definition :: "power_profile_state \<Rightarrow> pv dict" where
  "power_definition p =
     [(''pl1_uw'', PInt (pp_pl1_uw p)), (''pl2_uw'', PInt (pp_pl2_uw p)), (''governor'', PStr (pp_governor p)),
      (''epp'', PStr (pp_epp p)), (''ppd_profile'', PStr (pp_ppd_profile p)),
      (''turbo_enabled'', PBool (pp_turbo_enabled p)), (''max_perf_pct'', PInt (pp_max_perf_pct p))]"

definition ordered_names :: "power_profile_state dict \<Rightarrow> string list" where
  "ordered_names profiles =
     filter (\<lambda>n. map_of profiles n \<noteq> None) [''silent'', ''balanced'', ''performance''] @
     sort (filter (\<lambda>n. n \<notin> set POWER_PROFILE_NAMES) (map fst profiles))"

definition profile_entry :: "string \<Rightarrow> power_profile_state \<Rightarrow> power_profile_entry" where
  "profile_entry n p =
     \<lparr>pe_name = n, pe_label = pp_label p, pe_description = pp_description p, pe_pl1_uw = pp_pl1_uw p,
      pe_pl2_uw = pp_pl2_uw p, pe_governor = pp_governor p, pe_epp = pp_epp p, pe_ppd_profile = pp_ppd_profile p,
      pe_turbo_enabled = pp_turbo_enabled p, pe_max_perf_pct = pp_max_perf_pct p,
      pe_built_in = (n \<in> set POWER_PROFILE_NAMES)\<rparr>"

definition profile_entries :: "power_profile_state dict \<Rightarrow> power_profile_entry list" where
  "profile_entries profiles = map (\<lambda>n. profile_entry n (the (map_of profiles n))) (ordered_names profiles)"

text \<open>The profiles whose definition the observation matches, in the order of the dictionary.\<close>

definition matched_names :: "pv dict \<Rightarrow> power_profile_state dict \<Rightarrow> string list" where
  "matched_names observed profiles =
     map fst (filter (\<lambda>(n, p). all_checks (verify_power_definition observed (power_definition p))) profiles)"

definition recognised_profile :: "power_snapshot \<Rightarrow> power_state \<Rightarrow> string" where
  "recognised_profile pw desired =
     (let matched = matched_names (ps_observed_summary pw) (pw_profiles desired) in
      if ps_applied_profile pw \<in> set matched then ps_applied_profile pw
      else if pw_profile desired \<in> set matched then pw_profile desired
      else case matched of [n] \<Rightarrow> n | _ \<Rightarrow> [])"

definition refresh_power :: "'w app_env \<Rightarrow> ('w, bool) act" where
  "refresh_power env =
     atry
       (abind (run_hw ''pw_read'' (hp_read_power (ev_hw env))) (\<lambda>pw.
        abind config (\<lambda>st.
        abind (aget ap_script_status) (\<lambda>status.
        let desired = st_power st; auto = pw_auto_switch desired in
        abind (publish_domain env (DV_power (pw\<lparr>
          ps_desired_profile := pw_profile desired, ps_applied_profile := recognised_profile pw desired,
          ps_auto_switch_enabled := as_enabled auto, ps_auto_switch_on_ac := as_on_ac auto,
          ps_auto_switch_on_battery := as_on_battery auto, ps_auto_switch_on_ac_script := as_on_ac_script auto,
          ps_auto_switch_on_battery_script := as_on_battery_script auto,
          ps_auto_switch_last_script_status := status, ps_profiles := profile_entries (pw_profiles desired)\<rparr>)))
        (\<lambda>_. aret True)))))
       (\<lambda>e. abind (publish_stale env ''power'' e) (\<lambda>_. aret False))"

section \<open>Applying a profile\<close>

text \<open>\<open>str(value)\<close>\<close>

definition pv_str :: "'w app_env \<Rightarrow> pv \<Rightarrow> string" where
  "pv_str env v = (case v of
     PStr s \<Rightarrow> s | PInt i \<Rightarrow> int_str i | PBool b \<Rightarrow> bool_str b | PNone \<Rightarrow> ''None'' | _ \<Rightarrow> ev_repr env v)"

definition power_checks :: "pv dict \<Rightarrow> bool dict" where
  "power_checks result = map (\<lambda>k. (k, dget result k PNone = PBool True)) POWER_CHECK_KEYS"

definition set_profile_state :: "string \<Rightarrow> service_state \<Rightarrow> service_state" where
  "set_profile_state name s = s\<lparr>st_power := (st_power s)\<lparr>pw_profile := name\<rparr>\<rparr>"

text \<open>After the checks of the write: save the intent if asked, observe once more, and compare.\<close>

definition power_observe :: "'w app_env \<Rightarrow> string \<Rightarrow> pv dict \<Rightarrow> pv dict \<Rightarrow> bool \<Rightarrow> ('w, operation_result) act" where
  "power_observe env name df result persisted =
     abind (refresh_power env) (\<lambda>refreshed.
     abind snap (\<lambda>sn.
     abind sequence (\<lambda>n.
     let observed = ps_observed_summary (ss_power sn); final_checks = verify_power_definition observed df in
     aret (if \<not> refreshed
           then op_partial ''power_observation_failed'' (''Profile '' @ quoted name @ '' applied but could not be verified'')
                  persisted False n result
           else if \<not> all_checks final_checks
           then op_partial ''power_convergence_lost'' (''Profile '' @ quoted name @ '' did not remain applied'')
                  persisted False n (dict_merge result
                    [(''final_verification'', PDict (map (\<lambda>(k, b). (k, PBool b)) final_checks)),
                     (''final_observed'', PDict observed)])
           else op_success (''Profile '' @ quoted name @ '' applied'') True persisted True n result))))"

definition power_applied :: "'w app_env \<Rightarrow> string \<Rightarrow> pv dict \<Rightarrow> pv dict \<Rightarrow> bool \<Rightarrow> ('w, operation_result) act" where
  "power_applied env name df result persist_desired =
     (if \<not> persist_desired then power_observe env name df result False
      else
      abind (atry (abind (config_update env (set_profile_state name)) (\<lambda>_. aret None)) (\<lambda>e. aret (Some e))) (\<lambda>failed.
      case failed of
        None \<Rightarrow> power_observe env name df result True
      | Some e \<Rightarrow>
          abind (refresh_power env) (\<lambda>_.
          abind sequence (\<lambda>n.
          aret (op_partial ''power_applied_not_persisted'' (''Profile '' @ quoted name @ '' applied, but could not be saved'')
            False True n (dict_merge result [(''persistence_error'', PStr (exn_str e))]))))))"

text \<open>\<open>f"{key.removesuffix('_ok')}={value}"\<close> for every check\<close>

definition partial_message :: "bool dict \<Rightarrow> string" where
  "partial_message checks = ''Partial apply: '' @
     concat (case map (\<lambda>(k, b). take (length k - 3) k @ ''='' @ bool_str b) checks of
       [] \<Rightarrow> [] | m # ms \<Rightarrow> m # map (\<lambda>x. '', '' @ x) ms)"

definition apply_power_profile :: "'w app_env \<Rightarrow> string \<Rightarrow> bool \<Rightarrow> ('w, operation_result) act" where
  "apply_power_profile env name persist_desired =
     abind (atry (abind (run_hw ''power_cap'' (hp_power_capability (ev_hw env))) (\<lambda>c. aret (Inr c))) (\<lambda>e. aret (Inl e))) (\<lambda>pre.
     case pre of
       Inl e \<Rightarrow> abind sequence (\<lambda>n. aret (op_failed ''power_preflight_failed'' (exn_str e) n []))
     | Inr cap \<Rightarrow>
       if \<not> writable cap then unavailable ''power_unavailable'' (cap_message cap) ''Power profile control unavailable''
       else
       abind config (\<lambda>st.
       abind (alift (case map_of (pw_profiles (st_power st)) name of None \<Rightarrow> Inl (KeyError name) | Some p \<Rightarrow> Inr p)) (\<lambda>profile.
       let df = power_definition profile in
       abind (atry (abind (run_hw ''power_apply'' (hp_apply_power (ev_hw env) name df)) (\<lambda>r. aret (Inr r))) (\<lambda>e. aret (Inl e))) (\<lambda>app.
       case app of
         Inl e \<Rightarrow> abind (refresh_power env) (\<lambda>_. abind sequence (\<lambda>n.
            aret (op_failed ''power_apply_failed'' (exn_str e) n [])))
       | Inr result \<Rightarrow>
         if py_truthy (dget result ''error'' PNone)
         then abind (refresh_power env) (\<lambda>_. abind sequence (\<lambda>n.
              aret (op_failed ''power_apply_failed'' (pv_str env (dget result ''error'' PNone)) n result)))
         else if all_checks (power_checks result)
         then power_applied env name df result persist_desired
         else abind (refresh_power env) (\<lambda>_. abind sequence (\<lambda>n.
              aret (op_partial ''power_partial_apply'' (partial_message (power_checks result)) False False n result)))))))"

definition set_power_profile :: "'w app_env \<Rightarrow> string \<Rightarrow> ('w, operation_result) act" where
  "set_power_profile env profile = serialized
     (abind config (\<lambda>st.
      abind (alift (validate_power_profile profile (Some (map fst (pw_profiles (st_power st)))))) (\<lambda>name.
      apply_power_profile env name True)))"

section \<open>Reconciliation\<close>

definition power_reconcile_target :: "'w app \<Rightarrow> string" where
  "power_reconcile_target s =
     (let pst = st_power (cs_state (ap_config s)); auto = pw_auto_switch pst in
      case ps_ac_online (ss_power (sn_snapshot (ap_snaps s))) of
        Some ac \<Rightarrow> if as_enabled auto then (if ac then as_on_ac auto else as_on_battery auto) else pw_profile pst
      | None \<Rightarrow> pw_profile pst)"

definition power_writable :: "'w app \<Rightarrow> bool" where
  "power_writable s = (case map_of (ss_capabilities (sn_snapshot (ap_snaps s))) ''power'' of
     None \<Rightarrow> False | Some cap \<Rightarrow> writable cap)"

definition reconcile_power_profile :: "'w app_env \<Rightarrow> string option \<Rightarrow> ('w, operation_result option) act" where
  "reconcile_power_profile env desired_arg =
     abind (aget (\<lambda>s. (or_default (case desired_arg of None \<Rightarrow> [] | Some d \<Rightarrow> d) (pw_profile (st_power (cs_state (ap_config s)))),
                       power_writable s, ps_applied_profile (ss_power (sn_snapshot (ap_snaps s))))))
       (\<lambda>(desired, ok, applied).
     if desired = [] \<or> \<not> ok \<or> applied = desired then aret None
     else atry (abind (apply_power_profile env desired False) (\<lambda>r. aret (Some r)))
            (\<lambda>e. abind sequence (\<lambda>n. aret (Some (op_failed ''power_reconcile_failed'' (exn_str e) n [])))))"

section \<open>The profile registry\<close>

definition set_auto_switch :: "'w app_env \<Rightarrow> bool \<Rightarrow> ('w, operation_result) act" where
  "set_auto_switch env enabled = serialized
     (abind (config_update env (\<lambda>s. s\<lparr>st_power := (st_power s)\<lparr>pw_auto_switch :=
        (pw_auto_switch (st_power s))\<lparr>as_enabled := enabled\<rparr>\<rparr>\<rparr>)) (\<lambda>_.
      abind (sup_start env ''auto_switch'') (\<lambda>_.
      abind (refresh_power env) (\<lambda>_.
      abind sequence (\<lambda>n.
      aret (op_success (''Auto-switch '' @ (if enabled then ''enabled'' else ''disabled'')) True True False n []))))))"

definition save_profile_state :: "string \<Rightarrow> power_profile_state \<Rightarrow> service_state \<Rightarrow> service_state" where
  "save_profile_state name p s = s\<lparr>st_power := (st_power s)\<lparr>pw_profiles := AList.update name p (pw_profiles (st_power s))\<rparr>\<rparr>"

definition save_power_profile :: "'w app_env \<Rightarrow> string \<Rightarrow> string \<Rightarrow> string \<Rightarrow> int \<Rightarrow> int \<Rightarrow> string \<Rightarrow> string \<Rightarrow>
    string \<Rightarrow> bool \<Rightarrow> int \<Rightarrow> ('w, operation_result) act" where
  "save_power_profile env name label description pl1 pl2 governor epp ppd turbo pct = serialized
     (abind (alift (validate_profile_name name)) (\<lambda>profile_name.
      let p = \<lparr>pp_label = py_strip label, pp_description = py_strip description, pp_pl1_uw = pl1, pp_pl2_uw = pl2,
               pp_governor = py_strip governor, pp_epp = py_strip epp, pp_ppd_profile = py_strip ppd,
               pp_turbo_enabled = turbo, pp_max_perf_pct = pct\<rparr> in
      abind snap (\<lambda>sn.
      let active = (ps_applied_profile (ss_power sn) = profile_name) in
      abind (config_update env (save_profile_state profile_name p)) (\<lambda>_.
      abind (if active then abind (apply_power_profile env profile_name False) (\<lambda>r. aret (Some r)) else aret None) (\<lambda>result.
      abind (refresh_power env) (\<lambda>_.
      abind sequence (\<lambda>n.
      aret (case result of
          Some r \<Rightarrow>
            if \<not> res_applied r
            then op_partial ''power_profile_saved_not_applied''
                   (''Profile '' @ quoted profile_name @ '' was saved but not applied'') True False n
                   [(''apply_result'', PDict (result_to_dict r))]
            else op_success (''Profile '' @ quoted profile_name @ '' saved and applied'') True True True n []
        | None \<Rightarrow> op_success (''Profile '' @ quoted profile_name @ '' saved'') True True False n []))))))))"

definition delete_profile_state :: "string \<Rightarrow> service_state \<Rightarrow> service_state" where
  "delete_profile_state name s = s\<lparr>
     st_power := (st_power s)\<lparr>pw_profiles := filter (\<lambda>(k, v). k \<noteq> name) (pw_profiles (st_power s))\<rparr>,
     st_fan := (st_fan s)\<lparr>fn_curves := filter (\<lambda>(k, v). k \<noteq> name) (fn_curves (st_fan s))\<rparr>\<rparr>"

definition deletable :: "power_state \<Rightarrow> string \<Rightarrow> exn + unit" where
  "deletable pst name =
     (if name \<in> set POWER_PROFILE_NAMES
      then invalid ''The Silent, Balanced, and Performance defaults cannot be deleted''
      else if name \<in> {pw_profile pst, as_on_ac (pw_auto_switch pst), as_on_battery (pw_auto_switch pst)}
      then Inl (DomainException DE_BUSY (''Profile '' @ quoted name @ '' is selected by current or automatic policy''))
      else Inr ())"

definition delete_power_profile :: "'w app_env \<Rightarrow> string \<Rightarrow> ('w, operation_result) act" where
  "delete_power_profile env name = serialized
     (abind config (\<lambda>st.
      abind (alift (validate_power_profile name (Some (map fst (pw_profiles (st_power st)))))) (\<lambda>profile_name.
      abind (alift (deletable (st_power st) profile_name)) (\<lambda>_.
      abind (config_update env (delete_profile_state profile_name)) (\<lambda>_.
      abind (refresh_power env) (\<lambda>_.
      abind (refresh_fan env) (\<lambda>_.
      abind sequence (\<lambda>n.
      aret (op_success (''Profile '' @ quoted profile_name @ '' deleted'') True True False n [])))))))))"

section \<open>Transition hooks\<close>

text \<open>\<open>shlex.split(command, posix=True)\<close>: the lexer with white-space splitting and no comments. An escape
  remembers whether it is inside a double-quoted part.\<close>

datatype lex_state = L_space | L_word | L_quote char | L_escape "char option"

definition shlex_space :: "char \<Rightarrow> bool" where
  "shlex_space c = (c \<in> {CHR '' '', CHR 0x09, CHR 0x0D, CHR 0x0A})"

definition shlex_quote :: "char \<Rightarrow> bool" where
  "shlex_quote c = (c \<in> {CHR 0x27, CHR 0x22})"

fun shlex :: "lex_state \<Rightarrow> string \<Rightarrow> string \<Rightarrow> exn + string list" where
  "shlex L_space tok [] = Inr []"
| "shlex L_word tok [] = Inr [tok]"
| "shlex (L_quote q) tok [] = Inl (ValueError ''No closing quotation'')"
| "shlex (L_escape e) tok [] = Inl (ValueError ''No escaped character'')"
| "shlex L_space tok (c # r) =
     (if shlex_space c then shlex L_space [] r
      else if c = CHR 0x5C then shlex (L_escape None) [] r
      else if shlex_quote c then shlex (L_quote c) [] r
      else shlex L_word [c] r)"
| "shlex L_word tok (c # r) =
     (if shlex_space c then rbind (shlex L_space [] r) (\<lambda>ts. Inr (tok # ts))
      else if shlex_quote c then shlex (L_quote c) tok r
      else if c = CHR 0x5C then shlex (L_escape None) tok r
      else shlex L_word (tok @ [c]) r)"
| "shlex (L_quote q) tok (c # r) =
     (if c = q then shlex L_word tok r
      else if c = CHR 0x5C \<and> q = CHR 0x22 then shlex (L_escape (Some q)) tok r
      else shlex (L_quote q) (tok @ [c]) r)"
| "shlex (L_escape e) tok (c # r) =
     (case e of
        None \<Rightarrow> shlex L_word (tok @ [c]) r
      | Some q \<Rightarrow> shlex (L_quote q) (if c \<noteq> CHR 0x5C \<and> c \<noteq> q then tok @ [CHR 0x5C, c] else tok @ [c]) r)"

definition shlex_split :: "string \<Rightarrow> exn + string list" where
  "shlex_split command = shlex L_space [] command"

text \<open>Root owns the path, and neither group nor others may write it (\<open>S_IWGRP | S_IWOTH\<close>).\<close>

definition path_protected :: "int \<times> nat \<Rightarrow> bool" where
  "path_protected m = (fst m = 0 \<and> \<not> bit (snd m) 4 \<and> \<not> bit (snd m) 1)"

definition check_script_path :: "script_fs \<Rightarrow> string \<Rightarrow> exn + unit" where
  "check_script_path fs path = rbind (sfs_stat fs path) (\<lambda>m.
     if path_protected m then Inr ()
     else invalid (''Script and every parent directory must be root-owned and not group/world-writable: '' @ path))"

definition validate_script_command :: "script_fs \<Rightarrow> string \<Rightarrow> exn + string list" where
  "validate_script_command fs command =
     (if length command > 1024 \<or> CHR 0x00 \<in> set command then invalid ''Invalid script command''
      else if py_strip command = [] then Inr []
      else
      rbind (case shlex_split command of
               Inl e \<Rightarrow> invalid (''Invalid script arguments: '' @ exn_str e) | Inr argv \<Rightarrow> Inr argv) (\<lambda>argv.
      if argv = [] \<or> length argv > 32 then invalid ''Script must contain 1-32 arguments''
      else if \<not> (case hd argv of [] \<Rightarrow> False | c # _ \<Rightarrow> c = CHR ''/'')
      then invalid ''Auto-switch script executable must use an absolute path''
      else if \<not> sfs_is_file fs (hd argv) \<or> \<not> sfs_executable fs (hd argv)
      then invalid (''Script executable is missing or not executable: '' @ hd argv)
      else
      rbind (rall (check_script_path fs) (sfs_resolve fs (hd argv))) (\<lambda>_.
      Inr (hd (sfs_resolve fs (hd argv)) # tl argv))))"

definition configure_auto_switch :: "'w app_env \<Rightarrow> bool \<Rightarrow> string \<Rightarrow> string \<Rightarrow> string \<Rightarrow> string \<Rightarrow> ('w, operation_result) act" where
  "configure_auto_switch env enabled on_ac on_battery on_ac_script on_battery_script = serialized
     (abind config (\<lambda>st.
      let names = Some (map fst (pw_profiles (st_power st))) in
      abind (alift (validate_power_profile on_ac names)) (\<lambda>ac_profile.
      abind (alift (validate_power_profile on_battery names)) (\<lambda>battery_profile.
      abind (aworld (ev_script_fs env)) (\<lambda>fs.
      abind (alift (validate_script_command fs on_ac_script)) (\<lambda>_.
      abind (aworld (ev_script_fs env)) (\<lambda>fs2.
      abind (alift (validate_script_command fs2 on_battery_script)) (\<lambda>_.
      abind (config_update env (\<lambda>s. s\<lparr>st_power := (st_power s)\<lparr>pw_auto_switch :=
         \<lparr>as_enabled = enabled, as_on_ac = ac_profile, as_on_battery = battery_profile,
          as_on_ac_script = py_strip on_ac_script, as_on_battery_script = py_strip on_battery_script\<rparr>\<rparr>\<rparr>)) (\<lambda>_.
      abind (sup_start env ''auto_switch'') (\<lambda>_.
      abind (refresh_power env) (\<lambda>_.
      abind sequence (\<lambda>n.
      aret (op_success ''Automatic switching configuration saved'' True True False n [])))))))))))))"

text \<open>The hook's environment is the transition and the profile; the process group is killed at the deadline.\<close>

definition run_transition_script :: "'w app_env \<Rightarrow> string \<Rightarrow> string \<Rightarrow> string \<Rightarrow> ('w, string) act" where
  "run_transition_script env command transition profile =
     (if py_strip command = [] then aret (''No '' @ transition @ '' script configured'')
      else atry
        (abind (aworld (ev_script_fs env)) (\<lambda>fs.
         abind (alift (validate_script_command fs command)) (\<lambda>argv.
         abind (aworld (ev_run_script env argv transition profile)) (\<lambda>en.
         case en of
           SE_exit code \<Rightarrow>
             aret (if code = 0 then transition @ '' script completed''
                   else transition @ '' script failed ('' @ int_str code @ '')'')
         | SE_timeout \<Rightarrow> aret (transition @ '' script timed out'')
         | SE_raise e \<Rightarrow> araise e))))
        (\<lambda>e. aret (transition @ '' script error: '' @ exn_str e)))"

section \<open>Automatic switching\<close>

definition AUTO_SWITCH_POLL_SECONDS :: int where "AUTO_SWITCH_POLL_SECONDS = 2"
definition AUTO_SWITCH_MAX_RETRY_SECONDS :: int where "AUTO_SWITCH_MAX_RETRY_SECONDS = 60"

type_synonym switch_policy = "string \<times> string \<times> string \<times> string"

text \<open>What \<open>_auto_switch_loop\<close> keeps between iterations.\<close>

record auto_loop =
  al_last_ac :: "bool option"
  al_last_policy :: "switch_policy option"
  al_failed_key :: "(bool \<times> switch_policy) option"
  al_failures :: int
  al_retry_at :: int

definition auto_loop_init :: auto_loop where
  "auto_loop_init = \<lparr>al_last_ac = None, al_last_policy = None, al_failed_key = None, al_failures = 0, al_retry_at = 0\<rparr>"

definition switch_policy :: "auto_switch_state \<Rightarrow> switch_policy" where
  "switch_policy a = (as_on_ac a, as_on_battery a, as_on_ac_script a, as_on_battery_script a)"

text \<open>Seconds to wait after the given number of consecutive failures.\<close>

definition retry_delay :: "int \<Rightarrow> int" where
  "retry_delay n = min AUTO_SWITCH_MAX_RETRY_SECONDS (AUTO_SWITCH_POLL_SECONDS * 2 ^ nat (min (n - 1) 10))"

text \<open>A profile that could not be applied: the next attempt for the same source and policy is delayed.\<close>

definition switch_failed :: "'w app_env \<Rightarrow> bool \<times> switch_policy \<Rightarrow> auto_loop \<Rightarrow> ('w, auto_loop) act" where
  "switch_failed env key lp =
     (let n = (if al_failed_key lp = Some key then al_failures lp + 1 else 1) in
      abind (aworld (ev_monotonic env)) (\<lambda>now.
      aret (lp\<lparr>al_failed_key := Some key, al_failures := n, al_retry_at := now + retry_delay n * 1000000\<rparr>)))"

definition switch_applied :: "'w app_env \<Rightarrow> bool \<Rightarrow> auto_switch_state \<Rightarrow> auto_loop \<Rightarrow> ('w, auto_loop) act" where
  "switch_applied env ac a lp =
     abind (run_transition_script env (if ac then as_on_ac_script a else as_on_battery_script a)
              (if ac then ''ac'' else ''battery'') (if ac then as_on_ac a else as_on_battery a)) (\<lambda>status.
     abind (amodify (\<lambda>s. s\<lparr>ap_script_status := status\<rparr>)) (\<lambda>_.
     abind (refresh_power env) (\<lambda>_.
     aret (lp\<lparr>al_last_ac := Some ac, al_last_policy := Some (switch_policy a), al_failed_key := None, al_failures := 0\<rparr>))))"

text \<open>Under the mutation lock, then the hook.\<close>

definition switch_profile :: "'w app_env \<Rightarrow> bool \<Rightarrow> bool \<times> switch_policy \<Rightarrow> auto_loop \<Rightarrow> ('w, auto_loop) act" where
  "switch_profile env ac key lp =
     abind (aget (\<lambda>s. (ap_closing s \<or> ap_restore_pending s, st_power (cs_state (ap_config s))))) (\<lambda>(held, pst).
     let a = pw_auto_switch pst in
     if held then aret lp
     else if \<not> as_enabled a then aret (lp\<lparr>al_last_ac := None, al_last_policy := None\<rparr>)
     else
     abind (alift (validate_power_profile (if ac then as_on_ac a else as_on_battery a) (Some (map fst (pw_profiles pst))))) (\<lambda>name.
     abind (apply_power_profile env name False) (\<lambda>result.
     if res_applied result then switch_applied env ac a lp else switch_failed env key lp)))"

text \<open>One iteration after its sleep; \<open>other\<close> is what other coroutines do while the loop waits for the lock.\<close>

definition auto_switch_iteration :: "'w app_env \<Rightarrow> ('w app \<Rightarrow> 'w app) \<Rightarrow> auto_loop \<Rightarrow> ('w, auto_loop) act" where
  "auto_switch_iteration env other lp =
     abind config (\<lambda>st.
     let a = pw_auto_switch (st_power st) in
     if \<not> as_enabled a
     then aret (lp\<lparr>al_last_ac := None, al_last_policy := None, al_failed_key := None, al_failures := 0\<rparr>)
     else
     abind (refresh_power env) (\<lambda>_.
     abind snap (\<lambda>sn.
     case ps_ac_online (ss_power sn) of
       None \<Rightarrow> aret lp
     | Some ac \<Rightarrow>
         let key = (ac, switch_policy a) in
         if al_last_ac lp = Some ac \<and> al_last_policy lp = Some (switch_policy a) then aret lp
         else
         abind (if al_failed_key lp = Some key
                then abind (aworld (ev_monotonic env)) (\<lambda>now. aret (now < al_retry_at lp)) else aret False) (\<lambda>waiting.
         if waiting then aret lp
         else abind (amodify other) (\<lambda>_. switch_profile env ac key lp)))))"

section \<open>The invariant\<close>

lemma keeps_case_script [keeps_intro]:
  "(\<And>c. v = SE_exit c \<Longrightarrow> keeps I (f c)) \<Longrightarrow> (v = SE_timeout \<Longrightarrow> keeps I g) \<Longrightarrow> (\<And>e. v = SE_raise e \<Longrightarrow> keeps I (h e)) \<Longrightarrow>
     keeps I (case v of SE_exit c \<Rightarrow> f c | SE_timeout \<Rightarrow> g | SE_raise e \<Rightarrow> h e)"
  by (cases v) auto

context service_invariant
begin

lemma keeps_refresh_battery [keeps_intro]: "keeps I (refresh_battery env)"
  unfolding refresh_battery_def by (intro keeps_intro)

lemma keeps_refresh_power [keeps_intro]: "keeps I (refresh_power env)"
  unfolding refresh_power_def by (intro keeps_intro)

lemma keeps_battery [keeps_intro]:
  "keeps I (battery_applied env e s r)" "keeps I (battery_rollback env old r)"
  unfolding battery_applied_def battery_rollback_def by (intro keeps_intro)+

lemma keeps_set_battery [keeps_intro]: "keeps I (set_battery_thresholds env e s)"
  unfolding set_battery_thresholds_def by (intro keeps_intro)

lemma keeps_set_battery_mode [keeps_intro]: "keeps I (set_battery_mode env m)"
  unfolding set_battery_mode_def by (intro keeps_intro)

lemma keeps_power_observe [keeps_intro]: "keeps I (power_observe env n d r p)"
  unfolding power_observe_def by (intro keeps_intro)

lemma keeps_power_applied [keeps_intro]: "keeps I (power_applied env n d r p)"
  unfolding power_applied_def by (intro keeps_intro)

lemma keeps_apply_power_profile [keeps_intro]: "keeps I (apply_power_profile env n p)"
  unfolding apply_power_profile_def by (intro keeps_intro)

lemma keeps_set_power_profile [keeps_intro]: "keeps I (set_power_profile env n)"
  unfolding set_power_profile_def by (intro keeps_intro)

lemma keeps_reconcile [keeps_intro]: "keeps I (reconcile_power_profile env d)"
  unfolding reconcile_power_profile_def by (intro keeps_intro)

lemma keeps_set_auto_switch [keeps_intro]: "keeps I (set_auto_switch env b)"
  unfolding set_auto_switch_def by (intro keeps_intro)

lemma keeps_save_profile [keeps_intro]: "keeps I (save_power_profile env n l d p1 p2 g e pp tb pct)"
  unfolding save_power_profile_def by (intro keeps_intro)

lemma keeps_delete_profile [keeps_intro]: "keeps I (delete_power_profile env n)"
  unfolding delete_power_profile_def by (intro keeps_intro)

lemma keeps_configure_auto [keeps_intro]: "keeps I (configure_auto_switch env b a1 a2 s1 s2)"
  unfolding configure_auto_switch_def by (intro keeps_intro)

lemma keeps_run_script [keeps_intro]: "keeps I (run_transition_script env c t p)"
  unfolding run_transition_script_def by (intro keeps_intro)

lemma keeps_switch [keeps_intro]: "keeps I (switch_profile env ac key lp)"
  unfolding switch_profile_def switch_applied_def switch_failed_def by (intro keeps_intro keeps_amodify) simp_all

lemma keeps_auto_switch_iteration:
  assumes "\<And>s. I s \<Longrightarrow> I (other s)"
  shows "keeps I (auto_switch_iteration env other lp)"
  unfolding auto_switch_iteration_def by (intro keeps_intro keeps_amodify) (simp add: assms)

end

end
