(* ===== verification/App_Gestures.thy ===== *)
theory App_Gestures
  imports App_Power
begin

text \<open>
  Gestures and touchpad firmware of \<^verbatim>\<open>honor_control/backend/application.py\<close>: the rows published for the gestures,
  the capability and the refresh of the domain, the mapping and daemon use cases, and firmware settings with their
  partial writes. The gesture runtime is seen through its probe and status.
\<close>

section \<open>Published rows\<close>

text \<open>\<open>{entry.id: entry for entry in entries}\<close>\<close>

definition entries_by_id :: "gesture_entry list \<Rightarrow> gesture_entry dict" where
  "entries_by_id es = foldl (\<lambda>d e. AList.update (ge_id e) e d) [] es"

definition gesture_row :: "gesture_mapping_state dict \<Rightarrow> gesture_entry dict \<Rightarrow> string \<Rightarrow> gesture_entry" where
  "gesture_row desired base gid =
     (let saved = map_of desired gid; fallback = map_of base gid;
          dflt = dget DEFAULT_GESTURE_MAPPINGS gid (case fallback of None \<Rightarrow> [] | Some f \<Rightarrow> ge_default_mapping f) in
      \<lparr>ge_id = gid,
       ge_label = dget GESTURE_NAMES gid (case fallback of None \<Rightarrow> ''Custom gesture '' @ gid | Some f \<Rightarrow> ge_label f),
       ge_enabled = (case saved of Some m \<Rightarrow> gm_enabled m
                     | None \<Rightarrow> (case fallback of Some f \<Rightarrow> ge_enabled f | None \<Rightarrow> True)),
       ge_mapping = (case saved of
            Some m \<Rightarrow> if gm_mapping m \<noteq> [] then gm_mapping m
                      else (case fallback of Some f \<Rightarrow> or_default (ge_mapping f) dflt | None \<Rightarrow> dflt)
          | None \<Rightarrow> (case fallback of Some f \<Rightarrow> or_default (ge_mapping f) dflt | None \<Rightarrow> dflt)),
       ge_default_mapping = dflt, ge_error = []\<rparr>)"

definition gesture_entries :: "gesture_mapping_state dict \<Rightarrow> gesture_entry list \<Rightarrow> gesture_entry list" where
  "gesture_entries desired base_entries =
     (let base = entries_by_id base_entries in
      map (gesture_row desired base) (fromkeys (map fst DEFAULT_GESTURE_MAPPINGS @ map fst base @ map fst desired)))"

definition gesture_capability :: "gesture_probe \<Rightarrow> capability" where
  "gesture_capability probe =
     (let resources = filter (\<lambda>p. p \<noteq> []) [gpr_device_path probe, ''/dev/uinput''] in
      if gpr_available probe
      then \<lparr>cap_status = CS_SUPPORTED, cap_reason_code = [],
            cap_message = ''HID gesture reports can be dispatched through uinput'', cap_resources = resources\<rparr>
      else \<lparr>cap_status = CS_UNAVAILABLE,
            cap_reason_code = (if gpr_permission_denied probe then ''gesture_device_permission_denied''
              else if \<not> gpr_device_found probe then ''gesture_hidraw_missing''
              else if \<not> gpr_uinput_found probe then ''uinput_missing'' else ''gesture_runtime_unavailable''),
            cap_message = gpr_error probe, cap_resources = resources\<rparr>)"

definition runtime_gestures :: "service_state \<Rightarrow> gesture_probe \<Rightarrow> touchpad_probe \<Rightarrow> gesture_status \<Rightarrow> bool \<Rightarrow> gestures_snapshot" where
  "runtime_gestures st probe firmware status wmi =
     \<lparr>gs_available = gpr_available probe, gs_daemon_enabled = gt_daemon_enabled (st_gestures st),
      gs_daemon_running = gst_running status,
      gs_device_found = (gst_device_found status \<or> gpr_device_found probe),
      gs_permission_denied = (gst_permission_denied status \<or> gpr_permission_denied probe),
      gs_device_path = or_default (gst_device_path status) (gpr_device_path probe),
      gs_reports_seen = gst_reports_seen status, gs_gestures_emitted = gst_gestures_emitted status,
      gs_mappings = gesture_entries (gt_mappings (st_gestures st)) [],
      gs_wmi_transport_present = wmi, gs_firmware_settings_supported = tpr_available firmware,
      gs_firmware_settings = tp_settings (st_touchpad st),
      gs_last_error = or_default (gst_last_error status) (gpr_error probe)\<rparr>"

definition refresh_gestures :: "'w app_env \<Rightarrow> ('w, unit) act" where
  "refresh_gestures env =
     atry
       (abind (aget ap_has_gestures) (\<lambda>has.
        if has
        then abind (aworld (ev_gesture_probe env)) (\<lambda>probe.
             abind (run_hw ''touchpad_probe'' (hp_probe_touchpad (ev_hw env))) (\<lambda>firmware.
             abind (aworld (ev_gesture_status env)) (\<lambda>status.
             abind (aworld (ev_wmi_present env)) (\<lambda>wmi.
             abind config (\<lambda>st.
             publish_domain env (DV_gestures (runtime_gestures st probe firmware status wmi)))))))
        else abind (run_hw ''ges_read'' (hp_read_gestures (ev_hw env))) (\<lambda>ges.
             abind (run_hw ''ges_mappings'' (hp_list_gesture_mappings (ev_hw env))) (\<lambda>entries.
             abind config (\<lambda>st.
             publish_domain env (DV_gestures (ges\<lparr>gs_daemon_enabled := gt_daemon_enabled (st_gestures st),
               gs_mappings := gesture_entries (gt_mappings (st_gestures st)) entries,
               gs_firmware_settings := tp_settings (st_touchpad st)\<rparr>)))))))
       (\<lambda>e. publish_stale env ''gestures'' e)"

section \<open>The gesture runtime\<close>

definition gesture_running :: "'w app_env \<Rightarrow> ('w, bool) act" where
  "gesture_running env = abind (aget ap_has_gestures) (\<lambda>has.
     if has then abind (aworld (ev_gesture_status env)) (\<lambda>st. aret (gst_running st)) else aret False)"

text \<open>A started runtime sets up its devices before the next snapshot, a stopped one releases them.\<close>

definition switch_runtime :: "'w app_env \<Rightarrow> bool \<Rightarrow> ('w, unit) act" where
  "switch_runtime env on =
     (if on then abind (sup_start env ''gesture_daemon'') (\<lambda>_.
                 amodify (\<lambda>s. s\<lparr>ap_world := ev_gesture_switch env True (ap_world s)\<rparr>))
      else abind (sup_stop env ''gesture_daemon'' (aret True)) (\<lambda>_.
           amodify (\<lambda>s. s\<lparr>ap_world := ev_gesture_switch env False (ap_world s)\<rparr>)))"

definition reconcile_gesture_runtime :: "'w app_env \<Rightarrow> ('w, unit) act" where
  "reconcile_gesture_runtime env =
     abind (aget (\<lambda>s. (ap_has_gestures s, gt_daemon_enabled (st_gestures (cs_state (ap_config s)))))) (\<lambda>(has, enabled).
     if has then switch_runtime env enabled else aret ())"

section \<open>Use cases\<close>

definition set_mappings :: "(gesture_mapping_state dict \<Rightarrow> gesture_mapping_state dict) \<Rightarrow> service_state \<Rightarrow> service_state" where
  "set_mappings f s = s\<lparr>st_gestures := (st_gestures s)\<lparr>gt_mappings := f (gt_mappings (st_gestures s))\<rparr>\<rparr>"

text \<open>The end the three mapping use cases share.\<close>

definition gestures_saved :: "'w app_env \<Rightarrow> string \<Rightarrow> ('w, operation_result) act" where
  "gestures_saved env msg =
     abind (refresh_gestures env) (\<lambda>_.
     abind (gesture_running env) (\<lambda>running.
     abind sequence (\<lambda>n.
     aret (op_success msg True True running n []))))"

definition set_gesture_mapping :: "'w app_env \<Rightarrow> string \<Rightarrow> pv \<Rightarrow> ('w, operation_result) act" where
  "set_gesture_mapping env gesture_id combo = serialized
     (abind (alift (validate_gesture_id gesture_id)) (\<lambda>gid.
      abind (alift (validate_key_combo combo)) (\<lambda>tokens.
      abind (config_update env (set_mappings (\<lambda>m.
         AList.update gid \<lparr>gm_enabled = gm_enabled (dget m gid gesture_mapping_default), gm_mapping = py_join CHR '','' tokens\<rparr> m))) (\<lambda>_.
      gestures_saved env (''Mapping for '' @ quoted gid @ '' updated'')))))"

definition set_gesture_enabled :: "'w app_env \<Rightarrow> string \<Rightarrow> bool \<Rightarrow> ('w, operation_result) act" where
  "set_gesture_enabled env gesture_id enabled = serialized
     (abind (alift (validate_gesture_id gesture_id)) (\<lambda>gid.
      abind config (\<lambda>st.
      if map_of DEFAULT_GESTURE_MAPPINGS gid = None \<and> map_of (gt_mappings (st_gestures st)) gid = None
      then araise (DomainException DE_INVALID_ARGUMENT (''Unknown gesture ID '' @ quoted gid @ ''; set its mapping first''))
      else
      abind (config_update env (set_mappings (\<lambda>m.
         AList.update gid \<lparr>gm_enabled = enabled, gm_mapping = gm_mapping (dget m gid gesture_mapping_default)\<rparr> m))) (\<lambda>_.
      gestures_saved env (''Gesture '' @ quoted gid @ '' '' @ (if enabled then ''enabled'' else ''disabled''))))))"

definition enable_all :: "bool \<Rightarrow> gesture_mapping_state dict \<Rightarrow> gesture_mapping_state dict" where
  "enable_all enabled m =
     map (\<lambda>gid. (gid, \<lparr>gm_enabled = enabled, gm_mapping = gm_mapping (dget m gid gesture_mapping_default)\<rparr>))
       (fromkeys (map fst DEFAULT_GESTURE_MAPPINGS @ map fst m))"

definition set_all_gestures_enabled :: "'w app_env \<Rightarrow> bool \<Rightarrow> ('w, operation_result) act" where
  "set_all_gestures_enabled env enabled = serialized
     (abind (config_update env (set_mappings (enable_all enabled))) (\<lambda>_.
      gestures_saved env (''All gestures '' @ (if enabled then ''enabled'' else ''disabled''))))"

definition set_gesture_daemon_enabled :: "'w app_env \<Rightarrow> bool \<Rightarrow> ('w, operation_result) act" where
  "set_gesture_daemon_enabled env enabled = serialized
     (abind (aget ap_has_gestures) (\<lambda>has.
      if \<not> has
      then unavailable ''gesture_runtime_unavailable'' ''Gesture runtime is not configured in this service mode'' []
      else
      abind (config_update env (\<lambda>s. s\<lparr>st_gestures := (st_gestures s)\<lparr>gt_daemon_enabled := enabled\<rparr>\<rparr>)) (\<lambda>_.
      abind (reconcile_gesture_runtime env) (\<lambda>_.
      abind (refresh_gestures env) (\<lambda>_.
      abind (aworld (ev_gesture_status env)) (\<lambda>status.
      if enabled \<and> \<not> gst_running status
      then abind (aworld (ev_gesture_probe env)) (\<lambda>probe.
           abind sequence (\<lambda>n.
           aret (op_partial ''gesture_runtime_not_ready'' (or_default (gpr_error probe) (gst_last_error status))
             True False n [(''device_path'', PStr (gpr_device_path probe))])))
      else abind sequence (\<lambda>n.
           aret (op_success (''Gesture daemon '' @ (if enabled then ''enabled'' else ''disabled'')) True True True n []))))))))"

section \<open>Touchpad firmware\<close>

definition probe_touchpad_firmware :: "'w app_env \<Rightarrow> ('w, pv dict) act" where
  "probe_touchpad_firmware env =
     abind (run_hw ''touchpad_probe'' (hp_probe_touchpad (ev_hw env))) (\<lambda>p.
     aret [(''available'', PBool (tpr_available p)), (''platform_verified'', PBool (tpr_platform_verified p)),
           (''dmi_vendor'', PStr (tpr_dmi_vendor p)), (''dmi_product'', PStr (tpr_dmi_product p)),
           (''device_found'', PBool (tpr_device_found p)), (''permission_denied'', PBool (tpr_permission_denied p)),
           (''descriptor_verified'', PBool (tpr_descriptor_verified p)), (''device_path'', PStr (tpr_device_path p)),
           (''report_id'', PInt (case tpr_report_id p of None \<Rightarrow> -1 | Some i \<Rightarrow> i)),
           (''input_report_bytes'', PInt (tpr_input_report_bytes p)),
           (''output_report_bytes'', PInt (tpr_output_report_bytes p)), (''error'', PStr (tpr_error p))])"

fun normalize_settings :: "pv dict \<Rightarrow> int dict \<Rightarrow> exn + int dict" where
  "normalize_settings [] nz = Inr nz"
| "normalize_settings ((name, v) # r) nz =
     rbind (parse_touchpad_setting (SA_str name)) (\<lambda>canonical.
     if map_of nz (setting_str canonical) \<noteq> None
     then Inl (ValueError (''duplicate touchpad setting '' @ quoted (setting_str canonical)))
     else rbind (parse_touchpad_value (SA_setting canonical) v) (\<lambda>n.
          normalize_settings r (AList.update (setting_str canonical) n nz)))"

definition int_dict :: "int dict \<Rightarrow> pv" where
  "int_dict d = PDict (map (\<lambda>(k, v). (k, PInt v)) d)"

definition merge_settings :: "int dict \<Rightarrow> service_state \<Rightarrow> service_state" where
  "merge_settings d s = s\<lparr>st_touchpad := \<lparr>tp_settings = dict_merge (tp_settings (st_touchpad s)) d\<rparr>\<rparr>"

definition completed_settings :: "touchpad_apply_result list \<Rightarrow> int dict" where
  "completed_settings rs = foldl (\<lambda>d r. AList.update (setting_str (tar_setting r)) (tar_value r) d) [] rs"

definition try_update :: "'w app_env \<Rightarrow> (service_state \<Rightarrow> service_state) \<Rightarrow> ('w, exn option) act" where
  "try_update env f = atry (abind (config_update env f) (\<lambda>_. aret None)) (\<lambda>e. aret (Some e))"

text \<open>The firmware refused part of the profile: what it completed is saved.\<close>

definition touchpad_interrupted :: "'w app_env \<Rightarrow> string \<Rightarrow> string \<Rightarrow> nat \<Rightarrow> nat \<Rightarrow> touchpad_apply_result list \<Rightarrow> ('w, operation_result) act" where
  "touchpad_interrupted env msg path applied tot rs =
     (let done_settings = completed_settings rs;
          details = [(''device_path'', PStr path), (''reports_applied'', PInt (int applied)),
                     (''total_reports'', PInt (int tot)), (''completed_settings'', int_dict done_settings),
                     (''readback'', PStr ''unavailable'')] in
      if applied = 0
      then abind sequence (\<lambda>n. aret (op_failed ''touchpad_apply_failed'' msg n details))
      else
      abind (if done_settings = [] then aret (False, details)
             else abind (try_update env (merge_settings done_settings)) (\<lambda>failed.
                  aret (case failed of None \<Rightarrow> (True, details)
                        | Some e \<Rightarrow> (False, details @ [(''persistence_error'', PStr (exn_str e))])))) (\<lambda>(persisted, det).
      abind (refresh_gestures env) (\<lambda>_.
      abind sequence (\<lambda>n.
      aret (op_partial ''touchpad_partial_apply'' msg persisted False n det)))))"

definition touchpad_accepted :: "'w app_env \<Rightarrow> int dict \<Rightarrow> batch_apply_result \<Rightarrow> ('w, operation_result) act" where
  "touchpad_accepted env nz result =
     (let details = [(''device_path'', PStr (bar_device_path result)), (''settings'', int_dict nz),
                     (''reports_applied'', PInt (int (bar_reports_applied result))),
                     (''total_reports'', PInt (int (bar_total_reports result))),
                     (''clock_synchronized'', PBool (bar_clock_synchronized result)),
                     (''readback'', PStr ''unavailable'')] in
      abind (try_update env (merge_settings nz)) (\<lambda>failed.
      case failed of
        Some e \<Rightarrow> abind sequence (\<lambda>n.
           aret (op_partial ''touchpad_applied_not_persisted'' ''Touchpad settings were accepted but could not be saved''
             False True n (details @ [(''persistence_error'', PStr (exn_str e))])))
      | None \<Rightarrow>
           abind (refresh_gestures env) (\<lambda>_.
           abind sequence (\<lambda>n.
           aret (op_success (''Applied '' @ nat_str (length nz) @ '' touchpad setting(s)'') True True True n details)))))"

definition apply_touchpad_body :: "'w app_env \<Rightarrow> pv dict \<Rightarrow> ('w, operation_result) act" where
  "apply_touchpad_body env settings =
     (if settings = [] then araise (DomainException DE_INVALID_ARGUMENT ''Touchpad settings profile must be a non-empty dictionary'')
      else
      abind (alift (value_error_invalid (normalize_settings settings []))) (\<lambda>nz.
      abind (run_hw ''touchpad_probe'' (hp_probe_touchpad (ev_hw env))) (\<lambda>probe.
      if \<not> tpr_available probe
      then unavailable ''touchpad_firmware_unavailable'' (tpr_error probe) ''Touchpad firmware endpoint unavailable''
      else
      abind (atry (abind (run_hw ''touchpad_apply'' (hp_apply_touchpad (ev_hw env) nz)) (\<lambda>r. aret (Inr r))) (\<lambda>e. aret (Inl e))) (\<lambda>out.
      case out of
        Inr result \<Rightarrow> touchpad_accepted env nz result
      | Inl e \<Rightarrow>
          (case e of
             TouchpadFirmwareError msg path applied tot rs \<Rightarrow> touchpad_interrupted env msg path applied tot rs
           | _ \<Rightarrow> abind sequence (\<lambda>n. aret (op_failed ''touchpad_apply_failed'' (exn_str e) n [])))))))"

definition apply_touchpad_settings :: "'w app_env \<Rightarrow> pv dict \<Rightarrow> ('w, operation_result) act" where
  "apply_touchpad_settings env settings = serialized (apply_touchpad_body env settings)"

definition set_touchpad_setting :: "'w app_env \<Rightarrow> string \<Rightarrow> pv \<Rightarrow> ('w, operation_result) act" where
  "set_touchpad_setting env setting v = serialized (apply_touchpad_body env [(setting, v)])"

definition support_result :: "nat set \<Rightarrow> pv dict" where
  "support_result bits =
     [(''supported_bits'', PList (map (\<lambda>b. PInt (int b)) (sorted_list_of_set bits))),
      (''known'', PDict (map (\<lambda>b. (nat_str b, PStr (the (map_of SUPPORTED_GESTURE_BITS b))))
         (sorted_list_of_set (bits \<inter> set (map fst SUPPORTED_GESTURE_BITS))))),
      (''unknown_bits'', PList (map (\<lambda>b. PInt (int b)) (sorted_list_of_set (bits - set (map fst SUPPORTED_GESTURE_BITS)))))]"

definition query_touchpad_support :: "'w app_env \<Rightarrow> ('w, pv dict) act" where
  "query_touchpad_support env = serialized
     (abind (aget (\<lambda>s. (ap_has_gestures s, ap_has_gestures s \<and> gt_daemon_enabled (st_gestures (cs_state (ap_config s)))))) (\<lambda>(has, restart).
      abind (if has then switch_runtime env False else aret ()) (\<lambda>_.
      abind (afinally (run_hw ''touchpad_support'' (hp_query_touchpad_support (ev_hw env)))
               (abind (if restart then switch_runtime env True else aret ()) (\<lambda>_. refresh_gestures env))) (\<lambda>bits.
      aret (support_result bits)))))"

section \<open>The invariant\<close>

lemma keeps_case_exn [keeps_intro]:
  "(\<And>m p a t c. v = TouchpadFirmwareError m p a t c \<Longrightarrow> keeps I (f m p a t c)) \<Longrightarrow> keeps I g \<Longrightarrow>
     keeps I (case v of TouchpadFirmwareError m p a t c \<Rightarrow> f m p a t c | _ \<Rightarrow> g)"
  by (cases v) auto

context service_invariant
begin

lemma keeps_refresh_gestures [keeps_intro]: "keeps I (refresh_gestures env)"
  unfolding refresh_gestures_def by (intro keeps_intro)

lemma keeps_gesture_running [keeps_intro]: "keeps I (gesture_running env)"
  unfolding gesture_running_def by (intro keeps_intro)

lemma keeps_switch_runtime [keeps_intro]: "keeps I (switch_runtime env b)"
  unfolding switch_runtime_def by (intro keeps_intro keeps_amodify) simp_all

lemma keeps_reconcile_gestures [keeps_intro]: "keeps I (reconcile_gesture_runtime env)"
  unfolding reconcile_gesture_runtime_def by (intro keeps_intro)

lemma keeps_gestures_saved [keeps_intro]: "keeps I (gestures_saved env m)"
  unfolding gestures_saved_def by (intro keeps_intro)

lemma keeps_gesture_use_cases [keeps_intro]:
  "keeps I (set_gesture_mapping env g c)" "keeps I (set_gesture_enabled env g b)"
  "keeps I (set_all_gestures_enabled env b)" "keeps I (set_gesture_daemon_enabled env b)"
  unfolding set_gesture_mapping_def set_gesture_enabled_def set_all_gestures_enabled_def set_gesture_daemon_enabled_def
  by (intro keeps_intro)+

lemma keeps_try_update [keeps_intro]: "keeps I (try_update env f)"
  unfolding try_update_def by (intro keeps_intro)

lemma keeps_touchpad_ends [keeps_intro]:
  "keeps I (touchpad_interrupted env m p a t rs)" "keeps I (touchpad_accepted env nz r)"
  unfolding touchpad_interrupted_def touchpad_accepted_def by (intro keeps_intro)+

lemma keeps_touchpad_body [keeps_intro]: "keeps I (apply_touchpad_body env ss)"
  unfolding apply_touchpad_body_def by (intro keeps_intro)

lemma keeps_touchpad_use_cases [keeps_intro]:
  "keeps I (apply_touchpad_settings env ss)" "keeps I (set_touchpad_setting env n v)"
  "keeps I (query_touchpad_support env)" "keeps I (probe_touchpad_firmware env)"
  unfolding apply_touchpad_settings_def set_touchpad_setting_def query_touchpad_support_def probe_touchpad_firmware_def
  by (intro keeps_intro)+

end

end
