(* ===== verification/App_Lifecycle.thy ===== *)
theory App_Lifecycle
  imports App_Gestures App_Fan_Safety
begin

text \<open>
  The rest of \<^verbatim>\<open>honor_control/backend/application.py\<close>: the refresh of every domain and of the service health, the GPU
  mitigation, diagnostics, the reload of the configuration with its reconciliation, and the life cycle from
  initialisation over background controllers to shut-down. The service as a whole is a relation of steps: use cases,
  background iterations and ends of controllers in any order. The parts of \<open>_refresh_all\<close> publish one domain each; their
  hardware calls are taken part by part, the capabilities last, as they need the most calls and are published last.
\<close>

section \<open>Refreshing\<close>

definition refresh_platform :: "'w app_env \<Rightarrow> ('w, unit) act" where
  "refresh_platform env =
     atry (abind (run_hw ''platform'' (hp_detect_platform (ev_hw env))) (\<lambda>p. publish_domain env (DV_platform p)))
          (\<lambda>e. publish_stale env ''platform'' e)"

definition refresh_capabilities :: "'w app_env \<Rightarrow> ('w, unit) act" where
  "refresh_capabilities env =
     atry
       (abind (aget ap_has_gestures) (\<lambda>has.
        abind (if has then abind (aworld (ev_gesture_probe env)) (\<lambda>probe. aret (gesture_capability probe))
               else run_hw ''ges_cap'' (hp_gestures_capability (ev_hw env))) (\<lambda>ges.
        abind (run_hw ''bat_cap'' (hp_battery_capability (ev_hw env))) (\<lambda>bat.
        abind (run_hw ''pw_cap'' (hp_power_capability (ev_hw env))) (\<lambda>pw.
        abind (run_hw ''fan_cap'' (hp_fan_capability (ev_hw env))) (\<lambda>fan.
        abind (run_hw ''gpu_cap'' (hp_gpu_capability (ev_hw env))) (\<lambda>gpu.
        publish_domain env (DV_capabilities
          [(''battery'', bat), (''power'', pw), (''fan'', fan), (''gestures'', ges), (''gpu'', gpu)]))))))))
       (\<lambda>e. publish_stale env ''capabilities'' e)"

definition refresh_gpu :: "'w app_env \<Rightarrow> ('w, unit) act" where
  "refresh_gpu env =
     atry (abind (run_hw ''gpu_read'' (hp_read_gpu (ev_hw env))) (\<lambda>g. publish_domain env (DV_gpu g)))
          (\<lambda>e. publish_stale env ''gpu'' e)"

text \<open>\<open>next((h.last_fault for h in health.values() if h.last_fault), "")\<close>\<close>

fun first_fault :: "controller_health dict \<Rightarrow> string" where
  "first_fault [] = []"
| "first_fault ((n, h) # r) = (if ch_last_fault h \<noteq> [] then ch_last_fault h else first_fault r)"

definition service_health_of :: "'w app_env \<Rightarrow> 'w app \<Rightarrow> bool \<Rightarrow> bool \<Rightarrow> int \<Rightarrow> service_health" where
  "service_health_of env s dependency_ok running uptime =
     (let cfg = ap_config s; stale = ss_stale_domains (sn_snapshot (ap_snaps s)); health = sv_health (ap_sup s);
          controller_failed = list_ex (\<lambda>(n, h). controller_state_str (ch_state h) = ''failed'') health;
          gesture_not_ready = (gt_daemon_enabled (st_gestures (cs_state cfg)) \<and> ap_has_gestures s \<and> \<not> running);
          degraded = (\<not> cs_valid cfg \<or> \<not> dependency_ok \<or> stale \<noteq> [] \<or> controller_failed \<or> gesture_not_ready) in
      \<lparr>sh_version = ev_version env, sh_uptime = uptime, sh_overall = (if degraded then ''degraded'' else ''healthy''),
       sh_controller_health = check_health (ap_sup s), sh_dependency_ok = dependency_ok, sh_config_valid = cs_valid cfg,
       sh_stale_domains = stale, sh_last_fault = or_default (cs_last_error cfg) (first_fault health)\<rparr>)"

definition refresh_service_health :: "'w app_env \<Rightarrow> ('w, unit) act" where
  "refresh_service_health env =
     abind (aworld (hp_check_dependency (ev_hw env))) (\<lambda>dependency_ok.
     abind (gesture_running env) (\<lambda>running.
     abind (aworld (ev_uptime env)) (\<lambda>uptime.
     abind (aget (\<lambda>s. service_health_of env s dependency_ok running uptime)) (\<lambda>h.
     publish_domain env (DV_service h)))))"

text \<open>A part of \<open>asyncio.gather(..., return_exceptions=True)\<close>: its exception is only a result.\<close>

definition part :: "('w, 'a) act \<Rightarrow> ('w, unit) act" where
  "part m = acatch (abind m (\<lambda>_. aret ())) (\<lambda>_. aret ())"

definition refresh_all :: "'w app_env \<Rightarrow> ('w, unit) act" where
  "refresh_all env =
     abind (part (refresh_service_health env)) (\<lambda>_.
     abind (part (refresh_platform env)) (\<lambda>_.
     abind (part (refresh_battery env)) (\<lambda>_.
     abind (part (refresh_power env)) (\<lambda>_.
     abind (part (refresh_fan env)) (\<lambda>_.
     abind (part (refresh_gestures env)) (\<lambda>_.
     abind (part (refresh_gpu env)) (\<lambda>_.
     part (refresh_capabilities env))))))))"

section \<open>GPU mitigation\<close>

definition set_gpu_state :: "bool \<Rightarrow> service_state \<Rightarrow> service_state" where
  "set_gpu_state enabled s = s\<lparr>st_gpu := \<lparr>gu_mitigation_enabled = enabled\<rparr>\<rparr>"

definition set_gpu_mitigation_enabled :: "'w app_env \<Rightarrow> bool \<Rightarrow> ('w, operation_result) act" where
  "set_gpu_mitigation_enabled env enabled = serialized
     (abind (run_hw ''gpu_cap'' (hp_gpu_capability (ev_hw env))) (\<lambda>cap.
      if \<not> writable cap then unavailable ''gpu_unavailable'' (cap_message cap) ''GPU mitigation unavailable''
      else
      abind (if enabled then run_hw ''gpu_apply'' (hp_apply_gpu (ev_hw env))
             else run_hw ''gpu_restore'' (hp_restore_gpu (ev_hw env))) (\<lambda>result.
      if py_truthy (dget result ''error'' PNone) \<and> \<not> py_truthy (dget result ''restored'' PNone)
      then abind sequence (\<lambda>n.
           aret (op_failed ''gpu_mitigation_failed'' (pv_str env (dget result ''error'' PNone)) n result))
      else
      abind (config_update env (set_gpu_state enabled)) (\<lambda>_.
      abind (refresh_gpu env) (\<lambda>_.
      abind sequence (\<lambda>n.
      aret (op_success (''GPU mitigation '' @ (if enabled then ''enabled'' else ''restored'')) True True True n result)))))))"

section \<open>Reads and diagnostics\<close>

definition get_snapshot :: "('w, system_snapshot) act" where
  "get_snapshot = snap"

definition capability_check :: "string \<times> capability \<Rightarrow> diagnostic_check" where
  "capability_check nc = (case nc of (n, c) \<Rightarrow>
     \<lparr>dc_id = n, dc_severity = (if cap_status c = CS_SUPPORTED then DS_PASS else DS_SKIPPED),
      dc_message = cap_message c, dc_detail = cap_reason_code c, dc_remediation = [], dc_duration_ms = 0\<rparr>)"

definition dependency_check :: "bool \<Rightarrow> diagnostic_check" where
  "dependency_check ok =
     \<lparr>dc_id = ''honor_tools'', dc_severity = (if ok then DS_PASS else DS_FAIL),
      dc_message = (if ok then ''honor-tools package importable'' else ''honor-tools not importable''),
      dc_detail = [], dc_remediation = [], dc_duration_ms = 0\<rparr>"

definition check_dict :: "diagnostic_check \<Rightarrow> pv" where
  "check_dict c = PDict [(''id'', PStr (dc_id c)), (''severity'', PStr (severity_str (dc_severity c))),
     (''message'', PStr (dc_message c)), (''detail'', PStr (dc_detail c)),
     (''remediation'', PStr (dc_remediation c)), (''duration_ms'', PInt (dc_duration_ms c))]"

definition run_checks :: "'w app_env \<Rightarrow> ('w, pv dict) act" where
  "run_checks env =
     abind snap (\<lambda>sn.
     abind (aworld (hp_check_dependency (ev_hw env))) (\<lambda>dep_ok.
     let checks = map capability_check (ss_capabilities sn) @ [dependency_check dep_ok] in
     aret [(''overall'', PStr (if list_all (\<lambda>c. dc_severity c \<noteq> DS_FAIL) checks then ''pass'' else ''fail'')),
           (''checks'', PList (map check_dict checks))]))"

definition str_dict :: "string dict \<Rightarrow> pv" where
  "str_dict d = PDict (map (\<lambda>(k, v). (k, PStr v)) d)"

definition get_debug_bundle :: "'w app_env \<Rightarrow> ('w, pv dict) act" where
  "get_debug_bundle env =
     abind snap (\<lambda>sn.
     abind (aworld (ev_uptime env)) (\<lambda>uptime.
     abind (aget ap_sup) (\<lambda>sv.
     aret [(''api_version'', PInt (ss_api_version sn)), (''schema_version'', PInt (ss_schema_version sn)),
           (''sequence'', PInt (ss_sequence sn)),
           (''service'', PDict [(''version'', PStr (ev_version env)), (''uptime'', PInt uptime),
              (''health'', str_dict (check_health sv))]),
           (''platform'', PDict [(''vendor'', PStr (pi_vendor (ss_platform sn))), (''model'', PStr (pi_model (ss_platform sn))),
              (''matched'', PBool (pi_matched (ss_platform sn)))]),
           (''capabilities'', PDict (map (\<lambda>(n, c). (n, PDict [(''status'', PStr (capability_status_str (cap_status c))),
              (''reason'', PStr (cap_reason_code c))])) (ss_capabilities sn))),
           (''stale_domains'', PList (map PStr (ss_stale_domains sn)))])))"

text \<open>\<open>xs[-n:]\<close> for positive \<open>n\<close>\<close>

definition last_n :: "int \<Rightarrow> 'a list \<Rightarrow> 'a list" where
  "last_n n xs = drop (length xs - nat n) xs"

definition get_recent_logs :: "'w app_env \<Rightarrow> pv \<Rightarrow> ('w, string list) act" where
  "get_recent_logs env lines =
     abind (alift (validate_log_lines lines)) (\<lambda>n.
     abind (aworld (ev_journal env n)) (\<lambda>je.
     case je of JE_output ls \<Rightarrow> aret (last_n n ls) | JE_missing \<Rightarrow> aret [] | JE_timeout \<Rightarrow> aret []
     | JE_raise e \<Rightarrow> araise e))"

section \<open>Reload\<close>

text \<open>Equality of the parts of a state; dictionaries are compared without their order.\<close>

definition power_state_eq :: "power_state \<Rightarrow> power_state \<Rightarrow> bool" where
  "power_state_eq a b = (pw_profile a = pw_profile b \<and> pw_auto_switch a = pw_auto_switch b \<and>
     dict_eq (=) (pw_profiles a) (pw_profiles b))"

definition gestures_state_eq :: "gestures_state \<Rightarrow> gestures_state \<Rightarrow> bool" where
  "gestures_state_eq a b = (gt_daemon_enabled a = gt_daemon_enabled b \<and> dict_eq (=) (gt_mappings a) (gt_mappings b))"

definition service_state_eq :: "service_state \<Rightarrow> service_state \<Rightarrow> bool" where
  "service_state_eq a b = (st_schema_version a = st_schema_version b \<and> st_battery a = st_battery b \<and>
     power_state_eq (st_power a) (st_power b) \<and> fn_mode (st_fan a) = fn_mode (st_fan b) \<and>
     dict_eq (=) (fn_curves (st_fan a)) (fn_curves (st_fan b)) \<and> gestures_state_eq (st_gestures a) (st_gestures b) \<and>
     dict_eq (=) (tp_settings (st_touchpad a)) (tp_settings (st_touchpad b)) \<and> st_gpu a = st_gpu b)"

text \<open>What reconciling one part adds: details, whether something was applied, failures.\<close>

type_synonym reconciled = "pv dict \<times> bool \<times> string list"

definition stop_fan_curve :: "'w app_env \<Rightarrow> ('w, unit) act" where
  "stop_fan_curve env = sup_stop env ''fan_curve'' (restore_fan_auto env)"

definition reload_fan :: "'w app_env \<Rightarrow> service_state \<Rightarrow> service_state \<Rightarrow> ('w, reconciled) act" where
  "reload_fan env previous current =
     (if fn_mode (st_fan previous) = fn_mode (st_fan current) then aret ([], False, [])
      else if fn_mode (st_fan current) = ''stock''
      then abind (stop_manual env) (\<lambda>_.
           abind (stop_fan_curve env) (\<lambda>_.
           abind (restore_fan_auto env) (\<lambda>restored.
           aret (if restored then ([(''fan'', PStr ''stock_restored'')], True, [])
                 else ([(''fan'', PStr ''restore_failed'')], False, [''fan stock-auto restoration failed''])))))
      else if fn_mode (st_fan current) = ''curve''
      then abind (sup_start env ''fan_curve'') (\<lambda>started.
           aret (if started then ([(''fan'', PStr ''curve_controller_started'')], False, [])
                 else ([(''fan'', PStr ''controller_start_failed'')], False, [''fan curve controller did not start''])))
      else aret ([], False, []))"

definition reload_gestures :: "'w app_env \<Rightarrow> service_state \<Rightarrow> service_state \<Rightarrow> ('w, reconciled) act" where
  "reload_gestures env previous current =
     (if gestures_state_eq (st_gestures previous) (st_gestures current) then aret ([], False, [])
      else abind (reconcile_gesture_runtime env) (\<lambda>_.
           abind (aget ap_has_gestures) (\<lambda>has.
           if \<not> has then aret ([], False, [])
           else abind (gesture_running env) (\<lambda>running.
                let d = [(''gestures'', PStr (if running then ''running'' else ''stopped''))] in
                aret (if running = gt_daemon_enabled (st_gestures current) then (d, True, [])
                      else (d, False, [''gesture runtime did not reach desired state'']))))))"

definition reload_power :: "'w app_env \<Rightarrow> service_state \<Rightarrow> service_state \<Rightarrow> ('w, reconciled) act" where
  "reload_power env previous current =
     (if power_state_eq (st_power previous) (st_power current) then aret ([], False, [])
      else abind (refresh_power env) (\<lambda>_.
           abind (aget power_reconcile_target) (\<lambda>target.
           abind (reconcile_power_profile env (Some target)) (\<lambda>res.
           case res of
             None \<Rightarrow> abind snap (\<lambda>sn.
               aret ([(''power'', PStr (if ps_applied_profile (ss_power sn) = target then ''already_applied'' else ''not_writable''))],
                     False, []))
           | Some r \<Rightarrow> aret ([(''power'', PDict (result_to_dict r))], res_applied r,
                             if res_applied r then [] else [res_message r])))))"

text \<open>After the configuration was read: reconcile every part that changed, then refresh everything.\<close>

definition reload_reconcile :: "'w app_env \<Rightarrow> service_state \<Rightarrow> service_state \<Rightarrow> ('w, operation_result) act" where
  "reload_reconcile env previous current =
     abind (reload_fan env previous current) (\<lambda>(d1, a1, f1).
     abind (reload_gestures env previous current) (\<lambda>(d2, a2, f2).
     abind (reload_power env previous current) (\<lambda>(d3, a3, f3).
     abind (refresh_all env) (\<lambda>_.
     abind sequence (\<lambda>n.
     let details = d1 @ d2 @ d3; failures = f1 @ f2 @ f3 in
     aret (if failures \<noteq> []
           then op_partial ''reload_reconcile_failed'' ''Config loaded, but runtime reconciliation was incomplete''
                  False False n (details @ [(''failures'', PList (map PStr failures))])
           else op_success ''Config reloaded'' (\<not> service_state_eq current previous) False (a1 \<or> a2 \<or> a3) n details))))))"

definition config_load :: "'w app_env \<Rightarrow> bool \<Rightarrow> ('w, unit) act" where
  "config_load env again = abind (aworld (ev_load_faults env)) (\<lambda>lf.
     amodify (\<lambda>s. s\<lparr>ap_config := (if again then reload (ev_store env) lf (ap_config s) else load (ev_store env) lf (ap_config s))\<rparr>))"

definition reload_service :: "'w app_env \<Rightarrow> ('w, operation_result) act" where
  "reload_service env = serialized
     (abind config (\<lambda>previous.
      abind (config_load env True) (\<lambda>_.
      abind (aget ap_config) (\<lambda>cfg.
      if \<not> cs_valid cfg
      then abind sequence (\<lambda>n.
           aret (op_failed ''config_invalid'' (or_default (cs_last_error cfg) ''Configuration is invalid'') n []))
      else atry (reload_reconcile env previous (cs_state cfg))
        (\<lambda>e. abind sequence (\<lambda>n.
             aret (op_partial ''reload_reconcile_failed'' ''Config loaded, but runtime reconciliation failed''
               False False n [(''error'', PStr (exn_str e))])))))))"

section \<open>Life cycle\<close>

definition initialize :: "'w app_env \<Rightarrow> ('w, unit) act" where
  "initialize env =
     abind (config_load env False) (\<lambda>_.
     abind (refresh_all env) (\<lambda>_.
     abind (initialize_fan_safety env) (\<lambda>_.
     abind (reconcile_power_profile env None) (\<lambda>_.
     aret ()))))"

definition sup_register :: "string \<Rightarrow> bool \<Rightarrow> ('w, unit) act" where
  "sup_register name has_stop s =
     (case register name has_stop (ap_sup s) of
        Inl e \<Rightarrow> (Inl e, s)
      | Inr sv \<Rightarrow> (Inr (), s\<lparr>ap_sup := sv\<rparr>))"

definition start_background :: "'w app_env \<Rightarrow> ('w, unit) act" where
  "start_background env =
     abind (sup_register ''refresh'' False) (\<lambda>_.
     abind (sup_register ''auto_switch'' False) (\<lambda>_.
     abind (sup_register ''fan_curve'' True) (\<lambda>_.
     abind (sup_start env ''refresh'') (\<lambda>_.
     abind (sup_start env ''auto_switch'') (\<lambda>_.
     abind (sup_start env ''fan_curve'') (\<lambda>_.
     abind (reconcile_gesture_runtime env) (\<lambda>_.
     abind (refresh_gestures env) (\<lambda>_.
     refresh_service_health env))))))))"

text \<open>\<open>stop_all\<close> with the clean-ups the service registered; the gesture runtime releases its devices.\<close>

definition stop_controller :: "'w app_env \<Rightarrow> string \<Rightarrow> ('w, unit) act" where
  "stop_controller env name =
     (if name = ''gesture_daemon'' then switch_runtime env False else sup_stop env name (restore_fan_auto env))"

primrec stop_controllers :: "'w app_env \<Rightarrow> string list \<Rightarrow> ('w, unit) act" where
  "stop_controllers env [] = aret ()"
| "stop_controllers env (n # ns) = abind (stop_controller env n) (\<lambda>_. stop_controllers env ns)"

definition await_recovery_at_shutdown :: "'w app_env \<Rightarrow> ('w, unit) act" where
  "await_recovery_at_shutdown env = abind (aget ap_restore_task) (\<lambda>task.
     awhen (task \<notin> {RT_none, RT_done})
       (abind (recovery_begin env) (\<lambda>_.
        abind (aworld (ev_recovery_in_time env)) (\<lambda>in_time.
        awhen in_time (abind (recovery_end env) (\<lambda>_. aret ()))))))"

text \<open>Under the mutation lock.\<close>

definition shutdown_locked :: "'w app_env \<Rightarrow> ('w, unit) act" where
  "shutdown_locked env =
     abind (aget (\<lambda>s. rev (map fst (sv_controllers (ap_sup s))))) (\<lambda>names.
     abind (stop_controllers env names) (\<lambda>_.
     abind (aget (\<lambda>s. fan_writable s \<and> \<not> ap_restore_pending s)) (\<lambda>ok.
     abind (awhen ok (abind (restore_fan_auto env) (\<lambda>_. aret ()))) (\<lambda>_.
     abind (await_recovery_at_shutdown env) (\<lambda>_.
     amodify (\<lambda>s. s\<lparr>ap_queue := shutdown (ap_queue s), ap_shutdown_complete := True\<rparr>))))))"

text \<open>\<open>other\<close> is what the use case that holds the lock still does.\<close>

definition shutdown_service :: "'w app_env \<Rightarrow> ('w app \<Rightarrow> 'w app) \<Rightarrow> ('w, unit) act" where
  "shutdown_service env other =
     abind (aget ap_shutdown_complete) (\<lambda>complete.
     if complete then aret ()
     else
     abind (amodify (\<lambda>s. s\<lparr>ap_closing := True\<rparr>)) (\<lambda>_.
     abind (amodify other) (\<lambda>_.
     abind (aget ap_shutdown_complete) (\<lambda>complete2.
     if complete2 then aret () else shutdown_locked env))))"

section \<open>Invariants\<close>

lemma keeps_part [keeps_intro]: "keeps I m \<Longrightarrow> keeps I (part m)"
  unfolding part_def by (intro keeps_intro)

lemma keeps_case_journal [keeps_intro]:
  "(\<And>x. keeps I (f x)) \<Longrightarrow> keeps I a \<Longrightarrow> keeps I b \<Longrightarrow> (\<And>e. keeps I (g e)) \<Longrightarrow>
     keeps I (case v of JE_output x \<Rightarrow> f x | JE_missing \<Rightarrow> a | JE_timeout \<Rightarrow> b | JE_raise e \<Rightarrow> g e)"
  by (cases v) auto

lemma load_valid:
  "valid_state (cs_state cs) \<Longrightarrow> valid_state (cs_state (load env lf cs))"
  "valid_state (cs_state cs) \<Longrightarrow> valid_state (cs_state (reload env lf cs))"
  by (simp_all add: load_def reload_def load_from_valid)

lemma queue_shutdown_ok: "queue_ok s \<Longrightarrow> queue_ok (s\<lparr>ap_queue := shutdown (ap_queue s)\<rparr>)"
  using cq_reachable.step [OF _ cq_step.close, of "ap_queue s"] by (simp add: queue_ok_def shutdown_def)

context frame_invariant
begin

lemma keeps_refreshes [keeps_intro]:
  "keeps I (refresh_platform env)" "keeps I (refresh_capabilities env)" "keeps I (refresh_gpu env)"
  unfolding refresh_platform_def refresh_capabilities_def refresh_gpu_def by (intro keeps_intro)+

lemma keeps_config_load [keeps_intro]: "keeps I (config_load env b)"
  unfolding config_load_def by (intro keeps_intro keeps_amodify kept_config) (simp_all add: load_valid)

lemma keeps_await_shutdown [keeps_intro]: "keeps I (await_recovery_at_shutdown env)"
  unfolding await_recovery_at_shutdown_def by (intro keeps_intro)

lemma keeps_reads [keeps_intro]:
  "keeps I get_snapshot" "keeps I (run_checks env)" "keeps I (get_debug_bundle env)" "keeps I (get_recent_logs env n)"
  unfolding get_snapshot_def run_checks_def get_debug_bundle_def get_recent_logs_def by (intro keeps_intro)+

end

context service_invariant
begin

lemma keeps_refresh_health [keeps_intro]: "keeps I (refresh_service_health env)"
  unfolding refresh_service_health_def by (intro keeps_intro)

lemma keeps_refresh_all [keeps_intro]: "keeps I (refresh_all env)"
  unfolding refresh_all_def by (intro keeps_intro)

lemma keeps_set_gpu [keeps_intro]: "keeps I (set_gpu_mitigation_enabled env b)"
  unfolding set_gpu_mitigation_enabled_def by (intro keeps_intro)

lemma keeps_reload_parts [keeps_intro]:
  "keeps I (reload_fan env p c)" "keeps I (reload_gestures env p c)" "keeps I (reload_power env p c)"
  unfolding reload_fan_def reload_gestures_def reload_power_def stop_fan_curve_def by (intro keeps_intro)+

lemma keeps_reload [keeps_intro]: "keeps I (reload_service env)"
  unfolding reload_service_def reload_reconcile_def by (intro keeps_intro)

lemma keeps_initialize [keeps_intro]: "keeps I (initialize env)"
  unfolding initialize_def by (intro keeps_intro)

lemma keeps_sup_register [keeps_intro]: "keeps I (sup_register n b)"
  by (auto simp: keeps_def sup_register_def split: sum.splits intro!: kept_sup dest: register_inv)

lemma keeps_start_background [keeps_intro]: "keeps I (start_background env)"
  unfolding start_background_def by (intro keeps_intro)

lemma keeps_stop_controller [keeps_intro]: "keeps I (stop_controller env n)"
  unfolding stop_controller_def by (intro keeps_intro)

lemma keeps_stop_controllers [keeps_intro]: "keeps I (stop_controllers env ns)"
  by (induction ns) (simp_all add: keeps_aret keeps_abind keeps_stop_controller)

end

text \<open>The shutdown alone sets the flags of the life cycle.\<close>

locale lifecycle_invariant = service_invariant I for I :: "'w app \<Rightarrow> bool" +
  assumes kept_flags [simp]: "I (s\<lparr>ap_closing := b\<rparr>) = I s" "I (s\<lparr>ap_shutdown_complete := b\<rparr>) = I s"
begin

lemma keeps_shutdown_locked [keeps_intro]: "keeps I (shutdown_locked env)"
  unfolding shutdown_locked_def
  by (intro keeps_intro keeps_amodify) (simp, intro kept_queue, simp_all add: queue_shutdown_ok)

lemma keeps_shutdown:
  assumes "\<And>s. I s \<Longrightarrow> I (other s)"
  shows "keeps I (shutdown_service env other)"
  unfolding shutdown_service_def by (intro keeps_intro keeps_amodify) (simp_all add: assms)

end

interpretation inv: lifecycle_invariant app_inv
  by unfold_locales (simp_all add: app_inv_def queue_ok_def)

interpretation supok: lifecycle_invariant sup_ok
  by unfold_locales (simp_all add: sup_ok_def)

interpretation calm: lifecycle_invariant not_cleaning
  by unfold_locales (simp_all add: not_cleaning_def)

text \<open>Whether the service is closing or has shut down: no use case and no controller changes it.\<close>

definition flags :: "bool \<Rightarrow> bool \<Rightarrow> 'w app \<Rightarrow> bool" where
  "flags a b s = (ap_closing s = a \<and> ap_shutdown_complete s = b)"

interpretation flagged: service_invariant "flags a b" for a b
proof
  fix env n and clean :: "('w, bool) act"
  assume clean: "keeps (flags a b) clean"
  have "flags a b s1" if "clean (s\<lparr>ap_sup := sv, ap_in_cleanup := True\<rparr>) = (r, s1)" "flags a b s" for s sv r s1
    using keepsD [OF clean that(1)] that(2) by (simp add: flags_def)
  then show "keeps (flags a b) (sup_stop env n clean)"
    unfolding sup_stop_def keeps_def abind_def aworld_def by (auto simp: flags_def split: prod.splits option.splits)
qed (simp_all add: flags_def)

end
