(* ===== verification/App_Shutdown.thy ===== *)
theory App_Shutdown
  imports App_Fan_Safety App_Lifecycle
begin

text \<open>
  \<open>shutdown\<close> of \<^verbatim>\<open>honor_control/backend/application.py\<close>: that it always completes, with every controller stopped, the
  command queue closed and the fan handed back or its fault known. The locale \<open>restore_frame\<close> collects what the return of
  the fan to the firmware and the stopping of controllers leave alone.
\<close>

section \<open>What stopping leaves alone\<close>

locale restore_frame =
  fixes I :: "'w app \<Rightarrow> bool"
  assumes unaffected [simp]:
      "I (s\<lparr>ap_world := w\<rparr>) = I s" "I (s\<lparr>ap_queue := q\<rparr>) = I s" "I (s\<lparr>ap_sup := sv\<rparr>) = I s" "I (s\<lparr>ap_in_cleanup := b\<rparr>) = I s"
      "I (s\<lparr>ap_fail_safe := m\<rparr>) = I s" "I (s\<lparr>ap_restore_pending := b\<rparr>) = I s" "I (s\<lparr>ap_restore_task := t\<rparr>) = I s"
    and fan_published [simp]: "I (s\<lparr>ap_snaps := update_domain now (DV_fan f) (ap_snaps s)\<rparr>) = I s"
    and fan_marked [simp]: "I (s\<lparr>ap_snaps := mark_stale now ''fan'' m (ap_snaps s)\<rparr>) = I s"
begin

lemma keeps_hardware [keeps_intro]: "keeps I (aworld f)" "keeps I (queue_run n rec g)" "keeps I (run_hw n g)"
proof -
  show "keeps I (aworld f)" by (simp add: keeps_def aworld_def split: prod.splits)
  show q: "keeps I (queue_run n rec g)" for rec
    unfolding keeps_def
  proof (intro allI impI)
    fix s
    assume "I s"
    obtain r s' where run: "queue_run n rec g s = (r, s')" by fastforce
    from queue_run_shape [OF run] run \<open>I s\<close> show "I (snd (queue_run n rec g s))" by auto
  qed
  show "keeps I (run_hw n g)" by (simp add: run_hw_def q)
qed

lemma keeps_fan_publications [keeps_intro]: "keeps I (publish_domain env (DV_fan f))" "keeps I (publish_stale env ''fan'' e)"
  unfolding publish_domain_def publish_stale_def by (intro keeps_intro keeps_amodify; simp)+

lemma keeps_fan_states [keeps_intro]: "keeps I (publish_fan_failed_safe env m)" "keeps I (refresh_fan env)"
  unfolding publish_fan_failed_safe_def refresh_fan_def by (intro keeps_intro keeps_amodify; simp)+

lemma keeps_tracking [keeps_intro]: "keeps I (track_fan_timeout_recovery f c)" "keeps I (finish_late_call env)"
  unfolding track_fan_timeout_recovery_def finish_late_call_def by (intro keeps_amodify; auto split: option.splits)+

lemma keeps_reserved [keeps_intro]: "keeps I (run_reserved env fut)"
  unfolding keeps_def by (subst run_reserved_shape) simp

lemma keeps_recoveries [keeps_intro]: "keeps I (recovery_finished env r)" "keeps I (recovery_begin env)" "keeps I (recovery_end env)"
proof -
  show fin: "keeps I (recovery_finished env r)" for r
    unfolding recovery_finished_def by (intro keeps_intro keeps_amodify) simp_all
  show "keeps I (recovery_begin env)" unfolding recovery_begin_def by (intro keeps_intro keeps_amodify) simp_all
  show "keeps I (recovery_end env)" unfolding recovery_end_def by (intro keeps_intro fin)
qed

lemma keeps_restore [keeps_intro]: "keeps I (restore_fan_auto env)"
  unfolding restore_fan_auto_def await_fan_recovery_def request_fan_auto_def restore_failed_def
  by (intro keeps_intro keeps_amodify) simp_all

lemma keeps_stop [keeps_intro]:
  assumes "keeps I clean"
  shows "keeps I (sup_stop env n clean)"
proof -
  have "I s1" if "clean (s\<lparr>ap_sup := sv, ap_in_cleanup := True\<rparr>) = (r, s1)" "I s" for s sv r s1
    using keepsD [OF assms that(1)] that(2) by simp
  then show ?thesis
    unfolding sup_stop_def
    by (intro keeps_abind keeps_hardware) (auto simp: keeps_def [of I "\<lambda>s. _ s"] split: prod.splits option.splits)
qed

lemma keeps_controllers [keeps_intro]: "keeps I (stop_controller env n)" "keeps I (stop_controllers env ns)"
proof -
  show one: "keeps I (stop_controller env n)" for n
    unfolding stop_controller_def switch_runtime_def if_False by (intro keeps_intro keeps_amodify) simp
  show "keeps I (stop_controllers env ns)" by (induction ns) (simp_all add: keeps_aret keeps_abind one)
qed

lemma keeps_awaiting [keeps_intro]: "keeps I (await_recovery_at_shutdown env)"
  unfolding await_recovery_at_shutdown_def by (intro keeps_intro)

end

definition closing_phase :: "bool \<Rightarrow> bool \<Rightarrow> bool \<Rightarrow> 'w app \<Rightarrow> bool" where
  "closing_phase a b c s = (ap_closing s = a \<and> ap_shutdown_complete s = b \<and> fan_writable s = c)"

interpretation closing: restore_frame "closing_phase a b c" for a b c
  by unfold_locales (simp_all add: closing_phase_def fan_writable_def update_domain_def mark_stale_def Let_def)

section \<open>Stopping every controller\<close>

lemma sup_stop_returns: "fst (sup_stop env n clean s) = Inr ()"
  by (simp add: sup_stop_def abind_def aworld_def split: prod.splits option.splits)

lemma stop_controller_effect:
  "fst (stop_controller env n s) = Inr () \<and> (\<exists>a b. ap_sup (snd (stop_controller env n s)) = stop a b n (ap_sup s))"
proof (cases "n = ''gesture_daemon''")
  case True
  have "keeps (same_sup sv) (aret True)" for sv :: supervisor by (rule keeps_aret)
  from sup_stop_sup [OF this, of env n s] sup_stop_returns [of env n "aret True" s] True show ?thesis
    by (cases "sup_stop env n (aret True) s")
      (simp add: stop_controller_def switch_runtime_def abind_def amodify_def split: sum.splits)
next
  case False
  have "keeps (same_sup sv) (restore_fan_auto env)" for sv by (rule supervised.keeps_restore_fan_auto)
  from sup_stop_sup [OF this, of env n s] sup_stop_returns [of env n "restore_fan_auto env" s] False show ?thesis
    by (simp add: stop_controller_def)
qed

lemma stop_controllers_effect:
  assumes "sup_ok s" "stop_controllers env ns s = (r, t)"
  shows "r = Inr () \<and> sup_ok t \<and> map fst (sv_controllers (ap_sup t)) = map fst (sv_controllers (ap_sup s)) \<and>
    (\<forall>m \<in> fst ` set (sv_controllers (ap_sup s)).
       m \<in> set ns \<or> ch_state (get_health m (ap_sup s)) = CT_STOPPED \<longrightarrow> ch_state (get_health m (ap_sup t)) = CT_STOPPED)"
  using assms
proof (induction ns arbitrary: s)
  case Nil
  then show ?case by (auto simp: aret_def)
next
  case (Cons n ns)
  let ?u = "snd (stop_controller env n s)"
  obtain a b where u: "fst (stop_controller env n s) = Inr ()" "ap_sup ?u = stop a b n (ap_sup s)"
    using stop_controller_effect [of env n s] by blast
  have ok: "sup_ok ?u" using Cons.prems(1) u(2) by (simp add: sup_ok_def stop_inv)
  have "stop_controllers env ns ?u = (r, t)"
    using Cons.prems(2) u(1) by (cases "stop_controller env n s") (simp add: abind_def)
  note ih = Cons.IH [OF ok this]
  have keys: "map fst (sv_controllers (ap_sup ?u)) = map fst (sv_controllers (ap_sup s))" by (simp add: u(2))
  have "ch_state (get_health m (ap_sup ?u)) = CT_STOPPED"
    if m: "m \<in> fst ` set (sv_controllers (ap_sup s))" and "m = n \<or> ch_state (get_health m (ap_sup s)) = CT_STOPPED" for m
  proof -
    obtain e where e: "map_of (sv_controllers (ap_sup s)) m = Some e" using m by (metis map_of_eq_None_iff option.exhaust)
    show ?thesis
      using stop_stopped [OF _ e] stop_others [of m n] that(2) Cons.prems(1) by (cases "m = n") (auto simp: u(2) sup_ok_def)
  qed
  moreover have "fst ` set (sv_controllers (ap_sup ?u)) = fst ` set (sv_controllers (ap_sup s))"
    using keys by (metis list.set_map)
  ultimately show ?case using ih keys by auto
qed

section \<open>The fan at the end\<close>

text \<open>The firmware has the fan, or a fault is on record, or a queued return to the firmware is still under way.\<close>

definition fan_accounted :: "('w \<Rightarrow> bool) \<Rightarrow> 'w app \<Rightarrow> bool" where
  "fan_accounted auto s = (fan_safe auto s \<or> ap_restore_pending s \<or> ap_restore_task s \<notin> {RT_none, RT_done})"

lemma recovery_end_waits:
  "ends (recovery_end env) s (\<lambda>r t. r = None \<longrightarrow> ap_restore_pending t = ap_restore_pending s \<and> ap_restore_task t = ap_restore_task s)
     (\<lambda>_ _. True)"
proof -
  let ?fin = "\<lambda>x. case x of None \<Rightarrow> aret None | Some x \<Rightarrow> abind (recovery_finished env x) (\<lambda>b. aret (Some b))"
  have waits: "ends (run_reserved env f) u (\<lambda>r t. ap_restore_pending t = ap_restore_pending u \<and> ap_restore_task t = ap_restore_task u)
      (\<lambda>_ _. True)" for f u
    by (auto simp: ends_def run_reserved_def Let_def split: prod.splits reply.splits)
  have fin: "ends (?fin x) u (\<lambda>r t. r = None \<longrightarrow> t = u) (\<lambda>_ _. True)" for x u
    by (cases x) (simp, auto simp: ends_def abind_def aret_def split: prod.splits sum.splits)
  have rest: "ends (run_reserved env f) u (\<lambda>x u'. ends (?fin x) u' (\<lambda>r t. r = None \<longrightarrow> ap_restore_pending t = ap_restore_pending s \<and>
      ap_restore_task t = ap_restore_task s) (\<lambda>_ _. True)) (\<lambda>_ _. True)"
    if "ap_restore_pending u = ap_restore_pending s" "ap_restore_task u = ap_restore_task s" for f u
    by (rule ends_mono [OF waits]) (auto simp: that intro!: ends_mono [OF fin])
  show ?thesis
  proof (cases "ap_restore_task s")
    case (RT_waiting f)
    then show ?thesis using rest [of s f] rest [of "s\<lparr>ap_world := w, ap_queue := q\<rparr>" f for w q]
      by (simp add: recovery_end_def finish_late_call_def)
  qed (simp_all add: recovery_end_def)
qed

definition all_stopped :: "supervisor \<Rightarrow> bool" where
  "all_stopped sv = (\<forall>n \<in> fst ` set (sv_controllers sv). ch_state (get_health n sv) = CT_STOPPED)"

text \<open>Neither the last restoration nor the wait changes the supervisor, the closing flag or whether the fan is writable.\<close>

definition frozen :: "'w app \<Rightarrow> 'w app \<Rightarrow> bool" where
  "frozen s t = (ap_sup t = ap_sup s \<and> ap_closing t = ap_closing s \<and> fan_writable t = fan_writable s)"

lemma ends_frozen:
  assumes "\<And>sv. keeps (same_sup sv) m" "\<And>a b c. keeps (closing_phase a b c) m"
  shows "ends m s (\<lambda>_. frozen s) (\<lambda>_ _. True)"
proof -
  have "ends m s (\<lambda>_. same_sup (ap_sup s)) (\<lambda>_. same_sup (ap_sup s))" by (rule ends_keeps [OF assms(1)]) (simp add: same_sup_def)
  moreover have "ends m s (\<lambda>_. closing_phase (ap_closing s) (ap_shutdown_complete s) (fan_writable s))
      (\<lambda>_. closing_phase (ap_closing s) (ap_shutdown_complete s) (fan_writable s))"
    by (rule ends_keeps [OF assms(2)]) (simp add: closing_phase_def)
  ultimately show ?thesis by (rule ends_both) (simp_all add: frozen_def same_sup_def closing_phase_def)
qed

context fan_env
begin

lemma await_accounted:
  assumes "outside s"
  shows "ends (await_recovery_at_shutdown env) s (\<lambda>_ t. fan_accounted auto s \<longrightarrow> fan_accounted auto t) (\<lambda>_ _. False)"
proof (cases "ap_restore_task s \<in> {RT_none, RT_done}")
  case True
  then show ?thesis by (auto simp: await_recovery_at_shutdown_def)
next
  case False
  let ?in = "\<lambda>t. outside t \<and> ap_restore_task t \<notin> {RT_none, RT_done}"
  have begun: "ends (recovery_begin env) s (\<lambda>_. ?in) (\<lambda>_ _. False)"
  proof -
    have "ends (recovery_begin env) s (\<lambda>_ t. ap_restore_task t \<notin> {RT_none, RT_done}) (\<lambda>_ _. False)"
      using False by (auto simp: recovery_begin_def publish_fan_failed_safe_def snap_def ends_publish
          split: restore_task.splits prod.splits)
    moreover have "ends (recovery_begin env) s (\<lambda>_. outside) (\<lambda>_. outside)" using assms by (intro ends_keeps keeps_intro)
    ultimately show ?thesis by (rule ends_both) auto
  qed
  have ended: "ends (recovery_end env) t (\<lambda>_ u. fan_accounted auto u) (\<lambda>_ _. False)" if "?in t" for t
  proof (rule ends_both [OF recovery_end_outcome recovery_end_waits])
    show "app_inv t" "\<not> ap_in_cleanup t" using that by (simp_all add: outside_def)
    show "fan_accounted auto u" if "app_inv u \<and> \<not> ap_in_cleanup u \<and> (\<forall>b. r = Some b \<longrightarrow> restore_outcome auto b u \<and>
        \<not> ap_restore_pending u \<and> ap_restore_task u = RT_done)"
      "r = None \<longrightarrow> ap_restore_pending u = ap_restore_pending t \<and> ap_restore_task u = ap_restore_task t" for r u
      using that \<open>?in t\<close> restore_outcome_safe by (cases r) (auto simp: fan_accounted_def)
  qed simp
  have waited: "outside (t\<lparr>ap_world := w\<rparr>) = outside t" for t :: "'w app" and w by (simp add: outside_def)
  show ?thesis
    unfolding await_recovery_at_shutdown_def ends_abind ends_simps
    using False
    by (auto intro!: ends_mono [OF begun] ends_mono [OF ended] simp: waited fan_accounted_def split: prod.splits)
qed

lemma last_restore:
  assumes "outside s"
  shows "ends (restore_fan_auto env) s (\<lambda>_ t. outside t \<and> frozen s t \<and> fan_accounted auto t) (\<lambda>_ _. False)"
proof (rule ends_both [OF restore_safe [OF assms] ends_frozen])
  show "keeps (same_sup sv) (restore_fan_auto env)" for sv by (rule supervised.keeps_restore_fan_auto)
  show "keeps (closing_phase a b c) (restore_fan_auto env)" for a b c by (rule closing.keeps_restore)
qed (auto simp: fan_accounted_def dest: restore_outcome_safe)

lemma last_wait:
  assumes "outside s" "fan_writable s \<longrightarrow> fan_accounted auto s"
  shows "ends (await_recovery_at_shutdown env) s (\<lambda>_ t. frozen s t \<and> (fan_writable t \<longrightarrow> fan_accounted auto t)) (\<lambda>_ _. False)"
proof (rule ends_both [OF await_accounted [OF assms(1)] ends_frozen])
  show "keeps (same_sup sv) (await_recovery_at_shutdown env)" for sv by (rule supervised.keeps_await_shutdown)
  show "keeps (closing_phase a b c) (await_recovery_at_shutdown env)" for a b c by (rule closing.keeps_awaiting)
qed (use assms(2) in \<open>auto simp: frozen_def\<close>)

lemma shutdown_locked_ends:
  assumes "outside s" "sup_ok s"
  shows "ends (shutdown_locked env) s
    (\<lambda>_ t. ap_shutdown_complete t \<and> ap_closing t = ap_closing s \<and> cq_closed (ap_queue t) \<and>
       all_stopped (ap_sup t) \<and> (fan_writable t \<longrightarrow> fan_accounted auto t)) (\<lambda>_ _. False)"
proof -
  let ?ns = "rev (map fst (sv_controllers (ap_sup s)))"
  obtain r u where run: "stop_controllers env ?ns s = (r, u)" by fastforce
  note stopped = stop_controllers_effect [OF assms(2) run]
  have "fst ` set (sv_controllers (ap_sup u)) = fst ` set (sv_controllers (ap_sup s))" using stopped by (metis list.set_map)
  then have u: "r = Inr ()" "all_stopped (ap_sup u)" using stopped by (auto simp: all_stopped_def)
  have "outside u" using keepsD [OF keeps_outside [OF inv.keeps_stop_controllers calm.keeps_stop_controllers] run assms(1)] .
  moreover have same: "ap_closing u = ap_closing s"
    using keepsD [OF closing.keeps_controllers(2) run, of "ap_closing s" "ap_shutdown_complete s" "fan_writable s"]
    by (simp add: closing_phase_def)
  ultimately have "ends (awhen (fan_writable u \<and> \<not> ap_restore_pending u) (abind (restore_fan_auto env) (\<lambda>_. aret ()))) u
      (\<lambda>_ v. outside v \<and> frozen u v \<and> (fan_writable v \<longrightarrow> fan_accounted auto v)) (\<lambda>_ _. False)"
    using last_restore [of u] by (auto simp: fan_accounted_def frozen_def elim!: ends_mono)
  moreover have "ends (await_recovery_at_shutdown env) v (\<lambda>_ t. frozen u t \<and> (fan_writable t \<longrightarrow> fan_accounted auto t)) (\<lambda>_ _. False)"
    if "outside v \<and> frozen u v \<and> (fan_writable v \<longrightarrow> fan_accounted auto v)" for v
    using last_wait [of v] that by (auto simp: frozen_def elim!: ends_mono)
  ultimately have phase: "ends (abind (awhen (fan_writable u \<and> \<not> ap_restore_pending u) (abind (restore_fan_auto env) (\<lambda>_. aret ())))
      (\<lambda>_. await_recovery_at_shutdown env)) u (\<lambda>_ t. frozen u t \<and> (fan_writable t \<longrightarrow> fan_accounted auto t)) (\<lambda>_ _. False)"
    unfolding ends_abind by (elim ends_mono) simp_all
  have locked: "ends (shutdown_locked env) s Q E = ends (abind (awhen (fan_writable u \<and> \<not> ap_restore_pending u) (abind (restore_fan_auto env) (\<lambda>_. aret ())))
      (\<lambda>_. await_recovery_at_shutdown env)) u
      (\<lambda>_ t. Q () (t\<lparr>ap_queue := shutdown (ap_queue t), ap_shutdown_complete := True\<rparr>)) E" for Q E
    using run u(1) by (simp add: shutdown_locked_def ends_def [of "stop_controllers env ?ns"])
  have frame: "fan_accounted auto (t\<lparr>ap_queue := q, ap_shutdown_complete := True\<rparr>) = fan_accounted auto t"
    "fan_writable (t\<lparr>ap_queue := q, ap_shutdown_complete := True\<rparr>) = fan_writable t" for t q
    by (simp_all add: fan_accounted_def fan_safe_def fan_writable_def)
  show ?thesis
    unfolding locked by (rule ends_mono [OF phase]) (use u(2) same in \<open>simp_all add: frame frozen_def shutdown_def\<close>)
qed

text \<open>
  A shutdown always completes and leaves nothing running: whatever the use case that holds the lock still does, every
  controller is stopped, the queue closed, and a writable fan accounted for.
\<close>

lemma shutdown_ends:
  assumes "outside s" "sup_ok s" "\<not> ap_shutdown_complete s" "\<And>u. outside u \<Longrightarrow> outside (other u)" "\<And>u. sup_ok u \<Longrightarrow> sup_ok (other u)"
    "\<And>u. ap_closing (other u) = ap_closing u" "\<And>u. ap_shutdown_complete (other u) = ap_shutdown_complete u"
  shows "\<exists>t. shutdown_service env other s = (Inr (), t) \<and> ap_closing t \<and> ap_shutdown_complete t \<and> cq_closed (ap_queue t) \<and>
    all_stopped (ap_sup t) \<and> (fan_writable t \<longrightarrow> fan_accounted auto t)"
proof -
  let ?s = "other (s\<lparr>ap_closing := True\<rparr>)"
  have "outside (s\<lparr>ap_closing := True\<rparr>)" "sup_ok (s\<lparr>ap_closing := True\<rparr>)"
    using assms(1,2) by (simp_all add: outside_def sup_ok_def)
  then have "outside ?s" "sup_ok ?s" by (simp_all add: assms(4,5))
  from shutdown_locked_ends [OF this] obtain t where t: "shutdown_locked env ?s = (Inr (), t)"
    "ap_shutdown_complete t" "ap_closing t" "cq_closed (ap_queue t)" "all_stopped (ap_sup t)"
    "fan_writable t \<longrightarrow> fan_accounted auto t"
    by (cases "shutdown_locked env ?s") (auto simp: ends_def assms(6) split: sum.splits)
  have "shutdown_service env other s = (Inr (), t)"
    using assms(3) t(1) by (simp add: shutdown_service_def abind_def aget_def amodify_def assms(7))
  with t show ?thesis by blast
qed

end

lemma shutdown_again: "ap_shutdown_complete t \<Longrightarrow> shutdown_service env other t = (Inr (), t)"
  by (simp add: shutdown_service_def abind_def aget_def aret_def)

end
