(* ===== verification/App_Results.thy ===== *)
theory App_Results
  imports App_Lifecycle
begin

text \<open>
  What the results of the use cases of \<^verbatim>\<open>honor_control/backend/application.py\<close> promise: an applied flag rests on a
  confirmation of the hardware or on a final observation, a persisted flag on the saved configuration, and every other
  outcome leaves the configuration as it was. The lemmas follow the configuration through the actions.
\<close>

section \<open>Following the configuration\<close>

definition cfg :: "service_state \<Rightarrow> 'w app \<Rightarrow> bool" where
  "cfg c s = (cs_state (ap_config s) = c)"

definition replied :: "('w \<Rightarrow> 'a reply \<times> 'w) \<Rightarrow> 'a \<Rightarrow> bool" where
  "replied f x = (\<exists>w w'. f w = (Ret x, w'))"

lemma cfg_simps [simp]:
  "cfg c (s\<lparr>ap_world := w\<rparr>) = cfg c s" "cfg c (s\<lparr>ap_queue := q\<rparr>) = cfg c s" "cfg c (s\<lparr>ap_snaps := sn\<rparr>) = cfg c s"
  "cfg c (s\<lparr>ap_sup := sv\<rparr>) = cfg c s" "cfg c (s\<lparr>ap_script_status := m\<rparr>) = cfg c s" "cfg c (s\<lparr>ap_fail_safe := m\<rparr>) = cfg c s"
  by (simp_all add: cfg_def)

lemma run_hw_cfg:
  assumes "cfg c s"
  shows "ends (run_hw n f) s (\<lambda>x t. cfg c t \<and> replied f x) (\<lambda>_. cfg c)"
proof -
  obtain r t where run: "queue_run n None f s = (r, t)" by fastforce
  from queue_run_shape [OF run] assms have "cfg c t" "\<forall>x. r = Inr x \<longrightarrow> replied f x"
    by (auto simp: replied_def)
  with run show ?thesis by (cases r) (simp_all add: ends_def run_hw_def)
qed

lemma ends_config: "cfg c s \<Longrightarrow> ends config s Q E = Q c s"
  by (simp add: config_def cfg_def)

lemma config_update_cfg:
  "cfg c s \<Longrightarrow> ends (config_update env f) s (\<lambda>_ t. cfg (f c) t \<and> valid_state (f c)) (\<lambda>_. cfg c)"
  by (auto simp: config_update_def ends_def abind_def aworld_def cfg_def split: prod.splits sum.splits
      dest: update_ok update_fail)

lemma try_update_cfg:
  "cfg c s \<Longrightarrow> ends (try_update env f) s (\<lambda>r t. if r = None then cfg (f c) t else cfg c t) (\<lambda>e t. \<not> is_exception e)"
  by (auto simp: try_update_def intro!: ends_mono [OF config_update_cfg])

text \<open>A refresh changes no configuration, and only a cancellation gets out of it.\<close>

lemma refresh_cfg:
  "cfg c s \<Longrightarrow> ends (refresh_battery env) s (\<lambda>_. cfg c) (\<lambda>e t. cfg c t \<and> \<not> is_exception e)"
  "cfg c s \<Longrightarrow> ends (refresh_power env) s (\<lambda>_. cfg c) (\<lambda>e t. cfg c t \<and> \<not> is_exception e)"
  "cfg c s \<Longrightarrow> ends (refresh_gpu env) s (\<lambda>_. cfg c) (\<lambda>e t. cfg c t \<and> \<not> is_exception e)"
  by (auto simp: refresh_battery_def refresh_power_def refresh_gpu_def config_def Let_def ends_publish ends_stale
      split: prod.splits intro!: ends_mono [OF run_hw_cfg])

lemma refresh_gestures_cfg:
  "cfg c s \<Longrightarrow> ends (refresh_gestures env) s (\<lambda>_. cfg c) (\<lambda>e t. cfg c t \<and> \<not> is_exception e)"
  by (auto simp: refresh_gestures_def config_def ends_publish ends_stale split: prod.splits intro!: ends_mono [OF run_hw_cfg])

lemma refresh_fan_cfg:
  "cfg c s \<Longrightarrow> ends (refresh_fan env) s (\<lambda>_. cfg c) (\<lambda>e t. cfg c t \<and> \<not> is_exception e)"
  by (auto simp: refresh_fan_def config_def snap_def ends_publish ends_stale ends_alift Let_def split: prod.splits sum.splits
      intro!: ends_mono [OF run_hw_cfg])

lemmas follow_reads = ends_mono [OF run_hw_cfg] ends_mono [OF refresh_cfg(1)] ends_mono [OF refresh_cfg(2)]
  ends_mono [OF refresh_cfg(3)] ends_mono [OF refresh_gestures_cfg] ends_mono [OF refresh_fan_cfg]

lemmas follow = follow_reads ends_mono [OF config_update_cfg] ends_mono [OF try_update_cfg]

lemma ends_serialized [simp]:
  "ends (serialized m) s Q E =
     (if ap_closing s then E (DomainException DE_UNAVAILABLE ''Service is shutting down'') s
      else if ap_restore_pending s then E (DomainException DE_BUSY ''Stock fan restoration is still pending'') s
      else ends m s Q E)"
  by (simp add: serialized_def)

lemma ends_unavailable [simp]:
  "ends (unavailable c m d) s Q E = Q (op_unavailable c (or_default m d) (ss_sequence (sn_snapshot (ap_snaps s)))) s"
  by (simp add: unavailable_def sequence_def)

text \<open>The flags of a result tell what became of the configuration \<open>c\<close>.\<close>

definition truthful :: "service_state \<Rightarrow> service_state \<Rightarrow> operation_result \<Rightarrow> 'w app \<Rightarrow> bool" where
  "truthful c c' r t = (cfg (if res_persisted r then c' else c) t \<and>
     (res_status r = OS_SUCCESS \<longrightarrow> res_persisted r \<and> res_applied r) \<and> (res_status r \<notin> {OS_SUCCESS, OS_PARTIAL} \<longrightarrow> \<not> res_applied r))"

lemma refused_simps [simp]:
  "truthful c c' (op_failed k m n d) t = cfg c t" "truthful c c' (op_unavailable k m n) t = cfg c t"
  "\<not> res_applied (op_failed k m n d)" "\<not> res_applied (op_unavailable k m n)"
  "\<not> res_persisted (op_failed k m n d)" "\<not> res_persisted (op_unavailable k m n)"
  "res_status (op_failed k m n d) = OS_FAILED" "res_status (op_unavailable k m n) = OS_UNAVAILABLE"
  by (simp_all add: truthful_def op_defs)

section \<open>Battery\<close>

definition write_confirmed :: "pv dict \<Rightarrow> bool" where
  "write_confirmed r = (flag r ''end_write_ok'' \<and> flag r ''start_write_ok'' \<and> flag r ''readback_ok'')"

lemma battery_applied_ends:
  "cfg c s \<Longrightarrow> ends (battery_applied env en st res) s
     (\<lambda>r t. truthful c (set_battery_state en st c) r t \<and> res_applied r) (\<lambda>e t. \<not> is_exception e)"
  by (auto simp: battery_applied_def sequence_def truthful_def op_defs split: option.splits intro!: follow)

lemma battery_rollback_ends:
  "cfg c s \<Longrightarrow> ends (battery_rollback env old res) s
     (\<lambda>r t. truthful c c' r t \<and> \<not> res_applied r) (\<lambda>e t. \<not> is_exception e)"
  by (auto simp: battery_rollback_def sequence_def truthful_def op_defs Let_def split: option.splits intro!: follow)

lemma battery_ends:
  assumes "cfg c s"
  shows "ends (set_battery_thresholds env a b) s
    (\<lambda>r t. \<exists>en st. validate_thresholds a b = Inr (en, st) \<and> truthful c (set_battery_state en st c) r t \<and>
       (res_applied r \<longrightarrow> (\<exists>res. replied (hp_write_battery (ev_hw env) en st) res \<and> write_confirmed res)))
    (\<lambda>e t. is_exception e \<longrightarrow> cfg c t)"
  using assms
  by (auto simp: set_battery_thresholds_def ends_alift snap_def sequence_def write_confirmed_def split: sum.splits prod.splits
      intro!: follow ends_mono [OF battery_applied_ends] ends_mono [OF battery_rollback_ends]) blast+

section \<open>Power profiles\<close>

text \<open>A successful application: the last published observation matches the definition of the profile.\<close>

definition profile_observed :: "service_state \<Rightarrow> string \<Rightarrow> 'w app \<Rightarrow> bool" where
  "profile_observed c name t = (\<exists>p. map_of (pw_profiles (st_power c)) name = Some p \<and>
     all_checks (verify_power_definition (ps_observed_summary (ss_power (sn_snapshot (ap_snaps t)))) (power_definition p)))"

lemma power_observe_ends:
  "cfg c s \<Longrightarrow> ends (power_observe env name df res persisted) s
     (\<lambda>r t. cfg c t \<and> res_persisted r = persisted \<and> res_status r \<in> {OS_SUCCESS, OS_PARTIAL} \<and>
        (res_applied r \<longrightarrow> res_status r = OS_SUCCESS) \<and>
        (res_status r = OS_SUCCESS \<longrightarrow> res_applied r \<and>
           all_checks (verify_power_definition (ps_observed_summary (ss_power (sn_snapshot (ap_snaps t)))) df)))
     (\<lambda>e t. \<not> is_exception e)"
  by (auto simp: power_observe_def snap_def sequence_def op_defs Let_def intro!: follow)

lemma power_applied_ends:
  "cfg c s \<Longrightarrow> ends (power_applied env name df res persist) s
     (\<lambda>r t. cfg (if res_persisted r then set_profile_state name c else c) t \<and> (res_persisted r \<longrightarrow> persist) \<and>
        (res_status r = OS_SUCCESS \<longrightarrow> res_applied r \<and> res_persisted r = persist \<and>
           all_checks (verify_power_definition (ps_observed_summary (ss_power (sn_snapshot (ap_snaps t)))) df)))
     (\<lambda>e t. \<not> is_exception e)"
  by (auto simp: power_applied_def sequence_def op_partial_def split: option.splits
      intro!: follow ends_mono [OF power_observe_ends])

lemma apply_power_ends:
  assumes "cfg c s"
  shows "ends (apply_power_profile env name persist) s
    (\<lambda>r t. cfg (if res_persisted r then set_profile_state name c else c) t \<and> (res_persisted r \<longrightarrow> persist) \<and>
       (res_status r = OS_SUCCESS \<longrightarrow> res_applied r \<and> res_persisted r = persist \<and> profile_observed c name t) \<and>
       (res_applied r \<longrightarrow> (\<exists>p res. map_of (pw_profiles (st_power c)) name = Some p \<and>
          replied (hp_apply_power (ev_hw env) name (power_definition p)) res \<and> all_checks (power_checks res))))
    (\<lambda>e t. is_exception e \<longrightarrow> cfg c t)"
  using assms
  by (auto simp: apply_power_profile_def ends_alift sequence_def ends_config Let_def profile_observed_def op_partial_def
      split: option.splits intro!: follow [where c = c] ends_mono [OF power_applied_ends [where c = c]])
     blast+

section \<open>The profile registry\<close>

text \<open>Deleting takes away the profile and its curve and nothing else.\<close>

definition without_profile :: "string \<Rightarrow> service_state \<Rightarrow> service_state \<Rightarrow> bool" where
  "without_profile name c c' = (map_of (pw_profiles (st_power c')) = (map_of (pw_profiles (st_power c)))(name := None) \<and>
     map_of (fn_curves (st_fan c')) = (map_of (fn_curves (st_fan c)))(name := None) \<and>
     c' = c\<lparr>st_power := (st_power c)\<lparr>pw_profiles := pw_profiles (st_power c')\<rparr>,
            st_fan := (st_fan c)\<lparr>fn_curves := fn_curves (st_fan c')\<rparr>\<rparr>)"

lemma map_of_filter_key: "map_of (filter (\<lambda>(k, v). k \<noteq> n) d) = (map_of d)(n := None)"
  by (induction d) auto

lemma delete_profile_state_without: "without_profile name c (delete_profile_state name c)"
  by (simp add: without_profile_def delete_profile_state_def map_of_filter_key)

lemma deletable_iff: "deletable p n = Inr () \<longleftrightarrow> n \<notin> set POWER_PROFILE_NAMES \<and>
    n \<notin> {pw_profile p, as_on_ac (pw_auto_switch p), as_on_battery (pw_auto_switch p)}"
  by (auto simp: deletable_def)

lemma delete_ends:
  "cfg c s \<Longrightarrow> ends (delete_power_profile env name) s
     (\<lambda>r t. \<exists>n. validate_power_profile name (Some (map fst (pw_profiles (st_power c)))) = Inr n \<and>
        deletable (st_power c) n = Inr () \<and> cfg (delete_profile_state n c) t)
     (\<lambda>e t. is_exception e \<longrightarrow> cfg c t)"
  by (auto simp: delete_power_profile_def ends_config ends_alift sequence_def split: sum.splits
      intro!: follow_reads ends_mono [OF config_update_cfg [where c = c]])

section \<open>Properties of the results\<close>

lemma outcome_cases:
  assumes "ends m s Q E"
  shows "case m s of (Inr x, t) \<Rightarrow> Q x t | (Inl e, t) \<Rightarrow> E e t"
  using assms by (simp add: ends_def split: prod.splits sum.splits)

text \<open>
  C17: The battery result tells the truth. If \<open>set_battery_thresholds\<close> returns, the pair was valid; \<open>persisted\<close> says
  whether the saved state now holds exactly that pair and its mode, and otherwise the saved state is unchanged; an
  \<open>applied\<close> result rests on a hardware reply that confirms both writes and the read-back; success means both. If it
  raises an error the saved state is unchanged.
\<close>

theorem battery_result_truthful:
  "case set_battery_thresholds env a b s of
     (Inr r, t) \<Rightarrow> \<exists>en st. validate_thresholds a b = Inr (en, st) \<and>
       cs_state (ap_config t) = (if res_persisted r then set_battery_state en st (cs_state (ap_config s)) else cs_state (ap_config s)) \<and>
       (res_status r = OS_SUCCESS \<longrightarrow> res_persisted r \<and> res_applied r) \<and>
       (res_applied r \<longrightarrow> (\<exists>w w' res. hp_write_battery (ev_hw env) en st w = (Ret res, w') \<and>
          flag res ''end_write_ok'' \<and> flag res ''start_write_ok'' \<and> flag res ''readback_ok''))
   | (Inl e, t) \<Rightarrow> is_exception e \<longrightarrow> cs_state (ap_config t) = cs_state (ap_config s)"
  using outcome_cases [OF battery_ends [of "cs_state (ap_config s)" s env a b]]
  by (fastforce simp: cfg_def truthful_def replied_def write_confirmed_def split: prod.splits sum.splits)

definition unsaved_env :: "fake_hw app_env" where
  "unsaved_env = fake_env\<lparr>ev_save_faults := Pair (no_save_faults\<lparr>sf_mkdir := Some (OSError ''Read-only file system'')\<rparr>)\<rparr>"

theorem battery_result_truthful_witness:
  "\<exists>r t. set_battery_thresholds unsaved_env (PInt 80) (PInt 70) fake_app = (Inr r, t) \<and> res_applied r \<and> \<not> res_persisted r \<and>
     cs_state (ap_config t) = cs_state (ap_config fake_app)"
proof -
  let ?run = "set_battery_thresholds unsaved_env (PInt 80) (PInt 70) fake_app"
  obtain x t where run: "?run = (x, t)" by fastforce
  have "case fst ?run of Inr r \<Rightarrow> res_applied r \<and> \<not> res_persisted r | Inl e \<Rightarrow> False" by code_simp
  then obtain r where r: "x = Inr r" "res_applied r" "\<not> res_persisted r" by (cases x) (simp_all add: run)
  with run battery_result_truthful [where env = unsaved_env and a = "PInt 80" and b = "PInt 70" and s = fake_app] show ?thesis by auto
qed

text \<open>
  C16: Applying a power profile never claims more than was observed. A success means that the profile is in the
  registry, the write was confirmed check by check, the state published last matches its definition in every field, and
  that the selection was saved exactly if asked to; without \<open>persisted\<close> the saved state is unchanged.
\<close>

theorem power_success_observed:
  assumes "apply_power_profile env name persist s = (Inr r, t)"
  shows "cs_state (ap_config t) = (if res_persisted r then set_profile_state name (cs_state (ap_config s)) else cs_state (ap_config s)) \<and>
    (res_status r = OS_SUCCESS \<longrightarrow> res_applied r \<and> res_persisted r = persist \<and>
      (\<exists>p res w w'. map_of (pw_profiles (st_power (cs_state (ap_config s)))) name = Some p \<and>
         hp_apply_power (ev_hw env) name (power_definition p) w = (Ret res, w') \<and> all_checks (power_checks res) \<and>
         all_checks (verify_power_definition (ps_observed_summary (ss_power (sn_snapshot (ap_snaps t)))) (power_definition p))))"
proof -
  let ?c = "cs_state (ap_config s)"
  have o: "cs_state (ap_config t) = (if res_persisted r then set_profile_state name ?c else ?c)"
    "res_status r = OS_SUCCESS \<Longrightarrow> res_applied r \<and> res_persisted r = persist \<and> profile_observed ?c name t"
    "res_applied r \<Longrightarrow> \<exists>p res. map_of (pw_profiles (st_power ?c)) name = Some p \<and>
       replied (hp_apply_power (ev_hw env) name (power_definition p)) res \<and> all_checks (power_checks res)"
    using outcome_cases [OF apply_power_ends [of ?c s env name persist]] assms by (auto simp: cfg_def)
  then show ?thesis by (fastforce simp: profile_observed_def replied_def)
qed

theorem power_success_observed_witness:
  "\<exists>r t. apply_power_profile fake_env ''silent'' False fake_app = (Inr r, t) \<and> res_applied r \<and> \<not> res_persisted r \<and>
     cs_state (ap_config t) = cs_state (ap_config fake_app)"
proof -
  let ?run = "apply_power_profile fake_env ''silent'' False fake_app"
  obtain x t where run: "?run = (x, t)" by fastforce
  have "case fst ?run of Inr r \<Rightarrow> res_status r = OS_SUCCESS | Inl e \<Rightarrow> False" by code_simp
  then obtain r where r: "x = Inr r" "res_status r = OS_SUCCESS" by (cases x) (simp_all add: run)
  with run power_success_observed [of fake_env "''silent''" False fake_app r t] show ?thesis by auto
qed

text \<open>
  Deleting a profile is guarded and exact. If \<open>delete_power_profile\<close> returns, the name was a registered profile
  that is neither built in nor selected by the manual or the automatic policy, and the saved state differs only in that
  the profile and its fan curve are gone; if it raises an error nothing was changed.
\<close>

theorem delete_profile_guarded:
  "case delete_power_profile env name s of
     (Inr r, t) \<Rightarrow> let p = st_power (cs_state (ap_config s)) in
       \<exists>n. validate_power_profile name (Some (map fst (pw_profiles p))) = Inr n \<and> n \<notin> set POWER_PROFILE_NAMES \<and>
         n \<noteq> pw_profile p \<and> n \<noteq> as_on_ac (pw_auto_switch p) \<and> n \<noteq> as_on_battery (pw_auto_switch p) \<and>
         without_profile n (cs_state (ap_config s)) (cs_state (ap_config t))
   | (Inl e, t) \<Rightarrow> is_exception e \<longrightarrow> cs_state (ap_config t) = cs_state (ap_config s)"
  using outcome_cases [OF delete_ends [of "cs_state (ap_config s)" s env name]]
  by (auto simp: cfg_def deletable_iff delete_profile_state_without Let_def split: prod.splits sum.splits)

theorem delete_profile_guarded_witness:
  "\<exists>e t. delete_power_profile fake_env ''silent'' fake_app = (Inl e, t) \<and>
     exn_str e = ''The Silent, Balanced, and Performance defaults cannot be deleted'' \<and>
     cs_state (ap_config t) = cs_state (ap_config fake_app)"
proof -
  let ?run = "delete_power_profile fake_env ''silent'' fake_app"
  let ?m = "''The Silent, Balanced, and Performance defaults cannot be deleted''"
  obtain x t where run: "?run = (x, t)" by fastforce
  have "case fst ?run of Inr r \<Rightarrow> False | Inl e \<Rightarrow> is_exception e \<and> exn_str e = ?m" by code_simp
  then obtain e where "x = Inl e" "is_exception e" "exn_str e = ?m" by (cases x) (simp_all add: run)
  with run delete_profile_guarded [where env = fake_env and name = "''silent''" and s = fake_app] show ?thesis by auto
qed

section \<open>Hooks\<close>

text \<open>A command line whose program lies, with every directory above it, in root's hands.\<close>

definition hook_protected :: "script_fs \<Rightarrow> string \<Rightarrow> string list \<Rightarrow> bool" where
  "hook_protected fs command argv = (\<exists>exe args. shlex_split command = Inr (exe # args) \<and>
     argv = hd (sfs_resolve fs exe) # args \<and> length argv \<le> 32 \<and> (\<exists>rest. exe = CHR ''/'' # rest) \<and>
     sfs_is_file fs exe \<and> sfs_executable fs exe \<and>
     list_all (\<lambda>p. \<exists>mode. sfs_stat fs p = Inr (0, mode) \<and> \<not> bit mode 4 \<and> \<not> bit mode 1) (sfs_resolve fs exe))"

lemma check_script_path_ok:
  "check_script_path fs p = Inr u \<longleftrightarrow> (\<exists>mode. sfs_stat fs p = Inr (0, mode) \<and> \<not> bit mode 4 \<and> \<not> bit mode 1)"
  by (auto simp: check_script_path_def path_protected_def rbind_eq_Inr_iff split: if_splits)

lemma validate_script_protected:
  assumes "validate_script_command fs command = Inr argv" "py_strip command \<noteq> []"
  shows "hook_protected fs command argv"
proof -
  from assms obtain words where w: "shlex_split command = Inr words" "words \<noteq> []" "length words \<le> 32"
    and abs: "case hd words of [] \<Rightarrow> False | c # _ \<Rightarrow> c = CHR ''/''"
    and prog: "sfs_is_file fs (hd words)" "sfs_executable fs (hd words)"
    and paths: "rall (check_script_path fs) (sfs_resolve fs (hd words)) = Inr ()"
    and argv: "argv = hd (sfs_resolve fs (hd words)) # tl words"
    by (auto simp: validate_script_command_def rbind_eq_Inr_iff split: if_splits sum.splits)
  from w(2) obtain exe args where words: "words = exe # args" by (cases words) auto
  have "\<exists>rest. exe = CHR ''/'' # rest" using abs words by (auto split: list.splits)
  with w prog paths argv words show ?thesis
    by (auto simp: hook_protected_def check_script_path_ok list_all_iff)
qed

text \<open>
  C18: A transition hook runs only from a protected path. If the check of the command raises, no process is started and
  the status tells the error; otherwise exactly the split command is run, with the resolved path of its program, which
  is an absolute executable file and lies, with every parent directory, in the hands of root and closed to writing by
  group and others.
\<close>

theorem hook_runs_protected:
  assumes "ev_script_fs env (ap_world s) = (fs, w)" "py_strip command \<noteq> []"
  shows "case validate_script_command fs command of
      Inl e \<Rightarrow> is_exception e \<longrightarrow>
        run_transition_script env command tr pr s = (Inr (tr @ '' script error: '' @ exn_str e), s\<lparr>ap_world := w\<rparr>)
    | Inr argv \<Rightarrow> hook_protected fs command argv \<and>
        ap_world (snd (run_transition_script env command tr pr s)) = snd (ev_run_script env argv tr pr w)"
  using assms validate_script_protected [of fs command]
  by (auto simp: run_transition_script_def atry_def abind_def aworld_def alift_def aret_def araise_def
      split: sum.splits prod.splits script_end.splits)

definition hook_env :: "fake_hw app_env" where
  "hook_env = fake_env\<lparr>ev_script_fs := Pair \<lparr>sfs_is_file = (\<lambda>_. True), sfs_executable = (\<lambda>_. True),
     sfs_resolve = (\<lambda>p. [p, ''/opt'', ''/'']), sfs_stat = (\<lambda>p. Inr (if p = ''/opt'' then 1000 else 0, 493))\<rparr>\<rparr>"

theorem hook_runs_protected_witness:
  "\<exists>m. run_transition_script hook_env ''/opt/hook --fast'' ''ac'' ''balanced'' fake_app = (Inr m, fake_app\<lparr>ap_world := ap_world fake_app\<rparr>)"
proof -
  let ?fs = "fst (ev_script_fs hook_env (ap_world fake_app))"
  have fs: "ev_script_fs hook_env (ap_world fake_app) = (?fs, ap_world fake_app)" by (simp add: hook_env_def)
  have "py_strip ''/opt/hook --fast'' \<noteq> []" by code_simp
  note hook = hook_runs_protected [OF fs this, of "''ac''" "''balanced''"]
  have "case validate_script_command ?fs ''/opt/hook --fast'' of Inl e \<Rightarrow> is_exception e | Inr x \<Rightarrow> False" by code_simp
  with hook show ?thesis by (auto split: sum.splits)
qed

end
