(* ===== verification/App_Policies.thy ===== *)
theory App_Policies
  imports App_Results
begin

text \<open>
  Policies of the application service (\<^verbatim>\<open>honor_control/backend/application.py\<close>): which gestures are published and how
  they are switched together, which touchpad settings are saved after a complete, partial or refused transfer, and how
  automatic switching backs off after failures.
\<close>

section \<open>Gestures\<close>

lemma fromkeys_simps [simp]: "set (fromkeys xs) = set xs" "distinct (fromkeys xs)"
  by (simp_all add: fromkeys_def)

lemma remdups_append_fresh: "remdups (ys @ xs) = remdups (filter (\<lambda>y. y \<notin> set xs) ys) @ remdups xs"
  by (induction ys) auto

text \<open>Keys known first keep their place.\<close>

lemma fromkeys_prefix: "distinct xs \<Longrightarrow> take (length xs) (fromkeys (xs @ ys)) = xs"
  by (simp add: fromkeys_def remdups_append_fresh distinct_remdups_id)

lemma gesture_row_id [simp]: "ge_id (gesture_row d b g) = g"
  by (simp add: gesture_row_def Let_def)

lemma gesture_row_saved:
  "map_of d g = Some m \<Longrightarrow> ge_enabled (gesture_row d b g) = gm_enabled m"
  "map_of d g = Some m \<Longrightarrow> gm_mapping m \<noteq> [] \<Longrightarrow> ge_mapping (gesture_row d b g) = gm_mapping m"
  by (simp_all add: gesture_row_def Let_def)

lemma entries_by_id_keys: "fst ` set (entries_by_id es) = ge_id ` set es"
proof -
  have "fst ` set (foldl (\<lambda>d e. AList.update (ge_id e) e d) d es) = fst ` set d \<union> ge_id ` set es" for d
    by (induction es arbitrary: d) (auto simp: dom_update)
  then show ?thesis by (simp add: entries_by_id_def)
qed

lemma gesture_ids: "map ge_id (gesture_entries d es) =
    fromkeys (map fst DEFAULT_GESTURE_MAPPINGS @ map fst (entries_by_id es) @ map fst d)"
  by (simp add: gesture_entries_def Let_def comp_def)

lemma enable_all_lookup:
  "map_of (enable_all b m) g = (if g \<in> fst ` set DEFAULT_GESTURE_MAPPINGS \<union> fst ` set m
     then Some \<lparr>gm_enabled = b, gm_mapping = gm_mapping (dget m g gesture_mapping_default)\<rparr> else None)"
proof -
  have "map_of (map (\<lambda>k. (k, f k)) ks) g = (if g \<in> set ks then Some (f g) else None)" for f :: "string \<Rightarrow> gesture_mapping_state" and ks
    by (induction ks) auto
  then show ?thesis by (simp add: enable_all_def)
qed

lemma enable_all_keys: "fst ` set (enable_all b m) = fst ` set DEFAULT_GESTURE_MAPPINGS \<union> fst ` set m"
  by (simp add: enable_all_def image_image image_Un)

lemma default_gestures_distinct: "distinct (map fst DEFAULT_GESTURE_MAPPINGS)"
  by code_simp

text \<open>
  The published gestures are complete and honour what was saved: every built-in, discovered or saved gesture has
  exactly one row, the built-in ones first and in order; a saved gesture shows its saved switch and, if it has one, its
  saved combination. After all gestures were switched together every row shows that switch, and no combination is lost.
\<close>

theorem gesture_rows_honour_saved:
  "distinct (map ge_id (gesture_entries d es)) \<and>
   set (map ge_id (gesture_entries d es)) = fst ` set DEFAULT_GESTURE_MAPPINGS \<union> ge_id ` set es \<union> fst ` set d \<and>
   take (length DEFAULT_GESTURE_MAPPINGS) (map ge_id (gesture_entries d es)) = map fst DEFAULT_GESTURE_MAPPINGS \<and>
   (\<forall>g m. map_of d g = Some m \<longrightarrow> (\<exists>row \<in> set (gesture_entries d es). ge_id row = g \<and> ge_enabled row = gm_enabled m \<and>
      (gm_mapping m \<noteq> [] \<longrightarrow> ge_mapping row = gm_mapping m))) \<and>
   (\<forall>row \<in> set (gesture_entries (enable_all b d) []). ge_enabled row = b) \<and>
   (\<lambda>r. (ge_id r, ge_mapping r)) ` set (gesture_entries (enable_all b d) []) =
     (\<lambda>r. (ge_id r, ge_mapping r)) ` set (gesture_entries d [])"
proof (intro conjI allI impI)
  show "distinct (map ge_id (gesture_entries d es))"
    "set (map ge_id (gesture_entries d es)) = fst ` set DEFAULT_GESTURE_MAPPINGS \<union> ge_id ` set es \<union> fst ` set d"
    by (simp_all add: gesture_ids entries_by_id_keys Un_assoc)
  show "take (length DEFAULT_GESTURE_MAPPINGS) (map ge_id (gesture_entries d es)) = map fst DEFAULT_GESTURE_MAPPINGS"
    using fromkeys_prefix [OF default_gestures_distinct] by (simp add: gesture_ids)
next
  fix g m
  assume saved: "map_of d g = Some m"
  then have "gesture_row d (entries_by_id es) g \<in> set (gesture_entries d es)"
    by (force simp: gesture_entries_def Let_def dest: map_of_SomeD)
  with gesture_row_saved [OF saved, of "entries_by_id es"] show "\<exists>row \<in> set (gesture_entries d es). ge_id row = g \<and>
      ge_enabled row = gm_enabled m \<and> (gm_mapping m \<noteq> [] \<longrightarrow> ge_mapping row = gm_mapping m)"
    by (intro bexI [where x = "gesture_row d (entries_by_id es) g"]) simp_all
next
  have rows: "set (gesture_entries x []) = gesture_row x [] ` (fst ` set DEFAULT_GESTURE_MAPPINGS \<union> fst ` set x)" for x
    by (simp add: gesture_entries_def entries_by_id_def Let_def)
  show "\<forall>row \<in> set (gesture_entries (enable_all b d) []). ge_enabled row = b"
    by (auto simp: rows enable_all_keys enable_all_lookup gesture_row_saved)
  have "ge_mapping (gesture_row (enable_all b d) [] g) = ge_mapping (gesture_row d [] g)"
    if "g \<in> fst ` set DEFAULT_GESTURE_MAPPINGS \<union> fst ` set d" for g
    using that by (simp add: gesture_row_def Let_def enable_all_lookup dget_def gesture_mapping_default_def split: option.splits)
  then show "(\<lambda>r. (ge_id r, ge_mapping r)) ` set (gesture_entries (enable_all b d) []) =
      (\<lambda>r. (ge_id r, ge_mapping r)) ` set (gesture_entries d [])"
    unfolding rows enable_all_keys image_image by (intro image_cong) auto
qed

theorem gesture_rows_honour_saved_witness:
  "\<exists>row. row \<in> set (gesture_entries [(''c9'', \<lparr>gm_enabled = False, gm_mapping = ''KEY_A''\<rparr>)] []) \<and>
     ge_id row = ''c9'' \<and> \<not> ge_enabled row \<and> ge_mapping row = ''KEY_A''"
proof -
  let ?m = "\<lparr>gm_enabled = False, gm_mapping = ''KEY_A''\<rparr>"
  have "map_of [(''c9'', ?m)] g = Some m \<longrightarrow> (\<exists>row \<in> set (gesture_entries [(''c9'', ?m)] []). ge_id row = g \<and>
      ge_enabled row = gm_enabled m \<and> (gm_mapping m \<noteq> [] \<longrightarrow> ge_mapping row = gm_mapping m))" for g m
    using gesture_rows_honour_saved [of "[(''c9'', ?m)]" "[]" True] by blast
  from this [of "''c9''" ?m] show ?thesis by auto
qed

section \<open>Touchpad settings\<close>

text \<open>An exception of the firmware transport comes from the port.\<close>

definition port_raised :: "('w \<Rightarrow> 'a reply \<times> 'w) \<Rightarrow> exn \<Rightarrow> bool" where
  "port_raised f e = (\<exists>w w'. f w = (Raise e, w'))"

definition firmware_error :: "exn \<Rightarrow> bool" where
  "firmware_error e = (case e of TouchpadFirmwareError _ _ _ _ _ \<Rightarrow> True | _ \<Rightarrow> False)"

lemma run_return_raised:
  assumes "cq_holder q = Some w" "cq_done q (wt_future w) = Some (Inl e)" "run_return q = (Inl e', q')" "firmware_error e'"
  shows "e' = e"
proof (cases "\<exists>m. e = TimeoutError m")
  case True
  then obtain m where "e = TimeoutError m" ..
  with assms(1-3) have "timeout_branch w q = (Inl e', q')" by (simp add: run_return_def)
  then have "\<not> firmware_error e'" by (auto simp: timeout_branch_def firmware_error_def split: prod.splits option.splits)
  with assms(4) show ?thesis by simp
next
  case False
  then have "fst (run_return q) = Inl e" using assms(1,2) unfolding run_return_def by (cases e) simp_all
  with assms(3) show ?thesis by simp
qed

lemma late_answers:
  "fst (run_cancel q) = Inl CancelledError"
  "fst (run_timeout q) = Inl CancelledError \<or> (\<exists>m b. fst (run_timeout q) = Inl (CommandTimeoutError m b))"
  by (auto simp: run_cancel_def run_timeout_def timeout_branch_def split: prod.split option.split)

lemma run_hw_raised:
  assumes ok: "queue_ok s"
  shows "ends (run_hw n f) s (\<lambda>_ _. True) (\<lambda>e _. firmware_error e \<longrightarrow> port_raised f e)"
proof (cases "run_admit n n 10 None (ap_queue s)")
  case (Pair x q)
  show ?thesis
  proof (cases x)
    case (Inl e)
    then have "\<not> firmware_error e" using Pair by (auto simp: run_admit_def firmware_error_def split: if_splits)
    with Pair Inl show ?thesis by (simp add: ends_def run_hw_def queue_run_def)
  next
    case (Inr fut)
    with Pair have adm: "run_admit n n 10 None (ap_queue s) = (Inr fut, q)" by simp
    note fin = finished_queue [OF ok adm] and hold = admit_ok(1) [OF ok adm]
    have late: "fst (if ap_in_cleanup s then run_cancel (worker_take q) else run_timeout (worker_take q)) = Inl e \<Longrightarrow> \<not> firmware_error e" for e
      using late_answers [of "worker_take q"] by (auto simp: firmware_error_def split: if_splits)
    let ?fin = "\<lambda>x. loop_complete (worker_finish x (worker_take q))"
    have held: "cq_holder (?fin x) = Some \<lparr>wt_future = fut, wt_name = n, wt_timeout = 10, wt_recovery = None\<rparr>" for x
      using fin(5) hold by simp
    have nofail: "fst (run_return (?fin (Inr ()))) = Inr ()"
      by (rule run_return_done(2) [OF held]) (simp_all add: fin(6))
    obtain reply w where fr: "f (ap_world s) = (reply, w)" by fastforce
    show ?thesis
    proof (cases reply)
      case (Ret v)
      obtain r' q' where "run_return (?fin (Inr ())) = (r', q')" by fastforce
      with nofail Ret adm fr show ?thesis by (simp add: ends_def run_hw_def queue_run_def Let_def)
    next
      case (Raise e)
      obtain r' q' where ret: "run_return (?fin (Inl e)) = (r', q')" by fastforce
      have "r' = Inl e' \<Longrightarrow> firmware_error e' \<Longrightarrow> e' = e" for e'
        using run_return_raised [OF held, of "Inl e" e e' q'] fin(6) [of "Inl e"] ret by simp
      then show ?thesis using adm fr ret Raise
        by (cases r') (auto simp: ends_def run_hw_def queue_run_def Let_def port_raised_def)
    next
      case Hang
      obtain r' q' where to: "(if ap_in_cleanup s then run_cancel (worker_take q) else run_timeout (worker_take q)) = (r', q')"
        by fastforce
      then have "r' = Inl e' \<Longrightarrow> \<not> firmware_error e'" for e' using late by (metis fst_conv)
      then show ?thesis using adm fr to Hang
        by (cases r') (simp_all add: ends_def run_hw_def queue_run_def Let_def firmware_error_def)
    qed
  qed
qed

lemma run_hw_both:
  assumes "cfg c s" "app_inv s"
  shows "ends (run_hw n f) s (\<lambda>x t. cfg c t \<and> app_inv t \<and> replied f x) (\<lambda>e t. cfg c t \<and> (firmware_error e \<longrightarrow> port_raised f e))"
proof -
  have "queue_ok s" using assms(2) by (simp add: app_inv_def)
  from ends_conj [OF run_hw_cfg [OF assms(1)] ends_conj [OF run_hw_raised [OF this] ends_keeps [OF inv.keeps_run_hw assms(2)]]]
  show ?thesis by (rule ends_mono) auto
qed

lemma touchpad_accepted_ends:
  "cfg c s \<Longrightarrow> ends (touchpad_accepted env nz res) s
     (\<lambda>r t. truthful c (merge_settings nz c) r t \<and> res_applied r) (\<lambda>e t. \<not> is_exception e)"
  by (auto simp: touchpad_accepted_def sequence_def truthful_def op_success_def op_partial_def Let_def split: option.splits
      intro!: follow)

lemma touchpad_interrupted_ends:
  "cfg c s \<Longrightarrow> ends (touchpad_interrupted env m p a tot rs) s
     (\<lambda>r t. truthful c (merge_settings (completed_settings rs) c) r t \<and> \<not> res_applied r \<and> (res_persisted r \<longrightarrow> 0 < a))
     (\<lambda>e t. \<not> is_exception e)"
  by (auto simp: touchpad_interrupted_def sequence_def truthful_def op_failed_def op_partial_def Let_def split: option.splits
      intro!: follow)

text \<open>What is saved of the profile \<open>nz\<close>: all of it after a complete transfer, the completed settings after a partial one.\<close>

definition touchpad_saved :: "'w app_env \<Rightarrow> int dict \<Rightarrow> service_state \<Rightarrow> operation_result \<Rightarrow> 'w app \<Rightarrow> bool" where
  "touchpad_saved env nz c r t =
     (if res_applied r then replied (hp_apply_touchpad (ev_hw env) nz) \<noteq> (\<lambda>_. False) \<and> truthful c (merge_settings nz c) r t
      else if res_persisted r
      then \<exists>m p a tot rs. port_raised (hp_apply_touchpad (ev_hw env) nz) (TouchpadFirmwareError m p a tot rs) \<and> 0 < a \<and>
             truthful c (merge_settings (completed_settings rs) c) r t
      else truthful c c r t)"

lemma truthful_unsaved: "truthful c c' r t \<Longrightarrow> \<not> res_persisted r \<Longrightarrow> truthful c c r t"
  by (simp add: truthful_def)

lemma touchpad_ends:
  assumes "cfg c s" "app_inv s"
  shows "ends (apply_touchpad_body env ss) s (\<lambda>r t. \<exists>nz. normalize_settings ss [] = Inr nz \<and> touchpad_saved env nz c r t)
    (\<lambda>e t. is_exception e \<longrightarrow> cfg c t)"
proof (cases "value_error_invalid (normalize_settings ss [])")
  case (Inl e)
  with assms show ?thesis by (simp add: apply_touchpad_body_def ends_alift)
next
  case (Inr nz)
  then have nz: "normalize_settings ss [] = Inr nz" by (auto simp: value_error_invalid_def split: sum.splits exn.splits)
  have saved: "touchpad_saved env nz c r t" if "truthful c (merge_settings nz c) r t" "res_applied r"
      "replied (hp_apply_touchpad (ev_hw env) nz) res" for r t res
    using that by (auto simp: touchpad_saved_def fun_eq_iff)
  let ?f = "hp_apply_touchpad (ev_hw env) nz" and ?E = "\<lambda>e t. is_exception e \<longrightarrow> cfg c t"
  have err: "ends (case e of TouchpadFirmwareError m p a tot rs \<Rightarrow> touchpad_interrupted env m p a tot rs
      | _ \<Rightarrow> abind sequence (\<lambda>n. aret (op_failed ''touchpad_apply_failed'' (exn_str e) n []))) t (touchpad_saved env nz c) ?E"
    if "cfg c t" "firmware_error e \<longrightarrow> port_raised ?f e" for e t
  proof (cases "firmware_error e")
    case True
    then obtain m p a tot rs where e: "e = TouchpadFirmwareError m p a tot rs" by (cases e) (simp_all add: firmware_error_def)
    with that True have r: "port_raised ?f (TouchpadFirmwareError m p a tot rs)" by simp
    have "touchpad_saved env nz c x u" if "truthful c (merge_settings (completed_settings rs) c) x u \<and> \<not> res_applied x \<and>
        (res_persisted x \<longrightarrow> 0 < a)" for x and u :: "'a app"
      unfolding touchpad_saved_def using that r truthful_unsaved [of c _ x u] by (cases "res_persisted x") (simp, blast, auto)
    then show ?thesis unfolding e exn.case
      by (intro ends_mono [OF touchpad_interrupted_ends [OF that(1)]]) simp_all
  next
    case False
    then show ?thesis using that(1) by (cases e) (simp_all add: firmware_error_def sequence_def touchpad_saved_def)
  qed
  have "ends (apply_touchpad_body env ss) s (touchpad_saved env nz c) ?E"
    using assms nz
    by (auto simp: apply_touchpad_body_def value_error_invalid_def ends_alift touchpad_saved_def [of env nz c "op_unavailable _ _ _"]
        intro!: ends_mono [OF run_hw_both] ends_mono [OF touchpad_accepted_ends] err elim!: saved)
  with nz show ?thesis by simp
qed

text \<open>
  Touchpad settings are saved as far as the firmware took them. If \<open>apply_touchpad_settings\<close> returns, the profile was
  valid; a persisted result holds the whole profile when the transfer was complete and exactly the completed settings
  when the firmware broke it off after at least one report, merged over the settings saved before; in every other case,
  and when an error is raised, the saved state is unchanged. Success means applied and saved.
\<close>

theorem touchpad_saves_accepted:
  assumes "app_inv s"
  shows "case apply_touchpad_settings env ss s of
      (Inr r, t) \<Rightarrow> \<exists>nz. normalize_settings ss [] = Inr nz \<and>
        (res_status r = OS_SUCCESS \<longrightarrow> res_applied r \<and> res_persisted r) \<and>
        (if \<not> res_persisted r then cs_state (ap_config t) = cs_state (ap_config s)
         else if res_applied r then cs_state (ap_config t) = merge_settings nz (cs_state (ap_config s))
         else \<exists>w w' m p a tot rs. hp_apply_touchpad (ev_hw env) nz w = (Raise (TouchpadFirmwareError m p a tot rs), w') \<and>
           0 < a \<and> cs_state (ap_config t) = merge_settings (completed_settings rs) (cs_state (ap_config s)))
    | (Inl e, t) \<Rightarrow> is_exception e \<longrightarrow> cs_state (ap_config t) = cs_state (ap_config s)"
proof -
  let ?c = "cs_state (ap_config s)"
  have "ends (apply_touchpad_settings env ss) s (\<lambda>r t. \<exists>nz. normalize_settings ss [] = Inr nz \<and> touchpad_saved env nz ?c r t)
      (\<lambda>e t. is_exception e \<longrightarrow> cfg ?c t)"
    using touchpad_ends [OF _ assms, of ?c env ss] by (simp add: apply_touchpad_settings_def cfg_def)
  note outcome = outcome_cases [OF this]
  obtain x t where run: "apply_touchpad_settings env ss s = (x, t)" by fastforce
  show ?thesis
  proof (cases x)
    case (Inl e)
    with outcome run show ?thesis by (simp add: cfg_def)
  next
    case (Inr r)
    with outcome run obtain nz where "normalize_settings ss [] = Inr nz" "touchpad_saved env nz ?c r t" by auto
    with run Inr show ?thesis
      by (auto simp: touchpad_saved_def truthful_def cfg_def port_raised_def split: if_splits) blast+
  qed
qed

theorem touchpad_saves_accepted_witness:
  "\<exists>r t. apply_touchpad_settings unsaved_env [(''vibration_intensity'', PInt 1)] fake_app = (Inr r, t) \<and> res_applied r \<and>
     cs_state (ap_config t) = cs_state (ap_config fake_app)"
proof -
  let ?run = "apply_touchpad_settings unsaved_env [(''vibration_intensity'', PInt 1)] fake_app"
  obtain x t where run: "?run = (x, t)" by fastforce
  have "case fst ?run of Inr r \<Rightarrow> res_applied r \<and> \<not> res_persisted r | Inl e \<Rightarrow> False" by code_simp
  then obtain r where r: "x = Inr r" "res_applied r" "\<not> res_persisted r" by (cases x) (simp_all add: run)
  with run touchpad_saves_accepted [OF fake_idle(3), where env = unsaved_env and ss = "[(''vibration_intensity'', PInt 1)]"]
  show ?thesis by auto
qed

section \<open>Automatic switching\<close>

lemma retry_delay_bounds: "1 \<le> n \<Longrightarrow> 2 \<le> retry_delay n \<and> retry_delay n \<le> 60"
proof -
  have "(1::int) \<le> 2 ^ nat (min (n - 1) 10)" by simp
  then show ?thesis unfolding retry_delay_def AUTO_SWITCH_MAX_RETRY_SECONDS_def AUTO_SWITCH_POLL_SECONDS_def by simp
qed

lemma retry_delay_mono: "m \<le> n \<Longrightarrow> retry_delay m \<le> retry_delay n"
proof -
  assume "m \<le> n"
  then have "(2::int) ^ nat (min (m - 1) 10) \<le> 2 ^ nat (min (n - 1) 10)" by (intro power_increasing) simp_all
  then have "min 60 (2 * 2 ^ nat (min (m - 1) 10)) \<le> min 60 (2 * 2 ^ nat (min (n - 1) 10) :: int)" by linarith
  then show ?thesis unfolding retry_delay_def AUTO_SWITCH_MAX_RETRY_SECONDS_def AUTO_SWITCH_POLL_SECONDS_def .
qed

text \<open>A reading of the monotonic clock.\<close>

definition clock_reading :: "'w app_env \<Rightarrow> int \<Rightarrow> bool" where
  "clock_reading env now = (\<exists>w w'. ev_monotonic env w = (now, w'))"

text \<open>The bookkeeping after a failed attempt for \<open>key\<close>.\<close>

definition backed_off :: "'w app_env \<Rightarrow> auto_loop \<Rightarrow> auto_loop \<Rightarrow> bool" where
  "backed_off env lp lp' = (\<exists>key now.
     al_failed_key lp' = Some key \<and> al_failures lp' = (if al_failed_key lp = Some key then al_failures lp + 1 else 1) \<and>
     clock_reading env now \<and> al_retry_at lp' = now + retry_delay (al_failures lp') * 1000000 \<and>
     (al_failed_key lp = Some key \<longrightarrow> (\<exists>due. clock_reading env due \<and> al_retry_at lp \<le> due)))"

definition waits_as :: "auto_loop \<Rightarrow> auto_loop \<Rightarrow> bool" where
  "waits_as lp lp' = (al_failed_key lp' = al_failed_key lp \<and> al_failures lp' = al_failures lp \<and> al_retry_at lp' = al_retry_at lp)"

definition settled :: "auto_loop \<Rightarrow> bool" where
  "settled lp = (al_failed_key lp = None \<and> al_failures lp = 0)"

lemma anyway: "(\<And>x t. Q x t) \<Longrightarrow> (\<And>e t. E e t) \<Longrightarrow> ends m s Q E"
  by (rule ends_mono [OF ends_top]) auto

lemmas any_apply = anyway [of _ _ "apply_power_profile env n p" for env n p]
lemmas any_refresh = anyway [of _ _ "refresh_power env" for env]
lemmas any_script = anyway [of _ _ "run_transition_script env c t p" for env c t p]

lemma switch_failed_ends:
  assumes "al_failed_key lp = Some key \<Longrightarrow> \<exists>due. clock_reading env due \<and> al_retry_at lp \<le> due"
  shows "ends (switch_failed env key lp) s (\<lambda>lp' t. backed_off env lp lp') E"
proof -
  obtain now w where "ev_monotonic env (ap_world s) = (now, w)" by fastforce
  then have "clock_reading env now" unfolding clock_reading_def by blast
  let ?n = "if al_failed_key lp = Some key then al_failures lp + 1 else 1"
  let ?lp = "lp\<lparr>al_failed_key := Some key, al_failures := ?n, al_retry_at := now + retry_delay ?n * 1000000\<rparr>"
  have "backed_off env lp ?lp"
    unfolding backed_off_def by (rule exI [of _ key], rule exI [of _ now]) (use assms \<open>clock_reading env now\<close> in auto)
  with \<open>ev_monotonic env (ap_world s) = (now, w)\<close> show ?thesis by (simp add: switch_failed_def Let_def)
qed

lemma switch_applied_ends: "ends (switch_applied env ac a lp) s (\<lambda>lp' t. settled lp') (\<lambda>_ _. True)"
  by (auto simp: switch_applied_def settled_def intro!: any_script any_refresh)

definition switch_step :: "'w app_env \<Rightarrow> auto_loop \<Rightarrow> auto_loop \<Rightarrow> bool" where
  "switch_step env lp lp' = (waits_as lp lp' \<or> settled lp' \<or> backed_off env lp lp')"

lemma switch_profile_ends:
  assumes "al_failed_key lp = Some key \<Longrightarrow> \<exists>due. clock_reading env due \<and> al_retry_at lp \<le> due"
  shows "ends (switch_profile env ac key lp) s (\<lambda>lp' t. switch_step env lp lp') (\<lambda>_ _. True)"
proof -
  have wait: "switch_step env lp lp" "switch_step env lp (lp\<lparr>al_last_ac := None, al_last_policy := None\<rparr>)"
    by (simp_all add: switch_step_def waits_as_def)
  have applied: "ends (switch_applied env ac a lp) t (\<lambda>lp' t. switch_step env lp lp') (\<lambda>_ _. True)" for ac a t
    by (rule ends_mono [OF switch_applied_ends]) (simp_all add: switch_step_def)
  have failed: "ends (switch_failed env key lp) t (\<lambda>lp' t. switch_step env lp lp') (\<lambda>_ _. True)" for t
    by (rule ends_mono [OF switch_failed_ends [OF assms]]) (simp_all add: switch_step_def)
  show ?thesis
    by (simp add: switch_profile_def Let_def ends_alift wait split: sum.split)
       (auto intro!: any_apply simp: applied failed)
qed

lemma iteration_backs_off:
  "ends (auto_switch_iteration env other lp) s (\<lambda>lp' t. switch_step env lp lp') (\<lambda>_ _. True)"
proof -
  have idle: "switch_step env lp lp" "switch_step env lp (lp\<lparr>al_last_ac := None, al_last_policy := None, al_failed_key := None, al_failures := 0\<rparr>)"
    by (simp_all add: switch_step_def waits_as_def settled_def)
  have due: "ev_monotonic env w = (x, w') \<Longrightarrow> \<not> x < r \<Longrightarrow> \<exists>due. clock_reading env due \<and> r \<le> due" for w x w' r
    unfolding clock_reading_def by (intro exI [of _ x]) auto
  show ?thesis
    unfolding auto_switch_iteration_def
    by (auto simp: config_def snap_def Let_def idle split: option.splits intro!: any_refresh switch_profile_ends due)
qed

text \<open>
  Automatic switching backs off. An iteration either settles (no failure is remembered), or leaves the remembered
  failure and its waiting time alone, or has made an attempt that failed: then the failures of that source and policy are
  counted one further, the next attempt is due a delay after a reading of the monotonic clock, and if the same attempt
  had failed before, its own waiting time had passed. The delay lies between 2 and 60 seconds and never shrinks with
  further failures.
\<close>

theorem auto_switch_backoff:
  assumes "0 \<le> al_failures lp" "auto_switch_iteration env other lp s = (Inr lp', t)"
  shows "(al_failed_key lp' = None \<and> al_failures lp' = 0 \<or>
     al_failed_key lp' = al_failed_key lp \<and> al_failures lp' = al_failures lp \<and> al_retry_at lp' = al_retry_at lp \<or>
     (\<exists>key now w w'. al_failed_key lp' = Some key \<and>
        al_failures lp' = (if al_failed_key lp = Some key then al_failures lp + 1 else 1) \<and>
        ev_monotonic env w = (now, w') \<and> al_retry_at lp' = now + retry_delay (al_failures lp') * 1000000 \<and>
        2 \<le> retry_delay (al_failures lp') \<and> retry_delay (al_failures lp') \<le> 60 \<and>
        retry_delay (al_failures lp') \<le> retry_delay (al_failures lp' + 1) \<and>
        (al_failed_key lp = Some key \<longrightarrow> (\<exists>due w w'. ev_monotonic env w = (due, w') \<and> al_retry_at lp \<le> due)))) \<and>
     0 \<le> al_failures lp'"
proof -
  have "switch_step env lp lp'" using endsD(1) [OF iteration_backs_off assms(2)] .
  then consider "settled lp'" | "waits_as lp lp'" | "backed_off env lp lp'" by (auto simp: switch_step_def)
  then show ?thesis
  proof cases
    case 3
    then obtain key now where o: "al_failed_key lp' = Some key"
      "al_failures lp' = (if al_failed_key lp = Some key then al_failures lp + 1 else 1)" "clock_reading env now"
      "al_retry_at lp' = now + retry_delay (al_failures lp') * 1000000"
      "al_failed_key lp = Some key \<longrightarrow> (\<exists>due. clock_reading env due \<and> al_retry_at lp \<le> due)"
      unfolding backed_off_def by blast
    moreover have "1 \<le> al_failures lp'" using o(2) assms(1) by simp
    ultimately show ?thesis
      using retry_delay_bounds [of "al_failures lp'"] retry_delay_mono [of "al_failures lp'" "al_failures lp' + 1"]
      unfolding clock_reading_def by fastforce
  qed (use assms(1) in \<open>simp_all add: settled_def waits_as_def\<close>)
qed

definition switching_app :: "fake_hw app" where
  "switching_app = fake_app\<lparr>ap_world := fake_init\<lparr>fk_fail_next := Some ''apply_power_profile''\<rparr>,
     ap_config := (ap_config fake_app)\<lparr>cs_state := default_state\<lparr>st_power := (st_power default_state)\<lparr>pw_auto_switch :=
       (pw_auto_switch (st_power default_state))\<lparr>as_enabled := True\<rparr>\<rparr>\<rparr>\<rparr>\<rparr>"

theorem auto_switch_backoff_witness:
  "\<exists>lp' t. auto_switch_iteration fake_env id auto_loop_init switching_app = (Inr lp', t) \<and> al_failures lp' = 1 \<and>
     2 \<le> retry_delay (al_failures lp')"
proof -
  let ?run = "auto_switch_iteration fake_env id auto_loop_init switching_app"
  obtain x t where run: "?run = (x, t)" by fastforce
  have "case fst ?run of Inr lp \<Rightarrow> al_failures lp = 1 | Inl e \<Rightarrow> False" by code_simp
  then obtain lp where lp: "x = Inr lp" "al_failures lp = 1" by (cases x) (simp_all add: run)
  have "0 \<le> al_failures auto_loop_init" by (simp add: auto_loop_init_def)
  from auto_switch_backoff [OF this run [unfolded lp(1)]] lp run show ?thesis
    by (auto simp: auto_loop_init_def)
qed

end
