(* ===== verification/Codec.thy ===== *)
theory Codec
  imports Domain
begin

text \<open>
  \<^verbatim>\<open>honor_control/backend/dbus/codec.py\<close>: the wire form of results and snapshots. A D-Bus variant is, as in the code, a
  pair of a signature and a value, so wire values are Python values again (\<open>PTuple [PStr sig, v]\<close>). \<open>str\<close> of the
  elements of a list and the ISO form of a time are arguments.
\<close>

section \<open>Variants\<close>

definition variant :: "string \<Rightarrow> pv \<Rightarrow> pv" where
  "variant sig v = PTuple [PStr sig, v]"

definition is_dict :: "pv \<Rightarrow> bool" where
  "is_dict v = (case v of PDict _ \<Rightarrow> True | _ \<Rightarrow> False)"

text \<open>A list is sent as dictionaries if it has elements and all are dictionaries, else as strings.\<close>

fun to_variant :: "(pv \<Rightarrow> string) \<Rightarrow> pv \<Rightarrow> pv"
  and to_vardict :: "(pv \<Rightarrow> string) \<Rightarrow> pv dict \<Rightarrow> pv dict"
  and to_varlist :: "(pv \<Rightarrow> string) \<Rightarrow> pv list \<Rightarrow> pv list" where
  "to_variant str (PBool b) = variant ''b'' (PBool b)"
| "to_variant str (PInt i) = (if - (2 ^ 31) \<le> i \<and> i < 2 ^ 31 then variant ''i'' (PInt i) else variant ''x'' (PInt i))"
| "to_variant str (PFloat r) = variant ''d'' (PFloat r)"
| "to_variant str (PNonFinite s) = variant ''d'' (PNonFinite s)"
| "to_variant str (PStr s) = variant ''s'' (PStr s)"
| "to_variant str (PDict d) = variant ''a{sv}'' (PDict (to_vardict str d))"
| "to_variant str (PList xs) =
     (if xs \<noteq> [] \<and> list_all is_dict xs then variant ''aa{sv}'' (PList (to_varlist str xs))
      else variant ''as'' (PList (map (\<lambda>x. PStr (str x)) xs)))"
| "to_variant str (PTuple xs) =
     (if xs \<noteq> [] \<and> list_all is_dict xs then variant ''aa{sv}'' (PList (to_varlist str xs))
      else variant ''as'' (PList (map (\<lambda>x. PStr (str x)) xs)))"
| "to_variant str PNone = variant ''s'' (PStr [])"
| "to_vardict str [] = []"
| "to_vardict str ((k, v) # r) = (if v = PNone then to_vardict str r else (k, to_variant str v) # to_vardict str r)"
| "to_varlist str [] = []"
| "to_varlist str (x # r) = PDict (case x of PDict d \<Rightarrow> to_vardict str d | _ \<Rightarrow> []) # to_varlist str r"

text \<open>\<open>from_variant\<close>, which the client has a copy of: every pair is taken for a variant.\<close>

fun from_variant :: "pv \<Rightarrow> pv"
  and from_vardict :: "pv dict \<Rightarrow> pv dict"
  and from_varlist :: "pv list \<Rightarrow> pv list" where
  "from_variant (PTuple [a, b]) = from_variant b"
| "from_variant (PTuple []) = PList []"
| "from_variant (PTuple [a]) = PList (from_varlist [a])"
| "from_variant (PTuple (a # b # c # r)) = PList (from_varlist (a # b # c # r))"
| "from_variant (PDict d) = PDict (from_vardict d)"
| "from_variant (PList xs) = PList (from_varlist xs)"
| "from_variant v = v"
| "from_vardict [] = []"
| "from_vardict ((k, v) # r) = (k, from_variant v) # from_vardict r"
| "from_varlist [] = []"
| "from_varlist (x # r) = from_variant x # from_varlist r"

section \<open>Results and snapshots\<close>

text \<open>An assignment \<open>wire[key] = (sig, value)\<close>\<close>

definition operation_result_to_vardict :: "(pv \<Rightarrow> string) \<Rightarrow> operation_result \<Rightarrow> pv dict" where
  "operation_result_to_vardict str r =
     AList.update ''sequence'' (variant ''t'' (PInt (res_sequence r))) (to_vardict str (result_to_dict r))"

definition opt_pv :: "('a \<Rightarrow> pv) \<Rightarrow> 'a option \<Rightarrow> pv" where
  "opt_pv f v = (case v of None \<Rightarrow> PNone | Some x \<Rightarrow> f x)"

definition str_list :: "string list \<Rightarrow> pv" where
  "str_list xs = PList (map PStr xs)"

definition service_to_dict :: "service_health \<Rightarrow> pv dict" where
  "service_to_dict h =
     [(''version'', PStr (sh_version h)), (''uptime'', PInt (sh_uptime h)), (''overall'', PStr (sh_overall h)),
      (''controller_health'', PDict (map (\<lambda>(k, v). (k, PStr v)) (sh_controller_health h))),
      (''dependency_ok'', PBool (sh_dependency_ok h)), (''config_valid'', PBool (sh_config_valid h)),
      (''stale_domains'', str_list (sh_stale_domains h)), (''last_fault'', PStr (sh_last_fault h))]"

definition platform_to_dict :: "platform_info \<Rightarrow> pv dict" where
  "platform_to_dict p =
     [(''vendor'', PStr (pi_vendor p)), (''product'', PStr (pi_product p)), (''model'', PStr (pi_model p)),
      (''cpu_model'', PStr (pi_cpu_model p)), (''matched'', PBool (pi_matched p)), (''confidence'', PStr (pi_confidence p))]"

definition capability_to_dict :: "capability \<Rightarrow> pv" where
  "capability_to_dict c = PDict
     [(''status'', PStr (capability_status_str (cap_status c))), (''reason_code'', PStr (cap_reason_code c)),
      (''message'', PStr (cap_message c)), (''resources'', str_list (cap_resources c))]"

definition capabilities_to_dict :: "capability dict \<Rightarrow> pv dict" where
  "capabilities_to_dict cs = map (\<lambda>(k, c). (k, capability_to_dict c)) cs"

definition battery_to_dict :: "battery_snapshot \<Rightarrow> pv dict" where
  "battery_to_dict b =
     [(''available'', PBool (bs_available b)), (''capacity_percent'', opt_pv PInt (bs_capacity_percent b)),
      (''status'', PStr (case bs_status b of None \<Rightarrow> [] | Some k \<Rightarrow> battery_status_str k)),
      (''ac_online'', opt_pv PBool (bs_ac_online b)), (''observed_end'', opt_pv PInt (bs_observed_end b)),
      (''observed_start'', opt_pv PInt (bs_observed_start b)), (''desired_end'', opt_pv PInt (bs_desired_end b)),
      (''desired_start'', opt_pv PInt (bs_desired_start b)), (''mode'', PStr (charge_mode_str (bs_mode b))),
      (''last_error'', PStr (bs_last_error b))]"

definition profile_to_wire :: "power_profile_entry \<Rightarrow> pv" where
  "profile_to_wire p = PDict
     [(''name'', PStr (pe_name p)), (''label'', PStr (pe_label p)), (''description'', PStr (pe_description p)),
      (''pl1_uw'', PInt (pe_pl1_uw p)), (''pl2_uw'', PInt (pe_pl2_uw p)), (''governor'', PStr (pe_governor p)),
      (''epp'', PStr (pe_epp p)), (''ppd_profile'', PStr (pe_ppd_profile p)), (''turbo_enabled'', PBool (pe_turbo_enabled p)),
      (''max_perf_pct'', PInt (pe_max_perf_pct p)), (''built_in'', PBool (pe_built_in p))]"

definition power_to_dict :: "power_snapshot \<Rightarrow> pv dict" where
  "power_to_dict p =
     [(''available'', PBool (ps_available p)), (''desired_profile'', PStr (ps_desired_profile p)),
      (''applied_profile'', PStr (ps_applied_profile p)), (''observed_summary'', PDict (ps_observed_summary p)),
      (''ac_online'', opt_pv PBool (ps_ac_online p)), (''auto_switch_enabled'', PBool (ps_auto_switch_enabled p)),
      (''auto_switch_on_ac'', PStr (ps_auto_switch_on_ac p)), (''auto_switch_on_battery'', PStr (ps_auto_switch_on_battery p)),
      (''auto_switch_on_ac_script'', PStr (ps_auto_switch_on_ac_script p)),
      (''auto_switch_on_battery_script'', PStr (ps_auto_switch_on_battery_script p)),
      (''auto_switch_last_script_status'', PStr (ps_auto_switch_last_script_status p)),
      (''profiles'', PList (map profile_to_wire (ps_profiles p))), (''last_error'', PStr (ps_last_error p))]"

definition fan_to_dict :: "(int \<Rightarrow> string) \<Rightarrow> fan_snapshot \<Rightarrow> pv dict" where
  "fan_to_dict isof f =
     [(''available'', PBool (fs_available f)), (''mode'', PStr (fan_mode_str (fs_mode f))),
      (''desired_mode'', PStr (fan_mode_str (fs_desired_mode f))), (''temp_mc'', opt_pv PInt (fs_temp_mc f)),
      (''target_speed'', opt_pv PInt (fs_target_speed f)), (''measured_rpm'', opt_pv PInt (fs_measured_rpm f)),
      (''curves'', PDict (map (\<lambda>(k, v). (k, PStr v)) (fs_curves f))),
      (''manual_expires_at'', PStr (case fs_manual_expires_at f of None \<Rightarrow> [] | Some t \<Rightarrow> isof t)),
      (''last_error'', PStr (fs_last_error f))]"

definition gesture_to_wire :: "gesture_entry \<Rightarrow> pv" where
  "gesture_to_wire m = PDict
     [(''id'', PStr (ge_id m)), (''label'', PStr (ge_label m)), (''enabled'', PBool (ge_enabled m)),
      (''mapping'', PStr (ge_mapping m)), (''default_mapping'', PStr (ge_default_mapping m)), (''error'', PStr (ge_error m))]"

definition gestures_to_dict :: "gestures_snapshot \<Rightarrow> pv dict" where
  "gestures_to_dict g =
     [(''available'', PBool (gs_available g)), (''daemon_enabled'', PBool (gs_daemon_enabled g)),
      (''daemon_running'', PBool (gs_daemon_running g)), (''device_found'', PBool (gs_device_found g)),
      (''permission_denied'', PBool (gs_permission_denied g)), (''device_path'', PStr (gs_device_path g)),
      (''reports_seen'', PInt (gs_reports_seen g)), (''gestures_emitted'', PInt (gs_gestures_emitted g)),
      (''mappings'', PList (map gesture_to_wire (gs_mappings g))),
      (''wmi_transport_present'', PBool (gs_wmi_transport_present g)),
      (''firmware_settings_supported'', PBool (gs_firmware_settings_supported g)),
      (''firmware_settings'', PDict (map (\<lambda>(k, v). (k, PInt v)) (gs_firmware_settings g))),
      (''last_error'', PStr (gs_last_error g))]"

definition gpu_to_dict :: "gpu_snapshot \<Rightarrow> pv dict" where
  "gpu_to_dict g =
     [(''available'', PBool (gp_available g)), (''mitigation_enabled'', PBool (gp_mitigation_enabled g)),
      (''target_cpu'', opt_pv PInt (gp_target_cpu g)), (''irqs'', str_list (gp_irqs g)), (''last_error'', PStr (gp_last_error g))]"

definition snapshot_dict :: "(int \<Rightarrow> string) \<Rightarrow> system_snapshot \<Rightarrow> pv dict" where
  "snapshot_dict isof s =
     [(''api_version'', PInt (ss_api_version s)), (''schema_version'', PInt (ss_schema_version s)),
      (''sequence'', PInt (ss_sequence s)), (''observed_at'', PStr (isof (ss_observed_at s))),
      (''service'', PDict (service_to_dict (ss_service s))), (''platform'', PDict (platform_to_dict (ss_platform s))),
      (''capabilities'', PDict (capabilities_to_dict (ss_capabilities s))),
      (''battery'', PDict (battery_to_dict (ss_battery s))), (''power'', PDict (power_to_dict (ss_power s))),
      (''fan'', PDict (fan_to_dict isof (ss_fan s))), (''gestures'', PDict (gestures_to_dict (ss_gestures s))),
      (''gpu'', PDict (gpu_to_dict (ss_gpu s))), (''stale_domains'', str_list (ss_stale_domains s)),
      (''errors'', str_list (ss_errors s))]"

definition snapshot_to_vardict :: "(pv \<Rightarrow> string) \<Rightarrow> (int \<Rightarrow> string) \<Rightarrow> system_snapshot \<Rightarrow> pv dict" where
  "snapshot_to_vardict str isof s =
     AList.update ''sequence'' (variant ''t'' (PInt (ss_sequence s)))
       (AList.update ''schema_version'' (variant ''u'' (PInt (ss_schema_version s)))
         (AList.update ''api_version'' (variant ''u'' (PInt (ss_api_version s)))
           (to_vardict str (snapshot_dict isof s))))"

section \<open>What survives the wire\<close>

definition is_str :: "pv \<Rightarrow> bool" where
  "is_str v = (case v of PStr _ \<Rightarrow> True | _ \<Rightarrow> False)"

text \<open>Values that are sent as they are: no \<open>None\<close>, no tuple, and lists of strings or non-empty lists of dictionaries.\<close>

fun wire_plain :: "pv \<Rightarrow> bool" where
  "wire_plain (PDict d) = list_all (\<lambda>(k, v). v \<noteq> PNone \<and> wire_plain v) d"
| "wire_plain (PList xs) = (list_all is_str xs \<or> xs \<noteq> [] \<and> list_all (\<lambda>x. is_dict x \<and> wire_plain x) xs)"
| "wire_plain (PTuple xs) = False"
| "wire_plain PNone = False"
| "wire_plain _ = True"

lemma from_variant_variant [simp]: "from_variant (variant sig v) = from_variant v"
  by (simp add: variant_def)

lemma from_varlist_map: "from_varlist xs = map from_variant xs"
  by (induction xs) auto

lemma from_vardict_map: "from_vardict d = map (\<lambda>(k, v). (k, from_variant v)) d"
  by (induction d) auto

lemma variant_roundtrip:
  "wire_plain v \<Longrightarrow> (\<And>s. str (PStr s) = s) \<Longrightarrow> from_variant (to_variant str v) = v"
  "list_all (\<lambda>(k, v). v \<noteq> PNone \<and> wire_plain v) d \<Longrightarrow> (\<And>s. str (PStr s) = s) \<Longrightarrow> from_vardict (to_vardict str d) = d"
  "list_all (\<lambda>x. is_dict x \<and> wire_plain x) xs \<Longrightarrow> (\<And>s. str (PStr s) = s) \<Longrightarrow> from_varlist (to_varlist str xs) = xs"
proof (induction str v and str d and str xs rule: to_variant_to_vardict_to_varlist.induct)
  case (7 str xs)
  have strs: "from_varlist (map (\<lambda>x. PStr (str x)) xs) = xs" if "list_all is_str xs"
    using that 7(3) by (induction xs) (auto simp: is_str_def split: pv.splits)
  show ?case
  proof (cases "xs \<noteq> [] \<and> list_all is_dict xs")
    case True
    then have "\<not> list_all is_str xs" by (cases xs) (auto simp: is_dict_def is_str_def split: pv.splits)
    with 7(2) True 7(1) [OF True _ 7(3)] show ?thesis by simp
  next
    case False
    with 7(2) have "list_all is_str xs" by (auto simp: list_all_iff)
    with False strs show ?thesis by auto
  qed
qed (auto simp: is_dict_def split: pv.splits)

text \<open>What the other side sees of a member: nothing of \<open>None\<close>.\<close>

definition seen :: "(pv \<Rightarrow> string) \<Rightarrow> pv \<Rightarrow> pv" where
  "seen str v = (if v = PNone then PNone else from_variant (to_variant str v))"

lemma seen_simps [simp]:
  "seen str PNone = PNone" "seen str (PBool b) = PBool b" "seen str (PInt i) = PInt i" "seen str (PStr x) = PStr x"
  "seen str (PDict d) = PDict (from_vardict (to_vardict str d))"
  by (simp_all add: seen_def)

lemma seen_opt [simp]: "seen str (opt_pv PInt v) = opt_pv PInt v" "seen str (opt_pv PBool w) = opt_pv PBool w"
  by (simp_all add: opt_pv_def split: option.splits)

lemma seen_plain: "wire_plain v \<Longrightarrow> (\<And>s. str (PStr s) = s) \<Longrightarrow> seen str v = v"
  using variant_roundtrip(1) by (auto simp: seen_def)

lemma seen_str_list [simp]: "(\<And>s. str (PStr s) = s) \<Longrightarrow> seen str (str_list xs) = str_list xs"
  by (rule seen_plain) (simp_all add: str_list_def list_all_iff is_str_def)

text \<open>A list of dictionaries arrives element by element (the empty one as an empty list of strings).\<close>

lemma seen_dicts: "list_all is_dict xs \<Longrightarrow> seen str (PList xs) = PList (map (seen str) xs)"
proof -
  have "list_all is_dict xs \<Longrightarrow> from_varlist (to_varlist str xs) = map (seen str) xs"
    by (induction xs) (auto simp: is_dict_def split: pv.splits)
  moreover assume "list_all is_dict xs"
  ultimately show ?thesis by (simp add: seen_def)
qed

lemma from_to_keys: "fst ` set (from_vardict (to_vardict str d)) \<subseteq> fst ` set d"
proof (induction d)
  case (Cons e d)
  then have "fst ` set (from_vardict (to_vardict str (e # d))) \<subseteq> insert (fst e) (fst ` set (from_vardict (to_vardict str d)))"
    by (cases e) auto
  also have "\<dots> \<subseteq> insert (fst e) (fst ` set d)" using Cons by (rule insert_mono)
  finally show ?case by simp
qed simp

lemma wire_lookup: "dict_ok d \<Longrightarrow> dget (from_vardict (to_vardict str d)) k PNone = seen str (dget d k PNone)"
proof (induction d)
  case (Cons e d)
  obtain k' v where e: "e = (k', v)" by fastforce
  have ok: "dict_ok d" "k' \<notin> fst ` set d" using Cons.prems by (simp_all add: e dict_ok_def)
  have "map_of (from_vardict (to_vardict str d)) k' = None"
    using ok(2) from_to_keys [of str d] by (auto simp: map_of_eq_None_iff)
  with ok Cons.IH show ?case by (auto simp: e dget_def seen_def)
qed (simp add: dget_def)

text \<open>A dictionary whose members are all there keeps its members and their order.\<close>

lemma wire_dict: "list_all (\<lambda>(k, v). v \<noteq> PNone) d \<Longrightarrow> from_vardict (to_vardict str d) = map (\<lambda>(k, v). (k, seen str v)) d"
  by (induction d) (auto simp: seen_def)

end
