(* ===== verification/Client.thy ===== *)
theory Client
  imports Codec
begin

text \<open>
  \<^verbatim>\<open>honor_control/client/sdbus_client.py\<close> and \<^verbatim>\<open>client/errors.py\<close>: the classification of D-Bus errors, the decoding of
  results and snapshots with its type checks, and the coalescing of state-change signals. Python's \<open>str\<close>,
  \<open>datetime.fromisoformat\<close> and the time of a missing timestamp are arguments.
\<close>

section \<open>Errors\<close>

text \<open>\<open>ClientError\<close> and, where the code lets one through, another exception.\<close>

datatype client_exn = ClientError transport_error string | Client_raw exn

definition client_error :: "transport_error \<Rightarrow> string \<Rightarrow> client_exn" where
  "client_error code m = ClientError code (if m = [] then transport_error_str code else m)"

fun is_infix :: "string \<Rightarrow> string \<Rightarrow> bool" where
  "is_infix p [] = (p = [])"
| "is_infix p (c # s) = (take (length p) (c # s) = p \<or> is_infix p s)"

definition classify_dbus_error :: "string \<Rightarrow> string \<Rightarrow> client_exn" where
  "classify_dbus_error name m =
     (if is_infix ''NotAuthorized'' name then client_error TE_NOT_AUTHORIZED m
      else if is_infix ''InvalidArgument'' name then client_error TE_INVALID_REQUEST m
      else if is_infix ''Unsupported'' name then client_error TE_FEATURE_UNAVAILABLE m
      else if is_infix ''Unavailable'' name then client_error TE_FEATURE_UNAVAILABLE m
      else if is_infix ''Busy'' name then client_error TE_BUSY m
      else if is_infix ''Timeout'' name then client_error TE_TIMEOUT m
      else if is_infix ''Dependency'' name then client_error TE_FEATURE_UNAVAILABLE m
      else if is_infix ''Internal'' name then client_error TE_INTERNAL m
      else if is_infix ''ServiceUnknown'' name \<or> is_infix ''NameHasNoOwner'' name then client_error TE_SERVICE_UNAVAILABLE m
      else if is_infix ''NoReply'' name then client_error TE_TIMEOUT m
      else client_error TE_INTERNAL m)"

section \<open>Checked access\<close>

abbreviation protocol_error :: "string \<Rightarrow> client_exn + 'a" where
  "protocol_error m \<equiv> Inl (ClientError TE_INTERNAL m)"

text \<open>\<open>d.get(key)\<close> is \<open>dget d key PNone\<close>.\<close>

definition w_dict :: "pv \<Rightarrow> client_exn + pv dict" where
  "w_dict v = (case v of PNone \<Rightarrow> Inr [] | PDict d \<Rightarrow> Inr d | _ \<Rightarrow> protocol_error ''Expected a dictionary on D-Bus'')"

definition w_list :: "pv \<Rightarrow> client_exn + pv list" where
  "w_list v = (case v of PNone \<Rightarrow> Inr [] | PList xs \<Rightarrow> Inr xs | PTuple xs \<Rightarrow> Inr xs
     | _ \<Rightarrow> protocol_error ''Expected an array on D-Bus'')"

definition w_str :: "pv \<Rightarrow> string \<Rightarrow> client_exn + string" where
  "w_str v dflt = (case v of PNone \<Rightarrow> Inr dflt | PStr s \<Rightarrow> Inr s | _ \<Rightarrow> protocol_error ''Expected a string on D-Bus'')"

definition w_str_tuple :: "(pv \<Rightarrow> string) \<Rightarrow> pv \<Rightarrow> client_exn + string list" where
  "w_str_tuple str v = rbind (w_list v) (\<lambda>xs. Inr (map str xs))"

definition w_int :: "pv \<Rightarrow> int option \<Rightarrow> client_exn + int option" where
  "w_int v dflt = (case v of PNone \<Rightarrow> Inr dflt | PStr [] \<Rightarrow> Inr dflt | PInt i \<Rightarrow> Inr (Some i)
     | _ \<Rightarrow> protocol_error ''Expected an integer on D-Bus'')"

text \<open>\<open>_int(value, default) or default\<close>\<close>

definition w_int_or :: "pv \<Rightarrow> int \<Rightarrow> client_exn + int" where
  "w_int_or v dflt = rbind (w_int v (Some dflt)) (\<lambda>i. Inr (case i of None \<Rightarrow> dflt | Some i \<Rightarrow> if i = 0 then dflt else i))"

definition w_bool :: "pv \<Rightarrow> client_exn + bool" where
  "w_bool v = (case v of PNone \<Rightarrow> Inr False | PBool b \<Rightarrow> Inr b | _ \<Rightarrow> protocol_error ''Expected a boolean on D-Bus'')"

definition w_optional_bool :: "pv \<Rightarrow> client_exn + bool option" where
  "w_optional_bool v = (if v = PNone then Inr None else rbind (w_bool v) (\<lambda>b. Inr (Some b)))"

definition w_enum :: "(string \<Rightarrow> unit + 'm) \<Rightarrow> pv \<Rightarrow> 'm \<Rightarrow> client_exn + 'm" where
  "w_enum of_str v dflt = (if v = PNone then Inr dflt else rbind (w_str v []) (\<lambda>s.
     case of_str s of Inr m \<Rightarrow> Inr m | Inl _ \<Rightarrow> protocol_error ''Invalid enum value on D-Bus''))"

definition w_optional_enum :: "(string \<Rightarrow> unit + 'm) \<Rightarrow> pv \<Rightarrow> client_exn + 'm option" where
  "w_optional_enum of_str v = (if v \<in> {PNone, PStr []} then Inr None else rbind (w_str v []) (\<lambda>s.
     case of_str s of Inr m \<Rightarrow> Inr (Some m) | Inl _ \<Rightarrow> protocol_error ''Invalid enum value on D-Bus''))"

definition w_optional_datetime :: "(string \<Rightarrow> int option) \<Rightarrow> pv \<Rightarrow> client_exn + int option" where
  "w_optional_datetime fromiso v = (if v \<in> {PNone, PStr []} then Inr None else rbind (w_str v []) (\<lambda>s.
     case fromiso s of None \<Rightarrow> protocol_error ''Invalid timestamp on D-Bus'' | Some t \<Rightarrow> Inr (Some t)))"

definition w_datetime :: "(string \<Rightarrow> int option) \<Rightarrow> int \<Rightarrow> pv \<Rightarrow> client_exn + int" where
  "w_datetime fromiso now v = rbind (w_optional_datetime fromiso v) (\<lambda>t. Inr (case t of None \<Rightarrow> now | Some t \<Rightarrow> t))"

text \<open>\<open>int(value)\<close>\<close>

definition to_int :: "pv \<Rightarrow> client_exn + int" where
  "to_int v = (case v of
     PInt i \<Rightarrow> Inr i | PBool b \<Rightarrow> Inr (of_bool b)
   | PFloat r \<Rightarrow> Inr (if r < 0 then - \<lfloor>- r\<rfloor> else \<lfloor>r\<rfloor>)
   | PStr s \<Rightarrow> (case py_int 10 s of Some i \<Rightarrow> Inr i | None \<Rightarrow> Inl (Client_raw (ValueError ''invalid literal for int()'')))
   | PNonFinite s \<Rightarrow> Inl (Client_raw (OtherError ''cannot convert float to integer''))
   | _ \<Rightarrow> Inl (Client_raw (TypeError ''int() argument must be a string, a bytes-like object or a real number'')))"

text \<open>\<open>{str(k): f(v) for k, v in d.items()}\<close>\<close>

definition map_dict :: "(pv \<Rightarrow> client_exn + 'a) \<Rightarrow> pv dict \<Rightarrow> client_exn + 'a dict" where
  "map_dict f d = rmap (\<lambda>(k, v). rbind (f v) (\<lambda>x. Inr (k, x))) d"

section \<open>Results\<close>

definition decode_result :: "pv \<Rightarrow> client_exn + operation_result" where
  "decode_result data = (case data of
     PDict raw \<Rightarrow>
       let d = from_vardict raw in
       rbind (w_str (dget d ''status'' PNone) ''failed'') (\<lambda>status_str.
       case operation_status_of_str status_str of
         Inl _ \<Rightarrow> protocol_error ''Invalid operation status''
       | Inr status \<Rightarrow>
       rbind (w_str (dget d ''code'' PNone) []) (\<lambda>code.
       rbind (w_str (dget d ''message'' PNone) []) (\<lambda>message.
       rbind (w_bool (dget d ''changed'' PNone)) (\<lambda>changed.
       rbind (w_bool (dget d ''persisted'' PNone)) (\<lambda>persisted.
       rbind (w_bool (dget d ''applied'' PNone)) (\<lambda>applied.
       rbind (w_int_or (dget d ''sequence'' PNone) 0) (\<lambda>n.
       Inr \<lparr>res_status = status, res_code = code, res_message = message, res_changed = changed,
            res_persisted = persisted, res_applied = applied, res_sequence = n,
            res_details = (case dget d ''details'' (PDict []) of PDict det \<Rightarrow> det | _ \<Rightarrow> [])\<rparr>)))))))
   | _ \<Rightarrow> protocol_error ''Result is not a dict'')"

section \<open>Snapshots\<close>

definition decode_capability :: "(pv \<Rightarrow> string) \<Rightarrow> pv \<Rightarrow> client_exn + capability" where
  "decode_capability str raw =
     rbind (w_dict raw) (\<lambda>d.
     rbind (w_enum capability_status_of_str (dget d ''status'' PNone) CS_UNAVAILABLE) (\<lambda>status.
     rbind (w_str (dget d ''reason_code'' PNone) []) (\<lambda>reason.
     rbind (w_str (dget d ''message'' PNone) []) (\<lambda>message.
     rbind (w_str_tuple str (dget d ''resources'' PNone)) (\<lambda>resources.
     Inr \<lparr>cap_status = status, cap_reason_code = reason, cap_message = message, cap_resources = resources\<rparr>)))))"

definition decode_gesture :: "pv \<Rightarrow> client_exn + gesture_entry" where
  "decode_gesture raw =
     rbind (w_dict raw) (\<lambda>d.
     rbind (w_str (dget d ''id'' PNone) []) (\<lambda>gid.
     rbind (w_str (dget d ''label'' PNone) []) (\<lambda>label.
     rbind (w_bool (dget d ''enabled'' PNone)) (\<lambda>enabled.
     rbind (w_str (dget d ''mapping'' PNone) []) (\<lambda>mapping.
     rbind (w_str (dget d ''default_mapping'' PNone) []) (\<lambda>dflt.
     rbind (w_str (dget d ''error'' PNone) []) (\<lambda>error.
     Inr \<lparr>ge_id = gid, ge_label = label, ge_enabled = enabled, ge_mapping = mapping, ge_default_mapping = dflt,
          ge_error = error\<rparr>)))))))"

definition decode_service :: "(pv \<Rightarrow> string) \<Rightarrow> pv dict \<Rightarrow> client_exn + service_health" where
  "decode_service str d =
     rbind (w_str (dget d ''version'' PNone) []) (\<lambda>version.
     rbind (w_int_or (dget d ''uptime'' PNone) 0) (\<lambda>uptime.
     rbind (w_str (dget d ''overall'' PNone) ''degraded'') (\<lambda>overall.
     rbind (rbind (w_dict (dget d ''controller_health'' PNone)) (map_dict (\<lambda>v. w_str v []))) (\<lambda>health.
     rbind (w_bool (dget d ''dependency_ok'' PNone)) (\<lambda>dep.
     rbind (w_bool (dget d ''config_valid'' PNone)) (\<lambda>cfg.
     rbind (w_str_tuple str (dget d ''stale_domains'' PNone)) (\<lambda>stale.
     rbind (w_str (dget d ''last_fault'' PNone) []) (\<lambda>fault.
     Inr \<lparr>sh_version = version, sh_uptime = uptime, sh_overall = overall, sh_controller_health = health,
          sh_dependency_ok = dep, sh_config_valid = cfg, sh_stale_domains = stale, sh_last_fault = fault\<rparr>))))))))"

definition decode_platform :: "pv dict \<Rightarrow> client_exn + platform_info" where
  "decode_platform d =
     rbind (w_str (dget d ''vendor'' PNone) []) (\<lambda>vendor.
     rbind (w_str (dget d ''product'' PNone) []) (\<lambda>product.
     rbind (w_str (dget d ''model'' PNone) []) (\<lambda>model.
     rbind (w_str (dget d ''cpu_model'' PNone) []) (\<lambda>cpu.
     rbind (w_bool (dget d ''matched'' PNone)) (\<lambda>matched.
     rbind (w_str (dget d ''confidence'' PNone) ''none'') (\<lambda>confidence.
     Inr \<lparr>pi_vendor = vendor, pi_product = product, pi_model = model, pi_cpu_model = cpu, pi_matched = matched,
          pi_confidence = confidence\<rparr>))))))"

definition decode_battery :: "pv dict \<Rightarrow> client_exn + battery_snapshot" where
  "decode_battery d =
     rbind (w_bool (dget d ''available'' PNone)) (\<lambda>available.
     rbind (w_int (dget d ''capacity_percent'' PNone) None) (\<lambda>capacity.
     rbind (w_optional_enum battery_status_of_str (dget d ''status'' PNone)) (\<lambda>status.
     rbind (w_optional_bool (dget d ''ac_online'' PNone)) (\<lambda>ac.
     rbind (w_int (dget d ''observed_end'' PNone) None) (\<lambda>oe.
     rbind (w_int (dget d ''observed_start'' PNone) None) (\<lambda>os.
     rbind (w_int (dget d ''desired_end'' PNone) None) (\<lambda>de.
     rbind (w_int (dget d ''desired_start'' PNone) None) (\<lambda>ds.
     rbind (w_enum charge_mode_of_str (dget d ''mode'' PNone) CM_CUSTOM) (\<lambda>mode.
     rbind (w_str (dget d ''last_error'' PNone) []) (\<lambda>err.
     Inr \<lparr>bs_available = available, bs_capacity_percent = capacity, bs_status = status, bs_ac_online = ac,
          bs_observed_end = oe, bs_observed_start = os, bs_desired_end = de, bs_desired_start = ds, bs_mode = mode,
          bs_last_error = err\<rparr>))))))))))"

definition decode_profile :: "pv dict \<Rightarrow> client_exn + power_profile_entry" where
  "decode_profile d =
     rbind (w_str (dget d ''name'' PNone) []) (\<lambda>name.
     rbind (w_str (dget d ''label'' PNone) []) (\<lambda>label.
     rbind (w_str (dget d ''description'' PNone) []) (\<lambda>description.
     rbind (w_int_or (dget d ''pl1_uw'' PNone) 25000000) (\<lambda>pl1.
     rbind (w_int_or (dget d ''pl2_uw'' PNone) 35000000) (\<lambda>pl2.
     rbind (w_str (dget d ''governor'' PNone) []) (\<lambda>governor.
     rbind (w_str (dget d ''epp'' PNone) []) (\<lambda>epp.
     rbind (w_str (dget d ''ppd_profile'' PNone) []) (\<lambda>ppd.
     rbind (if map_of d ''turbo_enabled'' = None then Inr True else w_bool (dget d ''turbo_enabled'' PNone)) (\<lambda>turbo.
     rbind (w_int_or (dget d ''max_perf_pct'' PNone) 100) (\<lambda>pct.
     rbind (w_bool (dget d ''built_in'' PNone)) (\<lambda>built_in.
     Inr \<lparr>pe_name = name, pe_label = label, pe_description = description, pe_pl1_uw = pl1, pe_pl2_uw = pl2,
          pe_governor = governor, pe_epp = epp, pe_ppd_profile = ppd, pe_turbo_enabled = turbo, pe_max_perf_pct = pct,
          pe_built_in = built_in\<rparr>)))))))))))"

text \<open>Entries without a name are left out.\<close>

fun decode_profiles :: "pv list \<Rightarrow> client_exn + power_profile_entry list" where
  "decode_profiles [] = Inr []"
| "decode_profiles (raw # r) =
     rbind (w_dict raw) (\<lambda>d.
     if py_truthy (dget d ''name'' PNone)
     then rbind (decode_profile d) (\<lambda>p. rbind (decode_profiles r) (\<lambda>ps. Inr (p # ps)))
     else decode_profiles r)"

definition decode_power :: "pv dict \<Rightarrow> client_exn + power_snapshot" where
  "decode_power d =
     rbind (w_bool (dget d ''available'' PNone)) (\<lambda>available.
     rbind (w_str (dget d ''desired_profile'' PNone) []) (\<lambda>desired.
     rbind (w_str (dget d ''applied_profile'' PNone) []) (\<lambda>applied.
     rbind (w_dict (dget d ''observed_summary'' PNone)) (\<lambda>observed.
     rbind (w_optional_bool (dget d ''ac_online'' PNone)) (\<lambda>ac.
     rbind (w_bool (dget d ''auto_switch_enabled'' PNone)) (\<lambda>auto.
     rbind (w_str (dget d ''auto_switch_on_ac'' PNone) []) (\<lambda>on_ac.
     rbind (w_str (dget d ''auto_switch_on_battery'' PNone) []) (\<lambda>on_battery.
     rbind (w_str (dget d ''auto_switch_on_ac_script'' PNone) []) (\<lambda>ac_script.
     rbind (w_str (dget d ''auto_switch_on_battery_script'' PNone) []) (\<lambda>battery_script.
     rbind (w_str (dget d ''auto_switch_last_script_status'' PNone) []) (\<lambda>script_status.
     rbind (rbind (w_list (dget d ''profiles'' PNone)) decode_profiles) (\<lambda>profiles.
     rbind (w_str (dget d ''last_error'' PNone) []) (\<lambda>err.
     Inr \<lparr>ps_available = available, ps_desired_profile = desired, ps_applied_profile = applied,
          ps_observed_summary = observed, ps_ac_online = ac, ps_auto_switch_enabled = auto, ps_auto_switch_on_ac = on_ac,
          ps_auto_switch_on_battery = on_battery, ps_auto_switch_on_ac_script = ac_script,
          ps_auto_switch_on_battery_script = battery_script, ps_auto_switch_last_script_status = script_status,
          ps_profiles = profiles, ps_last_error = err\<rparr>)))))))))))))"

definition decode_fan :: "(string \<Rightarrow> int option) \<Rightarrow> pv dict \<Rightarrow> client_exn + fan_snapshot" where
  "decode_fan fromiso d =
     rbind (w_bool (dget d ''available'' PNone)) (\<lambda>available.
     rbind (w_enum fan_mode_of_str (dget d ''mode'' PNone) FM_STOCK) (\<lambda>mode.
     rbind (w_enum fan_mode_of_str (dget d ''desired_mode'' PNone) FM_STOCK) (\<lambda>desired.
     rbind (w_int (dget d ''temp_mc'' PNone) None) (\<lambda>temp.
     rbind (w_int (dget d ''target_speed'' PNone) None) (\<lambda>target.
     rbind (w_int (dget d ''measured_rpm'' PNone) None) (\<lambda>rpm.
     rbind (rbind (w_dict (dget d ''curves'' PNone)) (map_dict (\<lambda>v. w_str v []))) (\<lambda>curves.
     rbind (w_optional_datetime fromiso (dget d ''manual_expires_at'' PNone)) (\<lambda>expires.
     rbind (w_str (dget d ''last_error'' PNone) []) (\<lambda>err.
     Inr \<lparr>fs_available = available, fs_mode = mode, fs_desired_mode = desired, fs_temp_mc = temp, fs_target_speed = target,
          fs_measured_rpm = rpm, fs_curves = curves, fs_manual_expires_at = expires, fs_last_error = err\<rparr>)))))))))"

definition decode_gestures :: "gesture_entry list \<Rightarrow> pv dict \<Rightarrow> client_exn + gestures_snapshot" where
  "decode_gestures mappings d =
     rbind (w_bool (dget d ''available'' PNone)) (\<lambda>available.
     rbind (w_bool (dget d ''daemon_enabled'' PNone)) (\<lambda>enabled.
     rbind (w_bool (dget d ''daemon_running'' PNone)) (\<lambda>running.
     rbind (w_bool (dget d ''device_found'' PNone)) (\<lambda>found.
     rbind (w_bool (dget d ''permission_denied'' PNone)) (\<lambda>denied.
     rbind (w_str (dget d ''device_path'' PNone) []) (\<lambda>path.
     rbind (w_int_or (dget d ''reports_seen'' PNone) 0) (\<lambda>reports.
     rbind (w_int_or (dget d ''gestures_emitted'' PNone) 0) (\<lambda>emitted.
     rbind (w_bool (dget d ''wmi_transport_present'' PNone)) (\<lambda>wmi.
     rbind (w_bool (dget d ''firmware_settings_supported'' PNone)) (\<lambda>supported.
     rbind (rbind (w_dict (dget d ''firmware_settings'' PNone)) (map_dict to_int)) (\<lambda>settings.
     rbind (w_str (dget d ''last_error'' PNone) []) (\<lambda>err.
     Inr \<lparr>gs_available = available, gs_daemon_enabled = enabled, gs_daemon_running = running, gs_device_found = found,
          gs_permission_denied = denied, gs_device_path = path, gs_reports_seen = reports, gs_gestures_emitted = emitted,
          gs_mappings = mappings, gs_wmi_transport_present = wmi, gs_firmware_settings_supported = supported,
          gs_firmware_settings = settings, gs_last_error = err\<rparr>))))))))))))"

definition decode_gpu :: "(pv \<Rightarrow> string) \<Rightarrow> pv dict \<Rightarrow> client_exn + gpu_snapshot" where
  "decode_gpu str d =
     rbind (w_bool (dget d ''available'' PNone)) (\<lambda>available.
     rbind (w_bool (dget d ''mitigation_enabled'' PNone)) (\<lambda>enabled.
     rbind (w_int (dget d ''target_cpu'' PNone) None) (\<lambda>cpu.
     rbind (w_str_tuple str (dget d ''irqs'' PNone)) (\<lambda>irqs.
     rbind (w_str (dget d ''last_error'' PNone) []) (\<lambda>err.
     Inr \<lparr>gp_available = available, gp_mitigation_enabled = enabled, gp_target_cpu = cpu, gp_irqs = irqs, gp_last_error = err\<rparr>)))))"

text \<open>The parts are checked to be dictionaries first, then the capabilities and the gesture rows are read, then the fields.\<close>

definition decode_snapshot :: "(pv \<Rightarrow> string) \<Rightarrow> (string \<Rightarrow> int option) \<Rightarrow> int \<Rightarrow> pv \<Rightarrow> client_exn + system_snapshot" where
  "decode_snapshot str fromiso now data = (case data of
     PDict raw \<Rightarrow>
       let d = from_vardict raw in
       rbind (w_dict (dget d ''service'' PNone)) (\<lambda>service_d.
       rbind (w_dict (dget d ''platform'' PNone)) (\<lambda>platform_d.
       rbind (w_dict (dget d ''battery'' PNone)) (\<lambda>battery_d.
       rbind (w_dict (dget d ''power'' PNone)) (\<lambda>power_d.
       rbind (w_dict (dget d ''fan'' PNone)) (\<lambda>fan_d.
       rbind (w_dict (dget d ''gestures'' PNone)) (\<lambda>gestures_d.
       rbind (w_dict (dget d ''gpu'' PNone)) (\<lambda>gpu_d.
       rbind (rbind (w_dict (dget d ''capabilities'' PNone)) (map_dict (decode_capability str))) (\<lambda>caps.
       rbind (rbind (w_list (dget gestures_d ''mappings'' PNone)) (rmap decode_gesture)) (\<lambda>mappings.
       rbind (w_int_or (dget d ''api_version'' PNone) 1) (\<lambda>api.
       rbind (w_int_or (dget d ''schema_version'' PNone) 1) (\<lambda>schema.
       rbind (w_int_or (dget d ''sequence'' PNone) 0) (\<lambda>n.
       rbind (w_datetime fromiso now (dget d ''observed_at'' PNone)) (\<lambda>observed.
       rbind (decode_service str service_d) (\<lambda>service.
       rbind (decode_platform platform_d) (\<lambda>platform.
       rbind (decode_battery battery_d) (\<lambda>battery.
       rbind (decode_power power_d) (\<lambda>pw.
       rbind (decode_fan fromiso fan_d) (\<lambda>fan.
       rbind (decode_gestures mappings gestures_d) (\<lambda>gestures.
       rbind (decode_gpu str gpu_d) (\<lambda>gpu.
       rbind (w_str_tuple str (dget d ''stale_domains'' PNone)) (\<lambda>stale.
       rbind (w_str_tuple str (dget d ''errors'' PNone)) (\<lambda>errors.
       Inr \<lparr>ss_api_version = api, ss_schema_version = schema, ss_sequence = n, ss_observed_at = observed,
            ss_service = service, ss_platform = platform, ss_capabilities = caps, ss_battery = battery, ss_power = pw,
            ss_fan = fan, ss_gestures = gestures, ss_gpu = gpu, ss_stale_domains = stale, ss_errors = errors\<rparr>))))))))))))))))))))))
   | _ \<Rightarrow> protocol_error ''Snapshot is not a dict'')"

section \<open>Calls\<close>

text \<open>
  What a call of the proxy comes to in \<open>_call_method\<close>: a value, a D-Bus error with its name and message, or another
  exception, among them the \<open>TimeoutError\<close> of the deadline.
\<close>

datatype bus_reply = BR_value pv | BR_error string string | BR_raise exn

definition call_method :: "string \<Rightarrow> bus_reply \<Rightarrow> client_exn + pv" where
  "call_method name r = (case r of
     BR_value v \<Rightarrow> Inr (from_variant v)
   | BR_error en m \<Rightarrow> Inl (classify_dbus_error (if en = [] then m else en) m)
   | BR_raise CancelledError \<Rightarrow> Inl (Client_raw CancelledError)
   | BR_raise (TimeoutError _) \<Rightarrow> Inl (ClientError TE_TIMEOUT (name @ '' timed out''))
   | BR_raise e \<Rightarrow> Inl (classify_dbus_error (exn_str e) (exn_str e)))"

text \<open>
  The connection: whether there is a proxy, the \<open>connected\<close> flag, whether the signal listener runs, and the pending
  sequence of its refreshes.
\<close>

record client_state =
  cn_open :: bool
  cn_connected :: bool
  cn_listening :: bool
  cn_pending :: "int option"

definition client_init :: client_state where
  "client_init = \<lparr>cn_open = False, cn_connected = False, cn_listening = False, cn_pending = None\<rparr>"

definition client_close :: "client_state \<Rightarrow> client_state" where
  "client_close c = c\<lparr>cn_connected := False, cn_pending := None, cn_listening := False, cn_open := False\<rparr>"

definition client_call :: "string \<Rightarrow> bus_reply \<Rightarrow> client_state \<Rightarrow> (client_exn + pv) \<times> client_state" where
  "client_call name r c =
     (if \<not> cn_open c then (Inl (ClientError TE_SERVICE_UNAVAILABLE ''Not connected''), c)
      else case call_method name r of
        Inl (ClientError TE_SERVICE_UNAVAILABLE m) \<Rightarrow> (Inl (ClientError TE_SERVICE_UNAVAILABLE m), c\<lparr>cn_connected := False\<rparr>)
      | res \<Rightarrow> (res, c))"

text \<open>\<open>connect\<close> inside its \<open>try\<close>: \<open>opened\<close> is the exception of opening the bus, if any.\<close>

definition connect_attempt ::
  "(pv \<Rightarrow> string) \<Rightarrow> exn option \<Rightarrow> bus_reply \<Rightarrow> bus_reply \<Rightarrow> client_state \<Rightarrow> (client_exn + unit) \<times> client_state" where
  "connect_attempt str opened api schema c =
     (case opened of
        Some e \<Rightarrow> (Inl (Client_raw e), c)
      | None \<Rightarrow>
          (case client_call ''GetApiVersion'' api (c\<lparr>cn_open := True\<rparr>) of
             (Inl e, c) \<Rightarrow> (Inl e, c)
           | (Inr v, c) \<Rightarrow>
               if \<not> py_eq v (PInt API_VERSION)
               then (Inl (ClientError TE_API_MISMATCH (''API version mismatch: client='' @ int_str API_VERSION @ '', server='' @ str v)), c)
               else (case client_call ''GetSchemaVersion'' schema c of
                  (Inl e, c) \<Rightarrow> (Inl e, c)
                | (Inr w, c) \<Rightarrow>
                    if \<not> py_eq w (PInt SCHEMA_VERSION)
                    then (Inl (ClientError TE_API_MISMATCH
                            (''Snapshot schema mismatch: client='' @ int_str SCHEMA_VERSION @ '', server='' @ str w)), c)
                    else (Inr (), c\<lparr>cn_connected := True, cn_listening := True\<rparr>))))"

definition connect ::
  "(pv \<Rightarrow> string) \<Rightarrow> exn option \<Rightarrow> bus_reply \<Rightarrow> bus_reply \<Rightarrow> client_state \<Rightarrow> (client_exn + unit) \<times> client_state" where
  "connect str opened api schema c =
     (case connect_attempt str opened api schema c of
        (Inl (ClientError code m), c) \<Rightarrow> (Inl (ClientError code m), client_close c)
      | (Inl (Client_raw CancelledError), c) \<Rightarrow> (Inl (Client_raw CancelledError), c)
      | (Inl (Client_raw e), c) \<Rightarrow> (Inl (ClientError TE_SERVICE_UNAVAILABLE (''Cannot connect to service: '' @ exn_str e)), client_close c)
      | res \<Rightarrow> res)"

lemma client_call_value: "cn_open c \<Longrightarrow> call_method name r = Inr v \<Longrightarrow> client_call name r c = (Inr v, c)"
  by (simp add: client_call_def)

lemma client_call_error: "cn_open c \<Longrightarrow> call_method name r = Inl (ClientError code m) \<Longrightarrow>
    client_call name r c = (Inl (ClientError code m), if code = TE_SERVICE_UNAVAILABLE then c\<lparr>cn_connected := False\<rparr> else c)"
  by (cases code) (simp_all add: client_call_def)

lemma if_classified: "\<exists>code. x = client_error code m \<Longrightarrow> \<exists>code. (if b then client_error k m else x) = client_error code m"
  by simp blast

lemma classified: "\<exists>code. classify_dbus_error name m = client_error code m"
  unfolding classify_dbus_error_def by (intro if_classified exI [of _ TE_INTERNAL]) (rule refl)

text \<open>A call that was not cancelled raises nothing but a \<open>ClientError\<close>.\<close>

lemma call_raises: "r \<noteq> BR_raise CancelledError \<Longrightarrow> call_method name r = Inl e \<Longrightarrow> \<exists>code m. e = ClientError code m"
proof -
  have c: "\<exists>code m'. classify_dbus_error n m = ClientError code m'" for n m
    using classified [of n m] by (auto simp: client_error_def)
  assume r: "r \<noteq> BR_raise CancelledError" and call: "call_method name r = Inl e"
  show ?thesis
  proof (cases r)
    case (BR_error n m)
    with call show ?thesis using c [of "if n = [] then m else n" m] by (simp add: call_method_def)
  next
    case (BR_raise x)
    then show ?thesis using r call c [of "exn_str x" "exn_str x"] by (cases x) (auto simp: call_method_def)
  qed (use call in \<open>simp add: call_method_def\<close>)
qed

lemma client_close_init: "client_close c = client_init"
  by (simp add: client_close_def client_init_def)

section \<open>What the client reads is what the service sent\<close>

lemma from_variant_idem:
  "from_variant (from_variant v) = from_variant v"
  "from_vardict (from_vardict d) = from_vardict d"
  "from_varlist (from_varlist xs) = from_varlist xs"
  by (induction v and d and xs rule: from_variant_from_vardict_from_varlist.induct) auto

lemma from_vardict_update:
  "from_vardict (AList.update k v d) = AList.update k (from_variant v) (from_vardict d)"
  by (induction d) auto

lemma dget_update [simp]: "dget (AList.update k v d) k' x = (if k' = k then v else dget d k' x)"
  by (simp add: dget_def update_conv')

lemma checked_simps [simp]:
  "w_dict (PDict d) = Inr d" "w_list (PList xs) = Inr xs" "w_str (PStr x) y = Inr x" "w_bool (PBool b) = Inr b"
  "w_int (PInt i) di = Inr (Some i)" "w_int (opt_pv PInt v) None = Inr v" "w_optional_bool (opt_pv PBool b') = Inr b'"
  "w_int_or (PInt i) z = Inr (if i = 0 then z else i)" "to_int (PInt i) = Inr i"
  by (simp_all add: w_dict_def w_list_def w_str_def w_bool_def w_int_def w_optional_bool_def w_int_or_def to_int_def
      opt_pv_def split: option.splits)

lemma w_str_tuple_list: "(\<And>s. str (PStr s) = s) \<Longrightarrow> w_str_tuple str (str_list xs) = Inr xs"
  by (simp add: w_str_tuple_def str_list_def comp_def)

lemma w_enum_value: "of_str (val m) = Inr m \<Longrightarrow> w_enum of_str (PStr (val m)) d = Inr m"
  by (simp add: w_enum_def)

lemma w_optional_enum_value:
  "(\<And>m. of_str (val m) = Inr m) \<Longrightarrow> (\<And>m. val m \<noteq> []) \<Longrightarrow>
     w_optional_enum of_str (PStr (case v of None \<Rightarrow> [] | Some m \<Rightarrow> val m)) = Inr v"
  by (simp add: w_optional_enum_def split: option.splits)

lemma map_dict_values: "(\<And>v. f (g v) = Inr v) \<Longrightarrow> map_dict f (map (\<lambda>(k, v). (k, g v)) d) = Inr d"
  by (induction d) (auto simp: map_dict_def)

lemma enum_values:
  "capability_status_of_str (capability_status_str c) = Inr c" "charge_mode_of_str (charge_mode_str m) = Inr m"
  "fan_mode_of_str (fan_mode_str f) = Inr f" "battery_status_of_str (battery_status_str b) = Inr b" "battery_status_str b \<noteq> []"
  "operation_status_of_str (operation_status_str o') = Inr o'"
  by ((cases c; simp add: capability_status_of_str_def enum_of_str_def),
      (cases m; simp add: charge_mode_of_str_def enum_of_str_def), (cases f; simp add: fan_mode_of_str_def enum_of_str_def),
      (cases b; simp add: battery_status_of_str_def enum_of_str_def), (cases b; simp),
      (cases o'; simp add: operation_status_of_str_def enum_of_str_def))

text \<open>Sent over the wire and read back, before the client's own type checks.\<close>

abbreviation over_wire :: "(pv \<Rightarrow> string) \<Rightarrow> pv dict \<Rightarrow> pv dict" where
  "over_wire str d \<equiv> from_vardict (to_vardict str d)"

lemma service_roundtrip:
  assumes str: "\<And>s. str (PStr s) = s"
  shows "decode_service str (over_wire str (service_to_dict h)) = Inr h"
proof -
  have ok: "dict_ok (service_to_dict h)" by (simp add: service_to_dict_def dict_ok_def)
  have health: "over_wire str (map (\<lambda>(k, v). (k, PStr v)) d) = map (\<lambda>(k, v). (k, PStr v)) d" for d
    by (subst wire_dict) (auto simp: list_all_iff)
  show ?thesis
    unfolding decode_service_def wire_lookup [OF ok]
    by (simp add: service_to_dict_def dget_def str health w_str_tuple_list map_dict_values)
qed

lemma platform_roundtrip: "decode_platform (over_wire str (platform_to_dict p)) = Inr p"
proof -
  have ok: "dict_ok (platform_to_dict p)" by (simp add: platform_to_dict_def dict_ok_def)
  show ?thesis unfolding decode_platform_def wire_lookup [OF ok] by (simp add: platform_to_dict_def dget_def)
qed

lemma battery_roundtrip: "decode_battery (over_wire str (battery_to_dict b)) = Inr b"
proof -
  have ok: "dict_ok (battery_to_dict b)" by (simp add: battery_to_dict_def dict_ok_def)
  show ?thesis
    unfolding decode_battery_def wire_lookup [OF ok]
    by (simp add: battery_to_dict_def dget_def w_enum_value enum_values w_optional_enum_value)
qed

lemma gpu_roundtrip:
  assumes str: "\<And>s. str (PStr s) = s"
  shows "decode_gpu str (over_wire str (gpu_to_dict g)) = Inr g"
proof -
  have ok: "dict_ok (gpu_to_dict g)" by (simp add: gpu_to_dict_def dict_ok_def)
  show ?thesis
    unfolding decode_gpu_def wire_lookup [OF ok] by (simp add: gpu_to_dict_def dget_def str w_str_tuple_list)
qed

lemma strings_over_wire: "over_wire str (map (\<lambda>(k, v). (k, PStr v)) d) = map (\<lambda>(k, v). (k, PStr v)) d"
  "over_wire str (map (\<lambda>(k, v). (k, PInt v)) e) = map (\<lambda>(k, v). (k, PInt v)) e"
  by (subst wire_dict; auto simp: list_all_iff)+

lemma fan_roundtrip:
  assumes times: "\<And>t. fromiso (isof t) = Some t" "\<And>t. isof t \<noteq> []"
  shows "decode_fan fromiso (over_wire str (fan_to_dict isof f)) = Inr f"
proof -
  have ok: "dict_ok (fan_to_dict isof f)" by (simp add: fan_to_dict_def dict_ok_def)
  have moment: "w_optional_datetime fromiso (PStr (case v of None \<Rightarrow> [] | Some t \<Rightarrow> isof t)) = Inr v" for v
    by (simp add: w_optional_datetime_def times split: option.splits)
  show ?thesis
    unfolding decode_fan_def wire_lookup [OF ok]
    by (simp add: fan_to_dict_def dget_def strings_over_wire w_enum_value enum_values map_dict_values moment)
qed

lemma capability_roundtrip:
  assumes str: "\<And>s. str (PStr s) = s"
  shows "decode_capability str (seen str (capability_to_dict c)) = Inr c"
proof -
  let ?d = "[(''status'', PStr (capability_status_str (cap_status c))), (''reason_code'', PStr (cap_reason_code c)),
      (''message'', PStr (cap_message c)), (''resources'', str_list (cap_resources c))]"
  have ok: "dict_ok ?d" by (simp add: dict_ok_def)
  show ?thesis
    unfolding decode_capability_def capability_to_dict_def seen_simps checked_simps rbind_simps wire_lookup [OF ok]
    by (simp add: dget_def w_enum_value enum_values str w_str_tuple_list)
qed

lemma gesture_roundtrip: "decode_gesture (seen str (gesture_to_wire g)) = Inr g"
proof -
  let ?d = "[(''id'', PStr (ge_id g)), (''label'', PStr (ge_label g)), (''enabled'', PBool (ge_enabled g)),
      (''mapping'', PStr (ge_mapping g)), (''default_mapping'', PStr (ge_default_mapping g)), (''error'', PStr (ge_error g))]"
  have ok: "dict_ok ?d" by (simp add: dict_ok_def)
  show ?thesis
    unfolding decode_gesture_def gesture_to_wire_def seen_simps checked_simps rbind_simps wire_lookup [OF ok]
    by (simp add: dget_def)
qed

lemma rmap_inverse: "(\<And>x. f (g x) = Inr x) \<Longrightarrow> rmap f (map g xs) = Inr xs"
  by (induction xs) auto

lemma gestures_roundtrip:
  "rbind (w_list (dget (over_wire str (gestures_to_dict g)) ''mappings'' PNone)) (rmap decode_gesture) = Inr (gs_mappings g)"
  "decode_gestures (gs_mappings g) (over_wire str (gestures_to_dict g)) = Inr g"
proof -
  have ok: "dict_ok (gestures_to_dict g)" by (simp add: gestures_to_dict_def dict_ok_def)
  have rows: "seen str (PList (map gesture_to_wire ms)) = PList (map (\<lambda>m. seen str (gesture_to_wire m)) ms)" for ms
    by (subst seen_dicts) (simp_all add: list_all_iff is_dict_def gesture_to_wire_def)
  show "rbind (w_list (dget (over_wire str (gestures_to_dict g)) ''mappings'' PNone)) (rmap decode_gesture) = Inr (gs_mappings g)"
    unfolding wire_lookup [OF ok] by (simp add: gestures_to_dict_def dget_def rows rmap_inverse gesture_roundtrip)
  show "decode_gestures (gs_mappings g) (over_wire str (gestures_to_dict g)) = Inr g"
    unfolding decode_gestures_def wire_lookup [OF ok]
    by (simp add: gestures_to_dict_def dget_def strings_over_wire map_dict_values)
qed

text \<open>A profile the client reads back: it has a name, and no limit is zero.\<close>

definition profile_wire :: "power_profile_entry \<Rightarrow> bool" where
  "profile_wire p = (pe_name p \<noteq> [] \<and> pe_pl1_uw p \<noteq> 0 \<and> pe_pl2_uw p \<noteq> 0 \<and> pe_max_perf_pct p \<noteq> 0)"

lemma profile_roundtrip:
  assumes "profile_wire p"
  shows "\<exists>d. seen str (profile_to_wire p) = PDict d \<and> dget d ''name'' PNone = PStr (pe_name p) \<and> decode_profile d = Inr p"
proof -
  let ?d = "[(''name'', PStr (pe_name p)), (''label'', PStr (pe_label p)), (''description'', PStr (pe_description p)),
      (''pl1_uw'', PInt (pe_pl1_uw p)), (''pl2_uw'', PInt (pe_pl2_uw p)), (''governor'', PStr (pe_governor p)),
      (''epp'', PStr (pe_epp p)), (''ppd_profile'', PStr (pe_ppd_profile p)), (''turbo_enabled'', PBool (pe_turbo_enabled p)),
      (''max_perf_pct'', PInt (pe_max_perf_pct p)), (''built_in'', PBool (pe_built_in p))]"
  have ok: "dict_ok ?d" by (simp add: dict_ok_def)
  have "map_of (over_wire str ?d) ''turbo_enabled'' = Some (PBool (pe_turbo_enabled p))" by (subst wire_dict) simp_all
  then have "decode_profile (over_wire str ?d) = Inr p"
    using assms unfolding decode_profile_def wire_lookup [OF ok] by (simp add: dget_def profile_wire_def)
  moreover have "dget (over_wire str ?d) ''name'' PNone = PStr (pe_name p)"
    unfolding wire_lookup [OF ok] by (simp add: dget_def)
  moreover have "seen str (profile_to_wire p) = PDict (over_wire str ?d)" by (simp only: profile_to_wire_def seen_simps)
  ultimately show ?thesis by blast
qed

lemma profiles_roundtrip:
  "list_all profile_wire ps \<Longrightarrow> decode_profiles (map (\<lambda>p. seen str (profile_to_wire p)) ps) = Inr ps"
proof (induction ps)
  case (Cons p ps)
  then obtain d where "seen str (profile_to_wire p) = PDict d" "dget d ''name'' PNone = PStr (pe_name p)" "decode_profile d = Inr p"
    using profile_roundtrip [of p str] by auto
  with Cons show ?case by (simp add: profile_wire_def)
qed simp

lemma power_roundtrip:
  assumes str: "\<And>s. str (PStr s) = s" and p: "list_all profile_wire (ps_profiles p)" "wire_plain (PDict (ps_observed_summary p))"
  shows "decode_power (over_wire str (power_to_dict p)) = Inr p"
proof -
  have ok: "dict_ok (power_to_dict p)" by (simp add: power_to_dict_def dict_ok_def)
  have rows: "seen str (PList (map profile_to_wire ps)) = PList (map (\<lambda>p. seen str (profile_to_wire p)) ps)" for ps
    by (subst seen_dicts) (simp_all add: list_all_iff is_dict_def profile_to_wire_def)
  have plain: "over_wire str (ps_observed_summary p) = ps_observed_summary p"
    using p(2) by (intro variant_roundtrip(2) str) simp
  show ?thesis
    unfolding decode_power_def wire_lookup [OF ok]
    by (simp add: power_to_dict_def dget_def rows profiles_roundtrip [OF p(1)] plain)
qed

text \<open>Snapshots that survive the wire.\<close>

definition snapshot_wire :: "system_snapshot \<Rightarrow> bool" where
  "snapshot_wire s = (ss_api_version s \<noteq> 0 \<and> ss_schema_version s \<noteq> 0 \<and> list_all profile_wire (ps_profiles (ss_power s)) \<and>
     wire_plain (PDict (ps_observed_summary (ss_power s))))"

lemma snapshot_lookup:
  "dget (from_vardict (snapshot_to_vardict str isof s)) k PNone = seen str (dget (snapshot_dict isof s) k PNone)"
proof -
  have "dict_ok (snapshot_dict isof s)" by (simp add: snapshot_dict_def dict_ok_def)
  from wire_lookup [OF this, of str k] show ?thesis
    by (simp add: snapshot_to_vardict_def from_vardict_update) (simp add: snapshot_dict_def dget_def)
qed

lemma capabilities_roundtrip:
  assumes str: "\<And>s. str (PStr s) = s"
  shows "map_dict (decode_capability str) (over_wire str (capabilities_to_dict cs)) = Inr cs"
proof -
  have "over_wire str (capabilities_to_dict cs) = map (\<lambda>(k, c). (k, seen str (capability_to_dict c))) cs"
    unfolding capabilities_to_dict_def by (subst wire_dict) (auto simp: list_all_iff capability_to_dict_def)
  then show ?thesis by (simp add: map_dict_values capability_roundtrip str)
qed

lemma snapshot_decodes:
  assumes str: "\<And>s. str (PStr s) = s" and times: "\<And>t. fromiso (isof t) = Some t" "\<And>t. isof t \<noteq> []" and s: "snapshot_wire s"
  shows "decode_snapshot str fromiso now (PDict (snapshot_to_vardict str isof s)) = Inr s"
proof -
  let ?d = "snapshot_dict isof s"
  have get: "dget ?d ''api_version'' PNone = PInt (ss_api_version s)" "dget ?d ''schema_version'' PNone = PInt (ss_schema_version s)"
    "dget ?d ''sequence'' PNone = PInt (ss_sequence s)" "dget ?d ''observed_at'' PNone = PStr (isof (ss_observed_at s))"
    "dget ?d ''service'' PNone = PDict (service_to_dict (ss_service s))"
    "dget ?d ''platform'' PNone = PDict (platform_to_dict (ss_platform s))"
    "dget ?d ''capabilities'' PNone = PDict (capabilities_to_dict (ss_capabilities s))"
    "dget ?d ''battery'' PNone = PDict (battery_to_dict (ss_battery s))" "dget ?d ''power'' PNone = PDict (power_to_dict (ss_power s))"
    "dget ?d ''fan'' PNone = PDict (fan_to_dict isof (ss_fan s))"
    "dget ?d ''gestures'' PNone = PDict (gestures_to_dict (ss_gestures s))" "dget ?d ''gpu'' PNone = PDict (gpu_to_dict (ss_gpu s))"
    "dget ?d ''stale_domains'' PNone = str_list (ss_stale_domains s)" "dget ?d ''errors'' PNone = str_list (ss_errors s)"
    by (simp_all add: snapshot_dict_def dget_def)
  have "w_datetime fromiso now (PStr (isof (ss_observed_at s))) = Inr (ss_observed_at s)"
    by (simp add: w_datetime_def w_optional_datetime_def times)
  with s show ?thesis
    unfolding decode_snapshot_def Let_def pv.case snapshot_lookup get
    by (simp add: str w_str_tuple_list service_roundtrip platform_roundtrip capabilities_roundtrip battery_roundtrip
        power_roundtrip fan_roundtrip times gestures_roundtrip gpu_roundtrip snapshot_wire_def)
qed

lemma result_decodes:
  assumes "\<And>s. str (PStr s) = s" "wire_plain (PDict (res_details r))"
  shows "decode_result (PDict (operation_result_to_vardict str r)) = Inr r"
proof -
  have ok: "dict_ok (result_to_dict r)" by (simp add: result_to_dict_def dict_ok_def)
  have plain: "over_wire str (res_details r) = res_details r"
    using assms(2) by (intro variant_roundtrip(2) assms(1)) simp
  have get: "dget (from_vardict (operation_result_to_vardict str r)) k PNone = seen str (dget (result_to_dict r) k PNone)" for k
    using wire_lookup [OF ok, of str k]
    by (simp add: operation_result_to_vardict_def from_vardict_update) (simp add: result_to_dict_def dget_def)
  have "map_of (over_wire str (result_to_dict r)) ''details'' = Some (PDict (res_details r))"
    unfolding result_to_dict_def by (subst wire_dict) (simp_all add: plain)
  then have details: "dget (from_vardict (operation_result_to_vardict str r)) ''details'' (PDict []) = PDict (res_details r)"
    by (simp add: operation_result_to_vardict_def from_vardict_update) (simp add: dget_def)
  show ?thesis
    unfolding decode_result_def pv.case Let_def get details
    by (simp add: result_to_dict_def dget_def enum_values)
qed

section \<open>Coalesced refreshes\<close>

text \<open>
  \<open>_queue_snapshot_refresh\<close> keeps the highest sequence signalled; \<open>_notify_snapshot\<close> fetches and delivers snapshots until
  one covers it, at most four times. An attempt is given by the sequences signalled while it waits and by the sequence
  of the snapshot it gets, or the error of the call.
\<close>

definition MAX_COALESCED_REFRESHES :: nat where "MAX_COALESCED_REFRESHES = 4"

definition queue_snapshot_refresh :: "int \<Rightarrow> int option \<Rightarrow> int option" where
  "queue_snapshot_refresh n pending = (case pending of None \<Rightarrow> Some n | Some p \<Rightarrow> if n > p then Some n else Some p)"

datatype refresh_end = Covered | Gave_up | Call_failed client_exn | Idle

type_synonym attempt = "int list \<times> (client_exn + int)"

text \<open>The rest of the loop with its pending sequence; the result is how it ends, what is pending then, and the sequences
  delivered to the subscribers.\<close>

fun notify_snapshot :: "nat \<Rightarrow> attempt list \<Rightarrow> int option \<Rightarrow> refresh_end \<times> int option \<times> int list" where
  "notify_snapshot 0 atts pending = (Gave_up, None, [])"
| "notify_snapshot (Suc n) [] pending = (Idle, pending, [])"
| "notify_snapshot (Suc n) ((signals, got) # atts) pending =
     (case pending of
        None \<Rightarrow> (Idle, None, [])
      | Some required \<Rightarrow>
          let newest = fold queue_snapshot_refresh signals None in
          (case got of
             Inl e \<Rightarrow> (Call_failed e, newest, [])
           | Inr seqn \<Rightarrow>
               let required' = max required (case newest of None \<Rightarrow> 0 | Some m \<Rightarrow> m) in
               if seqn \<ge> required' then (Covered, None, [seqn])
               else (case notify_snapshot n atts (Some required') of (en, p, ds) \<Rightarrow> (en, p, seqn # ds))))"

lemma queued_max: "\<exists>m. fold queue_snapshot_refresh xs (Some p) = Some m \<and> p \<le> m \<and> (\<forall>x \<in> set xs. x \<le> m) \<and> m \<in> insert p (set xs)"
proof (induction xs arbitrary: p)
  case (Cons x xs)
  from Cons [of "max x p"] show ?case by (auto simp: queue_snapshot_refresh_def max_def split: if_splits)
qed simp

lemma queued_all: "xs \<noteq> [] \<Longrightarrow> \<exists>m. fold queue_snapshot_refresh xs None = Some m \<and> (\<forall>x \<in> set xs. x \<le> m) \<and> m \<in> set xs"
  using queued_max [of "tl xs" "hd xs"] by (cases xs) (auto simp: queue_snapshot_refresh_def)

lemma signals_bounded: "x \<in> set xs \<Longrightarrow> x \<le> max r (case fold queue_snapshot_refresh xs None of None \<Rightarrow> 0 | Some m \<Rightarrow> m)"
  using queued_all [of xs] by (cases xs) auto

text \<open>The signals of the attempts that were made.\<close>

definition signalled :: "attempt list \<Rightarrow> int set" where
  "signalled atts = (\<Union>(signals, got) \<in> set atts. set signals)"

lemma signalled_simps: "signalled [] = {}" "signalled ((xs, g) # r) = set xs \<union> signalled r"
  by (simp_all add: signalled_def)

lemma notify_covers:
  "notify_snapshot n atts (Some p) = (Covered, q, ds) \<Longrightarrow>
     q = None \<and> ds \<noteq> [] \<and> p \<le> last ds \<and> length ds \<le> n \<and> (\<forall>x \<in> signalled (take (length ds) atts). x \<le> last ds)"
proof (induction n arbitrary: atts p q ds)
  case (Suc n)
  show ?case
  proof (cases atts)
    case Nil
    with Suc.prems show ?thesis by simp
  next
    case (Cons a r)
    obtain xs got where a: "a = (xs, got)" by fastforce
    let ?r = "max p (case fold queue_snapshot_refresh xs None of None \<Rightarrow> 0 | Some m \<Rightarrow> m)"
    from Suc.prems Cons a obtain seqn where got: "got = Inr seqn" by (cases got) (auto simp: Let_def)
    show ?thesis
    proof (cases "seqn \<ge> ?r")
      case True
      then have ds: "ds = [seqn]" "q = None" using Suc.prems Cons a got by (simp_all add: Let_def)
      have "x \<le> seqn" if "x \<in> set xs" for x using signals_bounded [OF that, of p] True by (rule order_trans)
      moreover have "p \<le> seqn" using True by simp
      ultimately show ?thesis using ds Cons a by (simp add: signalled_simps)
    next
      case False
      then obtain ds' where rest: "notify_snapshot n r (Some ?r) = (Covered, q, ds')" "ds = seqn # ds'"
        using Suc.prems Cons a got by (auto simp: Let_def split: prod.splits)
      from Suc.IH [OF rest(1)] have ih: "q = None" "ds' \<noteq> []" "?r \<le> last ds'" "length ds' \<le> n"
        "\<forall>x \<in> signalled (take (length ds') r). x \<le> last ds'" by simp_all
      have "x \<le> last ds'" if "x \<in> set xs" for x using signals_bounded [OF that, of p] ih(3) by (rule order_trans)
      moreover have "p \<le> last ds'" using ih(3) by simp
      ultimately show ?thesis using ih rest(2) Cons a by (auto simp: signalled_simps)
    qed
  qed
qed simp

lemma notify_length:
  "notify_snapshot n atts (Some p) = (en, q, ds) \<Longrightarrow> length ds \<le> n \<and> (en = Gave_up \<longrightarrow> length ds = n)"
proof (induction n arbitrary: atts p q ds)
  case (Suc n)
  then show ?case
    by (cases atts) (auto simp: Let_def split: sum.splits if_splits prod.splits)
qed simp

text \<open>With snapshots that cover what was signalled before they were fetched, one quiet attempt is enough.\<close>

lemma notify_quiet: "p \<le> seqn \<Longrightarrow> 0 \<le> seqn \<Longrightarrow> notify_snapshot (Suc n) (([], Inr seqn) # atts) (Some p) = (Covered, None, [seqn])"
  by simp

section \<open>Properties\<close>

text \<open>Concrete arguments for examples: strings as they are, times in decimal.\<close>

definition plain_str :: "pv \<Rightarrow> string" where
  "plain_str v = (case v of PStr s \<Rightarrow> s | _ \<Rightarrow> ''?'')"

definition signed_time :: "int \<Rightarrow> string" where
  "signed_time t = (if t < 0 then CHR ''-'' # nat_str (nat (- t)) else CHR ''+'' # nat_str (nat t))"

definition read_time :: "string \<Rightarrow> int option" where
  "read_time s = (case s of [] \<Rightarrow> None | c # r \<Rightarrow> Some (if c = CHR ''-'' then - int (digits_val r) else int (digits_val r)))"

lemma read_signed_time: "read_time (signed_time t) = Some t" "signed_time t \<noteq> []"
  by (simp_all add: read_time_def signed_time_def)

text \<open>
  C33: Connecting is all or nothing. Unless the caller is cancelled, \<open>connect\<close> returns with a connected, listening client
  whose service reported exactly the client's API and schema versions, or it raises a \<open>ClientError\<close> and leaves nothing
  of the connection; a version other than the client's is refused as an API mismatch.
\<close>

theorem connect_all_or_nothing:
  assumes "connect str opened api schema c = (res, c')" "opened \<noteq> Some CancelledError" "api \<noteq> BR_raise CancelledError"
    "schema \<noteq> BR_raise CancelledError"
  shows "(res = Inr () \<longleftrightarrow> opened = None \<and>
       (\<exists>v w. call_method ''GetApiVersion'' api = Inr v \<and> py_eq v (PInt API_VERSION) \<and>
          call_method ''GetSchemaVersion'' schema = Inr w \<and> py_eq w (PInt SCHEMA_VERSION))) \<and>
    (res = Inr () \<longrightarrow> c' = c\<lparr>cn_open := True, cn_connected := True, cn_listening := True\<rparr>) \<and>
    (res \<noteq> Inr () \<longrightarrow> (\<exists>code m. res = Inl (ClientError code m)) \<and> c' = client_init) \<and>
    (\<forall>v. opened = None \<longrightarrow> call_method ''GetApiVersion'' api = Inr v \<longrightarrow> \<not> py_eq v (PInt API_VERSION) \<longrightarrow>
       (\<exists>m. res = Inl (ClientError TE_API_MISMATCH m)))"
proof -
  note raises = call_raises [OF assms(3), of "''GetApiVersion''"] call_raises [OF assms(4), of "''GetSchemaVersion''"]
  show ?thesis
  proof (cases opened)
    case (Some e)
    with assms(1,2) show ?thesis by (cases e) (auto simp: connect_def connect_attempt_def client_close_init)
  next
    case None
    show ?thesis
    proof (cases "call_method ''GetApiVersion'' api")
      case (Inl e)
      with raises(1) obtain code m where "e = ClientError code m" by blast
      with Inl None assms(1) show ?thesis by (auto simp: connect_def connect_attempt_def client_call_error client_close_init)
    next
      case (Inr v)
      show ?thesis
      proof (cases "call_method ''GetSchemaVersion'' schema")
        case (Inl e)
        with raises(2) obtain code m where "e = ClientError code m" by blast
        with Inl Inr None assms(1) show ?thesis
          by (cases "py_eq v (PInt API_VERSION)")
            (auto simp: connect_def connect_attempt_def client_call_value client_call_error client_close_init)
      next
        case (Inr w)
        with \<open>call_method ''GetApiVersion'' api = Inr v\<close> None assms(1) show ?thesis
          by (cases "py_eq v (PInt API_VERSION)"; cases "py_eq w (PInt SCHEMA_VERSION)")
            (auto simp: connect_def connect_attempt_def client_call_value client_close_init)
      qed
    qed
  qed
qed

theorem connect_all_or_nothing_witness:
  "\<exists>c'. connect plain_str None (BR_value (PInt 1)) (BR_error ''org.freedesktop.DBus.Error.NoReply'' ''late'') client_init =
     (Inl (ClientError TE_TIMEOUT ''late''), c') \<and> c' = client_init"
proof -
  have run: "connect plain_str None (BR_value (PInt 1)) (BR_error ''org.freedesktop.DBus.Error.NoReply'' ''late'') client_init =
     (Inl (ClientError TE_TIMEOUT ''late''), client_init)" by code_simp
  from connect_all_or_nothing [OF run] show ?thesis using run by simp
qed

text \<open>
  C34: A refresh ends and loses no state change. The refresh task fetches at most four snapshots whatever is signalled
  meanwhile, and gives up only after four. When it ends because a snapshot covered what is pending, the snapshot delivered
  last is at least as new as the sequence it was started for and as every sequence signalled while it ran, and nothing
  stays pending.
\<close>

theorem refresh_ends_covered:
  assumes "notify_snapshot MAX_COALESCED_REFRESHES atts (Some p) = (en, q, ds)"
  shows "length ds \<le> 4 \<and> (en = Gave_up \<longrightarrow> length ds = 4) \<and>
    (en = Covered \<longrightarrow> q = None \<and> ds \<noteq> [] \<and> p \<le> last ds \<and>
      (\<forall>(signals, got) \<in> set (take (length ds) atts). \<forall>x \<in> set signals. x \<le> last ds))"
  using notify_covers [of _ atts p q ds] notify_length [of _ atts p] assms
  by (cases en) (auto simp: MAX_COALESCED_REFRESHES_def signalled_def)

theorem refresh_ends_covered_witness:
  "\<exists>q ds. notify_snapshot MAX_COALESCED_REFRESHES [([9, 8], Inr 7), ([], Inr 9)] (Some 7) = (Covered, q, ds) \<and> 9 \<le> last ds"
proof -
  have run: "notify_snapshot MAX_COALESCED_REFRESHES [([9, 8], Inr 7), ([], Inr 9)] (Some 7) = (Covered, None, [7, 9])"
    by (simp add: MAX_COALESCED_REFRESHES_def eval_nat_numeral queue_snapshot_refresh_def)
  from refresh_ends_covered [OF run] run show ?thesis by auto
qed

end
