(* ===== verification/Authorizer.thy ===== *)
theory Authorizer
  imports Domain
begin

text \<open>
  \<^verbatim>\<open>honor_control/backend/dbus/authorizer.py\<close>: which polkit action a method needs, who the caller is, and the check that
  refuses a call unless polkit grants the action to an identified caller. The polkit authority is an argument, given by its
  answer to a subject, an action and flags.
\<close>

section \<open>Actions\<close>

definition ACTION_SET_CHARGE_LIMIT :: string where "ACTION_SET_CHARGE_LIMIT = ''org.honorlinux.control.set-charge-limit''"
definition ACTION_SET_POWER_PROFILE :: string where "ACTION_SET_POWER_PROFILE = ''org.honorlinux.control.set-power-profile''"
definition ACTION_CONFIGURE_POWER :: string where "ACTION_CONFIGURE_POWER = ''org.honorlinux.control.configure-power''"
definition ACTION_SET_FAN_CURVE :: string where "ACTION_SET_FAN_CURVE = ''org.honorlinux.control.set-fan-curve''"
definition ACTION_SET_GESTURES :: string where "ACTION_SET_GESTURES = ''org.honorlinux.control.set-gestures''"
definition ACTION_SET_TOUCHPAD_FIRMWARE :: string where
  "ACTION_SET_TOUCHPAD_FIRMWARE = ''org.honorlinux.control.set-touchpad-firmware''"
definition ACTION_SET_GPU_IRQ :: string where "ACTION_SET_GPU_IRQ = ''org.honorlinux.control.set-gpu-irq''"
definition ACTION_RELOAD_CONFIG :: string where "ACTION_RELOAD_CONFIG = ''org.honorlinux.control.reload-config''"
definition ACTION_EXPORT_DEBUG :: string where "ACTION_EXPORT_DEBUG = ''org.honorlinux.control.export-debug''"
definition ACTION_VIEW_LOGS :: string where "ACTION_VIEW_LOGS = ''org.honorlinux.control.view-logs''"

definition METHOD_ACTIONS :: "string dict" where
  "METHOD_ACTIONS =
     [(''SetThresholds'', ACTION_SET_CHARGE_LIMIT), (''SetMode'', ACTION_SET_CHARGE_LIMIT),
      (''SetProfile'', ACTION_SET_POWER_PROFILE), (''SetAutoSwitch'', ACTION_CONFIGURE_POWER),
      (''SavePowerProfile'', ACTION_CONFIGURE_POWER), (''DeletePowerProfile'', ACTION_CONFIGURE_POWER),
      (''ConfigureAutoSwitch'', ACTION_CONFIGURE_POWER), (''SetStockAuto'', ACTION_SET_FAN_CURVE),
      (''SetCurve'', ACTION_SET_FAN_CURVE), (''SetManual'', ACTION_SET_FAN_CURVE),
      (''SetMapping'', ACTION_SET_GESTURES), (''SetEnabled'', ACTION_SET_GESTURES),
      (''SetDaemonEnabled'', ACTION_SET_GESTURES), (''SetAllEnabled'', ACTION_SET_GESTURES),
      (''ApplyTouchpadSettings'', ACTION_SET_TOUCHPAD_FIRMWARE), (''SetTouchpadSetting'', ACTION_SET_TOUCHPAD_FIRMWARE),
      (''QueryTouchpadSupport'', ACTION_SET_TOUCHPAD_FIRMWARE), (''ProbeTouchpadFirmware'', ACTION_SET_GESTURES),
      (''SetMitigationEnabled'', ACTION_SET_GPU_IRQ), (''Reload'', ACTION_RELOAD_CONFIG),
      (''GetDebugBundle'', ACTION_EXPORT_DEBUG), (''GetRecentLogs'', ACTION_VIEW_LOGS)]"

definition UNPRIVILEGED_METHODS :: "string list" where
  "UNPRIVILEGED_METHODS = [''GetApiVersion'', ''GetSchemaVersion'', ''GetSnapshot'', ''RunChecks'']"

definition ALLOW_USER_INTERACTION :: int where "ALLOW_USER_INTERACTION = 1"

section \<open>The caller\<close>

record caller_subject =
  sub_sender :: string
  sub_pid :: int
  sub_uid :: int
  sub_start_time :: int

lemma word_shorter: "dropWhile py_isspace s = c # t \<Longrightarrow> length (dropWhile (\<lambda>c. \<not> py_isspace c) (c # t)) < length s"
proof -
  assume s: "dropWhile py_isspace s = c # t"
  then have "\<not> py_isspace c" by (metis hd_dropWhile list.distinct(1) list.sel(1))
  then have "length (dropWhile (\<lambda>c. \<not> py_isspace c) (c # t)) < length (c # t)" using length_dropWhile_le [of _ t] by (simp add: le_imp_less_Suc)
  also have "\<dots> \<le> length s" using length_dropWhile_le [of py_isspace s] s by simp
  finally show ?thesis .
qed

text \<open>\<open>s.split()\<close>\<close>

function py_words :: "string \<Rightarrow> string list" where
  "py_words s = (case dropWhile py_isspace s of
     [] \<Rightarrow> []
   | t \<Rightarrow> takeWhile (\<lambda>c. \<not> py_isspace c) t # py_words (dropWhile (\<lambda>c. \<not> py_isspace c) t))"
  by pat_completeness auto

termination
  by (relation "measure length") (use word_shorter in auto)

declare py_words.simps [simp del]

text \<open>\<open>rsplit\<close> with one separator and at most one split: the part behind the last one, if there is one.\<close>

definition after_last :: "char \<Rightarrow> string \<Rightarrow> string option" where
  "after_last c s = (if c \<in> set s then Some (rev (takeWhile (\<lambda>x. x \<noteq> c) (rev s))) else None)"

definition parse_start_time :: "string \<Rightarrow> int" where
  "parse_start_time stat_line =
     (case after_last (CHR '')'') stat_line of
        None \<Rightarrow> 0
      | Some rest \<Rightarrow>
          let ws = py_words rest
          in if length ws \<le> 19 then 0 else (case py_int 10 (ws ! 19) of None \<Rightarrow> 0 | Some i \<Rightarrow> i))"

section \<open>The check\<close>

text \<open>What \<open>CheckAuthorization\<close> comes to: whether it is authorised and whether a challenge is needed, or an exception, the
  \<open>TimeoutError\<close> of the deadline included.\<close>

datatype polkit_reply = PK_answer bool bool | PK_raise exn

type_synonym authority = "pv \<Rightarrow> string \<Rightarrow> int \<Rightarrow> polkit_reply"

definition polkit_subject :: "caller_subject \<Rightarrow> pv" where
  "polkit_subject c = PTuple [PStr ''unix-process'',
     PDict [(''pid'', PTuple [PStr ''u'', PInt (sub_pid c)]), (''start-time'', PTuple [PStr ''t'', PInt (sub_start_time c)]),
       (''uid'', PTuple [PStr ''i'', PInt (sub_uid c)])]]"

abbreviation not_authorized :: "string \<Rightarrow> exn + 'a" where
  "not_authorized m \<equiv> Inl (DomainException DE_NOT_AUTHORIZED m)"

text \<open>The \<open>code\<close> of a \<open>DomainException\<close>; \<open>CommandTimeoutError\<close> is one.\<close>

fun domain_code :: "exn \<Rightarrow> domain_error option" where
  "domain_code (DomainException c m) = Some c"
| "domain_code (CommandTimeoutError m r) = Some DE_TIMEOUT"
| "domain_code _ = None"

definition ask_polkit :: "authority \<Rightarrow> string \<Rightarrow> caller_subject \<Rightarrow> exn + unit" where
  "ask_polkit polkit action_id caller =
     (case polkit (polkit_subject caller) action_id ALLOW_USER_INTERACTION of
        PK_answer is_authorized is_challenge \<Rightarrow>
          if \<not> is_authorized
          then not_authorized (''Authorization '' @ (if is_challenge then ''authentication required'' else ''denied'') @
                 '' for '' @ CHR 0x27 # action_id @ [CHR 0x27])
          else Inr ()
      | PK_raise e \<Rightarrow>
          if e = CancelledError \<or> domain_code e \<noteq> None then Inl e
          else not_authorized ''Authorization service is unavailable'')"

definition polkit_check :: "authority \<Rightarrow> string \<Rightarrow> caller_subject option \<Rightarrow> exn + unit" where
  "polkit_check polkit method caller =
     (if method \<in> set UNPRIVILEGED_METHODS then Inr ()
      else case map_of METHOD_ACTIONS method of
        None \<Rightarrow> not_authorized (''No action mapping for method '' @ CHR 0x27 # method @ [CHR 0x27])
      | Some action_id \<Rightarrow>
          (case caller of
             None \<Rightarrow> not_authorized ''Missing caller context; cannot authorize''
           | Some c \<Rightarrow> ask_polkit polkit action_id c))"

text \<open>\<open>FakeAuthorizer\<close>: the log of its checks and the methods it denies.\<close>

record fake_authorizer =
  fa_calls :: "(string \<times> caller_subject option) list"
  fa_deny_methods :: "string set"

definition fake_authorizer_init :: fake_authorizer where
  "fake_authorizer_init = \<lparr>fa_calls = [], fa_deny_methods = {}\<rparr>"

definition fake_deny :: "string \<Rightarrow> fake_authorizer \<Rightarrow> fake_authorizer" where
  "fake_deny m fa = fa\<lparr>fa_deny_methods := insert m (fa_deny_methods fa)\<rparr>"

definition fake_authorize :: "string \<Rightarrow> caller_subject option \<Rightarrow> fake_authorizer \<Rightarrow> (exn + unit) \<times> fake_authorizer" where
  "fake_authorize m c fa =
     (if m \<in> fa_deny_methods fa
      then not_authorized (''FakeAuthorizer: denied '' @ CHR 0x27 # m @ [CHR 0x27]) else Inr (),
      fa\<lparr>fa_calls := fa_calls fa @ [(m, c)]\<rparr>)"

section \<open>Contract\<close>

text \<open>
  What the transport relies on: a passed check of a method that is not a plain read means that
  the method's action was granted to an identified caller.
\<close>

locale gatekeeper =
  fixes check :: "string \<Rightarrow> caller_subject option \<Rightarrow> exn + unit"
    and granted :: "string \<Rightarrow> caller_subject \<Rightarrow> bool"
  assumes fail_closed: "check m c = Inr () \<Longrightarrow> m \<notin> set UNPRIVILEGED_METHODS \<Longrightarrow>
      \<exists>action subj. map_of METHOD_ACTIONS m = Some action \<and> c = Some subj \<and> granted action subj"
    and reads_open: "m \<in> set UNPRIVILEGED_METHODS \<Longrightarrow> check m c = Inr ()"
begin

lemma unknown_refused: "m \<notin> set UNPRIVILEGED_METHODS \<Longrightarrow> map_of METHOD_ACTIONS m = None \<Longrightarrow> \<exists>e. check m c = Inl e"
  using fail_closed [of m c] by (cases "check m c") auto

lemma stranger_refused: "m \<notin> set UNPRIVILEGED_METHODS \<Longrightarrow> \<exists>e. check m None = Inl e"
  using fail_closed [of m None] by (cases "check m None") auto

end

definition polkit_grants :: "authority \<Rightarrow> string \<Rightarrow> caller_subject \<Rightarrow> bool" where
  "polkit_grants polkit action c =
     (case polkit (polkit_subject c) action ALLOW_USER_INTERACTION of PK_answer ok _ \<Rightarrow> ok | PK_raise _ \<Rightarrow> False)"

lemma ask_polkit_granted: "ask_polkit polkit action c = Inr () \<Longrightarrow> polkit_grants polkit action c"
  by (auto simp: ask_polkit_def polkit_grants_def split: polkit_reply.splits if_splits)

interpretation polkit: gatekeeper "polkit_check authority" "polkit_grants authority" for authority
  by unfold_locales (auto simp: polkit_check_def intro: ask_polkit_granted split: option.splits)

text \<open>The tables are disjoint, so no method of the table is open by mistake.\<close>

lemma actions_privileged: "map_of METHOD_ACTIONS m = Some a \<Longrightarrow> m \<notin> set UNPRIVILEGED_METHODS"
  by (auto simp: METHOD_ACTIONS_def UNPRIVILEGED_METHODS_def)

end
