(* ===== verification/Dbus_Api.thy ===== *)
theory Dbus_Api
  imports App_Results Client Authorizer
begin

text \<open>
  \<^verbatim>\<open>honor_control/backend/dbus/api.py\<close>: the exported interface. A call is authorised, then runs the use case of the
  application, whose exceptions become D-Bus errors, and its result is encoded for the wire. What the bus tells about the
  caller and the check are arguments.
\<close>

section \<open>Errors\<close>

text \<open>An error with its D-Bus name, or an exception that leaves the method as it is.\<close>

datatype dbus_exn = DbusError string string | Dbus_raw exn

text \<open>The names of the classes in \<open>_DBUS_ERRORS\<close>\<close>

definition DBUS_ERRORS :: "(domain_error \<times> string) list" where
  "DBUS_ERRORS =
     [(DE_NOT_AUTHORIZED, ''org.honorlinux.Control1.Error.NotAuthorized''),
      (DE_INVALID_ARGUMENT, ''org.honorlinux.Control1.Error.InvalidArgument''),
      (DE_UNSUPPORTED, ''org.honorlinux.Control1.Error.Unsupported''),
      (DE_UNAVAILABLE, ''org.honorlinux.Control1.Error.Unavailable''),
      (DE_BUSY, ''org.honorlinux.Control1.Error.Busy''), (DE_TIMEOUT, ''org.honorlinux.Control1.Error.Timeout''),
      (DE_DEPENDENCY, ''org.honorlinux.Control1.Error.Dependency''),
      (DE_INTERNAL, ''org.honorlinux.Control1.Error.Internal'')]"

definition dbus_error_name :: "domain_error \<Rightarrow> string" where
  "dbus_error_name c = (case map_of DBUS_ERRORS c of Some n \<Rightarrow> n | None \<Rightarrow> ''org.honorlinux.Control1.Error.Internal'')"

section \<open>The caller\<close>

text \<open>What \<open>_capture_caller\<close> is told: the current message's sender, the process and user of a sender, and the text of
  \<^verbatim>\<open>/proc/<pid>/stat\<close>; each may raise instead, at its deadline too.\<close>

record caller_facts =
  cf_sender :: "exn + string option"
  cf_pid :: "string \<Rightarrow> exn + int"
  cf_uid :: "string \<Rightarrow> exn + int"
  cf_stat :: "int \<Rightarrow> exn + string"

definition capture_attempt :: "caller_facts \<Rightarrow> exn + caller_subject option" where
  "capture_attempt f =
     rbind (cf_sender f) (\<lambda>sender.
     case sender of
       None \<Rightarrow> Inr None
     | Some [] \<Rightarrow> Inr None
     | Some snd_name \<Rightarrow>
         rbind (cf_pid f snd_name) (\<lambda>pid.
         rbind (cf_uid f snd_name) (\<lambda>uid.
         rbind (cf_stat f pid) (\<lambda>stat.
         let start_time = parse_start_time stat in
         Inr (if pid \<le> 0 \<or> uid < 0 \<or> start_time \<le> 0 then None
              else Some \<lparr>sub_sender = snd_name, sub_pid = pid, sub_uid = uid, sub_start_time = start_time\<rparr>)))))"

definition capture_caller :: "caller_facts \<Rightarrow> exn + caller_subject option" where
  "capture_caller f = (case capture_attempt f of
     Inl e \<Rightarrow> if e = CancelledError then Inl e else Inr None
   | Inr c \<Rightarrow> Inr c)"

section \<open>Authorisation and error mapping\<close>

type_synonym checker = "string \<Rightarrow> caller_subject option \<Rightarrow> exn + unit"

definition mapped_error :: "exn \<Rightarrow> dbus_exn option" where
  "mapped_error e = map_option (\<lambda>c. DbusError (dbus_error_name c) (exn_str e)) (domain_code e)"

definition authorize :: "checker \<Rightarrow> caller_facts \<Rightarrow> string \<Rightarrow> dbus_exn + unit" where
  "authorize check facts method =
     (case capture_caller facts of
        Inl e \<Rightarrow> Inl (Dbus_raw e)
      | Inr caller \<Rightarrow>
          (case check method caller of
             Inr _ \<Rightarrow> Inr ()
           | Inl e \<Rightarrow> Inl (case mapped_error e of Some d \<Rightarrow> d | None \<Rightarrow> Dbus_raw e)))"

definition call_error :: "exn \<Rightarrow> dbus_exn" where
  "call_error e = (case mapped_error e of
     Some d \<Rightarrow> d
   | None \<Rightarrow> if e = CancelledError then Dbus_raw e
       else DbusError ''org.honorlinux.Control1.Error.Internal'' ''Internal service error'')"

type_synonym ('w, 'a) api = "'w app \<Rightarrow> (dbus_exn + 'a) \<times> 'w app"

text \<open>\<open>enc(await self._call(m))\<close>, and the same without \<open>_call\<close>\<close>

definition api_call :: "('w, 'a) act \<Rightarrow> ('a \<Rightarrow> pv) \<Rightarrow> ('w, pv) api" where
  "api_call m enc s = (case m s of (Inl e, s') \<Rightarrow> (Inl (call_error e), s') | (Inr x, s') \<Rightarrow> (Inr (enc x), s'))"

definition api_read :: "('w, 'a) act \<Rightarrow> ('a \<Rightarrow> pv) \<Rightarrow> ('w, pv) api" where
  "api_read m enc s = (case m s of (Inl e, s') \<Rightarrow> (Inl (Dbus_raw e), s') | (Inr x, s') \<Rightarrow> (Inr (enc x), s'))"

section \<open>The methods\<close>

text \<open>A call with its arguments as the signatures admit them.\<close>

datatype dbus_call =
    GetApiVersion | GetSchemaVersion | GetSnapshot | RunChecks
  | SetThresholds int int | SetMode string
  | SetProfile string | SetAutoSwitch bool
  | SavePowerProfile string string string int int string string string bool int
  | DeletePowerProfile string | ConfigureAutoSwitch bool string string string string
  | SetStockAuto | SetCurve string "(int \<times> int) list" | SetManual int int
  | SetMapping string string | SetEnabled string bool | SetAllEnabled bool | SetDaemonEnabled bool
  | ApplyTouchpadSettings "int dict" | SetTouchpadSetting string int | QueryTouchpadSupport | ProbeTouchpadFirmware
  | SetMitigationEnabled bool | Reload | GetDebugBundle | GetRecentLogs int

fun method_name :: "dbus_call \<Rightarrow> string" where
  "method_name GetApiVersion = ''GetApiVersion''"
| "method_name GetSchemaVersion = ''GetSchemaVersion''"
| "method_name GetSnapshot = ''GetSnapshot''"
| "method_name RunChecks = ''RunChecks''"
| "method_name (SetThresholds _ _) = ''SetThresholds''"
| "method_name (SetMode _) = ''SetMode''"
| "method_name (SetProfile _) = ''SetProfile''"
| "method_name (SetAutoSwitch _) = ''SetAutoSwitch''"
| "method_name (SavePowerProfile _ _ _ _ _ _ _ _ _ _) = ''SavePowerProfile''"
| "method_name (DeletePowerProfile _) = ''DeletePowerProfile''"
| "method_name (ConfigureAutoSwitch _ _ _ _ _) = ''ConfigureAutoSwitch''"
| "method_name SetStockAuto = ''SetStockAuto''"
| "method_name (SetCurve _ _) = ''SetCurve''"
| "method_name (SetManual _ _) = ''SetManual''"
| "method_name (SetMapping _ _) = ''SetMapping''"
| "method_name (SetEnabled _ _) = ''SetEnabled''"
| "method_name (SetAllEnabled _) = ''SetAllEnabled''"
| "method_name (SetDaemonEnabled _) = ''SetDaemonEnabled''"
| "method_name (ApplyTouchpadSettings _) = ''ApplyTouchpadSettings''"
| "method_name (SetTouchpadSetting _ _) = ''SetTouchpadSetting''"
| "method_name QueryTouchpadSupport = ''QueryTouchpadSupport''"
| "method_name ProbeTouchpadFirmware = ''ProbeTouchpadFirmware''"
| "method_name (SetMitigationEnabled _) = ''SetMitigationEnabled''"
| "method_name Reload = ''Reload''"
| "method_name GetDebugBundle = ''GetDebugBundle''"
| "method_name (GetRecentLogs _) = ''GetRecentLogs''"

text \<open>The curve text that \<open>SetCurve\<close> builds from its points\<close>

definition points_str :: "(int \<times> int) list \<Rightarrow> string" where
  "points_str ps = (if ps = [] then [] else py_join (CHR '','') (map (\<lambda>(t, v). int_str t @ CHR '':'' # int_str v) ps))"

definition wire_result :: "'w app_env \<Rightarrow> operation_result \<Rightarrow> pv" where
  "wire_result env r = PDict (operation_result_to_vardict (pv_str env) r)"

text \<open>The body of each method behind its authorisation.\<close>

fun method_body :: "(int \<Rightarrow> string) \<Rightarrow> 'w app_env \<Rightarrow> dbus_call \<Rightarrow> ('w, pv) api" where
  "method_body isof env GetApiVersion = api_read (aret API_VERSION) PInt"
| "method_body isof env GetSchemaVersion = api_read (aret SCHEMA_VERSION) PInt"
| "method_body isof env GetSnapshot = api_read get_snapshot (\<lambda>sn. PDict (snapshot_to_vardict (pv_str env) isof sn))"
| "method_body isof env RunChecks = api_read (run_checks env) (\<lambda>d. PDict (to_vardict (pv_str env) d))"
| "method_body isof env (SetThresholds en st) = api_call (set_battery_thresholds env (PInt en) (PInt st)) (wire_result env)"
| "method_body isof env (SetMode mode) = api_call (set_battery_mode env mode) (wire_result env)"
| "method_body isof env (SetProfile p) = api_call (set_power_profile env p) (wire_result env)"
| "method_body isof env (SetAutoSwitch b) = api_call (set_auto_switch env b) (wire_result env)"
| "method_body isof env (SavePowerProfile n l d pl1 pl2 gov epp ppd turbo pct) =
     api_call (save_power_profile env n l d pl1 pl2 gov epp ppd turbo pct) (wire_result env)"
| "method_body isof env (DeletePowerProfile n) = api_call (delete_power_profile env n) (wire_result env)"
| "method_body isof env (ConfigureAutoSwitch b ac bat acs bats) =
     api_call (configure_auto_switch env b ac bat acs bats) (wire_result env)"
| "method_body isof env SetStockAuto = api_call (set_fan_stock_auto env) (wire_result env)"
| "method_body isof env (SetCurve p ps) = api_call (set_fan_curve env p (PStr (points_str ps))) (wire_result env)"
| "method_body isof env (SetManual v ttl) = api_call (set_fan_manual env (PInt v) (PInt ttl)) (wire_result env)"
| "method_body isof env (SetMapping g c) = api_call (set_gesture_mapping env g (PStr c)) (wire_result env)"
| "method_body isof env (SetEnabled g b) = api_call (set_gesture_enabled env g b) (wire_result env)"
| "method_body isof env (SetAllEnabled b) = api_call (set_all_gestures_enabled env b) (wire_result env)"
| "method_body isof env (SetDaemonEnabled b) = api_call (set_gesture_daemon_enabled env b) (wire_result env)"
| "method_body isof env (ApplyTouchpadSettings d) =
     api_call (apply_touchpad_settings env (map (\<lambda>(k, v). (k, PInt v)) d)) (wire_result env)"
| "method_body isof env (SetTouchpadSetting k v) = api_call (set_touchpad_setting env k (PInt v)) (wire_result env)"
| "method_body isof env QueryTouchpadSupport = api_call (query_touchpad_support env) (\<lambda>d. PDict (to_vardict (pv_str env) d))"
| "method_body isof env ProbeTouchpadFirmware = api_call (probe_touchpad_firmware env) (\<lambda>d. PDict (to_vardict (pv_str env) d))"
| "method_body isof env (SetMitigationEnabled b) = api_call (set_gpu_mitigation_enabled env b) (wire_result env)"
| "method_body isof env Reload = api_call (reload_service env) (wire_result env)"
| "method_body isof env GetDebugBundle = api_call (get_debug_bundle env) (\<lambda>d. PDict (to_vardict (pv_str env) d))"
| "method_body isof env (GetRecentLogs n) = api_call (get_recent_logs env (PInt n)) str_list"

text \<open>Reads are not checked at all; every other method is, before anything else.\<close>

fun open_read :: "dbus_call \<Rightarrow> bool" where
  "open_read GetApiVersion = True"
| "open_read GetSchemaVersion = True"
| "open_read GetSnapshot = True"
| "open_read RunChecks = True"
| "open_read _ = False"

definition dispatch :: "checker \<Rightarrow> caller_facts \<Rightarrow> (int \<Rightarrow> string) \<Rightarrow> 'w app_env \<Rightarrow> dbus_call \<Rightarrow> ('w, pv) api" where
  "dispatch check facts isof env c s =
     (if open_read c then method_body isof env c s
      else case authorize check facts (method_name c) of Inl e \<Rightarrow> (Inl e, s) | Inr _ \<Rightarrow> method_body isof env c s)"

section \<open>The tables agree\<close>

lemma open_read_unprivileged: "open_read c \<longleftrightarrow> method_name c \<in> set UNPRIVILEGED_METHODS"
  by (cases c) (simp_all add: UNPRIVILEGED_METHODS_def)

text \<open>Every checked method has an action, so a check never fails for want of one.\<close>

lemma checked_has_action: "\<not> open_read c \<Longrightarrow> \<exists>a. map_of METHOD_ACTIONS (method_name c) = Some a"
  by (cases c) (simp_all add: METHOD_ACTIONS_def)

lemma dbus_error_name_for: "dbus_error_name code = error_name_for code"
  by (cases code) (simp_all add: dbus_error_name_def DBUS_ERRORS_def)

text \<open>A caller that is captured has a sender, a process with a start time, and a user.\<close>

lemma captured:
  "capture_caller f = Inr (Some subj) \<Longrightarrow>
     sub_sender subj \<noteq> [] \<and> cf_sender f = Inr (Some (sub_sender subj)) \<and> cf_pid f (sub_sender subj) = Inr (sub_pid subj) \<and>
     cf_uid f (sub_sender subj) = Inr (sub_uid subj) \<and> 0 < sub_pid subj \<and> 0 \<le> sub_uid subj \<and> 0 < sub_start_time subj"
  by (auto simp: capture_caller_def capture_attempt_def rbind_def Let_def
      split: sum.splits option.splits list.splits if_splits)

lemma capture_raises: "capture_caller f = Inl e \<Longrightarrow> e = CancelledError"
  by (auto simp: capture_caller_def split: sum.splits if_splits)

context gatekeeper
begin

lemma authorized_grant:
  assumes "authorize check facts (method_name c) = Inr ()" "\<not> open_read c"
  shows "\<exists>action subj. capture_caller facts = Inr (Some subj) \<and> map_of METHOD_ACTIONS (method_name c) = Some action \<and>
    granted action subj"
proof -
  from assms(1) obtain caller where "capture_caller facts = Inr caller" "check (method_name c) caller = Inr ()"
    by (auto simp: authorize_def split: sum.splits)
  with assms(2) fail_closed show ?thesis by (fastforce simp: open_read_unprivileged)
qed

text \<open>Locally respects: a call without the grant leaves the application as it is.\<close>

lemma ungranted_call:
  assumes "dispatch check facts isof env c s = (r, s')" "\<not> open_read c"
    "\<And>action subj. capture_caller facts = Inr (Some subj) \<Longrightarrow> map_of METHOD_ACTIONS (method_name c) = Some action \<Longrightarrow> \<not> granted action subj"
  shows "s' = s \<and> (\<exists>e. authorize check facts (method_name c) = Inl e \<and> r = Inl e)"
  using assms(1,2) authorized_grant [of facts c] assms(3) by (auto simp: dispatch_def split: sum.splits)

end

section \<open>What a client sees\<close>

text \<open>The transport error a client reports for each domain error.\<close>

fun transport_of :: "domain_error \<Rightarrow> transport_error" where
  "transport_of DE_NOT_AUTHORIZED = TE_NOT_AUTHORIZED"
| "transport_of DE_INVALID_ARGUMENT = TE_INVALID_REQUEST"
| "transport_of DE_UNSUPPORTED = TE_FEATURE_UNAVAILABLE"
| "transport_of DE_UNAVAILABLE = TE_FEATURE_UNAVAILABLE"
| "transport_of DE_BUSY = TE_BUSY"
| "transport_of DE_TIMEOUT = TE_TIMEOUT"
| "transport_of DE_DEPENDENCY = TE_FEATURE_UNAVAILABLE"
| "transport_of DE_INTERNAL = TE_INTERNAL"

lemma classify_error_name: "classify_dbus_error (error_name_for code) m = client_error (transport_of code) m"
  by (cases code) (simp_all add: classify_dbus_error_def)

lemma mapped_error_name: "mapped_error e = Some d \<Longrightarrow> \<exists>code m. domain_code e = Some code \<and> d = DbusError (error_name_for code) m"
  by (auto simp: mapped_error_def dbus_error_name_for)

lemma call_error_name:
  assumes "e \<noteq> CancelledError"
  shows "\<exists>code m. call_error e = DbusError (error_name_for code) m"
proof (cases "mapped_error e")
  case None
  with assms have "call_error e = DbusError (error_name_for DE_INTERNAL) ''Internal service error''" by (simp add: call_error_def)
  then show ?thesis by blast
next
  case (Some d)
  with mapped_error_name [OF Some] show ?thesis by (auto simp: call_error_def)
qed

text \<open>Every body but that of a read is a use case inside \<open>_call\<close>.\<close>

lemma api_call_encoded: "\<exists>m'. api_call m enc = api_call m' id"
  by (intro exI [of _ "abind m (\<lambda>x. aret (enc x))"] ext)
    (simp add: api_call_def abind_def aret_def split: prod.splits sum.splits)

lemma checked_body: "\<not> open_read c \<Longrightarrow> \<exists>m. method_body isof env c = api_call m id"
  by (cases c) (simp_all add: api_call_encoded)

lemma body_error:
  assumes "\<not> open_read c" "method_body isof env c s = (Inl d, s')"
  shows "d = Dbus_raw CancelledError \<or> (\<exists>code m. d = DbusError (error_name_for code) m)"
proof -
  obtain m where "method_body isof env c = api_call m id" using checked_body [OF assms(1)] by blast
  with assms(2) obtain e where d: "d = call_error e" by (auto simp: api_call_def split: prod.splits sum.splits)
  show ?thesis
  proof (cases "e = CancelledError")
    case True
    then show ?thesis by (simp add: d call_error_def mapped_error_def)
  next
    case False
    with call_error_name [OF False] show ?thesis by (simp add: d)
  qed
qed

lemma authorize_error:
  assumes "authorize check facts m = Inl d" "\<And>m c e. check m c = Inl e \<Longrightarrow> e = CancelledError \<or> domain_code e \<noteq> None"
  shows "d = Dbus_raw CancelledError \<or> (\<exists>code x. d = DbusError (error_name_for code) x)"
proof (cases "capture_caller facts")
  case (Inl e)
  with assms(1) capture_raises [OF Inl] show ?thesis by (simp add: authorize_def)
next
  case (Inr caller)
  obtain e where e: "check m caller = Inl e" "d = (case mapped_error e of Some d \<Rightarrow> d | None \<Rightarrow> Dbus_raw e)"
    using assms(1) Inr by (cases "check m caller") (simp_all add: authorize_def)
  from assms(2) [OF e(1)] show ?thesis
  proof
    assume "e = CancelledError"
    with e(2) show ?thesis by (simp add: mapped_error_def)
  next
    assume "domain_code e \<noteq> None"
    then obtain code where "domain_code e = Some code" by blast
    with e(2) have "d = DbusError (error_name_for code) (exn_str e)" by (simp add: mapped_error_def dbus_error_name_for)
    then show ?thesis by blast
  qed
qed

lemma polkit_check_error: "polkit_check polkit m c = Inl e \<Longrightarrow> e = CancelledError \<or> domain_code e \<noteq> None"
  by (auto simp: polkit_check_def ask_polkit_def split: if_splits option.splits polkit_reply.splits)

text \<open>With an authority that only raises errors of the bus, a refusal is always \<open>NotAuthorized\<close>.\<close>

lemma polkit_refusal:
  assumes "polkit_check polkit m c = Inl e"
    "\<And>subj action flags e. polkit subj action flags = PK_raise e \<Longrightarrow> e \<noteq> CancelledError \<and> domain_code e = None"
  shows "\<exists>x. e = DomainException DE_NOT_AUTHORIZED x"
  using assms(1) by (auto simp: polkit_check_def ask_polkit_def dest!: assms(2) split: if_splits option.splits polkit_reply.splits)

lemma refused_name:
  assumes "authorize (polkit_check polkit) facts m = Inl d"
    "\<And>subj action flags e. polkit subj action flags = PK_raise e \<Longrightarrow> e \<noteq> CancelledError \<and> domain_code e = None"
    "capture_caller facts \<noteq> Inl CancelledError"
  shows "\<exists>x. d = DbusError (error_name_for DE_NOT_AUTHORIZED) x"
proof -
  obtain caller where cap: "capture_caller facts = Inr caller"
    using assms(3) capture_raises [of facts] by (cases "capture_caller facts") auto
  then obtain e where e: "polkit_check polkit m caller = Inl e" "d = (case mapped_error e of Some d \<Rightarrow> d | None \<Rightarrow> Dbus_raw e)"
    using assms(1) by (cases "polkit_check polkit m caller") (simp_all add: authorize_def)
  have "\<exists>x. e = DomainException DE_NOT_AUTHORIZED x" by (rule polkit_refusal [OF e(1)]) (rule assms(2))
  then obtain x where "e = DomainException DE_NOT_AUTHORIZED x" ..
  with e(2) show ?thesis by (simp add: mapped_error_def dbus_error_name_for)
qed

section \<open>Refused mutations\<close>

text \<open>The methods that change settings or hardware: all but the reads, the firmware probe, the debug bundle and the logs.\<close>

fun mutating :: "dbus_call \<Rightarrow> bool" where
  "mutating ProbeTouchpadFirmware = False"
| "mutating GetDebugBundle = False"
| "mutating (GetRecentLogs _) = False"
| "mutating c = (\<not> open_read c)"

definition refusal :: "'w app \<Rightarrow> exn option" where
  "refusal s = (if ap_closing s then Some (DomainException DE_UNAVAILABLE ''Service is shutting down'')
     else if ap_restore_pending s then Some (DomainException DE_BUSY ''Stock fan restoration is still pending'') else None)"

lemma serialized_refused: "refusal s = Some e \<Longrightarrow> serialized m s = (Inl e, s)"
  by (simp add: serialized_def refusal_def abind_def aget_def araise_def split: if_splits)

lemmas use_cases = set_battery_thresholds_def set_power_profile_def set_auto_switch_def save_power_profile_def
  delete_power_profile_def configure_auto_switch_def set_fan_stock_auto_def set_fan_curve_def set_fan_manual_def
  set_gesture_mapping_def set_gesture_enabled_def set_all_gestures_enabled_def set_gesture_daemon_enabled_def
  apply_touchpad_settings_def set_touchpad_setting_def query_touchpad_support_def set_gpu_mitigation_enabled_def
  reload_service_def

lemma threshold_errors: "thresholds_for_mode m = Inl e \<Longrightarrow> domain_code e = Some DE_INVALID_ARGUMENT"
  by (cases m) (auto simp: thresholds_for_mode_def CHARGE_PRESETS_def)

lemma set_mode_refused:
  "refusal s = Some e \<Longrightarrow> \<exists>e'. set_battery_mode env m s = (Inl e', s) \<and> (e' = e \<or> domain_code e' = Some DE_INVALID_ARGUMENT)"
  by (cases "validate_charge_mode m"; cases "thresholds_for_mode (projr (validate_charge_mode m))")
    (auto simp: set_battery_mode_def set_battery_thresholds_def abind_def alift_def serialized_refused validate_charge_mode_def
      dest!: threshold_errors split: if_splits sum.splits)

lemma mutation_refused:
  assumes "mutating c" "refusal s = Some e"
  shows "\<exists>e'. method_body isof env c s = (Inl (call_error e'), s) \<and> (e' = e \<or> domain_code e' = Some DE_INVALID_ARGUMENT)"
proof (cases "\<exists>m. c = SetMode m")
  case True
  then obtain m where c: "c = SetMode m" by blast
  from set_mode_refused [OF assms(2), of env m] show ?thesis by (auto simp: c api_call_def)
next
  case False
  with assms show ?thesis by (cases c) (auto simp: use_cases api_call_def serialized_refused)
qed

section \<open>Properties\<close>

text \<open>
  C7: Nothing is changed without authorisation. A method that is not a plain read takes effect only for a caller the bus
  identifies, with a live process and user, to whom polkit grants the action fixed for that method; otherwise the
  application and the hardware are left exactly as they were and the caller gets \<open>NotAuthorized\<close>. The plain reads leave
  every part of the application unchanged.
\<close>

theorem mutation_needs_grant:
  assumes "dispatch (polkit_check polkit) facts isof env c s = (r, s')"
    "\<And>subj action flags e. polkit subj action flags = PK_raise e \<Longrightarrow> e \<noteq> CancelledError \<and> domain_code e = None"
    "capture_caller facts \<noteq> Inl CancelledError"
  shows "if open_read c then s' = s\<lparr>ap_world := ap_world s'\<rparr>
    else (\<exists>subj action. capture_caller facts = Inr (Some subj) \<and> 0 < sub_pid subj \<and> 0 \<le> sub_uid subj \<and> 0 < sub_start_time subj \<and>
        map_of METHOD_ACTIONS (method_name c) = Some action \<and>
        (\<exists>challenge. polkit (polkit_subject subj) action ALLOW_USER_INTERACTION = PK_answer True challenge)) \<or>
      (s' = s \<and> (\<exists>m. r = Inl (DbusError (error_name_for DE_NOT_AUTHORIZED) m)))"
proof (cases "open_read c")
  case True
  with assms(1) have "s' = s\<lparr>ap_world := ap_world s'\<rparr>"
    by (cases c) (auto simp: dispatch_def api_read_def get_snapshot_def run_checks_def abind_def aret_def aworld_def snap_def
        aget_def Let_def split: prod.splits)
  with True show ?thesis by simp
next
  case False
  show ?thesis
  proof (cases "\<exists>action subj. capture_caller facts = Inr (Some subj) \<and> map_of METHOD_ACTIONS (method_name c) = Some action \<and>
      polkit_grants polkit action subj")
    case True
    then obtain action subj where g: "capture_caller facts = Inr (Some subj)" "map_of METHOD_ACTIONS (method_name c) = Some action"
      "polkit_grants polkit action subj" by blast
    then have "\<exists>ch. polkit (polkit_subject subj) action ALLOW_USER_INTERACTION = PK_answer True ch"
      by (auto simp: polkit_grants_def split: polkit_reply.splits)
    with captured [OF g(1)] g \<open>\<not> open_read c\<close> show ?thesis by auto
  next
    case ungranted: False
    obtain e where e: "s' = s" "authorize (polkit_check polkit) facts (method_name c) = Inl e" "r = Inl e"
      using polkit.ungranted_call [OF assms(1) False] ungranted by blast
    have "\<exists>m. e = DbusError (error_name_for DE_NOT_AUTHORIZED) m"
      by (rule refused_name [OF e(2) _ assms(3)]) (rule assms(2))
    with e False show ?thesis by auto
  qed
qed

text \<open>A caller as the bus and \<^verbatim>\<open>/proc\<close> show it, and an authority that denies everything.\<close>

definition shell_caller :: caller_facts where
  "shell_caller = \<lparr>cf_sender = Inr (Some '':1.7''), cf_pid = (\<lambda>_. Inr 4242), cf_uid = (\<lambda>_. Inr 1000),
     cf_stat = (\<lambda>_. Inr ''4242 (a) b) S 1 2 3 4 5 6 7 8 9 10 11 12 13 14 15 16 17 18 777 20'')\<rparr>"

definition deny_all :: authority where
  "deny_all _ _ _ = PK_answer False False"

lemma shell_caller_captured: "capture_caller shell_caller =
    Inr (Some \<lparr>sub_sender = '':1.7'', sub_pid = 4242, sub_uid = 1000, sub_start_time = 777\<rparr>)"
  by code_simp

theorem mutation_needs_grant_witness:
  "\<exists>r s'. dispatch (polkit_check deny_all) shell_caller (\<lambda>_. []) fake_env SetStockAuto fake_app = (r, s') \<and> s' = fake_app \<and>
     (\<exists>m. r = Inl (DbusError (error_name_for DE_NOT_AUTHORIZED) m))"
proof -
  obtain r s' where run: "dispatch (polkit_check deny_all) shell_caller (\<lambda>_. []) fake_env SetStockAuto fake_app = (r, s')"
    by fastforce
  from mutation_needs_grant [OF run] run show ?thesis by (auto simp: deny_all_def shell_caller_captured)
qed

text \<open>
  Errors keep their meaning on the way to a client. Whatever a privileged method raises, short of a cancellation, has
  the D-Bus name of exactly one domain error, one of the names of the contract, and the client turns it into the transport
  error for that domain error with the same message.
\<close>

theorem errors_reach_client:
  assumes "dispatch (polkit_check polkit) facts isof env c s = (Inl d, s')" "\<not> open_read c" "d \<noteq> Dbus_raw CancelledError"
  shows "\<exists>code m. d = DbusError (error_name_for code) m \<and> error_name_for code \<in> set ALL_ERROR_NAMES \<and>
    call_method (method_name c) (BR_error (error_name_for code) m) = Inl (client_error (transport_of code) m)"
proof -
  have "d = Dbus_raw CancelledError \<or> (\<exists>code m. d = DbusError (error_name_for code) m)"
  proof (cases "authorize (polkit_check polkit) facts (method_name c)")
    case (Inl e)
    with assms(1,2) have "e = d" by (simp add: dispatch_def)
    then show ?thesis using authorize_error [OF Inl] polkit_check_error by blast
  next
    case (Inr u)
    with assms(1,2) have "method_body isof env c s = (Inl d, s')" by (simp add: dispatch_def)
    then show ?thesis by (rule body_error [OF assms(2)])
  qed
  with assms(3) obtain code m where d: "d = DbusError (error_name_for code) m" by blast
  have "error_name_for code \<noteq> []" "error_name_for code \<in> set ALL_ERROR_NAMES"
    by (cases code; simp add: ALL_ERROR_NAMES_def ERROR_NAMESPACE_def)+
  then show ?thesis using d by (auto simp: call_method_def classify_error_name)
qed

theorem errors_reach_client_witness:
  "\<exists>m. call_method ''SetStockAuto'' (BR_error (error_name_for DE_NOT_AUTHORIZED) m) = Inl (client_error TE_NOT_AUTHORIZED m) \<and>
     dispatch (polkit_check deny_all) shell_caller (\<lambda>_. []) fake_env SetStockAuto fake_app =
       (Inl (DbusError (error_name_for DE_NOT_AUTHORIZED) m), fake_app)"
proof -
  let ?m = "''Authorization denied for '' @ CHR 0x27 # ACTION_SET_FAN_CURVE @ [CHR 0x27]"
  have run: "dispatch (polkit_check deny_all) shell_caller (\<lambda>_. []) fake_env SetStockAuto fake_app =
      (Inl (DbusError (error_name_for DE_NOT_AUTHORIZED) ?m), fake_app)"
    by (simp add: dispatch_def authorize_def shell_caller_captured polkit_check_def ask_polkit_def deny_all_def mapped_error_def
        dbus_error_name_for UNPRIVILEGED_METHODS_def METHOD_ACTIONS_def)
  obtain code m where c: "DbusError (error_name_for DE_NOT_AUTHORIZED) ?m = DbusError (error_name_for code) m"
      "call_method (method_name SetStockAuto) (BR_error (error_name_for code) m) = Inl (client_error (transport_of code) m)"
    using errors_reach_client [OF run] by auto
  moreover from c(1) have "code = DE_NOT_AUTHORIZED" by (cases code) simp_all
  ultimately show ?thesis using run by auto
qed

text \<open>
  C11: While the service shuts down or a queued return of the fan to the firmware is pending, every mutation is refused and
  changes nothing: an authorised call raises \<open>Unavailable\<close> or \<open>Busy\<close>, or \<open>InvalidArgument\<close> for an unknown charge mode.
\<close>

theorem mutations_refused_while_unsafe:
  assumes "dispatch check facts isof env c s = (r, s')" "mutating c" "ap_closing s \<or> ap_restore_pending s"
  shows "s' = s \<and> (\<exists>d. r = Inl d \<and>
    (authorize check facts (method_name c) = Inl d \<or> (\<exists>m. d = DbusError (error_name_for DE_INVALID_ARGUMENT) m) \<or>
     d = (if ap_closing s then DbusError (error_name_for DE_UNAVAILABLE) ''Service is shutting down''
          else DbusError (error_name_for DE_BUSY) ''Stock fan restoration is still pending'')))"
proof -
  have checked: "\<not> open_read c" using assms(2) by (cases c) simp_all
  show ?thesis
  proof (cases "authorize check facts (method_name c)")
    case (Inl e)
    with assms(1) checked have "r = Inl e" "s' = s" by (simp_all add: dispatch_def)
    with Inl show ?thesis by blast
  next
    case (Inr u)
    obtain e where e: "refusal s = Some e" using assms(3) by (cases "refusal s") (auto simp: refusal_def split: if_splits)
    obtain e' where e': "method_body isof env c s = (Inl (call_error e'), s)" "e' = e \<or> domain_code e' = Some DE_INVALID_ARGUMENT"
      using mutation_refused [OF assms(2) e] by blast
    have run: "r = Inl (call_error e')" "s' = s" using assms(1) e'(1) Inr checked by (simp_all add: dispatch_def)
    from e'(2) show ?thesis
    proof
      assume "e' = e"
      with e run show ?thesis
        by (auto simp: refusal_def call_error_def mapped_error_def dbus_error_name_for split: if_splits)
    next
      assume "domain_code e' = Some DE_INVALID_ARGUMENT"
      with run show ?thesis by (simp add: call_error_def mapped_error_def dbus_error_name_for)
    qed
  qed
qed

theorem mutations_refused_while_unsafe_witness:
  "\<exists>r s'. dispatch (\<lambda>_ _. Inr ()) shell_caller (\<lambda>_. []) fake_env (SetManual 80 60) (fake_app\<lparr>ap_closing := True\<rparr>) = (r, s') \<and>
     r = Inl (DbusError (error_name_for DE_UNAVAILABLE) ''Service is shutting down'') \<and> s' = fake_app\<lparr>ap_closing := True\<rparr>"
proof -
  let ?s = "fake_app\<lparr>ap_closing := True\<rparr>"
  have run: "dispatch (\<lambda>_ _. Inr ()) shell_caller (\<lambda>_. []) fake_env (SetManual 80 60) ?s =
      (Inl (DbusError (error_name_for DE_UNAVAILABLE) ''Service is shutting down''), ?s)"
    by (simp add: dispatch_def authorize_def shell_caller_captured api_call_def set_fan_manual_def serialized_def abind_def
        aget_def araise_def call_error_def mapped_error_def dbus_error_name_for)
  from mutations_refused_while_unsafe [OF run] run show ?thesis by simp
qed

text \<open>
  The curve text that \<open>SetCurve\<close> builds from its points is the one the core formatter builds, so what the application
  parses from a call is exactly the list of points the client sent, and it parses them exactly if they form a valid curve.
\<close>

theorem curve_points_equivalent:
  "points_str ps = format_curve (map (\<lambda>(t, v). \<lparr>temp_mc = t, speed = v\<rparr>) ps) \<and>
   (parse_curve (PStr (points_str ps)) = Inr (map (\<lambda>(t, v). \<lparr>temp_mc = t, speed = v\<rparr>) ps) \<longleftrightarrow>
      valid_curve (map (\<lambda>(t, v). \<lparr>temp_mc = t, speed = v\<rparr>) ps))"
proof -
  let ?ps = "map (\<lambda>(t, v). \<lparr>temp_mc = t, speed = v\<rparr>) ps"
  have "map (\<lambda>(t, v). int_str t @ CHR '':'' # int_str v) ps = map format_point ?ps"
    by (simp add: format_point_def split_beta)
  then have str: "points_str ps = format_curve ?ps" unfolding points_str_def format_curve_def by (cases "ps = []") (simp, simp only: if_False)
  have "parse_curve (PStr (format_curve ?ps)) = Inr ?ps \<longleftrightarrow> valid_curve ?ps" using curve.sound curve_codec.roundtrip by blast
  then show ?thesis using str by simp
qed

end
