(* ===== verification/Remote.thy ===== *)
theory Remote
  imports Dbus_Api
begin

text \<open>
  The two implementations of \<open>ControlClient\<close> in \<^verbatim>\<open>honor_control/client/sdbus_client.py\<close>: \<open>FakeClient\<close> calls the application
  in the same process, \<open>SdbusClient\<close> calls it over the bus. The requests of the protocol are the \<open>dbus_call\<close>s. How the bus
  library reports an exception without a D-Bus name is an argument.
\<close>

section \<open>The protocol\<close>

datatype client_value =
    CV_int int | CV_snapshot system_snapshot | CV_value pv | CV_result operation_result | CV_lines "string list"

definition amap :: "('a \<Rightarrow> 'b) \<Rightarrow> ('w, 'a) act \<Rightarrow> ('w, 'b) act" where
  "amap f m = abind m (\<lambda>x. aret (f x))"

text \<open>\<open>FakeClient\<close>\<close>

fun fake_client :: "'w app_env \<Rightarrow> dbus_call \<Rightarrow> ('w, client_value) act" where
  "fake_client env GetApiVersion = amap CV_int (aret API_VERSION)"
| "fake_client env GetSchemaVersion = amap CV_int (aret SCHEMA_VERSION)"
| "fake_client env GetSnapshot = amap CV_snapshot get_snapshot"
| "fake_client env RunChecks = amap (\<lambda>d. CV_value (PDict d)) (run_checks env)"
| "fake_client env (SetThresholds en st) = amap CV_result (set_battery_thresholds env (PInt en) (PInt st))"
| "fake_client env (SetMode mode) = amap CV_result (set_battery_mode env mode)"
| "fake_client env (SetProfile p) = amap CV_result (set_power_profile env p)"
| "fake_client env (SetAutoSwitch b) = amap CV_result (set_auto_switch env b)"
| "fake_client env (SavePowerProfile n l d pl1 pl2 gov epp ppd turbo pct) =
     amap CV_result (save_power_profile env n l d pl1 pl2 gov epp ppd turbo pct)"
| "fake_client env (DeletePowerProfile n) = amap CV_result (delete_power_profile env n)"
| "fake_client env (ConfigureAutoSwitch b ac bat acs bats) = amap CV_result (configure_auto_switch env b ac bat acs bats)"
| "fake_client env SetStockAuto = amap CV_result (set_fan_stock_auto env)"
| "fake_client env (SetCurve p ps) = amap CV_result (set_fan_curve env p (PStr (points_str ps)))"
| "fake_client env (SetManual v ttl) = amap CV_result (set_fan_manual env (PInt v) (PInt ttl))"
| "fake_client env (SetMapping g c) = amap CV_result (set_gesture_mapping env g (PStr c))"
| "fake_client env (SetEnabled g b) = amap CV_result (set_gesture_enabled env g b)"
| "fake_client env (SetAllEnabled b) = amap CV_result (set_all_gestures_enabled env b)"
| "fake_client env (SetDaemonEnabled b) = amap CV_result (set_gesture_daemon_enabled env b)"
| "fake_client env (ApplyTouchpadSettings d) = amap CV_result (apply_touchpad_settings env (map (\<lambda>(k, v). (k, PInt v)) d))"
| "fake_client env (SetTouchpadSetting k v) = amap CV_result (set_touchpad_setting env k (PInt v))"
| "fake_client env QueryTouchpadSupport = amap (\<lambda>d. CV_value (PDict d)) (query_touchpad_support env)"
| "fake_client env ProbeTouchpadFirmware = amap (\<lambda>d. CV_value (PDict d)) (probe_touchpad_firmware env)"
| "fake_client env (SetMitigationEnabled b) = amap CV_result (set_gpu_mitigation_enabled env b)"
| "fake_client env Reload = amap CV_result (reload_service env)"
| "fake_client env GetDebugBundle = amap (\<lambda>d. CV_value (PDict d)) (get_debug_bundle env)"
| "fake_client env (GetRecentLogs n) = amap CV_lines (get_recent_logs env (PInt n))"

text \<open>What the methods of \<open>SdbusClient\<close> make of the value a call returned\<close>

fun client_decode :: "(pv \<Rightarrow> string) \<Rightarrow> (string \<Rightarrow> int option) \<Rightarrow> int \<Rightarrow> dbus_call \<Rightarrow> pv \<Rightarrow> client_exn + client_value" where
  "client_decode str fromiso now GetApiVersion v = rbind (to_int v) (\<lambda>i. Inr (CV_int i))"
| "client_decode str fromiso now GetSchemaVersion v = rbind (to_int v) (\<lambda>i. Inr (CV_int i))"
| "client_decode str fromiso now GetSnapshot v = rbind (decode_snapshot str fromiso now v) (\<lambda>sn. Inr (CV_snapshot sn))"
| "client_decode str fromiso now (GetRecentLogs _) v = rbind (rbind (w_list v) (rmap (\<lambda>x. w_str x []))) (\<lambda>ls. Inr (CV_lines ls))"
| "client_decode str fromiso now c v =
     (if c \<in> {RunChecks, QueryTouchpadSupport, ProbeTouchpadFirmware, GetDebugBundle}
      then Inr (CV_value v)
      else rbind (decode_result v) (\<lambda>r. Inr (CV_result r)))"

definition bus_error :: "(exn \<Rightarrow> string \<times> string) \<Rightarrow> dbus_exn \<Rightarrow> bus_reply" where
  "bus_error raw d = (case d of DbusError n m \<Rightarrow> BR_error n m | Dbus_raw e \<Rightarrow> (case raw e of (n, m) \<Rightarrow> BR_error n m))"

text \<open>A call of an open \<open>SdbusClient\<close>: dispatched by the service, its reply read by the client.\<close>

definition sdbus_client ::
  "checker \<Rightarrow> caller_facts \<Rightarrow> (exn \<Rightarrow> string \<times> string) \<Rightarrow> (int \<Rightarrow> string) \<Rightarrow> (string \<Rightarrow> int option) \<Rightarrow> int \<Rightarrow> 'w app_env \<Rightarrow>
   dbus_call \<Rightarrow> 'w app \<Rightarrow> (client_exn + client_value) \<times> 'w app" where
  "sdbus_client check facts raw isof fromiso now env c s =
     (case dispatch check facts isof env c s of
        (Inl d, s') \<Rightarrow> (rbind (call_method (method_name c) (bus_error raw d)) (client_decode (pv_str env) fromiso now c), s')
      | (Inr v, s') \<Rightarrow> (rbind (call_method (method_name c) (BR_value v)) (client_decode (pv_str env) fromiso now c), s'))"

section \<open>Values on the wire\<close>

definition wire_value :: "(int \<Rightarrow> string) \<Rightarrow> 'w app_env \<Rightarrow> client_value \<Rightarrow> pv" where
  "wire_value isof env v = (case v of
     CV_int i \<Rightarrow> PInt i | CV_snapshot sn \<Rightarrow> PDict (snapshot_to_vardict (pv_str env) isof sn)
   | CV_value x \<Rightarrow> PDict (case x of PDict d \<Rightarrow> to_vardict (pv_str env) d | _ \<Rightarrow> []) | CV_result r \<Rightarrow> wire_result env r | CV_lines ls \<Rightarrow> str_list ls)"

lemma api_amap: "api_call (amap f m) enc = api_call m (\<lambda>x. enc (f x))" "api_read (amap f m) enc = api_read m (\<lambda>x. enc (f x))"
  by (auto simp: api_call_def api_read_def amap_def abind_def aret_def split: prod.splits sum.splits intro!: ext)

text \<open>Both clients run the same use case.\<close>

lemma method_body_use_case:
  "method_body isof env c = (if open_read c then api_read else api_call) (fake_client env c) (wire_value isof env)"
  by (cases c) (simp_all add: api_amap wire_value_def)

fun value_shape :: "dbus_call \<Rightarrow> client_value \<Rightarrow> bool" where
  "value_shape GetApiVersion v = (\<exists>i. v = CV_int i)"
| "value_shape GetSchemaVersion v = (\<exists>i. v = CV_int i)"
| "value_shape GetSnapshot v = (\<exists>sn. v = CV_snapshot sn)"
| "value_shape (GetRecentLogs _) v = (\<exists>ls. v = CV_lines ls)"
| "value_shape c v = (if c \<in> {RunChecks, QueryTouchpadSupport, ProbeTouchpadFirmware, GetDebugBundle}
     then \<exists>d. v = CV_value (PDict d) else \<exists>r. v = CV_result r)"

lemma amap_value: "amap f m s = (Inr v, s') \<Longrightarrow> \<exists>x. v = f x"
  by (auto simp: amap_def abind_def aret_def split: prod.splits sum.splits)

lemma fake_client_shape: "fake_client env c s = (Inr v, s') \<Longrightarrow> value_shape c v"
  by (cases c) (auto dest: amap_value)

text \<open>Values that survive the wire.\<close>

definition plain_value :: "client_value \<Rightarrow> bool" where
  "plain_value v = (case v of
     CV_int _ \<Rightarrow> True | CV_snapshot sn \<Rightarrow> snapshot_wire sn | CV_value x \<Rightarrow> wire_plain x
   | CV_result r \<Rightarrow> wire_plain (PDict (res_details r)) | CV_lines _ \<Rightarrow> True)"

lemma pv_str_str [simp]: "pv_str env (PStr s) = s"
  by (simp add: pv_str_def)

lemma decode_wire_value:
  assumes "value_shape c v" "plain_value v" "\<And>t. fromiso (isof t) = Some t" "\<And>t. isof t \<noteq> []"
  shows "rbind (call_method (method_name c) (BR_value (wire_value isof env v))) (client_decode (pv_str env) fromiso now c) = Inr v"
proof -
  have logs: "rmap (\<lambda>x. w_str x []) (from_varlist (map PStr ls)) = Inr ls" for ls by (induction ls) auto
  have snap: "decode_snapshot (pv_str env) fromiso now (PDict (from_vardict (snapshot_to_vardict (pv_str env) isof sn))) = Inr sn"
    if "snapshot_wire sn" for sn
    using snapshot_decodes [of "pv_str env" fromiso isof sn now] assms(3,4) that by (simp add: decode_snapshot_def from_variant_idem)
  have dict: "from_vardict (to_vardict (pv_str env) d) = d" if "wire_plain (PDict d)" for d
    using that by (intro variant_roundtrip(2)) simp_all
  have res: "decode_result (PDict (from_vardict (operation_result_to_vardict (pv_str env) r))) = Inr r"
    if "wire_plain (PDict (res_details r))" for r
    using result_decodes [of "pv_str env" r] that by (simp add: decode_result_def from_variant_idem)
  show ?thesis
    using assms(1,2)
    by (cases c) (auto simp: call_method_def wire_value_def wire_result_def plain_value_def str_list_def logs snap dict res to_int_def)
qed

text \<open>What a call over the bus does and answers, by the outcome of the use case.\<close>

lemma remote_call:
  assumes "fake_client env c s = (res, s')" "open_read c \<or> authorize check facts (method_name c) = Inr ()"
    "\<And>t. fromiso (isof t) = Some t" "\<And>t. isof t \<noteq> []"
  shows "snd (sdbus_client check facts raw isof fromiso now env c s) = s' \<and>
    (\<forall>v. res = Inr v \<longrightarrow> plain_value v \<longrightarrow> fst (sdbus_client check facts raw isof fromiso now env c s) = Inr v) \<and>
    (\<forall>e code. res = Inl e \<longrightarrow> domain_code e = Some code \<longrightarrow> \<not> open_read c \<longrightarrow>
       fst (sdbus_client check facts raw isof fromiso now env c s) = Inl (client_error (transport_of code) (exn_str e)))"
proof (cases res)
  case (Inr v)
  have "dispatch check facts isof env c s = (Inr (wire_value isof env v), s')"
    using assms(1,2) Inr by (auto simp: dispatch_def method_body_use_case api_read_def api_call_def)
  then show ?thesis
    using Inr decode_wire_value [OF fake_client_shape [OF assms(1) [unfolded Inr]] _ assms(3,4)] by (auto simp: sdbus_client_def)
next
  case (Inl e)
  have names: "error_name_for code \<noteq> []" for code by (cases code) simp_all
  have "dispatch check facts isof env c s = (Inl (if open_read c then Dbus_raw e else call_error e), s')"
    using assms(1,2) Inl by (auto simp: dispatch_def method_body_use_case api_read_def api_call_def)
  then show ?thesis
    using Inl names by (auto simp: sdbus_client_def bus_error_def call_error_def mapped_error_def dbus_error_name_for
        call_method_def classify_error_name)
qed

section \<open>Properties\<close>



end
