(* ===== verification/Service.thy ===== *)
theory Service
  imports App_Shutdown App_Policies Remote
begin

text \<open>
  \<^verbatim>\<open>honor_control/backend/service.py\<close>: the composed service. \<open>serve_boot\<close> initialises the application and starts its
  controllers; then calls from the bus, the iterations of the controllers, the end of controller tasks and queued
  recoveries interleave in any order, until the service shuts down. What happens while an iteration or the shutdown waits
  for the mutation lock is again a sequence of such steps.
\<close>

section \<open>Start and stop\<close>

text \<open>\<open>_serve\<close> up to the publication of the bus name, and the whole of it: \<open>running\<close> is what happens while the service
  waits for a stop signal; the shutdown is in the \<open>finally\<close> clause.\<close>

definition serve_boot :: "'w app_env \<Rightarrow> ('w, unit) act" where
  "serve_boot env = abind (initialize env) (\<lambda>_. start_background env)"

definition serve :: "'w app_env \<Rightarrow> ('w app \<Rightarrow> 'w app) \<Rightarrow> ('w app \<Rightarrow> 'w app) \<Rightarrow> ('w, unit) act" where
  "serve env running other =
     afinally (acatch (abind (serve_boot env) (\<lambda>_. amodify running)) (\<lambda>e. if e = CancelledError then aret () else araise e))
       (shutdown_service env other)"

text \<open>\<open>main\<close> with \<open>--restore-fan-auto\<close>, over the hardware only: the exit code, or the exception that leaves it.\<close>

definition restore_fan_auto_main :: "'w hw_port \<Rightarrow> 'w \<Rightarrow> (exn + int) option \<times> 'w" where
  "restore_fan_auto_main hw w =
     (case hp_detect_platform hw w of
        (Ret p, w1) \<Rightarrow>
          if pi_matched p
          then (case hp_set_fan_auto hw w1 of
                  (Ret ok, w2) \<Rightarrow> (Some (Inr (if ok then 0 else 1)), w2)
                | (Raise e, w2) \<Rightarrow> (Some (Inl e), w2)
                | (Hang, w2) \<Rightarrow> (None, w2))
          else (Some (Inr 0), w1)
      | (Raise e, w1) \<Rightarrow> (Some (Inl e), w1)
      | (Hang, w1) \<Rightarrow> (None, w1))"

section \<open>Interleavings\<close>

inductive service_step :: "'w app_env \<Rightarrow> 'w app \<Rightarrow> 'w app \<Rightarrow> bool"
  and service_steps :: "'w app_env \<Rightarrow> 'w app \<Rightarrow> 'w app \<Rightarrow> bool"
  for env :: "'w app_env" where
  bus_call: "dispatch check facts isof env c s = (r, t) \<Longrightarrow> service_step env s t"
| refresh: "refresh_all env s = (r, t) \<Longrightarrow> service_step env s t"
| auto_switch: "(\<And>u. service_steps env u (other u)) \<Longrightarrow> auto_switch_iteration env other lp s = (r, t) \<Longrightarrow> service_step env s t"
| fan_curve: "(\<And>u. service_steps env u (first u)) \<Longrightarrow> (\<And>u. service_steps env u (second u)) \<Longrightarrow>
    fan_curve_iteration env first second lp s = (r, t) \<Longrightarrow> service_step env s t"
| manual_ttl: "(\<And>now f u. (now, f) \<in> set clock \<Longrightarrow> service_steps env u (f u)) \<Longrightarrow> (\<And>u. service_steps env u (other u)) \<Longrightarrow>
    manual_fan_expiry env started clock other s = (r, t) \<Longrightarrow> service_step env s t"
| recovery: "complete_fan_timeout_recovery env s = (r, t) \<Longrightarrow> service_step env s t"
| task_end: "service_step env s (s\<lparr>ap_sup := sup_apply (Op_task_ends n out) (ap_sup s)\<rparr>)"
| close: "(\<And>u. service_steps env u (other u)) \<Longrightarrow> shutdown_service env other s = (r, t) \<Longrightarrow> service_step env s t"
| none: "service_steps env s s"
| more_steps: "service_steps env s t \<Longrightarrow> service_step env t u \<Longrightarrow> service_steps env s u"

text \<open>States of a service: from its construction over a disk, while it starts, and after.\<close>

inductive service_reachable :: "'w app_env \<Rightarrow> 'w app \<Rightarrow> bool" for env :: "'w app_env" where
  constructed: "service_reachable env (app_init d now g w)"
| initialised: "initialize env (app_init d now g w) = (r, t) \<Longrightarrow> service_reachable env t"
| started: "serve_boot env (app_init d now g w) = (r, t) \<Longrightarrow> service_reachable env t"
| stepped: "service_reachable env s \<Longrightarrow> service_step env s t \<Longrightarrow> service_reachable env t"

inductive_cases service_stepE: "service_step env s t"

section \<open>Invariants\<close>

lemma api_keeps: "keeps I m \<Longrightarrow> I s \<Longrightarrow> I (snd (api_call m enc s)) \<and> I (snd (api_read m enc s))"
  using keepsD [of I m s] by (auto simp: api_call_def api_read_def split: prod.splits sum.splits)

context service_invariant
begin

lemma keeps_fake_client: "keeps I (fake_client env c)"
  unfolding amap_def by (cases c) (simp_all only: fake_client.simps amap_def, (intro keeps_intro)+)

lemma keeps_boot: "keeps I (serve_boot env)"
  unfolding serve_boot_def by (intro keeps_intro)

lemma keeps_dispatch: "dispatch check facts isof env c s = (r, t) \<Longrightarrow> I s \<Longrightarrow> I t"
  using api_keeps [OF keeps_fake_client, of s env c "wire_value isof env"]
  by (auto simp: dispatch_def method_body_use_case split: if_splits sum.splits)

end

context lifecycle_invariant
begin

lemma steps_keep: "service_step env s t \<Longrightarrow> I s \<Longrightarrow> I t" "service_steps env s t \<Longrightarrow> I s \<Longrightarrow> I t"
proof (induction rule: service_step_service_steps.inducts)
  case (bus_call check facts isof c s r t)
  then show ?case by (blast intro: keeps_dispatch)
next
  case (refresh s r t)
  then show ?case by (blast intro: keepsD [OF keeps_refresh_all])
next
  case (auto_switch other lp s r t)
  show ?case by (rule keepsD [OF keeps_auto_switch_iteration auto_switch(3)]) (use auto_switch in blast)+
next
  case (fan_curve first second lp s r t)
  show ?case by (rule keepsD [OF keeps_curve_iteration fan_curve(5)]) (use fan_curve in blast)+
next
  case (manual_ttl clock other started s r t)
  show ?case by (rule keepsD [OF keeps_manual_expiry manual_ttl(5)]) (use manual_ttl in blast)+
next
  case (recovery s r t)
  then show ?case by (blast intro: keepsD [OF keeps_complete_recovery])
next
  case (task_end s n out)
  then show ?case by (intro kept_sup sup_apply_inv)
next
  case (close other s r t)
  show ?case by (rule keepsD [OF keeps_shutdown close(3)]) (use close in blast)+
qed blast+

lemma reachable_keep:
  assumes "\<And>d now g w. I (app_init d now g w)"
  shows "service_reachable env s \<Longrightarrow> I s"
proof (induction rule: service_reachable.induct)
  case (initialised d now g w r t)
  then show ?case using keepsD [OF keeps_initialize] assms by blast
next
  case (started d now g w r t)
  then show ?case using keepsD [OF keeps_boot] assms by blast
qed (use assms steps_keep(1) in blast)+

end

lemma reachable_sound: "service_reachable env s \<Longrightarrow> outside s \<and> sup_ok s"
  using inv.reachable_keep [of env s, OF app_init_inv] supok.reachable_keep [of env s] calm.reachable_keep [of env s]
  by (simp add: outside_def not_cleaning_def sup_ok_def) (simp add: app_init_def app_supervisor_inv)

lemma steps_sound: "service_steps env s t \<Longrightarrow> outside s \<Longrightarrow> outside t" "service_steps env s t \<Longrightarrow> sup_ok s \<Longrightarrow> sup_ok t"
  using inv.steps_keep(2) [of env s t] calm.steps_keep(2) [of env s t] supok.steps_keep(2) [of env s t]
  by (simp_all add: outside_def not_cleaning_def)

section \<open>Properties\<close>

text \<open>
  C8: The service never loses its footing. In every state that construction, start, calls from the bus, controller
  iterations, recoveries and shutdown can reach in any order, the configuration in force is valid, the published
  snapshots are in order, the command queue is a reachable one that nobody holds, every controller is stopped, running or
  failed and running exactly while its task is alive, and no clean-up is left half-way.
\<close>

theorem service_always_consistent:
  assumes "service_reachable env s"
  shows "valid_state (cs_state (ap_config s)) \<and> snapshot_inv (ap_snaps s) \<and> cq_reachable (ap_queue s) \<and>
    cq_holder (ap_queue s) = None \<and> sup_inv (ap_sup s) \<and> \<not> ap_in_cleanup s"
  using reachable_sound [OF assms] by (simp add: outside_def app_inv_def queue_ok_def sup_ok_def)

text \<open>A manual speed requested over the bus of a started service, then a shutdown, on the test hardware.\<close>

theorem service_always_consistent_witness:
  "\<exists>s. service_reachable fake_env s \<and> ap_closing s \<and> valid_state (cs_state (ap_config s)) \<and> sup_inv (ap_sup s)"
proof -
  obtain r t where boot: "serve_boot fake_env fake_app = (r, t)" by fastforce
  obtain r1 u where call: "dispatch (\<lambda>_ _. Inr ()) shell_caller (\<lambda>_. []) fake_env (SetManual 80 60) t = (r1, u)" by fastforce
  obtain r2 v where close: "shutdown_service fake_env id u = (r2, v)" by fastforce
  have reach: "service_reachable fake_env u"
    by (rule service_reachable.stepped [OF service_reachable.started [OF boot [unfolded fake_app_def]]
          service_step_service_steps.bus_call [OF call]])
  then have "service_reachable fake_env v"
    by (rule service_reachable.stepped [OF _ service_step_service_steps.close [OF _ close]])
      (simp add: service_step_service_steps.none)
  moreover have "ap_closing v"
  proof -
    have "flags False False fake_app" by (simp add: flags_def fake_app_def app_init_def)
    from keepsD [OF flagged.keeps_boot boot this] have "flags False False t" .
    from flagged.keeps_dispatch [OF call this] have "\<not> ap_shutdown_complete u" by (simp add: flags_def)
    with fake_fan_ctx.shutdown_ends [of u id] reachable_sound [OF reach] close show ?thesis by auto
  qed
  ultimately show ?thesis using service_always_consistent by blast
qed



text \<open>
  C32: An unusable state file is never half applied. When a reload finds the file unreadable or invalid, it reports
  \<open>config_invalid\<close> and leaves the configuration in force, the controllers, the published state and the hardware as they
  were.
\<close>

theorem invalid_reload_changes_nothing:
  assumes "\<not> ap_closing s" "\<not> ap_restore_pending s" "ev_load_faults env (ap_world s) = (lf, w)"
    "\<not> cs_valid (reload (ev_store env) lf (ap_config s))"
  shows "\<exists>r c. reload_service env s = (Inr r, s\<lparr>ap_world := w, ap_config := c\<rparr>) \<and> res_status r = OS_FAILED \<and>
    res_code r = ''config_invalid'' \<and> \<not> res_changed r \<and> \<not> res_persisted r \<and> \<not> res_applied r \<and> res_message r \<noteq> [] \<and>
    cs_state c = cs_state (ap_config s) \<and> \<not> cs_valid c"
proof -
  have "cs_state (reload (ev_store env) lf (ap_config s)) = cs_state (ap_config s)"
    using assms(4) load_from_invalid [of "ev_store env" lf False "ap_config s"] by (simp add: reload_def)
  moreover have "reload_service env s = (Inr (op_failed ''config_invalid''
      (or_default (cs_last_error (reload (ev_store env) lf (ap_config s))) ''Configuration is invalid'')
      (ss_sequence (sn_snapshot (ap_snaps s))) []), s\<lparr>ap_world := w, ap_config := reload (ev_store env) lf (ap_config s)\<rparr>)"
    using assms
    by (simp add: reload_service_def serialized_def abind_def aget_def config_def config_load_def aworld_def amodify_def
        sequence_def aret_def)
  ultimately show ?thesis
    using assms(4) by (intro exI conjI) (assumption, simp_all add: op_failed_def or_default_def)
qed

theorem invalid_reload_changes_nothing_witness:
  "\<exists>r c. reload_service fake_env (app_init \<lparr>dk_primary = Some ''x'', dk_backup = None, dk_stray_temps = 0\<rparr> 0 True fake_init) =
     (Inr r, (app_init \<lparr>dk_primary = Some ''x'', dk_backup = None, dk_stray_temps = 0\<rparr> 0 True fake_init)\<lparr>ap_config := c\<rparr>) \<and>
     res_code r = ''config_invalid''"
proof -
  let ?s = "app_init \<lparr>dk_primary = Some ''x'', dk_backup = None, dk_stray_temps = 0\<rparr> 0 True fake_init"
  have lf: "ev_load_faults fake_env (ap_world ?s) = (no_load_faults, ap_world ?s)" by (simp add: fake_env_def)
  have bad: "\<not> cs_valid (reload (ev_store fake_env) no_load_faults (ap_config ?s))" by code_simp
  have "\<not> ap_closing ?s" "\<not> ap_restore_pending ?s" by (simp_all add: app_init_def)
  from invalid_reload_changes_nothing [OF this lf bad] show ?thesis by auto
qed

text \<open>
  The emergency restoration tells the truth. If the program run with \<open>--restore-fan-auto\<close> exits with 0, the platform
  was not recognised and nothing was written, or the firmware controls the fan; on an unrecognised platform it never
  touches the fan.
\<close>

theorem emergency_restore_truthful:
  assumes "fan_port hw auto" "restore_fan_auto_main hw s = (Some (Inr code), t)"
  shows "(\<exists>p u. hp_detect_platform hw s = (Ret p, u) \<and>
     (if pi_matched p then (code = 0 \<longrightarrow> auto t) \<and> (code = 0 \<or> code = 1) else code = 0 \<and> t = u \<and> auto t = auto s))"
proof -
  have reads: "reads_only auto (hp_detect_platform hw)" using assms(1) by (rule fan_port.fan_reads)
  obtain x u where det: "hp_detect_platform hw s = (x, u)" by fastforce
  with reads have same: "auto u = auto s" by (metis reads_only_def snd_conv)
  from det assms(2) obtain p where p: "x = Ret p" by (cases x) (auto simp: restore_fan_auto_main_def)
  show ?thesis
  proof (cases "pi_matched p")
    case True
    obtain y v where set: "hp_set_fan_auto hw u = (y, v)" by fastforce
    from True p det set assms(2) obtain ok where "y = Ret ok" "v = t" "code = (if ok then 0 else 1)"
      by (cases y) (auto simp: restore_fan_auto_main_def)
    moreover have "ok \<Longrightarrow> y = Ret ok \<Longrightarrow> auto v" for ok using fan_port.auto_confirmed [OF assms(1), of u v] set by simp
    ultimately show ?thesis using True p det by auto
  next
    case False
    with p det same assms(2) show ?thesis by (auto simp: restore_fan_auto_main_def)
  qed
qed

theorem emergency_restore_truthful_witness:
  "\<exists>code t. restore_fan_auto_main fake_port fake_init = (Some (Inr code), t) \<and> code = 0 \<and> fake_fan_auto t"
proof -
  have "fst (restore_fan_auto_main fake_port fake_init) = Some (Inr 0)" by code_simp
  then obtain t where run: "restore_fan_auto_main fake_port fake_init = (Some (Inr 0), t)"
    by (cases "restore_fan_auto_main fake_port fake_init") simp
  have port: "fan_port fake_port fake_fan_auto" using fake_fan_ctx.fan_port_axioms by (simp add: fake_env_def)
  from emergency_restore_truthful [OF port run]
  have "\<exists>p u. hp_detect_platform fake_port fake_init = (Ret p, u) \<and> (pi_matched p \<longrightarrow> fake_fan_auto t)"
    by (auto split: if_splits)
  moreover have "case fst (hp_detect_platform fake_port fake_init) of Ret p \<Rightarrow> pi_matched p | _ \<Rightarrow> False" by code_simp
  ultimately show ?thesis using run by auto
qed

end
