(* ===== verification/Os_Port.thy ===== *)
theory Os_Port
  imports Hardware_Port
begin

text \<open>
  What the code below the hardware port uses of the operating system, as a record of operations on an
  arbitrary world, and the programs over it: sequencing, \<open>try\<close> and \<open>finally\<close>, and loops over lists. A program replies
  with a value, with an exception, or never (\<open>Hang\<close>). A path is a string; times are in microseconds. What a program leaves
  alone is stated with \<open>reads_only\<close>, and the collection \<open>frames\<close> proves it from its parts.
\<close>

section \<open>Programs\<close>

type_synonym ('w, 'a) io = "'w \<Rightarrow> 'a reply \<times> 'w"

definition io_ret :: "'a \<Rightarrow> ('w, 'a) io" where
  "io_ret x w = (Ret x, w)"

definition io_raise :: "exn \<Rightarrow> ('w, 'a) io" where
  "io_raise e w = (Raise e, w)"

definition io_bind :: "('w, 'a) io \<Rightarrow> ('a \<Rightarrow> ('w, 'b) io) \<Rightarrow> ('w, 'b) io" where
  "io_bind m f w = (case m w of
     (Ret x, w') \<Rightarrow> f x w' | (Raise e, w') \<Rightarrow> (Raise e, w') | (Hang, w') \<Rightarrow> (Hang, w'))"

text \<open>\<open>try: m except E as e: h(e)\<close>, where \<open>c\<close> says which exceptions \<open>E\<close> covers.\<close>

definition io_try :: "('w, 'a) io \<Rightarrow> (exn \<Rightarrow> bool) \<Rightarrow> (exn \<Rightarrow> ('w, 'a) io) \<Rightarrow> ('w, 'a) io" where
  "io_try m c h w = (case m w of
     (Ret x, w') \<Rightarrow> (Ret x, w')
   | (Raise e, w') \<Rightarrow> if c e then h e w' else (Raise e, w')
   | (Hang, w') \<Rightarrow> (Hang, w'))"

text \<open>\<open>try: m finally: f\<close>: an exception of \<open>f\<close> replaces the outcome of \<open>m\<close>.\<close>

definition io_finally :: "('w, 'a) io \<Rightarrow> ('w, unit) io \<Rightarrow> ('w, 'a) io" where
  "io_finally m f w = (case m w of
     (Ret x, w') \<Rightarrow> io_bind f (\<lambda>_. io_ret x) w'
   | (Raise e, w') \<Rightarrow> io_bind f (\<lambda>_. io_raise e) w'
   | (Hang, w') \<Rightarrow> (Hang, w'))"

definition io_of :: "exn + 'a \<Rightarrow> ('w, 'a) io" where
  "io_of r = (case r of Inl e \<Rightarrow> io_raise e | Inr x \<Rightarrow> io_ret x)"

text \<open>A comprehension over a list whose body is a program, and its filter.\<close>

fun io_map :: "('a \<Rightarrow> ('w, 'b) io) \<Rightarrow> 'a list \<Rightarrow> ('w, 'b list) io" where
  "io_map f [] = io_ret []"
| "io_map f (x # xs) = io_bind (f x) (\<lambda>y. io_bind (io_map f xs) (\<lambda>ys. io_ret (y # ys)))"

fun io_filter :: "('a \<Rightarrow> ('w, bool) io) \<Rightarrow> 'a list \<Rightarrow> ('w, 'a list) io" where
  "io_filter p [] = io_ret []"
| "io_filter p (x # xs) =
     io_bind (p x) (\<lambda>b. io_bind (io_filter p xs) (\<lambda>ys. io_ret (if b then x # ys else ys)))"

text \<open>\<open>a and b\<close>, \<open>not a\<close> and \<open>a or b\<close> where the operands are programs.\<close>

definition io_and :: "('w, bool) io \<Rightarrow> ('w, bool) io \<Rightarrow> ('w, bool) io" where
  "io_and a b = io_bind a (\<lambda>x. if x then b else io_ret False)"

text \<open>
  \<open>while True\<close>, whose body returns with a value or goes on with \<^const>\<open>None\<close>. The loop is \<^const>\<open>None\<close> if it does not end; a program
  that never returns leaves the world of the loop's start.
\<close>

partial_function (option) repeat_loop :: "('w, 'a option) io \<Rightarrow> 'w \<Rightarrow> ('a reply \<times> 'w) option" where
  "repeat_loop body w = (case body w of
     (Ret None, w') \<Rightarrow> repeat_loop body w'
   | (Ret (Some x), w') \<Rightarrow> Some (Ret x, w')
   | (Raise e, w') \<Rightarrow> Some (Raise e, w')
   | (Hang, w') \<Rightarrow> Some (Hang, w'))"

declare repeat_loop.simps [code]

definition io_repeat :: "('w, 'a option) io \<Rightarrow> ('w, 'a) io" where
  "io_repeat body w = (case repeat_loop body w of None \<Rightarrow> (Hang, w) | Some y \<Rightarrow> y)"

text \<open>A call whose outcome is a value: it neither raises nor waits.\<close>

definition io_call :: "('w \<Rightarrow> 'a \<times> 'w) \<Rightarrow> ('w, 'a) io" where
  "io_call c w = (case c w of (t, w') \<Rightarrow> (Ret t, w'))"

text \<open>A loop with local variables \<open>s\<close>: the body gives their next values or the result.\<close>

definition io_iter :: "('s \<Rightarrow> ('w, 's + 'a) io) \<Rightarrow> 's \<Rightarrow> ('w, 'a) io" where
  "io_iter body s w =
     (case io_repeat (\<lambda>(s, w). case body s w of
          (Ret (Inl s'), w') \<Rightarrow> (Ret None, s', w') | (Ret (Inr x), w') \<Rightarrow> (Ret (Some x), s, w')
        | (Raise e, w') \<Rightarrow> (Raise e, s, w') | (Hang, w') \<Rightarrow> (Hang, s, w')) (s, w) of
      (r, s', w') \<Rightarrow> (r, w'))"

section \<open>Exceptions\<close>

text \<open>\<open>except OSError\<close> and \<open>except (OSError, ValueError)\<close>. \<open>UnicodeDecodeError\<close> is a \<open>ValueError\<close>.\<close>

fun is_os_error :: "exn \<Rightarrow> bool" where
  "is_os_error (OSError m) = True"
| "is_os_error (PermissionError m) = True"
| "is_os_error (TimeoutError m) = True"
| "is_os_error (TouchpadFirmwareError m p a t c) = True"
| "is_os_error _ = False"

fun is_value_error :: "exn \<Rightarrow> bool" where
  "is_value_error (ValueError m) = True"
| "is_value_error _ = False"

definition os_or_value_error :: "exn \<Rightarrow> bool" where
  "os_or_value_error e = (is_os_error e \<or> is_value_error e)"

section \<open>The operating system\<close>

text \<open>A system call that can be interrupted by a signal or would block on a non-blocking descriptor.\<close>

datatype 'a sysret = Sys_ret 'a | Sys_interrupted | Sys_blocked | Sys_raise exn

datatype ioctl_arg = IA_int int | IA_bytes "byte list"

definition R_OK :: int where "R_OK = 4"
definition W_OK :: int where "W_OK = 2"

text \<open>
  \<open>os_glob\<close> and \<open>os_iterdir\<close> give the names of the entries. \<open>os_exchange\<close> opens a file for reading and writing, writes a text,
  flushes, and reads to the end. \<open>os_run\<close> gives the exit status, the standard output and the standard error of a command,
  or \<^const>\<open>None\<close> when its time limit expired.
\<close>

record 'w os =
  os_exists :: "string \<Rightarrow> ('w, bool) io"
  os_is_dir :: "string \<Rightarrow> ('w, bool) io"
  os_access :: "string \<Rightarrow> int \<Rightarrow> ('w, bool) io"
  os_glob :: "string \<Rightarrow> string \<Rightarrow> ('w, string list) io"
  os_iterdir :: "string \<Rightarrow> ('w, string list) io"
  os_read_text :: "string \<Rightarrow> ('w, string) io"
  os_read_bytes :: "string \<Rightarrow> ('w, byte list) io"
  os_write_text :: "string \<Rightarrow> string \<Rightarrow> ('w, unit) io"
  os_exchange :: "string \<Rightarrow> string \<Rightarrow> ('w, string) io"
  os_which :: "string \<Rightarrow> ('w, string option) io"
  os_run :: "string list \<Rightarrow> ('w, (int \<times> string \<times> string) option) io"
  os_processor :: "('w, string) io"
  os_monotonic :: "'w \<Rightarrow> int \<times> 'w"
  os_time :: "'w \<Rightarrow> int \<times> 'w"
  os_time_ns :: "'w \<Rightarrow> int \<times> 'w"
  os_sleep :: "int \<Rightarrow> ('w, unit) io"
  os_open :: "string \<Rightarrow> int \<Rightarrow> ('w, int) io"
  os_close :: "int \<Rightarrow> ('w, unit) io"
  os_write :: "int \<Rightarrow> byte list \<Rightarrow> 'w \<Rightarrow> nat sysret \<times> 'w"
  os_read :: "int \<Rightarrow> nat \<Rightarrow> 'w \<Rightarrow> byte list sysret \<times> 'w"
  os_select_write :: "int \<Rightarrow> int \<Rightarrow> 'w \<Rightarrow> bool sysret \<times> 'w"
  os_select_read :: "int \<Rightarrow> int \<Rightarrow> 'w \<Rightarrow> bool sysret \<times> 'w"
  os_ioctl :: "int \<Rightarrow> int \<Rightarrow> ioctl_arg \<Rightarrow> ('w, unit) io"

section \<open>Paths and lines\<close>

text \<open>\<open>a / b\<close> of \<open>pathlib\<close>, for a path \<open>a\<close> without a trailing slash other than the root.\<close>

definition path_join :: "string \<Rightarrow> string \<Rightarrow> string" where
  "path_join a b =
     (if b \<noteq> [] \<and> hd b = CHR ''/'' then b
      else if a \<noteq> [] \<and> last a = CHR ''/'' then a @ b else a @ CHR ''/'' # b)"

text \<open>\<open>path.name\<close>\<close>

definition path_name :: "string \<Rightarrow> string" where
  "path_name p = rev (takeWhile (\<lambda>c. c \<noteq> CHR ''/'') (rev p))"

text \<open>The characters at which \<open>str.splitlines\<close> breaks; a carriage return with a line feed is one break.\<close>

definition is_linebreak :: "char \<Rightarrow> bool" where
  "is_linebreak c = (let n = cp c in (10 \<le> n \<and> n \<le> 13) \<or> (28 \<le> n \<and> n \<le> 30) \<or> n = 133)"

fun split_lines :: "string \<Rightarrow> string \<Rightarrow> string list" where
  "split_lines cur [] = (if cur = [] then [] else [rev cur])"
| "split_lines cur (c # cs) =
     (if \<not> is_linebreak c then split_lines (c # cur) cs
      else rev cur # (case cs of
        d # ds \<Rightarrow> if cp c = 13 \<and> cp d = 10 then split_lines [] ds else split_lines [] cs
      | [] \<Rightarrow> []))"

definition py_splitlines :: "string \<Rightarrow> string list" where
  "py_splitlines = split_lines []"

text \<open>\<open>sep.join(xs)\<close> for a separator of any length.\<close>

fun py_join_str :: "string \<Rightarrow> string list \<Rightarrow> string" where
  "py_join_str sep [] = []"
| "py_join_str sep [x] = x"
| "py_join_str sep (x # y # ys) = x @ sep @ py_join_str sep (y # ys)"

definition py_startswith :: "string \<Rightarrow> string \<Rightarrow> bool" where
  "py_startswith s p = (take (length p) s = p)"

section \<open>Reasoning\<close>

named_theorems io_defs \<open>the combinators, unfolded\<close>
named_theorems frames \<open>what leaves an observation of the world unchanged\<close>

lemmas [io_defs] = io_ret_def io_raise_def io_bind_def io_try_def io_finally_def io_of_def io_and_def

lemma io_bind_Ret: "m w = (Ret x, w') \<Longrightarrow> io_bind m f w = f x w'"
  by (simp add: io_bind_def)

lemma io_bind_eq_Ret:
  "io_bind m f w = (Ret y, w'') \<longleftrightarrow> (\<exists>x w'. m w = (Ret x, w') \<and> f x w' = (Ret y, w''))"
  by (auto simp: io_bind_def split: prod.splits reply.splits)

lemma io_bind_eq_Raise:
  "io_bind m f w = (Raise e, w'') \<longleftrightarrow>
     m w = (Raise e, w'') \<or> (\<exists>x w'. m w = (Ret x, w') \<and> f x w' = (Raise e, w''))"
  by (auto simp: io_bind_def split: prod.splits reply.splits)

lemma io_ret_eq [simp]: "io_ret x w = (r, w') \<longleftrightarrow> r = Ret x \<and> w' = w"
  by (auto simp: io_ret_def)

lemma io_raise_eq [simp]: "io_raise e w = (r, w') \<longleftrightarrow> r = Raise e \<and> w' = w"
  by (auto simp: io_raise_def)

lemma io_ret_bind [simp]: "io_bind (io_ret x) f = f x"
  by (rule ext) (simp add: io_bind_def io_ret_def)

lemma io_raise_bind [simp]: "io_bind (io_raise e) f = io_raise e"
  by (rule ext) (simp add: io_bind_def io_raise_def)

lemma io_bind_assoc: "io_bind (io_bind m f) g = io_bind m (\<lambda>x. io_bind (f x) g)"
  by (rule ext) (auto simp: io_bind_def split: prod.splits reply.splits)

lemma io_of_eq_Ret [simp]: "io_of r w = (Ret x, w') \<longleftrightarrow> r = Inr x \<and> w' = w"
  by (auto simp: io_of_def split: sum.splits)

lemma io_map_eq_Ret_length: "io_map f xs w = (Ret ys, w') \<Longrightarrow> length ys = length xs"
  by (induction xs arbitrary: ys w w') (auto simp: io_bind_eq_Ret)

subsection \<open>What is left alone\<close>

lemma reads_only_ret [frames, simp]: "reads_only obs (io_ret x)" "reads_only obs (io_raise e)"
  by (simp_all add: reads_only_def io_ret_def io_raise_def)

lemma reads_only_of [frames, simp]: "reads_only obs (io_of r)"
  by (cases r) (simp_all add: io_of_def)

lemma reads_only_bind [frames]:
  assumes "reads_only obs m" "\<And>x. reads_only obs (f x)"
  shows "reads_only obs (io_bind m f)"
  unfolding reads_only_def
proof
  fix w
  obtain r w' where m: "m w = (r, w')" by fastforce
  have "obs (snd (f x w')) = obs w'" for x using assms(2) by (simp add: reads_only_def)
  with m reads_onlyD [OF assms(1) m] show "obs (snd (io_bind m f w)) = obs w"
    by (cases r) (simp_all add: io_bind_def)
qed

lemma reads_only_try [frames]:
  assumes "reads_only obs m" "\<And>e. reads_only obs (h e)"
  shows "reads_only obs (io_try m c h)"
  unfolding reads_only_def
proof
  fix w
  obtain r w' where m: "m w = (r, w')" by fastforce
  have "obs (snd (h e w')) = obs w'" for e using assms(2) by (simp add: reads_only_def)
  with m reads_onlyD [OF assms(1) m] show "obs (snd (io_try m c h w)) = obs w"
    by (cases r) (simp_all add: io_try_def)
qed

lemma reads_only_finally [frames]:
  assumes "reads_only obs m" "reads_only obs f"
  shows "reads_only obs (io_finally m f)"
  unfolding reads_only_def
proof
  fix w
  obtain r w' where m: "m w = (r, w')" by fastforce
  have "reads_only obs (io_bind f (\<lambda>_. io_ret x))" "reads_only obs (io_bind f (\<lambda>_. io_raise e))" for x :: 'c and e
    using assms(2) by (auto intro!: frames)
  then have "obs (snd (io_bind f (\<lambda>_. io_ret x) w')) = obs w'" "obs (snd (io_bind f (\<lambda>_. io_raise e) w' :: 'c reply \<times> 'a)) = obs w'"
    for x :: 'c and e
    unfolding reads_only_def by blast+
  with m reads_onlyD [OF assms(1) m] show "obs (snd (io_finally m f w)) = obs w"
    by (cases r) (simp_all add: io_finally_def)
qed

lemma reads_only_map [frames]: "(\<And>x. reads_only obs (f x)) \<Longrightarrow> reads_only obs (io_map f xs)"
  by (induction xs) (auto intro!: frames)

lemma reads_only_filter [frames]: "(\<And>x. reads_only obs (p x)) \<Longrightarrow> reads_only obs (io_filter p xs)"
  by (induction xs) (auto intro!: frames)

lemma reads_only_and [frames]: "reads_only obs a \<Longrightarrow> reads_only obs b \<Longrightarrow> reads_only obs (io_and a b)"
  unfolding io_and_def by (auto intro!: frames)

lemma reads_only_if [frames]:
  "reads_only obs a \<Longrightarrow> reads_only obs b \<Longrightarrow> reads_only obs (if c then a else b)"
  by simp

lemma io_call_eq [simp]: "io_call c w = (r, w') \<longleftrightarrow> (\<exists>x. r = Ret x \<and> c w = (x, w'))"
  by (auto simp: io_call_def split: prod.splits)

lemma io_bind_call [simp]: "io_bind (io_call c) f w = (case c w of (x, v) \<Rightarrow> f x v)"
  by (simp add: io_bind_def io_call_def split: prod.splits)

lemma reads_only_call [frames]: "reads_only obs c \<Longrightarrow> reads_only obs (io_call c)"
  by (simp add: reads_only_def io_call_def split: prod.splits) (metis snd_conv)

text \<open>An invariant of the loop's body holds at the end, and if the loop never ends.\<close>

definition loop_result :: "'a option reply \<Rightarrow> 'a reply" where
  "loop_result r = (case r of Ret y \<Rightarrow> Ret (the y) | Raise e \<Rightarrow> Raise e | Hang \<Rightarrow> Hang)"

lemma repeat_loop_step:
  "body w = (r, v) \<Longrightarrow> repeat_loop body w = (if r = Ret None then repeat_loop body v else Some (loop_result r, v))"
  by (subst repeat_loop.simps) (auto simp: loop_result_def split: reply.splits option.splits)

lemma repeat_loop_inv:
  assumes "repeat_loop body w = Some (r, w')" "I w"
    and "\<And>v v'. I v \<Longrightarrow> body v = (Ret None, v') \<Longrightarrow> I v'"
  obtains v r' where "I v" "body v = (r', w')" "r' \<noteq> Ret None" "r = loop_result r'"
proof -
  have "\<exists>v r'. I v \<and> body v = (r', w') \<and> r' \<noteq> Ret None \<and> r = loop_result r'"
    using assms
  proof (induction body w "(r, w')" rule: repeat_loop.raw_induct [rotated, consumes 1, case_names step])
    case (step loop body w)
    obtain x v where b: "body w = (x, v)" by fastforce
    show ?case
    proof (cases "x = Ret None")
      case True
      then have "loop body v = Some (r, w')" using step.hyps(2) b by simp
      moreover have "I v" using step.prems b True by blast
      ultimately show ?thesis using step.hyps(1) step.prems(2) by blast
    next
      case False
      then have "r = loop_result x" "v = w'"
        using step.hyps(2) b by (auto simp: loop_result_def split: reply.splits option.splits)
      with step.prems(1) b False show ?thesis by blast
    qed
  qed
  then show thesis using that by blast
qed

lemma reads_only_repeat [frames]:
  assumes "reads_only obs body"
  shows "reads_only obs (io_repeat body)"
  unfolding reads_only_def
proof
  fix w
  show "obs (snd (io_repeat body w)) = obs w"
  proof (cases "repeat_loop body w")
    case None
    then show ?thesis by (simp add: io_repeat_def)
  next
    case (Some y)
    obtain r w' where y: "y = (r, w')" by fastforce
    obtain v r' where "obs v = obs w" "body v = (r', w')"
      by (rule repeat_loop_inv [OF Some [unfolded y], where I = "\<lambda>v. obs v = obs w"])
         (auto dest: reads_onlyD [OF assms])
    with reads_onlyD [OF assms] Some y show ?thesis by (simp add: io_repeat_def)
  qed
qed

text \<open>A loop with local variables returns from a round in which its invariant holds.\<close>

lemma io_iter_inv:
  assumes run: "io_iter body s w = (Ret x, w')" and I: "I s w"
    and keep: "\<And>s w s' w'. I s w \<Longrightarrow> body s w = (Ret (Inl s'), w') \<Longrightarrow> I s' w'"
  obtains s' v where "I s' v" "body s' v = (Ret (Inr x), w')"
proof -
  let ?b = "\<lambda>(s, w). case body s w of
          (Ret (Inl s'), w') \<Rightarrow> (Ret None, s', w') | (Ret (Inr x), w') \<Rightarrow> (Ret (Some x), s, w')
        | (Raise e, w') \<Rightarrow> (Raise e, s, w') | (Hang, w') \<Rightarrow> (Hang, s, w')"
  obtain s' where loop: "repeat_loop ?b (s, w) = Some (Ret x, s', w')"
    using run by (auto simp: io_iter_def io_repeat_def split: option.splits prod.splits)
  have step: "I (fst v') (snd v')" if "I (fst v) (snd v)" "?b v = (Ret None, v')" for v v'
    using that keep by (cases v) (auto split: prod.splits reply.splits sum.splits)
  obtain v r' where v: "I (fst v) (snd v)" "?b v = (r', s', w')" "r' \<noteq> Ret None" "Ret x = loop_result r'"
    by (rule repeat_loop_inv [OF loop, where I = "\<lambda>v. I (fst v) (snd v)"]) (use I step in \<open>auto simp del: split_paired_All\<close>)
  then have "r' = Ret (Some x)" by (cases r') (auto simp: loop_result_def)
  then have "body (fst v) (snd v) = (Ret (Inr x), w')"
    using v(2) by (cases v) (auto split: prod.splits reply.splits sum.splits)
  with v(1) show thesis by (rule that)
qed

lemma reads_only_iter [frames]:
  assumes "\<And>s. reads_only obs (body s)"
  shows "reads_only obs (io_iter body s)"
proof -
  let ?b = "\<lambda>(s, w). case body s w of
          (Ret (Inl s'), w') \<Rightarrow> (Ret None, s', w') | (Ret (Inr x), w') \<Rightarrow> (Ret (Some x), s, w')
        | (Raise e, w') \<Rightarrow> (Raise e, s, w') | (Hang, w') \<Rightarrow> (Hang, s, w')"
  have "reads_only (\<lambda>(s, w). obs w) ?b"
    unfolding reads_only_def by (auto dest: reads_onlyD [OF assms] split: prod.splits reply.splits sum.splits)
  then have "reads_only (\<lambda>(s, w). obs w) (io_repeat ?b)" by (rule reads_only_repeat)
  then show ?thesis by (auto simp: reads_only_def io_iter_def split: prod.splits) (metis (mono_tags) case_prod_conv snd_conv)
qed

subsection \<open>How programs end\<close>

text \<open>Which exceptions a program can raise, and which are those of the system.\<close>

named_theorems raising \<open>which exceptions a program can raise\<close>
named_theorems ending \<open>which programs always end\<close>

definition raises_only :: "(exn \<Rightarrow> bool) \<Rightarrow> ('w, 'a) io \<Rightarrow> bool" where
  "raises_only P m = (\<forall>w e w'. m w = (Raise e, w') \<longrightarrow> P e)"

lemma raises_onlyD: "raises_only P m \<Longrightarrow> m w = (Raise e, w') \<Longrightarrow> P e"
  unfolding raises_only_def by blast

lemma raises_only_ret [raising, simp]: "raises_only P (io_ret x)"
  by (simp add: raises_only_def)

lemma raises_only_raise [raising]: "P e \<Longrightarrow> raises_only P (io_raise e)"
  by (simp add: raises_only_def)

lemma raises_only_of [raising]: "(\<And>e. r = Inl e \<Longrightarrow> P e) \<Longrightarrow> raises_only P (io_of r)"
  by (cases r) (simp_all add: io_of_def raises_only_def)

lemma raises_only_bind [raising]:
  "raises_only P m \<Longrightarrow> (\<And>x. raises_only P (f x)) \<Longrightarrow> raises_only P (io_bind m f)"
  unfolding raises_only_def io_bind_eq_Raise by blast

lemma raises_only_try [raising]:
  "raises_only P m \<Longrightarrow> (\<And>e. c e \<Longrightarrow> raises_only P (h e)) \<Longrightarrow> raises_only P (io_try m c h)"
  unfolding raises_only_def io_try_def by (auto split: prod.splits reply.splits if_splits)

lemma raises_only_try_all: "(\<And>e. raises_only P (h e)) \<Longrightarrow> raises_only P (io_try m (\<lambda>_. True) h)"
  unfolding raises_only_def io_try_def by (auto split: prod.splits reply.splits if_splits)

lemma raises_only_finally [raising]:
  "raises_only P m \<Longrightarrow> raises_only P f \<Longrightarrow> raises_only P (io_finally m f)"
  unfolding raises_only_def io_finally_def by (auto simp: io_bind_eq_Raise split: prod.splits reply.splits) blast

lemma raises_only_map [raising]: "(\<And>x. raises_only P (f x)) \<Longrightarrow> raises_only P (io_map f xs)"
  by (induction xs) (auto intro!: raising)

lemma raises_only_filter [raising]: "(\<And>x. raises_only P (p x)) \<Longrightarrow> raises_only P (io_filter p xs)"
  by (induction xs) (auto intro!: raising)

lemma raises_only_and [raising]: "raises_only P a \<Longrightarrow> raises_only P b \<Longrightarrow> raises_only P (io_and a b)"
  unfolding io_and_def by (auto intro!: raising)

lemma raises_only_if [raising]:
  "(c \<Longrightarrow> raises_only P a) \<Longrightarrow> (\<not> c \<Longrightarrow> raises_only P b) \<Longrightarrow> raises_only P (if c then a else b)"
  by simp

lemma raises_only_call [raising]: "raises_only P (io_call c)"
  by (simp add: raises_only_def)

lemma raises_only_repeat [raising]:
  assumes "raises_only P body"
  shows "raises_only P (io_repeat body)"
  unfolding raises_only_def
proof (intro allI impI)
  fix w e w'
  assume "io_repeat body w = (Raise e, w')"
  then have "repeat_loop body w = Some (Raise e, w')" by (auto simp: io_repeat_def split: option.splits)
  then obtain v r' where "body v = (r', w')" "Raise e = loop_result r'"
    by (rule repeat_loop_inv [where I = "\<lambda>_. True"]) simp_all
  then have "body v = (Raise e, w')" by (cases r') (simp_all add: loop_result_def)
  then show "P e" by (rule raises_onlyD [OF assms])
qed

text \<open>A program that ends, and keeps what \<open>R\<close> says of the world before and after.\<close>

definition completes :: "('w \<Rightarrow> 'w \<Rightarrow> bool) \<Rightarrow> ('w, 'a) io \<Rightarrow> bool" where
  "completes R m = (\<forall>w. fst (m w) \<noteq> Hang \<and> R w (snd (m w)))"

lemma completesD: "completes R m \<Longrightarrow> m w = (r, w') \<Longrightarrow> r \<noteq> Hang \<and> R w w'"
  by (metis completes_def fst_conv snd_conv)

lemma completes_at: "completes R m \<Longrightarrow> fst (m w) \<noteq> Hang \<and> R w (snd (m w))"
  by (simp add: completes_def)

lemma completes_bind:
  assumes R: "transp R" and "completes R m" "\<And>x. completes R (f x)"
  shows "completes R (io_bind m f)"
  unfolding completes_def
proof
  fix w
  obtain r w' where m: "m w = (r, w')" by fastforce
  show "fst (io_bind m f w) \<noteq> Hang \<and> R w (snd (io_bind m f w))"
    using completesD [OF assms(2) m] completes_at [OF assms(3), of _ w'] m transpD [OF R, of w w'] by (cases r) (simp_all add: io_bind_def)
qed

lemma completes_try:
  assumes R: "transp R" and "completes R m" "\<And>e. completes R (h e)"
  shows "completes R (io_try m c h)"
  unfolding completes_def
proof
  fix w
  obtain r w' where m: "m w = (r, w')" by fastforce
  show "fst (io_try m c h w) \<noteq> Hang \<and> R w (snd (io_try m c h w))"
    using completesD [OF assms(2) m] completes_at [OF assms(3), of _ w'] m transpD [OF R, of w w'] by (cases r) (simp_all add: io_try_def)
qed

lemma completes_ret: "reflp R \<Longrightarrow> completes R (io_ret x)" "reflp R \<Longrightarrow> completes R (io_raise e)"
  by (simp_all add: completes_def io_ret_def io_raise_def reflpD)

lemma completes_of: "reflp R \<Longrightarrow> completes R (io_of r)"
  by (cases r) (simp_all add: io_of_def completes_ret)

lemma completes_finally:
  assumes "reflp R" and R: "transp R" and "completes R m" "completes R f"
  shows "completes R (io_finally m f)"
  unfolding completes_def
proof
  fix w
  obtain r w' where m: "m w = (r, w')" by fastforce
  have "completes R (io_bind f (\<lambda>_. io_ret x))" "completes R (io_bind f (\<lambda>_. io_raise e :: ('a, 'b) io))" for x :: 'b and e
    using assms by (auto intro!: completes_bind completes_ret)
  from completes_at [OF this(1)] completes_at [OF this(2)]
  show "fst (io_finally m f w) \<noteq> Hang \<and> R w (snd (io_finally m f w))"
    using completesD [OF assms(3) m] m transpD [OF R, of w w'] by (cases r) (simp_all add: io_finally_def)
qed

lemma completes_call: "(\<And>w. R w (snd (c w))) \<Longrightarrow> completes R (io_call c)"
  by (auto simp: completes_def io_call_def split: prod.splits) (metis snd_conv)

text \<open>A loop ends if every further round makes the world smaller.\<close>

lemma completes_repeat:
  assumes "wf S" and R: "transp R" and body: "completes R body"
    and down: "\<And>w w'. body w = (Ret None, w') \<Longrightarrow> (w', w) \<in> S"
  shows "completes R (io_repeat body)"
proof -
  have "\<exists>r w'. repeat_loop body w = Some (r, w') \<and> r \<noteq> Hang \<and> R w w'" for w
    using assms(1)
  proof (induction w rule: wf_induct_rule)
    case (less w)
    obtain x v where b: "body w = (x, v)" by fastforce
    note b' = completesD [OF body b] and step = repeat_loop_step [of body w x v, OF b]
    show ?case
    proof (cases "x = Ret None")
      case True
      with less down b obtain r w' where "repeat_loop body v = Some (r, w')" "r \<noteq> Hang" "R v w'" by blast
      then show ?thesis using b' step True transpD [OF R] by auto
    next
      case False
      then have "repeat_loop body w = Some (loop_result x, v)" using step by simp
      moreover have "loop_result x \<noteq> Hang" using b' by (cases x) (simp_all add: loop_result_def)
      ultimately show ?thesis using b' by simp
    qed
  qed
  then show ?thesis unfolding completes_def io_repeat_def by (metis fst_conv option.simps(5) snd_conv)
qed

text \<open>The exceptions of the file system, the processes and the devices.\<close>

definition system_error :: "exn \<Rightarrow> bool" where
  "system_error e = (case e of
     OSError _ \<Rightarrow> True | PermissionError _ \<Rightarrow> True | TimeoutError _ \<Rightarrow> True | ValueError _ \<Rightarrow> True | OtherError _ \<Rightarrow> True
   | _ \<Rightarrow> False)"

lemma system_error_simps [simp]:
  "system_error (OSError m)" "system_error (PermissionError m)" "system_error (TimeoutError m)" "system_error (ValueError m)"
  "system_error (OtherError m)" "\<not> system_error (TouchpadFirmwareError m p a t c)" "\<not> system_error CancelledError"
  "\<not> system_error (CommandTimeoutError m b)" "\<not> system_error (DomainException d m)"
  by (simp_all add: system_error_def)

lemma value_error_system: "is_value_error e \<Longrightarrow> system_error e"
  by (cases e) simp_all

section \<open>A file system in view\<close>

text \<open>
  What the files answer, for programs that only look: the answers come from a view of the world, and looking leaves the view
  as it is. The view may change with anything else that happens.
\<close>

record fs_view =
  fv_exists :: "string \<Rightarrow> bool reply"
  fv_is_dir :: "string \<Rightarrow> bool reply"
  fv_access :: "string \<Rightarrow> int \<Rightarrow> bool reply"
  fv_glob :: "string \<Rightarrow> string \<Rightarrow> string list reply"
  fv_iterdir :: "string \<Rightarrow> string list reply"
  fv_text :: "string \<Rightarrow> string reply"
  fv_bytes :: "string \<Rightarrow> byte list reply"

text \<open>A program that answers as \<open>f\<close> does on the view.\<close>

definition looks :: "('w \<Rightarrow> 'v) \<Rightarrow> ('v \<Rightarrow> 'a reply) \<Rightarrow> ('w, 'a) io \<Rightarrow> bool" where
  "looks view f m = (\<forall>w. fst (m w) = f (view w) \<and> view (snd (m w)) = view w)"

lemma looksD: "looks view f m \<Longrightarrow> m w = (r, w') \<Longrightarrow> f (view w) = r \<and> view w' = view w"
  by (metis looks_def fst_conv snd_conv)

locale visible_files =
  fixes os :: "'w os"
    and view :: "'w \<Rightarrow> fs_view"
  assumes answers:
    "looks view (\<lambda>v. fv_exists v p) (os_exists os p)" "looks view (\<lambda>v. fv_is_dir v p) (os_is_dir os p)"
    "looks view (\<lambda>v. fv_access v p m) (os_access os p m)" "looks view (\<lambda>v. fv_glob v p g) (os_glob os p g)"
    "looks view (\<lambda>v. fv_iterdir v p) (os_iterdir os p)" "looks view (\<lambda>v. fv_text v p) (os_read_text os p)"
    "looks view (\<lambda>v. fv_bytes v p) (os_read_bytes os p)"

end
