(* ===== verification/Hid_Descriptor.thy ===== *)
theory Hid_Descriptor
  imports Os_Port
begin

unbundle bit_operations_syntax

text \<open>
  The HID report descriptor parser of \<^verbatim>\<open>honor_control/backend/touchpad_firmware.py\<close>
  (\<open>parse_vendor_collection_descriptor\<close>): a loop over the bytes of the descriptor that keeps the global items, the stack of
  saved globals, the open collections, the local usages and the bits counted per report. The descriptor is verified
  against a specification on the level of items: what the parser accepts is the encoding of a sequence of items, and the
  report sizes it finds are the sums over the input and output items of the vendor collection.
\<close>

section \<open>The capabilities\<close>

record vendor_collection_caps =
  vc_found :: bool
  vc_report_id :: "int option"
  vc_input_report_bytes :: int
  vc_output_report_bytes :: int

definition input_compatible :: "vendor_collection_caps \<Rightarrow> bool" where
  "input_compatible c = (vc_found c \<and> vc_report_id c = Some (uint TOUCHPAD_REPORT_ID) \<and>
     vc_input_report_bytes c = int TOUCHPAD_REPORT_BYTES)"

definition caps_writable :: "vendor_collection_caps \<Rightarrow> bool" where
  "caps_writable c = (input_compatible c \<and> vc_output_report_bytes c = int TOUCHPAD_REPORT_BYTES)"

section \<open>The parser\<close>

definition unsigned_item_value :: "byte list \<Rightarrow> int" where
  "unsigned_item_value payload = (if payload \<noteq> [] then from_bytes_little payload else 0)"

record hid_globals =
  hg_usage_page :: int
  hg_report_size :: int
  hg_report_id :: int
  hg_report_count :: int

text \<open>The variables of the loop. The dictionaries of bits are association lists from report ids.\<close>

record hid_state =
  hs_globals :: hid_globals
  hs_global_stack :: "hid_globals list"
  hs_collections :: "(int \<times> int \<times> int) list"
  hs_local_usages :: "int list"
  hs_input_bits :: "(int \<times> int) list"
  hs_output_bits :: "(int \<times> int) list"
  hs_found :: bool

definition hid_start :: hid_state where
  "hid_start =
     \<lparr>hs_globals = \<lparr>hg_usage_page = 0, hg_report_size = 0, hg_report_id = 0, hg_report_count = 0\<rparr>,
      hs_global_stack = [], hs_collections = [], hs_local_usages = [], hs_input_bits = [], hs_output_bits = [],
      hs_found = False\<rparr>"

definition vendor_collection :: "int \<times> int \<times> int" where
  "vendor_collection = (TOUCHPAD_VENDOR_USAGE_PAGE, TOUCHPAD_VENDOR_USAGE, 1)"

definition global_item :: "byte \<Rightarrow> int \<Rightarrow> hid_state \<Rightarrow> exn + hid_state" where
  "global_item tag v st =
     (let g = hs_globals st in
      if tag = 0x0 then Inr (st\<lparr>hs_globals := g\<lparr>hg_usage_page := v\<rparr>\<rparr>)
      else if tag = 0x7 then Inr (st\<lparr>hs_globals := g\<lparr>hg_report_size := v\<rparr>\<rparr>)
      else if tag = 0x8 then Inr (st\<lparr>hs_globals := g\<lparr>hg_report_id := v\<rparr>\<rparr>)
      else if tag = 0x9 then Inr (st\<lparr>hs_globals := g\<lparr>hg_report_count := v\<rparr>\<rparr>)
      else if tag = 0xA then Inr (st\<lparr>hs_global_stack := hs_global_stack st @ [g]\<rparr>)
      else if tag = 0xB then
        (if hs_global_stack st = [] then Inl (ValueError ''HID global POP without PUSH'')
         else Inr (st\<lparr>hs_globals := last (hs_global_stack st), hs_global_stack := butlast (hs_global_stack st)\<rparr>))
      else Inr st)"

definition local_item :: "byte \<Rightarrow> int \<Rightarrow> hid_state \<Rightarrow> hid_state" where
  "local_item tag v st = (if tag = 0x0 then st\<lparr>hs_local_usages := hs_local_usages st @ [v]\<rparr> else st)"

text \<open>\<open>target[report_id] = target.get(report_id, 0) + bits\<close>\<close>

definition add_bits :: "int \<Rightarrow> int \<Rightarrow> (int \<times> int) list \<Rightarrow> (int \<times> int) list" where
  "add_bits rid bits target =
     AList.update rid ((case map_of target rid of None \<Rightarrow> 0 | Some n \<Rightarrow> n) + bits) target"

definition main_item :: "byte \<Rightarrow> int \<Rightarrow> hid_state \<Rightarrow> hid_state" where
  "main_item tag v st =
     (let st' =
        (if tag = 0xA then
           let usage = (if hs_local_usages st \<noteq> [] then last (hs_local_usages st) else 0);
               col = (hg_usage_page (hs_globals st), usage, v)
           in st\<lparr>hs_collections := hs_collections st @ [col],
                 hs_found := (if col = vendor_collection then True else hs_found st)\<rparr>
         else if tag = 0xC then st\<lparr>hs_collections := butlast (hs_collections st)\<rparr>
         else if tag = 0x8 \<or> tag = 0x9 then
           (if vendor_collection \<in> set (hs_collections st) then
              let rid = hg_report_id (hs_globals st);
                  bits = hg_report_size (hs_globals st) * hg_report_count (hs_globals st)
              in if tag = 0x8 then st\<lparr>hs_input_bits := add_bits rid bits (hs_input_bits st)\<rparr>
                 else st\<lparr>hs_output_bits := add_bits rid bits (hs_output_bits st)\<rparr>
            else st)
         else st)
      in st'\<lparr>hs_local_usages := []\<rparr>)"

definition short_item :: "byte \<Rightarrow> byte \<Rightarrow> int \<Rightarrow> hid_state \<Rightarrow> exn + hid_state" where
  "short_item item_type tag v st =
     (if item_type = 1 then global_item tag v st
      else if item_type = 2 then Inr (local_item tag v st)
      else if item_type \<noteq> 0 then Inr st
      else Inr (main_item tag v st))"

text \<open>The loop, on the bytes from the current position.\<close>

fun parse_items :: "byte list \<Rightarrow> hid_state \<Rightarrow> exn + hid_state" where
  "parse_items [] st = Inr st"
| "parse_items (prefix # rest) st =
     (if prefix = 0xFE then
        (if length rest < 2 then Inl (ValueError ''truncated HID long item'')
         else let size = unat (rest ! 0); rest = drop 2 rest in
              if length rest < size then Inl (ValueError ''truncated HID long-item payload'')
              else parse_items (drop size rest) st)
      else
        let encoded_size = unat (prefix AND 0x03); size = (if encoded_size = 3 then 4 else encoded_size) in
        if length rest < size then Inl (ValueError ''truncated HID short-item payload'')
        else rbind (short_item (drop_bit 2 prefix AND 0x03) (drop_bit 4 prefix AND 0x0F)
                     (unsigned_item_value (take size rest)) st)
               (parse_items (drop size rest)))"

definition report_bytes :: "(int \<times> int) list \<Rightarrow> int option \<Rightarrow> int" where
  "report_bytes bits selected =
     (case selected of None \<Rightarrow> 0
      | Some rid \<Rightarrow> (case map_of bits rid of None \<Rightarrow> 0
          | Some n \<Rightarrow> (n + 7) div 8 + (if rid \<noteq> 0 then 1 else 0)))"

definition select_report :: "hid_state \<Rightarrow> int option" where
  "select_report st =
     (let known = set (map fst (hs_input_bits st)) \<union> set (map fst (hs_output_bits st)) in
      if uint TOUCHPAD_REPORT_ID \<in> known then Some (uint TOUCHPAD_REPORT_ID)
      else let report_ids = sorted_list_of_set known in
           if length report_ids = 1 then Some (report_ids ! 0) else None)"

definition hid_caps :: "hid_state \<Rightarrow> vendor_collection_caps" where
  "hid_caps st =
     (let rid = select_report st in
      \<lparr>vc_found = hs_found st, vc_report_id = rid,
       vc_input_report_bytes = report_bytes (hs_input_bits st) rid,
       vc_output_report_bytes = report_bytes (hs_output_bits st) rid\<rparr>)"

definition parse_vendor_collection_descriptor :: "byte list \<Rightarrow> exn + vendor_collection_caps" where
  "parse_vendor_collection_descriptor descriptor =
     rbind (parse_items descriptor hid_start) (\<lambda>st. Inr (hid_caps st))"

section \<open>Descriptors as sequences of items\<close>

text \<open>
  A short item has a type (main 0, global 1, local 2), a tag and a payload of zero, one, two or four bytes; the prefix of a
  reserved item that would read as the long-item prefix is not a short item. A long item has a tag and up to 255 bytes.
\<close>

datatype hid_item = Short_item nat nat "byte list" | Long_item byte "byte list"

definition size_code :: "byte list \<Rightarrow> nat" where
  "size_code p = (if length p = 4 then 3 else length p)"

definition prefix_nat :: "nat \<Rightarrow> nat \<Rightarrow> byte list \<Rightarrow> nat" where
  "prefix_nat ty tag p = 16 * tag + 4 * ty + size_code p"

fun item_ok :: "hid_item \<Rightarrow> bool" where
  "item_ok (Short_item ty tag p) = (ty < 4 \<and> tag < 16 \<and> length p \<in> {0, 1, 2, 4} \<and> prefix_nat ty tag p \<noteq> 0xFE)"
| "item_ok (Long_item tag p) = (length p < 256)"

fun item_bytes :: "hid_item \<Rightarrow> byte list" where
  "item_bytes (Short_item ty tag p) = of_nat (prefix_nat ty tag p) # p"
| "item_bytes (Long_item tag p) = 0xFE # of_nat (length p) # tag # p"

definition descriptor_of :: "hid_item list \<Rightarrow> byte list" where
  "descriptor_of items = concat (map item_bytes items)"

fun do_item :: "hid_item \<Rightarrow> hid_state \<Rightarrow> exn + hid_state" where
  "do_item (Short_item ty tag p) st = short_item (of_nat ty) (of_nat tag) (from_bytes_little p) st"
| "do_item (Long_item tag p) st = Inr st"

fun do_items :: "hid_item list \<Rightarrow> hid_state \<Rightarrow> exn + hid_state" where
  "do_items [] st = Inr st"
| "do_items (i # is) st = rbind (do_item i st) (do_items is)"

lemma unsigned_item_value: "unsigned_item_value p = from_bytes_little p"
  by (simp add: unsigned_item_value_def from_bytes_little_def)

subsection \<open>Prefixes\<close>

lemma and_masks: "(b :: byte) AND 0x03 = take_bit 2 b" "(b :: byte) AND 0x0F = take_bit 4 b"
  by (simp_all add: take_bit_eq_mask mask_eq_exp_minus_1)

lemma split_byte: "(n :: nat) < 256 \<Longrightarrow> n = 16 * (n div 16 mod 16) + 4 * (n div 4 mod 4) + n mod 4"
proof -
  assume "n < 256"
  then have "n div 16 mod 16 = n div 16" by simp
  moreover have "n div 4 = 4 * (n div 16) + n div 4 mod 4"
    using mult_div_mod_eq [of 4 "n div 4"] by (simp add: div_mult2_eq [symmetric])
  moreover have "n = 4 * (n div 4) + n mod 4" by simp
  ultimately show ?thesis by linarith
qed

lemma prefix_parts:
  fixes b :: byte
  shows "unat b = 16 * unat (drop_bit 4 b AND 0x0F) + 4 * unat (drop_bit 2 b AND 0x03) + unat (b AND 0x03)"
    and "unat (drop_bit 4 b AND 0x0F) < 16" "unat (drop_bit 2 b AND 0x03) < 4" "unat (b AND 0x03) < 4"
proof -
  have small: "unat b < 256" using unsigned_less [of b] by simp
  have "unat (drop_bit 4 b AND 0x0F) = unat b mod 256 div 16 mod 16" "unat (drop_bit 2 b AND 0x03) = unat b mod 256 div 4 mod 4"
    "unat (b AND 0x03) = unat b mod 4"
    by (simp_all only: and_masks unsigned_take_bit_eq unsigned_drop_bit_eq)
       (simp_all add: take_bit_eq_mod drop_bit_eq_div)
  moreover note small
  ultimately show "unat b = 16 * unat (drop_bit 4 b AND 0x0F) + 4 * unat (drop_bit 2 b AND 0x03) + unat (b AND 0x03)"
    and "unat (drop_bit 4 b AND 0x0F) < 16" "unat (drop_bit 2 b AND 0x03) < 4" "unat (b AND 0x03) < 4"
    using split_byte [OF small] by simp_all
qed

lemma split_low: "4 * a + s = 4 * b + t \<Longrightarrow> s < 4 \<Longrightarrow> t < 4 \<Longrightarrow> s = t \<and> a = (b :: nat)"
  by presburger

lemma parts_unique:
  fixes s :: nat
  assumes "16 * t + 4 * y + s = 16 * t' + 4 * y' + s'" "y < 4" "s < 4" "y' < 4" "s' < 4"
  shows "t = t' \<and> y = y' \<and> s = s'"
proof -
  have "s = s' \<and> 4 * t + y = 4 * t' + y'"
    using assms(1,3,5) split_low [of "4 * t + y" s "4 * t' + y'" s'] by simp
  then show ?thesis using split_low [of t y t' y'] assms(2,4) by simp
qed

lemma prefix_of_parts:
  fixes b :: byte
  assumes "unat b = 16 * tag + 4 * ty + s" "ty < 4" "s < 4" "tag < 16"
  shows "drop_bit 4 b AND 0x0F = of_nat tag" "drop_bit 2 b AND 0x03 = of_nat ty" "unat (b AND 0x03) = s"
proof -
  have "unat (drop_bit 4 b AND 0x0F) = tag" "unat (drop_bit 2 b AND 0x03) = ty" "unat (b AND 0x03) = s"
    using parts_unique [OF trans [OF prefix_parts(1) [of b, symmetric] assms(1)]] prefix_parts(3,4) [of b] assms by simp_all
  then show "drop_bit 4 b AND 0x0F = of_nat tag" "drop_bit 2 b AND 0x03 = of_nat ty" "unat (b AND 0x03) = s"
    by (metis of_nat_unat ucast_id)+
qed

subsection \<open>The parser reads items\<close>

lemma short_payload: "length p \<in> {0, 1, 2, 4} \<Longrightarrow> (if size_code p = 3 then 4 else size_code p) = length p"
  by (auto simp: size_code_def)

lemma prefix_nat_less: "item_ok (Short_item ty tag p) \<Longrightarrow> prefix_nat ty tag p < 256"
  by (auto simp: prefix_nat_def size_code_def)

lemma parse_item:
  assumes "item_ok i"
  shows "parse_items (item_bytes i @ rest) st = rbind (do_item i st) (parse_items rest)"
proof (cases i)
  case (Short_item ty tag p)
  let ?b = "of_nat (prefix_nat ty tag p) :: byte"
  have n: "unat ?b = 16 * tag + 4 * ty + size_code p"
    using prefix_nat_less [of ty tag p] assms Short_item by (simp only: unat_of_nat) (simp add: prefix_nat_def)
  have bounds: "ty < 4" "tag < 16" "size_code p < 4"
    using assms Short_item by (auto simp: size_code_def)
  have "?b \<noteq> 0xFE"
  proof
    assume "?b = 0xFE"
    then have "unat ?b = 0xFE" by simp
    with n assms Short_item show False by (simp add: prefix_nat_def)
  qed
  then show ?thesis
    using assms Short_item short_payload [of p] prefix_of_parts [OF n bounds(1,3,2)]
    by (simp add: unsigned_item_value Let_def)
next
  case (Long_item tag p)
  then have "unat (of_nat (length p) :: byte) = length p"
    using assms by (simp add: unat_of_nat)
  with Long_item show ?thesis by (simp add: Let_def)
qed

lemma parse_descriptor_of:
  "list_all item_ok items \<Longrightarrow> parse_items (descriptor_of items) st = do_items items st"
proof (induction items arbitrary: st)
  case Nil
  then show ?case by (simp add: descriptor_of_def)
next
  case (Cons i items)
  then have "parse_items (item_bytes i @ descriptor_of items) st = rbind (do_item i st) (parse_items (descriptor_of items))"
    by (intro parse_item) simp
  then show ?case
    using Cons by (cases "do_item i st") (simp_all add: descriptor_of_def)
qed

lemma read_prefix:
  assumes "prefix \<noteq> 0xFE" "k = (if unat (prefix AND 0x03) = 3 then 4 else unat (prefix AND 0x03))"
    "k \<le> length rest"
  shows "\<exists>i. item_ok i \<and> prefix # rest = item_bytes i @ drop k rest"
proof -
  let ?ty = "unat (drop_bit 2 prefix AND 0x03)" and ?tag = "unat (drop_bit 4 prefix AND 0x0F)"
  have len: "length (take k rest) = k" using assms(3) by simp
  have low: "unat (prefix AND 0x03) < 4" by (rule prefix_parts)
  then have code: "size_code (take k rest) = unat (prefix AND 0x03)" and four: "k \<in> {0, 1, 2, 4}"
    using assms(2) len by (auto simp: size_code_def)
  have "prefix_nat ?ty ?tag (take k rest) = unat prefix"
    using prefix_parts(1) [of prefix] code by (simp add: prefix_nat_def)
  moreover have "unat prefix \<noteq> 0xFE"
    using assms(1) by (metis of_nat_numeral of_nat_unat ucast_id)
  moreover have "of_nat (unat prefix) = prefix" by (metis of_nat_unat ucast_id)
  ultimately have "item_ok (Short_item ?ty ?tag (take k rest))"
    and "prefix # rest = item_bytes (Short_item ?ty ?tag (take k rest)) @ drop k rest"
    using four len prefix_parts(2,3) [of prefix] by simp_all
  then show ?thesis by blast
qed

lemma read_long_prefix:
  assumes "2 \<le> length rest" "unat (rest ! 0) \<le> length (drop 2 rest)"
  shows "\<exists>i. item_ok i \<and> 0xFE # rest = item_bytes i @ drop (unat (rest ! 0)) (drop 2 rest)"
proof -
  obtain a b r where rest: "rest = a # b # r" using assms(1) by (auto simp: numeral_2_eq_2 Suc_le_length_iff)
  let ?i = "Long_item b (take (unat a) r)"
  have len: "length (take (unat a) r) = unat a" using assms(2) rest by simp
  have "unat a < 256" using unsigned_less [of a] by simp
  then have "item_ok ?i" using len by simp
  moreover have "0xFE # rest = item_bytes ?i @ drop (unat (rest ! 0)) (drop 2 rest)"
    using rest len by (simp del: length_take)
  ultimately show ?thesis by blast
qed

lemma parse_items_encoded: "parse_items d st = Inr st' \<Longrightarrow> \<exists>items. list_all item_ok items \<and> d = descriptor_of items"
proof (induction d st rule: parse_items.induct)
  case (1 st)
  show ?case by (rule exI [of _ "[]"]) (simp add: descriptor_of_def)
next
  case (2 prefix rest st)
  have add: "\<exists>items. list_all item_ok items \<and> prefix # rest = descriptor_of items"
    if found: "\<exists>i. item_ok i \<and> prefix # rest = item_bytes i @ d'" "\<exists>items. list_all item_ok items \<and> d' = descriptor_of items"
    for d'
  proof -
    obtain i items where "item_ok i" "prefix # rest = item_bytes i @ descriptor_of items" "list_all item_ok items"
      using found by auto
    then show ?thesis by (intro exI [of _ "i # items"]) (simp add: descriptor_of_def)
  qed
  show ?case
  proof (cases "prefix = 0xFE")
    case True
    then have "\<not> length rest < 2" "\<not> length (drop 2 rest) < unat (rest ! 0)"
      using "2.prems" by (auto simp: Let_def split: if_splits)
    moreover from this True "2.prems" have "parse_items (drop (unat (rest ! 0)) (drop 2 rest)) st = Inr st'"
      by (simp add: Let_def)
    ultimately show ?thesis
      using add read_long_prefix [of rest] "2.IH"(1) [OF True _ refl refl] True by simp
  next
    case False
    define k where "k = (if unat (prefix AND 0x03) = 3 then 4 else unat (prefix AND 0x03))"
    obtain st2 where k: "k \<le> length rest"
      and st2: "short_item (drop_bit 2 prefix AND 0x03) (drop_bit 4 prefix AND 0x0F) (unsigned_item_value (take k rest)) st = Inr st2"
      and more: "parse_items (drop k rest) st2 = Inr st'"
      using "2.prems" False unfolding k_def by (auto simp: Let_def split: if_splits)
    have "\<exists>items. list_all item_ok items \<and> drop k rest = descriptor_of items"
      using "2.IH"(2) [OF False refl refl, folded k_def, of st2] k more st2 by simp
    with read_prefix [OF False k_def k] show ?thesis by (rule add)
  qed
qed

text \<open>The parser refuses only with \<open>ValueError\<close>, which both of its callers catch.\<close>

lemma short_item_error: "short_item ty t v st = Inl e \<Longrightarrow> is_value_error e"
  by (auto simp: short_item_def global_item_def Let_def split: if_splits)

lemma parse_items_error: "parse_items d st = Inl e \<Longrightarrow> is_value_error e"
  by (induction d st rule: parse_items.induct)
     (auto simp: Let_def rbind_eq_Inl_iff dest: short_item_error split: if_splits)

lemma parse_descriptor_error: "parse_vendor_collection_descriptor d = Inl e \<Longrightarrow> is_value_error e"
  by (auto simp: parse_vendor_collection_descriptor_def rbind_eq_Inl_iff dest: parse_items_error)

section \<open>What is counted\<close>

text \<open>The bits that the main items with a tag contribute to a report inside the vendor collection, and whether one is opened.\<close>

definition counted :: "nat \<Rightarrow> int \<Rightarrow> hid_item \<Rightarrow> hid_state \<Rightarrow> int" where
  "counted tag rid i st = (case i of
     Short_item ty t p \<Rightarrow>
       if ty = 0 \<and> t = tag \<and> vendor_collection \<in> set (hs_collections st) \<and> hg_report_id (hs_globals st) = rid
       then hg_report_size (hs_globals st) * hg_report_count (hs_globals st) else 0
   | Long_item _ _ \<Rightarrow> 0)"

fun item_bits :: "nat \<Rightarrow> int \<Rightarrow> hid_item list \<Rightarrow> hid_state \<Rightarrow> int" where
  "item_bits tag rid [] st = 0"
| "item_bits tag rid (i # is) st =
     counted tag rid i st + (case do_item i st of Inl _ \<Rightarrow> 0 | Inr st' \<Rightarrow> item_bits tag rid is st')"

definition opens_item :: "hid_item \<Rightarrow> hid_state \<Rightarrow> bool" where
  "opens_item i st = (case i of
     Short_item ty t p \<Rightarrow> ty = 0 \<and> t = 0xA \<and>
       (hg_usage_page (hs_globals st), if hs_local_usages st = [] then 0 else last (hs_local_usages st),
        from_bytes_little p) = vendor_collection
   | Long_item _ _ \<Rightarrow> False)"

fun opens_vendor :: "hid_item list \<Rightarrow> hid_state \<Rightarrow> bool" where
  "opens_vendor [] st = False"
| "opens_vendor (i # is) st =
     (opens_item i st \<or> (case do_item i st of Inl _ \<Rightarrow> False | Inr st' \<Rightarrow> opens_vendor is st'))"

definition bits_at :: "(int \<times> int) list \<Rightarrow> int \<Rightarrow> int" where
  "bits_at m rid = (case map_of m rid of None \<Rightarrow> 0 | Some n \<Rightarrow> n)"

lemma bits_at_add: "bits_at (add_bits r n m) rid = bits_at m rid + (if r = rid then n else 0)"
  by (simp add: bits_at_def add_bits_def update_conv')

lemma of_nat_byte_eq: "a < 256 \<Longrightarrow> b < 256 \<Longrightarrow> ((of_nat a :: byte) = of_nat b) = (a = b)"
proof -
  assume "a < 256" "b < 256"
  then have "unat (of_nat a :: byte) = a" "unat (of_nat b :: byte) = b" by (simp_all only: unat_of_nat) simp_all
  then show ?thesis by metis
qed

lemma of_nat_byte_const:
  assumes "t < 256"
  shows "(of_nat t :: byte) = 0 \<longleftrightarrow> t = 0" "(of_nat t :: byte) = 1 \<longleftrightarrow> t = 1" "(of_nat t :: byte) = 2 \<longleftrightarrow> t = 2"
    "(of_nat t :: byte) = 8 \<longleftrightarrow> t = 8" "(of_nat t :: byte) = 9 \<longleftrightarrow> t = 9" "(of_nat t :: byte) = 10 \<longleftrightarrow> t = 10"
    "(of_nat t :: byte) = 12 \<longleftrightarrow> t = 12"
  using of_nat_byte_eq [OF assms, of 0] of_nat_byte_eq [OF assms, of 1] of_nat_byte_eq [OF assms, of 2]
    of_nat_byte_eq [OF assms, of 8] of_nat_byte_eq [OF assms, of 9] of_nat_byte_eq [OF assms, of 10]
    of_nat_byte_eq [OF assms, of 12]
  by simp_all

lemma global_item_counts:
  assumes "global_item t v st = Inr st'"
  shows "hs_input_bits st' = hs_input_bits st" "hs_output_bits st' = hs_output_bits st" "hs_found st' = hs_found st"
  using assms by (auto simp: global_item_def Let_def split: if_splits)

lemma do_item_counts:
  assumes "item_ok i" "do_item i st = Inr st'"
  shows "bits_at (hs_input_bits st') rid = bits_at (hs_input_bits st) rid + counted 8 rid i st"
    and "bits_at (hs_output_bits st') rid = bits_at (hs_output_bits st) rid + counted 9 rid i st"
    and "hs_found st' \<longleftrightarrow> hs_found st \<or> opens_item i st"
proof -
  have "bits_at (hs_input_bits st') rid = bits_at (hs_input_bits st) rid + counted 8 rid i st \<and>
      bits_at (hs_output_bits st') rid = bits_at (hs_output_bits st) rid + counted 9 rid i st \<and>
      (hs_found st' \<longleftrightarrow> hs_found st \<or> opens_item i st)"
  proof (cases i)
    case (Long_item tag p)
    with assms show ?thesis by (auto simp: counted_def opens_item_def)
  next
    case (Short_item ty tag p)
    then have small: "ty < 256" "tag < 256" using assms(1) by simp_all
    have short: "short_item (of_nat ty) (of_nat tag) (from_bytes_little p) st = Inr st'" using assms(2) Short_item by simp
    show ?thesis
    proof (cases "ty = 0")
      case True
      then have "st' = main_item (of_nat tag) (from_bytes_little p) st" using short by (simp add: short_item_def)
      then show ?thesis
        using Short_item True of_nat_byte_const [OF small(2)]
        by (auto simp: main_item_def Let_def bits_at_add counted_def opens_item_def)
    next
      case False
      then have "(hs_input_bits st' = hs_input_bits st) \<and> hs_output_bits st' = hs_output_bits st \<and> hs_found st' = hs_found st"
        using short of_nat_byte_const [OF small(1)] global_item_counts
        by (auto simp: short_item_def local_item_def split: if_splits)
      with False Short_item show ?thesis by (simp add: counted_def opens_item_def)
    qed
  qed
  then show "bits_at (hs_input_bits st') rid = bits_at (hs_input_bits st) rid + counted 8 rid i st"
    and "bits_at (hs_output_bits st') rid = bits_at (hs_output_bits st) rid + counted 9 rid i st"
    and "hs_found st' \<longleftrightarrow> hs_found st \<or> opens_item i st" by simp_all
qed

lemma do_items_counts:
  assumes "list_all item_ok items" "do_items items st = Inr st'"
  shows "bits_at (hs_input_bits st') rid = bits_at (hs_input_bits st) rid + item_bits 8 rid items st"
    and "bits_at (hs_output_bits st') rid = bits_at (hs_output_bits st) rid + item_bits 9 rid items st"
    and "hs_found st' \<longleftrightarrow> hs_found st \<or> opens_vendor items st"
  using assms
proof (induction items arbitrary: st)
  case (Cons i items)
  { case 1 then show ?case using Cons do_item_counts by fastforce }
  { case 2 then show ?case using Cons do_item_counts by fastforce }
  { case 3 then show ?case using Cons do_item_counts by fastforce }
qed simp_all

lemma map_of_eq_None: "map_of m k = None \<longleftrightarrow> k \<notin> fst ` set m"
  by (rule map_of_eq_None_iff)

lemma report_nine: "(n + 7) div 8 + 1 = (9 :: int) \<longleftrightarrow> 56 < n \<and> n \<le> 64"
  by presburger

lemma caps_writable_iff:
  "caps_writable (hid_caps st) \<longleftrightarrow> hs_found st \<and> 56 < bits_at (hs_input_bits st) 14 \<and> bits_at (hs_input_bits st) 14 \<le> 64 \<and>
     56 < bits_at (hs_output_bits st) 14 \<and> bits_at (hs_output_bits st) 14 \<le> 64"
proof -
  have nine: "report_bytes m (Some 14) = 9 \<longleftrightarrow> 56 < bits_at m 14 \<and> bits_at m 14 \<le> 64" for m
    by (cases "map_of m 14") (simp_all add: report_bytes_def bits_at_def report_nine)
  have "14 \<in> fst ` set m" if "56 < bits_at m 14" for m
    using that map_of_eq_None [of m 14] by (cases "map_of m 14") (simp_all add: bits_at_def)
  then have "select_report st = Some 14" if "56 < bits_at (hs_input_bits st) 14"
    using that by (simp add: select_report_def Let_def TOUCHPAD_REPORT_ID_def)
  then show ?thesis
    by (auto simp: caps_writable_def input_compatible_def hid_caps_def Let_def TOUCHPAD_REPORT_ID_def
        TOUCHPAD_REPORT_BYTES_def nine)
qed

section \<open>Properties\<close>

text \<open>
  C29: The descriptor parser agrees with the HID item language: a descriptor gives capabilities that allow writing if and
  only if it is the encoding of a sequence of items without an unmatched pop, some collection item opens the vendor application
  collection, and the input items and the output items of report 0x0E inside it add up to eight bytes each (57 to
  64 bits).
\<close>

theorem writable_descriptor_iff:
  "(\<exists>caps. parse_vendor_collection_descriptor d = Inr caps \<and> caps_writable caps) \<longleftrightarrow>
   (\<exists>items st. list_all item_ok items \<and> d = descriptor_of items \<and> do_items items hid_start = Inr st \<and>
      opens_vendor items hid_start \<and> item_bits 8 0x0E items hid_start \<in> {57..64} \<and>
      item_bits 9 0x0E items hid_start \<in> {57..64})"
proof -
  have run: "caps_writable (hid_caps st) \<longleftrightarrow> opens_vendor items hid_start \<and> item_bits 8 0x0E items hid_start \<in> {57..64} \<and>
      item_bits 9 0x0E items hid_start \<in> {57..64}"
    if "list_all item_ok items" "do_items items hid_start = Inr st" for items st
    using do_items_counts [OF that] by (auto simp: caps_writable_iff hid_start_def bits_at_def)
  show ?thesis
  proof
    assume "\<exists>caps. parse_vendor_collection_descriptor d = Inr caps \<and> caps_writable caps"
    then obtain st where st: "parse_items d hid_start = Inr st" "caps_writable (hid_caps st)"
      by (auto simp: parse_vendor_collection_descriptor_def)
    then obtain items where items: "list_all item_ok items" "d = descriptor_of items"
      using parse_items_encoded by blast
    with st(1) have "do_items items hid_start = Inr st" by (simp add: parse_descriptor_of)
    with run [OF items(1) this] st(2) items show "\<exists>items st. list_all item_ok items \<and> d = descriptor_of items \<and>
      do_items items hid_start = Inr st \<and> opens_vendor items hid_start \<and> item_bits 8 0x0E items hid_start \<in> {57..64} \<and>
      item_bits 9 0x0E items hid_start \<in> {57..64}" by blast
  next
    assume "\<exists>items st. list_all item_ok items \<and> d = descriptor_of items \<and> do_items items hid_start = Inr st \<and>
      opens_vendor items hid_start \<and> item_bits 8 0x0E items hid_start \<in> {57..64} \<and>
      item_bits 9 0x0E items hid_start \<in> {57..64}"
    then show "\<exists>caps. parse_vendor_collection_descriptor d = Inr caps \<and> caps_writable caps"
      using run by (auto simp: parse_vendor_collection_descriptor_def parse_descriptor_of)
  qed
qed

end
