(* ===== verification/Os_Sim.thy ===== *)
theory Os_Sim
  imports Os_Port
begin

text \<open>
  A simulated machine: an operating system whose world is a record of texts, binary files, directories, a clock, pending signals, a
  device queue, a fan controller and a log of the texts written. It shows that the contracts which the code's theorems assume of the operating system
  can be met, and evaluates the code on concrete machines. Globbing is simulated by the prefix before the first special
  character.
\<close>

section \<open>The machine\<close>

record sim =
  sim_texts :: "string dict"
  sim_blobs :: "byte list dict"
  sim_dirs :: "string list dict"
  sim_clock :: int
  sim_signals :: nat
  sim_busy :: nat
  sim_accepted :: "byte list list"
  sim_inbox :: "byte list list"
  sim_fds :: "int list"
  sim_next_fd :: int
  sim_profile :: string
  sim_log :: "(string \<times> string) list"
  sim_fan_auto :: bool

definition sim_start :: sim where
  "sim_start = \<lparr>sim_texts = [], sim_blobs = [], sim_dirs = [], sim_clock = 0, sim_signals = 0, sim_busy = 0, sim_accepted = [],
     sim_inbox = [], sim_fds = [], sim_next_fd = 3, sim_profile = ''balanced'', sim_log = [], sim_fan_auto = True\<rparr>"

definition no_file :: "'a reply" where
  "no_file = Raise (OSError ''No such file or directory'')"

definition sim_has :: "string \<Rightarrow> sim \<Rightarrow> bool" where
  "sim_has p w = (map_of (sim_texts w) p \<noteq> None \<or> map_of (sim_blobs w) p \<noteq> None \<or> map_of (sim_dirs w) p \<noteq> None)"

definition of_file :: "'a option \<Rightarrow> 'a reply" where
  "of_file x = (case x of None \<Rightarrow> no_file | Some v \<Rightarrow> Ret v)"

definition sim_names :: "string \<Rightarrow> sim \<Rightarrow> string list reply" where
  "sim_names d w = of_file (map_of (sim_dirs w) d)"

definition glob_prefix :: "string \<Rightarrow> string" where
  "glob_prefix g = takeWhile (\<lambda>c. c \<noteq> CHR ''*'' \<and> c \<noteq> CHR ''['') g"

definition sim_glob :: "string \<Rightarrow> string \<Rightarrow> sim \<Rightarrow> string list reply" where
  "sim_glob d g w = Ret (filter (\<lambda>n. py_startswith n (glob_prefix g))
     (case map_of (sim_dirs w) d of None \<Rightarrow> [] | Some ns \<Rightarrow> ns))"

text \<open>The fan controller: the command \<open>auto\<close> hands the fan to the firmware, any other takes it; every command succeeds.\<close>

definition sim_exchange :: "string \<Rightarrow> string \<Rightarrow> (sim, string) io" where
  "sim_exchange p cmd w =
     (if p = ''/proc/acpi/call'' then (Ret ''0x0'', w\<lparr>sim_fan_auto := (cmd = ''auto'' @ [CHR 10])\<rparr>) else (no_file, w))"

definition sim_write_text :: "string \<Rightarrow> string \<Rightarrow> (sim, unit) io" where
  "sim_write_text p s w =
     (if map_of (sim_texts w) p = None then (no_file, w)
      else (Ret (), w\<lparr>sim_texts := AList.update p (s @ [CHR 10]) (sim_texts w), sim_log := sim_log w @ [(p, s)]\<rparr>))"

text \<open>\<open>powerprofilesctl\<close>\<close>

definition sim_run :: "string list \<Rightarrow> (sim, (int \<times> string \<times> string) option) io" where
  "sim_run args w = (case args of
     [_, verb] \<Rightarrow> (Ret (Some (0, sim_profile w @ [CHR 10], [])), w)
   | [_, verb, p] \<Rightarrow> (Ret (Some (0, [], [])), w\<lparr>sim_profile := p\<rparr>)
   | _ \<Rightarrow> (Ret (Some (2, [], ''usage'')), w))"

definition sim_signal :: "sim \<Rightarrow> sim" where
  "sim_signal w = w\<lparr>sim_signals := sim_signals w - 1\<rparr>"

definition sim_tick :: "int \<Rightarrow> sim \<Rightarrow> sim" where
  "sim_tick d w = w\<lparr>sim_clock := sim_clock w + d\<rparr>"

definition sim_write :: "int \<Rightarrow> byte list \<Rightarrow> sim \<Rightarrow> nat sysret \<times> sim" where
  "sim_write fd r w =
     (if 0 < sim_signals w then (Sys_interrupted, sim_signal w)
      else if 0 < sim_busy w then (Sys_blocked, sim_tick 1 (w\<lparr>sim_busy := sim_busy w - 1\<rparr>))
      else (Sys_ret (length r), w\<lparr>sim_accepted := sim_accepted w @ [r]\<rparr>))"

definition sim_read :: "int \<Rightarrow> nat \<Rightarrow> sim \<Rightarrow> byte list sysret \<times> sim" where
  "sim_read fd n w =
     (if 0 < sim_signals w then (Sys_interrupted, sim_signal w)
      else case sim_inbox w of
        [] \<Rightarrow> (Sys_blocked, sim_tick 1 w)
      | r # rs \<Rightarrow> (Sys_ret (take n r), sim_tick 1 (w\<lparr>sim_inbox := rs\<rparr>)))"

definition sim_os :: "sim os" where
  "sim_os =
     \<lparr>os_exists = (\<lambda>p w. (Ret (sim_has p w), w)),
      os_is_dir = (\<lambda>p w. (Ret (map_of (sim_dirs w) p \<noteq> None), w)),
      os_access = (\<lambda>p m w. (Ret (sim_has p w), w)),
      os_glob = (\<lambda>d g w. (sim_glob d g w, w)),
      os_iterdir = (\<lambda>d w. (sim_names d w, w)),
      os_read_text = (\<lambda>p w. (of_file (map_of (sim_texts w) p), w)),
      os_read_bytes = (\<lambda>p w. (of_file (map_of (sim_blobs w) p), w)),
      os_write_text = sim_write_text,
      os_exchange = sim_exchange,
      os_which = (\<lambda>p w. (Ret (Some (''/usr/bin/'' @ p)), w)),
      os_run = sim_run,
      os_processor = (\<lambda>w. (Ret [], w)),
      os_monotonic = (\<lambda>w. (sim_clock w, w)),
      os_time = (\<lambda>w. (sim_clock w div 1000000, w)),
      os_time_ns = (\<lambda>w. (sim_clock w * 1000, w)),
      os_sleep = (\<lambda>d w. (Ret (), sim_tick (max 0 d) w)),
      os_open = (\<lambda>p m w. if sim_has p w
        then (Ret (sim_next_fd w), w\<lparr>sim_fds := sim_next_fd w # sim_fds w, sim_next_fd := sim_next_fd w + 1\<rparr>)
        else (no_file, w)),
      os_close = (\<lambda>fd w. (Ret (), w\<lparr>sim_fds := remove1 fd (sim_fds w)\<rparr>)),
      os_write = sim_write,
      os_read = sim_read,
      os_select_write = (\<lambda>fd d w. (Sys_ret True, sim_tick 1 w)),
      os_select_read = (\<lambda>fd d w. if sim_inbox w \<noteq> [] then (Sys_ret True, w) else (Sys_ret False, sim_tick (max 0 d) w)),
      os_ioctl = (\<lambda>fd r b w. (Ret (), w))\<rparr>"

definition sim_view :: "sim \<Rightarrow> fs_view" where
  "sim_view w =
     \<lparr>fv_exists = (\<lambda>p. Ret (sim_has p w)), fv_is_dir = (\<lambda>p. Ret (map_of (sim_dirs w) p \<noteq> None)),
      fv_access = (\<lambda>p m. Ret (sim_has p w)), fv_glob = (\<lambda>d g. sim_glob d g w), fv_iterdir = (\<lambda>d. sim_names d w),
      fv_text = (\<lambda>p. of_file (map_of (sim_texts w) p)), fv_bytes = (\<lambda>p. of_file (map_of (sim_blobs w) p))\<rparr>"

interpretation sim_files: visible_files sim_os sim_view
  by unfold_locales (simp_all add: looks_def sim_os_def sim_view_def)

end
