(* ===== verification/Touchpad_Firmware.thy ===== *)
theory Touchpad_Firmware
  imports Hid_Descriptor Os_Sim
begin

text \<open>
  Discovery and transport of \<^verbatim>\<open>honor_control/backend/touchpad_firmware.py\<close>: finding the touchpad among the hidraw devices, the
  probe that decides whether its settings may be written, and the transport that opens the device, writes the reports of a
  profile, and reads the supported gestures. The operating system is an argument; a write or read loop that a device keeps
  waiting does not return. The contract of the device is stated as two locales: what it accepts, and that its clock runs.
\<close>

section \<open>Discovery\<close>

text \<open>\<open>next((line[7:] for line in lines if line.startswith("HID_ID=")), "")\<close>\<close>

definition hid_id_field :: "string list \<Rightarrow> string" where
  "hid_id_field lines =
     (case find (\<lambda>l. py_startswith l ''HID_ID='') lines of Some l \<Rightarrow> drop 7 l | None \<Rightarrow> [])"

definition identity_of :: "string \<Rightarrow> (int \<times> int) option" where
  "identity_of text =
     (let fields = py_split (CHR '':'') (hid_id_field (py_splitlines text)) in
      if length fields \<noteq> 3 then None
      else case (py_int 16 (fields ! 1), py_int 16 (fields ! 2)) of
        (Some v, Some p) \<Rightarrow> Some (v, p) | _ \<Rightarrow> None)"

definition hid_identity :: "'w os \<Rightarrow> string \<Rightarrow> ('w, (int \<times> int) option) io" where
  "hid_identity os entry =
     io_try (io_bind (os_read_text os (path_join entry ''device/uevent'')) (\<lambda>text. io_ret (identity_of text)))
       is_os_error (\<lambda>_. io_ret None)"

definition touchpad_identity :: "int \<times> int" where
  "touchpad_identity = (TOUCHPAD_VENDOR_ID, TOUCHPAD_PRODUCT_ID)"

text \<open>The descriptor of an entry: its capabilities, or the exception that \<open>except (OSError, ValueError)\<close> catches.\<close>

definition entry_caps :: "'w os \<Rightarrow> string \<Rightarrow> ('w, exn + vendor_collection_caps) io" where
  "entry_caps os entry =
     io_try
       (io_bind (os_read_bytes os (path_join entry ''device/report_descriptor'')) (\<lambda>descriptor.
        io_bind (io_of (parse_vendor_collection_descriptor descriptor)) (\<lambda>caps. io_ret (Inr caps))))
       os_or_value_error (\<lambda>e. io_ret (Inl e))"

fun discover_loop :: "'w os \<Rightarrow> string \<Rightarrow> string \<Rightarrow> string list \<Rightarrow> ('w, string option) io" where
  "discover_loop os sysfs_root dev_root [] = io_ret None"
| "discover_loop os sysfs_root dev_root (name # names) =
     (let entry = path_join sysfs_root name; device = path_join dev_root name;
          continue = discover_loop os sysfs_root dev_root names in
      io_bind (hid_identity os entry) (\<lambda>identity.
      if identity \<noteq> Some touchpad_identity then continue
      else io_bind (entry_caps os entry) (\<lambda>r. case r of
        Inl _ \<Rightarrow> continue
      | Inr caps \<Rightarrow>
          io_bind (if input_compatible caps then os_exists os device else io_ret False) (\<lambda>ok.
          if ok then io_ret (Some device) else continue))))"

definition discover_touchpad_input :: "'w os \<Rightarrow> string \<Rightarrow> string \<Rightarrow> ('w, string option) io" where
  "discover_touchpad_input os sysfs_root dev_root =
     io_bind (os_is_dir os sysfs_root) (\<lambda>d.
     if \<not> d then io_ret None
     else io_bind (os_glob os sysfs_root ''hidraw*'') (\<lambda>names. discover_loop os sysfs_root dev_root (sort names)))"

section \<open>The probe\<close>

text \<open>\<open>TouchpadFirmwareProbe()\<close> with its defaults.\<close>

definition probe_default :: touchpad_probe where
  "probe_default =
     \<lparr>tpr_available = False, tpr_platform_verified = False, tpr_dmi_vendor = [], tpr_dmi_product = [],
      tpr_device_found = False, tpr_permission_denied = False, tpr_descriptor_verified = False, tpr_device_path = [],
      tpr_report_id = None, tpr_input_report_bytes = 0, tpr_output_report_bytes = 0, tpr_error = []\<rparr>"

definition or_empty :: "string \<Rightarrow> string" where
  "or_empty s = (if s = [] then ''<empty>'' else s)"

definition repr_opt_int :: "int option \<Rightarrow> string" where
  "repr_opt_int i = (case i of None \<Rightarrow> ''None'' | Some n \<Rightarrow> int_str n)"

definition platform_probe :: "string \<Rightarrow> string \<Rightarrow> touchpad_probe" where
  "platform_probe vendor product = probe_default
     \<lparr>tpr_platform_verified := True, tpr_dmi_vendor := vendor, tpr_dmi_product := product\<rparr>"

text \<open>An entry with the identity and a writable descriptor.\<close>

definition verified_probe :: "'w os \<Rightarrow> string \<Rightarrow> string \<Rightarrow> string \<Rightarrow> vendor_collection_caps \<Rightarrow> ('w, touchpad_probe) io" where
  "verified_probe os vendor product device caps =
     io_bind (os_exists os device) (\<lambda>exists.
     io_bind (if exists then io_bind (os_access os device (R_OK + W_OK)) (\<lambda>a. io_ret (\<not> a)) else io_ret False) (\<lambda>denied.
     io_ret ((platform_probe vendor product)
       \<lparr>tpr_available := exists \<and> \<not> denied, tpr_device_found := exists, tpr_permission_denied := denied,
        tpr_descriptor_verified := True, tpr_device_path := device, tpr_report_id := vc_report_id caps,
        tpr_input_report_bytes := vc_input_report_bytes caps, tpr_output_report_bytes := vc_output_report_bytes caps,
        tpr_error := (if \<not> exists then device @ '' is missing''
                      else if denied then ''read/write access denied for '' @ device else [])\<rparr>)))"

definition unverified_probe :: "string \<Rightarrow> string \<Rightarrow> bool \<Rightarrow> string list \<Rightarrow> touchpad_probe" where
  "unverified_probe vendor product identity_found descriptor_errors =
     (if identity_found
      then (platform_probe vendor product)\<lparr>tpr_device_found := True,
             tpr_error := ''Honor touchpad found, but descriptor verification failed: '' @
               (let detail = py_join_str ''; '' descriptor_errors
                in if detail = [] then ''no writable vendor collection'' else detail)\<rparr>
      else (platform_probe vendor product)\<lparr>tpr_error := ''Honor touchpad 35cc:0104 not found''\<rparr>)"

text \<open>What \<open>descriptor_errors\<close> records of an entry: the exception, or the sizes that do not fit.\<close>

definition entry_error :: "string \<Rightarrow> exn + vendor_collection_caps \<Rightarrow> string" where
  "entry_error name r = (case r of
     Inl e \<Rightarrow> name @ '': '' @ exn_str e
   | Inr caps \<Rightarrow> name @ '': vendor reports are in='' @ int_str (vc_input_report_bytes caps) @ '', out='' @
       int_str (vc_output_report_bytes caps) @ '', id='' @ repr_opt_int (vc_report_id caps))"

fun probe_loop :: "'w os \<Rightarrow> string \<Rightarrow> string \<Rightarrow> string \<Rightarrow> string \<Rightarrow> string list \<Rightarrow> bool \<Rightarrow> string list \<Rightarrow> ('w, touchpad_probe) io" where
  "probe_loop os sysfs_root dev_root vendor product [] identity_found errors =
     io_ret (unverified_probe vendor product identity_found errors)"
| "probe_loop os sysfs_root dev_root vendor product (name # names) identity_found errors =
     (let entry = path_join sysfs_root name; device = path_join dev_root name in
      io_bind (hid_identity os entry) (\<lambda>identity.
      if identity \<noteq> Some touchpad_identity
      then probe_loop os sysfs_root dev_root vendor product names identity_found errors
      else io_bind (entry_caps os entry) (\<lambda>r. case r of
        Inl e \<Rightarrow> probe_loop os sysfs_root dev_root vendor product names True (errors @ [entry_error name r])
      | Inr caps \<Rightarrow>
          if \<not> caps_writable caps
          then probe_loop os sysfs_root dev_root vendor product names True (errors @ [entry_error name r])
          else verified_probe os vendor product device caps)))"

text \<open>\<open>path.parent\<close> of a path with a slash.\<close>

definition path_parent :: "string \<Rightarrow> string" where
  "path_parent p = rev (drop 1 (dropWhile (\<lambda>c. c \<noteq> CHR ''/'') (rev p)))"

definition probe_platform :: "'w os \<Rightarrow> string \<Rightarrow> ('w, exn + string \<times> string) io" where
  "probe_platform os dmi_root =
     io_try
       (io_bind (os_read_text os (path_join dmi_root ''sys_vendor'')) (\<lambda>vendor.
        io_bind (os_read_text os (path_join dmi_root ''product_name'')) (\<lambda>product.
        io_ret (Inr (py_strip vendor, py_strip product)))))
       is_os_error (\<lambda>e. io_ret (Inl e))"

definition probe_entries :: "'w os \<Rightarrow> string \<Rightarrow> string \<Rightarrow> string \<Rightarrow> string \<Rightarrow> ('w, touchpad_probe) io" where
  "probe_entries os sysfs_root dev_root vendor product =
     io_bind (os_is_dir os sysfs_root) (\<lambda>d.
     if \<not> d then io_ret ((platform_probe vendor product)\<lparr>tpr_error := ''hidraw sysfs class not found''\<rparr>)
     else io_bind (os_glob os sysfs_root ''hidraw*'') (\<lambda>names.
       probe_loop os sysfs_root dev_root vendor product (sort names) False []))"

definition probe_touchpad_firmware_hid :: "'w os \<Rightarrow> string \<Rightarrow> string \<Rightarrow> string option \<Rightarrow> ('w, touchpad_probe) io" where
  "probe_touchpad_firmware_hid os sysfs_root dev_root dmi_root =
     (let dmi_root = (case dmi_root of None \<Rightarrow> path_join (path_parent sysfs_root) ''dmi/id'' | Some d \<Rightarrow> d) in
      io_bind (probe_platform os dmi_root) (\<lambda>r. case r of
        Inl e \<Rightarrow> io_ret (probe_default\<lparr>tpr_error := ''cannot verify DMI platform: '' @ exn_str e\<rparr>)
      | Inr (vendor, product) \<Rightarrow>
          if (vendor, product) \<noteq> (''HONOR'', ''MRA-XXX'')
          then io_ret (probe_default\<lparr>tpr_dmi_vendor := vendor, tpr_dmi_product := product,
                 tpr_error := ''unsupported platform; expected exact DMI HONOR/MRA-XXX, found '' @ or_empty vendor @
                   ''/'' @ or_empty product\<rparr>)
          else probe_entries os sysfs_root dev_root vendor product))"

section \<open>What the probe sees\<close>

definition view_identity :: "fs_view \<Rightarrow> string \<Rightarrow> (int \<times> int) option" where
  "view_identity v entry = (case fv_text v (path_join entry ''device/uevent'') of Ret t \<Rightarrow> identity_of t | _ \<Rightarrow> None)"

definition view_caps :: "fs_view \<Rightarrow> string \<Rightarrow> vendor_collection_caps option" where
  "view_caps v entry = (case fv_bytes v (path_join entry ''device/report_descriptor'') of
     Ret d \<Rightarrow> (case parse_vendor_collection_descriptor d of Inr caps \<Rightarrow> Some caps | Inl _ \<Rightarrow> None) | _ \<Rightarrow> None)"

definition verified_entry :: "fs_view \<Rightarrow> string \<Rightarrow> string \<Rightarrow> bool" where
  "verified_entry v sysfs_root name =
     (let entry = path_join sysfs_root name in
      view_identity v entry = Some touchpad_identity \<and>
      (case view_caps v entry of Some caps \<Rightarrow> caps_writable caps | None \<Rightarrow> False))"

definition accessible :: "fs_view \<Rightarrow> string \<Rightarrow> bool" where
  "accessible v device = (fv_exists v device = Ret True \<and> fv_access v device (R_OK + W_OK) = Ret True)"

definition dmi_ok :: "fs_view \<Rightarrow> string \<Rightarrow> bool" where
  "dmi_ok v dmi_root =
     (case (fv_text v (path_join dmi_root ''sys_vendor''), fv_text v (path_join dmi_root ''product_name'')) of
        (Ret vendor, Ret product) \<Rightarrow> py_strip vendor = ''HONOR'' \<and> py_strip product = ''MRA-XXX'' | _ \<Rightarrow> False)"

definition first_verified :: "fs_view \<Rightarrow> string \<Rightarrow> string \<Rightarrow> bool" where
  "first_verified v sysfs_root n =
     (fv_is_dir v sysfs_root = Ret True \<and>
      (case fv_glob v sysfs_root ''hidraw*'' of
         Ret names \<Rightarrow> find (verified_entry v sysfs_root) (sort names) = Some n | _ \<Rightarrow> False))"

text \<open>The one entry whose device may be written.\<close>

definition endpoint :: "fs_view \<Rightarrow> string \<Rightarrow> string \<Rightarrow> string \<Rightarrow> string \<Rightarrow> bool" where
  "endpoint v sysfs_root dev_root dmi_root n =
     (dmi_ok v dmi_root \<and> first_verified v sysfs_root n \<and> accessible v (path_join dev_root n))"

context visible_files
begin

lemma hid_identity_sees:
  assumes "hid_identity os entry w = (Ret i, w')"
  shows "i = view_identity (view w) entry" "view w' = view w"
proof -
  obtain r w1 where r: "os_read_text os (path_join entry ''device/uevent'') w = (r, w1)" by fastforce
  from looksD [OF answers(6) this] assms r
  show "i = view_identity (view w) entry" "view w' = view w"
    by (auto simp: hid_identity_def io_try_def io_bind_def io_ret_def view_identity_def split: reply.splits if_splits)
qed

lemma entry_caps_sees:
  assumes "entry_caps os entry w = (Ret r, w')"
  shows "view_caps (view w) entry = (case r of Inr caps \<Rightarrow> Some caps | Inl _ \<Rightarrow> None)" "view w' = view w"
proof -
  obtain x w1 where x: "os_read_bytes os (path_join entry ''device/report_descriptor'') w = (x, w1)" by fastforce
  from looksD [OF answers(7) this] assms x
  show "view_caps (view w) entry = (case r of Inr caps \<Rightarrow> Some caps | Inl _ \<Rightarrow> None)" "view w' = view w"
    by (auto simp: entry_caps_def io_try_def io_bind_def io_ret_def io_of_def io_raise_def view_caps_def
        split: reply.splits if_splits sum.splits)
qed

lemma verified_probe_sees:
  assumes "verified_probe os vendor product device caps w = (Ret p, w')"
  shows "tpr_available p \<longleftrightarrow> accessible (view w) device" "tpr_device_path p = device" "view w' = view w"
proof -
  obtain ex w1 where ex: "os_exists os device w = (Ret ex, w1)"
    using assms by (auto simp: verified_probe_def io_bind_eq_Ret)
  obtain a w2 where a: "os_access os device (R_OK + W_OK) w1 = (a, w2)" by fastforce
  note ex' = looksD [OF answers(1) ex] and a' = looksD [OF answers(3) a]
  have "(tpr_available p \<longleftrightarrow> accessible (view w) device) \<and> tpr_device_path p = device \<and> view w' = view w"
  proof (cases ex)
    case False
    then have "p = (platform_probe vendor product)\<lparr>tpr_available := False, tpr_device_found := False,
        tpr_permission_denied := False, tpr_descriptor_verified := True, tpr_device_path := device,
        tpr_report_id := vc_report_id caps, tpr_input_report_bytes := vc_input_report_bytes caps,
        tpr_output_report_bytes := vc_output_report_bytes caps, tpr_error := device @ '' is missing''\<rparr>" and "w' = w1"
      using assms ex by (simp_all add: verified_probe_def io_bind_Ret)
    then show ?thesis using ex' False by (auto simp: accessible_def)
  next
    case True
    then show ?thesis
      using assms ex a ex' a' by (cases a) (auto simp: verified_probe_def io_bind_def io_ret_def accessible_def)
  qed
  then show "tpr_available p \<longleftrightarrow> accessible (view w) device" "tpr_device_path p = device" "view w' = view w" by simp_all
qed

lemma unverified_not_available: "\<not> tpr_available (unverified_probe vendor product b es)"
  by (simp add: unverified_probe_def platform_probe_def probe_default_def)

lemma probe_loop_sees:
  assumes "probe_loop os sysfs_root dev_root vendor product names b es w = (Ret p, w')"
  shows "(tpr_available p \<longleftrightarrow> (\<exists>n. find (verified_entry (view w) sysfs_root) names = Some n \<and>
      accessible (view w) (path_join dev_root n))) \<and>
    (\<forall>n. find (verified_entry (view w) sysfs_root) names = Some n \<longrightarrow> tpr_device_path p = path_join dev_root n) \<and>
    view w' = view w"
  using assms
proof (induction names arbitrary: b es w)
  case Nil
  then show ?case using unverified_not_available by auto
next
  case (Cons name names)
  let ?entry = "path_join sysfs_root name" and ?next = "probe_loop os sysfs_root dev_root vendor product names"
  obtain i w1 where i: "hid_identity os ?entry w = (Ret i, w1)"
    using Cons.prems by (auto simp: io_bind_eq_Ret Let_def)
  note i' = hid_identity_sees [OF i]
  show ?case
  proof (cases "i = Some touchpad_identity")
    case False
    with Cons.prems i have "?next b es w1 = (Ret p, w')" by (simp add: io_bind_def Let_def)
    with Cons.IH False i' show ?thesis by (simp add: verified_entry_def)
  next
    case True
    then obtain r w2 where r: "entry_caps os ?entry w1 = (Ret r, w2)"
      using Cons.prems i by (auto simp: io_bind_eq_Ret Let_def)
    note r' = entry_caps_sees [OF r]
    show ?thesis
    proof (cases "\<exists>caps. r = Inr caps \<and> caps_writable caps")
      case True
      then obtain caps where caps: "r = Inr caps" "caps_writable caps" by blast
      with Cons.prems i r \<open>i = Some touchpad_identity\<close>
      have "verified_probe os vendor product (path_join dev_root name) caps w2 = (Ret p, w')" by (simp add: io_bind_def Let_def)
      from verified_probe_sees [OF this] r' i' caps \<open>i = Some touchpad_identity\<close> show ?thesis
        by (simp add: verified_entry_def)
    next
      case False
      then have "\<not> verified_entry (view w) sysfs_root name"
        using r' i' by (auto simp: verified_entry_def split: sum.splits)
      moreover have "?next True (es @ [entry_error name r]) w2 = (Ret p, w')"
        using Cons.prems i r \<open>i = Some touchpad_identity\<close> False by (cases r) (simp_all add: io_bind_def Let_def)
      ultimately show ?thesis using Cons.IH r' i' by simp
    qed
  qed
qed

lemma probe_entries_sees:
  assumes "probe_entries os sysfs_root dev_root vendor product w = (Ret p, w')"
  shows "(tpr_available p \<longleftrightarrow> (\<exists>n. first_verified (view w) sysfs_root n \<and> accessible (view w) (path_join dev_root n))) \<and>
    (\<forall>n. first_verified (view w) sysfs_root n \<longrightarrow> tpr_device_path p = path_join dev_root n) \<and> view w' = view w"
proof -
  obtain d w2 where d: "os_is_dir os sysfs_root w = (Ret d, w2)"
    using assms by (auto simp: probe_entries_def io_bind_eq_Ret)
  note d' = looksD [OF answers(2) d]
  show ?thesis
  proof (cases d)
    case False
    then have "\<not> tpr_available p \<and> w' = w2"
      using assms d by (auto simp: probe_entries_def io_bind_def platform_probe_def probe_default_def)
    then show ?thesis using False d' by (simp add: first_verified_def)
  next
    case True
    then obtain names w3 where g: "os_glob os sysfs_root ''hidraw*'' w2 = (Ret names, w3)"
      and go: "probe_loop os sysfs_root dev_root vendor product (sort names) False [] w3 = (Ret p, w')"
      using assms d by (auto simp: probe_entries_def io_bind_eq_Ret)
    from probe_loop_sees [OF go] looksD [OF answers(4) g] d' True show ?thesis by (simp add: first_verified_def)
  qed
qed

lemma probe_platform_sees:
  assumes "probe_platform os dmi_root w = (Ret r, w')"
  shows "dmi_ok (view w) dmi_root \<longleftrightarrow> r = Inr (''HONOR'', ''MRA-XXX'')" "view w' = view w"
proof -
  obtain v wv where v: "os_read_text os (path_join dmi_root ''sys_vendor'') w = (v, wv)" by fastforce
  obtain q wq where q: "os_read_text os (path_join dmi_root ''product_name'') wv = (q, wq)" by fastforce
  from looksD [OF answers(6) v] looksD [OF answers(6) q] v q assms
  show "dmi_ok (view w) dmi_root \<longleftrightarrow> r = Inr (''HONOR'', ''MRA-XXX'')" "view w' = view w"
    by (auto simp: dmi_ok_def probe_platform_def io_try_def io_bind_def io_ret_def split: reply.splits if_splits)
qed

lemma probe_sees:
  assumes "probe_touchpad_firmware_hid os sysfs_root dev_root (Some dmi_root) w = (Ret p, w')"
  shows "(tpr_available p \<longleftrightarrow> (\<exists>n. endpoint (view w) sysfs_root dev_root dmi_root n)) \<and>
    (\<forall>n. endpoint (view w) sysfs_root dev_root dmi_root n \<longrightarrow> tpr_device_path p = path_join dev_root n) \<and> view w' = view w"
proof -
  obtain r w1 where r: "probe_platform os dmi_root w = (Ret r, w1)"
    using assms by (auto simp: probe_touchpad_firmware_hid_def io_bind_eq_Ret)
  note r' = probe_platform_sees [OF r]
  show ?thesis
  proof (cases "r = Inr (''HONOR'', ''MRA-XXX'')")
    case True
    then have "probe_entries os sysfs_root dev_root ''HONOR'' ''MRA-XXX'' w1 = (Ret p, w')"
      using assms r by (simp add: probe_touchpad_firmware_hid_def io_bind_def)
    from probe_entries_sees [OF this, unfolded r'(2)] r'(1) True show ?thesis unfolding endpoint_def by simp
  next
    case False
    have "\<not> tpr_available p \<and> w' = w1"
    proof (cases r)
      case (Inl e)
      then show ?thesis using assms r by (auto simp: probe_touchpad_firmware_hid_def io_bind_def probe_default_def)
    next
      case (Inr vp)
      obtain vendor product where vp: "vp = (vendor, product)" by fastforce
      with Inr False have "(vendor, product) \<noteq> (''HONOR'', ''MRA-XXX'')" by blast
      then show ?thesis
        using assms r Inr vp
        by (simp only: probe_touchpad_firmware_hid_def io_bind_def Let_def option.case prod.case reply.case sum.case if_True
            simp_thms io_ret_eq reply.inject) (simp add: probe_default_def)
    qed
    then show ?thesis using False r' by (simp add: endpoint_def)
  qed
qed

end

text \<open>A laptop with the touchpad: a descriptor with the vendor collection, and nine-byte reports of id 14 both ways.\<close>

definition vendor_descriptor :: "byte list" where
  "vendor_descriptor =
     [0x06, 0x00, 0xFF, 0x09, 0x01, 0xA1, 0x01, 0x85, 0x0E, 0x75, 0x08, 0x95, 0x08, 0x09, 0x01, 0x81, 0x02, 0x09, 0x01, 0x91, 0x02, 0xC0]"

definition laptop :: sim where
  "laptop = sim_start
     \<lparr>sim_texts := [(''/sys/class/dmi/id/sys_vendor'', ''HONOR''), (''/sys/class/dmi/id/product_name'', ''MRA-XXX''),
        (''/sys/class/hidraw/hidraw0/device/uevent'', ''HID_ID=0018:000035CC:00000104'')],
      sim_blobs := [(''/sys/class/hidraw/hidraw0/device/report_descriptor'', vendor_descriptor), (''/dev/hidraw0'', [])],
      sim_dirs := [(''/sys/class/hidraw'', [''hidraw0''])], sim_signals := 1, sim_busy := 1\<rparr>"

section \<open>Properties\<close>

text \<open>
  C27: The firmware endpoint is offered exactly when it may be written: the DMI names are exactly HONOR and MRA-XXX, the first
  hidraw entry (in name order) with the touchpad's USB identity and a writable descriptor exists, and its device node is there
  and readable and writable; the path is that node, and probing leaves the file system as it is.
\<close>

theorem probe_available_iff:
  assumes "visible_files os view"
    and "probe_touchpad_firmware_hid os sysfs_root dev_root (Some dmi_root) w = (Ret p, w')"
  shows "(tpr_available p \<longleftrightarrow> (\<exists>n. endpoint (view w) sysfs_root dev_root dmi_root n)) \<and>
    (\<forall>n. endpoint (view w) sysfs_root dev_root dmi_root n \<longrightarrow> tpr_device_path p = path_join dev_root n) \<and> view w' = view w"
  using visible_files.probe_sees [OF assms] .

theorem probe_available_iff_witness:
  "\<exists>p w'. probe_touchpad_firmware_hid sim_os ''/sys/class/hidraw'' ''/dev'' (Some ''/sys/class/dmi/id'') laptop = (Ret p, w') \<and>
     tpr_available p \<and> tpr_device_path p = ''/dev/hidraw0'' \<and>
     (\<exists>n. endpoint (sim_view laptop) ''/sys/class/hidraw'' ''/dev'' ''/sys/class/dmi/id'' n)"
proof -
  have "case probe_touchpad_firmware_hid sim_os ''/sys/class/hidraw'' ''/dev'' (Some ''/sys/class/dmi/id'') laptop of
      (Ret p, w') \<Rightarrow> tpr_available p \<and> tpr_device_path p = ''/dev/hidraw0'' | _ \<Rightarrow> False" by code_simp
  then obtain p w' where run:
    "probe_touchpad_firmware_hid sim_os ''/sys/class/hidraw'' ''/dev'' (Some ''/sys/class/dmi/id'') laptop = (Ret p, w')"
    "tpr_available p" "tpr_device_path p = ''/dev/hidraw0''"
    by (auto split: prod.splits reply.splits)
  from probe_available_iff [OF sim_files.visible_files_axioms run(1)] run(2)
  have "\<exists>n. endpoint (sim_view laptop) ''/sys/class/hidraw'' ''/dev'' ''/sys/class/dmi/id'' n" by simp
  with run show ?thesis by blast
qed

end
