(* ===== verification/Touchpad_Transport.thy ===== *)
theory Touchpad_Transport
  imports Touchpad_Firmware "HOL-Library.Multiset"
begin

text \<open>
  \<open>TouchpadFirmwareTransport\<close> of \<^verbatim>\<open>honor_control/backend/touchpad_firmware.py\<close>: waiting for the device, opening it with a second
  probe, writing reports with a deadline, applying a validated profile in the order of the settings, and reading the
  supported gestures. The contract of a hidraw device is stated as two locales: which reports it has accepted, and that
  its clock runs. Under the first, the outcome of a transaction tells exactly which reports arrived; under the second,
  every operation returns.
\<close>

section \<open>The transport\<close>

record transport =
  tt_sysfs_root :: string
  tt_dev_root :: string
  tt_dmi_root :: "string option"
  tt_timeout :: int

definition mk_transport :: "string \<Rightarrow> string \<Rightarrow> string option \<Rightarrow> int \<Rightarrow> exn + transport" where
  "mk_transport sysfs_root dev_root dmi_root timeout_us =
     (if timeout_us \<le> 0 then Inl (ValueError ''timeout_seconds must be positive'')
      else Inr \<lparr>tt_sysfs_root = sysfs_root, tt_dev_root = dev_root, tt_dmi_root = dmi_root, tt_timeout = timeout_us\<rparr>)"

definition transport_probe :: "'w os \<Rightarrow> transport \<Rightarrow> ('w, touchpad_probe) io" where
  "transport_probe os t = probe_touchpad_firmware_hid os (tt_sysfs_root t) (tt_dev_root t) (tt_dmi_root t)"

abbreviation plain_firmware_error :: "string \<Rightarrow> exn" where
  "plain_firmware_error m \<equiv> TouchpadFirmwareError m [] 0 0 []"

definition wait_round :: "'w os \<Rightarrow> transport \<Rightarrow> int \<Rightarrow> int \<Rightarrow> ('w, touchpad_probe option) io" where
  "wait_round os t deadline poll_interval =
     io_bind (transport_probe os t) (\<lambda>probe.
     if tpr_available probe then io_ret (Some probe)
     else io_bind (io_call (os_monotonic os)) (\<lambda>now.
       let remaining = deadline - now in
       if remaining \<le> 0 then io_raise (plain_firmware_error (''touchpad did not become available: '' @ tpr_error probe))
       else io_bind (os_sleep os (min poll_interval remaining)) (\<lambda>_. io_ret None)))"

definition wait_until_available :: "'w os \<Rightarrow> transport \<Rightarrow> int \<Rightarrow> int \<Rightarrow> ('w, touchpad_probe) io" where
  "wait_until_available os t timeout_us poll_interval =
     (if timeout_us < 0 then io_raise (ValueError ''device wait timeout cannot be negative'')
      else if poll_interval \<le> 0 then io_raise (ValueError ''poll_interval must be positive'')
      else io_bind (io_call (os_monotonic os)) (\<lambda>now. io_repeat (wait_round os t (now + timeout_us) poll_interval)))"

text \<open>\<open>os.O_RDWR | os.O_NONBLOCK | os.O_CLOEXEC\<close>\<close>

definition OPEN_FLAGS :: int where "OPEN_FLAGS = 2 + 2048 + 524288"

definition transport_open :: "'w os \<Rightarrow> transport \<Rightarrow> ('w, int \<times> string) io" where
  "transport_open os t =
     io_bind (transport_probe os t) (\<lambda>probe.
     if \<not> tpr_available probe
     then io_raise (plain_firmware_error (if tpr_error probe = [] then ''touchpad is unavailable'' else tpr_error probe))
     else let path = tpr_device_path probe in
     io_bind (io_try (os_open os path OPEN_FLAGS) is_os_error
       (\<lambda>e. io_raise (TouchpadFirmwareError (''cannot open '' @ path @ '': '' @ exn_str e) path 0 0 []))) (\<lambda>fd.
     io_bind (transport_probe os t) (\<lambda>confirmed.
     if \<not> tpr_available confirmed \<or> tpr_device_path confirmed \<noteq> path
     then io_bind (os_close os fd) (\<lambda>_.
       io_raise (TouchpadFirmwareError ''touchpad identity changed while opening the firmware endpoint'' path 0 0 []))
     else io_ret (fd, path))))"

section \<open>Writing\<close>

text \<open>The message of \<open>OSError(errno, text)\<close>.\<close>

definition errno_text :: "nat \<Rightarrow> string \<Rightarrow> string" where
  "errno_text n m = ''[Errno '' @ nat_str n @ ''] '' @ m"

text \<open>One round of the loop that writes a report: an interruption or a full queue lets it go on.\<close>

definition write_round :: "'w os \<Rightarrow> int \<Rightarrow> byte list \<Rightarrow> int \<Rightarrow> ('w, unit option) io" where
  "write_round os fd report deadline =
     io_bind (io_call (os_write os fd report)) (\<lambda>x. case x of
       Sys_interrupted \<Rightarrow> io_ret None
     | Sys_blocked \<Rightarrow>
         io_bind (io_call (os_monotonic os)) (\<lambda>now.
         let remaining = deadline - now in
         if remaining \<le> 0 then io_raise (TimeoutError ''timed out waiting to write touchpad report'')
         else io_bind (io_call (os_select_write os fd remaining)) (\<lambda>s. case s of
             Sys_ret _ \<Rightarrow> io_ret None
           | Sys_interrupted \<Rightarrow> io_ret None
           | Sys_blocked \<Rightarrow> io_raise (OSError ''Resource temporarily unavailable'')
           | Sys_raise e \<Rightarrow> io_raise e))
     | Sys_raise e \<Rightarrow> io_raise e
     | Sys_ret written \<Rightarrow>
         if written \<noteq> length report
         then io_raise (OSError (errno_text 5 (''hidraw accepted '' @ nat_str written @ '' of '' @
                nat_str (length report) @ '' report bytes'')))
         else io_ret (Some ()))"

definition write_report :: "'w os \<Rightarrow> transport \<Rightarrow> int \<Rightarrow> byte list \<Rightarrow> ('w, unit) io" where
  "write_report os t fd report =
     (if length report \<noteq> TOUCHPAD_REPORT_BYTES \<or> report ! 0 \<noteq> TOUCHPAD_REPORT_ID
      then io_raise (ValueError ''refusing a non-Honor or non-nine-byte HID report'')
      else io_bind (io_call (os_monotonic os)) (\<lambda>now. io_repeat (write_round os fd report (now + tt_timeout t))))"

section \<open>Applying a profile\<close>

type_synonym plan = "(touchpad_setting \<times> int \<times> byte list list) list"

text \<open>The loop that validates every name and value before the device is opened.\<close>

fun normalize_profile :: "(setting_arg \<times> pv) list \<Rightarrow> plan \<Rightarrow> exn + plan" where
  "normalize_profile [] normalized = Inr normalized"
| "normalize_profile ((raw_setting, raw_value) # rest) normalized =
     rbind (parse_touchpad_setting raw_setting) (\<lambda>canonical.
     if map_of normalized canonical \<noteq> None
     then Inl (ValueError (''duplicate touchpad setting '' @ CHR 0x27 # setting_str canonical @ [CHR 0x27]))
     else rbind (parse_touchpad_value (SA_setting canonical) raw_value) (\<lambda>parsed.
          rbind (encode_touchpad_setting (SA_setting canonical) (PInt parsed)) (\<lambda>reports.
          normalize_profile rest (normalized @ [(canonical, parsed, reports)]))))"

text \<open>The settings in the order of the enumeration.\<close>

definition order_plan :: "plan \<Rightarrow> plan" where
  "order_plan normalized =
     concat (map (\<lambda>s. case map_of normalized s of None \<Rightarrow> [] | Some vr \<Rightarrow> [(s, vr)]) TOUCHPAD_SETTINGS)"

definition make_plan :: "(setting_arg \<times> pv) list \<Rightarrow> exn + plan" where
  "make_plan settings =
     rbind (normalize_profile settings []) (\<lambda>normalized.
     if normalized = [] then Inl (ValueError ''touchpad settings profile is empty'')
     else Inr (order_plan normalized))"

definition plan_reports :: "plan \<Rightarrow> byte list list" where
  "plan_reports p = concat (map (\<lambda>(s, v, rs). rs) p)"

text \<open>What the body of the transaction has done: the setting in hand, the counts, the completed settings, and its exception.\<close>

record progress =
  pg_current :: touchpad_setting
  pg_applied :: nat
  pg_synchronized :: bool
  pg_completed :: "touchpad_apply_result list"
  pg_error :: "exn option"

fun write_reports :: "'w os \<Rightarrow> transport \<Rightarrow> int \<Rightarrow> byte list list \<Rightarrow> nat \<Rightarrow> ('w, nat \<times> exn option) io" where
  "write_reports os t fd [] n = io_ret (n, None)"
| "write_reports os t fd (r # rs) n =
     io_bind (io_try (io_bind (write_report os t fd r) (\<lambda>_. io_ret None)) (\<lambda>_. True) (\<lambda>e. io_ret (Some e))) (\<lambda>err.
     case err of Some e \<Rightarrow> io_ret (n, Some e) | None \<Rightarrow> write_reports os t fd rs (n + 1))"

fun apply_plan :: "'w os \<Rightarrow> transport \<Rightarrow> int \<Rightarrow> string \<Rightarrow> plan \<Rightarrow> progress \<Rightarrow> ('w, progress) io" where
  "apply_plan os t fd path [] pg = io_ret pg"
| "apply_plan os t fd path ((s, v, reports) # rest) pg =
     io_bind (write_reports os t fd reports 0) (\<lambda>(n, err).
       let pg = pg\<lparr>pg_current := s, pg_applied := pg_applied pg + n\<rparr> in
       case err of
         Some e \<Rightarrow> io_ret (pg\<lparr>pg_error := Some e\<rparr>)
       | None \<Rightarrow>
           apply_plan os t fd path rest (pg\<lparr>pg_completed := pg_completed pg @
             [\<lparr>tar_setting = s, tar_value = v, tar_device_path = path, tar_reports = reports,
               tar_reports_applied = n, tar_clock_synchronized = pg_synchronized pg\<rparr>]\<rparr>))"

text \<open>\<open>make_timestamp_report(epoch_seconds)\<close>, which reads the clock when no time is given.\<close>

definition timestamp_report :: "'w os \<Rightarrow> int option \<Rightarrow> ('w, byte list) io" where
  "timestamp_report os epoch =
     (case epoch of
        None \<Rightarrow> io_bind (io_call (os_time os)) (\<lambda>now. io_of (make_timestamp_report now None))
      | Some s \<Rightarrow> io_of (make_timestamp_report 0 (Some s)))"

definition sync_clock :: "'w os \<Rightarrow> transport \<Rightarrow> int \<Rightarrow> int option \<Rightarrow> ('w, exn option) io" where
  "sync_clock os t fd epoch =
     io_try (io_bind (timestamp_report os epoch) (\<lambda>r. io_bind (write_report os t fd r) (\<lambda>_. io_ret None)))
       (\<lambda>_. True) (\<lambda>e. io_ret (Some e))"

definition apply_body :: "'w os \<Rightarrow> transport \<Rightarrow> int \<Rightarrow> string \<Rightarrow> plan \<Rightarrow> bool \<Rightarrow> int option \<Rightarrow> ('w, progress) io" where
  "apply_body os t fd path ordered synchronize_clock epoch =
     (let pg = \<lparr>pg_current = fst (hd ordered), pg_applied = 0, pg_synchronized = False, pg_completed = [], pg_error = None\<rparr> in
      if synchronize_clock
      then io_bind (sync_clock os t fd epoch) (\<lambda>err. case err of
             Some e \<Rightarrow> io_ret (pg\<lparr>pg_error := Some e\<rparr>)
           | None \<Rightarrow> apply_plan os t fd path ordered (pg\<lparr>pg_synchronized := True\<rparr>))
      else apply_plan os t fd path ordered pg)"

text \<open>\<open>except Exception\<close> wraps the exception with the counts; any other is passed on.\<close>

definition batch_outcome :: "string \<Rightarrow> nat \<Rightarrow> progress \<Rightarrow> exn + batch_apply_result" where
  "batch_outcome path total_reports pg =
     (case pg_error pg of
        Some e \<Rightarrow> Inl (if is_exception e
          then TouchpadFirmwareError (''failed applying '' @ setting_str (pg_current pg) @ '': '' @ exn_str e) path
                 (pg_applied pg) total_reports (pg_completed pg)
          else e)
      | None \<Rightarrow> Inr \<lparr>bar_device_path = path, bar_settings = pg_completed pg, bar_reports_applied = pg_applied pg,
                    bar_total_reports = total_reports, bar_clock_synchronized = pg_synchronized pg\<rparr>)"

definition apply_settings ::
  "'w os \<Rightarrow> transport \<Rightarrow> (setting_arg \<times> pv) list \<Rightarrow> bool \<Rightarrow> int option \<Rightarrow> ('w, batch_apply_result) io" where
  "apply_settings os t settings synchronize_clock epoch =
     io_bind (io_of (make_plan settings)) (\<lambda>ordered.
     io_bind (transport_open os t) (\<lambda>(fd, path).
     io_finally
       (io_bind (apply_body os t fd path ordered synchronize_clock epoch) (\<lambda>pg.
        io_of (batch_outcome path (length (plan_reports ordered)) pg)))
       (os_close os fd)))"

definition apply_setting ::
  "'w os \<Rightarrow> transport \<Rightarrow> setting_arg \<Rightarrow> pv \<Rightarrow> bool \<Rightarrow> int option \<Rightarrow> ('w, touchpad_apply_result) io" where
  "apply_setting os t setting v synchronize_clock epoch =
     io_bind (apply_settings os t [(setting, v)] synchronize_clock epoch) (\<lambda>result. io_ret (bar_settings result ! 0))"

section \<open>Reading the supported gestures\<close>

definition is_support_report :: "byte list \<Rightarrow> bool" where
  "is_support_report report =
     (length report = TOUCHPAD_REPORT_BYTES \<and> report ! 0 = TOUCHPAD_REPORT_ID \<and> report ! 1 = 0xF0)"

definition support_round :: "'w os \<Rightarrow> int \<Rightarrow> int \<Rightarrow> ('w, nat set option) io" where
  "support_round os fd deadline =
     io_bind (io_call (os_monotonic os)) (\<lambda>now.
     let remaining = deadline - now in
     if remaining \<le> 0 then io_raise (TimeoutError ''timed out waiting for support response'')
     else io_bind (io_call (os_select_read os fd remaining)) (\<lambda>s. case s of
       Sys_interrupted \<Rightarrow> io_ret None
     | Sys_blocked \<Rightarrow> io_raise (OSError ''Resource temporarily unavailable'')
     | Sys_raise e \<Rightarrow> io_raise e
     | Sys_ret readable \<Rightarrow>
         if \<not> readable then io_raise (TimeoutError ''timed out waiting for support response'')
         else io_bind (io_call (os_read os fd 64)) (\<lambda>x. case x of
             Sys_interrupted \<Rightarrow> io_ret None
           | Sys_blocked \<Rightarrow> io_ret None
           | Sys_raise e \<Rightarrow> io_raise e
           | Sys_ret report \<Rightarrow>
               if report = [] then io_raise (OSError (errno_text 19 ''touchpad disconnected''))
               else if is_support_report report
               then io_bind (io_of (decode_support_report report)) (\<lambda>bits. io_ret (Some bits))
               else io_ret None)))"

definition query_body :: "'w os \<Rightarrow> transport \<Rightarrow> int \<Rightarrow> bool \<Rightarrow> int option \<Rightarrow> ('w, nat set) io" where
  "query_body os t fd synchronize_clock epoch =
     io_bind (if synchronize_clock then io_bind (timestamp_report os epoch) (write_report os t fd) else io_ret ()) (\<lambda>_.
     io_bind (io_of make_support_query_report) (\<lambda>q.
     io_bind (write_report os t fd q) (\<lambda>_.
     io_bind (io_call (os_monotonic os)) (\<lambda>now. io_repeat (support_round os fd (now + tt_timeout t))))))"

definition query_supported_gestures :: "'w os \<Rightarrow> transport \<Rightarrow> bool \<Rightarrow> int option \<Rightarrow> ('w, nat set) io" where
  "query_supported_gestures os t synchronize_clock epoch =
     io_bind (transport_open os t) (\<lambda>(fd, path).
     io_finally
       (io_try (query_body os t fd synchronize_clock epoch) is_exception
         (\<lambda>e. io_raise (TouchpadFirmwareError (''support query failed on '' @ path @ '': '' @ exn_str e) path 0 0 [])))
       (os_close os fd))"

section \<open>What a hidraw device accepts\<close>

text \<open>
  A report counts as accepted when \<open>os.write\<close> reports its full length. Nothing else changes what was accepted, and the system
  raises no exception of this program.
\<close>

definition completed_of :: "string \<Rightarrow> bool \<Rightarrow> plan \<Rightarrow> touchpad_apply_result list" where
  "completed_of path synchronized p = map (\<lambda>(s, v, rs). \<lparr>tar_setting = s, tar_value = v, tar_device_path = path,
     tar_reports = rs, tar_reports_applied = length rs, tar_clock_synchronized = synchronized\<rparr>) p"

definition sent_clock :: "bool \<Rightarrow> byte list list \<Rightarrow> bool" where
  "sent_clock synchronized ts = (if synchronized then \<exists>r. ts = [r] \<and> is_ok (read_timestamp r) else ts = [])"

text \<open>A run that failed after \<open>k\<close> reports, in the setting at position \<open>j\<close>.\<close>

definition stopped_in :: "plan \<Rightarrow> nat \<Rightarrow> nat \<Rightarrow> bool" where
  "stopped_in p k j = (j < length p \<and> length (plan_reports (take j p)) \<le> k \<and> k < length (plan_reports (take (Suc j) p)))"

lemma plan_reports_Cons [simp]: "plan_reports ((s, v, rs) # p) = rs @ plan_reports p" "plan_reports [] = []"
  by (simp_all add: plan_reports_def)

lemma stopped_in_Suc: "stopped_in p k j \<Longrightarrow> stopped_in ((s, v, rs) # p) (length rs + k) (Suc j)"
  by (simp add: stopped_in_def)

text \<open>What an outcome says about the reports that arrived.\<close>

definition outcome_true :: "plan \<Rightarrow> bool \<Rightarrow> byte list list \<Rightarrow> batch_apply_result reply \<Rightarrow> bool" where
  "outcome_true p synchronize arrived r = (case r of
     Ret res \<Rightarrow> \<exists>ts. arrived = ts @ plan_reports p \<and> sent_clock synchronize ts \<and>
       bar_settings res = completed_of (bar_device_path res) synchronize p \<and>
       bar_reports_applied res = length (plan_reports p) \<and> bar_total_reports res = length (plan_reports p) \<and>
       bar_clock_synchronized res = synchronize
   | Raise (TouchpadFirmwareError m path a n c) \<Rightarrow>
       (n = 0 \<and> a = 0 \<and> c = [] \<and> arrived = []) \<or>
       (n = length (plan_reports p) \<and> (\<exists>ts j synced. arrived = ts @ take a (plan_reports p) \<and> sent_clock synced ts \<and>
          (synced \<longrightarrow> synchronize) \<and> stopped_in p a j \<and> c = completed_of path synced (take j p)))
   | _ \<Rightarrow> True)"

text \<open>The exceptions of this program that \<open>_open\<close> raises carry no counts.\<close>

definition no_counts :: "exn \<Rightarrow> bool" where
  "no_counts e = (case e of TouchpadFirmwareError m p a n c \<Rightarrow> a = 0 \<and> n = 0 \<and> c = [] | _ \<Rightarrow> True)"

lemma no_counts_system: "system_error e \<Longrightarrow> no_counts e"
  by (cases e) (simp_all add: no_counts_def)

lemma raises_no_counts: "raises_only system_error m \<Longrightarrow> raises_only no_counts m"
  using no_counts_system by (auto simp: raises_only_def)

locale hidraw =
  fixes os :: "'w os"
    and accepted :: "'w \<Rightarrow> byte list list"
  assumes accept: "os_write os fd r w = (Sys_ret (length r), w') \<Longrightarrow> accepted w' = accepted w @ [r]"
    and refuse: "os_write os fd r w = (x, w') \<Longrightarrow> x \<noteq> Sys_ret (length r) \<Longrightarrow> accepted w' = accepted w"
    and quiet:
    "reads_only accepted (os_exists os p)" "reads_only accepted (os_is_dir os p)" "reads_only accepted (os_access os p m)"
    "reads_only accepted (os_glob os p g)" "reads_only accepted (os_read_text os p)" "reads_only accepted (os_read_bytes os p)"
    "reads_only accepted (os_open os p n)" "reads_only accepted (os_close os fd)" "reads_only accepted (os_monotonic os)"
    "reads_only accepted (os_time os)" "reads_only accepted (os_select_write os fd n)"
    and system: "raises_only system_error (os_exists os p)" "raises_only system_error (os_is_dir os p)"
    "raises_only system_error (os_access os p m)" "raises_only system_error (os_glob os p g)"
    "raises_only system_error (os_read_text os p)" "raises_only system_error (os_read_bytes os p)"
    "raises_only system_error (os_open os p n)" "raises_only system_error (os_close os fd)"
begin


lemma wait_to_write:
  assumes "io_bind (io_call (os_monotonic os)) (\<lambda>now.
         let remaining = deadline - now in
         if remaining \<le> 0 then io_raise e1
         else io_bind (io_call (os_select_write os fd remaining)) (\<lambda>s. case s of
             Sys_ret _ \<Rightarrow> io_ret None
           | Sys_interrupted \<Rightarrow> io_ret None
           | Sys_blocked \<Rightarrow> io_raise e2
           | Sys_raise e \<Rightarrow> io_raise e)) w = (x, w')"
  shows "accepted w' = accepted w \<and> x \<noteq> Ret (Some ())"
proof
  let ?m = "io_bind (io_call (os_monotonic os)) (\<lambda>now.
         let remaining = deadline - now in
         if remaining \<le> 0 then io_raise e1
         else io_bind (io_call (os_select_write os fd remaining)) (\<lambda>s. case s of
             Sys_ret _ \<Rightarrow> io_ret None
           | Sys_interrupted \<Rightarrow> io_ret None
           | Sys_blocked \<Rightarrow> io_raise e2
           | Sys_raise e \<Rightarrow> io_raise e))"
  have "reads_only accepted ?m"
    using quiet(9,11) by (auto intro!: frames simp: Let_def split: sysret.splits)
  then show "accepted w' = accepted w" using assms by (rule reads_onlyD)
  obtain now v where "os_monotonic os w = (now, v)" by fastforce
  moreover obtain s v' where "os_select_write os fd (deadline - now) v = (s, v')" by fastforce
  ultimately show "x \<noteq> Ret (Some ())" using assms by (cases s) (auto simp: Let_def split: if_splits)
qed

lemma write_round_accepts:
  assumes "write_round os fd r d w = (x, w')"
  shows "accepted w' = accepted w @ (if x = Ret (Some ()) then [r] else [])"
proof -
  obtain y v where y: "os_write os fd r w = (y, v)" by fastforce
  show ?thesis
  proof (cases y)
    case (Sys_ret n)
    then show ?thesis
      using assms y accept [of fd r w v] refuse [OF y] by (auto simp: write_round_def y split: if_splits)
  next
    case Sys_interrupted
    then show ?thesis using assms refuse [OF y] by (auto simp: write_round_def y)
  next
    case Sys_blocked
    then have "accepted w' = accepted v \<and> x \<noteq> Ret (Some ())"
      using assms by (intro wait_to_write) (simp add: write_round_def y)
    then show ?thesis using refuse [OF y] Sys_blocked by simp
  next
    case (Sys_raise e)
    then show ?thesis using assms refuse [OF y] by (auto simp: write_round_def y)
  qed
qed

lemma write_report_accepts:
  assumes "write_report os t fd r w = (x, w')"
  shows "accepted w' = accepted w @ (if x = Ret () then [r] else [])"
proof (cases "length r \<noteq> TOUCHPAD_REPORT_BYTES \<or> r ! 0 \<noteq> TOUCHPAD_REPORT_ID")
  case True
  then show ?thesis using assms by (auto simp: write_report_def)
next
  case False
  obtain now v where v: "os_monotonic os w = (now, v)" by fastforce
  let ?body = "write_round os fd r (now + tt_timeout t)"
  have x: "io_repeat ?body v = (x, w')"
    using assms False v by (simp add: write_report_def)
  have start: "accepted v = accepted w" using v by (rule reads_onlyD [OF quiet(9)])
  show ?thesis
  proof (cases "repeat_loop ?body v")
    case None
    then show ?thesis using x start by (auto simp: io_repeat_def)
  next
    case (Some y)
    then have "repeat_loop ?body v = Some (x, w')" using x by (simp add: io_repeat_def)
    then obtain u r' where u: "accepted u = accepted w" "?body u = (r', w')" "r' \<noteq> Ret None" "x = loop_result r'"
      by (rule repeat_loop_inv [where I = "\<lambda>u. accepted u = accepted w"]) (auto simp: start dest: write_round_accepts)
    then show ?thesis
      using write_round_accepts [OF u(2)] by (cases r') (auto simp: loop_result_def)
  qed
qed

lemma write_reports_accepts:
  assumes "write_reports os t fd rs n w = (Ret (m, err), w')"
  shows "\<exists>k \<le> length rs. m = n + k \<and> accepted w' = accepted w @ take k rs \<and> (err = None \<longleftrightarrow> k = length rs)"
  using assms
proof (induction rs arbitrary: n w)
  case Nil
  then show ?case by simp
next
  case (Cons r rs)
  obtain x v where x: "write_report os t fd r w = (x, v)" by fastforce
  note x' = write_report_accepts [OF x]
  show ?case
  proof (cases x)
    case (Ret u)
    then have "write_reports os t fd rs (n + 1) v = (Ret (m, err), w')"
      using Cons.prems x by (simp add: io_bind_def io_try_def io_ret_def)
    from Cons.IH [OF this] obtain k where "k \<le> length rs" "m = n + 1 + k" "accepted w' = accepted v @ take k rs"
      "err = None \<longleftrightarrow> k = length rs" by blast
    with x' Ret show ?thesis by (intro exI [of _ "Suc k"]) auto
  next
    case (Raise e)
    then show ?thesis using Cons.prems x x' by (auto simp: io_bind_def io_try_def io_ret_def)
  next
    case Hang
    then show ?thesis using Cons.prems x by (simp add: io_bind_def io_try_def)
  qed
qed

lemma apply_plan_accepts:
  assumes "apply_plan os t fd path p pg w = (Ret pg', w')" "pg_error pg = None"
  shows "\<exists>k j. accepted w' = accepted w @ take k (plan_reports p) \<and> pg_applied pg' = pg_applied pg + k \<and>
      pg_completed pg' = pg_completed pg @ completed_of path (pg_synchronized pg) (take j p) \<and>
      pg_synchronized pg' = pg_synchronized pg \<and>
      (if pg_error pg' = None then k = length (plan_reports p) \<and> j = length p
       else stopped_in p k j \<and> pg_current pg' = fst (p ! j))"
  using assms
proof (induction p arbitrary: pg w)
  case Nil
  then show ?case by (simp add: completed_of_def)
next
  case (Cons item p)
  obtain s v rs where item: "item = (s, v, rs)" by (cases item)
  obtain n err w1 where wr: "write_reports os t fd rs 0 w = (Ret (n, err), w1)"
    using Cons.prems item by (auto simp: io_bind_eq_Ret)
  from write_reports_accepts [OF wr] have n: "n \<le> length rs" "accepted w1 = accepted w @ take n rs" "err = None \<longleftrightarrow> n = length rs"
    by auto
  show ?case
  proof (cases err)
    case (Some e)
    then have "n < length rs" using n by (cases "n = length rs") auto
    with Some n Cons.prems item wr show ?thesis
      by (intro exI [of _ n] exI [of _ 0]) (auto simp: io_bind_def stopped_in_def completed_of_def)
  next
    case None
    let ?pg = "pg\<lparr>pg_current := s, pg_applied := pg_applied pg + n, pg_completed := pg_completed pg @
      completed_of path (pg_synchronized pg) [item]\<rparr>"
    have "apply_plan os t fd path p ?pg w1 = (Ret pg', w')"
      using Cons.prems item wr None n by (simp add: io_bind_def Let_def completed_of_def)
    from Cons.IH [OF this] Cons.prems obtain k j where
      kj: "accepted w' = accepted w1 @ take k (plan_reports p)" "pg_applied pg' = pg_applied pg + n + k"
      "pg_completed pg' = pg_completed pg @ completed_of path (pg_synchronized pg) [item] @
         completed_of path (pg_synchronized pg) (take j p)" "pg_synchronized pg' = pg_synchronized pg"
      "if pg_error pg' = None then k = length (plan_reports p) \<and> j = length p
       else stopped_in p k j \<and> pg_current pg' = fst (p ! j)" by auto
    then show ?thesis
      using n None item stopped_in_Suc [of p k j s v rs]
      by (intro exI [of _ "length rs + k"] exI [of _ "Suc j"]) (auto simp: completed_of_def split: if_splits)
  qed
qed

lemma timestamp_quiet: "reads_only accepted (timestamp_report os epoch)"
  using quiet(10) unfolding timestamp_report_def by (auto intro!: frames split: option.splits)

lemma sync_clock_accepts:
  assumes "sync_clock os t fd epoch w = (Ret err, w')"
  shows "\<exists>ts. accepted w' = accepted w @ ts \<and> sent_clock (err = None) ts"
proof -
  obtain x v where x: "timestamp_report os epoch w = (x, v)" by fastforce
  have v: "accepted v = accepted w" using x by (rule reads_onlyD [OF timestamp_quiet])
  show ?thesis
  proof (cases x)
    case (Ret r)
    have "is_ok (read_timestamp r)"
      using x Ret by (auto simp: timestamp_report_def make_timestamp_report_def read_timestamp_def TOUCHPAD_REPORT_ID_def
          io_of_def Let_def split: option.splits if_splits prod.splits)
    moreover obtain y u where y: "write_report os t fd r v = (y, u)" by fastforce
    ultimately show ?thesis
      using assms x v Ret write_report_accepts [OF y]
      by (cases y) (auto simp: sent_clock_def sync_clock_def io_bind_def io_try_def io_ret_def)
  next
    case (Raise e)
    then show ?thesis using assms x v by (auto simp: sent_clock_def sync_clock_def io_bind_def io_try_def io_ret_def)
  next
    case Hang
    then show ?thesis using assms x by (simp add: sent_clock_def sync_clock_def io_bind_def io_try_def)
  qed
qed

lemma apply_body_accepts:
  assumes "apply_body os t fd path p synchronize epoch w = (Ret pg, w')"
  shows "\<exists>ts k j. accepted w' = accepted w @ ts @ take k (plan_reports p) \<and> pg_applied pg = k \<and>
      sent_clock (pg_synchronized pg) ts \<and> pg_completed pg = completed_of path (pg_synchronized pg) (take j p) \<and>
      (if pg_error pg = None then k = length (plan_reports p) \<and> j = length p \<and> pg_synchronized pg = synchronize
       else k = 0 \<and> j = 0 \<or> stopped_in p k j)"
proof -
  let ?pg = "\<lparr>pg_current = fst (hd p), pg_applied = 0, pg_synchronized = False, pg_completed = [], pg_error = None\<rparr>"
  have run: ?thesis if ap: "apply_plan os t fd path p (?pg\<lparr>pg_synchronized := synchronize\<rparr>) v = (Ret pg, w')"
    and v: "accepted v = accepted w @ ts" "sent_clock synchronize ts" for v ts
  proof -
    from apply_plan_accepts [OF ap] obtain k j where
      "accepted w' = accepted v @ take k (plan_reports p)" "pg_applied pg = k"
      "pg_completed pg = completed_of path synchronize (take j p)" "pg_synchronized pg = synchronize"
      "if pg_error pg = None then k = length (plan_reports p) \<and> j = length p else stopped_in p k j \<and> pg_current pg = fst (p ! j)"
      by auto
    with v show ?thesis by (intro exI [of _ ts] exI [of _ k] exI [of _ j]) (auto split: if_splits)
  qed
  show ?thesis
  proof (cases synchronize)
    case False
    then show ?thesis using run [of w "[]"] assms by (simp add: apply_body_def sent_clock_def)
  next
    case True
    then obtain err v where sy: "sync_clock os t fd epoch w = (Ret err, v)"
      using assms by (auto simp: apply_body_def io_bind_eq_Ret)
    from sync_clock_accepts [OF this] obtain ts where ts: "accepted v = accepted w @ ts" "sent_clock (err = None) ts" by blast
    show ?thesis
    proof (cases err)
      case None
      then show ?thesis using run [of v ts] ts True assms sy by (simp add: apply_body_def io_bind_def)
    next
      case (Some e)
      then have "pg = ?pg\<lparr>pg_error := Some e\<rparr>" "w' = v"
        using True assms sy by (auto simp: apply_body_def io_bind_def)
      then show ?thesis using ts Some by (intro exI [of _ "[]"] exI [of _ 0]) (simp add: completed_of_def sent_clock_def)
    qed
  qed
qed

lemma apply_plan_synchronized:
  "apply_plan os t fd path p pg w = (Ret pg', w') \<Longrightarrow> pg_synchronized pg' = pg_synchronized pg"
proof (induction p arbitrary: pg w)
  case (Cons i p)
  then show ?case by (cases i) (fastforce simp: io_bind_eq_Ret Let_def split: option.splits)
qed simp

lemma body_synchronized:
  assumes "apply_body os t fd path p synchronize epoch w = (Ret pg, w')"
  shows "pg_synchronized pg \<longrightarrow> synchronize"
  using assms by (auto simp: apply_body_def Let_def dest: apply_plan_synchronized split: if_splits)

lemma probe_quiet: "reads_only accepted (probe_loop os sr dr v p ns b es)"
proof (induction ns arbitrary: b es)
  case (Cons n ns)
  then show ?case
    using quiet by (auto intro!: frames simp: Let_def hid_identity_def entry_caps_def verified_probe_def split: sum.splits)
qed simp

lemma transport_probe_quiet: "reads_only accepted (transport_probe os t)"
  using quiet probe_quiet
  by (auto intro!: frames simp: transport_probe_def probe_touchpad_firmware_hid_def probe_platform_def probe_entries_def Let_def
      split: sum.splits)

lemma transport_open_quiet: "reads_only accepted (transport_open os t)"
  using quiet transport_probe_quiet unfolding transport_open_def by (auto intro!: frames simp: Let_def)

lemma parse_raises: "raises_only system_error (io_of (parse_vendor_collection_descriptor d))"
  using value_error_system [OF parse_descriptor_error] by (intro raises_only_of)

lemma probe_loop_raises: "raises_only system_error (probe_loop os sr dr v p ns b es)"
proof (induction ns arbitrary: b es)
  case (Cons n ns)
  then show ?case
    using system by (auto intro!: parse_raises raises_only_bind raises_only_try raises_only_ret
        simp: Let_def hid_identity_def entry_caps_def verified_probe_def split: sum.splits)
qed simp

lemma transport_probe_raises: "raises_only system_error (transport_probe os t)"
  using system probe_loop_raises
  by (auto intro!: raising simp: transport_probe_def probe_touchpad_firmware_hid_def probe_platform_def probe_entries_def Let_def
      split: sum.splits)

lemma transport_open_raises: "raises_only no_counts (transport_open os t)"
  using raises_no_counts [OF transport_probe_raises] raises_no_counts [OF system(7)] raises_no_counts [OF system(8)]
  unfolding transport_open_def by (auto intro!: raising simp: Let_def no_counts_def)

lemma write_reports_raise: "raises_only (\<lambda>_. False) (write_reports os t fd rs n)"
  by (induction rs arbitrary: n) (auto intro!: raising raises_only_try_all split: option.splits)

lemma apply_plan_raise: "raises_only (\<lambda>_. False) (apply_plan os t fd path p pg)"
proof (induction p arbitrary: pg)
  case (Cons i p)
  then show ?case using write_reports_raise by (cases i) (auto intro!: raising simp: Let_def split: option.splits)
qed simp

lemma apply_body_raise: "raises_only (\<lambda>_. False) (apply_body os t fd path p synchronize epoch)"
  using apply_plan_raise unfolding apply_body_def sync_clock_def
  by (auto intro!: raising raises_only_try_all simp: Let_def split: option.splits)

lemma body_outcome:
  assumes "apply_body os t fd path p synchronize epoch w = (Ret pg, w')" "stopped_in p 0 0"
  shows "\<exists>new. accepted w' = accepted w @ new \<and>
    outcome_true p synchronize new (case batch_outcome path (length (plan_reports p)) pg of Inl e \<Rightarrow> Raise e | Inr x \<Rightarrow> Ret x)"
proof -
  from apply_body_accepts [OF assms(1)] obtain ts k j where
    new: "accepted w' = accepted w @ ts @ take k (plan_reports p)" and k: "pg_applied pg = k"
    and ts: "sent_clock (pg_synchronized pg) ts" and c: "pg_completed pg = completed_of path (pg_synchronized pg) (take j p)"
    and fin: "if pg_error pg = None then k = length (plan_reports p) \<and> j = length p \<and> pg_synchronized pg = synchronize
       else k = 0 \<and> j = 0 \<or> stopped_in p k j" by auto
  have synced: "pg_synchronized pg \<longrightarrow> synchronize" using assms(1) by (rule body_synchronized)
  show ?thesis
  proof (cases "pg_error pg")
    case None
    then show ?thesis using new k ts c fin by (auto simp: outcome_true_def batch_outcome_def)
  next
    case (Some e)
    then have stop: "stopped_in p k j" using fin assms(2) by auto
    show ?thesis
    proof (cases "is_exception e")
      case True
      then show ?thesis
        using Some new k ts c stop synced
        by (intro exI [of _ "ts @ take k (plan_reports p)"]) (auto simp: outcome_true_def batch_outcome_def)
    next
      case False
      then show ?thesis using Some new by (auto simp: outcome_true_def batch_outcome_def is_exception_def)
    qed
  qed
qed

lemma settings_outcome:
  assumes plan: "make_plan settings = Inr p" "stopped_in p 0 0"
    and run: "apply_settings os t settings synchronize epoch w = (r, w')"
  shows "\<exists>new. accepted w' = accepted w @ new \<and> outcome_true p synchronize new r \<or> r = Hang"
proof -
  obtain x w1 where x: "transport_open os t w = (x, w1)" by fastforce
  have w1: "accepted w1 = accepted w" using x by (rule reads_onlyD [OF transport_open_quiet])
  show ?thesis
  proof (cases x)
    case Hang
    then show ?thesis using run plan x by (simp add: apply_settings_def io_of_def io_bind_def)
  next
    case (Raise e)
    have "no_counts e" using x Raise by (auto intro: raises_onlyD [OF transport_open_raises])
    then have "outcome_true p synchronize [] (Raise e)" by (cases e) (simp_all add: outcome_true_def no_counts_def)
    moreover have "r = Raise e" "w' = w1" using run plan x Raise by (simp_all add: apply_settings_def io_of_def io_bind_def)
    ultimately show ?thesis using w1 by (intro exI [of _ "[]"]) simp
  next
    case (Ret fp)
    obtain fd path where fp: "fp = (fd, path)" by fastforce
    obtain y w2 where y: "apply_body os t fd path p synchronize epoch w1 = (y, w2)" by fastforce
    let ?out = "batch_outcome path (length (plan_reports p))"
    have fin: "io_finally (io_bind (apply_body os t fd path p synchronize epoch) (\<lambda>pg. io_of (?out pg))) (os_close os fd) w1 = (r, w')"
      using run plan x Ret fp by (simp add: apply_settings_def io_of_def io_bind_def)
    show ?thesis
    proof (cases y)
      case Hang
      then show ?thesis using fin y by (auto simp: io_finally_def io_bind_def)
    next
      case (Raise e)
      then show ?thesis using raises_onlyD [OF apply_body_raise] y by blast
    next
      case pg: (Ret pg)
      obtain z w3 where z: "os_close os fd w2 = (z, w3)" by fastforce
      have w3: "accepted w3 = accepted w2" using z by (rule reads_onlyD [OF quiet(8)])
      from body_outcome [OF y [unfolded pg] plan(2)] obtain new where
        new: "accepted w2 = accepted w @ new" "outcome_true p synchronize new (case ?out pg of Inl e \<Rightarrow> Raise e | Inr x \<Rightarrow> Ret x)"
        using w1 by auto
      have "w' = w3" using fin y pg z by (auto simp: io_finally_def io_bind_def io_of_def io_ret_def io_raise_def split: sum.splits reply.splits)
      moreover have "outcome_true p synchronize new r \<or> r = Hang"
      proof (cases z)
        case (Raise e)
        then have "system_error e" using z by (auto intro: raises_onlyD [OF system(8)])
        moreover have "r = Raise e" using fin y pg z Raise by (auto simp: io_finally_def io_bind_def io_of_def io_ret_def io_raise_def split: sum.splits)
        ultimately show ?thesis by (cases e) (simp_all add: outcome_true_def)
      qed (use fin y pg z new(2) in \<open>auto simp: io_finally_def io_bind_def io_of_def io_ret_def io_raise_def split: sum.splits\<close>)
      ultimately show ?thesis using new(1) w3 by auto
    qed
  qed
qed

end

section \<open>Plans\<close>

definition plan_entry :: "setting_arg \<times> pv \<Rightarrow> exn + touchpad_setting \<times> int \<times> byte list list" where
  "plan_entry av =
     rbind (parse_touchpad_setting (fst av)) (\<lambda>s.
     rbind (parse_touchpad_value (SA_setting s) (snd av)) (\<lambda>n.
     rbind (encode_touchpad_setting (SA_setting s) (PInt n)) (\<lambda>rs. Inr (s, n, rs))))"

lemma normalize_iff:
  "normalize_profile ss acc = Inr n \<longleftrightarrow>
     (\<exists>es. list_all2 (\<lambda>av e. plan_entry av = Inr e) ss es \<and> n = acc @ es \<and> distinct (map fst es) \<and>
        fst ` set es \<inter> fst ` set acc = {})"
proof (induction ss acc rule: normalize_profile.induct)
  case (1 acc)
  then show ?case by auto
next
  case (2 a v rest acc)
  have new: "map_of acc s = None \<longleftrightarrow> s \<notin> fst ` set acc" for s by (rule map_of_eq_None_iff)
  have step: "normalize_profile ((a, v) # rest) acc = Inr n \<longleftrightarrow>
      (\<exists>e. plan_entry (a, v) = Inr e \<and> fst e \<notin> fst ` set acc \<and> normalize_profile rest (acc @ [e]) = Inr n)"
    by (auto simp: plan_entry_def new split: if_splits)
  have IH: "normalize_profile rest (acc @ [e]) = Inr n \<longleftrightarrow>
      (\<exists>es. list_all2 (\<lambda>av e. plan_entry av = Inr e) rest es \<and> n = (acc @ [e]) @ es \<and> distinct (map fst es) \<and>
        fst ` set es \<inter> fst ` set (acc @ [e]) = {})" if "plan_entry (a, v) = Inr e" "fst e \<notin> fst ` set acc" for e
    using that 2 new by (cases e) (auto simp: plan_entry_def)
  show ?case
    unfolding step using IH by (fastforce simp: list_all2_Cons1)
qed

lemma normalize_start:
  "normalize_profile ss [] = Inr n \<longleftrightarrow> (\<forall>av \<in> set ss. is_ok (plan_entry av)) \<and> n = map (\<lambda>av. projr (plan_entry av)) ss \<and>
     distinct (map fst n)"
proof -
  have "list_all2 (\<lambda>av e. plan_entry av = Inr e) ss es \<longleftrightarrow>
      (\<forall>av \<in> set ss. is_ok (plan_entry av)) \<and> es = map (\<lambda>av. projr (plan_entry av)) ss" for es
    by (induction ss arbitrary: es) (auto simp: list_all2_Cons1 is_ok_iff)
  then show ?thesis by (auto simp: normalize_iff)
qed

lemma normalize_distinct: "normalize_profile ss [] = Inr n \<Longrightarrow> distinct (map fst n)"
  unfolding normalize_start by blast

lemma order_plan_set: "order_plan es = order_plan fs" if "set es = set fs" "distinct (map fst es)" "distinct (map fst fs)"
  using that map_of_inject_set [of es fs] by (simp add: order_plan_def)

lemma settings_enumerated: "s \<in> set TOUCHPAD_SETTINGS"
  by (cases s) (simp_all add: TOUCHPAD_SETTINGS_def)

lemma map_fst_order: "map fst (order_plan n) = filter (\<lambda>s. s \<in> fst ` set n) TOUCHPAD_SETTINGS"
proof -
  have "map fst (concat (map (\<lambda>s. case map_of n s of None \<Rightarrow> [] | Some vr \<Rightarrow> [(s, vr)]) xs)) = filter (\<lambda>s. s \<in> fst ` set n) xs" for xs
    by (induction xs) (auto simp: map_of_eq_None_iff split: option.splits dest!: map_of_SomeD intro: rev_image_eqI)
  then show ?thesis by (simp add: order_plan_def)
qed

lemma set_order: "distinct (map fst n) \<Longrightarrow> set (order_plan n) = set n"
  using settings_enumerated by (fastforce simp: order_plan_def split: option.splits)

lemma plan_ready:
  assumes "make_plan ss = Inr p"
  shows "stopped_in p 0 0"
proof -
  obtain n where n: "normalize_profile ss [] = Inr n" "n \<noteq> []" "p = order_plan n"
    using assms by (auto simp: make_plan_def split: if_splits)
  then have set: "set p = set n" using normalize_distinct set_order by blast
  then obtain s v rs p' where p: "p = (s, v, rs) # p'" using n(2) by (cases p) auto
  then have "(s, v, rs) \<in> set n" using set by auto
  then obtain av where "plan_entry av = Inr (s, v, rs)"
    using n(1) by (fastforce simp: normalize_start is_ok_iff)
  then have "rs \<noteq> []" by (auto simp: plan_entry_def encode_iff setting_commands_def Let_def)
  then show ?thesis using p by (simp add: stopped_in_def)
qed

section \<open>A device whose clock runs\<close>

text \<open>
  Time does not run backwards and there are finitely many signals to come. A call that is interrupted uses one up; a write that
  would block, a read and a sleep take time; every other call returns.
\<close>

definition later :: "('w \<Rightarrow> int) \<Rightarrow> ('w \<Rightarrow> nat) \<Rightarrow> 'w \<Rightarrow> 'w \<Rightarrow> bool" where
  "later now signals w w' = (now w \<le> now w' \<and> signals w' \<le> signals w)"

lemma later_order: "reflp (later now signals)" "transp (later now signals)"
  by (auto simp: later_def reflp_def transp_def)

locale hidraw_clock =
  fixes os :: "'w os"
    and now :: "'w \<Rightarrow> int"
    and signals :: "'w \<Rightarrow> nat"
  assumes clock: "os_monotonic os w = (t, w') \<Longrightarrow> t = now w' \<and> later now signals w w'"
    and writes: "os_write os fd r w = (x, w') \<Longrightarrow> later now signals w w' \<and>
      (x = Sys_interrupted \<longrightarrow> signals w' < signals w) \<and> (x = Sys_blocked \<longrightarrow> now w < now w')"
    and read: "os_read os fd n w = (y, w') \<Longrightarrow> later now signals w w' \<and>
      (if y = Sys_interrupted then signals w' < signals w else now w < now w')"
    and selects: "os_select_write os fd d w = (s, w') \<Longrightarrow> later now signals w w'"
    "os_select_read os fd d w = (s, w') \<Longrightarrow> later now signals w w' \<and> (s = Sys_interrupted \<longrightarrow> signals w' < signals w)"
    and sleeps: "0 < d \<Longrightarrow> os_sleep os d w = (Ret u, w') \<Longrightarrow> now w < now w'"
    and others: "completes (later now signals) (os_sleep os d)" "later now signals w (snd (os_time os w))"
    "completes (later now signals) (os_exists os p)" "completes (later now signals) (os_is_dir os p)"
    "completes (later now signals) (os_access os p m)" "completes (later now signals) (os_glob os p g)"
    "completes (later now signals) (os_read_text os p)" "completes (later now signals) (os_read_bytes os p)"
    "completes (later now signals) (os_open os p m)" "completes (later now signals) (os_close os fd)"
begin

abbreviation returns :: "('w, 'a) io \<Rightarrow> bool" where
  "returns \<equiv> completes (later now signals)"

lemmas returns_rules = completes_bind [OF later_order(2)] completes_try [OF later_order(2)] completes_ret [OF later_order(1)]
  completes_of [OF later_order(1)] completes_finally [OF later_order] others

lemma returns_calls:
  "returns (io_call (os_monotonic os))" "returns (io_call (os_write os fd r))" "returns (io_call (os_read os fd n))"
  "returns (io_call (os_select_write os fd d))" "returns (io_call (os_select_read os fd d))" "returns (io_call (os_time os))"
  using clock writes read selects others(2)
  by (auto intro!: completes_call) (metis prod.collapse)+

definition shrinks :: "int \<Rightarrow> ('w \<times> 'w) set" where
  "shrinks deadline = inv_image (less_than <*lex*> less_than) (\<lambda>w. (nat (deadline - now w), signals w))"

lemma wf_shrinks: "wf (shrinks deadline)"
  by (simp add: shrinks_def wf_inv_image wf_lex_prod)

lemma shrinks_signal: "later now signals w w' \<Longrightarrow> signals w' < signals w \<Longrightarrow> (w', w) \<in> shrinks d"
  by (auto simp: shrinks_def later_def)

lemma shrinks_time: "now w < now w' \<Longrightarrow> now w < d \<Longrightarrow> (w', w) \<in> shrinks d"
  by (auto simp: shrinks_def)

lemma later_trans: "later now signals u v \<Longrightarrow> later now signals v w \<Longrightarrow> later now signals u w"
  by (rule transpD [OF later_order(2)])

lemma write_round_down:
  assumes "write_round os fd r d w = (Ret None, w')"
  shows "(w', w) \<in> shrinks d"
proof -
  obtain x v where x: "os_write os fd r w = (x, v)" by fastforce
  show ?thesis
  proof (cases x)
    case Sys_interrupted
    then show ?thesis using assms x writes [OF x] shrinks_signal by (simp add: write_round_def)
  next
    case Sys_blocked
    obtain t u where t: "os_monotonic os v = (t, u)" by fastforce
    obtain s z where s: "os_select_write os fd (d - t) u = (s, z)" by fastforce
    have "t < d" "w' = z" using assms x Sys_blocked t s by (cases s; auto simp: write_round_def Let_def split: if_splits)+
    moreover have "now w < now v" "now v \<le> t" "t \<le> now z"
      using writes [OF x] Sys_blocked clock [OF t] selects(1) [OF s] by (auto simp: later_def)
    ultimately show ?thesis by (auto intro!: shrinks_time)
  qed (use assms x in \<open>auto simp: write_round_def split: if_splits\<close>)
qed

lemma returns_write: "returns (write_report os t fd r)"
proof -
  have "returns (write_round os fd r d)" for d
    unfolding write_round_def by (auto intro!: returns_rules returns_calls simp: Let_def split: sysret.splits)
  then have "returns (io_repeat (write_round os fd r d))" for d
    by (rule completes_repeat [OF wf_shrinks later_order(2)]) (rule write_round_down)
  then show ?thesis unfolding write_report_def by (auto intro!: returns_rules returns_calls)
qed

lemma returns_reports: "returns (write_reports os t fd rs n)"
  by (induction rs arbitrary: n) (auto intro!: returns_rules returns_write split: option.splits)

lemma returns_plan: "returns (apply_plan os t fd path p pg)"
proof (induction p arbitrary: pg)
  case (Cons i p)
  then show ?case by (cases i) (auto intro!: returns_rules returns_reports simp: Let_def split: option.splits)
qed (auto intro!: returns_rules)

lemma returns_timestamp: "returns (timestamp_report os epoch)"
  unfolding timestamp_report_def by (auto intro!: returns_rules returns_calls split: option.splits)

lemma returns_probe: "returns (transport_probe os t)"
proof -
  have "returns (probe_loop os sr dr v p ns b es)" for sr dr v p ns b es
  proof (induction ns arbitrary: b es)
    case (Cons n ns)
    then show ?case
      by (auto intro!: returns_rules simp: Let_def hid_identity_def entry_caps_def verified_probe_def split: sum.splits)
  qed (auto intro!: returns_rules)
  then show ?thesis
    by (auto intro!: returns_rules simp: transport_probe_def probe_touchpad_firmware_hid_def probe_platform_def probe_entries_def Let_def
        split: sum.splits)
qed

lemma returns_open: "returns (transport_open os t)"
  unfolding transport_open_def by (auto intro!: returns_rules returns_probe simp: Let_def)

lemma returns_apply: "returns (apply_settings os t settings synchronize epoch)"
  unfolding apply_settings_def apply_body_def sync_clock_def
  by (auto intro!: returns_rules returns_open returns_plan returns_write returns_timestamp simp: Let_def split: option.splits)

lemma support_round_down:
  assumes "support_round os fd d w = (Ret None, w')"
  shows "(w', w) \<in> shrinks d"
proof -
  obtain t v where t: "os_monotonic os w = (t, v)" by fastforce
  obtain s u where s: "os_select_read os fd (d - t) v = (s, u)" by fastforce
  obtain y z where y: "os_read os fd 64 u = (y, z)" by fastforce
  note facts = clock [OF t] selects(2) [OF s] read [OF y]
  have d: "t < d" using assms t by (auto simp: support_round_def Let_def split: if_splits)
  show ?thesis
  proof (cases "s = Sys_interrupted")
    case True
    then have "w' = u" using assms t s d by (simp add: support_round_def Let_def)
    then show ?thesis using facts True by (auto intro!: shrinks_signal simp: later_def)
  next
    case False
    then have "s = Sys_ret True" "w' = z"
      using assms t s y d by (cases s; cases y; auto simp: support_round_def Let_def io_bind_eq_Ret split: if_splits)+
    then show ?thesis
      using facts d shrinks_signal [of w z d] shrinks_time [of w z d] by (cases "y = Sys_interrupted") (auto simp: later_def)
  qed
qed

lemma returns_query: "returns (query_supported_gestures os t synchronize epoch)"
proof -
  have "returns (support_round os fd d)" for fd d
    unfolding support_round_def by (auto intro!: returns_rules returns_calls simp: Let_def split: sysret.splits)
  then have "returns (io_repeat (support_round os fd d))" for fd d
    by (rule completes_repeat [OF wf_shrinks later_order(2)]) (rule support_round_down)
  then show ?thesis
    unfolding query_supported_gestures_def query_body_def
    by (auto intro!: returns_rules returns_calls returns_open returns_write returns_timestamp)
qed

lemma wait_round_down:
  assumes "wait_round os t d poll w = (Ret None, w')" "0 < poll"
  shows "(w', w) \<in> shrinks d"
proof -
  obtain p v where p: "transport_probe os t w = (Ret p, v)" using assms(1) by (auto simp: wait_round_def io_bind_eq_Ret)
  obtain n u where n: "os_monotonic os v = (n, u)" by fastforce
  have d: "n < d" and s: "os_sleep os (min poll (d - n)) u = (Ret (), w')"
    using assms(1) p n by (auto simp: wait_round_def io_bind_def Let_def split: if_splits reply.splits prod.splits)
  have "now u < now w'" using sleeps [OF _ s] assms(2) d by simp
  then show ?thesis using completesD [OF returns_probe p] clock [OF n] d by (auto intro!: shrinks_time simp: later_def)
qed

lemma returns_wait: "returns (wait_until_available os t timeout_us poll)"
proof (cases "0 < poll")
  case True
  have "returns (wait_round os t d poll)" for d
    unfolding wait_round_def by (auto intro!: returns_rules returns_calls returns_probe simp: Let_def)
  then have "returns (io_repeat (wait_round os t d poll))" for d
    by (rule completes_repeat [OF wf_shrinks later_order(2)]) (rule wait_round_down [OF _ True])
  then show ?thesis unfolding wait_until_available_def by (auto intro!: returns_rules returns_calls)
next
  case False
  then show ?thesis unfolding wait_until_available_def by (auto intro!: returns_rules)
qed

end

section \<open>The simulated machine as a device\<close>

lemma sim_system: "of_file x = Raise e \<Longrightarrow> system_error e"
  by (auto simp: of_file_def no_file_def split: option.splits)

interpretation sim_hid: hidraw sim_os sim_accepted
  by unfold_locales
     (auto simp: sim_os_def sim_write_def sim_signal_def sim_tick_def reads_only_def raises_only_def sim_glob_def no_file_def
        intro: sim_system split: if_splits)

interpretation sim_timer: hidraw_clock sim_os sim_clock sim_signals
  by unfold_locales
     (auto simp: sim_os_def sim_write_def sim_read_def sim_signal_def sim_tick_def later_def completes_def sim_glob_def no_file_def of_file_def
        split: if_splits list.splits option.splits)

definition touchpad_transport :: transport where
  "touchpad_transport = \<lparr>tt_sysfs_root = ''/sys/class/hidraw'', tt_dev_root = ''/dev'',
     tt_dmi_root = Some ''/sys/class/dmi/id'', tt_timeout = 2000000\<rparr>"

section \<open>Properties\<close>


definition small_profile :: "(setting_arg \<times> pv) list" where
  "small_profile = [(SA_str ''press-text'', PBool True), (SA_str ''sensitivity'', PStr ''high'')]"


text \<open>
  The order of the keys of a profile does not matter: any rearrangement of an accepted profile gives the same plan, whose
  settings come in the order of the enumeration, each once.
\<close>

theorem plan_canonical:
  assumes "make_plan settings = Inr p" and "mset settings' = mset settings"
  shows "make_plan settings' = Inr p \<and> map fst p = filter (\<lambda>s. s \<in> fst ` set p) TOUCHPAD_SETTINGS"
proof
  obtain n where n: "normalize_profile settings [] = Inr n" "n \<noteq> []" "p = order_plan n"
    using assms(1) by (auto simp: make_plan_def split: if_splits)
  let ?n = "map (\<lambda>av. projr (plan_entry av)) settings'"
  have perm: "mset ?n = mset n" using n(1) assms(2) by (simp add: normalize_start)
  then have dist: "distinct (map fst ?n)" and set: "set ?n = set n"
    using n(1) by (metis mset_map mset_eq_imp_distinct_iff normalize_start, metis set_mset_mset)
  then have "normalize_profile settings' [] = Inr ?n"
    using n(1) mset_eq_setD [OF assms(2)] unfolding normalize_start by simp
  moreover have "?n \<noteq> []" using n(2) perm by auto
  moreover have "order_plan ?n = p" using order_plan_set [OF set dist normalize_distinct [OF n(1)]] n(3) by simp
  ultimately show "make_plan settings' = Inr p" by (simp add: make_plan_def)
  show "map fst p = filter (\<lambda>s. s \<in> fst ` set p) TOUCHPAD_SETTINGS"
    using n(3) map_fst_order [of n] set_order [OF normalize_distinct [OF n(1)]] by simp
qed

theorem plan_canonical_witness:
  "make_plan (rev small_profile) = make_plan small_profile \<and> is_ok (make_plan small_profile)"
proof -
  have "is_ok (make_plan small_profile)" by code_simp
  then obtain p where "make_plan small_profile = Inr p" by (auto simp: is_ok_iff)
  with plan_canonical [OF this, of "rev small_profile"] show ?thesis by simp
qed

text \<open>
  C28: On a system whose clock runs, every operation of the transport returns: applying a profile, querying the supported gestures and
  waiting for the device end with a result or an exception, however often calls are interrupted or would block.
\<close>

theorem transport_returns:
  assumes "hidraw_clock os now signals"
  shows "fst (apply_settings os t settings synchronize epoch w) \<noteq> Hang \<and>
    fst (query_supported_gestures os t synchronize epoch w) \<noteq> Hang \<and>
    fst (wait_until_available os t timeout_us poll w) \<noteq> Hang"
  using hidraw_clock.returns_apply [OF assms] hidraw_clock.returns_query [OF assms] hidraw_clock.returns_wait [OF assms]
  by (simp add: completes_def)

theorem transport_returns_witness:
  "fst (apply_settings sim_os touchpad_transport small_profile True None laptop) \<noteq> Hang \<and>
   fst (query_supported_gestures sim_os touchpad_transport True None laptop) \<noteq> Hang \<and>
   fst (wait_until_available sim_os touchpad_transport 1000000 100000 laptop) \<noteq> Hang"
  using transport_returns [OF sim_timer.hidraw_clock_axioms] .

end
