(* ===== verification/Gesture_Runtime.thy ===== *)
theory Gesture_Runtime
  imports App_State Touchpad_Firmware "HOL-Library.Multiset"
begin

text \<open>
  \<^verbatim>\<open>honor_control/backend/gesture_runtime.py\<close>: finding the touchpad and uinput, the virtual keyboard, the reader that
  turns vendor input reports into key chords, and the loop of sessions that reconnects until it is cancelled. The runtime's
  fields are a record beside the world of the operating system; the loop of sessions, which waits in the event loop between its
  steps, is a transition relation.
\<close>

section \<open>Probing\<close>

definition discover_touchpad :: "'w os \<Rightarrow> string \<Rightarrow> string \<Rightarrow> int \<Rightarrow> int \<Rightarrow> ('w, string option) io" where
  "discover_touchpad os sysfs_root dev_root vendor_id product_id =
     (if (vendor_id, product_id) \<noteq> (TOUCHPAD_VENDOR_ID, TOUCHPAD_PRODUCT_ID) then io_ret None
      else discover_touchpad_input os sysfs_root dev_root)"

text \<open>\<open>device is None or not device.exists()\<close>\<close>

definition device_missing :: "'w os \<Rightarrow> string option \<Rightarrow> ('w, bool) io" where
  "device_missing os device =
     (case device of None \<Rightarrow> io_ret True | Some d \<Rightarrow> io_bind (os_exists os d) (\<lambda>e. io_ret (\<not> e)))"

definition probe_uinput :: "'w os \<Rightarrow> string \<Rightarrow> string \<Rightarrow> ('w, gesture_probe) io" where
  "probe_uinput os dev_root device =
     (let uinput = path_join dev_root ''uinput'' in
      io_bind (os_access os device R_OK) (\<lambda>device_readable.
      io_bind (io_and (os_exists os uinput) (os_access os uinput W_OK)) (\<lambda>uinput_writable.
      io_bind (if \<not> device_readable then io_ret True
               else io_and (os_exists os uinput) (io_ret (\<not> uinput_writable))) (\<lambda>denied.
      io_bind (os_exists os uinput) (\<lambda>there.
      io_bind (os_exists os uinput) (\<lambda>uinput_found.
      io_ret
        \<lparr>gpr_available = device_readable \<and> uinput_writable, gpr_device_found = True, gpr_permission_denied = denied,
         gpr_device_path = device, gpr_uinput_found = uinput_found,
         gpr_error = (if \<not> there then ''/dev/uinput not found; load the uinput kernel module''
                      else if denied then ''Gesture service cannot access hidraw or uinput'' else [])\<rparr>))))))"

definition probe_gesture_environment :: "'w os \<Rightarrow> string \<Rightarrow> string \<Rightarrow> ('w, gesture_probe) io" where
  "probe_gesture_environment os sysfs_root dev_root =
     io_bind (discover_touchpad os sysfs_root dev_root TOUCHPAD_VENDOR_ID TOUCHPAD_PRODUCT_ID) (\<lambda>device.
     io_bind (device_missing os device) (\<lambda>missing.
     if missing
     then io_ret \<lparr>gpr_available = False, gpr_device_found = False, gpr_permission_denied = False, gpr_device_path = [],
            gpr_uinput_found = False, gpr_error = ''Honor touchpad hidraw device not found''\<rparr>
     else probe_uinput os dev_root (the device)))"

text \<open>\<open>str.upper\<close> is exact on the characters of the block name.\<close>

definition wmi_transport_present :: "'w os \<Rightarrow> string \<Rightarrow> ('w, bool) io" where
  "wmi_transport_present os wmi_root =
     io_try
       (io_bind (os_iterdir os wmi_root) (\<lambda>names.
        io_ret (list_ex (\<lambda>n. py_startswith (map py_upper_char n) ''ABBC0F5B-8EA1-11D1-A000-C90629100000'') names)))
       is_os_error (\<lambda>_. io_ret False)"

section \<open>The virtual keyboard\<close>

definition UI_SET_EVBIT :: int where "UI_SET_EVBIT = 0x40045564"
definition UI_SET_KEYBIT :: int where "UI_SET_KEYBIT = 0x40045565"
definition UI_DEV_SETUP :: int where "UI_DEV_SETUP = 0x405C5503"
definition UI_DEV_CREATE :: int where "UI_DEV_CREATE = 0x5501"
definition UI_DEV_DESTROY :: int where "UI_DEV_DESTROY = 0x5502"
definition EV_SYN :: int where "EV_SYN = 0x00"
definition EV_KEY :: int where "EV_KEY = 0x01"
definition SYN_REPORT :: int where "SYN_REPORT = 0x00"
definition BUS_I2C :: int where "BUS_I2C = 0x18"

text \<open>\<open>struct.Struct("=HHHH80sI")\<close> with the padded device name.\<close>

definition pack_setup :: "int \<Rightarrow> int \<Rightarrow> int \<Rightarrow> int \<Rightarrow> string \<Rightarrow> int \<Rightarrow> byte list" where
  "pack_setup bus vendor product version name effects =
     to_bytes_little 2 bus @ to_bytes_little 2 vendor @ to_bytes_little 2 product @ to_bytes_little 2 version @
     take 80 (map (\<lambda>c. of_nat (cp c)) name @ replicate 80 0) @ to_bytes_little 4 effects"

text \<open>\<open>os.O_WRONLY | os.O_CLOEXEC\<close> and \<open>os.O_RDONLY | os.O_NONBLOCK | os.O_CLOEXEC\<close>\<close>

definition UINPUT_FLAGS :: int where "UINPUT_FLAGS = 1 + 524288"
definition HID_READ_FLAGS :: int where "HID_READ_FLAGS = 0 + 2048 + 524288"

definition setup_uinput :: "'w os \<Rightarrow> int \<Rightarrow> int \<Rightarrow> int \<Rightarrow> ('w, unit) io" where
  "setup_uinput os fd vendor_id product_id =
     io_bind (os_ioctl os fd UI_SET_EVBIT (IA_int EV_KEY)) (\<lambda>_.
     io_bind (io_map (\<lambda>code. os_ioctl os fd UI_SET_KEYBIT (IA_int code)) (sorted_list_of_set (set (map snd KEY_CODES)))) (\<lambda>_.
     io_bind (os_ioctl os fd UI_DEV_SETUP
       (IA_bytes (pack_setup BUS_I2C vendor_id product_id 1 ''Honor Touchpad Gestures'' 0))) (\<lambda>_.
     os_ioctl os fd UI_DEV_CREATE (IA_int 0))))"

definition create_uinput_device :: "'w os \<Rightarrow> string \<Rightarrow> int \<Rightarrow> int \<Rightarrow> ('w, int) io" where
  "create_uinput_device os path vendor_id product_id =
     io_bind (os_open os path UINPUT_FLAGS) (\<lambda>fd.
     io_try (io_bind (setup_uinput os fd vendor_id product_id) (\<lambda>_. io_ret fd))
       (\<lambda>_. True) (\<lambda>e. io_bind (os_close os fd) (\<lambda>_. io_raise e)))"

text \<open>\<open>struct.Struct("@llHHi")\<close>: two 64-bit integers, two 16-bit and one 32-bit integer.\<close>

definition pack_event :: "int \<Rightarrow> int \<Rightarrow> int \<Rightarrow> int \<Rightarrow> byte list" where
  "pack_event now_ns event_type code v =
     to_bytes_little 8 (now_ns div 1000000000) @ to_bytes_little 8 ((now_ns mod 1000000000) div 1000) @
     to_bytes_little 2 event_type @ to_bytes_little 2 code @ to_bytes_little 4 v"

definition input_event :: "'w os \<Rightarrow> int \<times> int \<times> int \<Rightarrow> ('w, byte list) io" where
  "input_event os ev = (case ev of (event_type, code, v) \<Rightarrow>
     io_bind (io_call (os_time_ns os)) (\<lambda>now_ns. io_ret (pack_event now_ns event_type code v)))"

text \<open>One round of \<open>_write_all\<close> on the bytes that are left.\<close>

definition write_all_round :: "'w os \<Rightarrow> int \<Rightarrow> byte list \<Rightarrow> ('w, byte list + unit) io" where
  "write_all_round os fd rest =
     (if rest = [] then io_ret (Inr ())
      else io_bind (io_call (os_write os fd rest)) (\<lambda>x. case x of
        Sys_interrupted \<Rightarrow> io_ret (Inl rest)
      | Sys_blocked \<Rightarrow> io_raise (OSError ''Resource temporarily unavailable'')
      | Sys_raise e \<Rightarrow> io_raise e
      | Sys_ret written \<Rightarrow>
          if written = 0 then io_raise (OSError ''[Errno 5] uinput write returned no progress'')
          else io_ret (Inl (drop written rest))))"

definition write_all :: "'w os \<Rightarrow> int \<Rightarrow> byte list \<Rightarrow> ('w, unit) io" where
  "write_all os fd = io_iter (write_all_round os fd)"

text \<open>The events of a chord, in order.\<close>

definition chord_events :: "int list \<Rightarrow> (int \<times> int \<times> int) list" where
  "chord_events key_codes =
     map (\<lambda>c. (EV_KEY, c, 1)) key_codes @ [(EV_SYN, SYN_REPORT, 0)] @
     map (\<lambda>c. (EV_KEY, c, 0)) (rev key_codes) @ [(EV_SYN, SYN_REPORT, 0)]"

definition emit_key_combo :: "'w os \<Rightarrow> int \<Rightarrow> int list \<Rightarrow> ('w, unit) io" where
  "emit_key_combo os fd key_codes =
     io_bind (io_map (input_event os) (chord_events key_codes)) (\<lambda>payload. write_all os fd (concat payload))"

section \<open>The runtime\<close>

text \<open>\<open>_session_done\<close>: a future that is pending or has an exception. \<open>gr_reader\<close> is the descriptor registered with the event loop.\<close>

datatype session_future = Session_pending | Session_failed exn

record gesture_runtime =
  gr_status :: gesture_status
  gr_hid_fd :: "int option"
  gr_uinput_fd :: "int option"
  gr_session_done :: "session_future option"
  gr_last_report :: "byte list option"
  gr_last_report_at :: int
  gr_reader :: "int option"

text \<open>What the constructor is given: the directories and the provider of the configured mappings.\<close>

record 'w gesture_config =
  gc_mappings_provider :: "'w \<Rightarrow> gesture_mapping_state dict"
  gc_sysfs_root :: string
  gc_dev_root :: string

definition status_default :: gesture_status where
  "status_default = \<lparr>gst_running = False, gst_device_found = False, gst_permission_denied = False, gst_uinput_ready = False,
     gst_device_path = [], gst_reports_seen = 0, gst_gestures_emitted = 0, gst_last_error = []\<rparr>"

definition runtime_init :: gesture_runtime where
  "runtime_init = \<lparr>gr_status = status_default, gr_hid_fd = None, gr_uinput_fd = None, gr_session_done = None,
     gr_last_report = None, gr_last_report_at = 0, gr_reader = None\<rparr>"

text \<open>Programs over the runtime and the system.\<close>

type_synonym ('w, 'a) gio = "(gesture_runtime \<times> 'w, 'a) io"

definition on_system :: "('w, 'a) io \<Rightarrow> ('w, 'a) gio" where
  "on_system m = (\<lambda>(rt, w). case m w of (r, w') \<Rightarrow> (r, rt, w'))"

definition get_runtime :: "('w, gesture_runtime) gio" where
  "get_runtime = (\<lambda>(rt, w). (Ret rt, rt, w))"

definition change :: "(gesture_runtime \<Rightarrow> gesture_runtime) \<Rightarrow> ('w, unit) gio" where
  "change f = (\<lambda>(rt, w). (Ret (), f rt, w))"

definition change_status :: "(gesture_status \<Rightarrow> gesture_status) \<Rightarrow> ('w, unit) gio" where
  "change_status f = change (\<lambda>rt. rt\<lparr>gr_status := f (gr_status rt)\<rparr>)"

definition runtime_probe :: "'w os \<Rightarrow> 'w gesture_config \<Rightarrow> ('w, gesture_probe) gio" where
  "runtime_probe os c = on_system (probe_gesture_environment os (gc_sysfs_root c) (gc_dev_root c))"

text \<open>\<open>_mapping_for\<close>: the first of the two keys that is configured or has a default decides.\<close>

fun mapping_for :: "gesture_mapping_state dict \<Rightarrow> string list \<Rightarrow> string" where
  "mapping_for configured [] = []"
| "mapping_for configured (key # keys) =
     (case map_of configured key of
        Some state \<Rightarrow>
          if \<not> gm_enabled state then []
          else if gm_mapping state \<noteq> [] then gm_mapping state
          else (case map_of DEFAULT_GESTURE_MAPPINGS key of None \<Rightarrow> [] | Some d \<Rightarrow> d)
      | None \<Rightarrow> (case map_of DEFAULT_GESTURE_MAPPINGS key of
          Some d \<Rightarrow> if d \<noteq> [] then d else mapping_for configured keys
        | None \<Rightarrow> mapping_for configured keys))"

definition fail_session :: "exn \<Rightarrow> ('w, unit) gio" where
  "fail_session e = change (\<lambda>rt.
     if gr_session_done rt = Some Session_pending then rt\<lparr>gr_session_done := Some (Session_failed e)\<rparr> else rt)"

definition ignoring :: "(exn \<Rightarrow> bool) \<Rightarrow> ('w, unit) io \<Rightarrow> ('w, unit) io" where
  "ignoring c m = io_try m c (\<lambda>_. io_ret ())"

definition close_fd :: "'w os \<Rightarrow> int option \<Rightarrow> ('w, unit) gio" where
  "close_fd os h = (case h of None \<Rightarrow> io_ret () | Some fd \<Rightarrow> on_system (ignoring is_os_error (os_close os fd)))"

definition destroy_uinput :: "'w os \<Rightarrow> int option \<Rightarrow> ('w, unit) gio" where
  "destroy_uinput os u =
     (case u of None \<Rightarrow> io_ret ()
      | Some fd \<Rightarrow> io_bind (on_system (ignoring is_os_error (os_ioctl os fd UI_DEV_DESTROY (IA_int 0)))) (\<lambda>_.
                  on_system (ignoring is_os_error (os_close os fd))))"

definition close_session :: "'w os \<Rightarrow> ('w, unit) gio" where
  "close_session os =
     io_bind get_runtime (\<lambda>rt.
     io_bind (if gr_hid_fd rt \<noteq> None then change (\<lambda>rt. rt\<lparr>gr_reader := None\<rparr>) else io_ret ()) (\<lambda>_.
     io_bind (destroy_uinput os (gr_uinput_fd rt)) (\<lambda>_.
     io_bind (close_fd os (gr_hid_fd rt)) (\<lambda>_.
     io_bind (change (\<lambda>rt. rt\<lparr>gr_hid_fd := None, gr_uinput_fd := None, gr_session_done := None, gr_last_report := None,
       gr_last_report_at := 0\<rparr>)) (\<lambda>_.
     change_status (\<lambda>s. s\<lparr>gst_running := False, gst_uinput_ready := False\<rparr>))))))"

text \<open>\<open>_run_session\<close> up to the point where it waits for \<open>_session_done\<close>.\<close>

definition open_session :: "'w os \<Rightarrow> 'w gesture_config \<Rightarrow> string \<Rightarrow> ('w, unit) gio" where
  "open_session os c device =
     io_bind (on_system (os_open os device HID_READ_FLAGS)) (\<lambda>fd.
     io_bind (change (\<lambda>rt. rt\<lparr>gr_hid_fd := Some fd\<rparr>)) (\<lambda>_.
     io_bind (on_system (create_uinput_device os (path_join (gc_dev_root c) ''uinput'') TOUCHPAD_VENDOR_ID TOUCHPAD_PRODUCT_ID)) (\<lambda>ufd.
     change (\<lambda>rt. rt\<lparr>gr_uinput_fd := Some ufd\<rparr>))))"

definition enter_session :: "'w os \<Rightarrow> 'w gesture_config \<Rightarrow> string \<Rightarrow> ('w, unit) gio" where
  "enter_session os c device =
     io_bind (io_try (open_session os c device) (\<lambda>_. True) (\<lambda>e. io_bind (close_session os) (\<lambda>_. io_raise e))) (\<lambda>_.
     io_bind (change (\<lambda>rt. rt\<lparr>gr_session_done := Some Session_pending, gr_reader := gr_hid_fd rt\<rparr>)) (\<lambda>_.
     change_status (\<lambda>s. s\<lparr>gst_running := True, gst_permission_denied := False, gst_uinput_ready := True, gst_last_error := []\<rparr>)))"

definition start_session :: "'w os \<Rightarrow> 'w gesture_config \<Rightarrow> ('w, unit) gio" where
  "start_session os c =
     io_bind (on_system (discover_touchpad os (gc_sysfs_root c) (gc_dev_root c) TOUCHPAD_VENDOR_ID TOUCHPAD_PRODUCT_ID)) (\<lambda>device.
     io_bind (on_system (device_missing os device)) (\<lambda>missing.
     if missing
     then io_bind (change_status (\<lambda>s. s\<lparr>gst_running := False, gst_device_found := False, gst_device_path := []\<rparr>)) (\<lambda>_.
          io_raise (OSError ''Honor touchpad hidraw device not found''))
     else
       io_bind (change_status (\<lambda>s. s\<lparr>gst_device_found := True, gst_device_path := the device, gst_permission_denied := False\<rparr>)) (\<lambda>_.
       enter_session os c (the device))))"

text \<open>The handlers of \<open>run\<close> for an exception that ends a session.\<close>

definition session_error :: "exn \<Rightarrow> gesture_status \<Rightarrow> gesture_status" where
  "session_error e s = (case e of
     PermissionError m \<Rightarrow> s\<lparr>gst_running := False, gst_permission_denied := True, gst_last_error := m\<rparr>
   | _ \<Rightarrow> s\<lparr>gst_running := False, gst_last_error := exn_str e\<rparr>)"

section \<open>Reading reports\<close>

text \<open>Emitting the chord of a mapping; an exception fails the session.\<close>

definition dispatch_chord :: "'w os \<Rightarrow> string \<Rightarrow> ('w, unit option) gio" where
  "dispatch_chord os combo =
     io_try
       (io_bind (io_of (validate_key_combo (PStr combo))) (\<lambda>tokens.
        io_bind get_runtime (\<lambda>rt.
        case gr_uinput_fd rt of
          None \<Rightarrow> io_raise (OSError ''[Errno 19] uinput device is closed'')
        | Some fd \<Rightarrow>
            io_bind (io_of (key_codes_for_tokens tokens)) (\<lambda>codes.
            io_bind (on_system (emit_key_combo os fd codes)) (\<lambda>_.
            io_bind (change_status (\<lambda>s. s\<lparr>gst_gestures_emitted := gst_gestures_emitted s + 1, gst_last_error := []\<rparr>)) (\<lambda>_.
            io_ret None))))))
       is_exception (\<lambda>e. io_bind (fail_session e) (\<lambda>_. io_ret (Some ())))"

text \<open>What a round of \<open>_read_ready\<close> does with a report of nine bytes.\<close>

definition handle_report :: "'w os \<Rightarrow> 'w gesture_config \<Rightarrow> byte list \<Rightarrow> ('w, unit option) gio" where
  "handle_report os c report =
     io_bind (on_system (io_call (os_monotonic os))) (\<lambda>now.
     io_bind get_runtime (\<lambda>rt.
     if gr_last_report rt = Some report \<and> now - gr_last_report_at rt < 250000 then io_ret None
     else
       io_bind (change (\<lambda>rt. rt\<lparr>gr_last_report := Some report, gr_last_report_at := now\<rparr>)) (\<lambda>_.
       case gesture_keys_from_report report of
         None \<Rightarrow> io_ret None
       | Some (k1, k2) \<Rightarrow>
           io_bind (change_status (\<lambda>s. s\<lparr>gst_reports_seen := gst_reports_seen s + 1\<rparr>)) (\<lambda>_.
           io_bind (on_system (io_call (\<lambda>w. (gc_mappings_provider c w, w)))) (\<lambda>configured.
           let combo = mapping_for configured [k1, k2] in
           if combo = [] then io_ret None else dispatch_chord os combo)))))"

definition read_round :: "'w os \<Rightarrow> 'w gesture_config \<Rightarrow> int \<Rightarrow> ('w, unit option) gio" where
  "read_round os c fd =
     io_bind (on_system (io_call (os_read os fd 64))) (\<lambda>x. case x of
       Sys_blocked \<Rightarrow> io_ret (Some ())
     | Sys_interrupted \<Rightarrow> io_ret None
     | Sys_raise e \<Rightarrow> if is_os_error e then io_bind (fail_session e) (\<lambda>_. io_ret (Some ())) else io_raise e
     | Sys_ret report \<Rightarrow>
         if report = []
         then io_bind (fail_session (OSError ''[Errno 19] touchpad disconnected'')) (\<lambda>_. io_ret (Some ()))
         else if length report \<noteq> 9 then io_ret None
         else handle_report os c report)"

definition read_ready :: "'w os \<Rightarrow> 'w gesture_config \<Rightarrow> ('w, unit) gio" where
  "read_ready os c =
     io_bind get_runtime (\<lambda>rt. case gr_hid_fd rt of None \<Rightarrow> io_ret () | Some fd \<Rightarrow> io_repeat (read_round os c fd))"

section \<open>The loop of sessions\<close>

text \<open>
  \<open>run\<close> is between sessions (or asleep before the next), waits for the end of one, or has been cancelled. A round that starts
  a session, the reader callback, the end of a failed session, and cancellation are its steps.
\<close>

datatype run_phase = Between | In_session | Cancelled

text \<open>Cancellation runs the \<open>finally\<close> of \<open>_run_session\<close>, if it is waiting there, and that of \<open>run\<close>.\<close>

definition cancel_run :: "'w os \<Rightarrow> run_phase \<Rightarrow> ('w, unit) gio" where
  "cancel_run os p =
     (if p = In_session then io_bind (close_session os) (\<lambda>_. close_session os) else close_session os)"

inductive run_step :: "'w os \<Rightarrow> 'w gesture_config \<Rightarrow> run_phase \<times> gesture_runtime \<times> 'w \<Rightarrow> run_phase \<times> gesture_runtime \<times> 'w \<Rightarrow> bool"
  for os :: "'w os" and c :: "'w gesture_config"
where
  started: "start_session os c (rt, w) = (Ret (), rt', w') \<Longrightarrow> run_step os c (Between, rt, w) (In_session, rt', w')"
| not_started: "start_session os c (rt, w) = (Raise e, rt', w') \<Longrightarrow> is_exception e \<Longrightarrow>
    run_step os c (Between, rt, w) (Between, rt'\<lparr>gr_status := session_error e (gr_status rt')\<rparr>, w')"
| ready: "gr_reader rt \<noteq> None \<Longrightarrow> read_ready os c (rt, w) = (r, rt', w') \<Longrightarrow> r \<noteq> Hang \<Longrightarrow>
    run_step os c (In_session, rt, w) (In_session, rt', w')"
| ended: "gr_session_done rt = Some (Session_failed e) \<Longrightarrow> is_exception e \<Longrightarrow> close_session os (rt, w) = (Ret (), rt', w') \<Longrightarrow>
    run_step os c (In_session, rt, w) (Between, rt'\<lparr>gr_status := session_error e (gr_status rt')\<rparr>, w')"
| cancelled: "cancel_run os p (rt, w) = (Ret (), rt', w') \<Longrightarrow> p \<noteq> Cancelled \<Longrightarrow>
    run_step os c (p, rt, w)
      (Cancelled, rt'\<lparr>gr_status := (gr_status rt')\<lparr>gst_running := False, gst_uinput_ready := False\<rparr>\<rparr>, w')"

section \<open>What the sessions hold\<close>

text \<open>The descriptors of the runtime, and the shape of its fields in a session and outside.\<close>

definition held :: "gesture_runtime \<Rightarrow> int multiset" where
  "held rt = (case gr_hid_fd rt of None \<Rightarrow> {#} | Some fd \<Rightarrow> {#fd#}) + (case gr_uinput_fd rt of None \<Rightarrow> {#} | Some fd \<Rightarrow> {#fd#})"

definition session_ok :: "run_phase \<Rightarrow> gesture_runtime \<Rightarrow> bool" where
  "session_ok p rt =
     (let open_now = (p = In_session) in
      (gr_hid_fd rt \<noteq> None) = open_now \<and> (gr_uinput_fd rt \<noteq> None) = open_now \<and> (gr_session_done rt \<noteq> None) = open_now \<and>
      gr_reader rt = gr_hid_fd rt \<and> gst_running (gr_status rt) = open_now \<and> gst_uinput_ready (gr_status rt) = open_now)"

lemma bind_runtime [simp]:
  "io_bind get_runtime f (rt, w) = f rt (rt, w)" "io_bind (change g) k (rt, w) = k () (g rt, w)"
  "io_bind (change_status h) k (rt, w) = k () (rt\<lparr>gr_status := h (gr_status rt)\<rparr>, w)"
  by (simp_all add: io_bind_def get_runtime_def change_def change_status_def)

lemma change_eq [simp]:
  "change g (rt, w) = (Ret (), g rt, w)" "change_status h (rt, w) = (Ret (), rt\<lparr>gr_status := h (gr_status rt)\<rparr>, w)"
  by (simp_all add: change_def change_status_def)

lemma bind_system: "io_bind (on_system m) f (rt, w) = (case m w of
    (Ret x, w') \<Rightarrow> f x (rt, w') | (Raise e, w') \<Rightarrow> (Raise e, rt, w') | (Hang, w') \<Rightarrow> (Hang, rt, w'))"
  by (simp add: io_bind_def on_system_def split: prod.splits reply.splits)

lemma on_system_eq: "on_system m (rt, w) = (r, rt', w') \<longleftrightarrow> m w = (r, w') \<and> rt' = rt"
  by (auto simp: on_system_def split: prod.splits)

definition closed :: "gesture_runtime \<Rightarrow> gesture_runtime" where
  "closed rt = rt\<lparr>gr_reader := (if gr_hid_fd rt \<noteq> None then None else gr_reader rt), gr_hid_fd := None, gr_uinput_fd := None,
     gr_session_done := None, gr_last_report := None, gr_last_report_at := 0,
     gr_status := (gr_status rt)\<lparr>gst_running := False, gst_uinput_ready := False\<rparr>\<rparr>"

text \<open>
  The table of open descriptors: \<open>os.open\<close> adds one when it returns, \<open>os.close\<close> removes it, even when it reports an error, and
  nothing else changes the table.
\<close>

locale fd_table =
  fixes os :: "'w os"
    and opened :: "'w \<Rightarrow> int multiset"
  assumes opens: "os_open os p m w = (r, w') \<Longrightarrow> opened w' = (case r of Ret fd \<Rightarrow> add_mset fd (opened w) | _ \<Rightarrow> opened w)"
    and closes: "os_close os fd w = (x, w') \<Longrightarrow> x \<noteq> Hang \<Longrightarrow> opened w' = opened w - {#fd#}"
    and close_errors: "raises_only is_os_error (os_close os fd)" "raises_only is_os_error (os_ioctl os fd n a)"
    and quiet: "reads_only opened (os_exists os p)" "reads_only opened (os_is_dir os p)" "reads_only opened (os_access os p m)"
    "reads_only opened (os_glob os p g)" "reads_only opened (os_read_text os p)" "reads_only opened (os_read_bytes os p)"
    "reads_only opened (os_ioctl os fd n a)" "reads_only opened (os_monotonic os)" "reads_only opened (os_time_ns os)"
    "reads_only opened (os_write os fd bs)" "reads_only opened (os_read os fd k)"
begin

lemma discover_quiet: "reads_only opened (discover_touchpad os sr dr v p)"
proof -
  have "reads_only opened (discover_loop os sr dr ns)" for ns
    using quiet
    by (induction ns) (auto intro!: frames simp: Let_def hid_identity_def entry_caps_def split: sum.splits)
  then show ?thesis using quiet by (auto intro!: frames simp: discover_touchpad_def discover_touchpad_input_def)
qed

lemma missing_quiet: "reads_only opened (device_missing os d)"
  using quiet by (auto intro!: frames simp: device_missing_def split: option.splits)

lemma setup_quiet: "reads_only opened (setup_uinput os fd v p)"
  using quiet unfolding setup_uinput_def by (auto intro!: frames)

lemma create_uinput_opens:
  assumes "create_uinput_device os path v p w = (r, w')" "r \<noteq> Hang"
  shows "opened w' = (case r of Ret fd \<Rightarrow> add_mset fd (opened w) | _ \<Rightarrow> opened w)"
proof -
  obtain x w1 where x: "os_open os path UINPUT_FLAGS w = (x, w1)" by fastforce
  note x' = opens [OF x]
  show ?thesis
  proof (cases x)
    case (Ret fd)
    obtain y w2 where y: "setup_uinput os fd v p w1 = (y, w2)" by fastforce
    have w2: "opened w2 = add_mset fd (opened w)" using reads_onlyD [OF setup_quiet y] x' Ret by simp
    show ?thesis
    proof (cases y)
      case (Ret u)
      then show ?thesis
        using assms x y w2 \<open>x = Ret fd\<close> by (auto simp: create_uinput_device_def io_bind_def io_try_def io_ret_def)
    next
      case (Raise e)
      obtain z w3 where z: "os_close os fd w2 = (z, w3)" by fastforce
      then show ?thesis
        using assms x y w2 \<open>x = Ret fd\<close> Raise closes [OF z]
        by (cases z) (auto simp: create_uinput_device_def io_bind_def io_try_def io_ret_def io_raise_def)
    next
      case Hang
      then show ?thesis using assms x y \<open>x = Ret fd\<close> by (auto simp: create_uinput_device_def io_bind_def io_try_def)
    qed
  qed (use assms x x' in \<open>auto simp: create_uinput_device_def io_bind_def\<close>)
qed

lemma ignoring_close:
  assumes "ignoring is_os_error (os_close os fd) w = (r, w')" "r \<noteq> Hang"
  shows "r = Ret () \<and> opened w' = opened w - {#fd#}"
proof -
  obtain x w1 where x: "os_close os fd w = (x, w1)" by fastforce
  from assms x closes [OF x] raises_onlyD [OF close_errors(1), of _ w] show ?thesis
    by (cases x) (auto simp: ignoring_def io_try_def io_ret_def)
qed

lemma ignoring_ioctl:
  assumes "ignoring is_os_error (os_ioctl os fd n a) w = (r, w')" "r \<noteq> Hang"
  shows "r = Ret () \<and> opened w' = opened w"
proof -
  obtain x w1 where x: "os_ioctl os fd n a w = (x, w1)" by fastforce
  from assms x reads_onlyD [OF quiet(7) x] raises_onlyD [OF close_errors(2), of _ _ _ w] show ?thesis
    by (cases x) (auto simp: ignoring_def io_try_def io_ret_def)
qed

lemma close_uinput:
  assumes "destroy_uinput os u (rt, w) = (r, rt', w')" "r \<noteq> Hang"
  shows "r = Ret () \<and> rt' = rt \<and> opened w' = opened w - (case u of None \<Rightarrow> {#} | Some fd \<Rightarrow> {#fd#})"
proof (cases u)
  case (Some fd)
  obtain x w1 where x: "ignoring is_os_error (os_ioctl os fd UI_DEV_DESTROY (IA_int 0)) w = (x, w1)" by fastforce
  have run: "io_bind (on_system (ignoring is_os_error (os_ioctl os fd UI_DEV_DESTROY (IA_int 0)))) (\<lambda>_.
      on_system (ignoring is_os_error (os_close os fd))) (rt, w) = (r, rt', w')"
    using assms(1) Some by (simp add: destroy_uinput_def)
  then have "x \<noteq> Hang" using assms(2) by (auto simp: bind_system x)
  then have x': "x = Ret ()" "opened w1 = opened w" using ignoring_ioctl [OF x] by simp_all
  with run have "on_system (ignoring is_os_error (os_close os fd)) (rt, w1) = (r, rt', w')" by (simp add: bind_system x)
  then have "ignoring is_os_error (os_close os fd) w1 = (r, w')" "rt' = rt" by (simp_all add: on_system_eq)
  with ignoring_close [OF this(1) assms(2)] x' Some show ?thesis by simp
qed (use assms in \<open>simp add: destroy_uinput_def\<close>)

lemma close_hid:
  assumes "close_fd os h (rt, w) = (r, rt', w')" "r \<noteq> Hang"
  shows "r = Ret () \<and> rt' = rt \<and> opened w' = opened w - (case h of None \<Rightarrow> {#} | Some fd \<Rightarrow> {#fd#})"
  using assms ignoring_close by (cases h) (auto simp: close_fd_def on_system_eq)

lemma close_session_closes:
  assumes "close_session os (rt, w) = (r, rt', w')" "r \<noteq> Hang" and held: "opened w = base + held rt"
  shows "r = Ret () \<and> rt' = closed rt \<and> opened w' = base"
proof -
  let ?rt = "if gr_hid_fd rt \<noteq> None then rt\<lparr>gr_reader := None\<rparr> else rt"
  obtain x rt1 w1 where x: "destroy_uinput os (gr_uinput_fd rt) (?rt, w) = (x, rt1, w1)" by (cases "destroy_uinput os (gr_uinput_fd rt) (?rt, w)") auto
  obtain y rt2 w2 where y: "close_fd os (gr_hid_fd rt) (?rt, w1) = (y, rt2, w2)" by (cases "close_fd os (gr_hid_fd rt) (?rt, w1)") auto
  define reset :: "('w, unit) gio" where "reset = io_bind (change (\<lambda>rt. rt\<lparr>gr_hid_fd := None, gr_uinput_fd := None, gr_session_done := None,
      gr_last_report := None, gr_last_report_at := 0\<rparr>)) (\<lambda>_.
      change_status (\<lambda>s. s\<lparr>gst_running := False, gst_uinput_ready := False\<rparr>))"
  have start: "io_bind (destroy_uinput os (gr_uinput_fd rt)) (\<lambda>_. io_bind (close_fd os (gr_hid_fd rt)) (\<lambda>_. reset)) (?rt, w) = (r, rt', w')"
    using assms(1) by (cases "gr_hid_fd rt") (simp_all add: close_session_def reset_def)
  have nx: "x \<noteq> Hang" using assms(2) start x by (auto simp: io_bind_def)
  note x' = close_uinput [OF x nx]
  have step: "io_bind (close_fd os (gr_hid_fd rt)) (\<lambda>_. reset) (?rt, w1) = (r, rt', w')"
    using start x x' by (simp add: io_bind_def)
  have ny: "y \<noteq> Hang" using assms(2) step y by (auto simp: io_bind_def)
  note y' = close_hid [OF y ny]
  have "reset (?rt, w2) = (r, rt', w')" using step y y' by (simp add: io_bind_def)
  then have "r = Ret () \<and> rt' = closed rt \<and> w' = w2"
    by (cases "gr_hid_fd rt") (auto simp: reset_def closed_def)
  moreover have "opened w2 = base"
    using x' y' held by (cases "gr_hid_fd rt"; cases "gr_uinput_fd rt") (simp_all add: held_def)
  ultimately show ?thesis by simp
qed

text \<open>Reading and dispatching leave the session's shape and the table alone.\<close>

definition shape :: "gesture_runtime \<times> 'w \<Rightarrow> int option \<times> int option \<times> bool \<times> int option \<times> bool \<times> bool \<times> int multiset" where
  "shape = (\<lambda>(rt, w). (gr_hid_fd rt, gr_uinput_fd rt, gr_session_done rt \<noteq> None, gr_reader rt, gst_running (gr_status rt),
     gst_uinput_ready (gr_status rt), opened w))"

lemma system_shape: "reads_only opened m \<Longrightarrow> reads_only shape (on_system m)"
  by (auto simp: reads_only_def on_system_def shape_def split: prod.splits) (metis snd_conv)

lemma change_shape [frames]:
  "(\<And>rt w. shape (g rt, w) = shape (rt, w)) \<Longrightarrow> reads_only shape (change g)" "reads_only shape get_runtime"
  by (auto simp: reads_only_def change_def get_runtime_def)

lemma write_all_quiet: "reads_only opened (write_all os fd bs)"
proof -
  have "reads_only opened (write_all_round os fd rest)" for rest
    using quiet by (auto intro!: frames simp: write_all_round_def split: sysret.splits)
  then show ?thesis unfolding write_all_def by (rule reads_only_iter)
qed

lemma emit_quiet: "reads_only opened (emit_key_combo os fd codes)"
proof -
  have "reads_only opened (input_event os e)" for e
    using quiet by (cases e) (auto intro!: frames simp: input_event_def)
  then show ?thesis unfolding emit_key_combo_def using write_all_quiet by (auto intro!: frames)
qed

lemma status_shape:
  "(\<And>s. gst_running (h s) = gst_running s \<and> gst_uinput_ready (h s) = gst_uinput_ready s) \<Longrightarrow> reads_only shape (change_status h)"
  unfolding change_status_def by (rule change_shape) (simp add: shape_def)

lemma last_report_shape: "reads_only shape (change (\<lambda>rt. rt\<lparr>gr_last_report := r, gr_last_report_at := n\<rparr>))"
  by (rule change_shape) (simp add: shape_def)

lemma reads_only_provider: "reads_only opened (\<lambda>w. (f w, w))"
  by (simp add: reads_only_def)

lemma fail_shape: "reads_only shape (fail_session e)"
  unfolding fail_session_def by (rule change_shape) (simp add: shape_def)

lemma dispatch_shape: "reads_only shape (dispatch_chord os combo)"
  unfolding dispatch_chord_def
  by (auto intro!: frames status_shape fail_shape system_shape emit_quiet split: option.splits)

lemma handle_report_shape: "reads_only shape (handle_report os c report)"
  unfolding handle_report_def
  by (auto intro!: frames(1-11) change_shape(2) last_report_shape status_shape system_shape reads_only_call reads_only_provider
      dispatch_shape quiet simp: Let_def simp del: mapping_for.simps split: option.splits)

lemma read_ready_shape: "reads_only shape (read_ready os c)"
proof -
  have "reads_only shape (read_round os c fd)" for fd
    unfolding read_round_def
    by (auto intro!: frames system_shape fail_shape handle_report_shape quiet split: sysret.splits)
  then show ?thesis unfolding read_ready_def by (auto intro!: frames split: option.splits)
qed

lemma open_session_holds:
  assumes "open_session os c d (rt, w) = (r, rt', w')" "r \<noteq> Hang" "gr_hid_fd rt = None" "gr_uinput_fd rt = None"
  shows "opened w' = opened w + held rt' \<and> rt' = rt\<lparr>gr_hid_fd := gr_hid_fd rt', gr_uinput_fd := gr_uinput_fd rt'\<rparr> \<and>
    (r = Ret () \<longrightarrow> gr_hid_fd rt' \<noteq> None \<and> gr_uinput_fd rt' \<noteq> None)"
proof -
  obtain x w1 where x: "os_open os d HID_READ_FLAGS w = (x, w1)" by fastforce
  note x' = opens [OF x]
  show ?thesis
  proof (cases x)
    case (Ret fd)
    obtain y w2 where y: "create_uinput_device os (path_join (gc_dev_root c) ''uinput'') TOUCHPAD_VENDOR_ID TOUCHPAD_PRODUCT_ID w1 = (y, w2)"
      by fastforce
    have "y \<noteq> Hang" using assms(1,2) x y Ret by (auto simp: open_session_def bind_system)
    then have y': "opened w2 = (case y of Ret ufd \<Rightarrow> add_mset ufd (opened w1) | _ \<Rightarrow> opened w1)" by (rule create_uinput_opens [OF y])
    show ?thesis
      using assms x x' y y' Ret by (cases y) (auto simp: open_session_def bind_system held_def)
  qed (use assms x x' in \<open>auto simp: open_session_def bind_system held_def\<close>)
qed

lemma start_session_holds:
  assumes run: "start_session os c (rt, w) = (r, rt', w')" "r \<noteq> Hang" and ok: "session_ok Between rt"
  shows "opened w' = opened w + held rt' \<and> session_ok (if r = Ret () then In_session else Between) rt'"
proof -
  have none: "gr_hid_fd rt = None" "gr_uinput_fd rt = None" "held rt = {#}" using ok by (simp_all add: session_ok_def held_def)
  obtain x w1 where x: "discover_touchpad os (gc_sysfs_root c) (gc_dev_root c) TOUCHPAD_VENDOR_ID TOUCHPAD_PRODUCT_ID w = (x, w1)" by fastforce
  note x' = reads_onlyD [OF discover_quiet x]
  show ?thesis
  proof (cases x)
    case Hang
    then show ?thesis using run x by (auto simp: start_session_def bind_system)
  next
    case (Raise e)
    then have "rt' = rt" "w' = w1" "r = Raise e" using run x by (auto simp: start_session_def bind_system)
    then show ?thesis using x' ok none by simp
  next
    case (Ret device)
    obtain y w2 where y: "device_missing os device w1 = (y, w2)" by fastforce
    note y' = reads_onlyD [OF missing_quiet y]
    show ?thesis
    proof (cases "y = Ret False")
      case False
      have "opened w' = opened w \<and> gr_status rt' \<in> {gr_status rt, (gr_status rt)\<lparr>gst_running := False, gst_device_found := False, gst_device_path := []\<rparr>} \<and>
          rt' = rt\<lparr>gr_status := gr_status rt'\<rparr> \<and> r \<noteq> Ret ()"
        using run x y x' y' Ret False by (cases y) (auto simp: start_session_def bind_system)
      then show ?thesis using ok none by (auto simp: session_ok_def held_def Let_def)
    next
      case True
      let ?rt = "rt\<lparr>gr_status := (gr_status rt)\<lparr>gst_device_found := True, gst_device_path := the device, gst_permission_denied := False\<rparr>\<rparr>"
      obtain z rt3 w3 where z: "open_session os c (the device) (?rt, w2) = (z, rt3, w3)"
        by (cases "open_session os c (the device) (?rt, w2)") auto
      have tail: "enter_session os c (the device) (?rt, w2) = (r, rt', w')"
        using run(1) x y Ret True by (simp add: start_session_def bind_system)
      have nz: "z \<noteq> Hang" using tail run(2) z by (auto simp: enter_session_def io_bind_def io_try_def)
      have z': "opened w3 = opened w2 + held rt3" "rt3 = ?rt\<lparr>gr_hid_fd := gr_hid_fd rt3, gr_uinput_fd := gr_uinput_fd rt3\<rparr>"
        "z = Ret () \<longrightarrow> gr_hid_fd rt3 \<noteq> None \<and> gr_uinput_fd rt3 \<noteq> None"
        using open_session_holds [OF z nz] none by simp_all
      show ?thesis
      proof (cases z)
        case (Ret u)
        then have "r = Ret ()" "w' = w3" "rt' = rt3\<lparr>gr_session_done := Some Session_pending, gr_reader := gr_hid_fd rt3,
            gr_status := (gr_status rt3)\<lparr>gst_running := True, gst_permission_denied := False, gst_uinput_ready := True, gst_last_error := []\<rparr>\<rparr>"
          using tail z by (auto simp: enter_session_def io_bind_Ret [of "io_try _ _ _" _ "()" "(rt3, w3)"] io_try_def)
        then show ?thesis using z' x' y' Ret by (auto simp: session_ok_def held_def Let_def)
      next
        case (Raise e)
        obtain v rt4 w4 where v: "close_session os (rt3, w3) = (v, rt4, w4)" by (cases "close_session os (rt3, w3)") auto
        have nv: "v \<noteq> Hang"
          using tail run(2) z Raise v by (auto simp: enter_session_def io_bind_def io_try_def)
        have v': "v = Ret ()" "rt4 = closed rt3" "opened w4 = opened w2"
          using close_session_closes [OF v nv z'(1)] by simp_all
        have "r = Raise e" "w' = w4" "rt' = rt4"
          using tail z Raise v v' by (auto simp: enter_session_def io_bind_def io_try_def io_raise_def)
        moreover have "gr_reader rt3 = None" using arg_cong [OF z'(2), of gr_reader] ok by (simp add: session_ok_def)
        ultimately show ?thesis using v' x' y' by (simp add: session_ok_def closed_def held_def)
      qed (use nz in simp)
    qed
  qed
qed

lemma session_error_flags:
  "gst_running (session_error e s) = False" "gst_uinput_ready (session_error e s) = gst_uinput_ready s"
  by (cases e; simp add: session_error_def)+

lemma step_keeps:
  assumes "run_step os c (p, rt, w) (p', rt', w')" "session_ok p rt" "opened w = base + held rt"
  shows "session_ok p' rt' \<and> opened w' = base + held rt'"
  using assms(1)
proof cases
  case started
  from start_session_holds [OF this(3)] assms(2,3) this show ?thesis by (simp add: session_ok_def held_def)
next
  case (not_started e rt1)
  from start_session_holds [OF not_started(4)] assms(2,3) not_started show ?thesis
    by (auto simp: session_ok_def held_def session_error_flags Let_def)
next
  case (ready r)
  from reads_onlyD [OF read_ready_shape ready(4)] assms(2,3) ready show ?thesis
    by (auto simp: shape_def session_ok_def held_def Let_def)
next
  case (ended e rt1)
  from close_session_closes [OF ended(6) _ assms(3)] assms(2) ended show ?thesis
    by (simp add: session_ok_def held_def closed_def session_error_flags)
next
  case (cancelled rt1)
  show ?thesis
  proof (cases "p = In_session")
    case False
    then have "close_session os (rt, w) = (Ret (), rt1, w')" using cancelled by (simp add: cancel_run_def)
    from close_session_closes [OF this _ assms(3)] assms(2) cancelled False show ?thesis
      by (simp add: session_ok_def held_def closed_def)
  next
    case True
    then obtain rt2 w2 where two: "close_session os (rt, w) = (Ret (), rt2, w2)" "close_session os (rt2, w2) = (Ret (), rt1, w')"
      using cancelled by (auto simp: cancel_run_def io_bind_eq_Ret)
    from close_session_closes [OF two(1) _ assms(3)] have c1: "rt2 = closed rt" "opened w2 = base + held rt2"
      by (simp_all add: held_def closed_def)
    from close_session_closes [OF two(2) _ c1(2)] c1 assms(2) cancelled True show ?thesis
      by (auto simp: session_ok_def held_def closed_def)
  qed
qed

lemma reachable_keeps:
  assumes "(run_step os c)\<^sup>*\<^sup>* (Between, runtime_init, w) (p, rt, w')"
  shows "session_ok p rt \<and> opened w' = opened w + held rt"
  using assms
proof (induction "(p, rt, w')" arbitrary: p rt w' rule: rtranclp_induct)
  case base
  then show ?case by (simp add: runtime_init_def session_ok_def held_def status_default_def)
next
  case (step y)
  obtain p1 rt1 w1 where y: "y = (p1, rt1, w1)" by (cases y)
  with step show ?case using step_keeps [of c p1 rt1 w1 p rt w' "opened w"] by simp
qed

end

interpretation sim_fd: fd_table sim_os "\<lambda>w. mset (sim_fds w)"
  by unfold_locales
     (auto simp: sim_os_def sim_write_def sim_read_def sim_signal_def sim_tick_def reads_only_def raises_only_def no_file_def
        split: if_splits list.splits)

section \<open>What a chord sends\<close>

text \<open>The virtual keyboard receives the bytes that a write reports.\<close>

locale uinput_device =
  fixes os :: "'w os"
    and received :: "'w \<Rightarrow> byte list"
  assumes receives: "os_write os fd bs w = (x, w') \<Longrightarrow>
      received w' = received w @ (case x of Sys_ret n \<Rightarrow> take n bs | _ \<Rightarrow> [])"
    and clock_quiet: "reads_only received (os_time_ns os)"
begin

lemma write_all_sends:
  assumes "write_all os fd payload w = (Ret (), w')"
  shows "received w' = received w @ payload"
proof -
  let ?I = "\<lambda>rest v. received v @ rest = received w @ payload"
  have keep: "?I s' v'" if "?I s v" "write_all_round os fd s v = (Ret (Inl s'), v')" for s v s' v'
  proof -
    obtain x u where x: "os_write os fd s v = (x, u)" by fastforce
    show ?thesis
    proof (cases x)
      case (Sys_ret n)
      then have "s' = drop n s" "v' = u" using that(2) x by (auto simp: write_all_round_def split: if_splits)
      moreover have "received u = received v @ take n s" using receives [OF x] Sys_ret by simp
      ultimately show ?thesis using that(1) by simp
    qed (use that x receives [OF x] in \<open>auto simp: write_all_round_def split: if_splits\<close>)
  qed
  obtain s' v where "?I s' v" and last: "write_all_round os fd s' v = (Ret (Inr ()), w')"
  proof (rule io_iter_inv [OF assms [unfolded write_all_def], where I = ?I])
    show "?I payload w" by (rule refl)
  qed (rule keep, assumption+)
  moreover have "s' = [] \<and> w' = v"
  proof (cases "s' = []")
    case True
    then show ?thesis using last by (simp add: write_all_round_def)
  next
    case False
    obtain x u where "os_write os fd s' v = (x, u)" by fastforce
    then show ?thesis using last False by (cases x) (auto simp: write_all_round_def split: if_splits)
  qed
  ultimately show ?thesis by simp
qed

lemma input_events_packed:
  assumes "io_map (input_event os) evs w = (Ret ps, w')"
  shows "received w' = received w \<and> list_all2 (\<lambda>(t, k, v) p. \<exists>now. p = pack_event now t k v) evs ps"
  using assms
proof (induction evs arbitrary: ps w)
  case (Cons e evs)
  obtain t k v where e: "e = (t, k, v)" by (cases e)
  obtain now w1 where now: "os_time_ns os w = (now, w1)" by fastforce
  then have one: "input_event os e w = (Ret (pack_event now t k v), w1)" by (simp add: input_event_def e io_ret_def)
  then obtain ps' where ps: "ps = pack_event now t k v # ps'" "io_map (input_event os) evs w1 = (Ret ps', w')"
    using Cons.prems by (auto simp: io_bind_def split: prod.splits reply.splits)
  from Cons.IH [OF ps(2)] reads_onlyD [OF clock_quiet now] ps(1) e show ?case by auto
qed simp

lemma emit_sends:
  assumes "emit_key_combo os fd codes w = (Ret (), w')"
  shows "\<exists>ps. received w' = received w @ concat ps \<and>
    list_all2 (\<lambda>(t, k, v) p. \<exists>now. p = pack_event now t k v) (chord_events codes) ps"
proof -
  obtain ps w1 where ps: "io_map (input_event os) (chord_events codes) w = (Ret ps, w1)"
    and send: "write_all os fd (concat ps) w1 = (Ret (), w')"
    using assms by (auto simp: emit_key_combo_def io_bind_eq_Ret)
  from input_events_packed [OF ps] write_all_sends [OF send] show ?thesis by auto
qed

end

interpretation sim_keyboard: uinput_device sim_os "\<lambda>w. concat (sim_accepted w)"
  by unfold_locales (auto simp: sim_os_def sim_write_def sim_signal_def sim_tick_def reads_only_def split: if_splits)

text \<open>What the kernel makes of 24 bytes: the type, the code and the value of an event; and the keys that are down.\<close>

definition event_fields :: "byte list \<Rightarrow> int \<times> int \<times> int" where
  "event_fields p = (from_bytes_little (take 2 (drop 16 p)), from_bytes_little (take 2 (drop 18 p)),
     from_bytes_little (take 4 (drop 20 p)))"

fun key_event :: "int set \<Rightarrow> int \<times> int \<times> int \<Rightarrow> int set" where
  "key_event down (t, k, v) = (if t \<noteq> 1 then down else if v = 0 then down - {k} else insert k down)"

lemma event_fields_pack:
  assumes "0 \<le> t" "t < 65536" "0 \<le> k" "k < 65536" "0 \<le> v" "v < 4294967296"
  shows "event_fields (pack_event now t k v) = (t, k, v)" "length (pack_event now t k v) = 24"
  using assms by (simp_all add: event_fields_def pack_event_def from_to_bytes_little)

lemma packed_fields:
  assumes "list_all2 (\<lambda>(t, k, v) p. \<exists>now. p = pack_event now t k v) evs ps"
    and "\<And>t k v. (t, k, v) \<in> set evs \<Longrightarrow> t \<in> {0, 1} \<and> 0 \<le> k \<and> k < 768 \<and> v \<in> {0, 1}"
  shows "list_all2 (\<lambda>e p. event_fields p = e \<and> length p = 24) evs ps"
  using assms
proof (induction rule: list_all2_induct)
  case (Cons e evs p ps)
  obtain t k v now where e: "e = (t, k, v)" "p = pack_event now t k v" using Cons.hyps(1) by (cases e) auto
  then have "t \<in> {0, 1} \<and> 0 \<le> k \<and> k < 768 \<and> v \<in> {0, 1}" by (intro Cons.prems) simp
  then have "event_fields p = e \<and> length p = 24" using e event_fields_pack [of t k v now] by auto
  moreover have "list_all2 (\<lambda>e p. event_fields p = e \<and> length p = 24) evs ps" by (rule Cons.IH) (rule Cons.prems, simp)
  ultimately show ?case by simp
qed simp

lemma presses: "foldl key_event down (map (\<lambda>c. (EV_KEY, c, 1)) codes) = down \<union> set codes"
  by (induction codes arbitrary: down) (auto simp: EV_KEY_def)

lemma releases: "foldl key_event down (map (\<lambda>c. (EV_KEY, c, 0)) codes) = down - set codes"
  by (induction codes arbitrary: down) (auto simp: EV_KEY_def)

lemma key_codes_range:
  assumes "key_codes_for_tokens tokens = Inr codes" "c \<in> set codes"
  shows "0 < c \<and> c < 768"
proof -
  have "list_all2 (\<lambda>t c. map_of KEY_CODES t = Some c) tokens codes"
    using assms(1) unfolding key_codes_for_tokens_def rmap_eq_Inr_iff
    by (rule list_all2_mono) (auto split: option.splits)
  then obtain t where "map_of KEY_CODES t = Some c"
    using assms(2) by (auto simp: list_all2_conv_all_nth in_set_conv_nth)
  then show ?thesis using key_code_token_re by blast
qed

section \<open>Properties\<close>

text \<open>
  C25: However sessions start, fail, are read from and are cancelled, the gesture runtime is consistent: its status says running and
  ready exactly while a session is open, a session holds the touchpad and the virtual keyboard with the reader registered
  on the touchpad, and outside a session it holds nothing. No descriptor is ever leaked or closed twice: those open beyond
  the initial ones are those it holds.
\<close>

theorem gesture_runtime_consistent:
  assumes "fd_table os opened" and "(run_step os c)\<^sup>*\<^sup>* (Between, runtime_init, w) (p, rt, w')"
  shows "session_ok p rt \<and> opened w' = opened w + held rt"
  using fd_table.reachable_keeps [OF assms] .

definition gesture_laptop :: sim where
  "gesture_laptop = laptop\<lparr>sim_blobs := (''/dev/uinput'', []) # sim_blobs laptop, sim_signals := 0, sim_busy := 0\<rparr>"

definition gesture_settings :: "sim gesture_config" where
  "gesture_settings = \<lparr>gc_mappings_provider = (\<lambda>_. []), gc_sysfs_root = ''/sys/class/hidraw'', gc_dev_root = ''/dev''\<rparr>"

theorem gesture_runtime_consistent_witness:
  "\<exists>rt w'. (run_step sim_os gesture_settings)\<^sup>*\<^sup>* (Between, runtime_init, gesture_laptop) (In_session, rt, w') \<and>
     session_ok In_session rt \<and> mset (sim_fds w') = held rt"
proof -
  have "case start_session sim_os gesture_settings (runtime_init, gesture_laptop) of (Ret u, rt, w') \<Rightarrow> True | _ \<Rightarrow> False" by code_simp
  then obtain rt w' where "start_session sim_os gesture_settings (runtime_init, gesture_laptop) = (Ret (), rt, w')"
    by (auto split: prod.splits reply.splits)
  then have "run_step sim_os gesture_settings (Between, runtime_init, gesture_laptop) (In_session, rt, w')" by (rule started)
  then have run: "(run_step sim_os gesture_settings)\<^sup>*\<^sup>* (Between, runtime_init, gesture_laptop) (In_session, rt, w')" by (rule r_into_rtranclp)
  from gesture_runtime_consistent [OF sim_fd.fd_table_axioms this]
  have "session_ok In_session rt \<and> mset (sim_fds w') = held rt" by (simp add: gesture_laptop_def laptop_def sim_start_def)
  with run show ?thesis by blast
qed

text \<open>
  C30: When a chord has been emitted, the virtual keyboard has received exactly its events, 24 bytes each and in order, however the
  writes were split: all keys of the combination go down, are reported together, and are all released again.
\<close>

theorem chord_complete:
  assumes "uinput_device os received" and "key_codes_for_tokens tokens = Inr codes"
    and "emit_key_combo os fd codes w = (Ret (), w')"
  shows "\<exists>ps. received w' = received w @ concat ps \<and> list_all (\<lambda>p. length p = 24) ps \<and>
      map event_fields ps = chord_events codes \<and>
      foldl key_event {} (map event_fields (take (length codes + 1) ps)) = set codes \<and>
      foldl key_event {} (map event_fields ps) = {}"
proof -
  from uinput_device.emit_sends [OF assms(1,3)] obtain ps where ps: "received w' = received w @ concat ps"
    "list_all2 (\<lambda>(t, k, v) p. \<exists>now. p = pack_event now t k v) (chord_events codes) ps" by blast
  have "t \<in> {0, 1} \<and> 0 \<le> k \<and> k < 768 \<and> v \<in> {0, 1}" if "(t, k, v) \<in> set (chord_events codes)" for t k v
    using that key_codes_range [OF assms(2)] by (fastforce simp: chord_events_def EV_KEY_def EV_SYN_def SYN_REPORT_def)
  then have "list_all2 (\<lambda>e p. event_fields p = e \<and> length p = 24) (chord_events codes) ps"
    using ps(2) by (intro packed_fields) auto
  then have fields: "map event_fields ps = chord_events codes" and len: "list_all (\<lambda>p. length p = 24) ps"
    by (auto simp: list_all2_conv_all_nth list_all_length intro: nth_equalityI)
  have "foldl key_event {} (take (length codes + 1) (chord_events codes)) = set codes"
    by (simp add: chord_events_def presses EV_SYN_def)
  moreover have "foldl key_event {} (chord_events codes) = {}"
    by (simp add: chord_events_def presses releases EV_SYN_def)
  ultimately show ?thesis using ps(1) fields len by (auto simp: take_map [symmetric])
qed

theorem chord_complete_witness:
  "\<exists>w' ps. emit_key_combo sim_os 4 [125, 47] sim_start = (Ret (), w') \<and> concat (sim_accepted w') = concat ps \<and>
     map event_fields ps = chord_events [125, 47] \<and> foldl key_event {} (map event_fields ps) = {}"
proof -
  have "case emit_key_combo sim_os 4 [125, 47] sim_start of (Ret u, w') \<Rightarrow> True | _ \<Rightarrow> False" by code_simp
  then obtain w' where run: "emit_key_combo sim_os 4 [125, 47] sim_start = (Ret (), w')" by (auto split: prod.splits reply.splits)
  have "key_codes_for_tokens [''leftmeta'', ''v''] = Inr [125, 47]" by code_simp
  from chord_complete [OF sim_keyboard.uinput_device_axioms this run] run show ?thesis by (auto simp: sim_start_def)
qed

end
