(* ===== verification/Adapter.thy ===== *)
theory Adapter
  imports Touchpad_Transport Gesture_Runtime
begin

text \<open>
  The production adapter of \<^verbatim>\<open>honor_control/backend/hardware.py\<close>, \<open>HonorToolsAdapter\<close>, over the operating system and the honor-tools
  package: discovery of sysfs paths, the identity check of the platform, capabilities, battery thresholds, the fan commands
  and the GPU workaround. The object is the record \<open>adapter\<close>; its methods are programs on the record and the world below it.
  The honor-tools package is the record \<open>honor_tools\<close> of what the adapter calls of it. Power profiles are in
  \<open>Adapter_Power\<close>.
\<close>

section \<open>Programs with variables\<close>

text \<open>A program of the world below, and the variables above it: reading, changing, and a block with its own variable.\<close>

definition under :: "('w, 'a) io \<Rightarrow> ('s \<times> 'w, 'a) io" where
  "under m x = (case m (snd x) of (r, w') \<Rightarrow> (r, fst x, w'))"

definition local_get :: "('s \<times> 'w, 's) io" where
  "local_get x = (Ret (fst x), x)"

definition local_change :: "('s \<Rightarrow> 's) \<Rightarrow> ('s \<times> 'w, unit) io" where
  "local_change f x = (Ret (), f (fst x), snd x)"

definition with_local :: "'s \<Rightarrow> ('s \<times> 'w, 'a) io \<Rightarrow> ('w, 'a) io" where
  "with_local s m w = (case m (s, w) of (r, s', w') \<Rightarrow> (r, w'))"

section \<open>Strings\<close>

text \<open>\<open>str.casefold\<close> on the modelled characters, and \<open>p in s\<close>.\<close>

definition py_casefold :: "string \<Rightarrow> string" where
  "py_casefold s = concat (map (\<lambda>c. if cp c = 223 then ''ss'' else [py_lower_char c]) s)"

fun py_contains :: "string \<Rightarrow> string \<Rightarrow> bool" where
  "py_contains p [] = (p = [])"
| "py_contains p (c # s) = (py_startswith (c # s) p \<or> py_contains p s)"

text \<open>\<open>str.isdigit\<close>, true also of the superscripts one, two and three.\<close>

definition py_isdigit :: "string \<Rightarrow> bool" where
  "py_isdigit s = (s \<noteq> [] \<and> list_all (\<lambda>c. is_digit c \<or> cp c \<in> {178, 179, 185}) s)"

section \<open>The honor-tools package\<close>

text \<open>
  A platform with the attributes the adapter reads, and the functions of the package. \<open>ht_import\<close> imports the required functions and says
  which are callable, \<open>ht_version\<close> is the installed version, \<open>ht_format\<close> is \<open>str(template).format(speed=speed)\<close> for a speed
  template of the platform.
\<close>

record honor_platform =
  op_name :: string
  op_acpi_call_path :: "string option"
  op_fan_auto_cmd :: string
  op_fan_manual_cmd :: string
  op_fan_speed_cmds :: "string list"

record 'w honor_tools =
  ht_import :: "('w, bool list) io"
  ht_version :: "('w, string) io"
  ht_detect :: "('w, honor_platform option) io"
  ht_read_state :: "honor_platform \<Rightarrow> ('w, pv dict) io"
  ht_format :: "string \<Rightarrow> int \<Rightarrow> exn + string"
  ht_find_gpu_irqs :: "('w, string list) io"
  ht_get_status :: "('w, string list dict) io"
  ht_apply_irq_fix :: "honor_platform \<Rightarrow> ('w, pv dict) io"

section \<open>Files\<close>

definition read_int :: "'w os \<Rightarrow> string \<Rightarrow> ('w, int option) io" where
  "read_int os path =
     io_try (io_bind (os_read_text os path) (\<lambda>t. case py_int 10 (py_strip t) of
         None \<Rightarrow> io_raise (ValueError ''invalid literal for int()'') | Some i \<Rightarrow> io_ret (Some i)))
       os_or_value_error (\<lambda>_. io_ret None)"

definition write_int :: "'w os \<Rightarrow> string \<Rightarrow> int \<Rightarrow> ('w, bool) io" where
  "write_int os path v =
     io_try (io_bind (os_write_text os path (int_str v)) (\<lambda>_. io_ret True)) is_os_error (\<lambda>_. io_ret False)"

text \<open>\<open>_read_path\<close>, and \<open>_read_text\<close> on a path below the root.\<close>

definition read_path :: "'w os \<Rightarrow> string \<Rightarrow> ('w, string) io" where
  "read_path os path =
     io_try (io_bind (os_read_text os path) (\<lambda>t. io_ret (py_strip t))) is_os_error (\<lambda>_. io_ret [])"

definition rooted :: "string \<Rightarrow> string \<Rightarrow> string" where
  "rooted sysroot path = path_join sysroot (dropWhile (\<lambda>c. c = CHR ''/'') path)"

definition read_rooted :: "'w os \<Rightarrow> string \<Rightarrow> string \<Rightarrow> ('w, string) io" where
  "read_rooted os sysroot path = read_path os (rooted sysroot path)"

definition path_is_readable_and_writable :: "'w os \<Rightarrow> string \<Rightarrow> ('w, bool) io" where
  "path_is_readable_and_writable os path =
     io_bind (io_try (io_bind (os_read_text os path) (\<lambda>_. io_ret True)) is_os_error (\<lambda>_. io_ret False)) (\<lambda>readable.
     if \<not> readable then io_ret False else os_access os path W_OK)"

section \<open>Discovery\<close>

definition supply_type :: "'w os \<Rightarrow> string \<Rightarrow> ('w, string option) io" where
  "supply_type os entry =
     io_bind (io_and (os_is_dir os entry) (os_exists os (path_join entry ''type''))) (\<lambda>typed.
     if \<not> typed then io_ret None
     else io_try (io_bind (os_read_text os (path_join entry ''type'')) (\<lambda>t. io_ret (Some (py_lower (py_strip t)))))
       is_os_error (\<lambda>_. io_ret None))"

fun supply_loop :: "'w os \<Rightarrow> string list \<Rightarrow> string list \<Rightarrow> string option \<Rightarrow> ('w, string list \<times> string option) io" where
  "supply_loop os [] batteries ac = io_ret (batteries, ac)"
| "supply_loop os (entry # entries) batteries ac =
     io_bind (supply_type os entry) (\<lambda>ptype.
     if ptype = Some ''battery'' then supply_loop os entries (batteries @ [entry]) ac
     else if ptype = Some ''mains'' \<and> ac = None then supply_loop os entries batteries (Some entry)
     else supply_loop os entries batteries ac)"

definition discover_power_supply :: "'w os \<Rightarrow> string \<Rightarrow> ('w, string option \<times> string option \<times> bool) io" where
  "discover_power_supply os dir =
     io_bind (os_exists os dir) (\<lambda>there.
     if \<not> there then io_ret (None, None, False)
     else io_bind (os_iterdir os dir) (\<lambda>names.
       io_bind (supply_loop os (map (path_join dir) (sort names)) [] None) (\<lambda>(batteries, ac).
       io_ret (if length batteries = 1 then Some (hd batteries) else None, ac, 1 < length batteries))))"

fun temperature_loop :: "'w os \<Rightarrow> string list \<Rightarrow> ('w, string list) io" where
  "temperature_loop os [] = io_ret []"
| "temperature_loop os (entry # entries) =
     io_bind (io_try (io_bind (os_read_text os (path_join entry ''name'')) (\<lambda>t. io_ret (Some (py_strip t))))
       is_os_error (\<lambda>_. io_ret None)) (\<lambda>name.
     if name \<notin> {Some ''coretemp'', Some ''k10temp''} then temperature_loop os entries
     else io_bind (os_glob os entry ''temp*_input'') (\<lambda>inputs.
       if inputs \<noteq> [] then io_ret (map (path_join entry) (sort inputs)) else temperature_loop os entries))"

definition hwmon_entries :: "'w os \<Rightarrow> string \<Rightarrow> ('w, string list) io" where
  "hwmon_entries os dir = io_bind (os_glob os dir ''hwmon*'') (\<lambda>names. io_ret (map (path_join dir) (sort names)))"

definition discover_temperature_inputs :: "'w os \<Rightarrow> string \<Rightarrow> ('w, string list) io" where
  "discover_temperature_inputs os dir =
     io_bind (os_is_dir os dir) (\<lambda>d. if \<not> d then io_ret [] else io_bind (hwmon_entries os dir) (temperature_loop os))"

definition entry_fan_inputs :: "'w os \<Rightarrow> string \<Rightarrow> ('w, string list) io" where
  "entry_fan_inputs os entry =
     io_bind (os_glob os entry ''fan*_input'') (\<lambda>names.
     io_filter (\<lambda>path. io_bind (read_int os path) (\<lambda>v. io_ret (case v of None \<Rightarrow> False | Some n \<Rightarrow> 0 \<le> n)))
       (map (path_join entry) (sort names)))"

definition discover_fan_inputs :: "'w os \<Rightarrow> string \<Rightarrow> ('w, string list) io" where
  "discover_fan_inputs os dir =
     io_bind (os_is_dir os dir) (\<lambda>d.
     if \<not> d then io_ret []
     else io_bind (hwmon_entries os dir) (\<lambda>entries.
       io_bind (io_map (entry_fan_inputs os) entries) (\<lambda>inputs. io_ret (concat inputs))))"

section \<open>The adapter\<close>

record adapter =
  ad_root :: string
  ad_honor_error :: string
  ad_honor_ok :: bool
  ad_platform :: "honor_platform option"
  ad_platform_detected :: bool
  ad_battery_path :: "string option"
  ad_ac_path :: "string option"
  ad_multiple_batteries :: bool
  ad_temperature_inputs :: "string list"
  ad_fan_inputs :: "string list"
  ad_ppd_cache :: "(int \<times> string) option"

type_synonym ('w, 'a) hio = "(adapter \<times> 'w, 'a) io"

definition try_import :: "'w honor_tools \<Rightarrow> ('w, bool \<times> string) io" where
  "try_import tools =
     io_try (io_bind (ht_import tools) (\<lambda>callables.
         if \<not> list_all id callables then io_raise (TypeError ''honor-tools exports an incompatible API'')
         else io_bind (ht_version tools) (\<lambda>installed.
           if installed \<noteq> ''0.1.0'' then io_raise (RuntimeError (''honor-tools 0.1.0 is required; found '' @ installed))
           else io_ret (True, []))))
       is_exception (\<lambda>e. io_ret (False, exn_str e))"

text \<open>
  A discovery that raises keeps the paths: the three results of the supplies are assigned together, the temperatures and the
  fans each on its own.
\<close>

definition refresh_discovery :: "'w os \<Rightarrow> ('w, unit) hio" where
  "refresh_discovery os =
     io_bind local_get (\<lambda>ad.
     io_bind (under (discover_power_supply os (path_join (ad_root ad) ''sys/class/power_supply''))) (\<lambda>(battery, ac, multiple).
     io_bind (local_change (\<lambda>ad. ad\<lparr>ad_battery_path := battery, ad_ac_path := ac, ad_multiple_batteries := multiple\<rparr>)) (\<lambda>_.
     io_bind (under (discover_temperature_inputs os (path_join (ad_root ad) ''sys/class/hwmon''))) (\<lambda>temperatures.
     io_bind (local_change (\<lambda>ad. ad\<lparr>ad_temperature_inputs := temperatures\<rparr>)) (\<lambda>_.
     io_bind (under (discover_fan_inputs os (path_join (ad_root ad) ''sys/class/hwmon''))) (\<lambda>fans.
     local_change (\<lambda>ad. ad\<lparr>ad_fan_inputs := fans\<rparr>)))))))"

definition adapter_init :: "'w os \<Rightarrow> 'w honor_tools \<Rightarrow> string option \<Rightarrow> ('w, adapter) io" where
  "adapter_init os tools root_path =
     io_bind (try_import tools) (\<lambda>(ok, err).
     with_local
       \<lparr>ad_root = (case root_path of None \<Rightarrow> ''/'' | Some p \<Rightarrow> p), ad_honor_error = err, ad_honor_ok = ok, ad_platform = None,
        ad_platform_detected = False, ad_battery_path = None, ad_ac_path = None, ad_multiple_batteries = False,
        ad_temperature_inputs = [], ad_fan_inputs = [], ad_ppd_cache = None\<rparr>
       (io_bind (refresh_discovery os) (\<lambda>_. local_get)))"

section \<open>The platform\<close>

definition SUPPORTED_PLATFORM_IDENTITIES :: "string list dict" where
  "SUPPORTED_PLATFORM_IDENTITIES =
     [(''mra-xxx'', [''core(tm) ultra 5 125h'', ''core(tm) ultra 7 155h'', ''core(tm) ultra 9 185h'', ''meteor lake''])]"

definition SUPPORTED_FAN_IDENTITIES :: "string list dict" where
  "SUPPORTED_FAN_IDENTITIES = [(''mra-xxx'', [''core(tm) ultra 5 125h''])]"

definition SYS_VENDOR :: string where "SYS_VENDOR = ''/sys/class/dmi/id/sys_vendor''"
definition PRODUCT_NAME :: string where "PRODUCT_NAME = ''/sys/class/dmi/id/product_name''"

fun cpuinfo_model :: "string list \<Rightarrow> string" where
  "cpuinfo_model [] = []"
| "cpuinfo_model (line # ls) =
     (if py_startswith (py_casefold line) ''model name'' \<and> CHR '':'' \<in> set line
      then py_strip (tl (dropWhile (\<lambda>c. c \<noteq> CHR '':'') line)) else cpuinfo_model ls)"

definition read_cpu_model :: "'w os \<Rightarrow> string \<Rightarrow> ('w, string) io" where
  "read_cpu_model os sysroot =
     io_bind (read_rooted os sysroot ''/sys/devices/system/cpu/cpu0/model_name'') (\<lambda>model.
     if model \<noteq> [] then io_ret model
     else io_bind (read_rooted os sysroot ''/proc/cpuinfo'') (\<lambda>cpuinfo. io_ret (cpuinfo_model (py_splitlines cpuinfo))))"

definition identity_listed :: "string list dict \<Rightarrow> string \<Rightarrow> string \<Rightarrow> string \<Rightarrow> bool" where
  "identity_listed identities vendor product cpu_model =
     (let expected_cpus = dget identities (py_casefold product) []
      in py_casefold vendor = ''honor'' \<and> expected_cpus \<noteq> [] \<and> list_ex (\<lambda>marker. py_contains marker cpu_model) expected_cpus)"

definition identity_matches :: "'w os \<Rightarrow> string \<Rightarrow> string list dict \<Rightarrow> ('w, bool) io" where
  "identity_matches os sysroot identities =
     io_bind (read_rooted os sysroot SYS_VENDOR) (\<lambda>vendor.
     io_bind (read_rooted os sysroot PRODUCT_NAME) (\<lambda>product.
     io_bind (read_cpu_model os sysroot) (\<lambda>cpu_model.
     io_ret (identity_listed identities vendor product (py_casefold cpu_model)))))"

text \<open>\<open>_detect_platform_obj\<close>; on an unlisted machine the identity is read again for the log.\<close>

definition detect_platform_obj :: "'w os \<Rightarrow> 'w honor_tools \<Rightarrow> ('w, honor_platform option) hio" where
  "detect_platform_obj os tools =
     io_bind local_get (\<lambda>ad.
     if ad_platform_detected ad then io_ret (ad_platform ad)
     else under (io_try
       (io_bind (identity_matches os (ad_root ad) SUPPORTED_PLATFORM_IDENTITIES) (\<lambda>listed.
        if \<not> listed
        then io_bind (read_rooted os (ad_root ad) SYS_VENDOR) (\<lambda>_.
             io_bind (read_rooted os (ad_root ad) PRODUCT_NAME) (\<lambda>_.
             io_bind (read_cpu_model os (ad_root ad)) (\<lambda>_. io_ret None)))
        else io_bind (ht_detect tools) (\<lambda>plat. io_ret (case plat of
               None \<Rightarrow> None | Some p \<Rightarrow> if op_name p \<noteq> [] \<and> op_name p \<noteq> ''Unknown'' then Some p else None))))
       is_exception (\<lambda>_. io_ret None)))"

definition require_platform_or_none :: "'w os \<Rightarrow> 'w honor_tools \<Rightarrow> ('w, honor_platform option) hio" where
  "require_platform_or_none os tools =
     io_bind local_get (\<lambda>ad.
     io_bind (if ad_platform_detected ad then io_ret ()
              else io_bind (detect_platform_obj os tools) (\<lambda>p.
                   local_change (\<lambda>ad. ad\<lparr>ad_platform := p, ad_platform_detected := True\<rparr>))) (\<lambda>_.
     io_bind local_get (\<lambda>ad. io_ret (ad_platform ad))))"

definition require_platform :: "'w os \<Rightarrow> 'w honor_tools \<Rightarrow> ('w, honor_platform) hio" where
  "require_platform os tools =
     io_bind (require_platform_or_none os tools) (\<lambda>p. case p of
       None \<Rightarrow> io_raise (DomainException DE_UNSUPPORTED ''Platform not detected; hardware writes are disabled'')
     | Some plat \<Rightarrow> io_ret plat)"

definition require_fan_platform_or_none :: "'w os \<Rightarrow> 'w honor_tools \<Rightarrow> ('w, honor_platform option) hio" where
  "require_fan_platform_or_none os tools =
     io_bind (require_platform_or_none os tools) (\<lambda>p.
     if p = None then io_ret None
     else io_bind local_get (\<lambda>ad.
       io_bind (under (identity_matches os (ad_root ad) SUPPORTED_FAN_IDENTITIES)) (\<lambda>listed.
       io_ret (if listed then p else None))))"

definition require_fan_platform :: "'w os \<Rightarrow> 'w honor_tools \<Rightarrow> ('w, honor_platform) hio" where
  "require_fan_platform os tools =
     io_bind (require_fan_platform_or_none os tools) (\<lambda>p. case p of
       None \<Rightarrow> io_raise (DomainException DE_UNSUPPORTED ''Fan EC control is disabled on an unverified CPU identity'')
     | Some plat \<Rightarrow> io_ret plat)"

definition require_honor :: "('w, unit) hio" where
  "require_honor =
     io_bind local_get (\<lambda>ad.
     if ad_honor_ok ad then io_ret ()
     else io_raise (DomainException DE_DEPENDENCY
       (if ad_honor_error ad \<noteq> [] then ad_honor_error ad else ''honor-tools package is not compatible'')))"

definition honor_detect_platform :: "'w os \<Rightarrow> 'w honor_tools \<Rightarrow> ('w, platform_info) hio" where
  "honor_detect_platform os tools =
     io_bind local_get (\<lambda>ad.
     io_bind (under (read_cpu_model os (ad_root ad))) (\<lambda>model.
     io_bind (if model \<noteq> [] then io_ret model
              else under (io_try (os_processor os) is_exception (\<lambda>_. io_ret []))) (\<lambda>cpu_model.
     io_bind (require_platform_or_none os tools) (\<lambda>plat.
     io_bind (under (read_rooted os (ad_root ad) SYS_VENDOR)) (\<lambda>vendor.
     io_bind (under (read_rooted os (ad_root ad) PRODUCT_NAME)) (\<lambda>product.
     io_ret (case plat of
       None \<Rightarrow> platform_default\<lparr>pi_vendor := vendor, pi_product := product, pi_cpu_model := cpu_model\<rparr>
     | Some p \<Rightarrow> \<lparr>pi_vendor = vendor, pi_product = product, pi_model = op_name p, pi_cpu_model = cpu_model,
         pi_matched = True, pi_confidence = ''high''\<rparr>)))))))"

section \<open>Battery\<close>

definition cap :: "capability_status \<Rightarrow> string \<Rightarrow> string \<Rightarrow> string list \<Rightarrow> capability" where
  "cap status code msg res = \<lparr>cap_status = status, cap_reason_code = code, cap_message = msg, cap_resources = res\<rparr>"

definition end_threshold :: "string \<Rightarrow> string" where "end_threshold b = path_join b ''charge_control_end_threshold''"
definition start_threshold :: "string \<Rightarrow> string" where "start_threshold b = path_join b ''charge_control_start_threshold''"

definition io_not :: "('w, bool) io \<Rightarrow> ('w, bool) io" where
  "io_not m = io_bind m (\<lambda>b. io_ret (\<not> b))"

definition threshold_capability :: "'w os \<Rightarrow> string \<Rightarrow> ('w, capability) io" where
  "threshold_capability os battery =
     (let files = [end_threshold battery, start_threshold battery] in
      io_bind (io_and (os_exists os (end_threshold battery)) (os_exists os (start_threshold battery))) (\<lambda>there.
      if \<not> there
      then io_bind (io_filter (\<lambda>p. io_not (os_exists os p)) files) (\<lambda>missing.
           io_ret (cap CS_UNAVAILABLE ''charge_control_threshold_missing''
             ''Both battery charge-control threshold files are required'' missing))
      else io_bind (io_filter (\<lambda>p. io_not (path_is_readable_and_writable os p)) files) (\<lambda>inaccessible.
           io_ret (if inaccessible \<noteq> []
             then cap CS_UNAVAILABLE ''charge_control_threshold_inaccessible''
               ''Battery threshold controls are not readable and writable'' inaccessible
             else cap CS_SUPPORTED [] ''Battery charge control available'' files))))"

definition get_battery_capability :: "'w os \<Rightarrow> ('w, capability) hio" where
  "get_battery_capability os =
     io_bind (refresh_discovery os) (\<lambda>_.
     io_bind local_get (\<lambda>ad.
     if ad_multiple_batteries ad
     then io_ret (cap CS_UNSUPPORTED ''multiple_batteries_unsupported''
       ''Battery threshold writes are disabled with multiple batteries'' [])
     else case ad_battery_path ad of
       None \<Rightarrow> io_ret (cap CS_UNAVAILABLE ''battery_sysfs_missing'' ''No battery sysfs device found'' [])
     | Some battery \<Rightarrow> under (threshold_capability os battery)))"

text \<open>The body of the \<open>try\<close> of \<open>read_battery\<close>; a threshold of zero counts as unread for the mode.\<close>

definition observe_battery :: "'w os \<Rightarrow> string \<Rightarrow> string option \<Rightarrow> ('w, battery_snapshot) io" where
  "observe_battery os battery ac_path =
     io_bind (read_int os (end_threshold battery)) (\<lambda>en.
     io_bind (read_int os (start_threshold battery)) (\<lambda>st.
     io_bind (os_read_text os (path_join battery ''status'')) (\<lambda>raw.
     io_bind (read_int os (path_join battery ''capacity'')) (\<lambda>capacity.
     io_bind (case ac_path of
         None \<Rightarrow> io_ret None
       | Some ac \<Rightarrow> io_bind (read_int os (path_join ac ''online'')) (\<lambda>v. io_ret (Some (v = Some 1)))) (\<lambda>ac_online.
     io_ret (battery_default\<lparr>bs_available := True, bs_capacity_percent := capacity,
       bs_status := Some (case battery_status_of_str (py_replace_char (CHR '' '') (CHR ''_'') (py_lower (py_strip raw))) of
         Inl _ \<Rightarrow> BS_UNKNOWN | Inr k \<Rightarrow> k),
       bs_ac_online := ac_online, bs_observed_end := en, bs_observed_start := st, bs_desired_end := en, bs_desired_start := st,
       bs_mode := (case en of None \<Rightarrow> CM_CUSTOM
         | Some e \<Rightarrow> if e = 0 then CM_CUSTOM else derive_charge_mode e (case st of None \<Rightarrow> 0 | Some v \<Rightarrow> v))\<rparr>))))))"

definition honor_read_battery :: "'w os \<Rightarrow> ('w, battery_snapshot) hio" where
  "honor_read_battery os =
     io_bind (refresh_discovery os) (\<lambda>_.
     io_bind (get_battery_capability os) (\<lambda>c.
     io_bind local_get (\<lambda>ad. case ad_battery_path ad of
       None \<Rightarrow> io_ret battery_default
     | Some battery \<Rightarrow>
         if \<not> writable c then io_ret battery_default
         else under (io_try (observe_battery os battery (ad_ac_path ad)) is_exception
           (\<lambda>e. io_ret (battery_default\<lparr>bs_last_error := exn_str e\<rparr>))))))"

text \<open>The two writes in the order that keeps the start threshold at or below the end threshold.\<close>

definition write_thresholds :: "'w os \<Rightarrow> string \<Rightarrow> int \<Rightarrow> int \<Rightarrow> ('w, bool \<times> bool \<times> string list) io" where
  "write_thresholds os battery en st =
     io_bind (read_int os (start_threshold battery)) (\<lambda>old_start.
     if (case old_start of None \<Rightarrow> False | Some s \<Rightarrow> en < s)
     then io_bind (write_int os (start_threshold battery) st) (\<lambda>start_ok.
          io_bind (if start_ok then write_int os (end_threshold battery) en else io_ret False) (\<lambda>end_ok.
          io_ret (end_ok, start_ok, [''start'', ''end''])))
     else io_bind (write_int os (end_threshold battery) en) (\<lambda>end_ok.
          io_bind (if end_ok then write_int os (start_threshold battery) st else io_ret False) (\<lambda>start_ok.
          io_ret (end_ok, start_ok, [''end'', ''start'']))))"

definition honor_write_battery :: "'w os \<Rightarrow> int \<Rightarrow> int \<Rightarrow> ('w, pv dict) hio" where
  "honor_write_battery os en st =
     io_bind local_get (\<lambda>ad. case ad_battery_path ad of
       None \<Rightarrow> io_ret [(''end_write_ok'', PBool False), (''start_write_ok'', PBool False)]
     | Some battery \<Rightarrow> under (io_try
         (io_bind (write_thresholds os battery en st) (\<lambda>(end_ok, start_ok, write_order).
          io_bind (read_int os (end_threshold battery)) (\<lambda>observed_end.
          io_bind (read_int os (start_threshold battery)) (\<lambda>observed_start.
          io_ret [(''end_write_ok'', PBool end_ok), (''start_write_ok'', PBool start_ok),
            (''write_order'', PTuple (map PStr write_order)), (''observed_end'', opt_int observed_end),
            (''observed_start'', opt_int observed_start),
            (''readback_ok'', PBool (observed_end = Some en \<and> observed_start = Some st))]))))
         is_exception (\<lambda>e. io_ret [(''end_write_ok'', PBool False), (''start_write_ok'', PBool False),
            (''error'', PStr (exn_str e))])))"

section \<open>Fan\<close>

definition acpi_call_path :: "honor_platform \<Rightarrow> string" where
  "acpi_call_path p = (case op_acpi_call_path p of None \<Rightarrow> ''/proc/acpi/call'' | Some path \<Rightarrow> path)"

definition is_padding :: "char \<Rightarrow> bool" where
  "is_padding c = (cp c \<in> {0, 32, 9, 13, 10})"

definition acpi_strip :: "string \<Rightarrow> string" where
  "acpi_strip s = rev (dropWhile is_padding (rev (dropWhile is_padding s)))"

text \<open>\<open>bool(response) and int(response, 0) == 0\<close>\<close>

definition acpi_zero :: "string \<Rightarrow> exn + bool" where
  "acpi_zero response =
     (if response = [] then Inr False
      else case py_int 0 response of None \<Rightarrow> Inl (ValueError ''invalid literal for int()'') | Some i \<Rightarrow> Inr (i = 0))"

definition verified_acpi_call :: "'w os \<Rightarrow> string \<Rightarrow> honor_platform \<Rightarrow> string \<Rightarrow> ('w, bool) io" where
  "verified_acpi_call os sysroot plat command =
     io_try (io_bind (os_exchange os (rooted sysroot (acpi_call_path plat)) (command @ [CHR 10])) (\<lambda>answer.
         io_of (acpi_zero (acpi_strip answer))))
       os_or_value_error (\<lambda>_. io_ret False)"

definition plausible_millidegrees :: "int \<Rightarrow> bool" where
  "plausible_millidegrees t = (1000 \<le> t \<and> t \<le> 150000)"

definition fan_sensor_capability :: "'w os \<Rightarrow> adapter \<Rightarrow> honor_platform \<Rightarrow> ('w, capability) io" where
  "fan_sensor_capability os ad plat =
     io_bind (io_map (read_int os) (ad_temperature_inputs ad)) (\<lambda>readings.
     io_ret (if filter (\<lambda>v. case v of None \<Rightarrow> False | Some t \<Rightarrow> plausible_millidegrees t) readings = []
       then cap CS_UNAVAILABLE ''fan_temperature_missing'' ''No readable coretemp/k10temp sensor found'' []
       else cap CS_SUPPORTED [] ''Fan EC control available'' (acpi_call_path plat # ad_temperature_inputs ad)))"

definition get_fan_capability :: "'w os \<Rightarrow> 'w honor_tools \<Rightarrow> ('w, capability) hio" where
  "get_fan_capability os tools =
     io_bind (refresh_discovery os) (\<lambda>_.
     io_bind (require_fan_platform_or_none os tools) (\<lambda>p.
     io_bind local_get (\<lambda>ad. case p of
       None \<Rightarrow> io_ret (cap CS_UNSUPPORTED ''platform_not_supported''
         ''Fan control requires a capture-verified Honor CPU identity'' [])
     | Some plat \<Rightarrow>
         let acpi_path = acpi_call_path plat; rooted_acpi_path = rooted (ad_root ad) acpi_path in
         under (io_bind (os_exists os rooted_acpi_path) (\<lambda>there.
           if \<not> there then io_ret (cap CS_UNAVAILABLE ''acpi_call_missing'' (acpi_path @ '' not found'') [])
           else io_bind (os_access os rooted_acpi_path (R_OK + W_OK)) (\<lambda>accessible.
             if \<not> accessible
             then io_ret (cap CS_UNAVAILABLE ''acpi_call_inaccessible'' (acpi_path @ '' is not readable and writable'') [acpi_path])
             else fan_sensor_capability os ad plat))))))"

text \<open>\<open>isinstance(v, int)\<close> and the integer, a boolean being one.\<close>

definition int_instance :: "pv \<Rightarrow> int option" where
  "int_instance v = (case v of PInt i \<Rightarrow> Some i | PBool b \<Rightarrow> Some (of_bool b) | _ \<Rightarrow> None)"

definition observe_fan :: "'w os \<Rightarrow> 'w honor_tools \<Rightarrow> adapter \<Rightarrow> honor_platform \<Rightarrow> ('w, fan_snapshot) io" where
  "observe_fan os tools ad plat =
     io_bind (ht_read_state tools plat) (\<lambda>state.
     case int_instance (pv_get state ''temp'') of
       None \<Rightarrow> io_ret (fan_default\<lparr>fs_last_error := ''CPU temperature sensor returned no data''\<rparr>)
     | Some temp \<Rightarrow>
         if \<not> plausible_millidegrees temp
         then io_ret (fan_default\<lparr>fs_last_error := ''CPU temperature sensor returned no data''\<rparr>)
         else io_bind (io_map (read_int os) (ad_fan_inputs ad)) (\<lambda>readings.
           let measured = filter (\<lambda>v. 0 < v) (map the (filter (\<lambda>v. v \<noteq> None) readings));
               rpms = measured @ (case int_instance (pv_get state ''fan_rpm'') of
                 None \<Rightarrow> [] | Some r \<Rightarrow> if 0 < r then [r] else [])
           in io_ret (fan_default\<lparr>fs_available := True, fs_temp_mc := Some temp,
                fs_measured_rpm := (if rpms = [] then None else Some (Max (set rpms)))\<rparr>)))"

definition honor_read_fan :: "'w os \<Rightarrow> 'w honor_tools \<Rightarrow> ('w, fan_snapshot) hio" where
  "honor_read_fan os tools =
     io_bind (refresh_discovery os) (\<lambda>_.
     io_bind (require_fan_platform_or_none os tools) (\<lambda>p.
     io_bind local_get (\<lambda>ad. case p of
       None \<Rightarrow> io_ret fan_default
     | Some plat \<Rightarrow> under (io_try (observe_fan os tools ad plat) is_exception
         (\<lambda>e. io_ret (fan_default\<lparr>fs_last_error := exn_str e\<rparr>))))))"

definition honor_read_fan_temp :: "'w os \<Rightarrow> 'w honor_tools \<Rightarrow> ('w, int option) hio" where
  "honor_read_fan_temp os tools =
     io_bind (honor_read_fan os tools) (\<lambda>state. io_ret (if fs_available state then fs_temp_mc state else None))"

text \<open>The three commands: \<open>_require_honor\<close> and \<open>_require_fan_platform\<close>, then one verified call or several.\<close>

definition on_fan_platform :: "'w os \<Rightarrow> 'w honor_tools \<Rightarrow> (string \<Rightarrow> honor_platform \<Rightarrow> ('w, bool) io) \<Rightarrow> ('w, bool) hio" where
  "on_fan_platform os tools body =
     io_bind require_honor (\<lambda>_.
     io_bind (require_fan_platform os tools) (\<lambda>plat.
     io_bind local_get (\<lambda>ad. under (body (ad_root ad) plat))))"

definition honor_set_fan_auto :: "'w os \<Rightarrow> 'w honor_tools \<Rightarrow> ('w, bool) hio" where
  "honor_set_fan_auto os tools =
     on_fan_platform os tools (\<lambda>sysroot plat. verified_acpi_call os sysroot plat (op_fan_auto_cmd plat))"

definition honor_set_fan_manual :: "'w os \<Rightarrow> 'w honor_tools \<Rightarrow> int \<Rightarrow> ('w, bool) hio" where
  "honor_set_fan_manual os tools v =
     on_fan_platform os tools (\<lambda>sysroot plat. verified_acpi_call os sysroot plat (op_fan_manual_cmd plat))"

definition honor_set_fan_speed :: "'w os \<Rightarrow> 'w honor_tools \<Rightarrow> int \<Rightarrow> ('w, bool) hio" where
  "honor_set_fan_speed os tools v =
     on_fan_platform os tools (\<lambda>sysroot plat.
       if \<not> (0 \<le> v \<and> v \<le> 100) then io_ret False
       else io_bind (io_map (\<lambda>template. io_bind (io_of (ht_format tools template v)) (verified_acpi_call os sysroot plat))
              (op_fan_speed_cmds plat)) (\<lambda>results. io_ret (results \<noteq> [] \<and> list_all id results)))"

section \<open>Gestures and touchpad\<close>

definition hidraw_root :: "adapter \<Rightarrow> string" where "hidraw_root ad = path_join (ad_root ad) ''sys/class/hidraw''"
definition dev_root :: "adapter \<Rightarrow> string" where "dev_root ad = path_join (ad_root ad) ''dev''"
definition dmi_root :: "adapter \<Rightarrow> string" where "dmi_root ad = path_join (ad_root ad) ''sys/class/dmi/id''"

definition get_gestures_capability :: "'w os \<Rightarrow> ('w, capability) hio" where
  "get_gestures_capability os =
     io_bind local_get (\<lambda>ad.
     io_bind (under (probe_gesture_environment os (hidraw_root ad) (dev_root ad))) (\<lambda>probe.
     io_ret (if \<not> gpr_available probe
       then cap CS_UNAVAILABLE ''gesture_runtime_unavailable'' (gpr_error probe)
         (if gpr_device_path probe \<noteq> [] then [gpr_device_path probe] else [])
       else cap CS_SUPPORTED [] ''Touchpad HID input and uinput are accessible''
         [gpr_device_path probe, path_join (ad_root ad) ''dev/uinput''])))"

definition honor_probe_touchpad :: "'w os \<Rightarrow> ('w, touchpad_probe) hio" where
  "honor_probe_touchpad os =
     io_bind local_get (\<lambda>ad.
     under (probe_touchpad_firmware_hid os (hidraw_root ad) (dev_root ad) (Some (dmi_root ad))))"

definition honor_read_gestures :: "'w os \<Rightarrow> ('w, gestures_snapshot) hio" where
  "honor_read_gestures os =
     io_bind local_get (\<lambda>ad.
     io_bind (under (probe_gesture_environment os (hidraw_root ad) (dev_root ad))) (\<lambda>probe.
     io_bind (honor_probe_touchpad os) (\<lambda>firmware_probe.
     io_bind (under (wmi_transport_present os (path_join (ad_root ad) ''sys/bus/wmi/devices''))) (\<lambda>wmi.
     io_ret (gestures_default\<lparr>gs_available := gpr_available probe, gs_device_found := gpr_device_found probe,
       gs_permission_denied := gpr_permission_denied probe, gs_device_path := gpr_device_path probe,
       gs_wmi_transport_present := wmi, gs_firmware_settings_supported := tpr_available firmware_probe,
       gs_firmware_settings := [], gs_last_error := gpr_error probe\<rparr>)))))"

definition honor_list_gesture_mappings :: "('w, gesture_entry list) hio" where
  "honor_list_gesture_mappings = io_ret []"

definition adapter_transport :: "adapter \<Rightarrow> exn + transport" where
  "adapter_transport ad = mk_transport (hidraw_root ad) (dev_root ad) (Some (dmi_root ad)) 2000000"

definition honor_apply_touchpad :: "'w os \<Rightarrow> int dict \<Rightarrow> ('w, batch_apply_result) hio" where
  "honor_apply_touchpad os settings =
     io_bind local_get (\<lambda>ad.
     io_bind (io_of (adapter_transport ad)) (\<lambda>t.
     under (apply_settings os t (map (\<lambda>(name, v). (SA_str name, PInt v)) settings) True None)))"

definition honor_query_touchpad_support :: "'w os \<Rightarrow> ('w, nat set) hio" where
  "honor_query_touchpad_support os =
     io_bind local_get (\<lambda>ad.
     io_bind (io_of (adapter_transport ad)) (\<lambda>t. under (query_supported_gestures os t True None)))"

section \<open>GPU\<close>

text \<open>The package names interrupts by strings.\<close>

definition get_gpu_capability :: "'w honor_tools \<Rightarrow> ('w, capability) hio" where
  "get_gpu_capability tools =
     io_bind (under (io_try (ht_find_gpu_irqs tools) is_exception (\<lambda>_. io_ret []))) (\<lambda>irqs.
     io_ret (if irqs \<noteq> []
       then cap CS_EXPERIMENTAL ''restore_not_supported'' ''GPU mitigation disabled until reversible restore is available'' irqs
       else cap CS_UNAVAILABLE ''no_gpu_irqs'' ''No i915/xe GPU IRQs found'' []))"

definition honor_read_gpu :: "'w honor_tools \<Rightarrow> ('w, gpu_snapshot) hio" where
  "honor_read_gpu tools =
     under (io_try
       (io_bind (ht_get_status tools) (\<lambda>status.
        io_ret (gpu_default\<lparr>gp_available := True, gp_irqs := dget status ''gpu_irqs'' []\<rparr>)))
       is_exception (\<lambda>e. io_ret (gpu_default\<lparr>gp_last_error := exn_str e\<rparr>)))"

definition honor_apply_gpu :: "'w os \<Rightarrow> 'w honor_tools \<Rightarrow> ('w, pv dict) hio" where
  "honor_apply_gpu os tools =
     io_bind require_honor (\<lambda>_.
     io_bind (require_platform os tools) (\<lambda>plat.
     under (io_try (ht_apply_irq_fix tools plat) is_exception (\<lambda>e. io_ret [(''error'', PStr (exn_str e))]))))"

definition honor_restore_gpu :: "('w, pv dict) hio" where
  "honor_restore_gpu =
     io_ret [(''error'', PStr ''restore not implemented in honor-tools''), (''restored'', PBool False)]"

end
