(* ===== verification/Adapter_Power.thy ===== *)
theory Adapter_Power
  imports Adapter
begin

text \<open>
  Power profiles in \<open>HonorToolsAdapter\<close> of \<^verbatim>\<open>honor_control/backend/hardware.py\<close>: the observation of RAPL limits, governors, energy
  preferences and the profile daemon, and the transaction that applies a definition, verifies it against a fresh observation and
  rolls back otherwise. The dictionary of \<open>_read_power_status\<close>, whose keys are fixed, is the record \<open>power_status\<close>. Times are in
  microseconds.
\<close>

section \<open>Controls\<close>

definition CPU_ROOT :: string where "CPU_ROOT = ''/sys/devices/system/cpu''"
definition INTEL_PSTATE_ROOT :: string where "INTEL_PSTATE_ROOT = CPU_ROOT @ ''/intel_pstate''"
definition RAPL_TREES :: "string list" where
  "RAPL_TREES = [''/sys/class/powercap/intel-rapl:0'', ''/sys/class/powercap/intel-rapl-mmio:0'']"
definition RAPL_LIMIT_FILES :: "string list" where "RAPL_LIMIT_FILES = [RAPL_LIMIT_0, RAPL_LIMIT_1]"
definition PPD_SETTLE_US :: int where "PPD_SETTLE_US = 500000"
definition PPD_GET_CACHE_US :: int where "PPD_GET_CACHE_US = 2000000"

definition no_turbo_path :: "string \<Rightarrow> string" where
  "no_turbo_path sysroot = rooted sysroot (INTEL_PSTATE_ROOT @ ''/no_turbo'')"
definition max_perf_path :: "string \<Rightarrow> string" where
  "max_perf_path sysroot = rooted sysroot (INTEL_PSTATE_ROOT @ ''/max_perf_pct'')"

text \<open>A file of a policy, and \<open>cpu.name[3:]\<close>.\<close>

definition cpufreq :: "string \<Rightarrow> string \<Rightarrow> string" where
  "cpufreq cpu name = path_join (path_join cpu ''cpufreq'') name"
definition cpu_index :: "string \<Rightarrow> string" where "cpu_index cpu = drop 3 (path_name cpu)"

definition power_cpu_dirs :: "'w os \<Rightarrow> string \<Rightarrow> ('w, string list) io" where
  "power_cpu_dirs os sysroot =
     (let dir = rooted sysroot CPU_ROOT in
      io_bind (os_is_dir os dir) (\<lambda>d.
      if \<not> d then io_ret []
      else io_bind (os_glob os dir ''cpu[0-9]*'') (\<lambda>names.
        io_filter (\<lambda>cpu. if py_isdigit (cpu_index cpu) then os_is_dir os (path_join cpu ''cpufreq'') else io_ret False)
          (map (path_join dir) (sort names)))))"

definition rapl_trees :: "'w os \<Rightarrow> string \<Rightarrow> ('w, string list) io" where
  "rapl_trees os sysroot = io_filter (os_is_dir os) (map (rooted sysroot) RAPL_TREES)"

section \<open>The profile daemon\<close>

definition run_powerprofilesctl :: "'w os \<Rightarrow> string list \<Rightarrow> ('w, (int \<times> string \<times> string) option) io" where
  "run_powerprofilesctl os args =
     io_try (io_bind (os_which os ''powerprofilesctl'') (\<lambda>exe. case exe of
         None \<Rightarrow> io_ret None | Some e \<Rightarrow> os_run os (e # args)))
       is_os_error (\<lambda>_. io_ret None)"

definition get_ppd_profile :: "'w os \<Rightarrow> ('w, string) hio" where
  "get_ppd_profile os =
     io_bind (under (io_call (os_monotonic os))) (\<lambda>now.
     io_bind local_get (\<lambda>ad.
     if (case ad_ppd_cache ad of None \<Rightarrow> False | Some (since, _) \<Rightarrow> now - since < PPD_GET_CACHE_US)
     then io_ret (snd (the (ad_ppd_cache ad)))
     else io_bind (under (run_powerprofilesctl os [''get''])) (\<lambda>result. case result of
       None \<Rightarrow> io_ret []
     | Some (code, out, err) \<Rightarrow>
         if code \<noteq> 0 then io_ret []
         else io_bind (local_change (\<lambda>ad. ad\<lparr>ad_ppd_cache := Some (now, py_strip out)\<rparr>)) (\<lambda>_. io_ret (py_strip out)))))"

definition set_ppd_profile :: "'w os \<Rightarrow> string \<Rightarrow> ('w, bool) hio" where
  "set_ppd_profile os profile =
     io_bind (local_change (\<lambda>ad. ad\<lparr>ad_ppd_cache := None\<rparr>)) (\<lambda>_.
     io_bind (under (run_powerprofilesctl os [''set'', profile])) (\<lambda>result.
     io_ret (case result of None \<Rightarrow> False | Some (code, _) \<Rightarrow> code = 0)))"

section \<open>Observation\<close>

definition power_files :: "string \<Rightarrow> string list \<Rightarrow> string list \<Rightarrow> string list" where
  "power_files sysroot cpus trees =
     concat (map (\<lambda>cpu. [cpufreq cpu ''scaling_governor'', cpufreq cpu ''energy_performance_preference'']) cpus) @
     concat (map (\<lambda>tree. map (path_join tree) RAPL_LIMIT_FILES) trees) @ [no_turbo_path sysroot, max_perf_path sysroot]"

definition get_power_capability :: "'w os \<Rightarrow> 'w honor_tools \<Rightarrow> ('w, capability) hio" where
  "get_power_capability os tools =
     io_bind (require_platform_or_none os tools) (\<lambda>p.
     if p = None
     then io_ret (cap CS_UNSUPPORTED ''platform_not_supported'' ''Power profiles are disabled on unverified hardware'' [])
     else io_bind (under (os_which os ''powerprofilesctl'')) (\<lambda>exe.
     if exe = None then io_ret (cap CS_UNAVAILABLE ''powerprofilesctl_missing'' ''powerprofilesctl not found'' [])
     else io_bind (get_ppd_profile os) (\<lambda>ppd.
     if ppd = []
     then io_ret (cap CS_UNAVAILABLE ''power_profiles_daemon_unavailable''
       ''power-profiles-daemon did not report an active profile'' [])
     else io_bind local_get (\<lambda>ad. under (
       io_bind (power_cpu_dirs os (ad_root ad)) (\<lambda>cpus.
       io_bind (rapl_trees os (ad_root ad)) (\<lambda>trees.
       if cpus = [] \<or> trees = []
       then io_ret (cap CS_UNAVAILABLE ''power_sysfs_missing'' ''CPU frequency or Intel RAPL controls are unavailable'' [])
       else io_bind (io_filter (\<lambda>f. io_not (path_is_readable_and_writable os f)) (power_files (ad_root ad) cpus trees))
         (\<lambda>inaccessible. io_ret (if inaccessible \<noteq> []
            then cap CS_UNAVAILABLE ''power_sysfs_inaccessible'' ''Required power controls are not readable and writable''
              inaccessible
            else cap CS_SUPPORTED [] ''PPD-coordinated power profile control is available''
              (power_files (ad_root ad) cpus trees))))))))))"

record power_status =
  pst_rapl :: "int option dict dict"
  pst_governors :: "string dict"
  pst_epp :: "string dict"
  pst_ppd_profile :: string
  pst_no_turbo :: "int option"
  pst_max_perf_pct :: "int option"

definition status_dict :: "power_status \<Rightarrow> pv dict" where
  "status_dict st =
     [(''rapl'', PDict (map (\<lambda>(tree, limits). (tree, PDict (map (\<lambda>(f, v). (f, opt_int v)) limits))) (pst_rapl st))),
      (''governors'', PDict (map (\<lambda>(i, v). (i, PStr v)) (pst_governors st))),
      (''epp'', PDict (map (\<lambda>(i, v). (i, PStr v)) (pst_epp st))),
      (''ppd_profile'', PStr (pst_ppd_profile st)), (''no_turbo'', opt_int (pst_no_turbo st)),
      (''max_perf_pct'', opt_int (pst_max_perf_pct st))]"

definition read_rapl :: "'w os \<Rightarrow> string \<Rightarrow> ('w, string \<times> int option dict) io" where
  "read_rapl os tree =
     io_bind (io_map (\<lambda>f. io_bind (read_int os (path_join tree f)) (\<lambda>v. io_ret (f, v))) RAPL_LIMIT_FILES) (\<lambda>limits.
     io_ret (path_name tree, limits))"

definition read_policy :: "'w os \<Rightarrow> string \<Rightarrow> ('w, string \<times> string \<times> string) io" where
  "read_policy os cpu =
     io_bind (read_path os (cpufreq cpu ''scaling_governor'')) (\<lambda>governor.
     io_bind (read_path os (cpufreq cpu ''energy_performance_preference'')) (\<lambda>epp.
     io_ret (cpu_index cpu, governor, epp)))"

definition read_power_status :: "'w os \<Rightarrow> ('w, power_status) hio" where
  "read_power_status os =
     io_bind local_get (\<lambda>ad.
     io_bind (under (io_bind (rapl_trees os (ad_root ad)) (io_map (read_rapl os)))) (\<lambda>rapl.
     io_bind (under (io_bind (power_cpu_dirs os (ad_root ad)) (io_map (read_policy os)))) (\<lambda>policies.
     io_bind (get_ppd_profile os) (\<lambda>ppd.
     io_bind (under (read_int os (no_turbo_path (ad_root ad)))) (\<lambda>no_turbo.
     io_bind (under (read_int os (max_perf_path (ad_root ad)))) (\<lambda>max_perf_pct.
     io_ret \<lparr>pst_rapl = dict_merge [] rapl, pst_governors = dict_merge [] (map (\<lambda>(i, g, e). (i, g)) policies),
       pst_epp = dict_merge [] (map (\<lambda>(i, g, e). (i, e)) policies), pst_ppd_profile = ppd, pst_no_turbo = no_turbo,
       pst_max_perf_pct = max_perf_pct\<rparr>))))))"

definition status_complete :: "power_status \<Rightarrow> bool" where
  "status_complete st =
     (pst_rapl st \<noteq> [] \<and> list_all (\<lambda>(tree, limits). list_all (\<lambda>(f, v). v \<noteq> None) limits) (pst_rapl st) \<and>
      pst_governors st \<noteq> [] \<and> list_all (\<lambda>(i, v). v \<noteq> []) (pst_governors st) \<and>
      pst_epp st \<noteq> [] \<and> list_all (\<lambda>(i, v). v \<noteq> []) (pst_epp st) \<and>
      pst_ppd_profile st \<noteq> [] \<and> pst_no_turbo st \<noteq> None \<and> pst_max_perf_pct st \<noteq> None)"

definition observe_power :: "'w os \<Rightarrow> ('w, power_snapshot) hio" where
  "observe_power os =
     io_bind (read_power_status os) (\<lambda>st.
     io_bind local_get (\<lambda>ad.
     io_bind (case ad_ac_path ad of
         None \<Rightarrow> io_ret None
       | Some ac \<Rightarrow> io_bind (under (read_int os (path_join ac ''online''))) (\<lambda>v. io_ret (Some (v = Some 1)))) (\<lambda>ac_online.
     io_ret (power_default\<lparr>ps_available := status_complete st, ps_observed_summary := status_dict st,
       ps_ac_online := ac_online, ps_last_error := (if status_complete st then [] else ''Power observation is incomplete'')\<rparr>))))"

definition honor_read_power :: "'w os \<Rightarrow> 'w honor_tools \<Rightarrow> ('w, power_snapshot) hio" where
  "honor_read_power os tools =
     io_bind (refresh_discovery os) (\<lambda>_.
     io_bind (require_platform_or_none os tools) (\<lambda>p.
     if p = None then io_ret (power_default\<lparr>ps_last_error := ''Power status is disabled on unverified hardware''\<rparr>)
     else io_try (observe_power os) is_exception (\<lambda>e. io_ret (power_default\<lparr>ps_last_error := exn_str e\<rparr>))))"

section \<open>Verified writes\<close>

definition write_text_verified :: "'w os \<Rightarrow> string \<Rightarrow> string \<Rightarrow> ('w, bool) io" where
  "write_text_verified os path expected =
     io_try (io_bind (os_write_text os path expected) (\<lambda>_.
         io_bind (os_read_text os path) (\<lambda>t. io_ret (py_strip t = expected))))
       is_os_error (\<lambda>_. io_ret False)"

text \<open>\<open>{cpu.name[3:]: write(cpu / file, value) for cpu in cpus}\<close>\<close>

definition write_governors :: "'w os \<Rightarrow> string \<Rightarrow> string list \<Rightarrow> ('w, bool dict) io" where
  "write_governors os v cpus =
     io_bind (io_map (\<lambda>cpu. io_bind (write_text_verified os (cpufreq cpu ''scaling_governor'') v) (\<lambda>ok.
       io_ret (cpu_index cpu, ok))) cpus) (\<lambda>kvs. io_ret (dict_merge [] kvs))"

text \<open>\<open>for attempt in range(3)\<close>, from the given attempt on.\<close>

fun epp_attempts :: "'w os \<Rightarrow> string \<Rightarrow> string \<Rightarrow> int \<Rightarrow> nat list \<Rightarrow> bool \<Rightarrow> ('w, bool) io" where
  "epp_attempts os path v deadline [] ok = io_ret ok"
| "epp_attempts os path v deadline (attempt # attempts) ok =
     io_bind (write_text_verified os path v) (\<lambda>ok.
     io_bind (if ok then io_ret True else io_bind (io_call (os_monotonic os)) (\<lambda>now. io_ret (deadline \<le> now))) (\<lambda>leave.
     if leave then io_ret ok
     else io_bind (if attempt < 2
         then io_bind (io_call (os_monotonic os)) (\<lambda>now. os_sleep os (min 50000 (max 0 (deadline - now))))
         else io_ret ()) (\<lambda>_. epp_attempts os path v deadline attempts ok)))"

definition write_epp :: "'w os \<Rightarrow> string \<Rightarrow> string list \<Rightarrow> ('w, bool dict) io" where
  "write_epp os v cpus =
     io_bind (io_call (os_monotonic os)) (\<lambda>now.
     io_bind (io_map (\<lambda>cpu.
       io_bind (epp_attempts os (cpufreq cpu ''energy_performance_preference'') v (now + 2000000) [0, 1, 2] False) (\<lambda>ok.
       io_ret (cpu_index cpu, ok))) cpus) (\<lambda>kvs. io_ret (dict_merge [] kvs)))"

definition write_rapl :: "'w os \<Rightarrow> string \<Rightarrow> string \<Rightarrow> string \<Rightarrow> ('w, string \<times> bool dict) io" where
  "write_rapl os pl1 pl2 tree =
     io_bind (write_text_verified os (path_join tree RAPL_LIMIT_0) pl1) (\<lambda>ok1.
     io_bind (write_text_verified os (path_join tree RAPL_LIMIT_1) pl2) (\<lambda>ok2.
     io_ret (path_name tree, [(RAPL_LIMIT_0, ok1), (RAPL_LIMIT_1, ok2)])))"

definition bools :: "bool dict \<Rightarrow> pv" where
  "bools d = PDict (map (\<lambda>(k, b). (k, PBool b)) d)"

definition nested_bools :: "bool dict dict \<Rightarrow> pv" where
  "nested_bools d = PDict (map (\<lambda>(k, v). (k, bools v)) d)"

section \<open>Rollback\<close>

text \<open>Programs that fill the dictionary \<open>writes\<close> above the adapter: \<open>writes[k] = v\<close> and \<open>writes["rapl"][tree] = v\<close>.\<close>

type_synonym ('w, 'a) rio = "(pv dict \<times> adapter \<times> 'w, 'a) io"

definition record_write :: "string \<Rightarrow> pv \<Rightarrow> ('w, unit) rio" where
  "record_write k v = local_change (\<lambda>d. dict_merge d [(k, v)])"

definition record_rapl :: "string \<Rightarrow> pv \<Rightarrow> ('w, unit) rio" where
  "record_rapl tree v = local_change (\<lambda>d.
     dict_merge d [(''rapl'', PDict (dict_merge (case pv_get d ''rapl'' of PDict r \<Rightarrow> r | _ \<Rightarrow> []) [(tree, v)]))])"

definition restore_limits :: "'w os \<Rightarrow> int option dict \<Rightarrow> string \<Rightarrow> ('w, bool dict) io" where
  "restore_limits os limits tree =
     io_map (\<lambda>f. io_bind (case map_of limits f of
         Some (Some v) \<Rightarrow> write_text_verified os (path_join tree f) (int_str v) | _ \<Rightarrow> io_ret False) (\<lambda>ok. io_ret (f, ok)))
       RAPL_LIMIT_FILES"

fun restore_rapl :: "'w os \<Rightarrow> int option dict dict \<Rightarrow> string list \<Rightarrow> ('w, unit) rio" where
  "restore_rapl os previous [] = io_ret ()"
| "restore_rapl os previous (tree # trees) =
     io_bind (under (under (restore_limits os (dget previous (path_name tree) []) tree))) (\<lambda>oks.
     io_bind (record_rapl (path_name tree) (bools oks)) (\<lambda>_. restore_rapl os previous trees))"

definition restore_policies :: "'w os \<Rightarrow> string \<Rightarrow> string dict \<Rightarrow> string dict \<Rightarrow> ('w, bool dict) io" where
  "restore_policies os name cpu_dirs previous =
     io_map (\<lambda>(index, v). io_bind (case map_of cpu_dirs index of
         None \<Rightarrow> io_ret False
       | Some cpu \<Rightarrow> if v = [] then io_ret False else write_text_verified os (cpufreq cpu name) v) (\<lambda>ok. io_ret (index, ok)))
       previous"

definition restore_number :: "'w os \<Rightarrow> string \<Rightarrow> int option \<Rightarrow> ('w, bool) io" where
  "restore_number os path v =
     (case v of None \<Rightarrow> io_ret False | Some i \<Rightarrow> write_text_verified os path (int_str i))"

definition restore_report :: "'w os \<Rightarrow> power_status \<Rightarrow> ('w, pv dict) rio" where
  "restore_report os previous =
     io_bind (under (read_power_status os)) (\<lambda>observed.
     io_bind local_get (\<lambda>writes.
     io_ret [(''attempted'', PBool True), (''ok'', PBool (py_eq (PDict (status_dict observed)) (PDict (status_dict previous)))),
       (''writes'', PDict writes), (''observed'', PDict (status_dict observed))]))"

definition restore_body :: "'w os \<Rightarrow> power_status \<Rightarrow> ('w, pv dict) rio" where
  "restore_body os previous =
     io_bind (under local_get) (\<lambda>ad.
     io_bind (under (under (power_cpu_dirs os (ad_root ad)))) (\<lambda>cpus.
     let cpu_dirs = dict_merge [] (map (\<lambda>cpu. (cpu_index cpu, cpu)) cpus) in
     io_bind (under (under (restore_policies os ''scaling_governor'' cpu_dirs (map (\<lambda>(i, _). (i, ''powersave'')) cpu_dirs))))
       (\<lambda>pre. io_bind (record_write ''governor_pre'' (bools pre)) (\<lambda>_.
     io_bind (if pst_ppd_profile previous = [] then io_ret False else under (set_ppd_profile os (pst_ppd_profile previous)))
       (\<lambda>ppd. io_bind (record_write ''ppd'' (PBool ppd)) (\<lambda>_.
     io_bind (if ppd then under (under (os_sleep os PPD_SETTLE_US)) else io_ret ()) (\<lambda>_.
     io_bind (record_write ''rapl'' (PDict [])) (\<lambda>_.
     io_bind (under (under (rapl_trees os (ad_root ad)))) (\<lambda>trees.
     io_bind (restore_rapl os (pst_rapl previous) trees) (\<lambda>_.
     io_bind (under (under (restore_policies os ''scaling_governor'' cpu_dirs (pst_governors previous))))
       (\<lambda>governors. io_bind (record_write ''governors'' (bools governors)) (\<lambda>_.
     io_bind (under (under (restore_policies os ''energy_performance_preference'' cpu_dirs (pst_epp previous))))
       (\<lambda>epp. io_bind (record_write ''epp'' (bools epp)) (\<lambda>_.
     io_bind (under (under (restore_number os (no_turbo_path (ad_root ad)) (pst_no_turbo previous)))) (\<lambda>no_turbo.
     io_bind (under (under (restore_number os (max_perf_path (ad_root ad)) (pst_max_perf_pct previous)))) (\<lambda>max_perf_pct.
     io_bind (record_write ''misc'' (bools [(''no_turbo'', no_turbo), (''max_perf_pct'', max_perf_pct)])) (\<lambda>_.
     restore_report os previous)))))))))))))))))"

definition restore_power_status :: "'w os \<Rightarrow> power_status \<Rightarrow> ('w, pv dict) hio" where
  "restore_power_status os previous =
     with_local [] (io_try (restore_body os previous) is_exception (\<lambda>e.
       io_bind local_get (\<lambda>writes.
       io_ret [(''attempted'', PBool True), (''ok'', PBool False), (''writes'', PDict writes), (''error'', PStr (exn_str e))])))"

section \<open>The transaction\<close>

text \<open>\<open>str\<close> of a field of a normalised definition.\<close>

definition field_text :: "pv dict \<Rightarrow> string \<Rightarrow> string" where
  "field_text n k = (case pv_get n k of PStr s \<Rightarrow> s | PInt i \<Rightarrow> int_str i | _ \<Rightarrow> [])"

definition check_ok :: "power_status \<Rightarrow> pv dict \<Rightarrow> string \<Rightarrow> bool" where
  "check_ok observed n key = dget (verify_power_definition (status_dict observed) n) key False"

definition ppd_refused :: "'w os \<Rightarrow> string \<Rightarrow> pv dict \<Rightarrow> power_status \<Rightarrow> bool dict \<Rightarrow> ('w, pv dict) hio" where
  "ppd_refused os profile n previous governor_pre =
     io_bind (read_power_status os) (\<lambda>observed.
     io_bind (restore_power_status os previous) (\<lambda>rollback.
     io_ret [(''profile'', PStr profile),
       (''writes'', PDict [(''governor_pre'', bools governor_pre), (''ppd'', PBool False)]),
       (''observed'', PDict (status_dict observed)),
       (''governor_ok'', PBool (all_true (bools governor_pre) \<and> check_ok observed n ''governor_ok'')),
       (''epp_ok'', PBool False), (''ppd_ok'', PBool False), (''rapl_ok'', PBool False), (''misc_ok'', PBool False),
       (''rollback'', PDict rollback)]))"

text \<open>The final observation, the checks, and the rollback unless all of them hold.\<close>

definition power_report ::
  "'w os \<Rightarrow> string \<Rightarrow> pv dict \<Rightarrow> power_status \<Rightarrow> bool dict \<Rightarrow> pv \<Rightarrow> bool dict \<Rightarrow> bool dict \<Rightarrow> pv \<Rightarrow> ('w, pv dict) hio" where
  "power_report os profile n previous governor_pre rapl_writes governors epp misc_writes =
     io_bind (read_power_status os) (\<lambda>observed.
     let result = [(''profile'', PStr profile),
           (''writes'', PDict [(''ppd'', PBool True), (''governor_pre'', bools governor_pre), (''rapl'', rapl_writes),
             (''epp'', bools epp), (''governor'', bools governors), (''misc'', misc_writes)]),
           (''observed'', PDict (status_dict observed)),
           (''governor_ok'', PBool (all_true (bools governor_pre) \<and> all_true (bools governors) \<and> check_ok observed n ''governor_ok'')),
           (''epp_ok'', PBool (all_true (bools epp) \<and> check_ok observed n ''epp_ok'')),
           (''ppd_ok'', PBool (check_ok observed n ''ppd_ok'')),
           (''rapl_ok'', PBool (all_true rapl_writes \<and> check_ok observed n ''rapl_ok'')),
           (''misc_ok'', PBool (all_true misc_writes \<and> check_ok observed n ''misc_ok''))]
     in if list_all (\<lambda>k. pv_get result k = PBool True) POWER_CHECK_KEYS then io_ret result
        else io_bind (restore_power_status os previous) (\<lambda>rollback. io_ret (result @ [(''rollback'', PDict rollback)])))"

definition write_power :: "'w os \<Rightarrow> string \<Rightarrow> pv dict \<Rightarrow> power_status \<Rightarrow> string list \<Rightarrow> bool dict \<Rightarrow> ('w, pv dict) hio" where
  "write_power os profile n previous cpus governor_pre =
     io_bind (under (os_sleep os PPD_SETTLE_US)) (\<lambda>_.
     io_bind local_get (\<lambda>ad.
     io_bind (under (io_bind (rapl_trees os (ad_root ad))
         (io_map (write_rapl os (field_text n ''pl1_uw'') (field_text n ''pl2_uw''))))) (\<lambda>rapl.
     io_bind (under (write_governors os (field_text n ''governor'') cpus)) (\<lambda>governors.
     io_bind (under (write_epp os (field_text n ''epp'') cpus)) (\<lambda>epp.
     io_bind (under (write_text_verified os (no_turbo_path (ad_root ad))
         (if py_truthy (pv_get n ''turbo_enabled'') then ''0'' else ''1''))) (\<lambda>no_turbo.
     io_bind (under (write_text_verified os (max_perf_path (ad_root ad)) (field_text n ''max_perf_pct''))) (\<lambda>max_perf_pct.
     power_report os profile n previous governor_pre (nested_bools (dict_merge [] rapl)) governors epp
       (bools [(''no_turbo'', no_turbo), (''max_perf_pct'', max_perf_pct)]))))))))"

definition power_transaction :: "'w os \<Rightarrow> string \<Rightarrow> pv dict \<Rightarrow> power_status \<Rightarrow> ('w, pv dict) hio" where
  "power_transaction os profile n previous =
     io_bind local_get (\<lambda>ad.
     io_bind (under (power_cpu_dirs os (ad_root ad))) (\<lambda>cpus.
     io_bind (under (write_governors os ''powersave'' cpus)) (\<lambda>governor_pre.
     io_bind (set_ppd_profile os (field_text n ''ppd_profile'')) (\<lambda>ppd_write_ok.
     if \<not> ppd_write_ok then ppd_refused os profile n previous governor_pre
     else write_power os profile n previous cpus governor_pre))))"

text \<open>What precedes the first write: the refusal, or the checked definition and the observation to return to.\<close>

definition prepare_power :: "'w os \<Rightarrow> 'w honor_tools \<Rightarrow> pv dict \<Rightarrow> ('w, pv dict + pv dict \<times> power_status) hio" where
  "prepare_power os tools df =
     io_bind (io_of (normalize_power_definition df)) (\<lambda>n.
     io_bind (get_power_capability os tools) (\<lambda>c.
     if \<not> writable c
     then io_ret (Inl [(''error'', PStr (if cap_message c \<noteq> [] then cap_message c else ''Power control is unavailable'')),
       (''reason_code'', PStr (cap_reason_code c))])
     else io_bind (read_power_status os) (\<lambda>previous. io_ret (Inr (n, previous)))))"

definition honor_apply_power :: "'w os \<Rightarrow> 'w honor_tools \<Rightarrow> string \<Rightarrow> pv dict option \<Rightarrow> ('w, pv dict) hio" where
  "honor_apply_power os tools profile df =
     io_bind (require_platform os tools) (\<lambda>_.
     case df of
       None \<Rightarrow> io_ret [(''error'', PStr ''A complete power profile definition is required'')]
     | Some df \<Rightarrow>
         io_bind (io_try (prepare_power os tools df) is_exception (\<lambda>e. io_ret (Inl [(''error'', PStr (exn_str e))]))) (\<lambda>r.
         case r of
           Inl refusal \<Rightarrow> io_ret refusal
         | Inr (n, previous) \<Rightarrow>
             io_try (power_transaction os profile n previous) is_exception (\<lambda>e.
               io_bind (restore_power_status os previous) (\<lambda>rollback.
               io_ret [(''error'', PStr (exn_str e)), (''rollback'', PDict rollback)]))))"

end
