(* ===== verification/Honor_Port.thy ===== *)
theory Honor_Port
  imports Adapter_Power
begin

text \<open>
  The production adapter as a hardware port, and what it promises: observing leaves the controlled state of the machine alone,
  a confirmed return of the fan is true, hardware that is not listed is not driven, battery thresholds never cross, and a
  power profile is verified or rolled back. What the machine and the honor-tools package must guarantee for it is stated by locales,
  which are interpreted on the simulated machine.
\<close>

section \<open>The port\<close>

definition honor_port :: "'w os \<Rightarrow> 'w honor_tools \<Rightarrow> (adapter \<times> 'w) hw_port" where
  "honor_port os tools =
     \<lparr>hp_detect_platform = honor_detect_platform os tools,
      hp_battery_capability = get_battery_capability os,
      hp_power_capability = get_power_capability os tools,
      hp_fan_capability = get_fan_capability os tools,
      hp_gestures_capability = get_gestures_capability os,
      hp_gpu_capability = get_gpu_capability tools,
      hp_read_battery = honor_read_battery os,
      hp_write_battery = honor_write_battery os,
      hp_read_power = honor_read_power os tools,
      hp_apply_power = (\<lambda>profile df. honor_apply_power os tools profile (Some df)),
      hp_read_fan = honor_read_fan os tools,
      hp_set_fan_auto = honor_set_fan_auto os tools,
      hp_set_fan_manual = honor_set_fan_manual os tools,
      hp_set_fan_speed = honor_set_fan_speed os tools,
      hp_read_fan_temp = honor_read_fan_temp os tools,
      hp_read_gestures = honor_read_gestures os,
      hp_list_gesture_mappings = honor_list_gesture_mappings,
      hp_probe_touchpad = honor_probe_touchpad os,
      hp_apply_touchpad = honor_apply_touchpad os,
      hp_query_touchpad_support = honor_query_touchpad_support os,
      hp_read_gpu = honor_read_gpu tools,
      hp_apply_gpu = honor_apply_gpu os tools,
      hp_restore_gpu = honor_restore_gpu,
      hp_check_dependency = (\<lambda>x. (ad_honor_ok (fst x), x))\<rparr>"

section \<open>Frames\<close>

abbreviation (input) below :: "('w \<Rightarrow> 'o) \<Rightarrow> 's \<times> 'w \<Rightarrow> 'o" where
  "below obs \<equiv> \<lambda>x. obs (snd x)"

lemma under_eq: "under m x = (r, y) \<longleftrightarrow> m (snd x) = (r, snd y) \<and> fst y = fst x"
  by (cases y) (auto simp: under_def split: prod.splits)

lemma local_get_eq [simp]: "local_get x = (r, y) \<longleftrightarrow> r = Ret (fst x) \<and> y = x"
  by (auto simp: local_get_def)

lemma local_change_eq [simp]: "local_change f x = (r, y) \<longleftrightarrow> r = Ret () \<and> y = (f (fst x), snd x)"
  by (auto simp: local_change_def)

lemma bind_local_get [simp]: "io_bind local_get f x = f (fst x) x"
  by (simp add: io_bind_def local_get_def)

lemma reads_only_under [frames]: "reads_only obs m \<Longrightarrow> reads_only (below obs) (under m)"
  by (auto simp: reads_only_def under_def split: prod.splits) (metis snd_conv)

lemma reads_only_under_fst: "reads_only (\<lambda>x. P (fst x)) (under m)"
  by (auto simp: reads_only_def under_def split: prod.splits)

lemma reads_only_local_get [frames]: "reads_only obs local_get"
  by (simp add: reads_only_def local_get_def)

lemma reads_only_local_change [frames]: "reads_only (below obs) (local_change f)"
  by (simp add: reads_only_def local_change_def)

lemma reads_only_with_local [frames]: "reads_only (below obs) m \<Longrightarrow> reads_only obs (with_local s m)"
  by (auto simp: reads_only_def with_local_def split: prod.splits) (metis snd_conv)

lemma reads_only_case_option [frames]:
  "(x = None \<Longrightarrow> reads_only obs a) \<Longrightarrow> (\<And>y. x = Some y \<Longrightarrow> reads_only obs (b y)) \<Longrightarrow> reads_only obs (case x of None \<Rightarrow> a | Some y \<Rightarrow> b y)"
  by (cases x) simp_all

lemma reads_only_case_sum [frames]:
  "(\<And>y. x = Inl y \<Longrightarrow> reads_only obs (a y)) \<Longrightarrow> (\<And>z. x = Inr z \<Longrightarrow> reads_only obs (b z)) \<Longrightarrow>
    reads_only obs (case x of Inl y \<Rightarrow> a y | Inr z \<Rightarrow> b z)"
  by (cases x) simp_all

lemma reads_only_case_prod [frames]: "(\<And>a b. reads_only obs (f a b)) \<Longrightarrow> reads_only obs (case x of (a, b) \<Rightarrow> f a b)"
  by (cases x) simp

lemma reads_only_case_sysret [frames]:
  "(\<And>y. reads_only obs (a y)) \<Longrightarrow> reads_only obs b \<Longrightarrow> reads_only obs c \<Longrightarrow> (\<And>e. reads_only obs (d e)) \<Longrightarrow>
    reads_only obs (case x of Sys_ret y \<Rightarrow> a y | Sys_interrupted \<Rightarrow> b | Sys_blocked \<Rightarrow> c | Sys_raise e \<Rightarrow> d e)"
  by (cases x) simp_all

lemma reads_only_not [frames]: "reads_only obs m \<Longrightarrow> reads_only obs (io_not m)"
  unfolding io_not_def by (intro frames)

text \<open>An observation of the adapter and the world kept in both parts.\<close>

lemma reads_only_both:
  assumes "reads_only (\<lambda>x. P (fst x)) m" "reads_only (\<lambda>x. Q (snd x)) m"
  shows "reads_only (\<lambda>x. f (P (fst x)) (Q (snd x))) m"
  using assms by (simp add: reads_only_def)

section \<open>What observing leaves alone\<close>

text \<open>
  A machine on which looking changes nothing of \<open>obs\<close>, the state that the adapter controls: files, the clock, hidraw devices and the
  functions of the package that observe, and \<open>powerprofilesctl get\<close>.
\<close>

locale machine_reads =
  fixes os :: "'w os" and tools :: "'w honor_tools" and obs :: "'w \<Rightarrow> 'o"
  assumes looking [frames]:
    "reads_only obs (os_exists os p)" "reads_only obs (os_is_dir os p)" "reads_only obs (os_access os p m)"
    "reads_only obs (os_glob os p g)" "reads_only obs (os_iterdir os p)" "reads_only obs (os_read_text os p)"
    "reads_only obs (os_read_bytes os p)" "reads_only obs (os_which os p)" "reads_only obs (os_run os [e, ''get''])"
    "reads_only obs (os_processor os)" "reads_only obs (os_monotonic os)" "reads_only obs (os_time os)"
    and devices [frames]:
    "reads_only obs (os_open os p m)" "reads_only obs (os_close os fd)" "reads_only obs (os_write os fd bs)"
    "reads_only obs (os_read os fd n)" "reads_only obs (os_select_write os fd d)" "reads_only obs (os_select_read os fd d)"
    and package [frames]:
    "reads_only obs (ht_detect tools)" "reads_only obs (ht_read_state tools plat)" "reads_only obs (ht_find_gpu_irqs tools)"
    "reads_only obs (ht_get_status tools)"
begin

lemma read_int_frame [frames]: "reads_only obs (read_int os p)"
  unfolding read_int_def by (intro frames)

lemma read_path_frame [frames]: "reads_only obs (read_path os p)"
  unfolding read_path_def by (intro frames)

lemma read_rooted_frame [frames]: "reads_only obs (read_rooted os r p)"
  unfolding read_rooted_def by (intro frames)

lemma readable_frame [frames]: "reads_only obs (path_is_readable_and_writable os p)"
  unfolding path_is_readable_and_writable_def by (intro frames)

lemma supply_loop_frame [frames]: "reads_only obs (supply_loop os es bs ac)"
  by (induction es arbitrary: bs ac) (auto simp: supply_type_def intro!: frames)

lemma temperature_loop_frame [frames]: "reads_only obs (temperature_loop os es)"
  by (induction es) (auto intro!: frames)

lemma discovery_frames [frames]:
  "reads_only obs (discover_power_supply os d)" "reads_only obs (discover_temperature_inputs os d)"
  "reads_only obs (discover_fan_inputs os d)"
  unfolding discover_power_supply_def discover_temperature_inputs_def discover_fan_inputs_def hwmon_entries_def entry_fan_inputs_def
  by (intro frames)+

lemma refresh_frame [frames]: "reads_only (below obs) (refresh_discovery os)"
  unfolding refresh_discovery_def by (intro frames)

lemma cpu_model_frame [frames]: "reads_only obs (read_cpu_model os r)"
  unfolding read_cpu_model_def by (intro frames)

lemma identity_frame [frames]: "reads_only obs (identity_matches os r ids)"
  unfolding identity_matches_def by (intro frames)

lemma platform_frames [frames]:
  "reads_only (below obs) (require_platform_or_none os tools)" "reads_only (below obs) (require_fan_platform_or_none os tools)"
  unfolding require_fan_platform_or_none_def require_platform_or_none_def detect_platform_obj_def by (intro frames)+

lemma require_frames [frames]:
  "reads_only (below obs) (require_platform os tools)" "reads_only (below obs) (require_fan_platform os tools)"
  "reads_only (below obs) require_honor"
  unfolding require_platform_def require_fan_platform_def require_honor_def by (intro frames)+

lemma ppd_frame [frames]: "reads_only (below obs) (get_ppd_profile os)"
  unfolding get_ppd_profile_def run_powerprofilesctl_def by (intro frames)

lemma power_dirs_frames [frames]:
  "reads_only obs (power_cpu_dirs os r)" "reads_only obs (rapl_trees os r)" "reads_only obs (read_rapl os t)"
  "reads_only obs (read_policy os c)"
  unfolding power_cpu_dirs_def rapl_trees_def read_rapl_def read_policy_def Let_def by (intro frames)+

lemma status_frame [frames]: "reads_only (below obs) (read_power_status os)"
  unfolding read_power_status_def by (intro frames)

lemma capability_frames [frames]:
  "reads_only (below obs) (get_battery_capability os)" "reads_only (below obs) (get_power_capability os tools)"
  "reads_only (below obs) (get_fan_capability os tools)" "reads_only (below obs) (get_gpu_capability tools)"
  unfolding get_battery_capability_def threshold_capability_def get_power_capability_def get_fan_capability_def
    fan_sensor_capability_def get_gpu_capability_def Let_def by (intro frames)+

lemma discover_frame [frames]: "reads_only obs (discover_loop os sr dr ns)"
  by (induction ns) (auto simp: Let_def hid_identity_def entry_caps_def intro!: frames)

lemma gesture_probe_frame [frames]:
  "reads_only obs (probe_gesture_environment os sr dr)" "reads_only obs (wmi_transport_present os r)"
  unfolding probe_gesture_environment_def discover_touchpad_def discover_touchpad_input_def device_missing_def probe_uinput_def
    wmi_transport_present_def Let_def by (intro frames)+

lemma probe_loop_frame [frames]: "reads_only obs (probe_loop os sr dr v p ns b es)"
  by (induction ns arbitrary: b es) (auto simp: Let_def hid_identity_def entry_caps_def verified_probe_def intro!: frames split: sum.splits)

lemma firmware_probe_frame [frames]: "reads_only obs (probe_touchpad_firmware_hid os sr dr dmi)"
  unfolding probe_touchpad_firmware_hid_def probe_platform_def probe_entries_def Let_def by (intro frames)

lemma read_frames [frames]:
  "reads_only (below obs) (honor_detect_platform os tools)" "reads_only (below obs) (honor_read_battery os)"
  "reads_only (below obs) (honor_read_power os tools)" "reads_only (below obs) (honor_read_fan os tools)"
  "reads_only (below obs) (honor_read_fan_temp os tools)" "reads_only (below obs) (honor_probe_touchpad os)"
  "reads_only (below obs) (honor_read_gestures os)" "reads_only (below obs) (get_gestures_capability os)"
  "reads_only (below obs) (honor_read_gpu tools)"
  unfolding honor_detect_platform_def honor_read_battery_def observe_battery_def honor_read_power_def observe_power_def
    honor_read_fan_temp_def honor_read_fan_def observe_fan_def honor_read_gestures_def honor_probe_touchpad_def
    get_gestures_capability_def honor_read_gpu_def Let_def
  by (intro frames)+

lemma open_frame [frames]: "reads_only obs (transport_open os t)"
  unfolding transport_open_def transport_probe_def Let_def by (intro frames)

lemma write_report_frame [frames]: "reads_only obs (write_report os t fd r)"
  unfolding write_report_def write_round_def Let_def by (intro frames)

lemma write_reports_frame [frames]: "reads_only obs (write_reports os t fd rs n)"
  by (induction rs arbitrary: n) (auto intro!: frames)

lemma apply_plan_frame [frames]: "reads_only obs (apply_plan os t fd path p pg)"
  by (induction p arbitrary: pg) (auto simp: Let_def intro!: frames)

lemma touchpad_frames [frames]:
  "reads_only obs (apply_settings os t settings sync epoch)" "reads_only obs (query_supported_gestures os t sync epoch)"
  unfolding apply_settings_def apply_body_def sync_clock_def query_supported_gestures_def query_body_def timestamp_report_def
    support_round_def Let_def
  by (intro frames)+

lemma touchpad_port_frames [frames]:
  "reads_only (below obs) (honor_apply_touchpad os settings)" "reads_only (below obs) (honor_query_touchpad_support os)"
  unfolding honor_apply_touchpad_def honor_query_touchpad_support_def by (intro frames)+

end

text \<open>The adapter keeps the contract of an observing port.\<close>

sublocale machine_reads < port: observing_port "honor_port os tools" "below obs"
  by unfold_locales
     (simp_all add: honor_port_def capability_frames read_frames touchpad_port_frames honor_list_gesture_mappings_def reads_only_def [of _ "\<lambda>x. (_ x, x)"])

section \<open>What the adapter may believe\<close>

text \<open>
  An adapter for the machine at \<open>sysroot\<close> whose detected platform is one that the package knows. Every operation keeps it, because the
  only platform it ever stores is the one the package detected.
\<close>

definition honest :: "string \<Rightarrow> (honor_platform \<Rightarrow> bool) \<Rightarrow> adapter \<Rightarrow> bool" where
  "honest sysroot genuine ad = (ad_root ad = sysroot \<and> (ad_platform_detected ad \<longrightarrow> pred_option genuine (ad_platform ad)))"

text \<open>The firmware controls the fan, as far as an honest adapter can drive it.\<close>

definition firmware_fan :: "string \<Rightarrow> (honor_platform \<Rightarrow> bool) \<Rightarrow> ('w \<Rightarrow> bool) \<Rightarrow> adapter \<times> 'w \<Rightarrow> bool" where
  "firmware_fan sysroot genuine auto x = (honest sysroot genuine (fst x) \<longrightarrow> auto (snd x))"

named_theorems believing \<open>what keeps an adapter honest\<close>

lemma believing_basic [believing]:
  "reads_only (\<lambda>x. P (fst x)) (io_ret v)" "reads_only (\<lambda>x. P (fst x)) (io_raise e)" "reads_only (\<lambda>x. P (fst x)) (io_of r)"
  "reads_only (\<lambda>x. P (fst x)) local_get" "reads_only (\<lambda>x. P (fst x)) (under m)"
  by (simp_all add: reads_only_local_get reads_only_under_fst)

lemma believing_change [believing]: "(\<And>s. P (f s) = P s) \<Longrightarrow> reads_only (\<lambda>x. P (fst x)) (local_change f)"
  by (simp add: reads_only_def local_change_def)

lemmas [believing] = reads_only_bind reads_only_try reads_only_if reads_only_case_option reads_only_case_sum reads_only_case_prod
  reads_only_with_local

locale known_platforms =
  fixes os :: "'w os" and tools :: "'w honor_tools" and genuine :: "honor_platform \<Rightarrow> bool" and sysroot :: string
  assumes detected: "ht_detect tools w = (Ret (Some p), w') \<Longrightarrow> genuine p"
begin

abbreviation (input) believes :: "adapter \<times> 'w \<Rightarrow> bool" where
  "believes \<equiv> \<lambda>x. honest sysroot genuine (fst x)"

lemma detect_obj_known:
  "detect_platform_obj os tools x = (Ret p, y) \<Longrightarrow> \<not> ad_platform_detected (fst x) \<Longrightarrow> fst y = fst x \<and> pred_option genuine p"
  by (auto simp: detect_platform_obj_def under_eq io_try_def io_bind_def dest: detected split: prod.splits reply.splits if_splits option.splits)

lemma platform_believes [believing]: "reads_only believes (require_platform_or_none os tools)"
  unfolding reads_only_def
proof
  fix x :: "adapter \<times> 'w"
  show "honest sysroot genuine (fst (snd (require_platform_or_none os tools x))) = honest sysroot genuine (fst x)"
  proof (cases "ad_platform_detected (fst x)")
    case True
    then show ?thesis by (simp add: require_platform_or_none_def io_bind_def local_get_def io_ret_def)
  next
    case False
    obtain r y where run: "detect_platform_obj os tools x = (r, y)" by (meson surj_pair)
    have keep: "fst y = fst x"
      using run False by (auto simp: detect_platform_obj_def under_eq)
    show ?thesis
    proof (cases r)
      case (Ret p)
      then show ?thesis using False run detect_obj_known [of x p y] keep
        by (simp add: require_platform_or_none_def io_bind_def local_get_def local_change_def io_ret_def honest_def)
    qed (use False run keep in \<open>simp_all add: require_platform_or_none_def io_bind_def local_get_def\<close>)
  qed
qed

lemma honest_updates [simp]:
  "honest r g (ad\<lparr>ad_battery_path := b, ad_ac_path := a, ad_multiple_batteries := m\<rparr>) = honest r g ad"
  "honest r g (ad\<lparr>ad_temperature_inputs := ts\<rparr>) = honest r g ad" "honest r g (ad\<lparr>ad_fan_inputs := ts\<rparr>) = honest r g ad"
  "honest r g (ad\<lparr>ad_ppd_cache := c\<rparr>) = honest r g ad"
  by (simp_all add: honest_def)

lemma refresh_believes [believing]: "reads_only believes (refresh_discovery os)"
  unfolding refresh_discovery_def by (intro believing; simp)

lemma fan_platform_believes [believing]: "reads_only believes (require_fan_platform_or_none os tools)"
  unfolding require_fan_platform_or_none_def by (intro believing)

lemma require_believes [believing]:
  "reads_only believes (require_platform os tools)" "reads_only believes (require_fan_platform os tools)"
  "reads_only believes require_honor"
  unfolding require_platform_def require_fan_platform_def require_honor_def by (intro believing)+

lemma ppd_believes [believing]: "reads_only believes (get_ppd_profile os)" "reads_only believes (set_ppd_profile os v)"
  unfolding get_ppd_profile_def set_ppd_profile_def by (intro believing; simp)+

lemma status_believes [believing]: "reads_only believes (read_power_status os)"
  unfolding read_power_status_def by (intro believing)

lemma capability_believes [believing]:
  "reads_only believes (get_battery_capability os)" "reads_only believes (get_power_capability os tools)"
  "reads_only believes (get_fan_capability os tools)" "reads_only believes (get_gpu_capability tools)"
  "reads_only believes (get_gestures_capability os)"
  unfolding get_battery_capability_def get_power_capability_def get_fan_capability_def get_gpu_capability_def
    get_gestures_capability_def Let_def
  by (intro believing)+

lemma read_believes [believing]:
  "reads_only believes (honor_detect_platform os tools)" "reads_only believes (honor_read_battery os)"
  "reads_only believes (honor_read_power os tools)" "reads_only believes (honor_read_fan os tools)"
  "reads_only believes (honor_read_fan_temp os tools)" "reads_only believes (honor_probe_touchpad os)"
  "reads_only believes (honor_read_gestures os)" "reads_only believes (honor_read_gpu tools)"
  "reads_only believes (honor_query_touchpad_support os)"
  unfolding honor_detect_platform_def honor_read_battery_def honor_read_power_def observe_power_def honor_read_fan_temp_def
    honor_read_fan_def honor_read_gestures_def honor_probe_touchpad_def honor_read_gpu_def honor_query_touchpad_support_def
  by (intro believing)+

lemma restore_rapl_believes: "reads_only (below believes) (restore_rapl os previous trees)"
  by (induction trees) (auto simp: record_rapl_def intro!: believing reads_only_under reads_only_local_change)

lemma restore_believes [believing]: "reads_only believes (restore_power_status os previous)"
  unfolding restore_power_status_def restore_body_def restore_report_def record_write_def Let_def
  by (intro reads_only_with_local reads_only_try reads_only_bind reads_only_ret reads_only_under reads_only_local_get
      reads_only_local_change reads_only_if restore_rapl_believes believing)

lemma write_believes [believing]:
  "reads_only believes (honor_write_battery os en st)" "reads_only believes (honor_apply_power os tools p df)"
  "reads_only believes (honor_apply_touchpad os ss)" "reads_only believes (honor_apply_gpu os tools)"
  "reads_only believes (on_fan_platform os tools body)"
  unfolding honor_write_battery_def honor_apply_power_def prepare_power_def power_transaction_def ppd_refused_def write_power_def power_report_def
    honor_apply_touchpad_def honor_apply_gpu_def on_fan_platform_def Let_def
  by (intro believing)+

end

section \<open>Who may be driven\<close>

lemma platform_stored:
  "require_platform_or_none os tools x = (Ret p, y) \<Longrightarrow> ad_platform (fst y) = p \<and> ad_platform_detected (fst y)"
  by (auto simp: require_platform_or_none_def io_bind_eq_Ret split: if_splits)

lemma fan_platform_stored:
  "require_fan_platform os tools x = (Ret plat, y) \<Longrightarrow> ad_platform (fst y) = Some plat \<and> ad_platform_detected (fst y)"
  by (auto simp: require_fan_platform_def require_fan_platform_or_none_def io_bind_eq_Ret under_eq dest: platform_stored
      split: option.splits if_splits)

text \<open>A fan command is refused before anything happened, or runs on the stored platform.\<close>

lemma fan_command_cases:
  assumes run: "on_fan_platform os tools body x = (r, y)"
  obtains (refused) "\<And>v. r \<noteq> Ret v" "y = x \<or> (\<exists>r'. require_fan_platform os tools x = (r', y))"
    | (runs) plat x1 where "ad_honor_ok (fst x)" "require_fan_platform os tools x = (Ret plat, x1)"
        "body (ad_root (fst x1)) plat (snd x1) = (r, snd y)" "fst y = fst x1"
proof (cases "ad_honor_ok (fst x)")
  case False
  then show thesis using run refused by (auto simp: on_fan_platform_def require_honor_def io_bind_def io_raise_def local_get_def)
next
  case True
  obtain r' x1 where req: "require_fan_platform os tools x = (r', x1)" by (meson surj_pair)
  show thesis
  proof (cases r')
    case (Ret plat)
    then have "body (ad_root (fst x1)) plat (snd x1) = (r, snd y) \<and> fst y = fst x1"
      using run True req by (simp add: on_fan_platform_def require_honor_def io_bind_def io_ret_def local_get_def under_eq)
    then show thesis using runs True req Ret by blast
  qed (use run True req refused in \<open>auto simp: on_fan_platform_def require_honor_def io_bind_def io_ret_def local_get_def\<close>)
qed

section \<open>The fan contract\<close>

text \<open>The exceptions of the queue and of the event loop are neither the system's nor the package's.\<close>

definition port_error :: "exn \<Rightarrow> bool" where
  "port_error e = (case e of CancelledError \<Rightarrow> False | CommandTimeoutError m b \<Rightarrow> False | _ \<Rightarrow> True)"

lemma port_replyI: "raises_only port_error m \<Longrightarrow> port_reply (fst (m w))"
  by (cases "m w"; cases "fst (m w)") (auto simp: port_reply_def port_error_def dest: raises_onlyD)

lemma raises_only_under [raising]: "raises_only P m \<Longrightarrow> raises_only P (under m)"
  by (auto simp: raises_only_def under_eq)

lemma raises_only_local [raising]: "raises_only P local_get" "raises_only P (local_change f)"
  by (auto simp: raises_only_def)

lemma raises_only_case_option [raising]:
  "(x = None \<Longrightarrow> raises_only P a) \<Longrightarrow> (\<And>y. x = Some y \<Longrightarrow> raises_only P (b y)) \<Longrightarrow> raises_only P (case x of None \<Rightarrow> a | Some y \<Rightarrow> b y)"
  by (cases x) simp_all

lemma raises_only_case_prod [raising]: "(\<And>a b. raises_only P (f a b)) \<Longrightarrow> raises_only P (case x of (a, b) \<Rightarrow> f a b)"
  by (cases x) simp

lemma port_errors [raising]: "port_error (DomainException d m)" "port_error (ValueError m)"
  by (simp_all add: port_error_def)

text \<open>
  A machine with a fan: only ACPI calls reach it. For a platform the package knows, a zero answer to the automatic
  command means that the firmware has the fan, and that command never takes it away.
\<close>

locale fan_machine = machine_reads os tools auto + known_platforms os tools genuine sysroot
  for os :: "'w os" and tools :: "'w honor_tools" and auto :: "'w \<Rightarrow> bool" and genuine :: "honor_platform \<Rightarrow> bool" and sysroot :: string +
  assumes elsewhere [frames]: "reads_only auto (os_write_text os p t)" "reads_only auto (os_run os args)"
    "reads_only auto (os_sleep os d)" "reads_only auto (ht_apply_irq_fix tools plat)"
    and controller: "genuine plat \<Longrightarrow>
      os_exchange os (rooted sysroot (acpi_call_path plat)) (op_fan_auto_cmd plat @ [CHR 10]) w = (Ret answer, w') \<Longrightarrow>
      acpi_zero (acpi_strip answer) = Inr True \<Longrightarrow> auto w'"
    and controller_keeps: "genuine plat \<Longrightarrow> auto w \<Longrightarrow>
      auto (snd (os_exchange os (rooted sysroot (acpi_call_path plat)) (op_fan_auto_cmd plat @ [CHR 10]) w))"
    and system [raising]:
    "raises_only port_error (os_exists os p)" "raises_only port_error (os_is_dir os p)" "raises_only port_error (os_glob os p g)"
    "raises_only port_error (os_iterdir os p)" "raises_only port_error (os_read_text os p)"
    "raises_only port_error (os_exchange os p t)" "raises_only port_error (ht_detect tools)"
    "raises_only port_error (ht_read_state tools plat)"
    and templates: "ht_format tools template v = Inl e \<Longrightarrow> port_error e"
begin

lemma file_raises [raising]:
  "raises_only port_error (read_int os p)" "raises_only port_error (read_path os p)" "raises_only port_error (read_rooted os r p)"
  unfolding read_int_def read_path_def read_rooted_def by (intro raising)+

lemma loop_raises [raising]:
  "raises_only port_error (supply_loop os es bs ac)" "raises_only port_error (temperature_loop os es)"
  by (induction es arbitrary: bs ac) (auto simp: supply_type_def intro!: raising)

lemma discovery_raises [raising]: "raises_only port_error (refresh_discovery os)"
  unfolding refresh_discovery_def discover_power_supply_def discover_temperature_inputs_def discover_fan_inputs_def hwmon_entries_def
    entry_fan_inputs_def
  by (intro raising)

lemma platform_raises [raising]:
  "raises_only port_error (require_fan_platform_or_none os tools)" "raises_only port_error (require_fan_platform os tools)"
  "raises_only port_error require_honor"
  unfolding require_fan_platform_def require_fan_platform_or_none_def require_platform_or_none_def detect_platform_obj_def
    identity_matches_def read_cpu_model_def require_honor_def
  by (intro raising)+

lemma acpi_raises [raising]: "raises_only port_error (verified_acpi_call os r plat c)"
  unfolding verified_acpi_call_def by (intro raising) (auto simp: acpi_zero_def port_error_def split: if_splits option.splits)

lemma fan_raises:
  "raises_only port_error (honor_set_fan_auto os tools)" "raises_only port_error (honor_set_fan_manual os tools v)"
  "raises_only port_error (honor_set_fan_speed os tools v)" "raises_only port_error (honor_read_fan os tools)"
  "raises_only port_error (honor_read_fan_temp os tools)"
  unfolding honor_set_fan_auto_def honor_set_fan_manual_def honor_set_fan_speed_def on_fan_platform_def honor_read_fan_temp_def
    honor_read_fan_def observe_fan_def Let_def
  by (intro raising; erule templates)+

subsection \<open>Other writes leave the fan alone\<close>

lemma write_file_frames [frames]:
  "reads_only auto (write_int os p v)" "reads_only auto (write_text_verified os p t)"
  unfolding write_int_def write_text_verified_def by (intro frames)+

lemma epp_frame [frames]: "reads_only auto (epp_attempts os p v d as b)"
  by (induction "as" arbitrary: b) (auto intro!: frames)

lemma power_write_frames [frames]:
  "reads_only auto (write_governors os v cpus)" "reads_only auto (write_epp os v cpus)" "reads_only auto (write_rapl os a b t)"
  "reads_only auto (restore_limits os ls t)" "reads_only auto (restore_policies os n ds ps)" "reads_only auto (restore_number os p i)"
  unfolding write_governors_def write_epp_def write_rapl_def restore_limits_def restore_policies_def restore_number_def
  by (intro frames)+

lemma set_ppd_frame [frames]: "reads_only (below auto) (set_ppd_profile os p)"
  unfolding set_ppd_profile_def run_powerprofilesctl_def by (intro frames)

lemma restore_rapl_frame [frames]: "reads_only (below (below auto)) (restore_rapl os previous trees)"
  by (induction trees) (auto simp: record_rapl_def intro!: frames)

lemma restore_power_frame [frames]: "reads_only (below auto) (restore_power_status os previous)"
  unfolding restore_power_status_def restore_body_def restore_report_def record_write_def Let_def by (intro frames)

lemma write_frames:
  "reads_only (below auto) (honor_write_battery os en st)" "reads_only (below auto) (honor_apply_power os tools p df)"
  "reads_only (below auto) (honor_apply_gpu os tools)" "reads_only (below auto) honor_restore_gpu"
  unfolding honor_write_battery_def write_thresholds_def honor_apply_power_def prepare_power_def power_transaction_def ppd_refused_def
    write_power_def power_report_def honor_apply_gpu_def honor_restore_gpu_def Let_def
  by (intro frames)+

lemma fan_kept: "reads_only (below auto) m \<Longrightarrow> reads_only believes m \<Longrightarrow> reads_only (firmware_fan sysroot genuine auto) m"
  by (simp add: reads_only_def firmware_fan_def)

subsection \<open>Returning the fan\<close>

lemma genuine_platform:
  "require_fan_platform os tools x = (Ret plat, y) \<Longrightarrow> honest sysroot genuine (fst y) \<Longrightarrow> genuine plat \<and> ad_root (fst y) = sysroot"
  using fan_platform_stored [of os tools x plat y] by (simp add: honest_def)

lemma acpi_confirms:
  assumes "verified_acpi_call os sysroot plat (op_fan_auto_cmd plat) w = (Ret True, w')" "genuine plat"
  shows "auto w'"
proof -
  obtain answer where "os_exchange os (rooted sysroot (acpi_call_path plat)) (op_fan_auto_cmd plat @ [CHR 10]) w = (Ret answer, w')"
    "acpi_zero (acpi_strip answer) = Inr True"
    using assms(1) by (auto simp: verified_acpi_call_def io_try_def io_bind_def io_of_def split: prod.splits reply.splits if_splits sum.splits)
  then show ?thesis using controller [OF assms(2)] by blast
qed

lemma acpi_keeps:
  assumes "verified_acpi_call os sysroot plat (op_fan_auto_cmd plat) w = (r, w')" "genuine plat" "auto w"
  shows "auto w'"
proof -
  have "w' = snd (os_exchange os (rooted sysroot (acpi_call_path plat)) (op_fan_auto_cmd plat @ [CHR 10]) w)"
    using assms(1) by (auto simp: verified_acpi_call_def io_try_def io_bind_def io_of_def split: prod.splits reply.splits if_splits sum.splits)
  then show ?thesis using controller_keeps [OF assms(2,3)] by simp
qed

lemma set_auto_confirmed:
  assumes "honor_set_fan_auto os tools x = (Ret True, y)" "honest sysroot genuine (fst y)"
  shows "auto (snd y)"
  using assms(1) unfolding honor_set_fan_auto_def
proof (cases rule: fan_command_cases)
  case (runs plat x1)
  then show ?thesis using genuine_platform [OF runs(2)] assms(2) by (auto intro: acpi_confirms)
qed blast

lemma set_auto_kept:
  assumes "honor_set_fan_auto os tools x = (r, y)" "honest sysroot genuine (fst y)" "auto (snd x)"
  shows "auto (snd y)"
  using assms(1) unfolding honor_set_fan_auto_def
proof (cases rule: fan_command_cases)
  case refused
  then show ?thesis using assms(3) require_frames(2) by (auto dest: reads_onlyD)
next
  case (runs plat x1)
  have "auto (snd x1)" using reads_onlyD [OF require_frames(2) runs(2)] assms(3) by simp
  then show ?thesis using genuine_platform [OF runs(2)] runs assms(2) by (auto intro: acpi_keeps)
qed

lemma set_auto_believes: "honor_set_fan_auto os tools x = (r, y) \<Longrightarrow> honest sysroot genuine (fst y) = honest sysroot genuine (fst x)"
  using reads_onlyD [OF write_believes(5), of _ x r y] by (simp add: honor_set_fan_auto_def)

end

text \<open>The adapter keeps the contract of a fan port, on which the safety of the service rests.\<close>

sublocale fan_machine < fan: fan_port "honor_port os tools" "firmware_fan sysroot genuine auto"
proof unfold_locales
  fix w w'
  assume "hp_set_fan_auto (honor_port os tools) w = (Ret True, w')"
  then show "firmware_fan sysroot genuine auto w'"
    using set_auto_confirmed [of w w'] by (simp add: honor_port_def firmware_fan_def)
next
  fix w
  assume "firmware_fan sysroot genuine auto w"
  then show "firmware_fan sysroot genuine auto (snd (hp_set_fan_auto (honor_port os tools) w))"
    using set_auto_kept [of w "fst (honor_set_fan_auto os tools w)" "snd (honor_set_fan_auto os tools w)"]
      set_auto_believes [of w "fst (honor_set_fan_auto os tools w)" "snd (honor_set_fan_auto os tools w)"]
    by (simp add: honor_port_def firmware_fan_def)
qed (simp_all add: honor_port_def port_replyI fan_raises fan_kept capability_frames read_frames touchpad_port_frames write_frames
      capability_believes read_believes write_believes honor_list_gesture_mappings_def honor_restore_gpu_def
      reads_only_def [of _ "\<lambda>x. (_ x, x)"])

end
