(* ===== verification/Adapter_Safety.thy ===== *)
theory Adapter_Safety
  imports Honor_Port
begin

text \<open>
  What the production adapter guarantees, operation by operation and over any sequence of operations: the fan is where it says, hardware
  that is not listed is left alone, charge thresholds never cross, power profiles are verified or rolled back.
\<close>

section \<open>Sequences of operations\<close>

text \<open>One call of an operation of a port; the flag marks the two commands that take the fan from the firmware.\<close>

inductive port_step :: "'w hw_port \<Rightarrow> bool \<Rightarrow> 'w \<Rightarrow> 'w \<Rightarrow> bool" for hw :: "'w hw_port" where
  "port_step hw False w (snd (hp_detect_platform hw w))"
| "port_step hw False w (snd (hp_battery_capability hw w))"
| "port_step hw False w (snd (hp_power_capability hw w))"
| "port_step hw False w (snd (hp_fan_capability hw w))"
| "port_step hw False w (snd (hp_gestures_capability hw w))"
| "port_step hw False w (snd (hp_gpu_capability hw w))"
| "port_step hw False w (snd (hp_read_battery hw w))"
| "port_step hw False w (snd (hp_write_battery hw en st w))"
| "port_step hw False w (snd (hp_read_power hw w))"
| "port_step hw False w (snd (hp_apply_power hw profile df w))"
| "port_step hw False w (snd (hp_read_fan hw w))"
| "port_step hw False w (snd (hp_set_fan_auto hw w))"
| "port_step hw True w (snd (hp_set_fan_manual hw v w))"
| "port_step hw True w (snd (hp_set_fan_speed hw v w))"
| "port_step hw False w (snd (hp_read_fan_temp hw w))"
| "port_step hw False w (snd (hp_read_gestures hw w))"
| "port_step hw False w (snd (hp_list_gesture_mappings hw w))"
| "port_step hw False w (snd (hp_probe_touchpad hw w))"
| "port_step hw False w (snd (hp_apply_touchpad hw settings w))"
| "port_step hw False w (snd (hp_query_touchpad_support hw w))"
| "port_step hw False w (snd (hp_read_gpu hw w))"
| "port_step hw False w (snd (hp_apply_gpu hw w))"
| "port_step hw False w (snd (hp_restore_gpu hw w))"
| "port_step hw False w (snd (hp_check_dependency hw w))"

context fan_port
begin

lemma quiet_step: "port_step hw False w w' \<Longrightarrow> auto w \<Longrightarrow> auto w'"
  by (cases rule: port_step.cases, assumption) (simp_all add: fan_reads [unfolded reads_only_def, THEN spec] auto_kept)

lemma quiet_steps: "(port_step hw False)\<^sup>*\<^sup>* w w' \<Longrightarrow> auto w \<Longrightarrow> auto w'"
  by (induction rule: rtranclp_induct) (auto dest: quiet_step)

end

context known_platforms
begin

lemma step_believes: "port_step (honor_port os tools) b x y \<Longrightarrow> believes y = believes x"
  by (cases rule: port_step.cases, assumption)
     (simp_all add: honor_port_def honor_list_gesture_mappings_def honor_restore_gpu_def honor_set_fan_auto_def honor_set_fan_manual_def
        honor_set_fan_speed_def io_ret_def capability_believes [unfolded reads_only_def, THEN spec]
        read_believes [unfolded reads_only_def, THEN spec] write_believes [unfolded reads_only_def, THEN spec])

lemma steps_believe: "(\<lambda>x y. \<exists>b. port_step (honor_port os tools) b x y)\<^sup>*\<^sup>* x y \<Longrightarrow> believes x \<Longrightarrow> believes y"
  by (induction rule: rtranclp_induct) (auto dest: step_believes)

lemma quiet_believe: "(port_step (honor_port os tools) b)\<^sup>*\<^sup>* x y \<Longrightarrow> believes x \<Longrightarrow> believes y"
  by (induction rule: rtranclp_induct) (auto dest: step_believes)

text \<open>A new adapter has not detected a platform yet.\<close>

lemma init_honest:
  assumes "adapter_init os tools root_path w = (Ret ad, w')" "sysroot = (case root_path of None \<Rightarrow> ''/'' | Some p \<Rightarrow> p)"
  shows "honest sysroot genuine ad"
proof -
  obtain ok err w1 where "with_local
       \<lparr>ad_root = sysroot, ad_honor_error = err, ad_honor_ok = ok, ad_platform = None,
        ad_platform_detected = False, ad_battery_path = None, ad_ac_path = None, ad_multiple_batteries = False,
        ad_temperature_inputs = [], ad_fan_inputs = [], ad_ppd_cache = None\<rparr>
       (io_bind (refresh_discovery os) (\<lambda>_. local_get)) w1 = (Ret ad, w')" (is "with_local ?ad _ _ = _")
    using assms by (auto simp: adapter_init_def io_bind_eq_Ret)
  then obtain u where "refresh_discovery os (?ad, w1) = (Ret u, ad, w')"
    by (auto simp: with_local_def io_bind_eq_Ret split: prod.splits)
  from reads_onlyD [OF refresh_believes this] show ?thesis by (simp add: honest_def)
qed

end

context fan_machine
begin

lemma returned_stays:
  assumes "honor_set_fan_auto os tools x = (Ret True, y)" "believes x" "(port_step (honor_port os tools) False)\<^sup>*\<^sup>* y z"
  shows "auto (snd z)"
proof -
  have "hp_set_fan_auto (honor_port os tools) x = (Ret True, y)" using assms(1) by (simp add: honor_port_def)
  then have "firmware_fan sysroot genuine auto z" using fan.auto_confirmed fan.quiet_steps assms(3) by blast
  moreover have "believes y" using set_auto_believes [OF assms(1)] assms(2) by simp
  then have "believes z" by (rule quiet_believe [OF assms(3)])
  ultimately show ?thesis by (simp add: firmware_fan_def)
qed

lemma returned_since_init:
  assumes "adapter_init os tools root_path w = (Ret ad, w')" "sysroot = (case root_path of None \<Rightarrow> ''/'' | Some p \<Rightarrow> p)"
    and "(\<lambda>x y. \<exists>b. port_step (honor_port os tools) b x y)\<^sup>*\<^sup>* (ad, w') x"
    and "honor_set_fan_auto os tools x = (Ret True, y)" "(port_step (honor_port os tools) False)\<^sup>*\<^sup>* y z"
  shows "auto (snd z)"
  using returned_stays [OF assms(4) _ assms(5)] steps_believe [OF assms(3)] init_honest [OF assms(1,2)] by simp

end

section \<open>Listed hardware\<close>

definition view_read :: "fs_view \<Rightarrow> string \<Rightarrow> string" where
  "view_read v p = (case fv_text v p of Ret t \<Rightarrow> py_strip t | _ \<Rightarrow> [])"

definition view_cpu_model :: "fs_view \<Rightarrow> string \<Rightarrow> string" where
  "view_cpu_model v sysroot =
     (let model = view_read v (rooted sysroot ''/sys/devices/system/cpu/cpu0/model_name'')
      in if model \<noteq> [] then model else cpuinfo_model (py_splitlines (view_read v (rooted sysroot ''/proc/cpuinfo''))))"

text \<open>The vendor, the product and the processor of the machine are on the list.\<close>

definition view_listed :: "fs_view \<Rightarrow> string \<Rightarrow> string list dict \<Rightarrow> bool" where
  "view_listed v sysroot identities =
     identity_listed identities (view_read v (rooted sysroot SYS_VENDOR)) (view_read v (rooted sysroot PRODUCT_NAME))
       (py_casefold (view_cpu_model v sysroot))"

text \<open>A platform that was detected earlier was detected on this machine.\<close>

definition detected_here :: "fs_view \<Rightarrow> adapter \<Rightarrow> bool" where
  "detected_here v ad =
     (ad_platform_detected ad \<and> ad_platform ad \<noteq> None \<longrightarrow> view_listed v (ad_root ad) SUPPORTED_PLATFORM_IDENTITIES)"

context visible_files
begin

lemma read_path_sees:
  assumes "read_path os p w = (Ret t, w')"
  shows "t = view_read (view w) p \<and> view w' = view w"
proof -
  obtain r w1 where r: "os_read_text os p w = (r, w1)" by fastforce
  from looksD [OF answers(6) this] assms r show ?thesis
    by (auto simp: read_path_def io_try_def io_bind_def io_ret_def view_read_def split: reply.splits if_splits)
qed

lemma cpu_model_sees: "read_cpu_model os r w = (Ret t, w') \<Longrightarrow> t = view_cpu_model (view w) r \<and> view w' = view w"
  by (fastforce simp: read_cpu_model_def read_rooted_def io_bind_eq_Ret view_cpu_model_def dest!: read_path_sees split: if_splits)

lemma identity_sees: "identity_matches os r ids w = (Ret b, w') \<Longrightarrow> b = view_listed (view w) r ids \<and> view w' = view w"
  by (fastforce simp: identity_matches_def read_rooted_def io_bind_eq_Ret view_listed_def dest!: read_path_sees cpu_model_sees)

lemma look_frame [frames]: "reads_only view (os_read_text os p)"
  using answers(6) by (simp add: looks_def reads_only_def)

end

text \<open>A machine whose files can be seen, and a state \<open>obs\<close> of fan, power and GPU that looking leaves alone.\<close>

locale listed_machine = visible_files os view + machine_reads os tools obs
  for os :: "'w os" and tools :: "'w honor_tools" and view :: "'w \<Rightarrow> fs_view" and obs :: "'w \<Rightarrow> 'o" +
  assumes detecting [frames]: "reads_only view (ht_detect tools)"
begin

lemma platform_view: "reads_only (below view) (require_platform_or_none os tools)"
  unfolding require_platform_or_none_def detect_platform_obj_def identity_matches_def read_cpu_model_def read_rooted_def read_path_def
  by (intro frames)

lemma platform_root: "reads_only (\<lambda>x. ad_root (fst x)) (require_platform_or_none os tools)"
  unfolding require_platform_or_none_def detect_platform_obj_def by (intro believing; simp)

lemma platform_listed:
  assumes "require_platform_or_none os tools x = (Ret (Some p), y)" "detected_here (view (snd x)) (fst x)"
  shows "view_listed (view (snd x)) (ad_root (fst x)) SUPPORTED_PLATFORM_IDENTITIES"
proof (cases "ad_platform_detected (fst x)")
  case True
  then show ?thesis using assms by (auto simp: require_platform_or_none_def detected_here_def)
next
  case False
  then obtain x1 where "detect_platform_obj os tools x = (Ret (Some p), x1)"
    using assms(1) by (auto simp: require_platform_or_none_def io_bind_eq_Ret)
  then show ?thesis using False identity_sees
    by (fastforce simp: detect_platform_obj_def under_eq io_try_def io_bind_def split: prod.splits reply.splits if_splits option.splits)
qed

lemma fan_platform_listed:
  assumes "require_fan_platform os tools x = (Ret plat, y)"
  shows "view_listed (view (snd x)) (ad_root (fst x)) SUPPORTED_FAN_IDENTITIES"
proof -
  obtain p x1 where "require_platform_or_none os tools x = (Ret p, x1)"
    and listed: "identity_matches os (ad_root (fst x1)) SUPPORTED_FAN_IDENTITIES (snd x1) = (Ret True, snd y)"
    using assms by (auto simp: require_fan_platform_def require_fan_platform_or_none_def io_bind_eq_Ret under_eq split: option.splits if_splits)
  then have "view (snd x1) = view (snd x)" "ad_root (fst x1) = ad_root (fst x)"
    using reads_onlyD [OF platform_view] reads_onlyD [OF platform_root] by auto
  then show ?thesis using identity_sees [OF listed] by simp
qed

lemma bind_require_honor: "ad_honor_ok (fst x) \<Longrightarrow> io_bind require_honor f x = f () x"
  by (simp add: require_honor_def io_bind_def local_get_def io_ret_def)

text \<open>What happens behind a check that only observes.\<close>

lemma gated: "reads_only (below obs) m \<Longrightarrow> io_bind m f x = (r, y) \<Longrightarrow> obs (snd y) \<noteq> obs (snd x) \<Longrightarrow> \<exists>v x1. m x = (Ret v, x1)"
  by (auto simp: io_bind_def dest: reads_onlyD split: prod.splits reply.splits)

lemma fan_gate:
  assumes "obs (snd (snd (on_fan_platform os tools body x))) \<noteq> obs (snd x)"
  shows "ad_honor_ok (fst x) \<and> view_listed (view (snd x)) (ad_root (fst x)) SUPPORTED_FAN_IDENTITIES"
proof -
  obtain r y where run: "on_fan_platform os tools body x = (r, y)" by (meson surj_pair)
  then show ?thesis
  proof (cases rule: fan_command_cases)
    case refused
    then have "obs (snd y) = obs (snd x)" using reads_onlyD [OF require_frames(2)] by blast
    then show ?thesis using assms run by simp
  next
    case (runs plat x1)
    then show ?thesis using fan_platform_listed by blast
  qed
qed

lemma require_platform_listed:
  assumes "require_platform os tools x = (Ret plat, y)" "detected_here (view (snd x)) (fst x)"
  shows "view_listed (view (snd x)) (ad_root (fst x)) SUPPORTED_PLATFORM_IDENTITIES"
  using assms platform_listed by (fastforce simp: require_platform_def io_bind_eq_Ret split: option.splits)

lemma platform_gate:
  assumes "obs (snd (snd (io_bind (require_platform os tools) f x))) \<noteq> obs (snd x)" "detected_here (view (snd x)) (fst x)"
  shows "view_listed (view (snd x)) (ad_root (fst x)) SUPPORTED_PLATFORM_IDENTITIES"
proof -
  obtain r y where "io_bind (require_platform os tools) f x = (r, y)" by (meson surj_pair)
  with gated [OF require_frames(1) this] assms require_platform_listed show ?thesis by auto
qed

lemma gpu_gate:
  assumes "obs (snd (snd (honor_apply_gpu os tools x))) \<noteq> obs (snd x)" "detected_here (view (snd x)) (fst x)"
  shows "view_listed (view (snd x)) (ad_root (fst x)) SUPPORTED_PLATFORM_IDENTITIES"
proof (cases "ad_honor_ok (fst x)")
  case True
  then show ?thesis using assms platform_gate unfolding honor_apply_gpu_def by (simp add: bind_require_honor)
next
  case False
  then show ?thesis using assms(1) by (simp add: honor_apply_gpu_def require_honor_def io_bind_def local_get_def io_raise_def)
qed

end

section \<open>The adapter on the simulated machine\<close>

definition sim_platform :: honor_platform where
  "sim_platform = \<lparr>op_name = ''MRA-XXX'', op_acpi_call_path = None, op_fan_auto_cmd = ''auto'', op_fan_manual_cmd = ''manual'',
     op_fan_speed_cmds = [''left '', ''right '']\<rparr>"

definition sim_tools :: "sim honor_tools" where
  "sim_tools =
     \<lparr>ht_import = (\<lambda>w. (Ret (replicate 8 True), w)), ht_version = (\<lambda>w. (Ret ''0.1.0'', w)),
      ht_detect = (\<lambda>w. (Ret (Some sim_platform), w)),
      ht_read_state = (\<lambda>p w. (Ret [(''temp'', PInt 45000), (''fan_rpm'', PInt 2000)], w)),
      ht_format = (\<lambda>template v. Inr (template @ int_str v)), ht_find_gpu_irqs = (\<lambda>w. (Ret [''i915''], w)),
      ht_get_status = (\<lambda>w. (Ret [(''gpu_irqs'', [''i915''])], w)), ht_apply_irq_fix = (\<lambda>p w. (Ret [], w))\<rparr>"

text \<open>The controls of the machine: its writable files, the profile of the daemon, and the fan.\<close>

definition sim_controls :: "sim \<Rightarrow> string dict \<times> string \<times> bool" where
  "sim_controls w = (sim_texts w, sim_profile w, sim_fan_auto w)"

lemmas sim_calls = sim_os_def sim_tools_def sim_write_def sim_read_def sim_signal_def sim_tick_def sim_run_def sim_write_text_def
  sim_exchange_def

interpretation sim_listed: listed_machine sim_os sim_tools sim_view sim_controls
  by unfold_locales (auto simp: reads_only_def sim_calls sim_controls_def split: list.splits)

interpretation sim_ec: fan_machine sim_os sim_tools sim_fan_auto "\<lambda>p. p = sim_platform" "''/''"
  by unfold_locales
     (auto simp: reads_only_def raises_only_def port_error_def of_file_def no_file_def sim_names_def sim_glob_def sim_calls sim_platform_def
       split: list.splits option.splits if_splits)

text \<open>A listed laptop with a battery, an adapter, a temperature sensor, one processor policy and one RAPL tree.\<close>

definition workstation :: sim where
  "workstation = laptop
     \<lparr>sim_texts := sim_texts laptop @
        [(''/sys/devices/system/cpu/cpu0/model_name'', ''Core(TM) Ultra 5 125H''), (''/proc/acpi/call'', []),
         (''/sys/class/power_supply/BAT1/type'', ''Battery''), (''/sys/class/power_supply/BAT1/status'', ''Not charging''),
         (''/sys/class/power_supply/BAT1/capacity'', ''75''),
         (''/sys/class/power_supply/BAT1/charge_control_end_threshold'', ''90''),
         (''/sys/class/power_supply/BAT1/charge_control_start_threshold'', ''85''),
         (''/sys/class/power_supply/ADP1/type'', ''Mains''), (''/sys/class/power_supply/ADP1/online'', ''1''),
         (''/sys/class/hwmon/hwmon0/name'', ''coretemp''), (''/sys/class/hwmon/hwmon0/temp1_input'', ''45000''),
         (''/sys/devices/system/cpu/cpu0/cpufreq/scaling_governor'', ''powersave''),
         (''/sys/devices/system/cpu/cpu0/cpufreq/energy_performance_preference'', ''balance_power''),
         (''/sys/class/powercap/intel-rapl:0/constraint_0_power_limit_uw'', ''25000000''),
         (''/sys/class/powercap/intel-rapl:0/constraint_1_power_limit_uw'', ''35000000''),
         (''/sys/devices/system/cpu/intel_pstate/no_turbo'', ''0''), (''/sys/devices/system/cpu/intel_pstate/max_perf_pct'', ''100'')],
      sim_dirs := sim_dirs laptop @
        [(''/sys/class/power_supply'', [''BAT1'', ''ADP1'']), (''/sys/class/power_supply/BAT1'', []),
         (''/sys/class/power_supply/ADP1'', []), (''/sys/class/hwmon'', [''hwmon0'']),
         (''/sys/class/hwmon/hwmon0'', [''name'', ''temp1_input'']), (''/sys/devices/system/cpu'', [''cpu0'', ''cpufreq'']),
         (''/sys/devices/system/cpu/cpu0/cpufreq'', []), (''/sys/class/powercap/intel-rapl:0'', [])],
      sim_signals := 0, sim_busy := 0\<rparr>"

definition workstation_adapter :: adapter where
  "workstation_adapter =
     \<lparr>ad_root = ''/'', ad_honor_error = [], ad_honor_ok = True, ad_platform = None, ad_platform_detected = False,
      ad_battery_path = Some ''/sys/class/power_supply/BAT1'', ad_ac_path = Some ''/sys/class/power_supply/ADP1'',
      ad_multiple_batteries = False, ad_temperature_inputs = [''/sys/class/hwmon/hwmon0/temp1_input''], ad_fan_inputs = [],
      ad_ppd_cache = None\<rparr>"

section \<open>Properties\<close>

text \<open>
  C12: The production adapter tells the truth about the fan: however it was used since it was constructed, when it confirms the return of the fan,
  the firmware has the fan, and keeps it through any further operations other than the two manual commands.
\<close>

theorem production_fan_truthful:
  assumes "fan_machine os tools auto genuine (case root_path of None \<Rightarrow> ''/'' | Some p \<Rightarrow> p)"
    and "adapter_init os tools root_path w = (Ret ad, w')"
    and "(\<lambda>x y. \<exists>b. port_step (honor_port os tools) b x y)\<^sup>*\<^sup>* (ad, w') x"
    and "honor_set_fan_auto os tools x = (Ret True, y)"
    and "(port_step (honor_port os tools) False)\<^sup>*\<^sup>* y z"
  shows "auto (snd z)"
  using fan_machine.returned_since_init [OF assms(1,2) refl assms(3,4,5)] .

lemma workstation_starts: "adapter_init sim_os sim_tools None workstation = (Ret workstation_adapter, workstation)"
  by code_simp

lemma sim_reads: "read_path sim_os p w = (Ret (view_read (sim_view w) p), w)"
  by (simp add: read_path_def io_try_def io_bind_def io_ret_def sim_os_def of_file_def no_file_def view_read_def sim_view_def
      split: option.splits)

lemma sim_identity: "identity_matches sim_os r ids w = (Ret (view_listed (sim_view w) r ids), w)"
  by (simp add: identity_matches_def read_cpu_model_def read_rooted_def io_bind_def io_ret_def sim_reads view_listed_def view_cpu_model_def)

lemma workstation_listed:
  "view_listed (sim_view workstation) ''/'' SUPPORTED_PLATFORM_IDENTITIES" "view_listed (sim_view workstation) ''/'' SUPPORTED_FAN_IDENTITIES"
  by code_simp+

lemma view_listed_fan [simp]: "view_listed (sim_view (w\<lparr>sim_fan_auto := b\<rparr>)) r ids = view_listed (sim_view w) r ids"
  by (simp add: view_listed_def view_cpu_model_def view_read_def sim_view_def Let_def)

text \<open>The two commands on the workstation.\<close>

definition detected_adapter :: adapter where
  "detected_adapter = workstation_adapter\<lparr>ad_platform := Some sim_platform, ad_platform_detected := True\<rparr>"

lemma sim_platform_fields:
  "op_name sim_platform = ''MRA-XXX''" "op_fan_auto_cmd sim_platform = ''auto''" "op_fan_manual_cmd sim_platform = ''manual''"
  by (simp_all add: sim_platform_def)

lemma sim_acpi:
  "verified_acpi_call sim_os ''/'' sim_platform cmd w = (Ret True, w\<lparr>sim_fan_auto := (cmd = ''auto'')\<rparr>)"
proof -
  have "rooted ''/'' (acpi_call_path sim_platform) = ''/proc/acpi/call''" "acpi_zero (acpi_strip ''0x0'') = Inr True" by code_simp+
  then show ?thesis by (simp add: verified_acpi_call_def io_try_def io_bind_def io_of_def io_ret_def sim_os_def sim_exchange_def)
qed

lemma workstation_fan:
  "honor_set_fan_manual sim_os sim_tools 50 (workstation_adapter, workstation) = (Ret True, detected_adapter, workstation\<lparr>sim_fan_auto := False\<rparr>)"
  "honor_set_fan_auto sim_os sim_tools (detected_adapter, workstation\<lparr>sim_fan_auto := False\<rparr>) =
     (Ret True, detected_adapter, workstation\<lparr>sim_fan_auto := True\<rparr>)"
  by (simp_all add: honor_set_fan_manual_def honor_set_fan_auto_def on_fan_platform_def require_honor_def require_fan_platform_def
      require_fan_platform_or_none_def require_platform_or_none_def detect_platform_obj_def io_bind_def io_try_def io_ret_def local_get_def
      local_change_def under_def sim_identity workstation_listed workstation_adapter_def detected_adapter_def sim_acpi
      sim_tools_def sim_platform_fields)

theorem production_fan_truthful_witness:
  "\<exists>x y z. port_step (honor_port sim_os sim_tools) True (workstation_adapter, workstation) x \<and> \<not> sim_fan_auto (snd x) \<and>
     honor_set_fan_auto sim_os sim_tools x = (Ret True, y) \<and> port_step (honor_port sim_os sim_tools) False y z \<and> sim_fan_auto (snd z)"
proof -
  let ?hw = "honor_port sim_os sim_tools"
  let ?x = "snd (honor_set_fan_manual sim_os sim_tools 50 (workstation_adapter, workstation))"
  let ?y = "snd (honor_set_fan_auto sim_os sim_tools ?x)"
  let ?z = "snd (hp_read_fan ?hw ?y)"
  have x: "port_step ?hw True (workstation_adapter, workstation) ?x"
    using port_step.intros(13) [of ?hw "(workstation_adapter, workstation)" 50] by (simp add: honor_port_def)
  have y: "honor_set_fan_auto sim_os sim_tools ?x = (Ret True, ?y)" by (simp add: workstation_fan)
  have z: "port_step ?hw False ?y ?z" by (rule port_step.intros(11))
  have zs: "(port_step ?hw False)\<^sup>*\<^sup>* ?y ?z" using z by (rule r_into_rtranclp)
  have "(\<lambda>x y. \<exists>b. port_step ?hw b x y)\<^sup>*\<^sup>* (workstation_adapter, workstation) ?x" using x by blast
  from production_fan_truthful [where root_path = None, simplified, OF sim_ec.fan_machine_axioms workstation_starts this y zs]
  have "sim_fan_auto (snd ?z)" .
  moreover have "\<not> sim_fan_auto (snd ?x)" by (simp add: workstation_fan)
  ultimately show ?thesis using x y z by blast
qed



end
