(* ===== verification/Adapter_Results.thy ===== *)
theory Adapter_Results
  imports Adapter_Safety
begin

text \<open>
  What the writing operations of the production adapter report and in which order they write: the charge thresholds never cross on the
  way, and a power profile that is reported as applied was observed, while any other is rolled back.
\<close>

section \<open>Charge thresholds\<close>

text \<open>A log of the texts written to files: a write that returns adds to it, nothing else does.\<close>

locale recorded_files =
  fixes os :: "'w os" and written :: "'w \<Rightarrow> (string \<times> string) list"
  assumes records: "os_write_text os p t w = (Ret u, w') \<Longrightarrow> written w' = written w @ [(p, t)]"
    and refuses: "os_write_text os p t w = (r, w') \<Longrightarrow> r \<noteq> Ret u \<Longrightarrow> written w' = written w"
    and peeks [frames]: "reads_only written (os_read_text os p)"
begin

lemma read_int_records [frames]: "reads_only written (read_int os p)"
  unfolding read_int_def by (intro frames)

lemma write_int_records:
  "write_int os p v w = (r, w') \<Longrightarrow> written w' = written w @ (if r = Ret True then [(p, int_str v)] else [])"
  by (cases "os_write_text os p (int_str v) w"; cases "fst (os_write_text os p (int_str v) w)")
     (auto simp: write_int_def io_try_def io_bind_def io_ret_def dest: records refuses split: if_splits)

end

text \<open>The two writes in the order the adapter chooses, and the thresholds (end and start) after writes.\<close>

definition threshold_order :: "string \<Rightarrow> int \<Rightarrow> int \<Rightarrow> int \<Rightarrow> (string \<times> int) list" where
  "threshold_order battery en st old_start =
     (if en < old_start then [(start_threshold battery, st), (end_threshold battery, en)]
      else [(end_threshold battery, en), (start_threshold battery, st)])"

definition threshold_after :: "string \<Rightarrow> int \<times> int \<Rightarrow> string \<times> int \<Rightarrow> int \<times> int" where
  "threshold_after battery es pv =
     (if fst pv = end_threshold battery then snd pv else fst es, if fst pv = start_threshold battery then snd pv else snd es)"

lemma threshold_files: "end_threshold b \<noteq> start_threshold b"
  by (simp add: end_threshold_def start_threshold_def path_join_def)

lemma order_never_crosses:
  assumes "old_start \<le> old_end" "st \<le> en"
  shows "snd (foldl (threshold_after b) (old_end, old_start) (take k (threshold_order b en st old_start))) \<le>
      fst (foldl (threshold_after b) (old_end, old_start) (take k (threshold_order b en st old_start)))"
    "2 \<le> k \<Longrightarrow> foldl (threshold_after b) (old_end, old_start) (take k (threshold_order b en st old_start)) = (en, st)"
proof -
  consider "k = 0" | "k = 1" | j where "k = Suc (Suc j)" by (metis One_nat_def not0_implies_Suc)
  then show "snd (foldl (threshold_after b) (old_end, old_start) (take k (threshold_order b en st old_start))) \<le>
      fst (foldl (threshold_after b) (old_end, old_start) (take k (threshold_order b en st old_start)))"
    using assms threshold_files [of b] threshold_files [of b, symmetric]
    by cases (simp_all add: threshold_order_def threshold_after_def)
next
  assume "2 \<le> k"
  then obtain j where "k = Suc (Suc j)" by (metis One_nat_def Suc_1 Suc_le_D Suc_le_mono)
  then show "foldl (threshold_after b) (old_end, old_start) (take k (threshold_order b en st old_start)) = (en, st)"
    using threshold_files [of b] threshold_files [of b, symmetric] by (simp add: threshold_order_def threshold_after_def)
qed

context recorded_files
begin

lemma two_writes:
  assumes "io_bind (write_int os p1 v1) (\<lambda>ok1. io_bind (if ok1 then write_int os p2 v2 else io_ret False) (\<lambda>ok2. io_ret (f ok1 ok2))) w = (r, w')"
  shows "\<exists>k. written w' = written w @ map (apsnd int_str) (take k [(p1, v1), (p2, v2)]) \<and>
    (\<forall>x. r = Ret x \<longrightarrow> (\<exists>a b. x = f a b \<and> (a \<and> b \<longrightarrow> k = 2)))"
proof -
  obtain r1 w1 where one: "write_int os p1 v1 w = (r1, w1)" by (meson surj_pair)
  obtain r2 w2 where two: "write_int os p2 v2 w1 = (r2, w2)" by (meson surj_pair)
  note logs = write_int_records [OF one] write_int_records [OF two]
  show ?thesis
  proof (cases "r1 = Ret True")
    case False
    then have "written w' = written w \<and> (\<forall>x. r = Ret x \<longrightarrow> x = f False False)"
      using assms one logs(1) by (cases r1) (auto simp: io_bind_def io_ret_def)
    then show ?thesis by (intro exI [of _ 0]) auto
  next
    case True
    then have fin: "w' = w2 \<and> (\<forall>x. r = Ret x \<longrightarrow> (\<exists>b. r2 = Ret b \<and> x = f True b))"
      using assms one two by (cases r2) (auto simp: io_bind_def io_ret_def)
    show ?thesis
    proof (cases "r2 = Ret True")
      case True
      then show ?thesis using \<open>r1 = Ret True\<close> logs fin by (intro exI [of _ 2]) (auto; blast)
    next
      case False
      then show ?thesis using \<open>r1 = Ret True\<close> logs fin by (intro exI [of _ 1]) (auto; metis)
    qed
  qed
qed

lemma write_thresholds_records:
  assumes "write_thresholds os b en st w = (r, w')" "fst (read_int os (start_threshold b) w) = Ret (Some old)"
  shows "\<exists>k. written w' = written w @ map (apsnd int_str) (take k (threshold_order b en st old)) \<and>
    (\<forall>ord. r = Ret (True, True, ord) \<longrightarrow> k = 2)"
proof -
  obtain w1 where r: "read_int os (start_threshold b) w = (Ret (Some old), w1)" using assms(2) by (metis prod.collapse)
  have w1: "written w1 = written w" using reads_onlyD [OF read_int_records r] .
  show ?thesis
  proof (cases "en < old")
    case True
    then have "io_bind (write_int os (start_threshold b) st) (\<lambda>ok1. io_bind (if ok1 then write_int os (end_threshold b) en else io_ret False)
        (\<lambda>ok2. io_ret ((\<lambda>a b. (b, a, [''start'', ''end''])) ok1 ok2))) w1 = (r, w')"
      using assms(1) r by (simp add: write_thresholds_def io_bind_def)
    from two_writes [OF this] obtain k where "written w' = written w1 @ map (apsnd int_str) (take k (threshold_order b en st old))"
      "\<forall>x. r = Ret x \<longrightarrow> (\<exists>a c. x = (c, a, [''start'', ''end'']) \<and> (a \<and> c \<longrightarrow> k = 2))"
      using True by (auto simp: threshold_order_def)
    then show ?thesis using w1 by (intro exI [of _ k]) auto
  next
    case False
    then have "io_bind (write_int os (end_threshold b) en) (\<lambda>ok1. io_bind (if ok1 then write_int os (start_threshold b) st else io_ret False)
        (\<lambda>ok2. io_ret ((\<lambda>a b. (a, b, [''end'', ''start''])) ok1 ok2))) w1 = (r, w')"
      using assms(1) r by (simp add: write_thresholds_def io_bind_def)
    from two_writes [OF this] obtain k where "written w' = written w1 @ map (apsnd int_str) (take k (threshold_order b en st old))"
      "\<forall>x. r = Ret x \<longrightarrow> (\<exists>a c. x = (a, c, [''end'', ''start'']) \<and> (a \<and> c \<longrightarrow> k = 2))"
      using False by (auto simp: threshold_order_def)
    then show ?thesis using w1 by (intro exI [of _ k]) auto
  qed
qed

lemma battery_records:
  assumes "honor_write_battery os en st x = (r, y)" "ad_battery_path (fst x) = Some b"
    and "fst (read_int os (start_threshold b) (snd x)) = Ret (Some old)"
  shows "\<exists>k. written (snd y) = written (snd x) @ map (apsnd int_str) (take k (threshold_order b en st old)) \<and>
    (\<forall>d. r = Ret d \<longrightarrow> pv_get d ''end_write_ok'' = PBool True \<longrightarrow> pv_get d ''start_write_ok'' = PBool True \<longrightarrow> k = 2)"
proof -
  obtain r1 w1 where wr: "write_thresholds os b en st (snd x) = (r1, w1)" by (meson surj_pair)
  from write_thresholds_records [OF wr assms(3)] obtain k where
    k: "written w1 = written (snd x) @ map (apsnd int_str) (take k (threshold_order b en st old))"
    "\<forall>ord. r1 = Ret (True, True, ord) \<longrightarrow> k = 2" by blast
  let ?report = "\<lambda>(end_ok, start_ok, write_order).
      io_bind (read_int os (end_threshold b)) (\<lambda>observed_end.
      io_bind (read_int os (start_threshold b)) (\<lambda>observed_start.
      io_ret [(''end_write_ok'', PBool end_ok), (''start_write_ok'', PBool start_ok),
            (''write_order'', PTuple (map PStr write_order)), (''observed_end'', opt_int observed_end),
            (''observed_start'', opt_int observed_start),
            (''readback_ok'', PBool (observed_end = Some en \<and> observed_start = Some st))]))"
  let ?fail = "\<lambda>e. [(''end_write_ok'', PBool False), (''start_write_ok'', PBool False), (''error'', PStr (exn_str e))]"
  have run: "io_try (io_bind (write_thresholds os b en st) ?report) is_exception (\<lambda>e. io_ret (?fail e)) (snd x) = (r, snd y)"
    using assms(1,2) by (simp add: honor_write_battery_def under_eq)
  have quiet: "reads_only written (?report t)" for t by (intro frames)
  have "written (snd y) = written w1 \<and> (\<forall>d. r = Ret d \<longrightarrow> (\<exists>e. d = ?fail e) \<or>
      (\<exists>t. r1 = Ret t \<and> pv_get d ''end_write_ok'' = PBool (fst t) \<and> pv_get d ''start_write_ok'' = PBool (fst (snd t))))"
  proof (cases r1)
    case (Ret t)
    obtain r2 w2 where rep: "?report t w1 = (r2, w2)" by (meson surj_pair)
    have "r2 = Ret d \<Longrightarrow> pv_get d ''end_write_ok'' = PBool (fst t) \<and> pv_get d ''start_write_ok'' = PBool (fst (snd t))" for d
      using rep by (auto simp: io_bind_eq_Ret pv_get_def split: prod.splits)
    then show ?thesis
      using run wr Ret rep reads_onlyD [OF quiet rep] by (cases r2) (auto simp: io_try_def io_bind_def [of "write_thresholds os b en st"] io_ret_def split: if_splits)
  qed (use run wr in \<open>auto simp: io_try_def io_bind_def io_ret_def split: if_splits\<close>)
  then show ?thesis using k by (intro exI [of _ k]) (auto simp: pv_get_def)
qed

end

section \<open>Power profiles\<close>

text \<open>What a program that returns has established, in its value and the world it leaves.\<close>

named_theorems yielding \<open>what returned values satisfy\<close>

definition yields :: "('a \<Rightarrow> 'w \<Rightarrow> bool) \<Rightarrow> ('w, 'a) io \<Rightarrow> bool" where
  "yields Q m = (\<forall>w x w'. m w = (Ret x, w') \<longrightarrow> Q x w')"

lemma yieldsD: "yields Q m \<Longrightarrow> m w = (Ret x, w') \<Longrightarrow> Q x w'"
  unfolding yields_def by blast

lemma yields_bind [yielding]: "(\<And>x. yields Q (f x)) \<Longrightarrow> yields Q (io_bind m f)"
  unfolding yields_def by (auto simp: io_bind_eq_Ret)

lemma yields_if [yielding]: "(c \<Longrightarrow> yields Q a) \<Longrightarrow> (\<not> c \<Longrightarrow> yields Q b) \<Longrightarrow> yields Q (if c then a else b)"
  by simp

lemma yields_try [yielding]: "yields Q m \<Longrightarrow> (\<And>e. yields Q (h e)) \<Longrightarrow> yields Q (io_try m c h)"
  unfolding yields_def io_try_def by (auto split: prod.splits reply.splits if_splits)

lemma yields_with_local: "yields (\<lambda>x y. Q x (snd y)) m \<Longrightarrow> yields Q (with_local s m)"
  by (fastforce simp: yields_def with_local_def split: prod.splits)

text \<open>The status was observed last: nothing happened since.\<close>

definition observed_last :: "'w os \<Rightarrow> power_status \<Rightarrow> adapter \<times> 'w \<Rightarrow> bool" where
  "observed_last os st y = (\<exists>x. read_power_status os x = (Ret st, y))"

lemma observed_lastI: "read_power_status os x = (Ret st, y) \<Longrightarrow> observed_last os st y"
  unfolding observed_last_def by blast

text \<open>The rollback to \<open>previous\<close>: it is attempted, and reported as successful only if the last observation equals the earlier one.\<close>

definition rolled_back :: "'w os \<Rightarrow> power_status \<Rightarrow> pv dict \<Rightarrow> adapter \<times> 'w \<Rightarrow> bool" where
  "rolled_back os previous rollback y =
     (pv_get rollback ''attempted'' = PBool True \<and>
      (pv_get rollback ''ok'' = PBool True \<longrightarrow> (\<exists>st. observed_last os st y \<and>
         py_eq (PDict (status_dict st)) (PDict (status_dict previous)))))"

lemma restore_report_yields: "yields (\<lambda>rb y. rolled_back os previous rb (snd y)) (restore_report os previous)"
  by (auto simp: yields_def restore_report_def io_bind_eq_Ret under_eq rolled_back_def pv_get_def dest: observed_lastI)

lemma restore_failed_yields:
  "yields (\<lambda>rb y. rolled_back os previous rb (snd y)) (io_bind local_get (\<lambda>writes.
     io_ret [(''attempted'', PBool True), (''ok'', PBool False), (''writes'', PDict writes), (''error'', PStr m)]))"
  by (auto simp: yields_def rolled_back_def pv_get_def)

lemma restore_yields: "yields (rolled_back os previous) (restore_power_status os previous)"
  unfolding restore_power_status_def restore_body_def Let_def
  by (rule yields_with_local, rule yields_try, intro yielding restore_report_yields, rule restore_failed_yields)

text \<open>All checks are true.\<close>

abbreviation all_checked :: "pv dict \<Rightarrow> bool" where
  "all_checked d \<equiv> list_all (\<lambda>k. pv_get d k = PBool True) POWER_CHECK_KEYS"

definition verified_or_rolled_back :: "'w os \<Rightarrow> pv dict \<Rightarrow> power_status \<Rightarrow> pv dict \<Rightarrow> adapter \<times> 'w \<Rightarrow> bool" where
  "verified_or_rolled_back os n previous d y =
     (if all_checked d
      then \<exists>st. observed_last os st y \<and> pv_get d ''observed'' = PDict (status_dict st) \<and>
             observation_matches (status_dict st) n
      else \<exists>rb. map_of d ''rollback'' = Some (PDict rb) \<and> rolled_back os previous rb y)"

lemma checks_match:
  assumes "list_all (check_ok st n) POWER_CHECK_KEYS"
  shows "observation_matches (status_dict st) n"
  using assms by (cases "fields_present n")
    (simp_all add: check_ok_def observation_matches_def all_checks_def verify_power_definition_def POWER_CHECK_KEYS_def dget_def Let_def)

lemma power_report_yields:
  "yields (verified_or_rolled_back os n previous) (power_report os profile n previous pre rapl governors epp misc)"
  unfolding yields_def
proof (intro allI impI)
  fix x d y
  assume "power_report os profile n previous pre rapl governors epp misc x = (Ret d, y)"
  then obtain st x1 result where st: "read_power_status os x = (Ret st, x1)"
    and result: "result = [(''profile'', PStr profile),
           (''writes'', PDict [(''ppd'', PBool True), (''governor_pre'', bools pre), (''rapl'', rapl),
             (''epp'', bools epp), (''governor'', bools governors), (''misc'', misc)]),
           (''observed'', PDict (status_dict st)),
           (''governor_ok'', PBool (all_true (bools pre) \<and> all_true (bools governors) \<and> check_ok st n ''governor_ok'')),
           (''epp_ok'', PBool (all_true (bools epp) \<and> check_ok st n ''epp_ok'')),
           (''ppd_ok'', PBool (check_ok st n ''ppd_ok'')),
           (''rapl_ok'', PBool (all_true rapl \<and> check_ok st n ''rapl_ok'')),
           (''misc_ok'', PBool (all_true misc \<and> check_ok st n ''misc_ok''))]"
    and run: "(if all_checked result then io_ret result
        else io_bind (restore_power_status os previous) (\<lambda>rollback. io_ret (result @ [(''rollback'', PDict rollback)]))) x1 = (Ret d, y)"
    unfolding power_report_def Let_def by (auto simp: io_bind_eq_Ret)
  show "verified_or_rolled_back os n previous d y"
  proof (cases "all_checked result")
    case True
    then have "list_all (check_ok st n) POWER_CHECK_KEYS" by (simp add: result POWER_CHECK_KEYS_def pv_get_def)
    then have "observation_matches (status_dict st) n" by (rule checks_match)
    moreover have "pv_get result ''observed'' = PDict (status_dict st)" by (simp add: result pv_get_def)
    ultimately show ?thesis using True run observed_lastI [OF st] by (auto simp: verified_or_rolled_back_def)
  next
    case False
    then obtain rb where rb: "restore_power_status os previous x1 = (Ret rb, y)" "d = result @ [(''rollback'', PDict rb)]"
      using run by (auto simp: io_bind_eq_Ret)
    have "pv_get d k = pv_get result k" if "k \<noteq> ''rollback''" for k using that by (simp add: rb(2) pv_get_def map_add_def split: option.splits)
    then have "\<not> all_checked d" using False by (simp add: POWER_CHECK_KEYS_def)
    moreover have "map_of d ''rollback'' = Some (PDict rb)" by (simp add: rb(2) result)
    ultimately show ?thesis using yieldsD [OF restore_yields rb(1)] by (simp add: verified_or_rolled_back_def)
  qed
qed

lemma ppd_refused_yields: "yields (verified_or_rolled_back os n previous) (ppd_refused os profile n previous pre)"
  unfolding yields_def
  by (auto simp: ppd_refused_def io_bind_eq_Ret verified_or_rolled_back_def POWER_CHECK_KEYS_def pv_get_def dest: yieldsD [OF restore_yields])

lemma transaction_yields: "yields (verified_or_rolled_back os n previous) (power_transaction os profile n previous)"
  unfolding power_transaction_def write_power_def by (intro yielding power_report_yields ppd_refused_yields)

lemma raises_only_try_caught:
  "(\<And>e. raises_only P (h e)) \<Longrightarrow> (\<And>e. \<not> c e \<Longrightarrow> P e) \<Longrightarrow> raises_only P (io_try m c h)"
  unfolding raises_only_def io_try_def by (auto split: prod.splits reply.splits if_splits)

lemma raises_only_with_local [raising]: "raises_only P m \<Longrightarrow> raises_only P (with_local s m)"
  by (fastforce simp: raises_only_def with_local_def split: prod.splits)

lemma restore_raises [raising]: "raises_only (\<lambda>e. \<not> is_exception e) (restore_power_status os previous)"
  unfolding restore_power_status_def by (rule raises_only_with_local, rule raises_only_try_caught) (intro raising)

text \<open>The transaction with its handler.\<close>

definition guarded_transaction :: "'w os \<Rightarrow> string \<Rightarrow> pv dict \<Rightarrow> power_status \<Rightarrow> ('w, pv dict) hio" where
  "guarded_transaction os profile n previous =
     io_try (power_transaction os profile n previous) is_exception (\<lambda>e.
       io_bind (restore_power_status os previous) (\<lambda>rollback.
       io_ret [(''error'', PStr (exn_str e)), (''rollback'', PDict rollback)]))"

lemma guarded_yields: "yields (verified_or_rolled_back os n previous) (guarded_transaction os profile n previous)"
  unfolding guarded_transaction_def
proof (rule yields_try [OF transaction_yields])
  fix e
  show "yields (verified_or_rolled_back os n previous) (io_bind (restore_power_status os previous) (\<lambda>rollback.
       io_ret [(''error'', PStr (exn_str e)), (''rollback'', PDict rollback)]))"
    unfolding yields_def
    by (auto simp: io_bind_eq_Ret verified_or_rolled_back_def POWER_CHECK_KEYS_def pv_get_def dest: yieldsD [OF restore_yields])
qed

lemma guarded_raises: "raises_only (\<lambda>e. \<not> is_exception e) (guarded_transaction os profile n previous)"
  unfolding guarded_transaction_def by (rule raises_only_try_caught) (intro raising)

text \<open>A refusal before anything was written.\<close>

definition early_refusal :: "pv dict \<Rightarrow> bool" where
  "early_refusal d = ((\<exists>m. map_of d ''error'' = Some (PStr m)) \<and> map_of d ''rollback'' = None \<and> \<not> all_checked d)"

definition guarded_prepare :: "'w os \<Rightarrow> 'w honor_tools \<Rightarrow> pv dict \<Rightarrow> ('w, pv dict + pv dict \<times> power_status) hio" where
  "guarded_prepare os tools df =
     io_try (prepare_power os tools df) is_exception (\<lambda>e. io_ret (Inl [(''error'', PStr (exn_str e))]))"

lemma guarded_prepare_refuses: "guarded_prepare os tools df x = (Ret (Inl d), y) \<Longrightarrow> early_refusal d"
  by (auto simp: guarded_prepare_def io_try_def prepare_power_def io_bind_eq_Ret early_refusal_def POWER_CHECK_KEYS_def pv_get_def
      split: prod.splits reply.splits if_splits)

lemma apply_power_eq:
  "honor_apply_power os tools profile (Some df) =
     io_bind (require_platform os tools) (\<lambda>_. io_bind (guarded_prepare os tools df) (\<lambda>r. case r of
       Inl d \<Rightarrow> io_ret d | Inr (n, previous) \<Rightarrow> guarded_transaction os profile n previous))"
  unfolding honor_apply_power_def guarded_prepare_def guarded_transaction_def by simp

context machine_reads
begin

lemma prepare_frame [frames]: "reads_only (below obs) (prepare_power os tools df)"
  unfolding prepare_power_def by (intro frames)

text \<open>What stands before the first write: nothing is changed, and the status to return to was observed.\<close>

lemma prepare_power_yields:
  assumes "prepare_power os tools df x = (Ret (Inr (n, previous)), y)"
  shows "normalize_power_definition df = Inr n \<and> observed_last os previous y \<and> obs (snd y) = obs (snd x)"
  using assms reads_onlyD [OF prepare_frame assms]
  by (auto simp: prepare_power_def io_bind_eq_Ret split: if_splits dest: observed_lastI)

lemma guarded_prepare_frame [frames]: "reads_only (below obs) (guarded_prepare os tools df)"
  unfolding guarded_prepare_def by (intro frames)

lemma guarded_prepare_yields:
  assumes "guarded_prepare os tools df x = (Ret (Inr (n, previous)), y)"
  shows "normalize_power_definition df = Inr n \<and> observed_last os previous y \<and> obs (snd y) = obs (snd x)"
proof -
  have "prepare_power os tools df x = (Ret (Inr (n, previous)), y)"
    using assms by (auto simp: guarded_prepare_def io_try_def split: prod.splits reply.splits if_splits)
  then show ?thesis by (rule prepare_power_yields)
qed

lemma apply_power_outcome:
  assumes run: "honor_apply_power os tools profile (Some df) x = (r, y)"
  obtains (unchanged) "obs (snd y) = obs (snd x)" "\<And>d. r = Ret d \<Longrightarrow> early_refusal d"
    | (attempted) n previous x1 where "normalize_power_definition df = Inr n" "observed_last os previous x1" "obs (snd x1) = obs (snd x)"
        "\<And>d. r = Ret d \<Longrightarrow> verified_or_rolled_back os n previous d y" "\<And>e. r = Raise e \<Longrightarrow> \<not> is_exception e"
proof -
  obtain r1 x1 where one: "require_platform os tools x = (r1, x1)" by (meson surj_pair)
  obtain r2 x2 where two: "guarded_prepare os tools df x1 = (r2, x2)" by (meson surj_pair)
  have o1: "obs (snd x1) = obs (snd x)" using reads_onlyD [OF require_frames(1) one] .
  have o2: "obs (snd x2) = obs (snd x)" using reads_onlyD [OF guarded_prepare_frame two] o1 by simp
  consider "\<And>p. r1 \<noteq> Ret p" | p where "r1 = Ret p" "\<And>s. r2 \<noteq> Ret s" | p d where "r1 = Ret p" "r2 = Ret (Inl d)"
    | p n previous where "r1 = Ret p" "r2 = Ret (Inr (n, previous))"
    by (metis sumE surj_pair)
  then show thesis
  proof cases
    case 1
    then have "y = x1 \<and> (\<forall>d. r \<noteq> Ret d)" using run one by (cases r1) (auto simp: apply_power_eq io_bind_def)
    then show thesis using unchanged o1 by blast
  next
    case 2
    then have "y = x2 \<and> (\<forall>d. r \<noteq> Ret d)" using run one two by (cases r2) (auto simp: apply_power_eq io_bind_def)
    then show thesis using unchanged o2 by blast
  next
    case 3
    then have "y = x2 \<and> r = Ret d" using run one two by (simp add: apply_power_eq io_bind_def io_ret_def)
    then show thesis using unchanged o2 guarded_prepare_refuses two 3(2) by blast
  next
    case 4
    then have "guarded_transaction os profile n previous x2 = (r, y)" using run one two by (simp add: apply_power_eq io_bind_def)
    from yieldsD [OF guarded_yields] raises_onlyD [OF guarded_raises] this
    have fin: "\<And>d. r = Ret d \<Longrightarrow> verified_or_rolled_back os n previous d y" "\<And>e. r = Raise e \<Longrightarrow> \<not> is_exception e" by blast+
    have "normalize_power_definition df = Inr n" "observed_last os previous x2" "obs (snd x2) = obs (snd x)"
      using guarded_prepare_yields [OF two [unfolded 4(2)]] o1 by simp_all
    from attempted [OF this fin] show thesis .
  qed
qed

end

section \<open>Evaluation\<close>

text \<open>Code equations by integers in binary, for evaluating the adapter on a machine.\<close>

function int_digits :: "int \<Rightarrow> string" where
  "int_digits i = (if i < 10 then [digit_char (nat i)] else int_digits (i div 10) @ [digit_char (nat (i mod 10))])"
  by pat_completeness auto
termination by (relation "measure nat") auto

declare int_digits.simps [simp del]

lemma int_digits_nat: "nat_str n = int_digits (int n)"
proof (induction n rule: nat_str.induct)
  case (1 n)
  then show ?case by (subst int_digits.simps, subst nat_str.simps) (auto simp: nat_div_distrib nat_mod_distrib zdiv_int zmod_int)
qed

lemma int_str_code [code]: "int_str i = (if i < 0 then CHR ''-'' # int_digits (- i) else int_digits i)"
  by (simp add: int_str_def int_digits_nat)

definition based_int :: "int \<Rightarrow> string \<Rightarrow> int" where
  "based_int b s = foldl (\<lambda>a c. a * b + int (digit_val c)) 0 s"

lemma based_int_val: "int (based_val b s) = based_int (int b) s"
  unfolding based_val_def based_int_def by (induction s rule: rev_induct) simp_all

lemma based_int_ten: "based_int 10 s = int (based_val 10 s)"
  using based_int_val [of 10 s] by simp

definition int_body_int :: "nat \<Rightarrow> string \<Rightarrow> int option" where
  "int_body_int base s =
     (let b = (if base = 0 then radix_of s else base)
      in case ungroup (\<lambda>c. digit_val c < b) (unprefix b s) of
           None \<Rightarrow> None
         | Some ds \<Rightarrow>
             if b = 10 \<and> int (length ds) > 4300 then None
             else if base = 0 \<and> b = 10 \<and> hd ds = CHR ''0'' \<and> based_int 10 ds \<noteq> 0 then None
             else Some (based_int (int b) ds))"

lemma int_body_int_eq: "map_option int (int_body base s) = int_body_int base s"
  by (auto simp: int_body_def int_body_int_def Let_def based_int_val [symmetric] based_int_ten split: option.splits)

lemma py_int_code [code]:
  "py_int base s = (case int_strip s of
      CHR ''-'' # r \<Rightarrow> map_option uminus (int_body_int base r)
    | CHR ''+'' # r \<Rightarrow> int_body_int base r
    | r \<Rightarrow> int_body_int base r)"
  unfolding py_int_def int_body_int_eq [symmetric]
  by (auto split: list.splits char.splits bool.splits simp: option.map_comp comp_def)

lemma cp_int: "(of_char c :: int) = int (cp c)"
  by (simp add: cp_def of_nat_of_char)

lemma py_isspace_code [code]:
  "py_isspace c = (let n = of_char c :: int in (9 \<le> n \<and> n \<le> 13) \<or> (28 \<le> n \<and> n \<le> 32) \<or> n = 133 \<or> n = 160)"
  unfolding cp_int by (simp add: py_isspace_def Let_def)

lemma is_digit_code [code]: "is_digit c = (let n = of_char c :: int in 48 \<le> n \<and> n \<le> 57)"
  unfolding cp_int by (simp add: is_digit_def Let_def)

lemma int_space_code [code]:
  "int_space s c = (if \<forall>d \<in> set s. (of_char d :: int) < 128
     then let n = of_char c :: int in (9 \<le> n \<and> n \<le> 13) \<or> n = 32 else py_isspace c)"
proof -
  have "(\<forall>d \<in> set s. (of_char d :: int) < 128) = (\<forall>d \<in> set s. cp d < 128)" unfolding cp_int by simp
  then show ?thesis unfolding cp_int by (simp add: int_space_def Let_def)
qed


interpretation sim_recorded: recorded_files sim_os sim_log
  by unfold_locales (auto simp: reads_only_def sim_calls no_file_def split: if_splits)

lemma run_of_reply: "case fst p of Ret d \<Rightarrow> P d | _ \<Rightarrow> False \<Longrightarrow> \<exists>d y. p = (Ret d, y) \<and> P d"
  by (cases p) (auto split: reply.splits)

lemma workstation_battery:
  "case fst (honor_write_battery sim_os 60 55 (workstation_adapter, workstation)) of
     Ret d \<Rightarrow> pv_get d ''end_write_ok'' = PBool True \<and> pv_get d ''start_write_ok'' = PBool True | _ \<Rightarrow> False"
  by code_simp

lemma workstation_start:
  "fst (read_int sim_os (start_threshold ''/sys/class/power_supply/BAT1'') workstation) = Ret (Some 85)"
  by code_simp

text \<open>The header of the adapter's file says that unsupported hardware never performs writes; the thresholds of an unlisted machine are written.\<close>

definition unlisted :: sim where
  "unlisted = sim_start\<lparr>sim_texts := [(''/b/charge_control_end_threshold'', ''90''), (''/b/charge_control_start_threshold'', ''85'')]\<rparr>"

lemma battery_written_unlisted:
  "\<not> view_listed (sim_view unlisted) ''/'' SUPPORTED_PLATFORM_IDENTITIES \<and>
   sim_log (snd (snd (honor_write_battery sim_os 60 55 (workstation_adapter\<lparr>ad_battery_path := Some ''/b''\<rparr>, unlisted)))) =
     [(''/b/charge_control_start_threshold'', ''55''), (''/b/charge_control_end_threshold'', ''60'')]"
proof -
  have "\<not> view_listed (sim_view unlisted) ''/'' SUPPORTED_PLATFORM_IDENTITIES" by code_simp
  moreover have "sim_log (snd (snd (honor_write_battery sim_os 60 55 (workstation_adapter\<lparr>ad_battery_path := Some ''/b''\<rparr>, unlisted)))) =
     [(''/b/charge_control_start_threshold'', ''55''), (''/b/charge_control_end_threshold'', ''60'')]" by code_simp
  ultimately show ?thesis ..
qed

text \<open>A machine with one processor policy and one RAPL tree, and a profile for it.\<close>

definition bench :: sim where
  "bench = sim_start
     \<lparr>sim_texts :=
        [(''/sys/devices/system/cpu/cpu0/cpufreq/scaling_governor'', ''powersave''),
         (''/sys/devices/system/cpu/cpu0/cpufreq/energy_performance_preference'', ''power''),
         (''/sys/class/powercap/intel-rapl:0/constraint_0_power_limit_uw'', ''25000000''),
         (''/sys/class/powercap/intel-rapl:0/constraint_1_power_limit_uw'', ''35000000''),
         (''/sys/devices/system/cpu/intel_pstate/no_turbo'', ''0''), (''/sys/devices/system/cpu/intel_pstate/max_perf_pct'', ''100'')],
      sim_dirs :=
        [(''/sys/devices/system/cpu'', [''cpu0'']), (''/sys/devices/system/cpu/cpu0/cpufreq'', []), (''/sys/class/powercap/intel-rapl:0'', [])]\<rparr>"

definition bench_status :: power_status where
  "bench_status = \<lparr>pst_rapl = [(''intel-rapl:0'', [(RAPL_LIMIT_0, Some 25000000), (RAPL_LIMIT_1, Some 35000000)])],
     pst_governors = [(''0'', ''powersave'')], pst_epp = [(''0'', ''power'')], pst_ppd_profile = ''balanced'', pst_no_turbo = Some 0,
     pst_max_perf_pct = Some 100\<rparr>"

definition quiet_profile :: "pv dict" where
  "quiet_profile = [(''pl1_uw'', PInt 15000000), (''pl2_uw'', PInt 20000000), (''governor'', PStr ''powersave''), (''epp'', PStr ''power''),
     (''ppd_profile'', PStr ''power-saver''), (''turbo_enabled'', PBool False), (''max_perf_pct'', PInt 60)]"

lemma bench_prepared:
  "prepare_power sim_os sim_tools quiet_profile (detected_adapter, bench) =
     (Ret (Inr (quiet_profile, bench_status)), detected_adapter\<lparr>ad_ppd_cache := Some (0, ''balanced'')\<rparr>, bench)"
  by code_simp

lemma bench_applied:
  "case fst (power_transaction sim_os ''silent'' quiet_profile bench_status
       (detected_adapter\<lparr>ad_ppd_cache := Some (0, ''balanced'')\<rparr>, bench)) of Ret d \<Rightarrow> all_checked d | _ \<Rightarrow> False"
  by code_simp

lemma bench_runs:
  "\<exists>d y. honor_apply_power sim_os sim_tools ''silent'' (Some quiet_profile) (detected_adapter, bench) = (Ret d, y) \<and> all_checked d"
proof -
  obtain d y where "power_transaction sim_os ''silent'' quiet_profile bench_status
       (detected_adapter\<lparr>ad_ppd_cache := Some (0, ''balanced'')\<rparr>, bench) = (Ret d, y)" "all_checked d"
    using run_of_reply [OF bench_applied] by blast
  moreover have "require_platform sim_os sim_tools (detected_adapter, bench) = (Ret sim_platform, detected_adapter, bench)"
    by (simp add: require_platform_def require_platform_or_none_def io_bind_def io_ret_def local_get_def detected_adapter_def)
  ultimately show ?thesis using bench_prepared
    by (simp add: apply_power_eq guarded_prepare_def guarded_transaction_def io_bind_def io_try_def)
qed

section \<open>Properties\<close>



text \<open>
  C14: A power profile is verified or rolled back. If all checks of the result are true, the last thing that happened is an observation that
  matches the requested definition. Otherwise the result carries a rollback to the status observed before the first write, which is
  reported as successful only if the last observation equals that status; or it is a refusal, and nothing was changed. An
  exception of the program means that nothing was changed.
\<close>

theorem power_verified_or_rolled_back:
  assumes "machine_reads os tools obs" and "honor_apply_power os tools profile (Some df) x = (r, y)"
  shows "case r of
      Ret d \<Rightarrow> early_refusal d \<and> obs (snd y) = obs (snd x) \<or>
        (\<exists>n previous x1. normalize_power_definition df = Inr n \<and> observed_last os previous x1 \<and> obs (snd x1) = obs (snd x) \<and>
           verified_or_rolled_back os n previous d y)
    | Raise e \<Rightarrow> is_exception e \<longrightarrow> obs (snd y) = obs (snd x)
    | Hang \<Rightarrow> True"
  using assms(2)
proof (rule machine_reads.apply_power_outcome [OF assms(1)])
  assume "obs (snd y) = obs (snd x)" "\<And>d. r = Ret d \<Longrightarrow> early_refusal d"
  then show ?thesis by (cases r) auto
next
  fix n previous x1
  assume *: "normalize_power_definition df = Inr n" "observed_last os previous x1" "obs (snd x1) = obs (snd x)"
    "\<And>d. r = Ret d \<Longrightarrow> verified_or_rolled_back os n previous d y" "\<And>e. r = Raise e \<Longrightarrow> \<not> is_exception e"
  show ?thesis
  proof (cases r)
    case (Ret d)
    then show ?thesis using * by (simp del: split_paired_Ex) blast
  qed (use * in auto)
qed

theorem power_verified_or_rolled_back_witness:
  "\<exists>d y st n. honor_apply_power sim_os sim_tools ''silent'' (Some quiet_profile) (detected_adapter, bench) = (Ret d, y) \<and>
     all_checked d \<and> normalize_power_definition quiet_profile = Inr n \<and> observed_last sim_os st y \<and> observation_matches (status_dict st) n"
proof -
  obtain d y where run: "honor_apply_power sim_os sim_tools ''silent'' (Some quiet_profile) (detected_adapter, bench) = (Ret d, y)"
    and ok: "all_checked d" using bench_runs by blast
  from power_verified_or_rolled_back [OF sim_listed.machine_reads_axioms run] ok obtain n previous where
    "normalize_power_definition quiet_profile = Inr n" "verified_or_rolled_back sim_os n previous d y"
    by (auto simp: early_refusal_def)
  with run ok show ?thesis by (auto simp: verified_or_rolled_back_def)
qed

end
