(* ===== verification/Curve_Editor.thy ===== *)
theory Curve_Editor
  imports Remote
begin

text \<open>
  The fan curve editor of the desktop application: \<^verbatim>\<open>honor_control/frontend/gui/fan_curve_editor.py\<close> (the widget
  \<open>FanCurveGraph\<close>) and the parts of \<^verbatim>\<open>honor_control/frontend/gui/pages/fan.py\<close> that load a curve into it and send it to the
  service. The editor is a record with the signals it has emitted. Where the pointer lies on the screen is an argument: the
  distance of each point from it as Qt computes it, and the temperature and speed under it before they are snapped to the grid.
\<close>

section \<open>State\<close>

datatype editor_signal = Points_changed "fan_curve_point list" | Selection_changed int

record editor =
  ed_points :: "fan_curve_point list"
  ed_selected :: int
  ed_dragging :: bool
  ed_signals :: "editor_signal list"

record pointer =
  pt_distance :: "fan_curve_point \<Rightarrow> rat"
  pt_temp :: int
  pt_speed :: int

definition TEMP_MIN :: int where "TEMP_MIN = 40000"
definition TEMP_MAX :: int where "TEMP_MAX = 100000"

lemmas editor_consts = TEMP_MIN_def TEMP_MAX_def

abbreviation curve_point :: "int \<Rightarrow> int \<Rightarrow> fan_curve_point" where
  "curve_point t v \<equiv> \<lparr>temp_mc = t, speed = v\<rparr>"

definition editor_init :: editor where
  "editor_init = \<lparr>ed_points = [curve_point 40000 0, curve_point 60000 30, curve_point 80000 65, curve_point 95000 100],
     ed_selected = -1, ed_dragging = False, ed_signals = []\<rparr>"

section \<open>Operations\<close>

definition emit_selection :: "editor \<Rightarrow> editor" where
  "emit_selection ed = ed\<lparr>ed_signals := ed_signals ed @ [Selection_changed (ed_selected ed)]\<rparr>"

definition emit_change :: "editor \<Rightarrow> editor" where
  "emit_change ed = emit_selection (ed\<lparr>ed_signals := ed_signals ed @ [Points_changed (ed_points ed)]\<rparr>)"

definition set_points :: "fan_curve_point list \<Rightarrow> editor \<Rightarrow> exn + editor" where
  "set_points points ed =
     rbind (validate_curve_points (map (\<lambda>p. (PInt (temp_mc p), PInt (speed p))) points)) (\<lambda>validated.
     Inr (emit_selection (ed\<lparr>ed_points := validated, ed_selected := min (ed_selected ed) (int (length validated) - 1)\<rparr>)))"

definition select_point :: "int \<Rightarrow> editor \<Rightarrow> editor" where
  "select_point index ed =
     emit_selection (ed\<lparr>ed_selected := if 0 \<le> index \<and> index < int (length (ed_points ed)) then index else -1\<rparr>)"

text \<open>\<open>min(range(len(xs)), key=\<dots>)\<close> and \<open>max(\<dots>)\<close>: the first index of the least or greatest key.\<close>

definition index_of_min :: "'a::linorder list \<Rightarrow> nat" where
  "index_of_min xs = length (takeWhile (\<lambda>x. x \<noteq> Min (set xs)) xs)"

definition index_of_max :: "'a::linorder list \<Rightarrow> nat" where
  "index_of_max xs = length (takeWhile (\<lambda>x. x \<noteq> Max (set xs)) xs)"

definition insert_point :: "nat \<Rightarrow> fan_curve_point \<Rightarrow> fan_curve_point list \<Rightarrow> fan_curve_point list" where
  "insert_point i p ps = take i ps @ p # drop i ps"

definition gaps :: "fan_curve_point list \<Rightarrow> int list" where
  "gaps ps = map (\<lambda>(p, q). temp_mc q - temp_mc p) (zip ps (tl ps))"

definition middle_point :: "fan_curve_point \<Rightarrow> fan_curve_point \<Rightarrow> fan_curve_point" where
  "middle_point left right =
     curve_point (((temp_mc left + temp_mc right) div 2 div 1000) * 1000)
       (round_half_even (speed left + speed right) 10 * 5)"

text \<open>\<open>max\<close> of an empty range raises; the widget always holds two points.\<close>

definition add_point :: "editor \<Rightarrow> exn + editor" where
  "add_point ed =
     (let ps = ed_points ed in
      if 12 \<le> length ps then Inr ed
      else if gaps ps = [] then Inl (ValueError ''max() iterable argument is empty'')
      else let i = index_of_max (gaps ps)
           in Inr (emit_change (ed\<lparr>ed_points := insert_point (i + 1) (middle_point (ps ! i) (ps ! (i + 1))) ps,
                                   ed_selected := int i + 1\<rparr>)))"

definition remove_selected :: "editor \<Rightarrow> editor" where
  "remove_selected ed =
     (let ps = ed_points ed; i = nat (ed_selected ed) in
      if ed_selected ed < 0 \<or> length ps \<le> 2 then ed
      else let ps' = take i ps @ drop (Suc i) ps
           in emit_change (ed\<lparr>ed_points := ps', ed_selected := min (ed_selected ed) (int (length ps') - 1)\<rparr>))"

definition lower_temp :: "fan_curve_point list \<Rightarrow> nat \<Rightarrow> int" where
  "lower_temp ps i = (if i = 0 then TEMP_MIN else temp_mc (ps ! (i - 1)) + 1000)"

text \<open>The point that ends up at an index: \<open>upper\<close> is the point behind it, if there is one.\<close>

definition fitted_point :: "fan_curve_point list \<Rightarrow> nat \<Rightarrow> fan_curve_point list \<Rightarrow> int \<Rightarrow> int \<Rightarrow> fan_curve_point" where
  "fitted_point ps i upper t v =
     (let v = (if 0 < i then max v (speed (ps ! (i - 1))) else v);
          v = (case upper of [] \<Rightarrow> v | q # _ \<Rightarrow> min v (speed q))
      in curve_point t (if 95000 \<le> t then 100 else v))"

definition update_selected :: "int \<Rightarrow> int \<Rightarrow> editor \<Rightarrow> editor" where
  "update_selected t v ed =
     (let ps = ed_points ed; i = nat (ed_selected ed) in
      if ed_selected ed < 0 then ed
      else let maximum = (if i + 1 = length ps then TEMP_MAX else temp_mc (ps ! (i + 1)) - 1000);
               t = max (lower_temp ps i) (min maximum ((t div 1000) * 1000));
               v = max 0 (min 100 v)
           in emit_change (ed\<lparr>ed_points := ps[i := fitted_point ps i (drop (i + 1) ps) t v]\<rparr>))"

section \<open>The mouse\<close>

definition from_position :: "pointer \<Rightarrow> int \<times> int" where
  "from_position pt = (round_half_even (pt_temp pt) 1000 * 1000, round_half_even (pt_speed pt) 5 * 5)"

definition nearest :: "pointer \<Rightarrow> fan_curve_point list \<Rightarrow> int" where
  "nearest pt ps =
     (let distances = map (pt_distance pt) ps; i = index_of_min distances
      in if distances ! i \<le> 18 then int i else -1)"

datatype mouse_button = Left_button | Right_button | Other_button

text \<open>A press of the left button away from every point: insertion.\<close>

definition press_insert :: "pointer \<Rightarrow> editor \<Rightarrow> editor" where
  "press_insert pt ed =
     (let ps = ed_points ed in
      if 12 \<le> length ps then ed
      else case from_position pt of (t, v) \<Rightarrow>
        let i = length (takeWhile (\<lambda>p. \<not> temp_mc p > t) ps);
            minimum = lower_temp ps i;
            maximum = (if i = length ps then TEMP_MAX else temp_mc (ps ! i) - 1000)
        in if minimum > maximum then ed
           else emit_change (ed\<lparr>ed_points := insert_point i (fitted_point ps i (drop i ps) (max minimum (min maximum t)) v) ps,
                                ed_selected := int i, ed_dragging := True\<rparr>))"

definition mouse_press :: "mouse_button \<Rightarrow> pointer \<Rightarrow> editor \<Rightarrow> editor" where
  "mouse_press b pt ed =
     (case b of
        Right_button \<Rightarrow> remove_selected (select_point (nearest pt (ed_points ed)) ed)
      | Other_button \<Rightarrow> ed
      | Left_button \<Rightarrow>
          (let n = nearest pt (ed_points ed) in
           if 0 \<le> n then (select_point n ed)\<lparr>ed_dragging := True\<rparr> else press_insert pt ed))"

definition mouse_move :: "pointer \<Rightarrow> editor \<Rightarrow> editor" where
  "mouse_move pt ed =
     (if ed_dragging ed \<and> 0 \<le> ed_selected ed
      then case from_position pt of (t, v) \<Rightarrow> update_selected t v ed else ed)"

definition mouse_release :: "editor \<Rightarrow> editor" where
  "mouse_release ed = ed\<lparr>ed_dragging := False\<rparr>"

section \<open>The fan page\<close>

definition DEFAULT_CURVE :: string where
  "DEFAULT_CURVE = ''40000:0,60000:30,80000:65,95000:100''"

record fan_page =
  fp_editor :: editor
  fp_dirty :: bool

text \<open>
  \<open>_load_selected_curve\<close> for the curves of the last snapshot, if one has arrived, and the profile that is selected. An
  exception leaves the editor as it is.
\<close>

definition load_selected_curve :: "string dict option \<Rightarrow> string \<Rightarrow> bool \<Rightarrow> fan_page \<Rightarrow> exn + fan_page" where
  "load_selected_curve curves profile force pg =
     (case curves of
        None \<Rightarrow> Inr pg
      | Some curves \<Rightarrow>
          if fp_dirty pg \<and> \<not> force then Inr pg
          else let curve = dget curves profile [];
                   curve = (if curve = [] then DEFAULT_CURVE else curve)
               in rbind (parse_curve (PStr curve)) (\<lambda>points.
                  rbind (set_points points (fp_editor pg)) (\<lambda>ed. Inr \<lparr>fp_editor = ed, fp_dirty = False\<rparr>)))"

definition profile_changed :: "string dict option \<Rightarrow> string \<Rightarrow> fan_page \<Rightarrow> exn + fan_page" where
  "profile_changed curves profile pg = load_selected_curve curves profile True (pg\<lparr>fp_dirty := False\<rparr>)"

text \<open>\<open>_curve_changed\<close> runs for every change signal of an edit.\<close>

fun is_change :: "editor_signal \<Rightarrow> bool" where
  "is_change (Points_changed ps) = True"
| "is_change (Selection_changed i) = False"

definition page_edit :: "(editor \<Rightarrow> editor) \<Rightarrow> fan_page \<Rightarrow> fan_page" where
  "page_edit f pg =
     (let ed = f (fp_editor pg); sent = drop (length (ed_signals (fp_editor pg))) (ed_signals ed)
      in \<lparr>fp_editor = ed, fp_dirty = (fp_dirty pg \<or> list_ex is_change sent)\<rparr>)"

text \<open>\<open>_point_values_changed\<close> for the values of the two spin boxes\<close>

definition point_values_changed :: "int \<Rightarrow> int \<Rightarrow> editor \<Rightarrow> editor" where
  "point_values_changed t v ed = update_selected (t * 1000) v ed"

text \<open>\<open>_apply_curve\<close>: the request that is sent, or the text of the hint.\<close>

definition apply_curve :: "string \<Rightarrow> editor \<Rightarrow> string + dbus_call" where
  "apply_curve profile ed =
     (case parse_curve (PStr (format_curve (ed_points ed))) of
        Inl e \<Rightarrow> Inl (exn_str e)
      | Inr points \<Rightarrow> Inr (SetCurve profile (map (\<lambda>p. (temp_mc p, speed p)) points)))"


section \<open>Curves stay valid\<close>

definition ordered_points :: "fan_curve_point list \<Rightarrow> bool" where
  "ordered_points ps \<longleftrightarrow> list_all point_ok ps
     \<and> sorted_wrt (\<lambda>p q. temp_mc p < temp_mc q) ps \<and> sorted_wrt (\<lambda>p q. speed p \<le> speed q) ps
     \<and> list_all (\<lambda>p. 95000 \<le> temp_mc p \<longrightarrow> speed p = 100) ps"

lemma valid_curve_ordered: "valid_curve ps \<longleftrightarrow> 2 \<le> length ps \<and> length ps \<le> 12 \<and> ordered_points ps"
  by (auto simp: valid_curve_def ordered_points_def)

lemma ordered_append:
  "ordered_points (as @ bs) \<longleftrightarrow> ordered_points as \<and> ordered_points bs
     \<and> (\<forall>p\<in>set as. \<forall>q\<in>set bs. temp_mc p < temp_mc q \<and> speed p \<le> speed q)"
  by (auto simp: ordered_points_def sorted_wrt_append)

lemma ordered_Cons:
  "ordered_points (p # bs) \<longleftrightarrow> point_ok p \<and> (95000 \<le> temp_mc p \<longrightarrow> speed p = 100) \<and> ordered_points bs
     \<and> (\<forall>q\<in>set bs. temp_mc p < temp_mc q \<and> speed p \<le> speed q)"
  by (auto simp: ordered_points_def)

definition between :: "fan_curve_point list \<Rightarrow> fan_curve_point \<Rightarrow> fan_curve_point list \<Rightarrow> bool" where
  "between as p bs \<longleftrightarrow> point_ok p \<and> (95000 \<le> temp_mc p \<longrightarrow> speed p = 100)
     \<and> (as \<noteq> [] \<longrightarrow> temp_mc (last as) < temp_mc p \<and> speed (last as) \<le> speed p)
     \<and> (bs \<noteq> [] \<longrightarrow> temp_mc p < temp_mc (hd bs) \<and> speed p \<le> speed (hd bs))"

lemma ordered_insert:
  assumes "ordered_points as" "ordered_points bs" "between as p bs"
  shows "ordered_points (as @ p # bs)"
proof -
  have below: "temp_mc q < temp_mc p \<and> speed q \<le> speed p" if "q \<in> set as" for q
  proof -
    have "as = butlast as @ [last as]" using that by (intro append_butlast_last_id [symmetric]) auto
    then have "temp_mc q \<le> temp_mc (last as) \<and> speed q \<le> speed (last as)"
      using assms(1) that ordered_append [of "butlast as" "[last as]"] by (metis Un_iff empty_iff empty_set list.set_intros(1) order.strict_implies_order order_refl set_ConsD set_append)
    then show ?thesis using assms(3) that by (force simp: between_def)
  qed
  moreover have above: "temp_mc p < temp_mc q \<and> speed p \<le> speed q" if "q \<in> set bs" for q
    using assms(2,3) that by (cases bs) (force simp: between_def ordered_Cons)+
  ultimately have "temp_mc q < temp_mc r \<and> speed q \<le> speed r" if "q \<in> set as" "r \<in> set bs" for q r
    using that by (meson order.strict_trans order_trans)
  then show ?thesis
    using assms below above by (auto simp: ordered_append ordered_Cons between_def)
qed

lemma last_take: "0 < i \<Longrightarrow> i \<le> length ps \<Longrightarrow> last (take i ps) = ps ! (i - 1)"
  by (cases i) (simp_all add: take_Suc_conv_app_nth)

text \<open>The room above the predecessor and below the successor\<close>

definition upper_temp :: "fan_curve_point list \<Rightarrow> int" where
  "upper_temp bs = (case bs of [] \<Rightarrow> TEMP_MAX | q # _ \<Rightarrow> temp_mc q - 1000)"

lemma fitted_between:
  assumes i: "i \<le> length ps" and o: "ordered_points (take i ps @ bs)"
    and t: "lower_temp ps i \<le> t" "t \<le> upper_temp bs" and v: "0 \<le> v" "v \<le> 100"
  shows "between (take i ps) (fitted_point ps i bs t v) bs"
proof -
  let ?l = "ps ! (i - 1)"
  have l: "point_ok ?l \<and> last (take i ps) = ?l \<and> take i ps \<noteq> []" if "0 < i"
  proof -
    have ne: "take i ps \<noteq> []" using that i by auto
    then have "last (take i ps) \<in> set (take i ps)" by (rule last_in_set)
    then show ?thesis
      using o last_take [OF that i] ne by (auto simp: ordered_points_def list_all_iff)
  qed
  have lq: "speed ?l \<le> speed (hd bs)" if "0 < i" "bs \<noteq> []"
    using o l [OF that(1)] that by (metis hd_in_set last_in_set ordered_append)
  define w where "w = (if 0 < i then max v (speed ?l) else v)"
  have w: "0 \<le> w" "w \<le> 100" "0 < i \<Longrightarrow> speed ?l \<le> w"
    using v l by (auto simp: w_def point_ok_def)
  have t0: "40000 \<le> t" "0 < i \<Longrightarrow> temp_mc ?l < t"
    using t(1) l by (auto simp: lower_temp_def editor_consts point_ok_def split: if_splits)
  show ?thesis
  proof (cases bs)
    case Nil
    have "fitted_point ps i bs t v = curve_point t (if 95000 \<le> t then 100 else w)"
      using Nil by (simp add: fitted_point_def w_def)
    moreover have "t \<le> 100000" using t(2) Nil by (simp add: upper_temp_def editor_consts)
    ultimately show ?thesis
      using w t0 l Nil by (simp add: between_def point_ok_def)
  next
    case (Cons q r)
    define u where "u = (if 95000 \<le> t then 100 else min w (speed q))"
    have f: "fitted_point ps i bs t v = curve_point t u"
      using Cons by (simp add: fitted_point_def w_def u_def)
    have q: "point_ok q" "95000 \<le> temp_mc q \<longrightarrow> speed q = 100"
      using o Cons by (auto simp: ordered_append ordered_Cons)
    have tq: "t + 1000 \<le> temp_mc q" using t(2) Cons by (simp add: upper_temp_def)
    have u: "0 \<le> u" "u \<le> 100" "u \<le> speed q" "95000 \<le> t \<longrightarrow> u = 100" "0 < i \<Longrightarrow> speed ?l \<le> u"
      using w q tq lq l Cons by (auto simp: u_def point_ok_def)
    have "t \<le> 100000" using q(1) tq by (simp add: point_ok_def)
    then show ?thesis
      unfolding f between_def
      using u t0 tq l Cons by (simp add: point_ok_def)
  qed
qed

lemma ordered_without: "ordered_points (as @ x # bs) \<Longrightarrow> ordered_points (as @ bs)"
  by (auto simp: ordered_append ordered_Cons)

text \<open>Points on whole degrees leave room for a third one between any two that are not neighbours.\<close>

definition whole_degrees :: "fan_curve_point list \<Rightarrow> bool" where
  "whole_degrees ps \<longleftrightarrow> list_all (\<lambda>p. temp_mc p mod 1000 = 0) ps"

definition editable :: "editor \<Rightarrow> bool" where
  "editable ed \<longleftrightarrow> valid_curve (ed_points ed) \<and> whole_degrees (ed_points ed)
     \<and> -1 \<le> ed_selected ed \<and> ed_selected ed < int (length (ed_points ed))"

lemma emit_simps [simp]:
  "ed_points (emit_selection ed) = ed_points ed" "ed_selected (emit_selection ed) = ed_selected ed"
  "ed_points (emit_change ed) = ed_points ed" "ed_selected (emit_change ed) = ed_selected ed"
  by (simp_all add: emit_selection_def emit_change_def)

lemma editable_select: "editable ed \<Longrightarrow> editable (select_point i ed)"
  by (auto simp: editable_def select_point_def)

lemma editable_remove: "editable ed \<Longrightarrow> editable (remove_selected ed)"
proof -
  assume ed: "editable ed"
  let ?ps = "ed_points ed" and ?i = "nat (ed_selected ed)"
  show ?thesis
  proof (cases "ed_selected ed < 0 \<or> length ?ps \<le> 2")
    case False
    then have i: "?i < length ?ps" using ed by (auto simp: editable_def)
    then have "ordered_points (take ?i ?ps @ drop (Suc ?i) ?ps)"
      using ed ordered_without [of "take ?i ?ps" "?ps ! ?i" "drop (Suc ?i) ?ps"]
      by (simp add: editable_def valid_curve_ordered id_take_nth_drop [symmetric])
    then show ?thesis
      using ed False i
      by (auto simp: remove_selected_def Let_def editable_def valid_curve_ordered whole_degrees_def list_all_iff min_def
          dest: in_set_takeD in_set_dropD)
  qed (use ed in \<open>simp add: remove_selected_def Let_def\<close>)
qed

lemma whole_nth: "whole_degrees ps \<Longrightarrow> i < length ps \<Longrightarrow> temp_mc (ps ! i) mod 1000 = 0"
  by (simp add: whole_degrees_def list_all_length)

lemma whole_lower: "whole_degrees ps \<Longrightarrow> i \<le> length ps \<Longrightarrow> lower_temp ps i mod 1000 = 0"
proof -
  assume w: "whole_degrees ps" and i: "i \<le> length ps"
  show ?thesis
  proof (cases i)
    case (Suc j)
    then have "temp_mc (ps ! j) mod 1000 = 0" using w i by (simp add: whole_nth)
    then show ?thesis using Suc by (simp add: lower_temp_def)
  qed (simp add: lower_temp_def editor_consts)
qed

lemma whole_upper: "whole_degrees bs \<Longrightarrow> upper_temp bs mod 1000 = 0"
proof (cases bs)
  case (Cons q r)
  assume "whole_degrees bs"
  then have "temp_mc q mod 1000 = 0" using Cons by (simp add: whole_degrees_def)
  then show ?thesis using Cons by (simp add: upper_temp_def mod_diff_left_eq [of "temp_mc q" 1000 1000, symmetric])
qed (simp add: upper_temp_def editor_consts)

lemma fitted_temp [simp]: "temp_mc (fitted_point ps i bs t v) = t"
  by (simp add: fitted_point_def Let_def)

lemma whole_set: "whole_degrees ps \<longleftrightarrow> (\<forall>p\<in>set ps. temp_mc p mod 1000 = 0)"
  by (simp add: whole_degrees_def list_all_iff)

lemma whole_take_drop: "whole_degrees ps \<Longrightarrow> whole_degrees (take i ps)" "whole_degrees ps \<Longrightarrow> whole_degrees (drop i ps)"
  by (auto simp: whole_set dest: in_set_takeD in_set_dropD)

lemma max_min_mod: "a mod n = 0 \<Longrightarrow> b mod n = 0 \<Longrightarrow> c mod n = 0 \<Longrightarrow> max a (min b c) mod n = (0::int)"
  by (simp add: max_def min_def)

lemma upper_drop: "i \<le> length ps \<Longrightarrow> upper_temp (drop i ps) = (if i = length ps then TEMP_MAX else temp_mc (ps ! i) - 1000)"
  by (cases "i = length ps") (simp_all add: upper_temp_def Cons_nth_drop_Suc [symmetric])

lemma whole_gap: "a mod 1000 = 0 \<Longrightarrow> b mod 1000 = 0 \<Longrightarrow> a < b \<Longrightarrow> a + 1000 \<le> (b :: int)"
  by (auto simp: mod_0_imp_dvd elim!: dvdE dest!: mod_0_imp_dvd)

lemma ordered_room:
  assumes "ordered_points ps" "whole_degrees ps" "i < length ps"
  shows "lower_temp ps i \<le> upper_temp (drop (i + 1) ps)"
proof -
  have up: "temp_mc (ps ! j) + 1000 \<le> temp_mc (ps ! k)" if "j < k" "k < length ps" for j k
  proof -
    have "temp_mc (ps ! j) < temp_mc (ps ! k)"
      using assms(1) that by (auto simp: ordered_points_def sorted_wrt_iff_nth_less)
    then show ?thesis
      using whole_gap whole_nth [OF assms(2), of j] whole_nth [OF assms(2) that(2)] that by simp
  qed
  have r: "40000 \<le> temp_mc (ps ! j) \<and> temp_mc (ps ! j) \<le> 100000" if "j < length ps" for j
    using assms(1) that by (auto simp: ordered_points_def list_all_length point_ok_def)
  have n: "upper_temp (drop (i + 1) ps) = (if i + 1 = length ps then TEMP_MAX else temp_mc (ps ! (i + 1)) - 1000)"
    using assms(3) by (intro upper_drop) simp
  have low: "lower_temp ps i \<le> temp_mc (ps ! i)"
    using r [of i] up [of "i - 1" i] assms(3) by (cases "i = 0") (simp_all add: lower_temp_def editor_consts)
  show ?thesis
  proof (cases "i + 1 = length ps")
    case True
    then show ?thesis using low r [of i] assms(3) unfolding n by (simp add: editor_consts)
  next
    case False
    then show ?thesis using low up [of i "i + 1"] assms(3) unfolding n by simp
  qed
qed

lemma editable_update:
  assumes "editable ed"
  shows "editable (update_selected t v ed)"
proof (cases "ed_selected ed < 0")
  case False
  let ?ps = "ed_points ed" and ?i = "nat (ed_selected ed)"
  define x where "x = max (lower_temp ?ps ?i) (min (upper_temp (drop (?i + 1) ?ps)) ((t div 1000) * 1000))"
  define y where "y = max 0 (min 100 v)"
  let ?p = "fitted_point ?ps ?i (drop (?i + 1) ?ps) x y"
  have i: "?i < length ?ps" and o: "ordered_points ?ps" and w: "whole_degrees ?ps"
    using assms False by (auto simp: editable_def valid_curve_ordered)
  have split: "?ps = take ?i ?ps @ ?ps ! ?i # drop (?i + 1) ?ps" using i by (simp add: id_take_nth_drop)
  then have without: "ordered_points (take ?i ?ps @ drop (?i + 1) ?ps)" using o ordered_without by metis
  have "between (take ?i ?ps) ?p (drop (?i + 1) ?ps)"
    using i ordered_room [OF o w i] by (intro fitted_between without) (auto simp: x_def y_def)
  then have "ordered_points (?ps[?i := ?p])"
    using without i ordered_insert [of "take ?i ?ps" "drop (?i + 1) ?ps" ?p]
    by (simp add: upd_conv_take_nth_drop ordered_append [of "take ?i ?ps" "drop (Suc ?i) ?ps"])
  moreover have "x mod 1000 = 0"
    unfolding x_def using w i by (intro max_min_mod whole_lower whole_upper whole_take_drop) auto
  then have "whole_degrees (?ps[?i := ?p])"
    using w by (auto simp: whole_set dest!: set_update_subset_insert [THEN subsetD])
  moreover have "update_selected t v ed = emit_change (ed\<lparr>ed_points := ?ps[?i := ?p]\<rparr>)"
    using False i upper_drop [of "?i + 1" ?ps] by (simp add: update_selected_def Let_def x_def y_def)
  ultimately show ?thesis
    using assms by (simp add: editable_def valid_curve_ordered)
qed (use assms in \<open>simp add: update_selected_def Let_def\<close>)

text \<open>What Qt reports: the pointer is inside the plot, which spans all speeds.\<close>

definition pointer_ok :: "pointer \<Rightarrow> bool" where
  "pointer_ok pt \<longleftrightarrow> 0 \<le> pt_speed pt \<and> pt_speed pt \<le> 100"

lemma from_position_range:
  assumes "pointer_ok pt" "from_position pt = (t, v)"
  shows "0 \<le> v" "v \<le> 100" "t mod 1000 = 0"
  using assms round_half_even_ge [of 5 0 "pt_speed pt"] round_half_even_le [of 5 "pt_speed pt" 20]
  by (auto simp: pointer_ok_def from_position_def)

lemma editable_insert:
  assumes ed: "editable ed" and room: "length (ed_points ed) < 12" "i \<le> length (ed_points ed)"
    and b: "between (take i (ed_points ed)) p (drop i (ed_points ed))" and w: "temp_mc p mod 1000 = 0"
  shows "editable (emit_change (ed\<lparr>ed_points := insert_point i p (ed_points ed), ed_selected := int i, ed_dragging := d\<rparr>))"
    "editable (emit_change (ed\<lparr>ed_points := insert_point i p (ed_points ed), ed_selected := int i\<rparr>))"
proof -
  let ?ps = "ed_points ed"
  have "ordered_points ?ps" using ed by (simp add: editable_def valid_curve_ordered)
  then have "ordered_points (take i ?ps)" "ordered_points (drop i ?ps)"
    using ordered_append [of "take i ?ps" "drop i ?ps"] by simp_all
  then have "ordered_points (insert_point i p ?ps)"
    using b by (simp add: insert_point_def ordered_insert)
  moreover have "whole_degrees (insert_point i p ?ps)"
    using ed w by (auto simp: editable_def insert_point_def whole_set dest: in_set_takeD in_set_dropD)
  moreover have "length (insert_point i p ?ps) = Suc (length ?ps)"
    using room(2) by (simp add: insert_point_def)
  ultimately show "editable (emit_change (ed\<lparr>ed_points := insert_point i p (ed_points ed), ed_selected := int i, ed_dragging := d\<rparr>))"
    "editable (emit_change (ed\<lparr>ed_points := insert_point i p (ed_points ed), ed_selected := int i\<rparr>))"
    using ed room by (simp_all add: editable_def valid_curve_ordered)
qed

lemma editable_press_insert:
  assumes "editable ed" "pointer_ok pt"
  shows "editable (press_insert pt ed)"
proof -
  let ?ps = "ed_points ed"
  obtain t v where tv: "from_position pt = (t, v)" by fastforce
  define i where "i = length (takeWhile (\<lambda>p. \<not> temp_mc p > t) ?ps)"
  define x where "x = max (lower_temp ?ps i) (min (upper_temp (drop i ?ps)) t)"
  have i: "i \<le> length ?ps" by (simp add: i_def length_takeWhile_le)
  have o: "ordered_points (take i ?ps @ drop i ?ps)" and w: "whole_degrees ?ps"
    using assms(1) by (simp_all add: editable_def valid_curve_ordered)
  have eq: "press_insert pt ed =
      (if 12 \<le> length ?ps \<or> lower_temp ?ps i > upper_temp (drop i ?ps) then ed
       else emit_change (ed\<lparr>ed_points := insert_point i (fitted_point ?ps i (drop i ?ps) x v) ?ps,
              ed_selected := int i, ed_dragging := True\<rparr>))"
    unfolding press_insert_def tv x_def upper_drop [OF i] by (simp add: Let_def i_def [symmetric])
  show ?thesis
  proof (cases "12 \<le> length ?ps \<or> lower_temp ?ps i > upper_temp (drop i ?ps)")
    case True
    then show ?thesis using assms(1) by (simp add: eq)
  next
    case False
    have "between (take i ?ps) (fitted_point ?ps i (drop i ?ps) x v) (drop i ?ps)"
      using from_position_range [OF assms(2) tv] False by (intro fitted_between i o) (auto simp: x_def)
    moreover have "x mod 1000 = 0"
      unfolding x_def using w i from_position_range(3) [OF assms(2) tv]
      by (intro max_min_mod whole_lower whole_upper whole_take_drop)
    ultimately show ?thesis
      using assms(1) i False by (simp add: eq editable_insert(1))
  qed
qed

lemma editable_dragging: "editable (ed\<lparr>ed_dragging := d\<rparr>) \<longleftrightarrow> editable ed"
  by (simp add: editable_def)

lemma editable_mouse:
  assumes "editable ed" "pointer_ok pt"
  shows "editable (mouse_press b pt ed)" "editable (mouse_move pt ed)" "editable (mouse_release ed)"
  using assms
  by (auto simp: mouse_press_def mouse_move_def mouse_release_def Let_def editable_dragging
      intro: editable_remove editable_select editable_update editable_press_insert split: mouse_button.splits prod.splits)

subsection \<open>Adding a point\<close>

lemma takeWhile_stops: "x \<in> set xs \<Longrightarrow> \<not> P x \<Longrightarrow> length (takeWhile P xs) < length xs"
  by (induction xs) auto

lemma index_of_max_less: "xs \<noteq> [] \<Longrightarrow> index_of_max xs < length xs"
  unfolding index_of_max_def by (rule takeWhile_stops [of "Max (set xs)"]) simp_all

lemma length_gaps: "length (gaps ps) = length ps - 1"
  by (simp add: gaps_def)

text \<open>
  The middle of the widest gap: a curve point fits there if the gap is more than one degree, the speeds on both sides are
  multiples of 5, to which the new speed is rounded, and the middle is below 95 degrees unless both sides are at full speed.
\<close>

definition add_fits :: "fan_curve_point list \<Rightarrow> bool" where
  "add_fits ps =
     (let i = index_of_max (gaps ps); l = ps ! i; r = ps ! (i + 1)
      in temp_mc l + 2000 \<le> temp_mc r \<and> speed l mod 5 = 0 \<and> speed r mod 5 = 0
         \<and> (temp_mc (middle_point l r) < 95000 \<or> speed l = 100))"

lemma middle_temp:
  assumes "a mod 1000 = 0" "b mod 1000 = 0" "a + 2000 \<le> (b :: int)"
  shows "a < (a + b) div 2 div 1000 * 1000" "(a + b) div 2 div 1000 * 1000 < b"
proof -
  obtain x y where xy: "a = 1000 * x" "b = 1000 * y" using assms by (auto dest!: mod_0_imp_dvd elim!: dvdE)
  have "(a + b) div 2 div 1000 = (a + b) div 2000" using zdiv_zmult2_eq [of 1000 "a + b" 2] by simp
  also have "\<dots> = (x + y) div 2" using div_mult_mult1 [of 1000 "x + y" 2] by (simp add: xy distrib_left)
  finally have m: "(a + b) div 2 div 1000 = (x + y) div 2" .
  have "x + 2 \<le> y" using assms(3) xy by simp
  then have "x < (x + y) div 2" "(x + y) div 2 < y" by presburger+
  then show "a < (a + b) div 2 div 1000 * 1000" "(a + b) div 2 div 1000 * 1000 < b"
    unfolding m by (simp_all add: xy)
qed

lemma middle_speed:
  assumes "a mod 5 = 0" "b mod 5 = 0" "a \<le> (b :: int)"
  shows "a \<le> round_half_even (a + b) 10 * 5" "round_half_even (a + b) 10 * 5 \<le> b"
proof -
  obtain x y where xy: "a = 5 * x" "b = 5 * y" using assms by (auto dest!: mod_0_imp_dvd elim!: dvdE)
  then have "x \<le> round_half_even (a + b) 10" "round_half_even (a + b) 10 \<le> y"
    using assms(3) by (auto intro: round_half_even_ge round_half_even_le)
  then show "a \<le> round_half_even (a + b) 10 * 5" "round_half_even (a + b) 10 * 5 \<le> b"
    by (simp_all add: xy)
qed

lemma middle_between:
  assumes "point_ok l" "point_ok r" "speed l \<le> speed r" "temp_mc l mod 1000 = 0" "temp_mc r mod 1000 = 0"
    "temp_mc l + 2000 \<le> temp_mc r" "speed l mod 5 = 0" "speed r mod 5 = 0"
    "temp_mc (middle_point l r) < 95000 \<or> speed l = 100"
  shows "between [l] (middle_point l r) [r]"
proof -
  let ?m = "middle_point l r"
  have t: "temp_mc l < temp_mc ?m" "temp_mc ?m < temp_mc r"
    using middle_temp [OF assms(4-6)] by (simp_all add: middle_point_def)
  have v: "speed l \<le> speed ?m" "speed ?m \<le> speed r"
    using middle_speed [OF assms(7,8,3)] by (simp_all add: middle_point_def)
  have "point_ok ?m" "95000 \<le> temp_mc ?m \<longrightarrow> speed ?m = 100"
    using assms(1,2,9) t v unfolding point_ok_def by linarith+
  then show ?thesis using t v by (simp add: between_def)
qed

lemma between_last: "between [last as] p [hd bs] \<Longrightarrow> between as p bs"
  by (simp add: between_def)

lemma editable_add:
  assumes "editable ed" "add_fits (ed_points ed)" "add_point ed = Inr ed'"
  shows "editable ed'"
proof (cases "12 \<le> length (ed_points ed)")
  case False
  let ?ps = "ed_points ed"
  define i where "i = index_of_max (gaps ?ps)"
  let ?l = "?ps ! i" and ?r = "?ps ! (i + 1)"
  have v: "2 \<le> length ?ps" "ordered_points ?ps" and w: "whole_degrees ?ps"
    using assms(1) by (simp_all add: editable_def valid_curve_ordered)
  then have g: "gaps ?ps \<noteq> []" using length_gaps [of ?ps] by auto
  then have i: "i + 1 < length ?ps" using index_of_max_less [OF g] length_gaps [of ?ps] v(1) by (simp add: i_def)
  have ok: "point_ok (?ps ! j)" if "j < length ?ps" for j
    using v(2) that by (simp add: ordered_points_def list_all_length)
  have up: "speed ?l \<le> speed ?r"
    using v(2) i sorted_wrt_nth_less [of "\<lambda>p q. speed p \<le> speed q" ?ps i "i + 1"] by (simp add: ordered_points_def)
  have "between [?l] (middle_point ?l ?r) [?r]"
    using i assms(2) up unfolding add_fits_def Let_def i_def [symmetric]
    by (intro middle_between ok whole_nth [OF w]) simp_all
  moreover have "last (take (i + 1) ?ps) = ?l" "hd (drop (i + 1) ?ps) = ?r"
    using i last_take [of "i + 1" ?ps] hd_drop_conv_nth [of "i + 1" ?ps] by simp_all
  ultimately have "between (take (i + 1) ?ps) (middle_point ?l ?r) (drop (i + 1) ?ps)"
    using between_last [of "take (i + 1) ?ps" _ "drop (i + 1) ?ps"] by simp
  moreover have "temp_mc (middle_point ?l ?r) mod 1000 = 0" by (simp add: middle_point_def)
  ultimately have "editable (emit_change (ed\<lparr>ed_points := insert_point (i + 1) (middle_point ?l ?r) ?ps, ed_selected := int (i + 1)\<rparr>))"
    using assms(1) i False by (intro editable_insert(2)) simp_all
  moreover have "add_point ed = Inr (emit_change (ed\<lparr>ed_points := insert_point (i + 1) (middle_point ?l ?r) ?ps, ed_selected := int i + 1\<rparr>))"
    unfolding add_point_def Let_def i_def [symmetric] if_not_P [OF False] if_not_P [OF g] ..
  ultimately show ?thesis using assms(3) by (simp only: of_nat_add of_nat_1 sum.inject)
qed (use assms in \<open>simp add: add_point_def\<close>)

text \<open>Otherwise the new point need not fit: at 95 degrees it stays below full speed, and a gap of one degree gets a duplicate.\<close>

lemma add_point_below_floor:
  "add_point (editor_init\<lparr>ed_points := [curve_point 90000 80, curve_point 100000 100]\<rparr>) = Inr ed' \<Longrightarrow>
     ed_points ed' = [curve_point 90000 80, curve_point 95000 90, curve_point 100000 100] \<and> \<not> valid_curve (ed_points ed')"
  by (auto simp: add_point_def editor_init_def gaps_def index_of_max_def middle_point_def insert_point_def round_half_even_def
      valid_curve_def)

lemma add_point_duplicate:
  "add_point (editor_init\<lparr>ed_points := [curve_point 40000 0, curve_point 41000 50]\<rparr>) = Inr ed' \<Longrightarrow>
     ed_points ed' = [curve_point 40000 0, curve_point 40000 25, curve_point 41000 50] \<and> \<not> valid_curve (ed_points ed')"
  by (auto simp: add_point_def editor_init_def gaps_def index_of_max_def middle_point_def insert_point_def round_half_even_def
      valid_curve_def)

section \<open>Editing\<close>

text \<open>
  The editor after any number of gestures, starting as the widget starts and loading only curves on whole degrees.
\<close>

inductive edited :: "editor \<Rightarrow> bool" where
  start: "edited editor_init"
| load: "edited ed \<Longrightarrow> whole_degrees ps \<Longrightarrow> set_points ps ed = Inr ed' \<Longrightarrow> edited ed'"
| select: "edited ed \<Longrightarrow> edited (select_point i ed)"
| press: "edited ed \<Longrightarrow> pointer_ok pt \<Longrightarrow> edited (mouse_press b pt ed)"
| move: "edited ed \<Longrightarrow> pointer_ok pt \<Longrightarrow> edited (mouse_move pt ed)"
| release: "edited ed \<Longrightarrow> edited (mouse_release ed)"
| spin: "edited ed \<Longrightarrow> edited (point_values_changed t v ed)"
| remove: "edited ed \<Longrightarrow> edited (remove_selected ed)"
| add: "edited ed \<Longrightarrow> add_fits (ed_points ed) \<Longrightarrow> add_point ed = Inr ed' \<Longrightarrow> edited ed'"

lemma set_points_iff:
  "set_points ps ed = Inr ed' \<longleftrightarrow> valid_curve ps \<and>
     ed' = emit_selection (ed\<lparr>ed_points := ps, ed_selected := min (ed_selected ed) (int (length ps) - 1)\<rparr>)"
proof -
  have "(\<lambda>p. (PInt (temp_mc p), PInt (speed p))) = point_pv" by (simp add: point_pv_def fun_eq_iff)
  moreover have "inj point_pv" by (auto simp: inj_def point_pv_def)
  ultimately have "validate_curve_points (map (\<lambda>p. (PInt (temp_mc p), PInt (speed p))) ps) = Inr qs \<longleftrightarrow> qs = ps \<and> valid_curve ps" for qs
    using inj_map_eq_map [of point_pv ps qs] by (auto simp: validate_curve_points_iff)
  then show ?thesis unfolding set_points_def rbind_eq_Inr_iff by (auto simp only: sum.inject)
qed

lemma editable_init: "editable editor_init"
  by (simp add: editable_def editor_init_def valid_curve_def point_ok_def whole_degrees_def)

lemma edited_editable: "edited ed \<Longrightarrow> editable ed"
proof (induction rule: edited.induct)
  case (load ed ps ed')
  then show ?case by (auto simp: set_points_iff editable_def valid_curve_def)
next
  case (release ed)
  then show ?case by (simp add: mouse_release_def editable_dragging)
qed (auto simp: point_values_changed_def intro: editable_init editable_select editable_mouse editable_update editable_remove editable_add)

lemma points_str_format: "points_str (map (\<lambda>p. (temp_mc p, speed p)) ps) = format_curve ps"
proof -
  have "format_point = (\<lambda>p. int_str (temp_mc p) @ CHR '':'' # int_str (speed p))"
    by (simp add: format_point_def fun_eq_iff)
  then show ?thesis by (simp add: points_str_def format_curve_def comp_def)
qed

lemma apply_valid_curve:
  "valid_curve (ed_points ed) \<Longrightarrow>
     apply_curve profile ed = Inr (SetCurve profile (map (\<lambda>p. (temp_mc p, speed p)) (ed_points ed)))"
  by (simp add: apply_curve_def curve_codec.roundtrip)

text \<open>Between points that are less than two degrees apart, as a saved curve may have them, a drag breaks the order.\<close>

lemma drag_breaks_order:
  "ed_points (update_selected 50500 20 (editor_init\<lparr>ed_points := [curve_point 50000 10, curve_point 50500 20, curve_point 51000 30],
     ed_selected := 1\<rparr>)) = [curve_point 50000 10, curve_point 51000 20, curve_point 51000 30]"
  by (simp add: update_selected_def fitted_point_def lower_temp_def editor_init_def Let_def emit_change_def emit_selection_def)

section \<open>Properties\<close>


text \<open>A point is inserted at 70 degrees and 50%, and dragged towards 99 degrees and 90%.\<close>

definition far_pointer :: "int \<Rightarrow> int \<Rightarrow> pointer" where
  "far_pointer t v = \<lparr>pt_distance = (\<lambda>_. 100), pt_temp = t, pt_speed = v\<rparr>"

definition dragged_editor :: editor where
  "dragged_editor = mouse_move (far_pointer 99210 90) (mouse_press Left_button (far_pointer 70400 52) editor_init)"

lemma dragged_editor_points:
  "ed_points dragged_editor =
     [curve_point 40000 0, curve_point 60000 30, curve_point 79000 65, curve_point 80000 65, curve_point 95000 100]"
  by code_simp


end
