(* ===== verification/Touchpad_Profile.thy ===== *)
theory Touchpad_Profile
  imports Touchpad Toml
begin

text \<open>
  The touchpad profiles that both command line tools read: \<open>_load_profile\<close> and \<open>_encoded_profile_payload\<close> of
  \<^verbatim>\<open>honor_control/cli/touchpadctl.py\<close>. Opening the file and \<open>tomllib.load\<close> are an argument: the document, or the exception.
  A Python dictionary with settings as keys is an association list in insertion order.
\<close>

section \<open>Reading a profile\<close>

type_synonym profile = "(touchpad_setting \<times> int) list \<times> bool option"

abbreviation value_error :: "string \<Rightarrow> exn + 'a" where
  "value_error m \<equiv> Inl (ValueError m)"

text \<open>\<open>sorted(set(d) - known)\<close>\<close>

definition unknown_keys :: "string list \<Rightarrow> pv dict \<Rightarrow> string list" where
  "unknown_keys known_names d = sort (filter (\<lambda>k. k \<notin> set known_names) (remdups (map fst d)))"

fun is_setting_value :: "pv \<Rightarrow> bool" where
  "is_setting_value (PStr s) = True"
| "is_setting_value (PInt i) = True"
| "is_setting_value (PBool b) = True"
| "is_setting_value _ = False"

fun load_profile_settings :: "pv dict \<Rightarrow> (touchpad_setting \<times> int) list \<Rightarrow> exn + (touchpad_setting \<times> int) list" where
  "load_profile_settings [] settings = Inr settings"
| "load_profile_settings ((name, raw_value) # items) settings =
     rbind (parse_touchpad_setting (SA_str name)) (\<lambda>canonical.
     if canonical \<in> fst ` set settings
     then value_error (''duplicate touchpad setting '' @ CHR 0x27 # setting_str canonical @ [CHR 0x27])
     else if \<not> is_setting_value raw_value
     then value_error (name @ '' must be a string, integer, or boolean'')
     else rbind (parse_touchpad_value (SA_setting canonical) raw_value) (\<lambda>parsed.
          load_profile_settings items (settings @ [(canonical, parsed)])))"

definition load_master :: "pv dict \<Rightarrow> exn + bool option" where
  "load_master document =
     (case map_of document ''master'' of
        None \<Rightarrow> Inr None
      | Some (PDict raw_master) \<Rightarrow>
          (let unknown_master = unknown_keys [''enabled''] raw_master
           in if unknown_master \<noteq> []
              then value_error (''unknown [master] key(s): '' @ join_with '', '' unknown_master)
              else case map_of raw_master ''enabled'' of
                Some (PBool b) \<Rightarrow> Inr (Some b)
              | _ \<Rightarrow> value_error ''[master].enabled must be true or false'')
      | Some _ \<Rightarrow> value_error ''[master] must be a TOML table'')"

definition load_profile :: "exn + pv dict \<Rightarrow> exn + profile" where
  "load_profile source =
     rbind source (\<lambda>document.
     let unknown_tables = unknown_keys [''settings'', ''master''] document
     in if unknown_tables \<noteq> []
        then value_error (''unknown profile table(s): '' @ join_with '', '' unknown_tables)
        else case dget document ''settings'' (PDict []) of
          PDict raw_settings \<Rightarrow>
            rbind (load_profile_settings raw_settings []) (\<lambda>settings.
            rbind (load_master document) (\<lambda>master.
            if settings = [] \<and> master = None
            then value_error ''profile contains neither [settings] values nor [master]''
            else Inr (settings, master)))
        | _ \<Rightarrow> value_error ''[settings] must be a TOML table'')"

section \<open>Showing a profile\<close>

text \<open>\<open>report.hex(" ")\<close>\<close>

definition byte_hex :: "byte \<Rightarrow> string" where
  "byte_hex b = [hex_digit (unat b div 16), hex_digit (unat b mod 16)]"

definition report_hex :: "byte list \<Rightarrow> string" where
  "report_hex report = join_with '' '' (map byte_hex report)"

definition encoded_setting :: "touchpad_setting \<times> int \<Rightarrow> exn + pv" where
  "encoded_setting sv =
     (case sv of (setting, val) \<Rightarrow>
        rbind (encode_touchpad_setting (SA_setting setting) (PInt val)) (\<lambda>reports.
        Inr (PDict [(''setting'', PStr (setting_str setting)), (''value'', PInt val),
                    (''reports'', PList (map (\<lambda>r. PStr (report_hex r)) reports))])))"

text \<open>\<open>f"0x{command:08x}"\<close> of the two commands of the master switch\<close>

definition MASTER_DISABLE_TEXT :: string where "MASTER_DISABLE_TEXT = ''0x00001002''"
definition MASTER_ENABLE_TEXT :: string where "MASTER_ENABLE_TEXT = ''0x00011002''"

definition encoded_profile_payload :: "profile \<Rightarrow> exn + pv dict" where
  "encoded_profile_payload p =
     (case p of (settings, master) \<Rightarrow>
        rbind (rmap encoded_setting
                (List.map_filter (\<lambda>s. map_option (Pair s) (map_of settings s)) TOUCHPAD_SETTINGS)) (\<lambda>encoded.
        Inr [(''master_enabled'', opt_bool master),
             (''master_command'', case master of
                None \<Rightarrow> PNone | Some b \<Rightarrow> PStr (if b then MASTER_ENABLE_TEXT else MASTER_DISABLE_TEXT)),
             (''settings'', PList encoded)]))"

section \<open>Loaded profiles are valid\<close>

definition loaded_profile_ok :: "profile \<Rightarrow> bool" where
  "loaded_profile_ok p \<longleftrightarrow> distinct (map fst (fst p)) \<and> (\<forall>(s, v)\<in>set (fst p). value_ok s v) \<and> (fst p \<noteq> [] \<or> snd p \<noteq> None)"

lemma load_profile_settings_ok:
  "load_profile_settings items settings = Inr r \<Longrightarrow> distinct (map fst settings) \<Longrightarrow> (\<forall>(s, v)\<in>set settings. value_ok s v) \<Longrightarrow>
     distinct (map fst r) \<and> (\<forall>(s, v)\<in>set r. value_ok s v)"
proof (induction items settings rule: load_profile_settings.induct)
  case (2 name raw_value items settings)
  from "2.prems"(1) obtain c v where "parse_touchpad_setting (SA_str name) = Inr c" "c \<notin> fst ` set settings"
    "is_setting_value raw_value" "parse_touchpad_value (SA_setting c) raw_value = Inr v"
    "load_profile_settings items (settings @ [(c, v)]) = Inr r"
    by (auto split: if_splits)
  moreover from this(4) have "value_ok c v" by (rule setting_value.sound)
  ultimately show ?case using "2.IH" "2.prems"(2,3) by force
qed simp

lemma load_profile_parts:
  assumes "load_profile source = Inr p"
  obtains d raw where "source = Inr d" "load_profile_settings raw [] = Inr (fst p)" "load_master d = Inr (snd p)" "fst p \<noteq> [] \<or> snd p \<noteq> None"
  using assms by (auto simp: load_profile_def Let_def split: if_splits pv.splits)

lemma load_profile_sound: "load_profile source = Inr p \<Longrightarrow> loaded_profile_ok p"
  by (erule load_profile_parts, drule load_profile_settings_ok) (simp_all add: loaded_profile_ok_def)

end
