(* ===== verification/Honorctl.thy ===== *)
theory Honorctl
  imports Remote Touchpad_Profile
begin

text \<open>
  \<^verbatim>\<open>honor_control/cli/honorctl.py\<close>: every command of the command line client, from its parsed arguments to its exit code.
  A command runs on a shell: the world behind the client, what was printed, the files written. The client is a function that
  answers a request of the protocol; instances are both clients of \<open>Remote\<close>. Arithmetic of floating-point numbers, their
  text, \<open>str\<close> of containers, reading a profile and writing a file are fields of \<open>cli_env\<close>. Parsing the command line is
  \<open>argparse\<close> and not modelled.
\<close>

section \<open>Programs\<close>

text \<open>What is printed: a JSON document, or text\<close>

datatype printed = Json pv | Human string

record 'w shell =
  sh_world :: 'w
  sh_out :: "printed list"
  sh_err :: "string list"
  sh_files :: "(string \<times> pv) list"
  sh_closed :: nat

record cli_env =
  ce_str :: "pv \<Rightarrow> string"
  ce_div :: "int \<Rightarrow> int \<Rightarrow> rat"
  ce_mul :: "pv \<Rightarrow> int \<Rightarrow> pv"
  ce_fmt_g :: "rat \<Rightarrow> string"
  ce_profile :: "string \<Rightarrow> exn + pv dict"
  ce_write_fault :: "string \<Rightarrow> exn option"
  ce_version :: string
  ce_json :: bool

type_synonym 'w client = "dbus_call \<Rightarrow> 'w \<Rightarrow> (client_exn + client_value) \<times> 'w"
type_synonym ('w, 'a) cmd = "'w shell \<Rightarrow> (client_exn + 'a) \<times> 'w shell"

definition cret :: "'a \<Rightarrow> ('w, 'a) cmd" where
  "cret x sh = (Inr x, sh)"

definition cbind :: "('w, 'a) cmd \<Rightarrow> ('a \<Rightarrow> ('w, 'b) cmd) \<Rightarrow> ('w, 'b) cmd" where
  "cbind m f sh = (case m sh of (Inl e, sh') \<Rightarrow> (Inl e, sh') | (Inr x, sh') \<Rightarrow> f x sh')"

text \<open>A local computation; its exception is not a \<open>ClientError\<close>.\<close>

definition clocal :: "exn + 'a \<Rightarrow> ('w, 'a) cmd" where
  "clocal r sh = (case r of Inl e \<Rightarrow> (Inl (Client_raw e), sh) | Inr x \<Rightarrow> (Inr x, sh))"

definition cprint :: "printed list \<Rightarrow> ('w, unit) cmd" where
  "cprint xs sh = (Inr (), sh\<lparr>sh_out := sh_out sh @ xs\<rparr>)"

definition ccall :: "'w client \<Rightarrow> dbus_call \<Rightarrow> ('w, client_value) cmd" where
  "ccall client c sh = (case client c (sh_world sh) of (r, w) \<Rightarrow> (r, sh\<lparr>sh_world := w\<rparr>))"

text \<open>The methods of the client by the type of their result\<close>

definition wrong_type :: "('w, 'a) cmd" where
  "wrong_type = clocal (Inl (OtherError ''object has no such attribute''))"

definition call_result :: "'w client \<Rightarrow> dbus_call \<Rightarrow> ('w, operation_result) cmd" where
  "call_result client c = cbind (ccall client c) (\<lambda>v. case v of CV_result r \<Rightarrow> cret r | _ \<Rightarrow> wrong_type)"

definition call_snapshot :: "'w client \<Rightarrow> ('w, system_snapshot) cmd" where
  "call_snapshot client = cbind (ccall client GetSnapshot) (\<lambda>v. case v of CV_snapshot sn \<Rightarrow> cret sn | _ \<Rightarrow> wrong_type)"

definition call_dict :: "'w client \<Rightarrow> dbus_call \<Rightarrow> ('w, pv dict) cmd" where
  "call_dict client c = cbind (ccall client c) (\<lambda>v. case v of CV_value (PDict d) \<Rightarrow> cret d | _ \<Rightarrow> wrong_type)"

definition call_lines :: "'w client \<Rightarrow> int \<Rightarrow> ('w, string list) cmd" where
  "call_lines client n = cbind (ccall client (GetRecentLogs n)) (\<lambda>v. case v of CV_lines ls \<Rightarrow> cret ls | _ \<Rightarrow> wrong_type)"

definition call_int :: "'w client \<Rightarrow> dbus_call \<Rightarrow> ('w, int) cmd" where
  "call_int client c = cbind (ccall client c) (\<lambda>v. case v of CV_int i \<Rightarrow> cret i | _ \<Rightarrow> wrong_type)"

section \<open>Exit codes and output\<close>

definition EXIT_OK :: int where "EXIT_OK = 0"
definition EXIT_USAGE :: int where "EXIT_USAGE = 2"
definition EXIT_UNAVAILABLE :: int where "EXIT_UNAVAILABLE = 3"
definition EXIT_OPERATION_FAILED :: int where "EXIT_OPERATION_FAILED = 4"
definition EXIT_NOT_AUTHORIZED :: int where "EXIT_NOT_AUTHORIZED = 13"
definition EXIT_SERVICE_UNAVAILABLE :: int where "EXIT_SERVICE_UNAVAILABLE = 69"
definition EXIT_PROTOCOL :: int where "EXIT_PROTOCOL = 70"

lemmas exit_codes = EXIT_OK_def EXIT_USAGE_def EXIT_UNAVAILABLE_def EXIT_OPERATION_FAILED_def EXIT_NOT_AUTHORIZED_def
  EXIT_SERVICE_UNAVAILABLE_def EXIT_PROTOCOL_def

fun exit_for_client_error :: "transport_error \<Rightarrow> int" where
  "exit_for_client_error TE_SERVICE_UNAVAILABLE = EXIT_SERVICE_UNAVAILABLE"
| "exit_for_client_error TE_TIMEOUT = EXIT_SERVICE_UNAVAILABLE"
| "exit_for_client_error TE_BUSY = EXIT_SERVICE_UNAVAILABLE"
| "exit_for_client_error TE_NOT_AUTHORIZED = EXIT_NOT_AUTHORIZED"
| "exit_for_client_error TE_INVALID_REQUEST = EXIT_USAGE"
| "exit_for_client_error TE_FEATURE_UNAVAILABLE = EXIT_UNAVAILABLE"
| "exit_for_client_error TE_API_MISMATCH = EXIT_PROTOCOL"
| "exit_for_client_error TE_INTERNAL = EXIT_PROTOCOL"

definition emit :: "cli_env \<Rightarrow> pv \<Rightarrow> string \<Rightarrow> ('w, unit) cmd" where
  "emit env payload human = cprint [if ce_json env then Json payload else Human (py_rstrip human)]"

fun fmt_lines :: "(pv \<Rightarrow> string) \<Rightarrow> nat \<Rightarrow> pv dict \<Rightarrow> string list" where
  "fmt_lines str n [] = []"
| "fmt_lines str n ((k, PDict d) # r) =
     (replicate n CHR '' '' @ k @ '':'') #
     (if d = [] then ''(empty)'' else join_with [CHR 0x0A] (fmt_lines str (n + 2) d)) # fmt_lines str n r"
| "fmt_lines str n ((k, PList xs) # r) = (replicate n CHR '' '' @ k @ '': '' @ join_with '', '' (map str xs)) # fmt_lines str n r"
| "fmt_lines str n ((k, PTuple xs) # r) = (replicate n CHR '' '' @ k @ '': '' @ join_with '', '' (map str xs)) # fmt_lines str n r"
| "fmt_lines str n ((k, v) # r) = (replicate n CHR '' '' @ k @ '': '' @ str v) # fmt_lines str n r"

definition fmt_dict :: "(pv \<Rightarrow> string) \<Rightarrow> nat \<Rightarrow> pv dict \<Rightarrow> string" where
  "fmt_dict str n d = (if d = [] then ''(empty)'' else join_with [CHR 0x0A] (fmt_lines str n d))"

text \<open>Printing a result, and the exit code for the flag that counts\<close>

definition report :: "cli_env \<Rightarrow> (operation_result \<Rightarrow> string) \<Rightarrow> (operation_result \<Rightarrow> bool) \<Rightarrow> 'w client \<Rightarrow> dbus_call \<Rightarrow> ('w, int) cmd" where
  "report env human good client c =
     cbind (call_result client c) (\<lambda>r.
     cbind (emit env (PDict (result_to_dict r)) (human r)) (\<lambda>_.
     cret (if good r then EXIT_OK else EXIT_OPERATION_FAILED)))"

section \<open>Commands that only read\<close>

text \<open>The em dash, which is outside the characters of the model, stands as the code of Windows-1252.\<close>

definition EM_DASH :: string where "EM_DASH = [CHR 0x97]"

definition or_text :: "string \<Rightarrow> string \<Rightarrow> string" where
  "or_text a b = (if a = [] then b else a)"

definition cmd_status :: "cli_env \<Rightarrow> 'w client \<Rightarrow> ('w, int) cmd" where
  "cmd_status env client =
     cbind (call_snapshot client) (\<lambda>sn.
     let platform = ss_platform sn; stale = ss_stale_domains sn;
         payload = PDict
           [(''sequence'', PInt (ss_sequence sn)),
            (''platform'', PDict [(''model'', PStr (pi_model platform)), (''matched'', PBool (pi_matched platform))]),
            (''battery'', PDict [(''available'', PBool (bs_available (ss_battery sn)))]),
            (''power'', PDict [(''available'', PBool (ps_available (ss_power sn)))]),
            (''fan'', PDict [(''available'', PBool (fs_available (ss_fan sn)))]),
            (''stale_domains'', str_list stale)];
         human = join_with [CHR 0x0A]
           [''Model: '' @ or_text (pi_model platform) EM_DASH @ '' (matched: '' @ bool_str (pi_matched platform) @ '')'',
            ''Sequence: '' @ int_str (ss_sequence sn),
            ''Stale domains: '' @ or_text (join_with '', '' stale) ''none'']
     in cbind (emit env payload human) (\<lambda>_. cret EXIT_OK))"

definition cmd_snapshot :: "cli_env \<Rightarrow> 'w client \<Rightarrow> ('w, int) cmd" where
  "cmd_snapshot env client =
     cbind (call_snapshot client) (\<lambda>sn.
     cbind (emit env (PDict [(''sequence'', PInt (ss_sequence sn)), (''api_version'', PInt (ss_api_version sn))]) []) (\<lambda>_.
     cret EXIT_OK))"

text \<open>\<open>item\<close> of the list of profiles, and its line\<close>

definition profile_item :: "cli_env \<Rightarrow> power_profile_entry \<Rightarrow> pv" where
  "profile_item env e = PDict
     [(''name'', PStr (pe_name e)), (''label'', PStr (pe_label e)),
      (''pl1_w'', PFloat (ce_div env (pe_pl1_uw e) 1000000)), (''pl2_w'', PFloat (ce_div env (pe_pl2_uw e) 1000000)),
      (''governor'', PStr (pe_governor e)), (''epp'', PStr (pe_epp e)), (''ppd'', PStr (pe_ppd_profile e)),
      (''turbo'', PBool (pe_turbo_enabled e)), (''max_perf_pct'', PInt (pe_max_perf_pct e))]"

definition profile_line :: "cli_env \<Rightarrow> power_profile_entry \<Rightarrow> string" where
  "profile_line env e = ''  '' @ pe_name e @ '': PL1 '' @ ce_fmt_g env (ce_div env (pe_pl1_uw e) 1000000) @ '' W, PL2 '' @
     ce_fmt_g env (ce_div env (pe_pl2_uw e) 1000000) @ '' W, '' @ pe_governor e @ '', '' @ pe_epp e"

definition cmd_power_profile :: "cli_env \<Rightarrow> 'w client \<Rightarrow> string option \<Rightarrow> ('w, int) cmd" where
  "cmd_power_profile env client name =
     (if name \<noteq> None \<and> name \<noteq> Some []
      then report env (\<lambda>r. ''Profile '' @ (if res_applied r then ''applied'' else ''NOT applied'') @ '': '' @ res_message r) res_applied client
             (SetProfile (the name))
      else cbind (call_snapshot client) (\<lambda>sn.
           let pw = ss_power sn
           in cbind (emit env
                (PDict [(''profile'', PStr (ps_applied_profile pw)), (''profiles'', PList (map (profile_item env) (ps_profiles pw)))])
                (join_with [CHR 0x0A] ((''Current profile: '' @ ps_applied_profile pw) # map (profile_line env) (ps_profiles pw)))) (\<lambda>_.
              cret EXIT_OK)))"

section \<open>Commands that change something\<close>

abbreviation labelled :: "string \<Rightarrow> operation_result \<Rightarrow> string" where
  "labelled label r \<equiv> label @ '': '' @ res_message r"

definition cmd_battery_thresholds :: "cli_env \<Rightarrow> 'w client \<Rightarrow> int \<Rightarrow> int \<Rightarrow> ('w, int) cmd" where
  "cmd_battery_thresholds env client en st =
     report env (\<lambda>r. ''Thresholds '' @ (if res_applied r then ''set'' else ''NOT set'') @ '': '' @ res_message r) res_applied client
       (SetThresholds en st)"

definition cmd_battery_mode :: "cli_env \<Rightarrow> 'w client \<Rightarrow> string \<Rightarrow> ('w, int) cmd" where
  "cmd_battery_mode env client mode =
     report env (\<lambda>r. ''Charge mode '' @ (if res_applied r then ''set'' else ''NOT set'') @ '': '' @ res_message r) res_applied client
       (SetMode mode)"

record auto_switch_args =
  aa_enabled :: "string option"
  aa_on_ac :: "string option"
  aa_on_battery :: "string option"
  aa_ac_script :: "string option"
  aa_battery_script :: "string option"

definition or_default :: "string option \<Rightarrow> string \<Rightarrow> string" where
  "or_default x d = (case x of None \<Rightarrow> d | Some s \<Rightarrow> if s = [] then d else s)"

definition unless_none :: "'a option \<Rightarrow> 'a \<Rightarrow> 'a" where
  "unless_none x d = (case x of None \<Rightarrow> d | Some s \<Rightarrow> s)"

definition auto_switch_request :: "auto_switch_args \<Rightarrow> power_snapshot \<Rightarrow> dbus_call" where
  "auto_switch_request a pw = ConfigureAutoSwitch
     (case aa_enabled a of Some e \<Rightarrow> e = ''on'' | None \<Rightarrow> ps_auto_switch_enabled pw)
     (or_default (aa_on_ac a) (ps_auto_switch_on_ac pw))
     (or_default (aa_on_battery a) (ps_auto_switch_on_battery pw))
     (unless_none (aa_ac_script a) (ps_auto_switch_on_ac_script pw))
     (unless_none (aa_battery_script a) (ps_auto_switch_on_battery_script pw))"

definition cmd_power_auto_switch :: "cli_env \<Rightarrow> 'w client \<Rightarrow> auto_switch_args \<Rightarrow> ('w, int) cmd" where
  "cmd_power_auto_switch env client a =
     (if aa_on_ac a \<noteq> None \<or> aa_on_battery a \<noteq> None \<or> aa_ac_script a \<noteq> None \<or> aa_battery_script a \<noteq> None
      then cbind (call_snapshot client) (\<lambda>sn.
           report env (labelled ''Auto-switch'') res_persisted client (auto_switch_request a (ss_power sn)))
      else if aa_enabled a \<noteq> None
      then report env (labelled ''Auto-switch'') res_persisted client (SetAutoSwitch (aa_enabled a = Some ''on''))
      else cbind (call_snapshot client) (\<lambda>sn.
           let pw = ss_power sn
           in cbind (emit env
                (PDict [(''auto_switch'', PBool (ps_auto_switch_enabled pw)), (''on_ac'', PStr (ps_auto_switch_on_ac pw)),
                   (''on_battery'', PStr (ps_auto_switch_on_battery pw)), (''ac_script'', PStr (ps_auto_switch_on_ac_script pw)),
                   (''battery_script'', PStr (ps_auto_switch_on_battery_script pw)),
                   (''last_script_status'', PStr (ps_auto_switch_last_script_status pw))])
                (''Auto-switch: '' @ (if ps_auto_switch_enabled pw then ''on'' else ''off'') @ ''; AC='' @ ps_auto_switch_on_ac pw @
                 '', battery='' @ ps_auto_switch_on_battery pw)) (\<lambda>_.
              cret EXIT_OK)))"

text \<open>\<open>round(x)\<close> of a floating-point number\<close>

definition round_float :: "pv \<Rightarrow> exn + int" where
  "round_float x = (case x of
     PFloat q \<Rightarrow> (case quotient_of q of (n, d) \<Rightarrow> Inr (round_half_even n d))
   | PNonFinite s \<Rightarrow> (if s = ''nan'' then Inl (ValueError ''cannot convert float NaN to integer'')
                    else Inl (OtherError ''cannot convert float infinity to integer''))
   | _ \<Rightarrow> Inl (TypeError ''not a float''))"

record profile_save_args =
  sv_name :: string
  sv_label :: "string option"
  sv_description :: string
  sv_pl1 :: pv
  sv_pl2 :: pv
  sv_governor :: string
  sv_epp :: string
  sv_ppd :: string
  sv_turbo :: string
  sv_max_perf :: int

definition save_label :: "profile_save_args \<Rightarrow> string" where
  "save_label a = or_default (sv_label a)
     (title_from False (py_replace_char CHR ''-'' CHR '' '' (py_replace_char CHR ''_'' CHR '' '' (sv_name a))))"

definition save_request :: "cli_env \<Rightarrow> profile_save_args \<Rightarrow> exn + dbus_call" where
  "save_request env a =
     rbind (round_float (ce_mul env (sv_pl1 a) 1000000)) (\<lambda>pl1.
     rbind (round_float (ce_mul env (sv_pl2 a) 1000000)) (\<lambda>pl2.
     Inr (SavePowerProfile (sv_name a) (save_label a) (sv_description a) pl1 pl2 (sv_governor a) (sv_epp a) (sv_ppd a)
            (sv_turbo a = ''on'') (sv_max_perf a))))"

definition cmd_power_profile_save :: "cli_env \<Rightarrow> 'w client \<Rightarrow> profile_save_args \<Rightarrow> ('w, int) cmd" where
  "cmd_power_profile_save env client a =
     cbind (clocal (save_request env a)) (\<lambda>c. report env (labelled ''Power profile'') res_persisted client c)"

definition cmd_power_profile_delete :: "cli_env \<Rightarrow> 'w client \<Rightarrow> string \<Rightarrow> ('w, int) cmd" where
  "cmd_power_profile_delete env client name = report env (labelled ''Power profile'') res_persisted client (DeletePowerProfile name)"

definition cmd_fan_stock :: "cli_env \<Rightarrow> 'w client \<Rightarrow> ('w, int) cmd" where
  "cmd_fan_stock env client = report env (labelled ''Fan'') res_applied client SetStockAuto"

definition cmd_fan_curve :: "cli_env \<Rightarrow> 'w client \<Rightarrow> string \<Rightarrow> string \<Rightarrow> ('w, int) cmd" where
  "cmd_fan_curve env client profile curve =
     cbind (clocal (parse_curve (PStr curve))) (\<lambda>points.
     report env (labelled ''Fan curve'') res_persisted client
       (SetCurve profile (map (\<lambda>p. (temp_mc p, speed p)) points)))"

definition cmd_fan_manual :: "cli_env \<Rightarrow> 'w client \<Rightarrow> int \<Rightarrow> int \<Rightarrow> ('w, int) cmd" where
  "cmd_fan_manual env client v ttl = report env (labelled ''Fan manual'') res_applied client (SetManual v ttl)"

definition cmd_gesture_map :: "cli_env \<Rightarrow> 'w client \<Rightarrow> string \<Rightarrow> string \<Rightarrow> ('w, int) cmd" where
  "cmd_gesture_map env client i keys = report env (labelled ''Gesture mapping'') res_persisted client (SetMapping i keys)"

definition cmd_gesture_enable :: "cli_env \<Rightarrow> 'w client \<Rightarrow> string \<Rightarrow> ('w, int) cmd" where
  "cmd_gesture_enable env client i = report env (labelled ''Gesture'') res_persisted client (SetEnabled i True)"

definition cmd_gesture_disable :: "cli_env \<Rightarrow> 'w client \<Rightarrow> string \<Rightarrow> ('w, int) cmd" where
  "cmd_gesture_disable env client i = report env (labelled ''Gesture'') res_persisted client (SetEnabled i False)"

definition cmd_gesture_batch :: "cli_env \<Rightarrow> 'w client \<Rightarrow> string \<Rightarrow> ('w, int) cmd" where
  "cmd_gesture_batch env client enabled = report env (labelled ''Gestures'') res_persisted client (SetAllEnabled (enabled = ''on''))"

definition cmd_gesture_daemon :: "cli_env \<Rightarrow> 'w client \<Rightarrow> string \<Rightarrow> ('w, int) cmd" where
  "cmd_gesture_daemon env client enabled =
     report env (labelled ''Gesture daemon'') res_applied client (SetDaemonEnabled (enabled = ''on''))"

section \<open>Touchpad, GPU and diagnostics\<close>

definition cmd_touchpad_probe :: "cli_env \<Rightarrow> 'w client \<Rightarrow> ('w, int) cmd" where
  "cmd_touchpad_probe env client =
     cbind (call_dict client ProbeTouchpadFirmware) (\<lambda>probe.
     cbind (emit env (PDict probe) (fmt_dict (ce_str env) 0 probe)) (\<lambda>_.
     cret (if py_truthy (dget probe ''available'' PNone) then EXIT_OK else EXIT_UNAVAILABLE)))"

definition setting_item :: "touchpad_setting \<Rightarrow> pv" where
  "setting_item s =
     (let spec = TOUCHPAD_SETTING_SPECS s
      in PDict [(''setting'', PStr (setting_str s)), (''minimum'', PInt (spec_minimum spec)),
                (''maximum'', PInt (spec_maximum spec)), (''labels'', str_list (spec_labels spec))])"

definition setting_line :: "touchpad_setting \<Rightarrow> string" where
  "setting_line s =
     (let spec = TOUCHPAD_SETTING_SPECS s
      in setting_str s @ '': '' @ int_str (spec_minimum spec) @ ''..'' @ int_str (spec_maximum spec) @
         (if spec_labels spec = [] then [] else '' ('' @ join_with '', '' (spec_labels spec) @ '')''))"

definition cmd_touchpad_list :: "cli_env \<Rightarrow> ('w, int) cmd" where
  "cmd_touchpad_list env =
     cbind (emit env (PDict [(''settings'', PList (map setting_item TOUCHPAD_SETTINGS))])
              (join_with [CHR 0x0A] (map setting_line TOUCHPAD_SETTINGS))) (\<lambda>_. cret EXIT_OK)"

definition cmd_touchpad_set :: "cli_env \<Rightarrow> 'w client \<Rightarrow> string \<Rightarrow> string \<Rightarrow> ('w, int) cmd" where
  "cmd_touchpad_set env client name val =
     cbind (clocal (parse_touchpad_setting (SA_str name))) (\<lambda>setting.
     cbind (clocal (parse_touchpad_value (SA_setting setting) (PStr val))) (\<lambda>v.
     report env (labelled ''Touchpad setting'') res_applied client (SetTouchpadSetting (setting_str setting) v)))"

definition apply_request :: "profile \<Rightarrow> exn + dbus_call" where
  "apply_request p =
     (case p of (settings, master) \<Rightarrow>
        if master \<noteq> None
        then Inl (DomainException DE_INVALID_ARGUMENT
               (''honorctl touchpad apply does not manage [master]; use honor-touchpadctl with the optional WMI module''))
        else Inr (ApplyTouchpadSettings (map (\<lambda>(s, v). (setting_str s, v)) settings)))"

definition cmd_touchpad_apply :: "cli_env \<Rightarrow> 'w client \<Rightarrow> string \<Rightarrow> ('w, int) cmd" where
  "cmd_touchpad_apply env client path =
     cbind (clocal (load_profile (ce_profile env path))) (\<lambda>p.
     cbind (clocal (apply_request p)) (\<lambda>c.
     report env (labelled ''Touchpad profile'') res_applied client c))"

definition cmd_touchpad_support :: "cli_env \<Rightarrow> 'w client \<Rightarrow> ('w, int) cmd" where
  "cmd_touchpad_support env client =
     cbind (call_dict client QueryTouchpadSupport) (\<lambda>support.
     cbind (emit env (PDict support) (fmt_dict (ce_str env) 0 support)) (\<lambda>_. cret EXIT_OK))"

definition cmd_gpu_enable :: "cli_env \<Rightarrow> 'w client \<Rightarrow> ('w, int) cmd" where
  "cmd_gpu_enable env client = report env (labelled ''GPU'') res_applied client (SetMitigationEnabled True)"

definition cmd_gpu_disable :: "cli_env \<Rightarrow> 'w client \<Rightarrow> ('w, int) cmd" where
  "cmd_gpu_disable env client = report env (labelled ''GPU'') res_applied client (SetMitigationEnabled False)"

definition cmd_diag_checks :: "cli_env \<Rightarrow> 'w client \<Rightarrow> ('w, int) cmd" where
  "cmd_diag_checks env client =
     cbind (call_dict client RunChecks) (\<lambda>result.
     cbind (emit env (PDict result) (fmt_dict (ce_str env) 0 result)) (\<lambda>_.
     cret (if dget result ''overall'' (PStr ''fail'') = PStr ''pass'' then EXIT_OK else EXIT_OPERATION_FAILED)))"

text \<open>Writing a file: the exception it raises, or the document in the file\<close>

definition write_json :: "cli_env \<Rightarrow> string \<Rightarrow> pv \<Rightarrow> ('w, unit) cmd" where
  "write_json env path v sh = (case ce_write_fault env path of
     Some e \<Rightarrow> (Inl (Client_raw e), sh) | None \<Rightarrow> (Inr (), sh\<lparr>sh_files := sh_files sh @ [(path, v)]\<rparr>))"

definition cmd_diag_bundle :: "cli_env \<Rightarrow> 'w client \<Rightarrow> string option \<Rightarrow> ('w, int) cmd" where
  "cmd_diag_bundle env client output =
     cbind (call_dict client GetDebugBundle) (\<lambda>bundle.
     cbind (case output of
              Some path \<Rightarrow> (if path \<noteq> []
                then cbind (write_json env path (PDict bundle)) (\<lambda>_. cprint [Human (''Debug bundle written to '' @ path)])
                else emit env (PDict bundle) (fmt_dict (ce_str env) 0 bundle))
            | None \<Rightarrow> emit env (PDict bundle) (fmt_dict (ce_str env) 0 bundle)) (\<lambda>_.
     cret EXIT_OK))"

definition cmd_diag_logs :: "cli_env \<Rightarrow> 'w client \<Rightarrow> int \<Rightarrow> ('w, int) cmd" where
  "cmd_diag_logs env client n =
     cbind (call_lines client n) (\<lambda>ls.
     cbind (cprint (if ce_json env then [Json (PDict [(''lines'', str_list ls)])] else map Human ls)) (\<lambda>_. cret EXIT_OK))"

definition cmd_reload :: "cli_env \<Rightarrow> 'w client \<Rightarrow> ('w, int) cmd" where
  "cmd_reload env client = report env (labelled ''Reload'') (\<lambda>r. res_status r = OS_SUCCESS) client Reload"

definition cmd_version :: "cli_env \<Rightarrow> 'w client \<Rightarrow> ('w, int) cmd" where
  "cmd_version env client =
     cbind (call_int client GetApiVersion) (\<lambda>v.
     cbind (emit env (PDict [(''api_version'', PInt v), (''client_version'', PStr (ce_version env))]) (''API v'' @ int_str v)) (\<lambda>_.
     cret EXIT_OK))"

section \<open>One run\<close>

text \<open>A command with its arguments, as the parser admits them\<close>

datatype command =
    C_status | C_snapshot | C_version | C_reload
  | C_battery_thresholds int int | C_battery_mode string
  | C_power_profile "string option" | C_power_auto_switch auto_switch_args
  | C_power_save profile_save_args | C_power_delete string
  | C_fan_stock | C_fan_curve string string | C_fan_manual int int
  | C_gestures_map string string | C_gestures_enable string | C_gestures_disable string
  | C_gestures_batch string | C_gestures_daemon string
  | C_touchpad_probe | C_touchpad_list | C_touchpad_set string string | C_touchpad_apply string | C_touchpad_support
  | C_gpu_enable | C_gpu_disable
  | C_diag_checks | C_diag_export "string option" | C_diag_logs int

text \<open>\<open>args.func(args, client)\<close>\<close>

fun run_command :: "cli_env \<Rightarrow> 'w client \<Rightarrow> command \<Rightarrow> ('w, int) cmd" where
  "run_command env client C_status = cmd_status env client"
| "run_command env client C_snapshot = cmd_snapshot env client"
| "run_command env client C_version = cmd_version env client"
| "run_command env client C_reload = cmd_reload env client"
| "run_command env client (C_battery_thresholds en st) = cmd_battery_thresholds env client en st"
| "run_command env client (C_battery_mode mode) = cmd_battery_mode env client mode"
| "run_command env client (C_power_profile name) = cmd_power_profile env client name"
| "run_command env client (C_power_auto_switch a) = cmd_power_auto_switch env client a"
| "run_command env client (C_power_save a) = cmd_power_profile_save env client a"
| "run_command env client (C_power_delete name) = cmd_power_profile_delete env client name"
| "run_command env client C_fan_stock = cmd_fan_stock env client"
| "run_command env client (C_fan_curve profile c) = cmd_fan_curve env client profile c"
| "run_command env client (C_fan_manual v ttl) = cmd_fan_manual env client v ttl"
| "run_command env client (C_gestures_map i keys) = cmd_gesture_map env client i keys"
| "run_command env client (C_gestures_enable i) = cmd_gesture_enable env client i"
| "run_command env client (C_gestures_disable i) = cmd_gesture_disable env client i"
| "run_command env client (C_gestures_batch e) = cmd_gesture_batch env client e"
| "run_command env client (C_gestures_daemon e) = cmd_gesture_daemon env client e"
| "run_command env client C_touchpad_probe = cmd_touchpad_probe env client"
| "run_command env client C_touchpad_list = cmd_touchpad_list env"
| "run_command env client (C_touchpad_set name v) = cmd_touchpad_set env client name v"
| "run_command env client (C_touchpad_apply path) = cmd_touchpad_apply env client path"
| "run_command env client C_touchpad_support = cmd_touchpad_support env client"
| "run_command env client C_gpu_enable = cmd_gpu_enable env client"
| "run_command env client C_gpu_disable = cmd_gpu_disable env client"
| "run_command env client C_diag_checks = cmd_diag_checks env client"
| "run_command env client (C_diag_export path) = cmd_diag_bundle env client path"
| "run_command env client (C_diag_logs n) = cmd_diag_logs env client n"

text \<open>How the process ends: with an exit code, or with an exception that no handler caught.\<close>

datatype run_end = Exit int | Crash exn

definition complain :: "string \<Rightarrow> 'w shell \<Rightarrow> 'w shell" where
  "complain m sh = sh\<lparr>sh_err := sh_err sh @ [''honorctl: '' @ m]\<rparr>"

definition get_client :: "('w \<Rightarrow> (client_exn + unit) \<times> 'w) \<Rightarrow> ('w, client_exn option) cmd" where
  "get_client dial sh =
     (case dial (sh_world sh) of
        (Inr _, w) \<Rightarrow> (Inr None, sh\<lparr>sh_world := w\<rparr>)
      | (Inl (ClientError code m), w) \<Rightarrow>
          (Inr (Some (ClientError code m)), complain (''service unavailable: '' @ m @ CHR 0x0A #
             ''Start the service with: sudo systemctl start honor-control.service'') (sh\<lparr>sh_world := w\<rparr>))
      | (Inl (Client_raw e), w) \<Rightarrow> (Inl (Client_raw e), sh\<lparr>sh_world := w\<rparr>))"

text \<open>The handlers of \<open>_async_main\<close> around the command\<close>

fun handle_end :: "client_exn + int \<Rightarrow> 'w shell \<Rightarrow> run_end \<times> 'w shell" where
  "handle_end (Inr n) sh = (Exit n, sh)"
| "handle_end (Inl (ClientError code m)) sh = (Exit (exit_for_client_error code), complain m sh)"
| "handle_end (Inl (Client_raw e)) sh =
     (case domain_code e of
        Some code \<Rightarrow>
          (Exit (if domain_error_str code = ''not_authorized'' then EXIT_NOT_AUTHORIZED
                 else if domain_error_str code = ''invalid_argument'' then EXIT_USAGE else EXIT_OPERATION_FAILED),
           complain (exn_str e) sh)
      | None \<Rightarrow> (Crash e, sh))"

definition async_main ::
  "cli_env \<Rightarrow> ('w \<Rightarrow> (client_exn + unit) \<times> 'w) \<Rightarrow> 'w client \<Rightarrow> command \<Rightarrow> 'w shell \<Rightarrow> run_end \<times> 'w shell" where
  "async_main env dial client c sh =
     (case get_client dial sh of
        (Inl (Client_raw e), sh) \<Rightarrow> (Crash e, sh)
      | (Inl (ClientError code m), sh) \<Rightarrow> (Exit (exit_for_client_error code), sh)
      | (Inr (Some (ClientError code m)), sh) \<Rightarrow> (Exit (exit_for_client_error code), sh)
      | (Inr (Some (Client_raw e)), sh) \<Rightarrow> (Crash e, sh)
      | (Inr None, sh) \<Rightarrow>
          (case run_command env client c sh of (r, sh) \<Rightarrow>
             (case handle_end r sh of (x, sh) \<Rightarrow> (x, sh\<lparr>sh_closed := sh_closed sh + 1\<rparr>))))"

definition shell_start :: "'w \<Rightarrow> 'w shell" where
  "shell_start w = \<lparr>sh_world = w, sh_out = [], sh_err = [], sh_files = [], sh_closed = 0\<rparr>"

section \<open>Exit codes\<close>

named_theorems tidy_rules \<open>what neither closes the client nor returns another exit code\<close>

definition tidy :: "('a \<Rightarrow> bool) \<Rightarrow> ('w, 'a) cmd \<Rightarrow> bool" where
  "tidy Q m \<longleftrightarrow> (\<forall>sh. sh_closed (snd (m sh)) = sh_closed sh \<and> (\<forall>x. fst (m sh) = Inr x \<longrightarrow> Q x))"

abbreviation quiet :: "('w, 'a) cmd \<Rightarrow> bool" where
  "quiet \<equiv> tidy (\<lambda>_. True)"

definition command_codes :: "int set" where
  "command_codes = {EXIT_OK, EXIT_UNAVAILABLE, EXIT_OPERATION_FAILED}"

definition documented_codes :: "int set" where
  "documented_codes = {EXIT_OK, EXIT_USAGE, EXIT_UNAVAILABLE, EXIT_OPERATION_FAILED, EXIT_NOT_AUTHORIZED,
     EXIT_SERVICE_UNAVAILABLE, EXIT_PROTOCOL}"

lemma tidy_bind [tidy_rules]: "quiet m \<Longrightarrow> (\<And>x. tidy Q (f x)) \<Longrightarrow> tidy Q (cbind m f)"
  unfolding tidy_def cbind_def by (auto split: prod.splits sum.splits) (metis fst_conv snd_conv)+

lemma tidy_ret [tidy_rules]: "Q x \<Longrightarrow> tidy Q (cret x)"
  by (simp add: tidy_def cret_def)

lemma tidy_local [tidy_rules]: "quiet (clocal r)" "tidy Q (clocal (Inl e))" "tidy Q wrong_type"
  by (simp_all add: tidy_def clocal_def wrong_type_def split: sum.splits)

lemma tidy_print [tidy_rules]: "quiet (cprint xs)" "quiet (emit env v h)" "quiet (write_json env path v)"
  by (simp_all add: tidy_def cprint_def emit_def write_json_def split: option.splits)

lemma tidy_if [tidy_rules]: "tidy Q a \<Longrightarrow> tidy Q b \<Longrightarrow> tidy Q (if c then a else b)"
  by simp

lemma tidy_call [tidy_rules]:
  "quiet (call_result client c)" "quiet (call_snapshot client)" "quiet (call_dict client c)" "quiet (call_lines client n)"
  "quiet (call_int client c)"
proof -
  have q: "quiet (ccall client c)" for c
    by (simp add: tidy_def ccall_def split: prod.splits)
  show "quiet (call_result client c)" "quiet (call_snapshot client)" "quiet (call_dict client c)" "quiet (call_lines client n)"
    "quiet (call_int client c)"
    unfolding call_result_def call_snapshot_def call_dict_def call_lines_def call_int_def
    by (intro tidy_bind q, simp add: tidy_ret tidy_local split: client_value.split pv.split)+
qed

lemma code_if [tidy_rules]: "a \<in> command_codes \<Longrightarrow> b \<in> command_codes \<Longrightarrow> (if c then a else b) \<in> command_codes"
  by simp

lemma codes [tidy_rules]: "EXIT_OK \<in> command_codes" "EXIT_UNAVAILABLE \<in> command_codes" "EXIT_OPERATION_FAILED \<in> command_codes"
  by (simp_all add: command_codes_def)

abbreviation exits_well :: "('w, int) cmd \<Rightarrow> bool" where
  "exits_well \<equiv> tidy (\<lambda>n. n \<in> command_codes)"

lemma tidy_report [tidy_rules]: "exits_well (report env human good client c)"
  unfolding report_def by (intro tidy_rules)

lemma tidy_reads [tidy_rules]:
  "exits_well (cmd_status env client)" "exits_well (cmd_snapshot env client)" "exits_well (cmd_power_profile env client name)"
  "exits_well (cmd_power_auto_switch env client a)" "exits_well (cmd_touchpad_probe env client)" "exits_well (cmd_touchpad_list env)"
  "exits_well (cmd_touchpad_support env client)" "exits_well (cmd_diag_checks env client)" "exits_well (cmd_diag_logs env client n)"
  "exits_well (cmd_version env client)"
  unfolding cmd_status_def cmd_snapshot_def cmd_power_profile_def cmd_power_auto_switch_def cmd_touchpad_probe_def
    cmd_touchpad_list_def cmd_touchpad_support_def cmd_diag_checks_def cmd_diag_logs_def cmd_version_def Let_def
  by (intro tidy_rules)+

lemma tidy_bundle [tidy_rules]: "exits_well (cmd_diag_bundle env client path)"
  unfolding cmd_diag_bundle_def by (cases path; simp; intro conjI impI tidy_rules)

lemma tidy_apply [tidy_rules]: "exits_well (cmd_touchpad_apply env client path)"
  unfolding cmd_touchpad_apply_def by (intro tidy_rules)

lemma run_tidy: "exits_well (run_command env client c)"
  by (cases c)
     (simp_all add: tidy_rules cmd_reload_def cmd_battery_thresholds_def cmd_battery_mode_def cmd_power_profile_save_def
       cmd_power_profile_delete_def cmd_fan_stock_def cmd_fan_curve_def cmd_fan_manual_def cmd_gesture_map_def cmd_gesture_enable_def
       cmd_gesture_disable_def cmd_gesture_batch_def cmd_gesture_daemon_def cmd_touchpad_set_def cmd_gpu_enable_def cmd_gpu_disable_def)

lemma client_code: "exit_for_client_error code \<in> documented_codes"
  by (cases code) (simp_all add: documented_codes_def)

lemma command_code: "n \<in> command_codes \<Longrightarrow> n \<in> documented_codes"
  by (auto simp: command_codes_def documented_codes_def)

lemma handle_code:
  assumes "handle_end r sh = (Exit n, sh')" "\<And>m. r = Inr m \<Longrightarrow> m \<in> command_codes"
  shows "n \<in> documented_codes"
proof -
  have d: "EXIT_NOT_AUTHORIZED \<in> documented_codes" "EXIT_USAGE \<in> documented_codes" "EXIT_OPERATION_FAILED \<in> documented_codes"
    by (simp_all add: documented_codes_def)
  show ?thesis
    using assms by (cases "(r, sh)" rule: handle_end.cases)
      (auto simp: client_code command_code d simp del: domain_error_str.simps split: option.splits if_splits)
qed

lemma handle_crash: "handle_end r sh = (Crash e, sh') \<Longrightarrow> domain_code e = None"
  by (induction r sh rule: handle_end.induct) (auto split: option.splits)

lemma handle_closed: "sh_closed (snd (handle_end r sh)) = sh_closed sh"
  by (induction r sh rule: handle_end.induct) (auto simp: complain_def split: option.splits)

section \<open>Commands that send one change\<close>

text \<open>The request a command makes of its arguments alone, or the exception they cause, and when its result counts as success\<close>

fun mutation :: "cli_env \<Rightarrow> command \<Rightarrow> (exn + dbus_call) option" where
  "mutation env C_reload = Some (Inr Reload)"
| "mutation env (C_battery_thresholds en st) = Some (Inr (SetThresholds en st))"
| "mutation env (C_battery_mode mode) = Some (Inr (SetMode mode))"
| "mutation env (C_power_profile name) = (if name \<noteq> None \<and> name \<noteq> Some [] then Some (Inr (SetProfile (the name))) else None)"
| "mutation env (C_power_save a) = Some (save_request env a)"
| "mutation env (C_power_delete name) = Some (Inr (DeletePowerProfile name))"
| "mutation env C_fan_stock = Some (Inr SetStockAuto)"
| "mutation env (C_fan_curve profile c) =
     Some (rbind (parse_curve (PStr c)) (\<lambda>ps. Inr (SetCurve profile (map (\<lambda>p. (temp_mc p, speed p)) ps))))"
| "mutation env (C_fan_manual v ttl) = Some (Inr (SetManual v ttl))"
| "mutation env (C_gestures_map i keys) = Some (Inr (SetMapping i keys))"
| "mutation env (C_gestures_enable i) = Some (Inr (SetEnabled i True))"
| "mutation env (C_gestures_disable i) = Some (Inr (SetEnabled i False))"
| "mutation env (C_gestures_batch e) = Some (Inr (SetAllEnabled (e = ''on'')))"
| "mutation env (C_gestures_daemon e) = Some (Inr (SetDaemonEnabled (e = ''on'')))"
| "mutation env (C_touchpad_set name v) =
     Some (rbind (parse_touchpad_setting (SA_str name)) (\<lambda>s.
           rbind (parse_touchpad_value (SA_setting s) (PStr v)) (\<lambda>n. Inr (SetTouchpadSetting (setting_str s) n))))"
| "mutation env (C_touchpad_apply path) = Some (rbind (load_profile (ce_profile env path)) apply_request)"
| "mutation env C_gpu_enable = Some (Inr (SetMitigationEnabled True))"
| "mutation env C_gpu_disable = Some (Inr (SetMitigationEnabled False))"
| "mutation env c = None"

fun succeeded :: "command \<Rightarrow> operation_result \<Rightarrow> bool" where
  "succeeded C_reload r = (res_status r = OS_SUCCESS)"
| "succeeded (C_battery_thresholds en st) r = res_applied r"
| "succeeded (C_battery_mode mode) r = res_applied r"
| "succeeded (C_power_profile name) r = res_applied r"
| "succeeded C_fan_stock r = res_applied r"
| "succeeded (C_fan_manual v ttl) r = res_applied r"
| "succeeded (C_gestures_daemon e) r = res_applied r"
| "succeeded (C_touchpad_set name v) r = res_applied r"
| "succeeded (C_touchpad_apply path) r = res_applied r"
| "succeeded C_gpu_enable r = res_applied r"
| "succeeded C_gpu_disable r = res_applied r"
| "succeeded c r = res_persisted r"

lemma clocal_bind [simp]: "cbind (clocal (Inr x)) f = f x" "cbind (clocal (Inl e)) f = clocal (Inl e)"
  by (simp_all add: cbind_def clocal_def fun_eq_iff)

lemma run_mutation:
  assumes "mutation env c = Some (Inr call)"
  shows "\<exists>human. run_command env client c = report env human (succeeded c) client call"
proof -
  have eta: "succeeded (C_reload) = (\<lambda>r. res_status r = OS_SUCCESS)" "succeeded (C_battery_thresholds en st) = res_applied"
    "succeeded (C_battery_mode mode) = res_applied" "succeeded C_fan_stock = res_applied" "succeeded (C_fan_manual v ttl) = res_applied"
    "succeeded (C_gestures_daemon e) = res_applied" "succeeded (C_touchpad_set nm x) = res_applied"
    "succeeded (C_touchpad_apply nm) = res_applied" "succeeded C_gpu_enable = res_applied" "succeeded C_gpu_disable = res_applied"
    "succeeded (C_power_profile p) = res_applied" "succeeded (C_power_save a) = res_persisted" "succeeded (C_power_delete nm) = res_persisted"
    "succeeded (C_fan_curve pr cu) = res_persisted" "succeeded (C_gestures_map i keys) = res_persisted"
    "succeeded (C_gestures_enable i) = res_persisted" "succeeded (C_gestures_disable i) = res_persisted"
    "succeeded (C_gestures_batch e) = res_persisted" for en st mode v ttl e nm x a pr cu i keys p
    by (simp_all add: fun_eq_iff)
  show ?thesis
    using assms
    by (cases c)
       (auto simp: eta cmd_power_profile_def cmd_reload_def cmd_battery_thresholds_def cmd_battery_mode_def cmd_power_profile_save_def
         cmd_power_profile_delete_def cmd_fan_stock_def cmd_fan_curve_def cmd_fan_manual_def cmd_gesture_map_def cmd_gesture_enable_def
         cmd_gesture_disable_def cmd_gesture_batch_def cmd_gesture_daemon_def cmd_touchpad_set_def cmd_touchpad_apply_def cmd_gpu_enable_def cmd_gpu_disable_def
         split: if_splits)
qed

lemma run_bad_arguments: "mutation env c = Some (Inl e) \<Longrightarrow> run_command env client c = clocal (Inl e)"
  by (cases c) (auto simp: cmd_power_profile_save_def cmd_fan_curve_def cmd_touchpad_set_def cmd_touchpad_apply_def rbind_eq_Inl_iff split: if_splits)

lemma report_run:
  assumes "client c (sh_world sh) = (Inr (CV_result r), w)"
  shows "\<exists>out. report env human good client c sh =
    (Inr (if good r then EXIT_OK else EXIT_OPERATION_FAILED), sh\<lparr>sh_world := w, sh_out := out\<rparr>)"
  using assms by (simp add: report_def call_result_def ccall_def cbind_def cret_def emit_def cprint_def) auto

lemma report_error:
  "client c (sh_world sh) = (Inl e, w) \<Longrightarrow> report env human good client c sh = (Inl e, sh\<lparr>sh_world := w\<rparr>)"
  by (simp add: report_def call_result_def ccall_def cbind_def)

lemma mutation_checked: "mutation env c = Some (Inr call) \<Longrightarrow> \<not> open_read call"
  by (cases c) (auto simp: save_request_def apply_request_def split: if_splits prod.splits)

lemma mutation_result:
  assumes "mutation env c = Some (Inr call)" "value_shape call v"
  shows "\<exists>r. v = CV_result r"
  using assms by (cases c) (auto simp: save_request_def apply_request_def split: if_splits prod.splits)

lemma connected_client:
  "dial w = (Inr (), w') \<Longrightarrow> get_client dial (shell_start w) = (Inr None, shell_start w')"
  by (simp add: get_client_def shell_start_def)

lemma main_answers:
  assumes "mutation env c = Some (Inr call)" "dial s0 = (Inr (), s)" "client call s = (ans, s')"
    "async_main env dial client c (shell_start s0) = (x, sh)"
  shows "ans = Inr (CV_result r) \<Longrightarrow>
      sh_world sh = s' \<and> sh_closed sh = 1 \<and> x = Exit (if succeeded c r then EXIT_OK else EXIT_OPERATION_FAILED)"
    "ans = Inl (ClientError code m) \<Longrightarrow> sh_world sh = s' \<and> sh_closed sh = 1 \<and> x = Exit (exit_for_client_error code)"
proof -
  obtain human where run: "run_command env client c = report env human (succeeded c) client call"
    using run_mutation [OF assms(1)] by blast
  have w: "sh_world (shell_start s) = s" "sh_closed (shell_start s) = 0" by (simp_all add: shell_start_def)
  show "ans = Inr (CV_result r) \<Longrightarrow>
      sh_world sh = s' \<and> sh_closed sh = 1 \<and> x = Exit (if succeeded c r then EXIT_OK else EXIT_OPERATION_FAILED)"
    using assms(4) report_run [of client call "shell_start s" r s' env human "succeeded c"] assms(3) w
    by (auto simp: async_main_def connected_client [of dial, OF assms(2)] run)
  show "ans = Inl (ClientError code m) \<Longrightarrow> sh_world sh = s' \<and> sh_closed sh = 1 \<and> x = Exit (exit_for_client_error code)"
    using assms(4) report_error [of client call "shell_start s" "ClientError code m" s' env human "succeeded c"] assms(3) w
    by (auto simp: async_main_def connected_client [of dial, OF assms(2)] run complain_def)
qed

lemma denied_call:
  assumes "authorize check facts (method_name c) = Inl (DbusError (error_name_for DE_NOT_AUTHORIZED) m)" "\<not> open_read c"
  shows "sdbus_client check facts raw isof fromiso now env c s = (Inl (client_error TE_NOT_AUTHORIZED m), s)"
proof -
  have n: "error_name_for DE_NOT_AUTHORIZED \<noteq> []" by simp
  show ?thesis
    using assms classify_error_name [of DE_NOT_AUTHORIZED m] n
    by (simp add: sdbus_client_def dispatch_def bus_error_def call_method_def del: error_name_for.simps)
qed

section \<open>Properties\<close>


text \<open>
  \<open>honorctl battery thresholds 80 70\<close> on a service whose configuration cannot be saved, for a caller whom everything is
  granted, and for one who is denied.
\<close>

definition plain_cli :: cli_env where
  "plain_cli = \<lparr>ce_str = plain_str, ce_div = (\<lambda>a b. 0), ce_mul = (\<lambda>x n. x), ce_fmt_g = (\<lambda>q. ''0''),
     ce_profile = (\<lambda>path. Inl (OSError ''No such file'')), ce_write_fault = (\<lambda>path. None), ce_version = ''0'', ce_json = False\<rparr>"

definition deny_checker :: checker where
  "deny_checker m caller = Inl (DomainException DE_NOT_AUTHORIZED ''Authorization denied'')"

definition run_thresholds :: "checker \<Rightarrow> run_end \<times> fake_hw app shell" where
  "run_thresholds check = async_main plain_cli (\<lambda>s. (Inr (), s))
     (sdbus_client check shell_caller (\<lambda>_. ([], [])) signed_time read_time 0 unsaved_env) (C_battery_thresholds 80 70) (shell_start fake_app)"



end
