(* ===== verification/Touchpad_Cli.thy ===== *)
theory Touchpad_Cli
  imports Touchpad_Transport Touchpad_Profile Service_State
begin

text \<open>
  The tool for the touchpad firmware, \<^verbatim>\<open>honor_control/cli/touchpadctl.py\<close>: every command from its parsed arguments to its exit
  code. A command is a program on the operating system that gives the exit code and the document it prints. Besides
  \<open>Os_Port\<close> the tool asks whether a path is a file, and loads TOML documents. Times are in microseconds. The command line is
  parsed by \<open>argparse\<close>, which is not modelled.
\<close>

section \<open>The tool\<close>

record 'w tool =
  tc_os :: "'w os"
  tc_is_file :: "string \<Rightarrow> ('w, bool) io"
  tc_document :: "string \<Rightarrow> ('w, pv dict) io"
  tc_wmi_root :: string

abbreviation io_map_ret :: "('a \<Rightarrow> 'b) \<Rightarrow> ('w, 'a) io \<Rightarrow> ('w, 'b) io" where
  "io_map_ret f m \<equiv> io_bind m (\<lambda>x. io_ret (f x))"

definition WMI_GUID :: string where "WMI_GUID = ''ABBC0F5B-8EA1-11D1-A000-C90629100000''"

section \<open>The master switch\<close>

definition master_entry :: "'w tool \<Rightarrow> string \<Rightarrow> string" where
  "master_entry tool n = path_join (path_join (tc_wmi_root tool) n) ''touchpad_enabled''"

definition master_attribute :: "'w tool \<Rightarrow> ('w, string option) io" where
  "master_attribute tool =
     io_try
       (io_bind (os_iterdir (tc_os tool) (tc_wmi_root tool)) (\<lambda>names.
        io_bind (io_filter (\<lambda>n. if py_startswith (map py_upper_char n) (WMI_GUID @ ''-'')
                   then tc_is_file tool (master_entry tool n) else io_ret False) names) (\<lambda>candidates.
        io_ret (case sort candidates of [] \<Rightarrow> None | n # _ \<Rightarrow> Some (master_entry tool n)))))
       is_os_error (\<lambda>_. io_ret None)"

text \<open>The value of the attribute's text\<close>

definition master_value :: "string \<Rightarrow> exn + bool" where
  "master_value t =
     (let v = py_strip t
      in if v \<noteq> ''0'' \<and> v \<noteq> ''1'' then Inl (RuntimeError (''invalid touchpad_enabled readback '' @ quoted v))
         else Inr (v = ''1''))"

definition read_master :: "'w tool \<Rightarrow> string \<Rightarrow> ('w, bool) io" where
  "read_master tool attribute = io_bind (os_read_text (tc_os tool) attribute) (\<lambda>t. io_of (master_value t))"

definition set_master :: "'w tool \<Rightarrow> string \<Rightarrow> bool \<Rightarrow> ('w, bool) io" where
  "set_master tool attribute enabled =
     io_bind (os_write_text (tc_os tool) attribute ((if enabled then ''1'' else ''0'') @ [CHR 0x0A])) (\<lambda>_.
     io_bind (read_master tool attribute) (\<lambda>observed.
     if observed \<noteq> enabled
     then io_raise (RuntimeError ''touchpad master-switch readback did not match the requested value'')
     else io_ret observed))"

section \<open>Applying a profile\<close>

record apply_args =
  ta_profile :: string
  ta_dry_run :: bool
  ta_clock_sync :: bool
  ta_wait :: int

definition profile_settings :: "(touchpad_setting \<times> int) list \<Rightarrow> (setting_arg \<times> pv) list" where
  "profile_settings settings = map (\<lambda>(s, v). (SA_setting s, PInt v)) settings"

text \<open>The body of the inner \<open>try\<close>: the master switch first if it is enabled, last if it is disabled.\<close>

definition apply_steps ::
  "'w tool \<Rightarrow> transport \<Rightarrow> apply_args \<Rightarrow> profile \<Rightarrow> string option \<Rightarrow> ('w, bool option \<times> batch_apply_result option) io" where
  "apply_steps tool t a p attribute =
     (case p of (settings, master) \<Rightarrow>
        io_bind (if master = Some True then io_map_ret Some (set_master tool (the attribute) True) else io_ret None) (\<lambda>enabled.
        io_bind (if settings \<noteq> []
                 then io_bind (if ta_wait a \<noteq> 0
                        then io_map_ret (\<lambda>_. ()) (wait_until_available (tc_os tool) t (ta_wait a) 100000) else io_ret ()) (\<lambda>_.
                      io_map_ret Some (apply_settings (tc_os tool) t (profile_settings settings) (ta_clock_sync a) None))
                 else io_ret None) (\<lambda>batch.
        io_bind (if master = Some False then io_map_ret Some (set_master tool (the attribute) False) else io_ret enabled) (\<lambda>observed.
        io_ret (observed, batch)))))"

text \<open>The handler: the previous value is restored if the switch no longer has it.\<close>

definition rollback :: "'w tool \<Rightarrow> string option \<Rightarrow> bool option \<Rightarrow> exn \<Rightarrow> ('w, 'a) io" where
  "rollback tool attribute previous e =
     (case (attribute, previous) of
        (Some attr, Some prev) \<Rightarrow>
          io_bind
            (io_try
              (io_bind (read_master tool attr) (\<lambda>current.
               if current \<noteq> prev then io_map_ret (\<lambda>_. ()) (set_master tool attr prev) else io_ret ()))
              is_exception
              (\<lambda>r. io_raise (RuntimeError (''profile failed ('' @ exn_str e @ ''); master rollback also failed: '' @ exn_str r))))
            (\<lambda>_. io_raise e)
      | _ \<Rightarrow> io_raise e)"

definition previous_master :: "'w tool \<Rightarrow> string option \<Rightarrow> bool option \<Rightarrow> ('w, bool option) io" where
  "previous_master tool attribute master =
     (case master of
        None \<Rightarrow> io_ret None
      | Some _ \<Rightarrow>
          (case attribute of
             None \<Rightarrow> io_raise (RuntimeError ''profile requests [master], but honor-touchpad-wmi is not bound'')
           | Some attr \<Rightarrow> io_map_ret Some (read_master tool attr)))"

definition apply_payload :: "profile \<Rightarrow> bool option \<Rightarrow> batch_apply_result option \<Rightarrow> exn + pv" where
  "apply_payload p observed batch =
     rbind (encoded_profile_payload p) (\<lambda>payload.
     Inr (PDict (dict_merge payload
       [(''applied'', PBool True), (''master_observed'', opt_bool observed),
        (''device_path'', PStr (case batch of Some b \<Rightarrow> bar_device_path b | None \<Rightarrow> [])),
        (''clock_synchronized'', PBool (case batch of Some b \<Rightarrow> bar_clock_synchronized b | None \<Rightarrow> False)),
        (''reports_applied'', PInt (case batch of Some b \<Rightarrow> int (bar_reports_applied b) | None \<Rightarrow> 0)),
        (''total_reports'', PInt (case batch of Some b \<Rightarrow> int (bar_total_reports b) | None \<Rightarrow> 0)),
        (''readback'', PDict [(''master'', PStr (if snd p \<noteq> None then ''verified'' else ''not_requested'')),
                            (''hid_settings'', PStr ''unavailable'')])])))"

definition apply_profile :: "'w tool \<Rightarrow> transport \<Rightarrow> apply_args \<Rightarrow> profile \<Rightarrow> ('w, pv) io" where
  "apply_profile tool t a p =
     io_bind (master_attribute tool) (\<lambda>attribute.
     io_bind (previous_master tool attribute (snd p)) (\<lambda>previous.
     io_bind (io_try (apply_steps tool t a p attribute) is_exception (rollback tool attribute previous)) (\<lambda>(observed, batch).
     io_of (apply_payload p observed batch))))"

definition cmd_apply :: "'w tool \<Rightarrow> transport \<Rightarrow> apply_args \<Rightarrow> ('w, int \<times> pv) io" where
  "cmd_apply tool t a =
     (if ta_wait a < 0 then io_raise (ValueError ''--wait cannot be negative'')
      else io_bind (tc_document tool (ta_profile a)) (\<lambda>document.
           io_bind (io_of (load_profile (Inr document))) (\<lambda>p.
           if ta_dry_run a
           then io_bind (io_of (encoded_profile_payload p)) (\<lambda>payload.
                io_ret (0, PDict (dict_merge payload [(''dry_run'', PBool True), (''applied'', PBool False)])))
           else io_map_ret (Pair 0) (apply_profile tool t a p))))"

section \<open>The other commands\<close>

definition cmd_probe :: "'w tool \<Rightarrow> transport \<Rightarrow> ('w, int \<times> pv) io" where
  "cmd_probe tool t =
     io_bind (transport_probe (tc_os tool) t) (\<lambda>p.
     io_bind (master_attribute tool) (\<lambda>attribute.
     io_ret (if tpr_available p then 0 else 2, PDict
       [(''available'', PBool (tpr_available p)), (''platform_verified'', PBool (tpr_platform_verified p)),
        (''dmi_vendor'', PStr (tpr_dmi_vendor p)), (''dmi_product'', PStr (tpr_dmi_product p)),
        (''device_found'', PBool (tpr_device_found p)), (''permission_denied'', PBool (tpr_permission_denied p)),
        (''descriptor_verified'', PBool (tpr_descriptor_verified p)), (''device_path'', PStr (tpr_device_path p)),
        (''report_id'', opt_int (tpr_report_id p)), (''input_report_bytes'', PInt (tpr_input_report_bytes p)),
        (''output_report_bytes'', PInt (tpr_output_report_bytes p)), (''error'', PStr (tpr_error p)),
        (''master_attribute'', PStr (case attribute of None \<Rightarrow> [] | Some path \<Rightarrow> path))])))"

definition setting_payload :: "touchpad_setting \<Rightarrow> pv" where
  "setting_payload s =
     (let spec = TOUCHPAD_SETTING_SPECS s in PDict
        [(''setting'', PStr (setting_str s)), (''range'', PList [PInt (spec_minimum spec), PInt (spec_maximum spec)]),
         (''labels'', PList (map PStr (spec_labels spec))), (''command'', PInt (spec_command spec)),
         (''companion_commands'', PList (map PInt (spec_companion_commands spec))),
         (''registry_name'', PStr (spec_registry_name spec)), (''helper_message_id'', PInt (spec_helper_message_id spec))])"

definition settings_payload :: pv where
  "settings_payload = PList (map setting_payload TOUCHPAD_SETTINGS)"

definition cmd_encode :: "string \<Rightarrow> string \<Rightarrow> exn + pv" where
  "cmd_encode name val =
     rbind (parse_touchpad_setting (SA_str name)) (\<lambda>setting.
     rbind (parse_touchpad_value (SA_setting setting) (PStr val)) (\<lambda>v. encoded_setting (setting, v)))"

definition cmd_set :: "'w tool \<Rightarrow> transport \<Rightarrow> string \<Rightarrow> string \<Rightarrow> bool \<Rightarrow> ('w, int \<times> pv) io" where
  "cmd_set tool t name val clock_sync =
     io_bind (apply_setting (tc_os tool) t (SA_str name) (PStr val) clock_sync None) (\<lambda>r.
     io_ret (0, PDict
       [(''setting'', PStr (setting_str (tar_setting r))), (''value'', PInt (tar_value r)), (''applied'', PBool True),
        (''reports_applied'', PInt (int (tar_reports_applied r))),
        (''reports'', PList (map (\<lambda>x. PStr (report_hex x)) (tar_reports r))),
        (''clock_synchronized'', PBool (tar_clock_synchronized r)), (''device_path'', PStr (tar_device_path r)),
        (''readback'', PStr ''unavailable'')]))"

definition cmd_support :: "'w tool \<Rightarrow> transport \<Rightarrow> bool \<Rightarrow> ('w, int \<times> pv) io" where
  "cmd_support tool t clock_sync =
     io_bind (query_supported_gestures (tc_os tool) t clock_sync None) (\<lambda>bits.
     let ordered = sorted_list_of_set bits; names = map_of SUPPORTED_GESTURE_BITS in
     io_ret (0, PDict
       [(''supported_bits'', PList (map (\<lambda>b. PInt (int b)) ordered)),
        (''known'', PDict (List.map_filter (\<lambda>b. map_option (\<lambda>n. (nat_str b, PStr n)) (names b)) ordered)),
        (''unknown_bits'', PList (map (\<lambda>b. PInt (int b)) (filter (\<lambda>b. names b = None) ordered)))]))"

definition cmd_master :: "'w tool \<Rightarrow> string option \<Rightarrow> ('w, int \<times> pv) io" where
  "cmd_master tool v =
     io_bind (master_attribute tool) (\<lambda>attribute.
     case attribute of
       None \<Rightarrow> io_raise (RuntimeError ''honor-touchpad-wmi is not bound; build and load the supplied module'')
     | Some attr \<Rightarrow>
         io_bind (case v of
             None \<Rightarrow> io_ret ()
           | Some x \<Rightarrow> io_map_ret (\<lambda>_. ()) (set_master tool attr (x = ''1'' \<or> x = ''on''))) (\<lambda>_.
         io_bind (read_master tool attr) (\<lambda>current.
         io_ret (0, PDict [(''touchpad_enabled'', PBool current), (''attribute'', PStr attr)]))))"

section \<open>One run\<close>

datatype tool_command =
    T_probe | T_list | T_encode string string | T_set string string bool | T_apply apply_args | T_support bool | T_master "string option"

fun run_tool :: "'w tool \<Rightarrow> transport \<Rightarrow> tool_command \<Rightarrow> ('w, int \<times> pv) io" where
  "run_tool tool t T_probe = cmd_probe tool t"
| "run_tool tool t T_list = io_ret (0, settings_payload)"
| "run_tool tool t (T_encode name v) = io_map_ret (Pair 0) (io_of (cmd_encode name v))"
| "run_tool tool t (T_set name v clock_sync) = cmd_set tool t name v clock_sync"
| "run_tool tool t (T_apply a) = cmd_apply tool t a"
| "run_tool tool t (T_support clock_sync) = cmd_support tool t clock_sync"
| "run_tool tool t (T_master v) = cmd_master tool v"

text \<open>\<open>except (ValueError, OSError, RuntimeError, TouchpadFirmwareError)\<close>, and the document it prints\<close>

fun tool_error :: "exn \<Rightarrow> bool" where
  "tool_error (RuntimeError m) = True"
| "tool_error e = os_or_value_error e"

fun error_payload :: "exn \<Rightarrow> pv" where
  "error_payload (TouchpadFirmwareError m path applied planned completed) = PDict
     [(''error'', PStr m), (''device_path'', PStr path), (''reports_applied'', PInt (int applied)), (''total_reports'', PInt (int planned))]"
| "error_payload e = PDict [(''error'', PStr (exn_str e))]"

definition tool_main :: "'w tool \<Rightarrow> string \<Rightarrow> string \<Rightarrow> string option \<Rightarrow> int \<Rightarrow> tool_command \<Rightarrow> ('w, int \<times> pv) io" where
  "tool_main tool sysfs_root dev_root dmi_root timeout_us c =
     io_try
       (io_bind (io_of (mk_transport sysfs_root dev_root dmi_root timeout_us)) (\<lambda>t. run_tool tool t c))
       tool_error (\<lambda>e. io_ret (1, error_payload e))"

section \<open>The switch after a failure\<close>

lemma encode_valid: "value_ok s v \<Longrightarrow> \<exists>rs. encode_touchpad_setting (SA_setting s) (PInt v) = Inr rs"
  by (auto simp: encode_iff parse_value_int)

lemma rmap_total: "\<forall>x\<in>set xs. \<exists>y. f x = Inr y \<Longrightarrow> \<exists>ys. rmap f xs = Inr ys"
  by (induction xs) auto

lemma payload_total: "loaded_profile_ok p \<Longrightarrow> \<exists>v. apply_payload p observed batch = Inr v"
proof -
  assume p: "loaded_profile_ok p"
  have "\<exists>ys. rmap encoded_setting (List.map_filter (\<lambda>s. map_option (Pair s) (map_of (fst p) s)) TOUCHPAD_SETTINGS) = Inr ys"
  proof (intro rmap_total ballI)
    fix x assume "x \<in> set (List.map_filter (\<lambda>s. map_option (Pair s) (map_of (fst p) s)) TOUCHPAD_SETTINGS)"
    then obtain s v where x: "x = (s, v)" "map_of (fst p) s = Some v" by (auto simp: List.map_filter_def)
    then have "value_ok s v" using p map_of_SomeD [of "fst p" s v] by (auto simp: loaded_profile_ok_def)
    then show "\<exists>y. encoded_setting x = Inr y" using encode_valid x by (force simp: encoded_setting_def)
  qed
  then show ?thesis by (cases p) (auto simp: apply_payload_def encoded_profile_payload_def)
qed

text \<open>What the attribute says in a world\<close>

definition switch_reads :: "fs_view \<Rightarrow> string \<Rightarrow> bool \<Rightarrow> bool" where
  "switch_reads v attr b \<longleftrightarrow> (\<exists>t. fv_text v attr = Ret t \<and> master_value t = Inr b)"

context visible_files
begin

lemma read_master_sees:
  assumes "tc_os tool = os" "read_master tool attr w = (r, w')"
  shows "view w' = view w \<and> (\<forall>b. r = Ret b \<longleftrightarrow> switch_reads (view w) attr b)"
proof -
  obtain x w1 where x: "os_read_text os attr w = (x, w1)" by fastforce
  note seen = looksD [OF answers(6) x]
  have "(r, w') = (case x of Ret t \<Rightarrow> io_of (master_value t) w1 | Raise e \<Rightarrow> (Raise e, w1) | Hang \<Rightarrow> (Hang, w1))"
    using assms x by (simp add: read_master_def io_bind_def split: reply.splits)
  then show ?thesis
    using seen by (cases x) (auto simp: switch_reads_def io_of_def io_ret_def io_raise_def split: sum.splits)
qed

lemma set_master_sees:
  assumes "tc_os tool = os" "set_master tool attr b w = (Ret x, w')"
  shows "switch_reads (view w') attr b"
  using assms read_master_sees [OF assms(1)]
  by (auto simp: set_master_def io_bind_eq_Ret split: if_splits) (metis)+

lemma rollback_sees:
  assumes "tc_os tool = os" "rollback tool (Some attr) (Some prev) e w = (r, w')"
  shows "case r of Ret x \<Rightarrow> False | Hang \<Rightarrow> True
    | Raise e' \<Rightarrow> (e' = e \<and> switch_reads (view w') attr prev) \<or> \<not> is_exception e' \<or>
        (\<exists>x. e' = RuntimeError (''profile failed ('' @ exn_str e @ ''); master rollback also failed: '' @ x))"
proof -
  let ?restore = "io_bind (read_master tool attr) (\<lambda>current.
      if current \<noteq> prev then io_map_ret (\<lambda>_. ()) (set_master tool attr prev) else io_ret ())"
  obtain x v where x: "?restore w = (x, v)" by fastforce
  have ok: "switch_reads (view v) attr prev" if "x = Ret ()"
    using x that read_master_sees [OF assms(1)] set_master_sees [OF assms(1)]
    by (auto simp: io_bind_eq_Ret split: if_splits) metis+
  show ?thesis
    using assms(2) x ok
    by (cases x) (auto simp: rollback_def io_bind_def io_try_def io_raise_def split: if_splits)
qed

lemma steps_set_switch:
  assumes "tc_os tool = os" "apply_steps tool t a (settings, Some m) (Some attr) w = (Ret x, w')" "\<not> m \<or> settings = []"
  shows "switch_reads (view w') attr m"
  using assms set_master_sees [OF assms(1)]
  by (cases m) (auto simp: apply_steps_def io_bind_eq_Ret)

lemma previous_sees:
  assumes "tc_os tool = os" "switch_reads (view w) attr prev" "previous_master tool (Some attr) (Some m) w = (r, w')"
  shows "r = Ret (Some prev) \<and> view w' = view w"
proof -
  obtain x v where x: "read_master tool attr w = (x, v)" by fastforce
  have "x = Ret prev" "view v = view w" using read_master_sees [OF assms(1) x] assms(2) by auto
  with assms(3) x show ?thesis by (simp add: previous_master_def io_bind_def)
qed

lemma apply_profile_sees:
  assumes os: "tc_os tool = os" and p: "loaded_profile_ok (settings, Some m)"
    and attr: "master_attribute tool w0 = (Ret (Some attr), w1)" "switch_reads (view w1) attr prev"
    and run: "apply_profile tool t a (settings, Some m) w0 = (r, w')"
  shows "case r of
      Ret v \<Rightarrow> \<not> m \<or> settings = [] \<longrightarrow> switch_reads (view w') attr m
    | Raise e \<Rightarrow> switch_reads (view w') attr prev \<or> \<not> is_exception e \<or>
        (\<exists>x y. e = RuntimeError (''profile failed ('' @ x @ ''); master rollback also failed: '' @ y))
    | Hang \<Rightarrow> True"
proof -
  obtain y w2 where "previous_master tool (Some attr) (Some m) w1 = (y, w2)" by fastforce
  with previous_sees [OF os attr(2)] have prev: "previous_master tool (Some attr) (Some m) w1 = (Ret (Some prev), w2)" by auto
  obtain x w3 where steps: "apply_steps tool t a (settings, Some m) (Some attr) w2 = (x, w3)" by fastforce
  note run = run [unfolded apply_profile_def io_bind_def attr(1) prev snd_conv prod.case reply.case io_try_def steps]
  show ?thesis
  proof (cases x)
    case (Ret ob)
    obtain ob' batch where ob: "ob = (ob', batch)" by fastforce
    obtain v where "apply_payload (settings, Some m) ob' batch = Inr v" using payload_total [OF p] by blast
    then have "r = Ret v" "w' = w3" using run Ret ob by (simp_all add: io_of_def)
    then show ?thesis using steps_set_switch [OF os steps [unfolded Ret]] by simp
  next
    case (Raise e)
    show ?thesis
    proof (cases "is_exception e")
      case True
      obtain z :: "(bool option \<times> batch_apply_result option) reply" and w4 where z: "rollback tool (Some attr) (Some prev) e w3 = (z, w4)" by fastforce
      note sees = rollback_sees [OF os z]
      from run Raise True z have "(r, w') = (case z of Ret q \<Rightarrow> (case q of (ob, batch) \<Rightarrow> io_of (apply_payload (settings, Some m) ob batch)) w4
          | Raise e' \<Rightarrow> (Raise e', w4) | Hang \<Rightarrow> (Hang, w4))"
        by (cases z) (simp_all add: case_prod_beta)
      with sees show ?thesis by (cases z) (auto split: prod.splits)
    next
      case False
      then show ?thesis using run Raise by auto
    qed
  next
    case Hang
    then show ?thesis using run by auto
  qed
qed

end

section \<open>Properties\<close>

text \<open>
  C38: A profile that could not be applied leaves the touchpad's master switch as it was. Whatever step fails, the switch reads
  its previous value afterwards, or the exception says that the rollback failed too. A profile that disables the switch, or
  only sets it, ends with the switch reading what was asked for.
\<close>

theorem apply_rolls_back:
  assumes "visible_files (tc_os tool) view" "loaded_profile_ok (settings, Some m)"
    "master_attribute tool w0 = (Ret (Some attr), w1)" "switch_reads (view w1) attr prev"
    "apply_profile tool t a (settings, Some m) w0 = (r, w')"
  shows "case r of
      Ret v \<Rightarrow> \<not> m \<or> settings = [] \<longrightarrow> switch_reads (view w') attr m
    | Raise e \<Rightarrow> switch_reads (view w') attr prev \<or> \<not> is_exception e \<or>
        (\<exists>x y. e = RuntimeError (''profile failed ('' @ x @ ''); master rollback also failed: '' @ y))
    | Hang \<Rightarrow> True"
  using visible_files.apply_profile_sees [OF assms(1) refl assms(2-5)] .

text \<open>A machine with the switch off and no touchpad: enabling it succeeds, the settings fail, and the switch is off again.\<close>

definition wmi_entry :: string where "wmi_entry = ''abbc0f5b-8ea1-11d1-a000-c90629100000-3''"
definition wmi_root :: string where "wmi_root = ''/sys/bus/wmi/devices''"

definition sim_tool :: "sim tool" where
  "sim_tool = \<lparr>tc_os = sim_os, tc_is_file = (\<lambda>p w. (Ret (map_of (sim_texts w) p \<noteq> None), w)),
     tc_document = (\<lambda>p w. (Raise (OSError ''No such file''), w)), tc_wmi_root = wmi_root\<rparr>"

definition switch_path :: string where "switch_path = wmi_root @ ''/'' @ wmi_entry @ ''/touchpad_enabled''"

definition bare_machine :: sim where
  "bare_machine = sim_start\<lparr>sim_texts := [(switch_path, ''0'' @ [CHR 10])], sim_dirs := [(wmi_root, [''PNP0C14:00'', wmi_entry])]\<rparr>"

definition enabling :: apply_args where
  "enabling = \<lparr>ta_profile = ''on.toml'', ta_dry_run = False, ta_clock_sync = True, ta_wait = 0\<rparr>"

abbreviation enabling_run :: "pv reply \<times> sim" where
  "enabling_run \<equiv> apply_profile sim_tool touchpad_transport enabling ([(SENSITIVITY, 1)], Some True) bare_machine"

theorem apply_rolls_back_witness:
  "(\<exists>e. fst enabling_run = Raise e) \<and> map snd (sim_log (snd enabling_run)) = [''1'' @ [CHR 10], ''0'' @ [CHR 10]] \<and>
   switch_reads (sim_view (snd enabling_run)) switch_path False"
proof -
  have log: "map snd (sim_log (snd enabling_run)) = [''1'' @ [CHR 10], ''0'' @ [CHR 10]]" by code_simp
  have "case fst enabling_run of Raise e \<Rightarrow> is_exception e \<and> take 7 (exn_str e) \<noteq> ''profile'' | _ \<Rightarrow> False" by code_simp
  then obtain e where e: "fst enabling_run = Raise e" "is_exception e" "take 7 (exn_str e) \<noteq> ''profile''"
    by (cases "fst enabling_run") simp_all
  have attr: "master_attribute sim_tool bare_machine = (Ret (Some switch_path), bare_machine)"
    by (simp add: prod_eq_iff) (intro conjI; code_simp)
  have off: "switch_reads (sim_view bare_machine) switch_path False"
  proof -
    have "fv_text (sim_view bare_machine) switch_path = Ret (''0'' @ [CHR 10])"
      by (simp add: sim_view_def bare_machine_def of_file_def)
    moreover have "master_value (''0'' @ [CHR 10]) = Inr False" by code_simp
    ultimately show ?thesis by (auto simp: switch_reads_def)
  qed
  have ok: "loaded_profile_ok ([(SENSITIVITY, 1)], Some True)" by (simp add: loaded_profile_ok_def value_ok_def)
  have files: "visible_files (tc_os sim_tool) sim_view" by (simp add: sim_tool_def sim_files.visible_files_axioms)
  from apply_rolls_back [OF files ok attr off prod.collapse [symmetric], of touchpad_transport enabling] e
  have "switch_reads (sim_view (snd enabling_run)) switch_path False" by auto
  with e log show ?thesis by blast
qed

end
