(* ===== verification/Desktop.thy ===== *)
theory Desktop
  imports Remote "HOL-Library.Multiset"
begin

text \<open>
  How the desktop application talks to the service: \<open>GuiState\<close> of \<^verbatim>\<open>honor_control/frontend/gui/state.py\<close>, \<open>GuiController\<close> and
  \<open>GuiWorker\<close> of \<^verbatim>\<open>honor_control/frontend/gui/controller.py\<close>, and the signals that \<^verbatim>\<open>main_window.py\<close> connects. The main thread and
  the worker thread share a queue of callbacks in one direction and a queue of signals in the other; a step is one callback, one
  step of a task, one phase of the worker's main loop, or the delivery of one signal. Tasks are resumed in any order.
\<close>

section \<open>GuiState\<close>

datatype state_signal =
    Snapshot_changed system_snapshot | Stale_changed "string list" | Connection_changed bool
  | Operation_pending string | Operation_completed string "client_value option" | Error_occurred string

record gui_state =
  gu_snapshot :: "system_snapshot option"
  gu_connected :: bool
  gu_pending :: "string set"
  gu_allow_reset :: bool
  gu_signals :: "state_signal list"

definition gui_init :: gui_state where
  "gui_init = \<lparr>gu_snapshot = None, gu_connected = False, gu_pending = {}, gu_allow_reset = True, gu_signals = []\<rparr>"

definition gui_emit :: "state_signal list \<Rightarrow> gui_state \<Rightarrow> gui_state" where
  "gui_emit xs g = g\<lparr>gu_signals := gu_signals g @ xs\<rparr>"

definition shown_sequence :: "gui_state \<Rightarrow> int" where
  "shown_sequence g = (case gu_snapshot g of None \<Rightarrow> -1 | Some sn \<Rightarrow> ss_sequence sn)"

definition stale_domains :: "gui_state \<Rightarrow> string list" where
  "stale_domains g = (case gu_snapshot g of None \<Rightarrow> [] | Some sn \<Rightarrow> ss_stale_domains sn)"

definition set_snapshot :: "system_snapshot \<Rightarrow> gui_state \<Rightarrow> gui_state" where
  "set_snapshot sn g =
     (let old_seq = shown_sequence g in
      if \<not> gu_allow_reset g \<and> ss_sequence sn < old_seq then g
      else let g = g\<lparr>gu_snapshot := Some sn, gu_allow_reset := False\<rparr>
           in if ss_sequence sn \<noteq> old_seq then gui_emit [Snapshot_changed sn, Stale_changed (ss_stale_domains sn)] g else g)"

definition set_connected :: "bool \<Rightarrow> gui_state \<Rightarrow> gui_state" where
  "set_connected online g =
     (if online \<noteq> gu_connected g
      then gui_emit [Connection_changed online]
             (g\<lparr>gu_connected := online, gu_allow_reset := (if online then gu_allow_reset g else True)\<rparr>)
      else g)"

definition mark_pending :: "string \<Rightarrow> gui_state \<Rightarrow> gui_state" where
  "mark_pending op g = gui_emit [Operation_pending op] (g\<lparr>gu_pending := insert op (gu_pending g)\<rparr>)"

definition clear_pending :: "string \<Rightarrow> gui_state \<Rightarrow> gui_state" where
  "clear_pending op g = g\<lparr>gu_pending := gu_pending g - {op}\<rparr>"

definition emit_completed :: "string \<Rightarrow> client_value option \<Rightarrow> gui_state \<Rightarrow> gui_state" where
  "emit_completed op res g = gui_emit [Operation_completed op res] (clear_pending op g)"

definition emit_error :: "string \<Rightarrow> gui_state \<Rightarrow> gui_state" where
  "emit_error m g = gui_emit [Error_occurred m] g"

section \<open>GuiWorker\<close>

datatype worker_signal =
    W_snapshot system_snapshot | W_connection bool | W_error string | W_result string "client_value option"

datatype callback = CB_call string dbus_call | CB_fetch

text \<open>A task that has not run its first step is \<open>Created\<close>. A task that fetches a snapshot remembers its client.\<close>

datatype phase = Created | Awaiting
datatype task = Call_task string dbus_call phase | Fetch_task nat phase

datatype main_phase = Between | Connecting | Online | Cancelling | Closing

text \<open>
  Clients are numbered. \<open>wk_dropped\<close> is not a variable of the program: it records the operations whose task was cancelled
  before its first step.
\<close>

record worker =
  wk_running :: bool
  wk_main :: main_phase
  wk_clients :: nat
  wk_client :: "nat option"
  wk_connected :: bool
  wk_callbacks :: "callback list"
  wk_tasks :: "task list"
  wk_outbox :: "worker_signal list"
  wk_dropped :: "string list"

definition worker_init :: worker where
  "worker_init = \<lparr>wk_running = False, wk_main = Between, wk_clients = 0, wk_client = None, wk_connected = False,
     wk_callbacks = [], wk_tasks = [], wk_outbox = [], wk_dropped = []\<rparr>"

definition send :: "worker_signal list \<Rightarrow> worker \<Rightarrow> worker" where
  "send xs wk = wk\<lparr>wk_outbox := wk_outbox wk @ xs\<rparr>"

definition submit_call :: "string \<Rightarrow> dbus_call \<Rightarrow> worker \<Rightarrow> bool \<times> worker" where
  "submit_call op c wk =
     (if \<not> wk_running wk then (False, wk) else (True, wk\<lparr>wk_callbacks := wk_callbacks wk @ [CB_call op c]\<rparr>))"

definition request_snapshot :: "worker \<Rightarrow> worker" where
  "request_snapshot wk = (if \<not> wk_running wk then wk else wk\<lparr>wk_callbacks := wk_callbacks wk @ [CB_fetch]\<rparr>)"

text \<open>\<open>_run_call\<close> and \<open>_fetch_and_emit\<close>\<close>

fun run_callback :: "callback \<Rightarrow> worker \<Rightarrow> worker" where
  "run_callback (CB_call op c) wk = wk\<lparr>wk_tasks := wk_tasks wk @ [Call_task op c Created]\<rparr>"
| "run_callback CB_fetch wk =
     (case wk_client wk of None \<Rightarrow> wk | Some i \<Rightarrow> wk\<lparr>wk_tasks := wk_tasks wk @ [Fetch_task i Created]\<rparr>)"

definition next_callback :: "worker \<Rightarrow> worker" where
  "next_callback wk = (case wk_callbacks wk of [] \<Rightarrow> wk | cb # r \<Rightarrow> run_callback cb (wk\<lparr>wk_callbacks := r\<rparr>))"

definition without :: "nat \<Rightarrow> task list \<Rightarrow> task list" where
  "without i ts = take i ts @ drop (Suc i) ts"

text \<open>The first step of a task, up to its call of the client\<close>

definition start_task :: "nat \<Rightarrow> worker \<Rightarrow> worker" where
  "start_task i wk =
     (case wk_tasks wk ! i of
        Call_task op c Created \<Rightarrow>
          if wk_client wk = None \<or> \<not> wk_connected wk
          then send [W_error ''Service is offline'', W_result op None] (wk\<lparr>wk_tasks := without i (wk_tasks wk)\<rparr>)
          else wk\<lparr>wk_tasks := (wk_tasks wk)[i := Call_task op c Awaiting]\<rparr>
      | Fetch_task n Created \<Rightarrow> wk\<lparr>wk_tasks := (wk_tasks wk)[i := Fetch_task n Awaiting]\<rparr>
      | _ \<Rightarrow> wk)"

text \<open>The end of a task whose call was answered\<close>

fun result_signals :: "string \<Rightarrow> client_exn + client_value \<Rightarrow> worker_signal list" where
  "result_signals op (Inr v) = [W_result op (Some v)]"
| "result_signals op (Inl (ClientError code m)) = [W_error m, W_result op None]"
| "result_signals op (Inl (Client_raw e)) = (if e = CancelledError then [] else [W_error (exn_str e)]) @ [W_result op None]"

fun fetch_signals :: "bool \<Rightarrow> bool \<Rightarrow> client_exn + client_value \<Rightarrow> worker_signal list" where
  "fetch_signals same online (Inr (CV_snapshot sn)) = (if same \<and> online then [W_snapshot sn] else [])"
| "fetch_signals same online (Inl (ClientError code m)) =
     (if same then (if \<not> online then [W_connection False] else []) @ [W_error m] else [])"
| "fetch_signals same online _ = []"

definition finish_task :: "nat \<Rightarrow> client_exn + client_value \<Rightarrow> worker \<Rightarrow> worker" where
  "finish_task i ans wk =
     (case wk_tasks wk ! i of
        Call_task op c Awaiting \<Rightarrow> send (result_signals op ans) (wk\<lparr>wk_tasks := without i (wk_tasks wk)\<rparr>)
      | Fetch_task n Awaiting \<Rightarrow>
          send (fetch_signals (wk_client wk = Some n) (wk_connected wk) ans) (wk\<lparr>wk_tasks := without i (wk_tasks wk)\<rparr>)
      | _ \<Rightarrow> wk)"

text \<open>\<open>_emit_snapshot\<close> for the client that owns the listener\<close>

definition emit_snapshot :: "nat \<Rightarrow> system_snapshot \<Rightarrow> worker \<Rightarrow> worker" where
  "emit_snapshot owner sn wk = (if wk_client wk = Some owner \<and> wk_connected wk then send [W_snapshot sn] wk else wk)"

text \<open>
  \<open>_cancel_tasks\<close>: an exception is thrown into every task. One that awaits its answer reports \<^const>\<open>None\<close>; the body of one that
  was only created never runs, so it reports nothing.
\<close>

fun cancel_signals :: "task \<Rightarrow> worker_signal list" where
  "cancel_signals (Call_task op c Awaiting) = [W_result op None]"
| "cancel_signals t = []"

fun dropped_by_cancel :: "task \<Rightarrow> string list" where
  "dropped_by_cancel (Call_task op c Created) = [op]"
| "dropped_by_cancel t = []"

definition cancel_tasks :: "worker \<Rightarrow> worker" where
  "cancel_tasks wk =
     send (concat (map cancel_signals (wk_tasks wk)))
       (wk\<lparr>wk_tasks := [], wk_dropped := wk_dropped wk @ concat (map dropped_by_cancel (wk_tasks wk))\<rparr>)"

text \<open>
  The phases of one round of \<open>_main\<close>: a new client connects, or is refused; its first snapshot is delivered; the connection is
  lost, or the main task is cancelled or crashes; tasks are cancelled; the client is closed.
\<close>

definition main_dial :: "worker \<Rightarrow> worker" where
  "main_dial wk = wk\<lparr>wk_main := Connecting, wk_clients := Suc (wk_clients wk), wk_client := Some (wk_clients wk), wk_connected := False\<rparr>"

definition main_connected :: "worker \<Rightarrow> worker" where
  "main_connected wk = send [W_connection True] (wk\<lparr>wk_main := Online, wk_connected := True\<rparr>)"

definition main_snapshot :: "system_snapshot \<Rightarrow> worker \<Rightarrow> worker" where
  "main_snapshot sn wk = send [W_snapshot sn] wk"

definition main_lost :: "string \<Rightarrow> worker \<Rightarrow> worker" where
  "main_lost m wk = send [W_connection False, W_error m] (wk\<lparr>wk_main := Cancelling\<rparr>)"

definition main_aborted :: "worker \<Rightarrow> worker" where
  "main_aborted wk = wk\<lparr>wk_main := Cancelling\<rparr>"

definition main_cancel :: "worker \<Rightarrow> worker" where
  "main_cancel wk = (cancel_tasks wk)\<lparr>wk_main := Closing\<rparr>"

definition main_close :: "worker \<Rightarrow> worker" where
  "main_close wk = wk\<lparr>wk_main := Between, wk_client := None, wk_connected := False\<rparr>"

section \<open>GuiController and the window\<close>

record desktop =
  dt_state :: gui_state
  dt_pending :: "string set"
  dt_connected :: bool
  dt_last :: "system_snapshot option"
  dt_worker :: worker

definition desktop_init :: desktop where
  "desktop_init = \<lparr>dt_state = gui_init, dt_pending = {}, dt_connected = False, dt_last = None, dt_worker = worker_init\<rparr>"

text \<open>\<open>GuiController.call\<close>, with the slots of its signals\<close>

definition controller_call :: "string \<Rightarrow> dbus_call \<Rightarrow> desktop \<Rightarrow> bool \<times> desktop" where
  "controller_call op c d =
     (if op \<in> dt_pending d then (False, d)
      else case submit_call op c (dt_worker d) of
        (False, _) \<Rightarrow> (False, d\<lparr>dt_state := emit_error ''Service worker is not ready'' (dt_state d)\<rparr>)
      | (True, wk) \<Rightarrow>
          (True, d\<lparr>dt_worker := wk, dt_pending := insert op (dt_pending d), dt_state := mark_pending op (dt_state d)\<rparr>))"

definition controller_refresh :: "desktop \<Rightarrow> desktop" where
  "controller_refresh d = d\<lparr>dt_worker := request_snapshot (dt_worker d)\<rparr>"

text \<open>The slots of the worker's signals; a completed operation is followed by a refresh (\<open>_on_operation_completed\<close>).\<close>

fun on_signal :: "worker_signal \<Rightarrow> desktop \<Rightarrow> desktop" where
  "on_signal (W_snapshot sn) d = d\<lparr>dt_last := Some sn, dt_state := set_snapshot sn (dt_state d)\<rparr>"
| "on_signal (W_connection b) d = d\<lparr>dt_connected := b, dt_state := set_connected b (dt_state d)\<rparr>"
| "on_signal (W_error m) d = d\<lparr>dt_state := emit_error m (dt_state d)\<rparr>"
| "on_signal (W_result op res) d =
     controller_refresh (d\<lparr>dt_pending := dt_pending d - {op}, dt_state := emit_completed op res (dt_state d)\<rparr>)"

definition deliver :: "desktop \<Rightarrow> desktop" where
  "deliver d = (case wk_outbox (dt_worker d) of
     [] \<Rightarrow> d | x # r \<Rightarrow> on_signal x (d\<lparr>dt_worker := (dt_worker d)\<lparr>wk_outbox := r\<rparr>\<rparr>))"

abbreviation in_worker :: "(worker \<Rightarrow> worker) \<Rightarrow> desktop \<Rightarrow> desktop" where
  "in_worker f d \<equiv> d\<lparr>dt_worker := f (dt_worker d)\<rparr>"

section \<open>Steps\<close>

inductive desktop_step :: "desktop \<Rightarrow> desktop \<Rightarrow> bool" where
  intent: "desktop_step d (snd (controller_call op c d))"
| refresh: "desktop_step d (controller_refresh d)"
| loop_started: "desktop_step d (in_worker (\<lambda>wk. wk\<lparr>wk_running := True\<rparr>) d)"
| loop_ended: "desktop_step d (in_worker (\<lambda>wk. wk\<lparr>wk_running := False\<rparr>) d)"
| callback: "desktop_step d (in_worker next_callback d)"
| task_started: "i < length (wk_tasks (dt_worker d)) \<Longrightarrow> desktop_step d (in_worker (start_task i) d)"
| task_finished: "i < length (wk_tasks (dt_worker d)) \<Longrightarrow> desktop_step d (in_worker (finish_task i ans) d)"
| signalled: "desktop_step d (in_worker (emit_snapshot owner sn) d)"
| link_lost: "desktop_step d (in_worker (\<lambda>wk. wk\<lparr>wk_connected := False\<rparr>) d)"
| dialled: "wk_main (dt_worker d) = Between \<Longrightarrow> desktop_step d (in_worker main_dial d)"
| connected: "wk_main (dt_worker d) = Connecting \<Longrightarrow> desktop_step d (in_worker main_connected d)"
| first_snapshot: "wk_main (dt_worker d) = Online \<Longrightarrow> desktop_step d (in_worker (main_snapshot sn) d)"
| lost: "wk_main (dt_worker d) \<in> {Connecting, Online} \<Longrightarrow> desktop_step d (in_worker (main_lost m) d)"
| aborted: "wk_main (dt_worker d) \<in> {Connecting, Online} \<Longrightarrow> desktop_step d (in_worker main_aborted d)"
| cancelled: "wk_main (dt_worker d) = Cancelling \<Longrightarrow> desktop_step d (in_worker main_cancel d)"
| closed: "wk_main (dt_worker d) = Closing \<Longrightarrow> desktop_step d (in_worker main_close d)"
| delivered: "desktop_step d (deliver d)"

inductive desktop_reachable :: "desktop \<Rightarrow> bool" where
  start: "desktop_reachable desktop_init"
| step: "desktop_reachable d \<Longrightarrow> desktop_step d d' \<Longrightarrow> desktop_reachable d'"

section \<open>Operations in flight\<close>

fun callback_ops :: "callback \<Rightarrow> string list" where
  "callback_ops (CB_call op c) = [op]"
| "callback_ops CB_fetch = []"

fun task_ops :: "task \<Rightarrow> string list" where
  "task_ops (Call_task op c ph) = [op]"
| "task_ops (Fetch_task n ph) = []"

fun signal_ops :: "worker_signal \<Rightarrow> string list" where
  "signal_ops (W_result op res) = [op]"
| "signal_ops _ = []"

definition in_flight :: "worker \<Rightarrow> string list" where
  "in_flight wk = concat (map callback_ops (wk_callbacks wk)) @ concat (map task_ops (wk_tasks wk)) @
     concat (map signal_ops (wk_outbox wk))"

definition tracked :: "worker \<Rightarrow> string multiset" where
  "tracked wk = mset (in_flight wk) + mset (wk_dropped wk)"

definition operations_ok :: "desktop \<Rightarrow> bool" where
  "operations_ok d \<longleftrightarrow> distinct (in_flight (dt_worker d) @ wk_dropped (dt_worker d)) \<and>
     dt_pending d = set (in_flight (dt_worker d)) \<union> set (wk_dropped (dt_worker d)) \<and> gu_pending (dt_state d) = dt_pending d"

lemma once_each: "(\<forall>x. count (mset xs) x = (if x \<in> A then 1 else 0)) \<longleftrightarrow> distinct xs \<and> A = set xs"
proof
  assume h: "\<forall>x. count (mset xs) x = (if x \<in> A then 1 else 0)"
  have "x \<in> A \<longleftrightarrow> x \<in> set xs" for x using h [rule_format, of x] count_mset_0_iff [of xs x] by (cases "x \<in> A") simp_all
  then have A: "A = set xs" by blast
  then show "distinct xs \<and> A = set xs" using h distinct_count_atmost_1 [of xs] by simp
next
  assume "distinct xs \<and> A = set xs"
  then show "\<forall>x. count (mset xs) x = (if x \<in> A then 1 else 0)" using distinct_count_atmost_1 [of xs] by simp
qed

definition each_once :: "string multiset \<Rightarrow> string set \<Rightarrow> bool" where
  "each_once M A \<longleftrightarrow> (\<forall>op. count M op = (if op \<in> A then 1 else 0))"

lemma each_once_insert: "each_once M A \<Longrightarrow> op \<notin> A \<Longrightarrow> each_once (add_mset op M) (insert op A)"
  by (simp add: each_once_def)

lemma each_once_remove:
  assumes "each_once (add_mset op M) A"
  shows "each_once M (A - {op})"
  unfolding each_once_def
proof
  fix x
  from assms have "count (add_mset op M) x = (if x \<in> A then 1 else 0)" unfolding each_once_def by blast
  then show "count M x = (if x \<in> A - {op} then 1 else 0)" by (cases "x = op"; cases "x \<in> A") simp_all
qed

lemma operations_ok_mset:
  "operations_ok d \<longleftrightarrow> each_once (tracked (dt_worker d)) (dt_pending d) \<and>
     gu_pending (dt_state d) = dt_pending d"
proof -
  have "tracked (dt_worker d) = mset (in_flight (dt_worker d) @ wk_dropped (dt_worker d))" by (simp add: tracked_def)
  then show ?thesis unfolding operations_ok_def each_once_def by (simp only: once_each set_append conj_assoc)
qed

lemma tracked_parts:
  "tracked wk = mset (concat (map callback_ops (wk_callbacks wk))) + mset (concat (map task_ops (wk_tasks wk))) +
     mset (concat (map signal_ops (wk_outbox wk))) + mset (wk_dropped wk)"
  by (simp add: tracked_def in_flight_def)

text \<open>What only moves an operation from one place to another\<close>

lemma tracked_send: "tracked (send xs wk) = tracked wk + mset (concat (map signal_ops xs))"
  by (simp add: tracked_parts send_def)

lemma send_fields [simp]:
  "wk_callbacks (send xs wk) = wk_callbacks wk" "wk_tasks (send xs wk) = wk_tasks wk" "wk_dropped (send xs wk) = wk_dropped wk"
  "wk_outbox (send xs wk) = wk_outbox wk @ xs" "wk_main (send xs wk) = wk_main wk"
  by (simp_all add: send_def)

lemma tracked_callback: "tracked (next_callback wk) = tracked wk"
proof (cases "wk_callbacks wk")
  case (Cons cb r)
  then show ?thesis by (cases cb) (simp_all add: tracked_parts next_callback_def split: option.split)
qed (simp add: next_callback_def)

lemma tasks_split: "i < length ts \<Longrightarrow> mset (concat (map task_ops ts)) = mset (task_ops (ts ! i)) + mset (concat (map task_ops (without i ts)))"
proof -
  assume "i < length ts"
  then have "ts = take i ts @ ts ! i # drop (Suc i) ts" by (rule id_take_nth_drop)
  then have "mset (concat (map task_ops ts)) = mset (concat (map task_ops (take i ts @ ts ! i # drop (Suc i) ts)))" by simp
  then show ?thesis by (simp add: without_def)
qed

lemma tasks_update:
  "i < length ts \<Longrightarrow> task_ops t = task_ops (ts ! i) \<Longrightarrow> map task_ops (ts[i := t]) = map task_ops ts"
  by (metis list_update_id map_update)

lemma result_ops: "concat (map signal_ops (result_signals op ans)) = [op]"
  by (induction op ans rule: result_signals.induct) simp_all

lemma fetch_ops: "concat (map signal_ops (fetch_signals same online ans)) = []"
  by (induction same online ans rule: fetch_signals.induct) auto

lemma tracked_start: "i < length (wk_tasks wk) \<Longrightarrow> tracked (start_task i wk) = tracked wk"
  using tasks_split [of i "wk_tasks wk"] tasks_update [of i "wk_tasks wk"]
  by (auto simp: start_task_def tracked_parts split: task.split phase.split)

lemma tracked_finish: "i < length (wk_tasks wk) \<Longrightarrow> tracked (finish_task i ans wk) = tracked wk"
  using tasks_split [of i "wk_tasks wk"]
  by (auto simp: finish_task_def tracked_parts result_ops fetch_ops split: task.split phase.split)

lemma cancelled_ops:
  "mset (concat (map signal_ops (concat (map cancel_signals ts)))) + mset (concat (map dropped_by_cancel ts)) = mset (concat (map task_ops ts))"
proof (induction ts)
  case (Cons t ts)
  show ?case
  proof (cases t)
    case (Call_task op c ph)
    then show ?thesis using Cons by (cases ph) simp_all
  next
    case (Fetch_task n ph)
    then show ?thesis using Cons by simp
  qed
qed simp

lemma tracked_cancel: "tracked (cancel_tasks wk) = tracked wk"
  using cancelled_ops [of "wk_tasks wk"] by (simp add: cancel_tasks_def tracked_parts add_ac)

lemma tracked_main:
  "tracked (main_dial wk) = tracked wk" "tracked (main_connected wk) = tracked wk" "tracked (main_snapshot sn wk) = tracked wk"
  "tracked (main_lost m wk) = tracked wk" "tracked (main_aborted wk) = tracked wk"
  "tracked (main_cancel wk) = tracked wk" "tracked (main_close wk) = tracked wk" "tracked (emit_snapshot owner sn wk) = tracked wk"
  "tracked (request_snapshot wk) = tracked wk" "tracked (wk\<lparr>wk_running := b\<rparr>) = tracked wk" "tracked (wk\<lparr>wk_connected := b\<rparr>) = tracked wk"
  using tracked_cancel [of wk]
  by (simp_all add: tracked_parts main_dial_def main_connected_def main_snapshot_def main_lost_def main_aborted_def main_cancel_def main_close_def emit_snapshot_def
      request_snapshot_def)

lemmas tracked_simps = tracked_main tracked_callback tracked_start tracked_finish

lemma in_worker_ok: "operations_ok d \<Longrightarrow> tracked (f (dt_worker d)) = tracked (dt_worker d) \<Longrightarrow> operations_ok (in_worker f d)"
  by (simp add: operations_ok_mset)

lemma gui_pending_simps [simp]:
  "gu_pending (gui_emit xs g) = gu_pending g" "gu_pending (set_snapshot sn g) = gu_pending g" "gu_pending (set_connected b g) = gu_pending g"
  "gu_pending (mark_pending op g) = insert op (gu_pending g)" "gu_pending (emit_completed op res g) = gu_pending g - {op}"
  "gu_pending (emit_error m g) = gu_pending g"
  by (simp_all add: gui_emit_def set_snapshot_def set_connected_def mark_pending_def emit_completed_def clear_pending_def
      emit_error_def Let_def)

lemma call_ok: "operations_ok d \<Longrightarrow> operations_ok (snd (controller_call op c d))"
proof -
  assume ok: "operations_ok d"
  have "tracked (wk\<lparr>wk_callbacks := wk_callbacks wk @ [CB_call op c]\<rparr>) = add_mset op (tracked wk)" for wk
    by (simp add: tracked_parts)
  then show ?thesis
    using ok by (auto simp: operations_ok_mset controller_call_def submit_call_def each_once_insert)
qed

lemma deliver_ok: "operations_ok d \<Longrightarrow> operations_ok (deliver d)"
proof (cases "wk_outbox (dt_worker d)")
  case (Cons x r)
  assume ok: "operations_ok d"
  define wk where "wk = (dt_worker d)\<lparr>wk_outbox := r\<rparr>"
  have t: "tracked (dt_worker d) = tracked wk + mset (signal_ops x)" by (simp add: tracked_parts wk_def Cons)
  have "deliver d = on_signal x (d\<lparr>dt_worker := wk\<rparr>)" by (simp add: deliver_def Cons wk_def)
  then show ?thesis
    using ok t by (cases x) (auto simp: operations_ok_mset controller_refresh_def tracked_simps each_once_remove)
qed (simp add: deliver_def)

lemma step_operations: "desktop_step d d' \<Longrightarrow> operations_ok d \<Longrightarrow> operations_ok d'"
proof (induction rule: desktop_step.induct)
  case (refresh d)
  then show ?case using in_worker_ok [of d request_snapshot] by (simp add: controller_refresh_def tracked_simps)
qed (auto intro!: in_worker_ok call_ok deliver_ok simp: tracked_simps)

section \<open>Snapshots in order\<close>

text \<open>The sequence shown last since the last loss of the connection, and a history in which it only grows\<close>

fun last_shown :: "int option \<Rightarrow> state_signal list \<Rightarrow> int option" where
  "last_shown lo [] = lo"
| "last_shown lo (Snapshot_changed sn # r) = last_shown (Some (ss_sequence sn)) r"
| "last_shown lo (Connection_changed b # r) = last_shown (if b then lo else None) r"
| "last_shown lo (x # r) = last_shown lo r"

fun growing :: "int option \<Rightarrow> state_signal list \<Rightarrow> bool" where
  "growing lo [] = True"
| "growing lo (Snapshot_changed sn # r) =
     ((case lo of None \<Rightarrow> True | Some l \<Rightarrow> l < ss_sequence sn) \<and> growing (Some (ss_sequence sn)) r)"
| "growing lo (Connection_changed b # r) = growing (if b then lo else None) r"
| "growing lo (x # r) = growing lo r"

lemma last_shown_append: "last_shown lo (xs @ ys) = last_shown (last_shown lo xs) ys"
  by (induction lo xs rule: last_shown.induct) simp_all

lemma growing_append: "growing lo (xs @ ys) \<longleftrightarrow> growing lo xs \<and> growing (last_shown lo xs) ys"
  by (induction lo xs rule: growing.induct) auto

definition shown_ok :: "gui_state \<Rightarrow> bool" where
  "shown_ok g \<longleftrightarrow> growing None (gu_signals g) \<and>
     (\<forall>l. last_shown None (gu_signals g) = Some l \<longrightarrow> \<not> gu_allow_reset g \<and> shown_sequence g = l)"

lemma shown_ok_simps:
  "shown_ok g \<Longrightarrow> shown_ok (set_snapshot sn g)" "shown_ok g \<Longrightarrow> shown_ok (set_connected b g)"
  "shown_ok g \<Longrightarrow> shown_ok (mark_pending op g)" "shown_ok g \<Longrightarrow> shown_ok (emit_completed op res g)" "shown_ok g \<Longrightarrow> shown_ok (emit_error m g)"
  by (auto simp: shown_ok_def set_snapshot_def set_connected_def mark_pending_def emit_completed_def clear_pending_def emit_error_def
      gui_emit_def growing_append last_shown_append shown_sequence_def Let_def split: option.splits if_splits)

lemma deliver_shown: "shown_ok (dt_state d) \<Longrightarrow> shown_ok (dt_state (deliver d))"
proof (cases "wk_outbox (dt_worker d)")
  case (Cons x r)
  assume "shown_ok (dt_state d)"
  then show ?thesis using Cons by (cases x) (simp_all add: deliver_def controller_refresh_def shown_ok_simps)
qed (simp add: deliver_def)

lemma step_shown: "desktop_step d d' \<Longrightarrow> shown_ok (dt_state d) \<Longrightarrow> shown_ok (dt_state d')"
proof (induction rule: desktop_step.induct)
  case (intent d op c)
  then show ?case by (simp add: controller_call_def submit_call_def shown_ok_simps)
qed (simp_all add: controller_refresh_def deliver_shown)

lemma reachable_ok: "desktop_reachable d \<Longrightarrow> operations_ok d \<and> shown_ok (dt_state d)"
proof (induction rule: desktop_reachable.induct)
  case start
  show ?case
    by (simp add: operations_ok_def desktop_init_def worker_init_def in_flight_def gui_init_def shown_ok_def)
qed (simp add: step_operations step_shown)

section \<open>Properties\<close>

text \<open>
  C39: The desktop application keeps its books, however its two threads interleave. An operation has at most one callback, task
  or result on its way, and the window and the controller hold it pending as long as that is so; a second submission meanwhile
  is refused. What stays pending otherwise is exactly what was cancelled before it started. As long as the connection lasts, the
  snapshots shown only get newer.
\<close>

theorem desktop_keeps_books:
  assumes "desktop_reachable d"
  shows "distinct (in_flight (dt_worker d)) \<and> gu_pending (dt_state d) = dt_pending d \<and>
    dt_pending d = set (in_flight (dt_worker d)) \<union> set (wk_dropped (dt_worker d)) \<and>
    (fst (controller_call op c d) \<longrightarrow> op \<notin> set (in_flight (dt_worker d))) \<and>
    growing None (gu_signals (dt_state d))"
proof -
  have o: "operations_ok d" and g: "shown_ok (dt_state d)" using reachable_ok [OF assms] by simp_all
  have "op \<notin> dt_pending d" if "fst (controller_call op c d)"
    using that by (auto simp: controller_call_def split: if_splits)
  with o g show ?thesis by (auto simp: operations_ok_def shown_ok_def)
qed

text \<open>The fan is handed back while the first snapshot is still on its way to the window.\<close>

definition online_desktop :: desktop where
  "online_desktop = in_worker (main_snapshot (system_default 7)) (in_worker main_connected (in_worker main_dial
     (in_worker (\<lambda>wk. wk\<lparr>wk_running := True\<rparr>) desktop_init)))"

definition busy_desktop :: desktop where
  "busy_desktop = deliver (deliver (in_worker (start_task 0) (in_worker next_callback (snd (controller_call ''fan'' SetStockAuto online_desktop)))))"

lemma online_reachable: "desktop_reachable online_desktop"
proof -
  have "desktop_reachable (in_worker (\<lambda>wk. wk\<lparr>wk_running := True\<rparr>) desktop_init)"
    by (rule desktop_reachable.step [OF desktop_reachable.start desktop_step.loop_started])
  then have "desktop_reachable (in_worker main_dial (in_worker (\<lambda>wk. wk\<lparr>wk_running := True\<rparr>) desktop_init))"
    by (rule desktop_reachable.step [OF _ desktop_step.dialled]) (simp add: desktop_init_def worker_init_def)
  then have "desktop_reachable (in_worker main_connected (in_worker main_dial (in_worker (\<lambda>wk. wk\<lparr>wk_running := True\<rparr>) desktop_init)))"
    by (rule desktop_reachable.step [OF _ desktop_step.connected]) (simp add: main_dial_def)
  then show ?thesis
    unfolding online_desktop_def by (rule desktop_reachable.step [OF _ desktop_step.first_snapshot]) (simp add: main_connected_def)
qed

lemmas desktop_eval = online_desktop_def desktop_init_def worker_init_def gui_init_def main_dial_def main_connected_def main_snapshot_def
  send_def controller_call_def submit_call_def next_callback_def mark_pending_def gui_emit_def

theorem desktop_keeps_books_witness:
  "dt_pending busy_desktop = {''fan''} \<and> in_flight (dt_worker busy_desktop) = [''fan''] \<and>
   \<not> fst (controller_call ''fan'' SetStockAuto busy_desktop) \<and> growing None (gu_signals (dt_state busy_desktop))"
proof -
  let ?d = "in_worker next_callback (snd (controller_call ''fan'' SetStockAuto online_desktop))"
  have "desktop_reachable (in_worker (start_task 0) ?d)"
    by (rule desktop_reachable.step [OF _ desktop_step.task_started])
       (intro desktop_reachable.step [OF _ desktop_step.callback] desktop_reachable.step [OF _ desktop_step.intent] online_reachable,
        simp add: desktop_eval)
  then have "desktop_reachable busy_desktop"
    unfolding busy_desktop_def by (intro desktop_reachable.step [OF _ desktop_step.delivered])
  from desktop_keeps_books [OF this, of "''fan''" SetStockAuto]
  show ?thesis
    by (auto simp: busy_desktop_def deliver_def start_task_def desktop_eval in_flight_def set_snapshot_def set_connected_def Let_def)
qed

text \<open>
  An operation whose task is cancelled before its first step never completes: it stays pending for good, and the control can
  not be used again.
\<close>

lemma lost_operation_blocks:
  assumes "desktop_reachable d" "op \<in> set (wk_dropped (dt_worker d))"
  shows "\<not> fst (controller_call op c d) \<and> op \<notin> set (in_flight (dt_worker d))"
proof -
  have o: "operations_ok d" using reachable_ok [OF assms(1)] by simp
  then have "op \<in> dt_pending d" "op \<notin> set (in_flight (dt_worker d))"
    using assms(2) by (auto simp: operations_ok_def)
  then show ?thesis by (simp add: controller_call_def)
qed

definition cut_desktop :: desktop where
  "cut_desktop = in_worker main_cancel (in_worker (main_lost ''Service signal connection was lost'')
     (in_worker next_callback (snd (controller_call ''fan'' SetStockAuto online_desktop))))"

lemma operation_can_be_lost: "desktop_reachable cut_desktop \<and> wk_dropped (dt_worker cut_desktop) = [''fan'']"
proof
  have "desktop_reachable (in_worker (main_lost ''Service signal connection was lost'')
      (in_worker next_callback (snd (controller_call ''fan'' SetStockAuto online_desktop))))" (is "desktop_reachable ?d")
    by (rule desktop_reachable.step [OF _ desktop_step.lost])
       (intro desktop_reachable.step [OF _ desktop_step.callback] desktop_reachable.step [OF _ desktop_step.intent] online_reachable,
        simp add: desktop_eval)
  then show "desktop_reachable cut_desktop"
    unfolding cut_desktop_def by (rule desktop_reachable.step [OF _ desktop_step.cancelled]) (simp add: main_lost_def)
  show "wk_dropped (dt_worker cut_desktop) = [''fan'']"
    by (simp add: cut_desktop_def main_cancel_def main_lost_def cancel_tasks_def desktop_eval)
qed

end
