(* ===== verification/Spec2Isabelle.thy ===== *)
theory Spec2Isabelle
  imports Config_Store Fan_Curve Service Touchpad_Transport Gesture_Runtime Adapter_Results Curve_Editor Honorctl Touchpad_Cli Desktop
begin

text \<open>
  \<^bold>\<open>Honor Control\<close> (\<^verbatim>\<open>src/honor_control\<close>) is a root service that controls charge limits, power profiles, the fan, touchpad
  gestures and a GPU interrupt workaround of Honor laptops, with a D-Bus interface and clients for it. This library models
  the service, its D-Bus client, the command line tools and the core of the desktop application, and proves what makes them
  safe to run.

  \<^bold>\<open>Parts and how they interact.\<close> Clients call methods of one D-Bus object. A method is authorised through polkit, then runs
  a use case of the application service. Use cases are serialised by a lock; they validate their arguments, run hardware
  commands one at a time through a queue with a deadline, save the configuration atomically, publish snapshots of what was
  observed, and start or stop background controllers under a supervisor: a refresh loop, automatic switching of power
  profiles, a fan curve, and the watchdog of a manual fan speed. A hardware command that misses its deadline poisons the
  queue until a reserved command has returned the fan to the firmware.

  \<^bold>\<open>Theories.\<close>
  \<^item> \<open>Prelude\<close>: results \<open>error + value\<close> (\<open>rbind\<close>, \<open>rmap\<close>), dictionaries as association lists in insertion order, Python
    values \<open>pv\<close>, strings, decimal text, \<open>int()\<close>, rounding; locales for validators and codecs.
  \<^item> \<open>Domain\<close>, \<open>Gestures\<close>, \<open>Validation\<close>, \<open>Touchpad\<close>, \<open>Fan_Curve\<close>: \<^verbatim>\<open>core/errors.py\<close>, \<^verbatim>\<open>core/models.py\<close>, \<^verbatim>\<open>contract.py\<close>,
    \<^verbatim>\<open>core/gestures.py\<close>, \<^verbatim>\<open>core/validation.py\<close>, \<^verbatim>\<open>core/touchpad.py\<close> and the interpolation of \<^verbatim>\<open>backend/application.py\<close>. Shown:
    curve text and curves correspond, interpolated speeds are bounded, monotone and meet the points, firmware reports are
    exact and distinct, support bits are decoded exactly.
  \<^item> \<open>Service_State\<close>, \<open>Toml\<close>, \<open>Config_Store\<close>: \<^verbatim>\<open>backend/config_store.py\<close>. The disk is a record of the primary and the backup
    file; every system call of a save or load may fail, which is an argument. Shown: documents round-trip, updates are all
    or nothing and none is lost, an unusable file never becomes active.
  \<^item> \<open>Snapshot_Store\<close>, \<open>Supervisor\<close>, \<open>Command_Queue\<close>: the files of the same names. The queue is a step relation over the
    caller, the worker thread and the event loop. Shown: publications are ordered, controllers keep their books, commands
    never overlap, a recovery runs directly behind the command it recovers, the queue drains.
  \<^item> \<open>Hardware_Port\<close>: the protocol \<open>HardwarePort\<close> as a record of operations on a world \<open>'w\<close>, each of which returns, raises or
    hangs, \<open>FakeHardware\<close> as an instance, and the laws proofs need of a port as locales.
  \<^item> \<open>App_State\<close>, \<open>App_Fan\<close>, \<open>App_Power\<close>, \<open>App_Gestures\<close>, \<open>App_Lifecycle\<close>: \<^verbatim>\<open>backend/application.py\<close>. The service is the
    record \<open>app\<close> of the world and its components; use cases are actions \<open>app \<Rightarrow> (exn + value) \<times> app\<close> composed with
    \<open>abind\<close>, \<open>atry\<close> (\<open>except Exception\<close>), \<open>acatch\<close> and \<open>afinally\<close>; \<open>keeps\<close> and \<open>ends\<close> are their invariants and
    postconditions. The loops of the controllers are modelled one iteration at a time; what other tasks do while an
    iteration waits for the lock is a function argument.
  \<^item> \<open>App_Fan_Safety\<close>, \<open>App_Results\<close>, \<open>App_Policies\<close>, \<open>App_Shutdown\<close>: what the use cases and controllers guarantee.
  \<^item> \<open>Codec\<close>, \<open>Client\<close>: \<^verbatim>\<open>backend/dbus/codec.py\<close>, \<^verbatim>\<open>client/errors.py\<close> and \<^verbatim>\<open>client/sdbus_client.py\<close>: the wire format, its
    checked decoding, connecting, and the coalescing of change signals.
  \<^item> \<open>Authorizer\<close>, \<open>Dbus_Api\<close>, \<open>Remote\<close>, \<open>Service\<close>: \<^verbatim>\<open>backend/dbus/authorizer.py\<close>, \<^verbatim>\<open>backend/dbus/api.py\<close>, the two clients
    over them, and \<^verbatim>\<open>backend/service.py\<close> with the interleavings of the whole service.
  \<^item> \<open>Os_Port\<close>, \<open>Os_Sim\<close>: what the device code uses of the operating system, as a record of calls on a world, each of which
    returns, raises or hangs, with actions composed in order (\<open>io_bind\<close>, \<open>io_try\<close>, \<open>io_finally\<close>, \<open>io_repeat\<close>); and a
    simulated machine with files, descriptors, signals, busy devices and a clock, on which the interfaces are interpreted.
  \<^item> \<open>Hid_Descriptor\<close>, \<open>Touchpad_Firmware\<close>, \<open>Touchpad_Transport\<close>: \<^verbatim>\<open>backend/touchpad_firmware.py\<close>: the descriptor parser, discovery
    and probe, and the transport. Shown: the parser agrees with the HID item language, an endpoint is offered exactly when it
    may be written, a profile transaction tells the truth about what arrived, every operation returns.
  \<^item> \<open>Gesture_Runtime\<close>: \<^verbatim>\<open>backend/gesture_runtime.py\<close>. The run loop is a step relation (a session starts or fails, reports
    arrive, the session ends, the task is cancelled). Shown: the status is consistent, descriptors are neither leaked nor
    closed twice, chords arrive complete and release every key.
  \<^item> \<open>Adapter\<close>, \<open>Adapter_Power\<close>, \<open>Honor_Port\<close>, \<open>Adapter_Safety\<close>, \<open>Adapter_Results\<close>: \<open>HonorToolsAdapter\<close> of \<^verbatim>\<open>backend/hardware.py\<close>. The
    object is the record \<open>adapter\<close> above the world; local variables that an exception handler reads are a further layer
    (\<open>under\<close>, \<open>with_local\<close>). \<open>honor_port\<close> is the adapter as a port. Shown: it keeps the contracts on which the safety of the service
    rests, unlisted hardware is not driven, thresholds never cross, power profiles are verified or rolled back.

  \<^item> \<open>Touchpad_Profile\<close>, \<open>Honorctl\<close>, \<open>Touchpad_Cli\<close>: the command line tools \<^verbatim>\<open>cli/honorctl.py\<close> and \<^verbatim>\<open>cli/touchpadctl.py\<close>. A command of
    the first is a program on a shell (the world behind the client and what was printed), of the second a program on the
    operating system. Shown: exit codes are documented and tell the truth about the service, a failed profile rolls back.
  \<^item> \<open>Desktop\<close>: \<^verbatim>\<open>frontend/gui/state.py\<close> and \<^verbatim>\<open>frontend/gui/controller.py\<close> as a step relation of the main and the worker thread. Shown:
    operations are not duplicated, pending means in flight (or cancelled before its start), snapshots only get newer.
  \<^item> \<open>Curve_Editor\<close>: \<^verbatim>\<open>frontend/gui/fan_curve_editor.py\<close> and the curve of \<^verbatim>\<open>frontend/gui/pages/fan.py\<close>. Shown: edits keep a curve valid.

  \<^bold>\<open>Interfaces.\<close> \<open>frame_invariant\<close>, \<open>service_invariant\<close> and \<open>lifecycle_invariant\<close> say which predicates every action keeps; they
  are interpreted on the invariants of the components, of the supervisor and on the flags of the life cycle.
  \<open>observing_port\<close>, \<open>fan_port\<close>, \<open>quiet_env\<close> and \<open>fan_env\<close> state what a port and an environment promise (reads change nothing that
  is controlled, a confirmed return to the firmware is true) and are interpreted on \<open>FakeHardware\<close>. \<open>gatekeeper\<close> is the
  contract of an authoriser, interpreted on the polkit check; \<open>restore_frame\<close> is what stopping leaves alone.
  \<open>visible_files\<close>, \<open>hidraw\<close>, \<open>hidraw_clock\<close>, \<open>fd_table\<close> and \<open>uinput_device\<close> are what device code relies on of the kernel (looking
  changes no file, a write that returns n has delivered n bytes, the clock advances, opened descriptors are new) and are
  interpreted on the simulated machine. \<open>machine_reads\<close>, \<open>known_platforms\<close>, \<open>fan_machine\<close>, \<open>listed_machine\<close> and \<open>recorded_files\<close> are what the
  adapter relies on of the machine and of honor-tools; \<open>sublocale\<close> derives \<open>observing_port\<close> and \<open>fan_port\<close> for \<open>honor_port\<close> from them.

  \<^bold>\<open>Bounds and fuel.\<close> No function needs fuel: recursion is structural or has a termination proof; the retry loops of device
  code are \<open>io_repeat\<close>, an option-valued partial function whose missing value is \<open>Hang\<close>, and are proved to return. Times are whole
  microseconds. A controller's life is a
  sequence of iterations of any length (\<open>service_reachable\<close>); the watchdog runs over the readings of its clock; the client's
  refresh runs over its attempts, four at most as in the code. Integers are unbounded as in Python; bytes of firmware
  reports are below 256 by their encoders.

  \<^bold>\<open>Parameters.\<close> Code outside the repository enters as an argument with its documented behaviour as hypothesis: \<open>tomllib\<close>
  (reading inverts what was written), the operating system, the honor-tools package (a zero answer to its automatic fan command means that the firmware has the fan), polkit and the bus daemon, \<open>sdbus\<close>, the clock, \<open>isoformat\<close> and \<open>fromisoformat\<close>,
  \<open>str\<close> of floats and containers, the file system and processes of transition hooks, and the journal.

  \<^bold>\<open>Not modelled.\<close> The bus connection, object export, signal handlers and argument parsing of \<^verbatim>\<open>backend/service.py\<close>;
  argument parsing of the command line tools and the text of JSON documents; the rest of the Qt frontend and the tray, which are
  layout around the client.
\<close>

end
